(* ===== verification/Prelude.thy ===== *)
theory Prelude
  imports Main "HOL-Library.Word" "HOL-Library.Finite_Map" "HOL-Library.State_Monad"
    "HOL-Library.Sublist" "HOL-Library.Char_ord" "HOL-Library.List_Lexorder"
begin

text \<open>
  What the components share: the parts of Go and of its standard library that the driver uses
  (byte strings, 64-bit integers, decimal conversions, string-keyed maps), the state monad in
  which every handler is written, its weakest-precondition calculus, and the vocabulary for
  statements about the order of the calls a handler makes.

  Go's \<^verbatim>\<open>string\<close> is a byte sequence and \<^typ>\<open>string\<close> a list of 8-bit characters, so
  \<^const>\<open>length\<close> is Go's \<^verbatim>\<open>len\<close> and slicing is \<^const>\<open>take\<close> and \<^const>\<open>drop\<close>. A Go map is a finite
  map; a read of a missing key gives the zero value (\<open>mget\<close>), also on a nil map, and
  nil and empty maps are told apart only where the code tests for nil and the two differ.
\<close>

named_theorems wp_rules \<open>weakest-precondition equations for the structure of handlers\<close>
named_theorems go_simps \<open>facts on Go strings, integers and maps\<close>

section \<open>Maps\<close>

type_synonym smap = "(string, string) fmap"

definition mget :: "('k, string) fmap \<Rightarrow> 'k \<Rightarrow> string" where
  "mget m k = (case fmlookup m k of None \<Rightarrow> [] | Some v \<Rightarrow> v)"

lemma mget_upd [simp]: "mget (fmupd k v m) k' = (if k = k' then v else mget m k')"
  by (simp add: mget_def)

lemma mget_empty [simp]: "mget fmempty k = []"
  by (simp add: mget_def)

lemma mget_add: "mget (m ++\<^sub>f n) k = (case fmlookup n k of None \<Rightarrow> mget m k | Some v \<Rightarrow> v)"
  by (simp add: mget_def fmlookup_dom_iff split: option.split)

lemma mget_nonempty: "mget m k \<noteq> [] \<Longrightarrow> fmlookup m k = Some (mget m k)"
  by (simp add: mget_def split: option.splits)

section \<open>Strings\<close>

text \<open>\<^verbatim>\<open>strings.Contains\<close> and the driver's two loops over it (\<^verbatim>\<open>containsAny\<close>, \<^verbatim>\<open>contains\<close>).\<close>

definition str_contains :: "string \<Rightarrow> string \<Rightarrow> bool" where
  "str_contains s sub = sublist sub s"

text \<open>\<^verbatim>\<open>strings.Index\<close> and \<^verbatim>\<open>strings.LastIndex\<close> for a one-byte pattern; \<^const>\<open>None\<close> stands for -1.\<close>

fun str_index :: "char \<Rightarrow> string \<Rightarrow> nat option" where
  "str_index c [] = None"
| "str_index c (x # xs) = (if x = c then Some 0 else map_option Suc (str_index c xs))"

fun str_last_index :: "char \<Rightarrow> string \<Rightarrow> nat option" where
  "str_last_index c [] = None"
| "str_last_index c (x # xs) =
     (case str_last_index c xs of
        Some i \<Rightarrow> Some (Suc i)
      | None \<Rightarrow> if x = c then Some 0 else None)"

lemma str_index_None [simp]: "str_index c s = None \<longleftrightarrow> c \<notin> set s"
  by (induction s) auto

lemma str_index_append: "c \<notin> set p \<Longrightarrow> str_index c (p @ c # q) = Some (length p)"
  by (induction p) auto

lemma str_index_Some:
  "str_index c s = Some i \<Longrightarrow> i < length s \<and> s = take i s @ c # drop (Suc i) s \<and> c \<notin> set (take i s)"
  by (induction s arbitrary: i) (auto split: if_splits)

lemma str_last_index_None [simp]: "str_last_index c s = None \<longleftrightarrow> c \<notin> set s"
  by (induction s) (auto split: option.splits)

lemma str_last_index_append: "c \<notin> set q \<Longrightarrow> str_last_index c (p @ c # q) = Some (length p)"
  by (induction p) (auto split: option.splits)

lemma str_last_index_Some:
  "str_last_index c s = Some i \<Longrightarrow>
     i < length s \<and> s = take i s @ c # drop (Suc i) s \<and> c \<notin> set (drop (Suc i) s)"
proof (induction s arbitrary: i)
  case (Cons x xs)
  then show ?case
    by (cases "str_last_index c xs") (auto split: if_splits)
qed simp

text \<open>\<^verbatim>\<open>strings.ToLower\<close> on ASCII letters; other bytes are left alone.\<close>

definition to_lower_char :: "char \<Rightarrow> char" where
  "to_lower_char c =
     (if CHR ''A'' \<le> c \<and> c \<le> CHR ''Z'' then char_of (of_char c + 32 :: nat) else c)"

definition to_lower :: "string \<Rightarrow> string" where
  "to_lower = map to_lower_char"

text \<open>\<^verbatim>\<open>strings.EqualFold\<close> against an ASCII literal.\<close>

definition equal_fold :: "string \<Rightarrow> string \<Rightarrow> bool" where
  "equal_fold s t = (to_lower s = to_lower t)"

text \<open>\<^verbatim>\<open>strings.TrimLeft\<close>, \<^verbatim>\<open>strings.TrimRight\<close> and \<^verbatim>\<open>strings.Trim\<close> with a cutset.\<close>

definition trim_left :: "string \<Rightarrow> string \<Rightarrow> string" where
  "trim_left s cutset = dropWhile (\<lambda>c. c \<in> set cutset) s"

definition trim_right :: "string \<Rightarrow> string \<Rightarrow> string" where
  "trim_right s cutset = rev (dropWhile (\<lambda>c. c \<in> set cutset) (rev s))"

definition trim :: "string \<Rightarrow> string \<Rightarrow> string" where
  "trim s cutset = trim_right (trim_left s cutset) cutset"

lemma set_trim_left: "set (trim_left s cs) \<subseteq> set s"
  by (auto simp: trim_left_def dest: set_dropWhileD)

lemma set_trim_right: "set (trim_right s cs) \<subseteq> set s"
  by (auto simp: trim_right_def dest: set_dropWhileD)

lemma set_trim: "set (trim s cs) \<subseteq> set s"
  unfolding trim_def using set_trim_left set_trim_right by blast

lemma prefix_trim_right: "\<exists>t. s = trim_right s cs @ t"
proof -
  have "rev s = takeWhile (\<lambda>c. c \<in> set cs) (rev s) @ dropWhile (\<lambda>c. c \<in> set cs) (rev s)"
    by simp
  then have "s = trim_right s cs @ rev (takeWhile (\<lambda>c. c \<in> set cs) (rev s))"
    unfolding trim_right_def by (metis rev_append rev_rev_ident)
  then show ?thesis ..
qed

lemma length_trim_right: "length (trim_right s cs) \<le> length s"
  using prefix_trim_right [of s cs] by (metis le_add1 length_append)

lemma hd_trim_right: "trim_right s cs \<noteq> [] \<Longrightarrow> hd (trim_right s cs) = hd s"
  using prefix_trim_right [of s cs] by (metis hd_append2)

lemma last_trim_right: "trim_right s cs \<noteq> [] \<Longrightarrow> last (trim_right s cs) \<notin> set cs"
  unfolding trim_right_def by (metis hd_dropWhile last_rev rev.simps(1))

lemma hd_trim_left: "trim_left s cs \<noteq> [] \<Longrightarrow> hd (trim_left s cs) \<notin> set cs"
  unfolding trim_left_def by (rule hd_dropWhile)

text \<open>\<^verbatim>\<open>strings.Split\<close> on a one-byte separator: always at least one part.\<close>

fun str_split :: "char \<Rightarrow> string \<Rightarrow> string list" where
  "str_split c [] = [[]]"
| "str_split c (x # xs) =
     (if x = c then [] # str_split c xs
      else case str_split c xs of
             [] \<Rightarrow> [[x]]
           | p # ps \<Rightarrow> (x # p) # ps)"

lemma str_split_nonempty [simp]: "str_split c s \<noteq> []"
  by (induction s) (auto split: list.splits)

text \<open>White space in \<^verbatim>\<open>strings.TrimSpace\<close> and the scanners of \<^verbatim>\<open>fmt\<close> (ASCII).\<close>

definition white :: "char \<Rightarrow> bool" where
  "white c \<longleftrightarrow> c \<in> set [CHR '' '', CHR 0x09, CHR 0x0A, CHR 0x0B, CHR 0x0C, CHR 0x0D]"

definition trim_space :: "string \<Rightarrow> string" where
  "trim_space s = rev (dropWhile white (rev (dropWhile white s)))"

section \<open>64-bit integers\<close>

text \<open>
  Go's \<^verbatim>\<open>uint64\<close> is \<open>64 word\<close>. Go's \<^verbatim>\<open>int64\<close> (and \<^verbatim>\<open>int\<close> on the driver's 64-bit targets) is an
  \<^typ>\<open>int\<close> in the range \<open>int64\<close>, and each operation wraps to it; division truncates towards zero.
\<close>

type_synonym uint64 = "64 word"
type_synonym uint32 = "32 word"

definition int64 :: "int \<Rightarrow> bool" where
  "int64 x \<longleftrightarrow> - (2 ^ 63) \<le> x \<and> x < 2 ^ 63"

definition wrap64 :: "int \<Rightarrow> int" where
  "wrap64 x = (x + 2 ^ 63) mod 2 ^ 64 - 2 ^ 63"

lemma int64_wrap64 [simp]: "int64 (wrap64 x)"
  by (simp add: int64_def wrap64_def)

lemma wrap64_id [simp]: "int64 x \<Longrightarrow> wrap64 x = x"
  by (simp add: int64_def wrap64_def)

definition add64 :: "int \<Rightarrow> int \<Rightarrow> int" where
  "add64 a b = wrap64 (a + b)"

definition sub64 :: "int \<Rightarrow> int \<Rightarrow> int" where
  "sub64 a b = wrap64 (a - b)"

definition mul64 :: "int \<Rightarrow> int \<Rightarrow> int" where
  "mul64 a b = wrap64 (a * b)"

definition quot64 :: "int \<Rightarrow> int \<Rightarrow> int" where
  "quot64 a b = wrap64 (sgn a * sgn b * (\<bar>a\<bar> div \<bar>b\<bar>))"

text \<open>Conversions \<^verbatim>\<open>int64(u)\<close> and \<^verbatim>\<open>uint64(i)\<close>.\<close>

definition to_int64 :: "uint64 \<Rightarrow> int" where
  "to_int64 u = wrap64 (uint u)"

definition to_uint64 :: "int \<Rightarrow> uint64" where
  "to_uint64 i = word_of_int i"

lemma to_int64_small: "uint u < 2 ^ 63 \<Longrightarrow> to_int64 u = uint u"
  by (simp add: to_int64_def int64_def wrap64_def)

lemma uint_to_uint64: "0 \<le> i \<Longrightarrow> int64 i \<Longrightarrow> uint (to_uint64 i) = i"
  by (simp add: to_uint64_def int64_def uint_word_of_int take_bit_eq_mod)

section \<open>Decimal conversions\<close>

definition digit_char :: "nat \<Rightarrow> char" where
  "digit_char d = char_of (48 + d)"

fun format_nat :: "nat \<Rightarrow> string" where
  "format_nat n = (if n < 10 then [digit_char n] else format_nat (n div 10) @ [digit_char (n mod 10)])"

declare format_nat.simps [simp del]

text \<open>\<^verbatim>\<open>strconv.FormatInt(i, 10)\<close>, \<^verbatim>\<open>strconv.Itoa\<close> and \<^verbatim>\<open>strconv.FormatUint(u, 10)\<close>.\<close>

definition format_int :: "int \<Rightarrow> string" where
  "format_int i = (if i < 0 then CHR ''-'' # format_nat (nat (- i)) else format_nat (nat i))"

definition is_digit :: "char \<Rightarrow> bool" where
  "is_digit c \<longleftrightarrow> CHR ''0'' \<le> c \<and> c \<le> CHR ''9''"

definition digit_value :: "char \<Rightarrow> nat" where
  "digit_value c = of_char c - 48"

definition digits_value :: "string \<Rightarrow> nat" where
  "digits_value s = foldl (\<lambda>n c. 10 * n + digit_value c) 0 s"

text \<open>\<^verbatim>\<open>strconv.ParseUint(s, 10, bits)\<close>: digits only, at least one, in range.\<close>

definition parse_uint :: "nat \<Rightarrow> string \<Rightarrow> nat option" where
  "parse_uint bits s =
     (if s = [] \<or> \<not> list_all is_digit s then None
      else if int (digits_value s) < 2 ^ bits then Some (digits_value s) else None)"

text \<open>\<^verbatim>\<open>strconv.Atoi\<close> and \<^verbatim>\<open>strconv.ParseInt(s, 10, 64)\<close>: an optional sign, digits, 64-bit range.\<close>

definition atoi :: "string \<Rightarrow> int option" where
  "atoi s =
     (case s of
        [] \<Rightarrow> None
      | c # ds \<Rightarrow>
          (let neg = (c = CHR ''-''); body = (if c = CHR ''-'' \<or> c = CHR ''+'' then ds else s)
           in if body = [] \<or> \<not> list_all is_digit body then None
              else (let v = (if neg then - int (digits_value body) else int (digits_value body))
                    in if int64 v then Some v else None)))"

lemma is_digit_digit_char: "d < 10 \<Longrightarrow> is_digit (digit_char d)"
  by (simp add: is_digit_def digit_char_def less_eq_char_def)

lemma digit_value_digit_char: "d < 10 \<Longrightarrow> digit_value (digit_char d) = d"
  by (simp add: digit_value_def digit_char_def)

lemma digits_value_snoc: "digits_value (s @ [c]) = 10 * digits_value s + digit_value c"
  by (simp add: digits_value_def)

lemma format_nat_nonempty: "format_nat n \<noteq> []"
  by (subst format_nat.simps) simp

lemma format_nat_digits: "list_all is_digit (format_nat n)"
proof (induction n rule: format_nat.induct)
  case (1 n)
  then show ?case
    by (subst format_nat.simps) (auto simp: is_digit_digit_char)
qed

lemma digits_value_format_nat: "digits_value (format_nat n) = n"
proof (induction n rule: format_nat.induct)
  case (1 n)
  show ?case
  proof (cases "n < 10")
    case True
    then show ?thesis
      by (subst format_nat.simps) (simp add: digits_value_def digit_value_digit_char)
  next
    case False
    with 1 have "digits_value (format_nat (n div 10)) = n div 10" by simp
    with False show ?thesis
      by (subst format_nat.simps) (simp add: digits_value_snoc digit_value_digit_char)
  qed
qed

lemma parse_uint_format: "n < 2 ^ bits \<Longrightarrow> parse_uint bits (format_nat n) = Some n"
  using of_nat_less_iff [where 'a = int, of n "2 ^ bits"]
  by (simp add: parse_uint_def format_nat_nonempty format_nat_digits digits_value_format_nat)

lemma not_digit_sign [simp]: "\<not> is_digit CHR ''-''" "\<not> is_digit CHR ''+''"
  by (simp_all add: is_digit_def less_eq_char_def)

lemma atoi_format: "int64 i \<Longrightarrow> atoi (format_int i) = Some i"
proof (cases "i < 0")
  case True
  assume "int64 i"
  with True show ?thesis
    by (simp add: atoi_def format_int_def format_nat_nonempty format_nat_digits
        digits_value_format_nat Let_def)
next
  case False
  assume i: "int64 i"
  obtain c ds where cds: "format_nat (nat i) = c # ds"
    using format_nat_nonempty by (metis neq_Nil_conv)
  have "is_digit c" using format_nat_digits [of "nat i"] cds by simp
  then have "c \<noteq> CHR ''-''" "c \<noteq> CHR ''+''" by auto
  moreover have "list_all is_digit (c # ds)" "digits_value (c # ds) = nat i"
    using format_nat_digits [of "nat i"] digits_value_format_nat [of "nat i"] cds by simp_all
  ultimately show ?thesis
    using False i by (simp add: atoi_def format_int_def cds Let_def)
qed

section \<open>Errors\<close>

text \<open>
  A Go \<^verbatim>\<open>error\<close> as the driver can observe it: its text (\<^verbatim>\<open>Error()\<close>), the sentinels its chain wraps
  (\<^verbatim>\<open>errors.Is\<close>) and whether the chain holds a \<^verbatim>\<open>net.Error\<close> whose \<^verbatim>\<open>Timeout()\<close> is true.
\<close>

datatype sentinel =
    ErrUncertainOutcome | ErrDatasetNotFound
  | ECONNREFUSED | ECONNRESET | EPIPE | ENETUNREACH | EHOSTUNREACH | ETIMEDOUT
  | EOF | ErrUnexpectedEOF | NetErrClosed

record go_error =
  err_text :: string
  err_chain :: "sentinel list"
  err_net_timeout :: bool

definition errors_Is :: "go_error \<Rightarrow> sentinel \<Rightarrow> bool" where
  "errors_Is e t \<longleftrightarrow> t \<in> set (err_chain e)"

text \<open>
  The gRPC status codes the services answer with, and \<open>NilDeref\<close> for the run-time panic of a
  nil dereference. Status messages are for people: no code branches on them.
\<close>

datatype code =
    InvalidArgument | NotFound | AlreadyExists | FailedPrecondition | Aborted | OutOfRange
  | Internal | Unavailable | ResourceExhausted | Unimplemented | StatusCanceled | StatusDeadlineExceeded

datatype failure = Status code | NilDeref

section \<open>The handlers' monad\<close>

text \<open>
  A handler is a state transformer: it reads and writes the controller's memory and calls the
  environment. Go's \<^verbatim>\<open>x, err := f()\<close> is a bind of a result of sum type followed by a case
  distinction, in the order of the code.
\<close>

abbreviation ret :: "'a \<Rightarrow> ('s, 'a) state" where
  "ret \<equiv> State_Monad.return"

definition wp :: "('s, 'a) state \<Rightarrow> ('a \<Rightarrow> 's \<Rightarrow> bool) \<Rightarrow> 's \<Rightarrow> bool" where
  "wp m Q s = (case run_state m s of (r, s') \<Rightarrow> Q r s')"

lemma wp_return [wp_rules]: "wp (ret x) Q s = Q x s"
  by (simp add: wp_def)

lemma wp_bind [wp_rules]: "wp (State_Monad.bind m f) Q s = wp m (\<lambda>x. wp (f x) Q) s"
  by (simp add: wp_def split: prod.split)

lemma wp_if [wp_rules]: "wp (if b then m else n) Q s = (if b then wp m Q s else wp n Q s)"
  by simp

lemma wp_case_sum [wp_rules]:
  "wp (case x of Inl a \<Rightarrow> f a | Inr b \<Rightarrow> g b) Q s =
     (case x of Inl a \<Rightarrow> wp (f a) Q s | Inr b \<Rightarrow> wp (g b) Q s)"
  by (simp split: sum.split)

lemma wp_case_option [wp_rules]:
  "wp (case x of None \<Rightarrow> f | Some b \<Rightarrow> g b) Q s =
     (case x of None \<Rightarrow> wp f Q s | Some b \<Rightarrow> wp (g b) Q s)"
  by (simp split: option.split)

lemma wp_case_prod [wp_rules]:
  "wp (case x of (a, b) \<Rightarrow> f a b) Q s = (case x of (a, b) \<Rightarrow> wp (f a b) Q s)"
  by (simp split: prod.split)

lemma wp_case_list [wp_rules]:
  "wp (case x of [] \<Rightarrow> f | a # b \<Rightarrow> g a b) Q s =
     (case x of [] \<Rightarrow> wp f Q s | a # b \<Rightarrow> wp (g a b) Q s)"
  by (simp split: list.split)

lemma wp_let [wp_rules]: "wp (Let x f) Q s = (let y = x in wp (f y) Q s)"
  by simp

lemma wp_mono: "wp m Q s \<Longrightarrow> (\<And>r s'. Q r s' \<Longrightarrow> R r s') \<Longrightarrow> wp m R s"
  by (auto simp: wp_def split: prod.splits)

lemma wp_conj: "wp m Q s \<Longrightarrow> wp m R s \<Longrightarrow> wp m (\<lambda>r s'. Q r s' \<and> R r s') s"
  by (auto simp: wp_def split: prod.splits)

lemma wp_run: "wp m Q s \<Longrightarrow> run_state m s = (r, s') \<Longrightarrow> Q r s'"
  by (simp add: wp_def)

lemma run_caseI: "wp m Q s \<Longrightarrow> case run_state m s of (r, s') \<Rightarrow> Q r s'"
  by (simp add: wp_def)

lemma run_wp: "(\<And>r s'. run_state m s = (r, s') \<Longrightarrow> Q r s') \<Longrightarrow> wp m Q s"
  by (simp add: wp_def split: prod.split)

section \<open>Statements about the order of events\<close>

text \<open>
  \<open>each_after P tr\<close>: every event of the trace satisfies \<open>P\<close> relative to the events before it.
\<close>

definition each_after :: "('e list \<Rightarrow> 'e \<Rightarrow> bool) \<Rightarrow> 'e list \<Rightarrow> bool" where
  "each_after P tr \<longleftrightarrow> (\<forall>i < length tr. P (take i tr) (tr ! i))"

lemma each_after_Nil [simp]: "each_after P []"
  by (simp add: each_after_def)

lemma each_after_snoc [simp]: "each_after P (tr @ [e]) \<longleftrightarrow> each_after P tr \<and> P tr e"
  by (auto simp: each_after_def nth_append less_Suc_eq)

lemma each_after_split: "each_after P (xs @ e # ys) \<Longrightarrow> P xs e"
  unfolding each_after_def by (drule spec [of _ "length xs"]) simp

lemma each_after_Cons_head:
  assumes "P [] e" "\<And>past x. x \<in> set rest \<Longrightarrow> e \<in> set past \<Longrightarrow> P past x"
  shows "each_after P (e # rest)"
  unfolding each_after_def
proof (intro allI impI)
  fix i assume "i < length (e # rest)"
  with assms show "P (take i (e # rest)) ((e # rest) ! i)" by (cases i) auto
qed

end
