(* ===== verification/Retry.thy ===== *)
theory Retry
  imports Prelude
begin

text \<open>
  The retry package (\<^verbatim>\<open>src/pkg/retry/retry.go\<close>): the bounded retry loop, its two configurations
  and the classification of errors. The loop is generic in the state it runs on; the context and
  the timer are operations of that state, so a statement about the loop covers every behaviour of
  both. Durations are \<^verbatim>\<open>int64\<close> nanoseconds. \<^verbatim>\<open>BackoffMultiplier\<close> is a rational: the code's
  \<^verbatim>\<open>float64\<close> product is exact for the products of the driver's configurations, which stay below
  \<open>2 ^ 53\<close>. Log lines are not modelled.
\<close>

section \<open>Configuration\<close>

record 'e config =
  MaxAttempts :: int
  InitialBackoff :: int
  MaxBackoff :: int
  BackoffMultiplier :: rat
  RetryableFunc :: "('e \<Rightarrow> bool) option"
  OperationName :: string

definition Second :: int where
  "Second = 1000000000"

definition defaultOperationName :: string where
  "defaultOperationName = ''operation''"

definition DefaultConfig :: "'e config" where
  "DefaultConfig =
     \<lparr>MaxAttempts = 3, InitialBackoff = 1 * Second, MaxBackoff = 30 * Second,
      BackoffMultiplier = 2, RetryableFunc = None, OperationName = defaultOperationName\<rparr>"

text \<open>The defaults \<^verbatim>\<open>WithRetry\<close> fills in before its loop.\<close>

definition applyDefaults :: "'e config \<Rightarrow> 'e config" where
  "applyDefaults c =
     c\<lparr>MaxAttempts := (if MaxAttempts c \<le> 0 then 3 else MaxAttempts c),
       InitialBackoff := (if InitialBackoff c \<le> 0 then 1 * Second else InitialBackoff c),
       MaxBackoff := (if MaxBackoff c \<le> 0 then 30 * Second else MaxBackoff c),
       BackoffMultiplier := (if BackoffMultiplier c \<le> 0 then 2 else BackoffMultiplier c),
       OperationName := (if OperationName c = [] then defaultOperationName else OperationName c)\<rparr>"

definition nextBackoff :: "'e config \<Rightarrow> int \<Rightarrow> int" where
  "nextBackoff c backoff =
     (let b = wrap64 \<lfloor>of_int backoff * BackoffMultiplier c\<rfloor>
      in if b > MaxBackoff c then MaxBackoff c else b)"

section \<open>The loop\<close>

datatype ctx_error = Canceled | DeadlineExceeded

datatype 'e retry_error =
    CtxError ctx_error
  | FnError 'e
  | MaxRetriesExceeded int "'e option"

text \<open>
  \<open>ctx_Err\<close> is \<^verbatim>\<open>ctx.Err()\<close>; \<open>select_after d\<close> is the \<^verbatim>\<open>select\<close> on \<^verbatim>\<open>time.After(d)\<close> and \<^verbatim>\<open>ctx.Done()\<close>:
  \<^const>\<open>None\<close> when the timer fired first. \<open>is_uncertain\<close> is \<^verbatim>\<open>errors.Is(err, ErrUncertainOutcome)\<close>.
\<close>

record ('s, 'e) retry_env =
  ctx_Err :: "('s, ctx_error option) state"
  select_after :: "int \<Rightarrow> ('s, ctx_error option) state"
  is_uncertain :: "'e \<Rightarrow> bool"

definition gives_up :: "('s, 'e) retry_env \<Rightarrow> 'e config \<Rightarrow> 'e \<Rightarrow> bool" where
  "gives_up env c err \<longleftrightarrow>
     is_uncertain env err \<or> (case RetryableFunc c of None \<Rightarrow> False | Some f \<Rightarrow> \<not> f err)"

fun retryLoop ::
  "('s, 'e) retry_env \<Rightarrow> 'e config \<Rightarrow> ('s, 'e + 'a) state \<Rightarrow> nat \<Rightarrow> int \<Rightarrow> int \<Rightarrow> 'e option \<Rightarrow>
     ('s, 'e retry_error + 'a) state"
where
  "retryLoop env c fn 0 attempt backoff lastErr =
     ret (Inl (MaxRetriesExceeded (MaxAttempts c) lastErr))"
| "retryLoop env c fn (Suc n) attempt backoff lastErr = do {
     cerr \<leftarrow> ctx_Err env;
     case cerr of
       Some e \<Rightarrow> ret (Inl (CtxError e))
     | None \<Rightarrow> do {
         r \<leftarrow> fn;
         case r of
           Inr x \<Rightarrow> ret (Inr x)
         | Inl err \<Rightarrow>
             if gives_up env c err then ret (Inl (FnError err))
             else if attempt < MaxAttempts c then do {
               done \<leftarrow> select_after env backoff;
               case done of
                 Some e \<Rightarrow> ret (Inl (CtxError e))
               | None \<Rightarrow> retryLoop env c fn n (attempt + 1) (nextBackoff c backoff) (Some err)
             }
             else retryLoop env c fn n (attempt + 1) backoff (Some err)
       }
   }"

text \<open>
  The loop variable runs from 1 to \<^verbatim>\<open>config.MaxAttempts\<close>; the third argument of \<open>retryLoop\<close> is the
  number of iterations that are left, so the recursion is structural.
\<close>

definition WithRetry ::
  "('s, 'e) retry_env \<Rightarrow> 'e config \<Rightarrow> ('s, 'e + 'a) state \<Rightarrow> ('s, 'e retry_error + 'a) state"
where
  "WithRetry env config fn =
     (let c = applyDefaults config
      in retryLoop env c fn (nat (MaxAttempts c)) 1 (InitialBackoff c) None)"

definition WithRetryNoResult ::
  "('s, 'e) retry_env \<Rightarrow> 'e config \<Rightarrow> ('s, 'e option) state \<Rightarrow> ('s, 'e retry_error option) state"
where
  "WithRetryNoResult env config fn = do {
     r \<leftarrow> WithRetry env config (do {
       err \<leftarrow> fn;
       ret (case err of None \<Rightarrow> Inr () | Some e \<Rightarrow> Inl e)
     });
     ret (case r of Inr _ \<Rightarrow> None | Inl e \<Rightarrow> Some e)
   }"

section \<open>Classification of errors\<close>

definition contains_any :: "string \<Rightarrow> string list \<Rightarrow> bool" where
  "contains_any s substrings = list_ex (str_contains s) substrings"

definition IsRetryableNetworkError :: "go_error option \<Rightarrow> bool" where
  "IsRetryableNetworkError err =
     (case err of
        None \<Rightarrow> False
      | Some e \<Rightarrow>
          if err_net_timeout e then True
          else if errors_Is e ECONNREFUSED \<or> errors_Is e ECONNRESET \<or> errors_Is e EPIPE \<or>
            errors_Is e ENETUNREACH \<or> errors_Is e EHOSTUNREACH \<or> errors_Is e ETIMEDOUT then True
          else if errors_Is e EOF \<or> errors_Is e ErrUnexpectedEOF then True
          else if errors_Is e NetErrClosed then True
          else contains_any (err_text e)
            [''connection refused'', ''connection reset'', ''broken pipe'', ''i/o timeout'',
             ''network is unreachable'', ''no route to host'', ''connection timed out'', ''EOF'',
             ''use of closed network connection''])"

definition IsRetryableAPIError :: "go_error option \<Rightarrow> bool" where
  "IsRetryableAPIError err =
     (case err of
        None \<Rightarrow> False
      | Some e \<Rightarrow> contains_any (err_text e)
          [''500'', ''502'', ''503'', ''504'', ''busy'', ''temporarily unavailable'', ''try again''])"

definition IsRetryableError :: "go_error option \<Rightarrow> bool" where
  "IsRetryableError err \<longleftrightarrow> IsRetryableNetworkError err \<or> IsRetryableAPIError err"

definition IsBusyResourceError :: "go_error option \<Rightarrow> bool" where
  "IsBusyResourceError err =
     (case err of
        None \<Rightarrow> False
      | Some e \<Rightarrow> contains_any (err_text e)
          [''subvolume is busy'', ''target is busy'', ''resource busy'', ''EBUSY'',
           ''Device or resource busy'', ''filesystem is busy''])"

definition IsRetryableDeletionError :: "go_error option \<Rightarrow> bool" where
  "IsRetryableDeletionError err \<longleftrightarrow> IsBusyResourceError err \<or> IsRetryableError err"

definition DeletionConfig :: "string \<Rightarrow> go_error config" where
  "DeletionConfig operationName =
     \<lparr>MaxAttempts = 12, InitialBackoff = 5 * Second, MaxBackoff = 5 * Second,
      BackoffMultiplier = 1, RetryableFunc = Some (\<lambda>e. IsRetryableDeletionError (Some e)),
      OperationName = operationName\<rparr>"

section \<open>A proof rule for the loop\<close>

text \<open>
  An invariant that the context checks, the waits and the failed attempts keep; each attempt may
  also end the loop.
\<close>

lemma retryLoop_wp:
  assumes inv: "I s"
    and ctx: "\<And>s. I s \<Longrightarrow> wp (ctx_Err env)
        (\<lambda>r s'. case r of None \<Rightarrow> I s' | Some e \<Rightarrow> Q (Inl (CtxError e)) s') s"
    and fn: "\<And>s. I s \<Longrightarrow> wp fn
        (\<lambda>r s'. case r of
             Inr x \<Rightarrow> Q (Inr x) s'
           | Inl err \<Rightarrow> if gives_up env c err then Q (Inl (FnError err)) s'
               else I s' \<and> Q (Inl (MaxRetriesExceeded (MaxAttempts c) (Some err))) s') s"
    and wait: "\<And>s d. I s \<Longrightarrow> wp (select_after env d)
        (\<lambda>r s'. case r of None \<Rightarrow> I s' | Some e \<Rightarrow> Q (Inl (CtxError e)) s') s"
    and last: "n = 0 \<Longrightarrow> Q (Inl (MaxRetriesExceeded (MaxAttempts c) lastErr)) s"
    and count: "int n = MaxAttempts c - attempt + 1"
  shows "wp (retryLoop env c fn n attempt backoff lastErr) Q s"
  using inv last count
proof (induction n arbitrary: s attempt backoff lastErr)
  case 0
  then show ?case by (simp add: wp_rules)
next
  case (Suc n)
  have step: "wp (retryLoop env c fn n (attempt + 1) b (Some err)) Q s'"
    if "I s'" "n = 0 \<longrightarrow> Q (Inl (MaxRetriesExceeded (MaxAttempts c) (Some err))) s'" for b err s'
    using that Suc.prems(3) by (intro Suc.IH) auto
  have wait_step: "wp (select_after env backoff \<bind> (\<lambda>done. case done of
        None \<Rightarrow> retryLoop env c fn n (attempt + 1) (nextBackoff c backoff) (Some err)
      | Some e \<Rightarrow> ret (Inl (CtxError e)))) Q s'"
    if "I s'" "attempt < MaxAttempts c" for err s'
    unfolding wp_bind using that Suc.prems(3)
    by (intro wp_mono [OF wait [OF that(1)]]) (auto simp: wp_return split: option.splits intro: step)
  have fn_step: "wp (fn \<bind> (\<lambda>r. case r of
        Inl err \<Rightarrow> if gives_up env c err then ret (Inl (FnError err))
          else if attempt < MaxAttempts c then select_after env backoff \<bind> (\<lambda>done. case done of
              None \<Rightarrow> retryLoop env c fn n (attempt + 1) (nextBackoff c backoff) (Some err)
            | Some e \<Rightarrow> ret (Inl (CtxError e)))
          else retryLoop env c fn n (attempt + 1) backoff (Some err)
      | Inr x \<Rightarrow> ret (Inr x))) Q s'"
    if "I s'" for s'
    by (subst wp_bind, rule wp_mono [OF fn [OF that]])
      (auto simp: wp_return split: sum.splits if_splits intro: wait_step step)
  show ?case
    by (subst retryLoop.simps, subst wp_bind, rule wp_mono [OF ctx [OF Suc.prems(1)]])
      (auto simp: wp_return split: option.splits intro: fn_step)
qed

lemma applyDefaults_positive:
  "0 < MaxAttempts (applyDefaults c)" "0 < InitialBackoff (applyDefaults c)"
  "0 < MaxBackoff (applyDefaults c)" "0 < BackoffMultiplier (applyDefaults c)"
  by (simp_all add: applyDefaults_def Second_def)

lemma WithRetry_wp:
  assumes "I s"
    and "\<And>s. I s \<Longrightarrow> wp (ctx_Err env)
        (\<lambda>r s'. case r of None \<Rightarrow> I s' | Some e \<Rightarrow> Q (Inl (CtxError e)) s') s"
    and "\<And>s. I s \<Longrightarrow> wp fn
        (\<lambda>r s'. case r of
             Inr x \<Rightarrow> Q (Inr x) s'
           | Inl err \<Rightarrow> if gives_up env (applyDefaults config) err then Q (Inl (FnError err)) s'
               else I s' \<and> Q (Inl (MaxRetriesExceeded (MaxAttempts (applyDefaults config)) (Some err))) s') s"
    and "\<And>s d. I s \<Longrightarrow> wp (select_after env d)
        (\<lambda>r s'. case r of None \<Rightarrow> I s' | Some e \<Rightarrow> Q (Inl (CtxError e)) s') s"
  shows "wp (WithRetry env config fn) Q s"
  unfolding WithRetry_def Let_def
  using applyDefaults_positive(1) [of config]
  by (intro retryLoop_wp [where I = I]) (use assms in auto)

section \<open>The loop observed\<close>

text \<open>
  To speak about what the loop does, its operations are wrapped so that they also write down each
  attempt with its outcome and each wait with its length.
\<close>

datatype ('e, 'a) retry_event = Attempt "'e + 'a" | Waited int

definition observed :: "('s, 'r) state \<Rightarrow> ('r \<Rightarrow> 'ev list) \<Rightarrow> ('s \<times> 'ev list, 'r) state" where
  "observed m ev = State (\<lambda>(s, tr). case run_state m s of (r, s') \<Rightarrow> (r, (s', tr @ ev r)))"

definition observed_env :: "('s, 'e) retry_env \<Rightarrow> ('s \<times> ('e, 'a) retry_event list, 'e) retry_env" where
  "observed_env env =
     \<lparr>ctx_Err = observed (ctx_Err env) (\<lambda>_. []),
      select_after = (\<lambda>d. observed (select_after env d) (\<lambda>_. [Waited d])),
      is_uncertain = is_uncertain env\<rparr>"

definition observed_fn :: "('s, 'e + 'a) state \<Rightarrow> ('s \<times> ('e, 'a) retry_event list, 'e + 'a) state" where
  "observed_fn fn = observed fn (\<lambda>r. [Attempt r])"

fun attempts :: "('e, 'a) retry_event list \<Rightarrow> ('e + 'a) list" where
  "attempts [] = []"
| "attempts (Attempt r # tr) = r # attempts tr"
| "attempts (Waited d # tr) = attempts tr"

fun waits :: "('e, 'a) retry_event list \<Rightarrow> int list" where
  "waits [] = []"
| "waits (Attempt r # tr) = waits tr"
| "waits (Waited d # tr) = d # waits tr"

lemma attempts_append [simp]: "attempts (xs @ ys) = attempts xs @ attempts ys"
  by (induction xs rule: attempts.induct) auto

lemma waits_append [simp]: "waits (xs @ ys) = waits xs @ waits ys"
  by (induction xs rule: waits.induct) auto

lemma wp_observed: "wp (observed m ev) Q (s, tr) = wp m (\<lambda>r s'. Q r (s', tr @ ev r)) s"
  by (simp add: wp_def observed_def split: prod.split)

lemma wp_any: "(\<And>r s'. Q r s') \<Longrightarrow> wp m Q s"
  by (simp add: wp_def split: prod.split)

lemma wp_observed_ops:
  "wp (ctx_Err (observed_env env)) Q (s, tr) = wp (ctx_Err env) (\<lambda>r s'. Q r (s', tr)) s"
  "wp (select_after (observed_env env) d) Q (s, tr) =
     wp (select_after env d) (\<lambda>r s'. Q r (s', tr @ [Waited d])) s"
  "wp (observed_fn fn) Q' (s, tr) = wp fn (\<lambda>r s'. Q' r (s', tr @ [Attempt r])) s"
  by (simp_all add: observed_env_def observed_fn_def wp_observed)

lemma gives_up_observed [simp]: "gives_up (observed_env env) c = gives_up env c"
  by (simp add: gives_up_def observed_env_def fun_eq_iff)

text \<open>What a finished run may look like, for the attempts \<open>rs\<close> it made.\<close>

definition retry_outcome ::
  "('s, 'e) retry_env \<Rightarrow> 'e config \<Rightarrow> ('e + 'a) list \<Rightarrow> 'e retry_error + 'a \<Rightarrow> bool"
where
  "retry_outcome env c rs r =
     (case r of
        Inr x \<Rightarrow> rs \<noteq> [] \<and> last rs = Inr x
      | Inl (FnError e) \<Rightarrow> rs \<noteq> [] \<and> last rs = Inl e \<and> gives_up env c e
      | Inl (MaxRetriesExceeded n le) \<Rightarrow>
          n = MaxAttempts c \<and> int (length rs) = MaxAttempts c \<and>
          (\<exists>e. le = Some e \<and> last rs = Inl e \<and> \<not> gives_up env c e)
      | Inl (CtxError e) \<Rightarrow> list_all (\<lambda>x. \<exists>err. x = Inl err \<and> \<not> gives_up env c err) rs)"

definition retryable_outcome :: "('s, 'e) retry_env \<Rightarrow> 'e config \<Rightarrow> 'e + 'a \<Rightarrow> bool" where
  "retryable_outcome env c x = (\<exists>err. x = Inl err \<and> \<not> gives_up env c err)"

definition retry_run_ok ::
  "('s, 'e) retry_env \<Rightarrow> 'e config \<Rightarrow> 'e retry_error + 'a \<Rightarrow> ('e, 'a) retry_event list \<Rightarrow> bool"
where
  "retry_run_ok env c r tr \<longleftrightarrow>
     int (length (attempts tr)) \<le> MaxAttempts c \<and>
     list_all (retryable_outcome env c) (butlast (attempts tr)) \<and>
     retry_outcome env c (attempts tr) r \<and>
     int (length (waits tr)) < MaxAttempts c \<and>
     list_all (\<lambda>d. d \<le> max (InitialBackoff c) (MaxBackoff c)) (waits tr)"

lemma nextBackoff_le: "nextBackoff c b \<le> MaxBackoff c"
  by (simp add: nextBackoff_def Let_def)

lemma retryLoop_run_ok:
  assumes "list_all (retryable_outcome env c) (attempts tr)"
    and "lastErr = (if attempts tr = [] then None else Some e) \<and> (attempts tr \<noteq> [] \<longrightarrow> last (attempts tr) = Inl e)"
    and "int n = MaxAttempts c - attempt + 1" "int (length (attempts tr)) = attempt - 1"
    and "int (length (waits tr)) < attempt" "int (length (waits tr)) < MaxAttempts c"
    and "0 < MaxAttempts c"
    and "list_all (\<lambda>d. d \<le> max (InitialBackoff c) (MaxBackoff c)) (waits tr)"
    and "backoff \<le> max (InitialBackoff c) (MaxBackoff c)"
  shows "wp (retryLoop (observed_env env) c (observed_fn fn) n attempt backoff lastErr)
     (\<lambda>r (s', tr'). retry_run_ok env c r tr') (s, tr)"
  using assms
proof (induction n arbitrary: s tr attempt backoff lastErr e)
  case 0
  then have "attempts tr \<noteq> []" by (cases "attempts tr") auto
  then have "retryable_outcome env c (last (attempts tr))"
    using 0(1) by (simp add: list_all_iff)
  with 0 \<open>attempts tr \<noteq> []\<close> show ?case
    by (auto simp: wp_rules retry_run_ok_def retry_outcome_def retryable_outcome_def list_all_iff
        dest: in_set_butlastD)
next
  case (Suc n)
  have next_backoff: "nextBackoff c backoff \<le> max (InitialBackoff c) (MaxBackoff c)"
    using nextBackoff_le [of c backoff] by linarith
  have butlast: "list_all (retryable_outcome env c) (butlast (attempts tr))"
    using Suc.prems(1) by (auto simp: list_all_iff dest: in_set_butlastD)
  have ctx_end: "retry_run_ok env c (Inl (CtxError x)) tr" for x
    using Suc.prems butlast
    by (auto simp: retry_run_ok_def retry_outcome_def retryable_outcome_def [abs_def])
  have fn_end: "retry_run_ok env c (Inl (FnError err)) (tr @ [Attempt (Inl err)])"
    if "gives_up env c err" for err
    using Suc.prems that by (auto simp: retry_run_ok_def retry_outcome_def)
  have ok_end: "retry_run_ok env c (Inr x) (tr @ [Attempt (Inr x)])" for x
    using Suc.prems by (auto simp: retry_run_ok_def retry_outcome_def)
  have wait_end: "retry_run_ok env c (Inl (CtxError x)) (tr @ [Attempt (Inl err), Waited backoff])"
    if "\<not> gives_up env c err" "attempt < MaxAttempts c" for err x
    using Suc.prems that
    by (auto simp: retry_run_ok_def retry_outcome_def retryable_outcome_def [abs_def])
  have wait_next: "wp (retryLoop (observed_env env) c (observed_fn fn) n (attempt + 1)
      (nextBackoff c backoff) (Some err)) (\<lambda>r (s', tr'). retry_run_ok env c r tr')
      (s', tr @ [Attempt (Inl err), Waited backoff])"
    if "\<not> gives_up env c err" "attempt < MaxAttempts c" for err s'
    by (rule Suc.IH [where e = err])
      (use Suc.prems that next_backoff in \<open>auto simp: retryable_outcome_def\<close>)
  have last_next: "wp (retryLoop (observed_env env) c (observed_fn fn) n (attempt + 1) backoff (Some err))
      (\<lambda>r (s', tr'). retry_run_ok env c r tr') (s', tr @ [Attempt (Inl err)])"
    if "\<not> gives_up env c err" "\<not> attempt < MaxAttempts c" for err s'
    by (rule Suc.IH [where e = err]) (use Suc.prems that in \<open>auto simp: retryable_outcome_def\<close>)
  note ends = ctx_end fn_end ok_end wait_end wait_next last_next
  show ?case
    by (simp add: wp_rules)
      (auto simp: wp_rules wp_observed_ops split: option.split sum.split
        intro!: wp_any [where m = "ctx_Err env"] wp_any [where m = fn]
          wp_any [where m = "select_after env d" for d] ends)
qed

lemma WithRetry_run_ok:
  assumes "run_state (WithRetry (observed_env env) config (observed_fn fn)) (s, []) = (r, (s', tr))"
  shows "retry_run_ok env (applyDefaults config) r tr"
proof -
  have "wp (WithRetry (observed_env env) config (observed_fn fn))
      (\<lambda>r (s', tr). retry_run_ok env (applyDefaults config) r tr) (s, [])"
    unfolding WithRetry_def Let_def
    using applyDefaults_positive(1) [of config]
    by (intro retryLoop_run_ok) auto
  from wp_run [OF this assms] show ?thesis by simp
qed

text \<open>
  C17: for every behaviour of the function, of the context and of the timer, \<^verbatim>\<open>WithRetry\<close> makes at
  most \<^verbatim>\<open>MaxAttempts\<close> attempts (after defaults); every attempt but the last failed with an error
  that is retryable and not of uncertain outcome, so a mutation whose outcome was lost is never
  replayed; a success is the last attempt's value; an error that is passed on is the last
  attempt's; \<^verbatim>\<open>ErrMaxRetriesExceeded\<close> is returned only after all attempts; there are fewer waits
  than attempts allowed and none is longer than the larger of the initial and the maximal backoff.
\<close>

theorem WithRetry_run:
  assumes "run_state (WithRetry (observed_env env) config (observed_fn fn)) (s, []) = (r, (s', tr))"
  shows "retry_run_ok env (applyDefaults config) r tr"
  using assms by (rule WithRetry_run_ok)

definition quiet_env :: "('e \<Rightarrow> bool) \<Rightarrow> ('s, 'e) retry_env" where
  "quiet_env unc = \<lparr>ctx_Err = ret None, select_after = (\<lambda>_. ret None), is_uncertain = unc\<rparr>"

theorem WithRetry_run_witness:
  "let fn = State (\<lambda>k::nat. (if k < 2 then Inl ''busy'' else Inr k, Suc k));
       tr = [Attempt (Inl ''busy''), Waited (5 * Second), Attempt (Inl ''busy''), Waited (5 * Second),
             Attempt (Inr (2::nat))];
       config = \<lparr>MaxAttempts = 12, InitialBackoff = 5 * Second, MaxBackoff = 5 * Second,
                 BackoffMultiplier = 1, RetryableFunc = Some (\<lambda>e. e = ''busy''), OperationName = []\<rparr>
   in run_state (WithRetry (observed_env (quiet_env (\<lambda>_. False))) config (observed_fn fn)) (0, []) =
        (Inr 2, (3, tr)) \<and>
      retry_run_ok (quiet_env (\<lambda>_. False) :: (nat, string) retry_env) (applyDefaults config) (Inr (2::nat)) tr"
proof -
  let ?fn = "State (\<lambda>k::nat. (if k < 2 then Inl ''busy'' else Inr k, Suc k))"
  let ?config = "\<lparr>MaxAttempts = 12, InitialBackoff = 5 * Second, MaxBackoff = 5 * Second,
                 BackoffMultiplier = 1, RetryableFunc = Some (\<lambda>e. e = ''busy''), OperationName = []\<rparr>"
  let ?tr = "[Attempt (Inl ''busy''), Waited (5 * Second), Attempt (Inl ''busy''), Waited (5 * Second),
             Attempt (Inr (2::nat))]"
  have "run_state (WithRetry (observed_env (quiet_env (\<lambda>_. False))) ?config (observed_fn ?fn)) (0, []) =
        (Inr 2, (3, ?tr))"
    by (simp add: WithRetry_def applyDefaults_def Let_def observed_env_def observed_fn_def
        observed_def quiet_env_def gives_up_def eval_nat_numeral nextBackoff_def Second_def
        wrap64_def)
  from this WithRetry_run [OF this] show ?thesis by (simp add: Let_def)
qed

lemma retryLoop_success:
  assumes "\<And>i. i < j \<Longrightarrow> \<exists>e. f (k + i) = Inl e \<and> \<not> gives_up (quiet_env unc :: (nat, 'e) retry_env) c e"
    and "f (k + j) = Inr x" and "j < n" and "int n = MaxAttempts c - attempt + 1"
  shows "run_state (retryLoop (quiet_env unc) c (State (\<lambda>k. (f k, Suc k))) n attempt backoff lastErr) k =
     (Inr x, Suc (k + j))"
  using assms
proof (induction n arbitrary: j k attempt backoff lastErr)
  case (Suc n)
  show ?case
  proof (cases j)
    case 0
    with Suc.prems(2) show ?thesis by (simp add: quiet_env_def)
  next
    case j: (Suc j')
    from Suc.prems(1) [of 0] j obtain e where e: "f k = Inl e" "\<not> gives_up (quiet_env unc :: (nat, 'e) retry_env) c e"
      by auto
    have IH: "run_state (retryLoop (quiet_env unc) c (State (\<lambda>k. (f k, Suc k))) n (attempt + 1) b (Some e)) (Suc k) =
       (Inr x, Suc (Suc k + j'))" for b
    proof (rule Suc.IH)
      show "\<exists>e. f (Suc k + i) = Inl e \<and> \<not> gives_up (quiet_env unc :: (nat, 'e) retry_env) c e" if "i < j'" for i
        using Suc.prems(1) [of "Suc i"] that j by simp
    qed (use Suc.prems j in auto)
    from e IH j show ?thesis
      by (simp add: quiet_env_def split: prod.split)
  qed
qed simp

text \<open>
  C18: the loop does come to a result: when the context stays alive and an attempt \<open>j\<close> within the
  limit succeeds after errors that are all worth retrying, \<^verbatim>\<open>WithRetry\<close> returns that attempt's
  value and makes no further call.
\<close>

theorem WithRetry_success:
  assumes "\<And>i. i < j \<Longrightarrow>
      \<exists>e. f i = Inl e \<and> \<not> gives_up (quiet_env unc :: (nat, 'e) retry_env) (applyDefaults config) e"
    and "f j = Inr x" and "int j < MaxAttempts (applyDefaults config)"
  shows "run_state (WithRetry (quiet_env unc) config (State (\<lambda>k. (f k, Suc k)))) 0 = (Inr x, Suc j)"
  unfolding WithRetry_def Let_def
  using retryLoop_success [of j f 0 unc "applyDefaults config" x] assms applyDefaults_positive(1) [of config]
  by simp

theorem WithRetry_success_witness:
  "run_state (WithRetry (quiet_env (\<lambda>_. False)) (DeletionConfig ''delete-nfs-subvolume'')
     (State (\<lambda>k. (if k < 3 then Inl \<lparr>err_text = ''EBUSY'', err_chain = [], err_net_timeout = False\<rparr>
        else Inr (), Suc k)))) 0 = (Inr (), Suc 3)"
proof (rule WithRetry_success)
  show "\<exists>e. (if i < 3 then Inl \<lparr>err_text = ''EBUSY'', err_chain = [], err_net_timeout = False\<rparr> else Inr ()) =
      Inl e \<and> \<not> gives_up (quiet_env (\<lambda>_. False)) (applyDefaults (DeletionConfig ''delete-nfs-subvolume'')) e"
    if "i < 3" for i :: nat
    using that by (simp add: gives_up_def quiet_env_def applyDefaults_def DeletionConfig_def
        IsRetryableDeletionError_def IsBusyResourceError_def contains_any_def str_contains_def)
qed (simp_all add: applyDefaults_def DeletionConfig_def)

lemma nextBackoff_Deletion: "nextBackoff (DeletionConfig op) (5 * Second) = 5 * Second"
  by (simp add: nextBackoff_def DeletionConfig_def Second_def wrap64_def)

lemma applyDefaults_Deletion: "op \<noteq> [] \<Longrightarrow> applyDefaults (DeletionConfig op) = DeletionConfig op"
  by (simp add: applyDefaults_def DeletionConfig_def Second_def)

lemma retryLoop_Deletion_waits:
  assumes "set (waits tr) \<subseteq> {5 * Second}"
  shows "wp (retryLoop (observed_env env) (DeletionConfig op) (observed_fn fn) n attempt (5 * Second) lastErr)
     (\<lambda>r (s', tr'). set (waits tr') \<subseteq> {5 * Second}) (s, tr)"
  using assms
proof (induction n arbitrary: s tr attempt lastErr)
  case 0
  then show ?case by (simp add: wp_rules)
next
  case (Suc n)
  then show ?case
    by (auto simp: wp_rules wp_observed_ops nextBackoff_Deletion split: option.split sum.split
        intro!: wp_any [where m = "ctx_Err env"] wp_any [where m = fn]
          wp_any [where m = "select_after env d" for d] Suc.IH)
qed

text \<open>
  With the deletion configuration the interval is fixed: every wait is five seconds, and there
  are at most twelve attempts with at most eleven waits between them.
\<close>

theorem DeletionConfig_schedule:
  assumes "op \<noteq> []"
    and "run_state (WithRetry (observed_env env) (DeletionConfig op) (observed_fn fn)) (s, []) = (r, (s', tr))"
  shows "length (attempts tr) \<le> 12 \<and> length (waits tr) \<le> 11 \<and> set (waits tr) \<subseteq> {5 * Second}"
proof -
  from WithRetry_run_ok [OF assms(2)]
  have "length (attempts tr) \<le> 12 \<and> length (waits tr) \<le> 11"
    by (simp add: applyDefaults_Deletion [OF assms(1)] retry_run_ok_def) (simp add: DeletionConfig_def)
  moreover have "wp (WithRetry (observed_env env) (DeletionConfig op) (observed_fn fn))
      (\<lambda>r (s', tr). set (waits tr) \<subseteq> {5 * Second}) (s, [])"
  proof -
    have "InitialBackoff (DeletionConfig op) = 5 * Second" by (simp add: DeletionConfig_def)
    then show ?thesis
      by (simp add: WithRetry_def Let_def applyDefaults_Deletion [OF assms(1)] retryLoop_Deletion_waits)
  qed
  from wp_run [OF this assms(2)] have "set (waits tr) \<subseteq> {5 * Second}" by simp
  ultimately show ?thesis by simp
qed

theorem DeletionConfig_schedule_witness:
  "let fn = State (\<lambda>k::nat. (if k < 1 then Inl \<lparr>err_text = ''EBUSY'', err_chain = [], err_net_timeout = False\<rparr>
        else Inr (), Suc k));
       tr = [Attempt (Inl \<lparr>err_text = ''EBUSY'', err_chain = [], err_net_timeout = False\<rparr>),
             Waited (5 * Second), Attempt (Inr ())]
   in run_state (WithRetry (observed_env (quiet_env (\<lambda>_. False))) (DeletionConfig ''d'') (observed_fn fn)) (0, []) =
        (Inr (), (2, tr)) \<and>
      length (attempts tr) \<le> 12 \<and> length (waits tr) \<le> 11 \<and> set (waits tr) \<subseteq> {5 * Second}"
proof -
  let ?e = "\<lparr>err_text = ''EBUSY'', err_chain = [], err_net_timeout = False\<rparr>"
  let ?fn = "State (\<lambda>k::nat. (if k < 1 then Inl ?e else Inr (), Suc k))"
  let ?tr = "[Attempt (Inl ?e), Waited (5 * Second), Attempt (Inr ())]"
  have "run_state (WithRetry (observed_env (quiet_env (\<lambda>_. False))) (DeletionConfig ''d'') (observed_fn ?fn)) (0, []) =
        (Inr (), (2, ?tr))"
    by (simp add: WithRetry_def applyDefaults_def Let_def observed_env_def observed_fn_def
        observed_def quiet_env_def gives_up_def eval_nat_numeral nextBackoff_def Second_def
        wrap64_def DeletionConfig_def IsRetryableDeletionError_def IsBusyResourceError_def
        contains_any_def str_contains_def)
  from this DeletionConfig_schedule [OF _ this] show ?thesis by (simp add: Let_def)
qed

end
