(* ===== verification/Volume_Naming.thy ===== *)
theory Volume_Naming
  imports Prelude
begin

text \<open>
  Volume names (\<^verbatim>\<open>src/pkg/driver/template.go\<close>): StorageClass templating, sanitising, truncation to
  63 bytes and the request digest that keeps rewritten names apart. Two pieces of the Go standard
  library are parameters, collected in \<open>name_lib\<close>: \<^verbatim>\<open>text/template\<close> (parsing and executing a
  template, both of which may fail) and \<^verbatim>\<open>crypto/sha256\<close> (a function from bytes to bytes).
\<close>

section \<open>Data\<close>

definition CSIPVCName :: string where
  "CSIPVCName = ''csi.storage.k8s.io/pvc/name''"

definition CSIPVCNamespace :: string where
  "CSIPVCNamespace = ''csi.storage.k8s.io/pvc/namespace''"

definition ParamNameTemplate :: string where
  "ParamNameTemplate = ''nameTemplate''"

definition ParamNamePrefix :: string where
  "ParamNamePrefix = ''namePrefix''"

definition ParamNameSuffix :: string where
  "ParamNameSuffix = ''nameSuffix''"

definition ParamCommentTemplate :: string where
  "ParamCommentTemplate = ''commentTemplate''"

record VolumeNameContext =
  PVCName :: string
  PVCNamespace :: string
  PVName :: string

record 't nameTemplateConfig =
  tmpl :: "'t option"
  name_prefix :: string
  name_suffix :: string

datatype name_error =
    ErrVolumeNameEmpty | ErrVolumeNameInvalid | TemplateParseError | TemplateExecError

record 't name_lib =
  template_Parse :: "string \<Rightarrow> 't option"
  template_Execute :: "'t \<Rightarrow> VolumeNameContext \<Rightarrow> string option"
  sha256_Sum256 :: "string \<Rightarrow> string"

definition maxBackendNameBytes :: nat where
  "maxBackendNameBytes = 63"

definition backendNameSuffixLength :: nat where
  "backendNameSuffixLength = 8"

definition backendNameSuffixAlphabet :: string where
  "backendNameSuffixAlphabet = ''0123456789ABCDEFGHIJKLMNOPQRSTUVWXYZabcdefghijklmnopqrstuvwxyz''"

definition backendNameHashDomain :: string where
  "backendNameHashDomain = ''nasty-csi/backend-name/v2'' @ [CHR 0x00]"

section \<open>Validation and sanitising\<close>

definition is_alnum :: "char \<Rightarrow> bool" where
  "is_alnum c \<longleftrightarrow>
     list_ex (\<lambda>(lo, hi). lo \<le> c \<and> c \<le> hi) [(CHR ''a'', CHR ''z''), (CHR ''A'', CHR ''Z''), (CHR ''0'', CHR ''9'')]"

definition is_name_char :: "char \<Rightarrow> bool" where
  "is_name_char c \<longleftrightarrow>
     is_alnum c \<or> c = CHR ''.'' \<or> c = CHR ''_'' \<or> c = CHR '':'' \<or> c = CHR ''-''"

text \<open>The language of \<^verbatim>\<open>^[a-zA-Z0-9][a-zA-Z0-9._:-]*$\<close>.\<close>

definition validNameRegex :: "string \<Rightarrow> bool" where
  "validNameRegex name = (case name of [] \<Rightarrow> False | c # cs \<Rightarrow> is_alnum c \<and> list_all is_name_char cs)"

definition validateVolumeName :: "string \<Rightarrow> name_error option" where
  "validateVolumeName name =
     (if name = [] then Some ErrVolumeNameEmpty
      else if \<not> validNameRegex name then Some ErrVolumeNameInvalid
      else None)"

text \<open>
  The loop over the runes of the name: \<open>b\<close> is the builder, \<open>h\<close> is \<^verbatim>\<open>lastHyphen\<close>. The model runs over
  bytes: a rune outside ASCII is one or more bytes of 128 and above, none of them a name character,
  and a run of invalid bytes has the effect of one (\<open>sanitizeLoop_collapse\<close>).
\<close>

fun sanitizeLoop :: "string \<Rightarrow> string \<Rightarrow> bool \<Rightarrow> string" where
  "sanitizeLoop [] b h = b"
| "sanitizeLoop (c # cs) b h =
     (let ch = (if is_name_char c then c else CHR ''-'')
      in if ch = CHR ''-''
         then if b = [] \<or> h then sanitizeLoop cs b h else sanitizeLoop cs (b @ [ch]) True
         else sanitizeLoop cs (b @ [ch]) False)"

definition sanitizeVolumeNameUnlimited :: "string \<Rightarrow> string" where
  "sanitizeVolumeNameUnlimited name = trim (trim_left (sanitizeLoop name [] False) ''._:'') ''-''"

definition truncateASCIIName :: "string \<Rightarrow> nat \<Rightarrow> string" where
  "truncateASCIIName name limit = (if length name \<le> limit then name else take limit name)"

definition sanitizeVolumeName :: "string \<Rightarrow> string" where
  "sanitizeVolumeName name =
     trim_right (truncateASCIIName (sanitizeVolumeNameUnlimited name) maxBackendNameBytes) ''-''"

section \<open>The digest suffix\<close>

definition big_endian :: "string \<Rightarrow> nat" where
  "big_endian bs = foldl (\<lambda>n b. 256 * n + of_char b) 0 bs"

text \<open>The loop fills the suffix from its last byte to its first.\<close>

fun suffixDigits :: "nat \<Rightarrow> nat \<Rightarrow> string" where
  "suffixDigits 0 value = []"
| "suffixDigits (Suc n) value =
     suffixDigits n (value div length backendNameSuffixAlphabet) @
     [backendNameSuffixAlphabet ! (value mod length backendNameSuffixAlphabet)]"

definition backendNameSuffix :: "'t name_lib \<Rightarrow> string \<Rightarrow> string" where
  "backendNameSuffix lib requestName =
     suffixDigits backendNameSuffixLength
       (big_endian (take 8 (sha256_Sum256 lib (backendNameHashDomain @ requestName))))"

section \<open>Rendering\<close>

definition parseNameTemplateConfig ::
  "'t name_lib \<Rightarrow> smap \<Rightarrow> name_error + 't nameTemplateConfig option"
where
  "parseNameTemplateConfig lib params =
     (let templateStr = mget params ParamNameTemplate;
          prefix = mget params ParamNamePrefix;
          suffix = mget params ParamNameSuffix
      in if templateStr = [] \<and> prefix = [] \<and> suffix = [] then Inr None
         else if templateStr \<noteq> []
         then (case template_Parse lib templateStr of
                 None \<Rightarrow> Inl TemplateParseError
               | Some t \<Rightarrow> Inr (Some \<lparr>tmpl = Some t, name_prefix = prefix, name_suffix = suffix\<rparr>))
         else Inr (Some \<lparr>tmpl = None, name_prefix = prefix, name_suffix = suffix\<rparr>))"

definition extractVolumeNameContext :: "smap \<Rightarrow> string \<Rightarrow> VolumeNameContext" where
  "extractVolumeNameContext params pvName =
     \<lparr>PVCName = mget params CSIPVCName, PVCNamespace = mget params CSIPVCNamespace, PVName = pvName\<rparr>"

definition renderVolumeNameCandidate ::
  "'t name_lib \<Rightarrow> 't nameTemplateConfig option \<Rightarrow> VolumeNameContext \<Rightarrow> name_error + string"
where
  "renderVolumeNameCandidate lib config ctx =
     (case config of
        None \<Rightarrow> Inr (PVName ctx)
      | Some c \<Rightarrow>
          (case tmpl c of
             Some t \<Rightarrow>
               (case template_Execute lib t ctx of
                  None \<Rightarrow> Inl TemplateExecError
                | Some s \<Rightarrow> Inr s)
           | None \<Rightarrow> Inr (name_prefix c @ PVName ctx @ name_suffix c)))"

definition renderVolumeName ::
  "'t name_lib \<Rightarrow> 't nameTemplateConfig option \<Rightarrow> VolumeNameContext \<Rightarrow> name_error + string"
where
  "renderVolumeName lib config ctx =
     (case renderVolumeNameCandidate lib config ctx of
        Inl e \<Rightarrow> Inl e
      | Inr candidate \<Rightarrow>
          if config = None \<and> length candidate \<le> maxBackendNameBytes \<and> validateVolumeName candidate = None
          then Inr candidate
          else
            (let stem = sanitizeVolumeNameUnlimited candidate
             in if stem = [] then Inl ErrVolumeNameEmpty
                else
                  (let suffix = ''-'' @ backendNameSuffix lib (PVName ctx);
                       stem' = truncateASCIIName stem (maxBackendNameBytes - length suffix);
                       name = trim_right stem' ''-'' @ suffix
                   in case validateVolumeName name of
                        Some e \<Rightarrow> Inl e
                      | None \<Rightarrow> Inr name)))"

definition ResolveVolumeName :: "'t name_lib \<Rightarrow> smap \<Rightarrow> string \<Rightarrow> name_error + string" where
  "ResolveVolumeName lib params pvName =
     (case parseNameTemplateConfig lib params of
        Inl e \<Rightarrow> Inl e
      | Inr config \<Rightarrow> renderVolumeName lib config (extractVolumeNameContext params pvName))"

definition ResolveLegacyVolumeName :: "'t name_lib \<Rightarrow> smap \<Rightarrow> string \<Rightarrow> name_error + string" where
  "ResolveLegacyVolumeName lib params pvName =
     (case parseNameTemplateConfig lib params of
        Inl e \<Rightarrow> Inl e
      | Inr config \<Rightarrow>
          (case renderVolumeNameCandidate lib config (extractVolumeNameContext params pvName) of
             Inl e \<Rightarrow> Inl e
           | Inr candidate \<Rightarrow>
               if config = None then Inr candidate
               else
                 (let legacy = sanitizeVolumeName candidate
                  in case validateVolumeName legacy of
                       Some e \<Rightarrow> Inl e
                     | None \<Rightarrow> Inr legacy)))"

definition ResolveComment :: "'t name_lib \<Rightarrow> smap \<Rightarrow> string \<Rightarrow> name_error + string" where
  "ResolveComment lib params pvName =
     (let templateStr = mget params ParamCommentTemplate
      in if templateStr = [] then Inr []
         else
           (case template_Parse lib templateStr of
              None \<Rightarrow> Inl TemplateParseError
            | Some t \<Rightarrow>
                (case template_Execute lib t (extractVolumeNameContext params pvName) of
                   None \<Rightarrow> Inl TemplateExecError
                 | Some s \<Rightarrow> Inr s)))"

section \<open>Facts on the parts\<close>

lemma name_char_hyphen [simp]: "is_name_char CHR ''-''"
  by (simp add: is_name_char_def)

lemma sanitizeLoop_collapse:
  "\<not> is_name_char x \<Longrightarrow> \<not> is_name_char y \<Longrightarrow>
     sanitizeLoop (x # y # cs) b h = sanitizeLoop (x # cs) b h"
  by (simp add: Let_def)

lemma sanitizeLoop_name_chars:
  "list_all is_name_char b \<Longrightarrow> list_all is_name_char (sanitizeLoop cs b h)"
  by (induction cs b h rule: sanitizeLoop.induct) (auto simp: Let_def)

lemma sanitizeVolumeNameUnlimited_name_chars:
  "list_all is_name_char (sanitizeVolumeNameUnlimited name)"
  using sanitizeLoop_name_chars [of "[]" name False] set_trim set_trim_left
  unfolding sanitizeVolumeNameUnlimited_def list_all_iff by (metis empty_iff list.set(1) subsetD)

lemma truncateASCIIName_take: "truncateASCIIName name limit = take limit name"
  by (simp add: truncateASCIIName_def)

lemma list_all_trim_right: "list_all P s \<Longrightarrow> list_all P (trim_right s cs)"
  using set_trim_right [of s cs] by (auto simp: list_all_iff)

lemma validNameRegex_name_chars: "validNameRegex s \<Longrightarrow> list_all is_name_char s"
  by (cases s) (auto simp: validNameRegex_def is_name_char_def)

lemma validateVolumeName_None [simp]: "validateVolumeName name = None \<longleftrightarrow> validNameRegex name"
  by (auto simp: validateVolumeName_def validNameRegex_def)

lemma length_suffixDigits [simp]: "length (suffixDigits n v) = n"
  by (induction n arbitrary: v) auto

lemma length_backendNameSuffix [simp]: "length (backendNameSuffix lib r) = 8"
  by (simp add: backendNameSuffix_def backendNameSuffixLength_def)

lemma alphabet_length [simp]: "length backendNameSuffixAlphabet = 62"
  by (simp add: backendNameSuffixAlphabet_def)

lemma alphabet_distinct: "distinct backendNameSuffixAlphabet"
  by (simp add: backendNameSuffixAlphabet_def)

lemma base62:
  assumes "b < 62" "d < (62::nat)"
  shows "62 * a + b = 62 * c + d \<longleftrightarrow> a = c \<and> b = d"
proof -
  have "(62 * a + b) div 62 = a" "(62 * c + d) div 62 = c" using assms by simp_all
  then show ?thesis by (metis add_left_cancel)
qed

lemma alphabet_alnum: "list_all is_alnum backendNameSuffixAlphabet"
  by (simp add: backendNameSuffixAlphabet_def is_alnum_def less_eq_char_def)

lemma suffixDigits_alnum: "list_all is_alnum (suffixDigits n v)"
proof (induction n arbitrary: v)
  case (Suc n)
  have "is_alnum (backendNameSuffixAlphabet ! (v mod 62))"
    using alphabet_alnum by (simp add: list_all_length)
  with Suc show ?case by simp
qed simp

lemma backendNameSuffix_name_chars: "list_all is_name_char (backendNameSuffix lib r)"
  using suffixDigits_alnum unfolding backendNameSuffix_def
  by (auto simp: list_all_iff is_name_char_def)

lemma suffixDigits_eq_iff: "suffixDigits n v = suffixDigits n w \<longleftrightarrow> v mod 62 ^ n = w mod 62 ^ n"
proof (induction n arbitrary: v w)
  case (Suc n)
  have digit: "backendNameSuffixAlphabet ! (v mod 62) = backendNameSuffixAlphabet ! (w mod 62) \<longleftrightarrow>
      v mod 62 = w mod 62"
    using nth_eq_iff_index_eq [OF alphabet_distinct] by simp
  have split: "u mod 62 ^ Suc n = 62 * (u div 62 mod 62 ^ n) + u mod 62" for u :: nat
    by (simp add: mod_mult2_eq)
  have "v mod 62 ^ Suc n = w mod 62 ^ Suc n \<longleftrightarrow>
      v div 62 mod 62 ^ n = w div 62 mod 62 ^ n \<and> v mod 62 = w mod 62"
    unfolding split by (rule base62) simp_all
  with digit Suc show ?case by auto
qed simp

section \<open>Properties\<close>

text \<open>
  C19: whatever the StorageClass templates to and whatever the hash function, a name that
  \<^verbatim>\<open>ResolveVolumeName\<close> returns satisfies the backend's name pattern and is at most 63 bytes long.
\<close>

theorem ResolveVolumeName_valid:
  assumes "ResolveVolumeName lib params pvName = Inr name"
  shows "validNameRegex name \<and> length name \<le> 63"
proof -
  have "length (trim_right (take 54 s) ''-'') \<le> 54" for s
    using length_trim_right [of "take 54 s" "''-''"] by simp
  then show ?thesis
    using assms
    by (auto simp: ResolveVolumeName_def renderVolumeName_def Let_def truncateASCIIName_take
        maxBackendNameBytes_def split: sum.splits if_splits option.splits)
qed

definition plain_lib :: "string name_lib" where
  "plain_lib =
     \<lparr>template_Parse = Some, template_Execute = (\<lambda>t ctx. Some (t @ PVCNamespace ctx)),
      sha256_Sum256 = (\<lambda>s. replicate 32 CHR ''x'')\<rparr>"

theorem ResolveVolumeName_valid_witness:
  "ResolveVolumeName plain_lib fmempty ''pvc-1'' = Inr ''pvc-1'' \<and>
   validNameRegex ''pvc-1'' \<and> length ''pvc-1'' \<le> 63"
proof -
  have r: "ResolveVolumeName plain_lib fmempty ''pvc-1'' = Inr ''pvc-1''"
    by (simp add: ResolveVolumeName_def parseNameTemplateConfig_def renderVolumeName_def
        renderVolumeNameCandidate_def extractVolumeNameContext_def maxBackendNameBytes_def
        validNameRegex_def is_alnum_def is_name_char_def less_eq_char_def)
  from r ResolveVolumeName_valid [OF r] show ?thesis by blast
qed

definition requestDigest :: "'t name_lib \<Rightarrow> string \<Rightarrow> nat" where
  "requestDigest lib r = big_endian (take 8 (sha256_Sum256 lib (backendNameHashDomain @ r)))"

lemma rewritten_name_suffix:
  assumes "ResolveVolumeName lib params r = Inr name" and "name \<noteq> r"
  shows "\<exists>stem. name = stem @ backendNameSuffix lib r"
  using assms
  by (auto simp: ResolveVolumeName_def renderVolumeName_def renderVolumeNameCandidate_def Let_def
      extractVolumeNameContext_def split: sum.splits if_splits option.splits)

text \<open>
  A rewritten name determines the request: when two requests both get a name that is not their
  own name, equal backend names imply that the two request digests agree modulo \<open>62 ^ 8\<close>.
\<close>

theorem rewritten_names_collide_only_on_digest:
  assumes "ResolveVolumeName lib p r = Inr name" "name \<noteq> r"
    and "ResolveVolumeName lib p' r' = Inr name" "name \<noteq> r'"
  shows "requestDigest lib r mod 62 ^ 8 = requestDigest lib r' mod 62 ^ 8"
proof -
  from rewritten_name_suffix [OF assms(1,2)] rewritten_name_suffix [OF assms(3,4)]
  obtain s s' where "s @ backendNameSuffix lib r = s' @ backendNameSuffix lib r'" by metis
  then have "backendNameSuffix lib r = backendNameSuffix lib r'" by simp
  then show ?thesis
    by (simp add: backendNameSuffix_def backendNameSuffixLength_def suffixDigits_eq_iff
        requestDigest_def)
qed

theorem rewritten_names_collide_only_on_digest_witness:
  "let name = ''a-b-'' @ backendNameSuffix plain_lib ''a b''
   in ResolveVolumeName plain_lib fmempty ''a b'' = Inr name \<and>
      ResolveVolumeName plain_lib fmempty ''a/b'' = Inr name \<and>
      requestDigest plain_lib ''a b'' mod 62 ^ 8 = requestDigest plain_lib ''a/b'' mod 62 ^ 8"
proof -
  let ?name = "''a-b-'' @ backendNameSuffix plain_lib ''a b''"
  have same: "backendNameSuffix plain_lib ''a/b'' = backendNameSuffix plain_lib ''a b''"
    by (simp add: backendNameSuffix_def plain_lib_def)
  have eval: "parseNameTemplateConfig plain_lib fmempty = Inr None"
    "sanitizeVolumeNameUnlimited ''a b'' = ''a-b''" "sanitizeVolumeNameUnlimited ''a/b'' = ''a-b''"
    "\<not> validNameRegex ''a b''" "\<not> validNameRegex ''a/b''" "validNameRegex ?name"
    "trim_right ''a-b'' ''-'' = ''a-b''"
    using backendNameSuffix_name_chars [of plain_lib "''a b''"]
    by (simp_all add: parseNameTemplateConfig_def sanitizeVolumeNameUnlimited_def Let_def
        validNameRegex_def is_alnum_def is_name_char_def less_eq_char_def trim_def trim_left_def
        trim_right_def)
  have r: "ResolveVolumeName plain_lib fmempty ''a b'' = Inr ?name"
    "ResolveVolumeName plain_lib fmempty ''a/b'' = Inr ?name"
    using eval same
    by (simp_all add: ResolveVolumeName_def renderVolumeName_def renderVolumeNameCandidate_def
        extractVolumeNameContext_def Let_def truncateASCIIName_def maxBackendNameBytes_def
        validateVolumeName_def)
  have "?name \<noteq> ''a b''" "?name \<noteq> ''a/b''" by simp_all
  with r rewritten_names_collide_only_on_digest [OF r(1) _ r(2)] show ?thesis
    by (simp add: Let_def)
qed

lemma hd_trim: "trim s cs \<noteq> [] \<Longrightarrow> hd (trim s cs) \<notin> set cs"
  unfolding trim_def
  by (metis hd_trim_left hd_trim_right dropWhile.simps(1) rev.simps(1) trim_right_def)

lemma hd_take_nonempty: "take n s \<noteq> [] \<Longrightarrow> hd (take n s) = hd s"
  by (cases n; cases s) auto

lemma sanitizeVolumeName_hd:
  assumes "sanitizeVolumeName name \<noteq> []"
  shows "hd (sanitizeVolumeName name) \<noteq> CHR ''-''"
proof -
  let ?u = "sanitizeVolumeNameUnlimited name"
  have s: "sanitizeVolumeName name = trim_right (take 63 ?u) ''-''"
    by (simp add: sanitizeVolumeName_def truncateASCIIName_take maxBackendNameBytes_def)
  from assms have ne: "take 63 ?u \<noteq> []" unfolding s by (auto simp: trim_right_def)
  have "hd (sanitizeVolumeName name) = hd (take 63 ?u)"
    unfolding s using assms unfolding s by (rule hd_trim_right)
  also have "\<dots> = hd ?u" using ne by (rule hd_take_nonempty)
  finally have hd: "hd (sanitizeVolumeName name) = hd ?u" .
  from ne have "?u \<noteq> []" by auto
  then have "hd ?u \<notin> set ''-''"
    unfolding sanitizeVolumeNameUnlimited_def by (rule hd_trim)
  with hd show ?thesis by simp
qed

lemma sanitizeVolumeName_chars: "list_all is_name_char (sanitizeVolumeName name)"
  unfolding sanitizeVolumeName_def truncateASCIIName_take
  by (rule list_all_trim_right)
    (metis sanitizeVolumeNameUnlimited_name_chars list_all_iff in_set_takeD)

text \<open>
  What the sanitiser guarantees and what it does not. The result has only name characters, is
  at most 63 bytes long and neither begins nor ends with a hyphen; it is a valid name exactly when
  it is non-empty and does not begin with a period, an underscore or a colon.
\<close>

theorem sanitizeVolumeName_spec:
  "list_all is_name_char (sanitizeVolumeName name) \<and> length (sanitizeVolumeName name) \<le> 63 \<and>
   (sanitizeVolumeName name = [] \<or>
      hd (sanitizeVolumeName name) \<noteq> CHR ''-'' \<and> last (sanitizeVolumeName name) \<noteq> CHR ''-'') \<and>
   (validNameRegex (sanitizeVolumeName name) \<longleftrightarrow>
      sanitizeVolumeName name \<noteq> [] \<and> hd (sanitizeVolumeName name) \<notin> set ''._:'')"
proof (intro conjI)
  let ?s = "sanitizeVolumeName name"
  show chars: "list_all is_name_char ?s" by (rule sanitizeVolumeName_chars)
  show "length ?s \<le> 63"
    using length_trim_right [of "take 63 (sanitizeVolumeNameUnlimited name)" "''-''"]
    by (simp add: sanitizeVolumeName_def truncateASCIIName_take maxBackendNameBytes_def)
  have "?s \<noteq> [] \<Longrightarrow> last ?s \<notin> set ''-''"
    unfolding sanitizeVolumeName_def by (rule last_trim_right)
  then show "?s = [] \<or> hd ?s \<noteq> CHR ''-'' \<and> last ?s \<noteq> CHR ''-''"
    using sanitizeVolumeName_hd [of name] by auto
  show "validNameRegex ?s \<longleftrightarrow> ?s \<noteq> [] \<and> hd ?s \<notin> set ''._:''"
    using chars sanitizeVolumeName_hd [of name]
    by (cases ?s) (auto simp: validNameRegex_def is_name_char_def is_alnum_def less_eq_char_def)
qed

text \<open>
  The sanitiser therefore does not always yield a valid name: a StorageClass with the name
  prefix \<^verbatim>\<open>_-.\<close>, made of permitted characters only, makes every request whose name is \<^verbatim>\<open>pvc-1\<close> fail
  with an invalid-name error, both for the current and for the legacy backend name.
\<close>

theorem sanitized_prefix_rejected:
  "ResolveVolumeName lib (fmupd ParamNamePrefix ''_-.'' fmempty) ''pvc-1'' = Inl ErrVolumeNameInvalid \<and>
   ResolveLegacyVolumeName lib (fmupd ParamNamePrefix ''_-.'' fmempty) ''pvc-1'' = Inl ErrVolumeNameInvalid"
proof -
  have config: "parseNameTemplateConfig lib (fmupd ParamNamePrefix ''_-.'' fmempty) =
      Inr (Some \<lparr>tmpl = None, name_prefix = ''_-.'', name_suffix = []\<rparr>)"
    by (simp add: parseNameTemplateConfig_def ParamNameTemplate_def ParamNamePrefix_def
        ParamNameSuffix_def)
  have stem: "sanitizeVolumeNameUnlimited ''_-.pvc-1'' = ''.pvc-1''"
    by (simp add: sanitizeVolumeNameUnlimited_def Let_def is_alnum_def is_name_char_def
        less_eq_char_def trim_def trim_left_def trim_right_def)
  show ?thesis
    by (simp add: ResolveVolumeName_def ResolveLegacyVolumeName_def config renderVolumeName_def
        renderVolumeNameCandidate_def extractVolumeNameContext_def stem sanitizeVolumeName_def
        truncateASCIIName_def maxBackendNameBytes_def trim_right_def validateVolumeName_def
        validNameRegex_def is_alnum_def less_eq_char_def Let_def)
qed

end
