(* ===== verification/Backend_API.thy ===== *)
theory Backend_API
  imports Retry Volume_Naming
begin

text \<open>
  The controller's environment and its memory. The NASty client (\<^verbatim>\<open>nastyapi.ClientInterface\<close>, a
  package outside the repository), the Kubernetes client, the clock, the random source and the
  request context are fields of the record \<open>svc\<close>: functions on an unspecified world \<open>'w\<close>, so the
  answer to a call may depend on everything that happened before and on what other actors did in
  between. Statements quantify over \<open>svc\<close>; a concrete \<open>svc\<close> gives an executable controller.

  The record \<open>controller\<close> is what the \<^verbatim>\<open>ControllerService\<close> mutates: the published-volume table and
  the capacity gauges of the metrics package; \<open>calls\<close> is a ghost trace of the client calls that
  read or change a subvolume or its presentation. Mutexes need no model: one handler runs at a
  time on the in-memory tables, and interleaved backend changes are the world's.
\<close>

section \<open>Backend objects\<close>

text \<open>
  The extended attributes the driver uses by name (the table in \<^verbatim>\<open>src/docs/FEATURES.md\<close>, with the
  three identity keys of \<^verbatim>\<open>volume_identity.go\<close>); \<open>OtherProperty\<close> is any further attribute.
\<close>

datatype propkey =
    PropertyManagedBy | PropertyCSIVolumeName | PropertyProtocol | PropertyCapacityBytes
  | PropertyCreatedAt | PropertyDeleteStrategy | PropertyAdoptable | PropertyPVCName
  | PropertyPVCNamespace | PropertyStorageClass | PropertyClusterID
  | propertyCSIRequestName | propertyVolumeUUID | propertyIdentityVersion
  | OtherProperty string

type_synonym props = "(propkey, string) fmap"

definition ManagedByValue :: string where
  "ManagedByValue = ''nasty-csi''"

definition DeleteStrategyDelete :: string where
  "DeleteStrategyDelete = ''delete''"

definition DeleteStrategyRetain :: string where
  "DeleteStrategyRetain = ''retain''"

record subvolume =
  sv_Filesystem :: string
  sv_Name :: string
  sv_SubvolumeType :: string
  sv_Path :: string
  sv_Properties :: props
  sv_Snapshots :: "string list"
  sv_QuotaBytes :: "uint64 option"
  sv_VolsizeBytes :: "uint64 option"
  sv_BlockDevice :: "string option"
  sv_BlockFilesystem :: "string option"
  sv_BlockFilesystemUUID :: "string option"
  sv_Created :: bool

record create_params =
  cp_Filesystem :: string
  cp_Name :: string
  cp_SubvolumeType :: string
  cp_Comments :: string
  cp_BlockFilesystem :: string
  cp_Compression :: string
  cp_ForegroundTarget :: string
  cp_BackgroundTarget :: string
  cp_PromoteTarget :: string
  cp_MetadataTarget :: string
  cp_DataReplicas :: "uint32 option"
  cp_VolsizeBytes :: "uint64 option"

record volume_params =
  vp_VolumeID :: string
  vp_Protocol :: string
  vp_CapacityBytes :: int
  vp_CreatedAt :: string
  vp_DeleteStrategy :: string
  vp_PVCName :: string
  vp_PVCNamespace :: string
  vp_StorageClass :: string
  vp_Adoptable :: bool
  vp_ClusterID :: string
  vp_Encrypted :: bool

record nfs_client =
  nc_Host :: string
  nc_Options :: string

record nfs_share =
  nfs_ID :: string
  nfs_Path :: string
  nfs_Comment :: "string option"
  nfs_Enabled :: bool

record smb_share =
  smb_ID :: string
  smb_Name :: string
  smb_Path :: string
  smb_Comment :: "string option"
  smb_Enabled :: bool

record iscsi_target =
  it_ID :: string
  it_IQN :: string
  it_Luns :: "string list"

record nvmeof_subsystem =
  ns_ID :: string
  ns_NQN :: string
  ns_Namespaces :: "string list"

record backend_snapshot =
  sn_Name :: string
  sn_Subvolume :: string
  sn_CreatedAt :: "int option"

record filesystem_info =
  fs_TotalBytes :: uint64
  fs_UsedBytes :: uint64
  fs_AvailableBytes :: uint64
  fs_Encrypted :: "bool option"

section \<open>The environment\<close>

text \<open>
  A call that returns a pointer and an error is a sum of the error and an optional value:
  \<^verbatim>\<open>nil, nil\<close> is \<open>Inr None\<close>.
\<close>

record 'w svc =
  svc_clusterID :: string
  svc_kubeClient :: bool
  svc_names :: "string name_lib"
  svc_VolumeProperties :: "volume_params \<Rightarrow> props"
  svc_StringToInt64 :: "string \<Rightarrow> int"
  env_Now :: "'w \<Rightarrow> string \<times> 'w"
  env_Sleep :: "int \<Rightarrow> 'w \<Rightarrow> unit \<times> 'w"
  env_ctxErr :: "'w \<Rightarrow> ctx_error option \<times> 'w"
  env_After :: "int \<Rightarrow> 'w \<Rightarrow> ctx_error option \<times> 'w"
  env_randRead :: "'w \<Rightarrow> (go_error + 8 word list) \<times> 'w"
  env_pvcAnnotations :: "string \<Rightarrow> string \<Rightarrow> 'w \<Rightarrow> (go_error + smap) \<times> 'w"
  api_GetSubvolume :: "string \<Rightarrow> string \<Rightarrow> 'w \<Rightarrow> (go_error + subvolume option) \<times> 'w"
  api_FindSubvolumeByCSIVolumeName :: "string \<Rightarrow> string \<Rightarrow> 'w \<Rightarrow> (go_error + subvolume option) \<times> 'w"
  api_FindManagedSubvolumes :: "string \<Rightarrow> 'w \<Rightarrow> (go_error + subvolume list) \<times> 'w"
  api_FindSubvolumesByProperty :: "propkey \<Rightarrow> string \<Rightarrow> string \<Rightarrow> 'w \<Rightarrow> (go_error + subvolume list) \<times> 'w"
  api_CreateSubvolume :: "create_params \<Rightarrow> 'w \<Rightarrow> (go_error + subvolume option) \<times> 'w"
  api_DeleteSubvolume :: "string \<Rightarrow> string \<Rightarrow> 'w \<Rightarrow> go_error option \<times> 'w"
  api_CloneSubvolume :: "string \<Rightarrow> string \<Rightarrow> string \<Rightarrow> 'w \<Rightarrow> (go_error + subvolume option) \<times> 'w"
  api_CloneSnapshot :: "string \<Rightarrow> string \<Rightarrow> string \<Rightarrow> string \<Rightarrow> 'w \<Rightarrow> (go_error + subvolume option) \<times> 'w"
  api_ResizeSubvolume :: "string \<Rightarrow> string \<Rightarrow> uint64 \<Rightarrow> 'w \<Rightarrow> (go_error + subvolume option) \<times> 'w"
  api_SetSubvolumeProperties :: "string \<Rightarrow> string \<Rightarrow> props \<Rightarrow> 'w \<Rightarrow> go_error option \<times> 'w"
  api_CreateSnapshot :: "string \<Rightarrow> string \<Rightarrow> string \<Rightarrow> 'w \<Rightarrow> (go_error + backend_snapshot option) \<times> 'w"
  api_DeleteSnapshot :: "string \<Rightarrow> string \<Rightarrow> string \<Rightarrow> 'w \<Rightarrow> go_error option \<times> 'w"
  api_ListSnapshots :: "string \<Rightarrow> 'w \<Rightarrow> (go_error + backend_snapshot list) \<times> 'w"
  api_QueryFilesystem :: "string \<Rightarrow> 'w \<Rightarrow> (go_error + filesystem_info option) \<times> 'w"
  api_ListNFSShares :: "'w \<Rightarrow> (go_error + nfs_share list) \<times> 'w"
  api_GetNFSShare :: "string \<Rightarrow> 'w \<Rightarrow> (go_error + nfs_share option) \<times> 'w"
  api_CreateNFSShare :: "string \<Rightarrow> string \<Rightarrow> nfs_client list \<Rightarrow> 'w \<Rightarrow> (go_error + nfs_share option) \<times> 'w"
  api_DeleteNFSShare :: "string \<Rightarrow> 'w \<Rightarrow> go_error option \<times> 'w"
  api_ListSMBShares :: "'w \<Rightarrow> (go_error + smb_share list) \<times> 'w"
  api_GetSMBShare :: "string \<Rightarrow> 'w \<Rightarrow> (go_error + smb_share option) \<times> 'w"
  api_CreateSMBShare :: "string \<Rightarrow> string \<Rightarrow> string \<Rightarrow> string list \<Rightarrow> 'w \<Rightarrow> (go_error + smb_share option) \<times> 'w"
  api_DeleteSMBShare :: "string \<Rightarrow> 'w \<Rightarrow> go_error option \<times> 'w"
  api_ListISCSITargets :: "'w \<Rightarrow> (go_error + iscsi_target list) \<times> 'w"
  api_GetISCSITargetByIQN :: "string \<Rightarrow> 'w \<Rightarrow> (go_error + iscsi_target option) \<times> 'w"
  api_CreateISCSITarget :: "string \<Rightarrow> string \<Rightarrow> 'w \<Rightarrow> (go_error + iscsi_target option) \<times> 'w"
  api_DeleteISCSITarget :: "string \<Rightarrow> 'w \<Rightarrow> go_error option \<times> 'w"
  api_ListNVMeOFSubsystems :: "'w \<Rightarrow> (go_error + nvmeof_subsystem list) \<times> 'w"
  api_GetNVMeOFSubsystemByNQN :: "string \<Rightarrow> 'w \<Rightarrow> (go_error + nvmeof_subsystem option) \<times> 'w"
  api_CreateNVMeOFSubsystem :: "string \<Rightarrow> string \<Rightarrow> 'w \<Rightarrow> (go_error + nvmeof_subsystem option) \<times> 'w"
  api_DeleteNVMeOFSubsystem :: "string \<Rightarrow> 'w \<Rightarrow> go_error option \<times> 'w"

section \<open>The controller's memory and its calls\<close>

text \<open>
  \<open>Expose p loc\<close> is the creation of a share, target or subsystem of protocol \<open>p\<close> for a path or a
  block device; \<open>Unexpose p id err\<close> its removal. \<open>Found\<close> is a search for subvolumes to adopt.
\<close>

datatype event =
    Got string string "go_error + subvolume option"
  | Found "subvolume list"
  | Created create_params "go_error + subvolume option"
  | Cloned string string "go_error + subvolume option"
  | Resized string string uint64 "go_error + subvolume option"
  | PropsSet string string props "go_error option"
  | Deleted string string "go_error option"
  | Expose string string
  | Unexpose string string "go_error option"
  | SnapshotCreated string string string "go_error + backend_snapshot option"
  | SnapshotDeleted string string string "go_error option"

record 'w controller =
  world :: 'w
  calls :: "event list"
  publishedVolumes :: "(string, bool) fmap"
  volumeCapacity :: "(string \<times> string, int) fmap"

type_synonym ('w, 'a) op = "('w controller, 'a) state"

definition call :: "('w \<Rightarrow> 'r \<times> 'w) \<Rightarrow> ('r \<Rightarrow> event list) \<Rightarrow> ('w, 'r) op" where
  "call f ev =
     State (\<lambda>s. case f (world s) of (r, w) \<Rightarrow> (r, s\<lparr>world := w, calls := calls s @ ev r\<rparr>))"

abbreviation quiet :: "('w \<Rightarrow> 'r \<times> 'w) \<Rightarrow> ('w, 'r) op" where
  "quiet f \<equiv> call f (\<lambda>_. [])"

lemma run_state_call [simp]:
  "run_state (call f ev) s = (case f (world s) of (r, w) \<Rightarrow> (r, s\<lparr>world := w, calls := calls s @ ev r\<rparr>))"
  by (simp add: call_def)

lemma wp_call:
  "wp (call f ev) Q s = (case f (world s) of (r, w) \<Rightarrow> Q r (s\<lparr>world := w, calls := calls s @ ev r\<rparr>))"
  by (simp add: wp_def split: prod.split)

text \<open>For statements that hold whatever the environment answers.\<close>

lemma wp_callI: "(\<And>r w. Q r (s\<lparr>world := w, calls := calls s @ ev r\<rparr>)) \<Longrightarrow> wp (call f ev) Q s"
  by (simp add: wp_call split: prod.split)

definition GetSubvolume :: "'w svc \<Rightarrow> string \<Rightarrow> string \<Rightarrow> ('w, go_error + subvolume option) op" where
  "GetSubvolume S filesystem name =
     call (api_GetSubvolume S filesystem name) (\<lambda>r. [Got filesystem name r])"

definition CreateSubvolume :: "'w svc \<Rightarrow> create_params \<Rightarrow> ('w, go_error + subvolume option) op" where
  "CreateSubvolume S params = call (api_CreateSubvolume S params) (\<lambda>r. [Created params r])"

definition DeleteSubvolume :: "'w svc \<Rightarrow> string \<Rightarrow> string \<Rightarrow> ('w, go_error option) op" where
  "DeleteSubvolume S filesystem name =
     call (api_DeleteSubvolume S filesystem name) (\<lambda>r. [Deleted filesystem name r])"

definition CloneSubvolume ::
  "'w svc \<Rightarrow> string \<Rightarrow> string \<Rightarrow> string \<Rightarrow> ('w, go_error + subvolume option) op" where
  "CloneSubvolume S filesystem source name =
     call (api_CloneSubvolume S filesystem source name) (\<lambda>r. [Cloned filesystem name r])"

definition CloneSnapshot ::
  "'w svc \<Rightarrow> string \<Rightarrow> string \<Rightarrow> string \<Rightarrow> string \<Rightarrow> ('w, go_error + subvolume option) op" where
  "CloneSnapshot S filesystem parent snapshot name =
     call (api_CloneSnapshot S filesystem parent snapshot name) (\<lambda>r. [Cloned filesystem name r])"

definition ResizeSubvolume ::
  "'w svc \<Rightarrow> string \<Rightarrow> string \<Rightarrow> uint64 \<Rightarrow> ('w, go_error + subvolume option) op" where
  "ResizeSubvolume S filesystem name bytes =
     call (api_ResizeSubvolume S filesystem name bytes) (\<lambda>r. [Resized filesystem name bytes r])"

definition SetSubvolumeProperties ::
  "'w svc \<Rightarrow> string \<Rightarrow> string \<Rightarrow> props \<Rightarrow> ('w, go_error option) op" where
  "SetSubvolumeProperties S filesystem name ps =
     call (api_SetSubvolumeProperties S filesystem name ps) (\<lambda>r. [PropsSet filesystem name ps r])"

definition retry_context :: "'w svc \<Rightarrow> ('w controller, go_error) retry_env" where
  "retry_context S =
     \<lparr>ctx_Err = quiet (env_ctxErr S), select_after = (\<lambda>d. quiet (env_After S d)),
      is_uncertain = (\<lambda>e. errors_Is e ErrUncertainOutcome)\<rparr>"

lemmas api_defs = GetSubvolume_def CreateSubvolume_def DeleteSubvolume_def CloneSubvolume_def
  CloneSnapshot_def ResizeSubvolume_def SetSubvolumeProperties_def

section \<open>Go helpers shared by the controller files\<close>

text \<open>\<^verbatim>\<open>containsAny\<close> and \<^verbatim>\<open>isNotFoundError\<close> of \<^verbatim>\<open>controller_snapshot.go\<close>.\<close>

definition containsAny :: "string \<Rightarrow> string list \<Rightarrow> bool" where
  "containsAny s substrs = list_ex (str_contains s) substrs"

definition isNotFoundError :: "go_error \<Rightarrow> bool" where
  "isNotFoundError err =
     containsAny (err_text err) [''not found'', ''does not exist'', ''ENOENT'', ''404'']"

text \<open>\<^verbatim>\<open>splitSubvolumeID\<close> of \<^verbatim>\<open>controller_nfs.go\<close>; \<^const>\<open>None\<close> is \<^verbatim>\<open>ErrInvalidVolumeID\<close>.\<close>

definition splitSubvolumeID :: "string \<Rightarrow> (string \<times> string) option" where
  "splitSubvolumeID subvolumeID =
     (case str_index CHR ''/'' subvolumeID of
        None \<Rightarrow> None
      | Some idx \<Rightarrow>
          if idx = length subvolumeID - 1 then None
          else Some (take idx subvolumeID, drop (idx + 1) subvolumeID))"

lemma splitSubvolumeID_Some_iff:
  "splitSubvolumeID s = Some (fs, n) \<longleftrightarrow> s = fs @ ''/'' @ n \<and> CHR ''/'' \<notin> set fs \<and> n \<noteq> []"
proof
  assume "splitSubvolumeID s = Some (fs, n)"
  then obtain i where i: "str_index CHR ''/'' s = Some i" "i \<noteq> length s - 1" "fs = take i s" "n = drop (i + 1) s"
    by (auto simp: splitSubvolumeID_def split: option.splits if_splits)
  with str_index_Some [OF i(1)] show "s = fs @ ''/'' @ n \<and> CHR ''/'' \<notin> set fs \<and> n \<noteq> []"
    by auto
next
  assume "s = fs @ ''/'' @ n \<and> CHR ''/'' \<notin> set fs \<and> n \<noteq> []"
  then show "splitSubvolumeID s = Some (fs, n)"
    by (auto simp: splitSubvolumeID_def str_index_append)
qed

end
