(* ===== verification/Controller_Base.thy ===== *)
theory Controller_Base
  imports Backend_API
begin

text \<open>
  The parts of \<^verbatim>\<open>src/pkg/driver/controller.go\<close> that every protocol uses: requests and metadata,
  the mapping of backend errors to status codes, capacity arithmetic, validation of capabilities,
  the volume context and the lookup of a volume by its identifier.
\<close>

section \<open>Constants, requests, metadata\<close>

definition ProtocolNFS :: string where "ProtocolNFS = ''nfs''"

definition ProtocolNVMeOF :: string where "ProtocolNVMeOF = ''nvmeof''"

definition ProtocolISCSI :: string where "ProtocolISCSI = ''iscsi''"

definition ProtocolSMB :: string where "ProtocolSMB = ''smb''"

lemma protocol_neq [simp]:
  "ProtocolNFS \<noteq> ProtocolNVMeOF" "ProtocolNFS \<noteq> ProtocolISCSI" "ProtocolNFS \<noteq> ProtocolSMB"
  "ProtocolNVMeOF \<noteq> ProtocolNFS" "ProtocolNVMeOF \<noteq> ProtocolISCSI" "ProtocolNVMeOF \<noteq> ProtocolSMB"
  "ProtocolISCSI \<noteq> ProtocolNFS" "ProtocolISCSI \<noteq> ProtocolNVMeOF" "ProtocolISCSI \<noteq> ProtocolSMB"
  "ProtocolSMB \<noteq> ProtocolNFS" "ProtocolSMB \<noteq> ProtocolNVMeOF" "ProtocolSMB \<noteq> ProtocolISCSI"
  "ProtocolNFS \<noteq> []" "ProtocolNVMeOF \<noteq> []" "ProtocolISCSI \<noteq> []" "ProtocolSMB \<noteq> []"
  by (simp_all add: ProtocolNFS_def ProtocolNVMeOF_def ProtocolISCSI_def ProtocolSMB_def)

definition paramFilesystem :: string where "paramFilesystem = ''filesystem''"

definition subvolumeTypeFilesystem :: string where "subvolumeTypeFilesystem = ''filesystem''"

definition subvolumeTypeBlock :: string where "subvolumeTypeBlock = ''block''"

definition defaultServerAddress :: string where "defaultServerAddress = ''defaultServerAddress''"

definition MinVolumeSize :: int where "MinVolumeSize = 2 ^ 30"

definition MaxVolumeSize :: int where "MaxVolumeSize = 256 * 2 ^ 40"

definition MaxInt64 :: int where "MaxInt64 = 2 ^ 63 - 1"

definition VolumeContextValueTrue :: string where "VolumeContextValueTrue = ''true''"

datatype access_mode =
    UNKNOWN | SINGLE_NODE_WRITER | SINGLE_NODE_READER_ONLY
  | MULTI_NODE_READER_ONLY | MULTI_NODE_SINGLE_WRITER | MULTI_NODE_MULTI_WRITER
  | SINGLE_NODE_SINGLE_WRITER | SINGLE_NODE_MULTI_WRITER

text \<open>The \<^verbatim>\<open>oneof\<close> of a capability: a mount with its filesystem type, raw block, or neither.\<close>

datatype access_type = MountAccess string | BlockAccess | NoAccess

record capability =
  cap_mode :: access_mode
  cap_access :: access_type

record capacity_range =
  RequiredBytes :: int
  LimitBytes :: int

datatype content_source = FromSnapshot string | FromVolume string | NoSource

record create_request =
  req_Name :: string
  req_Parameters :: smap
  req_CapacityRange :: "capacity_range option"
  req_VolumeCapabilities :: "capability list"
  req_ContentSource :: "content_source option"

record csi_volume =
  vol_VolumeId :: string
  vol_CapacityBytes :: int
  vol_VolumeContext :: smap
  vol_ContentSource :: "content_source option"

record VolumeMetadata =
  vm_Name :: string
  vm_Protocol :: string
  vm_DatasetID :: string
  vm_DatasetName :: string
  vm_CurrentCapacityBytes :: "uint64 option"
  vm_RecordedCapacityBytes :: "uint64 option"
  vm_Server :: string
  vm_NVMeOFNQN :: string
  vm_ISCSIIQN :: string
  vm_NFSShareUUID :: string
  vm_SMBShareUUID :: string

text \<open>Getters of a possibly absent capacity range (\<^verbatim>\<open>req.GetCapacityRange().GetRequiredBytes()\<close>).\<close>

definition GetRequiredBytes :: "create_request \<Rightarrow> int" where
  "GetRequiredBytes req = (case req_CapacityRange req of None \<Rightarrow> 0 | Some r \<Rightarrow> RequiredBytes r)"

definition GetLimitBytes :: "create_request \<Rightarrow> int" where
  "GetLimitBytes req = (case req_CapacityRange req of None \<Rightarrow> 0 | Some r \<Rightarrow> LimitBytes r)"

section \<open>Errors of the backend\<close>

definition capacityErrorSubstrings :: "string list" where
  "capacityErrorSubstrings =
     [''insufficient space'', ''out of space'', ''not enough space'', ''no space left'', ''ENOSPC'',
      ''quota exceeded'']"

definition isCapacityError :: "go_error option \<Rightarrow> bool" where
  "isCapacityError err =
     (case err of
        None \<Rightarrow> False
      | Some e \<Rightarrow> list_ex (str_contains (to_lower (err_text e))) capacityErrorSubstrings)"

definition createVolumeError :: "go_error \<Rightarrow> failure" where
  "createVolumeError err =
     (if errors_Is err ErrUncertainOutcome then Status Unavailable
      else if isCapacityError (Some err) then Status ResourceExhausted
      else if str_contains (to_lower (err_text err)) ''already exists'' \<or>
              str_contains (to_lower (err_text err)) ''existing subvolume is incompatible''
      then Status AlreadyExists
      else Status Internal)"

section \<open>Volume context\<close>

definition set_if :: "string \<Rightarrow> string \<Rightarrow> smap \<Rightarrow> smap" where
  "set_if key v ctx = (if v \<noteq> [] then fmupd key v ctx else ctx)"

definition buildVolumeContext :: "VolumeMetadata \<Rightarrow> smap" where
  "buildVolumeContext meta =
     (let ctx = fmupd ''protocol'' (vm_Protocol meta) fmempty;
          ctx = set_if ''server'' (vm_Server meta) ctx;
          ctx = set_if ''datasetID'' (vm_DatasetID meta) ctx;
          ctx = set_if ''datasetName'' (vm_DatasetName meta) ctx
      in if vm_Protocol meta = ProtocolNFS then set_if ''nfsShareUUID'' (vm_NFSShareUUID meta) ctx
         else if vm_Protocol meta = ProtocolNVMeOF then set_if ''nqn'' (vm_NVMeOFNQN meta) ctx
         else if vm_Protocol meta = ProtocolISCSI then set_if ''iscsiIQN'' (vm_ISCSIIQN meta) ctx
         else if vm_Protocol meta = ProtocolSMB then set_if ''smbShareUUID'' (vm_SMBShareUUID meta) ctx
         else ctx)"

definition getProtocolFromVolumeContext :: "smap \<Rightarrow> string" where
  "getProtocolFromVolumeContext ctx =
     (if mget ctx ''protocol'' \<noteq> [] then mget ctx ''protocol''
      else if mget ctx ''nqn'' \<noteq> [] then ProtocolNVMeOF
      else if mget ctx ''iscsiIQN'' \<noteq> [] then ProtocolISCSI
      else if mget ctx ''share'' \<noteq> [] then ProtocolNFS
      else ProtocolNFS)"

section \<open>Capacity\<close>

definition authoritativeSubvolumeCapacity :: "subvolume option \<Rightarrow> uint64 option" where
  "authoritativeSubvolumeCapacity subvol =
     (case subvol of
        None \<Rightarrow> None
      | Some sv \<Rightarrow>
          if sv_SubvolumeType sv = subvolumeTypeFilesystem
          then (case sv_QuotaBytes sv of None \<Rightarrow> sv_VolsizeBytes sv | Some q \<Rightarrow> Some q)
          else if sv_SubvolumeType sv = subvolumeTypeBlock then sv_VolsizeBytes sv
          else None)"

definition recordedSubvolumeCapacity :: "subvolume \<Rightarrow> uint64 option" where
  "recordedSubvolumeCapacity sv =
     (case fmlookup (sv_Properties sv) PropertyCapacityBytes of
        None \<Rightarrow> None
      | Some raw \<Rightarrow> map_option of_nat (parse_uint 64 raw))"

datatype capacity_error = errUnsupportedExpandProtocol | errExpansionCapacityTooLarge

definition protocolAlignment :: "string \<Rightarrow> int option" where
  "protocolAlignment protocol =
     (if protocol = ProtocolNFS \<or> protocol = ProtocolSMB then Some 1024
      else if protocol = ProtocolISCSI \<or> protocol = ProtocolNVMeOF then Some 512
      else None)"

definition representableCapacity :: "string \<Rightarrow> int \<Rightarrow> capacity_error + int" where
  "representableCapacity protocol requiredBytes =
     (case protocolAlignment protocol of
        None \<Rightarrow> Inl errUnsupportedExpandProtocol
      | Some alignment \<Rightarrow>
          if requiredBytes > sub64 MaxInt64 (sub64 alignment 1) then Inl errExpansionCapacityTooLarge
          else Inr (mul64 (quot64 (sub64 (add64 requiredBytes alignment) 1) alignment) alignment))"

record expansionPlan =
  targetBytes :: int
  currentBytes :: uint64
  alreadySatisfied :: bool

definition validateExpansionRange :: "int \<Rightarrow> int \<Rightarrow> failure option" where
  "validateExpansionRange requiredBytes limitBytes =
     (if requiredBytes < 0 \<or> limitBytes < 0 then Some (Status InvalidArgument)
      else if limitBytes > 0 \<and> requiredBytes > limitBytes then Some (Status InvalidArgument)
      else if requiredBytes = 0 \<and> limitBytes = 0 then Some (Status InvalidArgument)
      else None)"

definition planGrowth :: "VolumeMetadata \<Rightarrow> int \<Rightarrow> int \<Rightarrow> failure + expansionPlan" where
  "planGrowth meta requiredBytes limitBytes =
     (let allocationBytes = (if requiredBytes < MinVolumeSize then MinVolumeSize else requiredBytes)
      in case representableCapacity (vm_Protocol meta) allocationBytes of
           Inl _ \<Rightarrow> Inl (Status InvalidArgument)
         | Inr target \<Rightarrow>
             if limitBytes > 0 \<and> target > limitBytes then Inl (Status OutOfRange)
             else Inr \<lparr>targetBytes = target, currentBytes = 0, alreadySatisfied = False\<rparr>)"

definition planExpansion :: "VolumeMetadata \<Rightarrow> int \<Rightarrow> int \<Rightarrow> failure + expansionPlan" where
  "planExpansion meta requiredBytes limitBytes =
     (if requiredBytes > MaxVolumeSize then Inl (Status OutOfRange)
      else if vm_Protocol meta \<notin> {ProtocolNFS, ProtocolNVMeOF, ProtocolISCSI, ProtocolSMB}
      then Inl (Status Internal)
      else
        case vm_CurrentCapacityBytes meta of
          Some current \<Rightarrow>
            if uint current > MaxInt64 then Inl (Status OutOfRange)
            else if limitBytes > 0 \<and> to_int64 current > limitBytes then Inl (Status OutOfRange)
            else if to_int64 current \<ge> requiredBytes
            then Inr \<lparr>targetBytes = to_int64 current, currentBytes = current, alreadySatisfied = True\<rparr>
            else planGrowth meta requiredBytes limitBytes
        | None \<Rightarrow>
            if requiredBytes = 0 then Inl (Status InvalidArgument)
            else planGrowth meta requiredBytes limitBytes)"

text \<open>\<^verbatim>\<open>normalizeCreateCapacity\<close> writes the rounded size back into the request.\<close>

definition setRequiredBytes :: "int \<Rightarrow> create_request \<Rightarrow> create_request" where
  "setRequiredBytes b req =
     req\<lparr>req_CapacityRange := Some (case req_CapacityRange req of
           None \<Rightarrow> \<lparr>RequiredBytes = b, LimitBytes = 0\<rparr>
         | Some r \<Rightarrow> r\<lparr>RequiredBytes := b\<rparr>)\<rparr>"

definition normalizeCreateCapacity :: "create_request \<Rightarrow> string \<Rightarrow> failure + create_request" where
  "normalizeCreateCapacity req protocol =
     (let requestedBytes = GetRequiredBytes req; limitBytes = GetLimitBytes req
      in if requestedBytes < 0 \<or> limitBytes < 0 then Inl (Status InvalidArgument)
         else if limitBytes > 0 \<and> requestedBytes > limitBytes then Inl (Status InvalidArgument)
         else
           (let requiredBytes = (if requestedBytes > 0 then requestedBytes else MinVolumeSize);
                requiredBytes = (if requiredBytes < MinVolumeSize then MinVolumeSize else requiredBytes)
            in if requiredBytes > MaxVolumeSize then Inl (Status OutOfRange)
               else case representableCapacity protocol requiredBytes of
                 Inl _ \<Rightarrow> Inl (Status InvalidArgument)
               | Inr target \<Rightarrow>
                   if limitBytes > 0 \<and> target > limitBytes then Inl (Status OutOfRange)
                   else Inr (setRequiredBytes target req)))"

text \<open>\<^verbatim>\<open>parseDataReplicas\<close>.\<close>

definition parseDataReplicas :: "string \<Rightarrow> failure + uint32" where
  "parseDataReplicas val =
     (if val = [] then Inr 0
      else case parse_uint 32 val of
        None \<Rightarrow> Inl (Status InvalidArgument)
      | Some n \<Rightarrow> if n < 1 then Inl (Status InvalidArgument) else Inr (of_nat n))"

section \<open>Capabilities\<close>

definition validateCreateVolumeRequest :: "create_request \<Rightarrow> failure option" where
  "validateCreateVolumeRequest req =
     (if req_Name req = [] then Some (Status InvalidArgument)
      else if req_VolumeCapabilities req = [] then Some (Status InvalidArgument)
      else None)"

definition isMultiNodeMode :: "access_mode \<Rightarrow> bool" where
  "isMultiNodeMode mode =
     (case mode of
        MULTI_NODE_READER_ONLY \<Rightarrow> True
      | MULTI_NODE_SINGLE_WRITER \<Rightarrow> True
      | MULTI_NODE_MULTI_WRITER \<Rightarrow> True
      | _ \<Rightarrow> False)"

definition is_mount :: "access_type \<Rightarrow> bool" where
  "is_mount a = (case a of MountAccess _ \<Rightarrow> True | _ \<Rightarrow> False)"

fun validateAccessModeForProtocol :: "capability list \<Rightarrow> string \<Rightarrow> failure option" where
  "validateAccessModeForProtocol [] protocol = None"
| "validateAccessModeForProtocol (cap # caps) protocol =
     (if \<not> isMultiNodeMode (cap_mode cap) then validateAccessModeForProtocol caps protocol
      else if (protocol = ProtocolNVMeOF \<or> protocol = ProtocolISCSI) \<and> is_mount (cap_access cap)
      then Some (Status InvalidArgument)
      else validateAccessModeForProtocol caps protocol)"

definition fsTypeExt3 :: string where "fsTypeExt3 = ''ext3''"

definition fsTypeExt4 :: string where "fsTypeExt4 = ''ext4''"

definition fsTypeXFS :: string where "fsTypeXFS = ''xfs''"

text \<open>The loop of \<^verbatim>\<open>requestedBlockFilesystem\<close> with its two variables \<^verbatim>\<open>mode\<close> and \<^verbatim>\<open>filesystem\<close>.\<close>

fun blockFilesystemLoop :: "capability list \<Rightarrow> string \<Rightarrow> string \<Rightarrow> failure + string" where
  "blockFilesystemLoop [] mode filesystem = Inr filesystem"
| "blockFilesystemLoop (cap # caps) mode filesystem =
     (let check =
        (case cap_access cap of
           MountAccess t \<Rightarrow>
             (let f = (if t = [] then fsTypeExt4 else t)
              in if f = fsTypeExt3 \<or> f = fsTypeExt4 \<or> f = fsTypeXFS then Inr (''mount'', f)
                 else Inl (Status InvalidArgument))
         | BlockAccess \<Rightarrow> Inr (''block'', [])
         | NoAccess \<Rightarrow> Inl (Status InvalidArgument))
      in case check of
           Inl e \<Rightarrow> Inl e
         | Inr (capMode, capFs) \<Rightarrow>
             if mode \<noteq> [] \<and> mode \<noteq> capMode then Inl (Status InvalidArgument)
             else if filesystem \<noteq> [] \<and> capFs \<noteq> [] \<and> filesystem \<noteq> capFs
             then Inl (Status InvalidArgument)
             else blockFilesystemLoop caps capMode (if capFs \<noteq> [] then capFs else filesystem))"

definition requestedBlockFilesystem :: "capability list \<Rightarrow> failure + string" where
  "requestedBlockFilesystem caps = blockFilesystemLoop caps [] []"

definition validateInitializedBlockFilesystem :: "subvolume \<Rightarrow> string \<Rightarrow> failure option" where
  "validateInitializedBlockFilesystem sv expected =
     (if expected = [] then None
      else case sv_BlockFilesystem sv of
        None \<Rightarrow> Some (Status FailedPrecondition)
      | Some f \<Rightarrow>
          if f = [] then Some (Status FailedPrecondition)
          else if f \<noteq> expected then Some (Status AlreadyExists)
          else case sv_BlockFilesystemUUID sv of
            None \<Rightarrow> Some (Status FailedPrecondition)
          | Some u \<Rightarrow> if u = [] then Some (Status FailedPrecondition) else None)"

definition validateKnownBlockFilesystem :: "subvolume \<Rightarrow> string \<Rightarrow> failure option" where
  "validateKnownBlockFilesystem sv expected =
     (if expected = [] then None
      else case sv_BlockFilesystem sv of
        None \<Rightarrow> None
      | Some f \<Rightarrow> if f \<noteq> expected then Some (Status AlreadyExists) else None)"

definition requiresNodeExpansion :: "string \<Rightarrow> capability option \<Rightarrow> bool" where
  "requiresNodeExpansion protocol cap =
     (if protocol = ProtocolISCSI then True
      else if protocol = ProtocolNVMeOF
      then (case cap of None \<Rightarrow> True | Some c \<Rightarrow> cap_access c \<noteq> BlockAccess)
      else False)"

section \<open>Lookup\<close>

definition isDatasetPathVolumeID :: "string \<Rightarrow> bool" where
  "isDatasetPathVolumeID volumeID = str_contains volumeID ''/''"

definition subvolumeID :: "subvolume \<Rightarrow> string" where
  "subvolumeID sv = sv_Filesystem sv @ ''/'' @ sv_Name sv"

definition extractVolumeMetadataFromSubvolume :: "string \<Rightarrow> subvolume \<Rightarrow> VolumeMetadata option" where
  "extractVolumeMetadataFromSubvolume volumeID sv =
     (if fmlookup (sv_Properties sv) PropertyManagedBy \<noteq> Some ManagedByValue then None
      else Some
        \<lparr>vm_Name = volumeID,
         vm_Protocol = mget (sv_Properties sv) PropertyProtocol,
         vm_DatasetID = subvolumeID sv,
         vm_DatasetName = sv_Name sv,
         vm_CurrentCapacityBytes = authoritativeSubvolumeCapacity (Some sv),
         vm_RecordedCapacityBytes = recordedSubvolumeCapacity sv,
         vm_Server = [], vm_NVMeOFNQN = [], vm_ISCSIIQN = [], vm_NFSShareUUID = [],
         vm_SMBShareUUID = []\<rparr>)"

text \<open>Lookup errors are only ever wrapped into a status by the callers.\<close>

datatype lookup_error = InvalidSubvolumePath | QueryFailed go_error

definition lookupVolumeBySubvolumePath ::
  "'w svc \<Rightarrow> string \<Rightarrow> ('w, lookup_error + VolumeMetadata option) op" where
  "lookupVolumeBySubvolumePath S path =
     (case splitSubvolumeID path of
        None \<Rightarrow> ret (Inl InvalidSubvolumePath)
      | Some (filesystem, name) \<Rightarrow> do {
          r \<leftarrow> GetSubvolume S filesystem name;
          ret (case r of
              Inl err \<Rightarrow> if isNotFoundError err then Inr None else Inl (QueryFailed err)
            | Inr None \<Rightarrow> Inr None
            | Inr (Some sv) \<Rightarrow> Inr (extractVolumeMetadataFromSubvolume path sv))
        })"

definition lookupVolumeByPropertyScan ::
  "'w svc \<Rightarrow> string \<Rightarrow> string \<Rightarrow> ('w, lookup_error + VolumeMetadata option) op" where
  "lookupVolumeByPropertyScan S filesystem volumeName = do {
     r \<leftarrow> quiet (api_FindSubvolumeByCSIVolumeName S filesystem volumeName);
     ret (case r of
         Inl err \<Rightarrow>
           if errors_Is err ErrDatasetNotFound \<or> isNotFoundError err then Inr None
           else Inl (QueryFailed err)
       | Inr None \<Rightarrow> Inr None
       | Inr (Some sv) \<Rightarrow> Inr (extractVolumeMetadataFromSubvolume (subvolumeID sv) sv))
   }"

definition lookupVolumeByCSIName ::
  "'w svc \<Rightarrow> string \<Rightarrow> ('w, lookup_error + VolumeMetadata option) op" where
  "lookupVolumeByCSIName S volumeName =
     (if isDatasetPathVolumeID volumeName then lookupVolumeBySubvolumePath S volumeName
      else lookupVolumeByPropertyScan S [] volumeName)"

text \<open>\<^verbatim>\<open>pvcHasAdoptableAnnotation\<close>; without a Kubernetes client the answer is no.\<close>

definition AnnotationAdoptable :: string where
  "AnnotationAdoptable = ''nasty-csi.io/adoptable''"

definition pvcHasAdoptableAnnotation :: "'w svc \<Rightarrow> smap \<Rightarrow> ('w, bool) op" where
  "pvcHasAdoptableAnnotation S params =
     (if \<not> svc_kubeClient S then ret False
      else if mget params CSIPVCName = [] \<or> mget params CSIPVCNamespace = [] then ret False
      else do {
        r \<leftarrow> quiet (env_pvcAnnotations S (mget params CSIPVCNamespace) (mget params CSIPVCName));
        ret (case r of
            Inl _ \<Rightarrow> False
          | Inr annotations \<Rightarrow> mget annotations AnnotationAdoptable = VolumeContextValueTrue)
      })"

text \<open>The metrics package's volume capacity gauge, keyed by volume and protocol.\<close>

definition SetVolumeCapacity :: "string \<Rightarrow> string \<Rightarrow> int \<Rightarrow> ('w, unit) op" where
  "SetVolumeCapacity volumeID protocol bytes =
     State (\<lambda>s. ((), s\<lparr>volumeCapacity := fmupd (volumeID, protocol) bytes (volumeCapacity s)\<rparr>))"

definition DeleteVolumeCapacity :: "string \<Rightarrow> string \<Rightarrow> ('w, unit) op" where
  "DeleteVolumeCapacity volumeID protocol =
     State (\<lambda>s. ((), s\<lparr>volumeCapacity := fmdrop (volumeID, protocol) (volumeCapacity s)\<rparr>))"

lemma wp_SetVolumeCapacity [wp_rules]:
  "wp (SetVolumeCapacity v p b) Q s = Q () (s\<lparr>volumeCapacity := fmupd (v, p) b (volumeCapacity s)\<rparr>)"
  by (simp add: wp_def SetVolumeCapacity_def)

lemma wp_DeleteVolumeCapacity [wp_rules]:
  "wp (DeleteVolumeCapacity v p) Q s = Q () (s\<lparr>volumeCapacity := fmdrop (v, p) (volumeCapacity s)\<rparr>)"
  by (simp add: wp_def DeleteVolumeCapacity_def)

end
