(* ===== verification/Capacity_Checks.thy ===== *)
theory Capacity_Checks
  imports Controller_Base
begin

text \<open>
  Properties of the checks every controller operation starts with (\<open>Controller_Base\<close>): capacity
  rounding and planning, the filesystem a set of capabilities asks for, the classification of
  backend errors.
\<close>

section \<open>Rounding\<close>

lemma wrap64_wrap64_sub: "wrap64 (wrap64 x - y) = wrap64 (x - y)"
proof -
  have "((x + 2 ^ 63) mod 2 ^ 64 - y) mod 2 ^ 64 = (x + 2 ^ 63 - y) mod (2 ^ 64 :: int)"
    by (rule mod_diff_left_eq)
  moreover have "wrap64 x - y + 2 ^ 63 = (x + 2 ^ 63) mod 2 ^ 64 - y"
    by (simp add: wrap64_def)
  ultimately show ?thesis
    unfolding wrap64_def [of "wrap64 x - y"] wrap64_def [of "x - y"]
    by (simp add: algebra_simps)
qed

lemma protocolAlignment_values: "protocolAlignment p = Some a \<Longrightarrow> a = 1024 \<or> a = 512"
  by (auto simp: protocolAlignment_def split: if_splits)

definition round_up :: "int \<Rightarrow> int \<Rightarrow> int" where
  "round_up a r = ((r + a - 1) div a) * a"

lemma round_up_bounds:
  assumes "0 < a"
  shows "r \<le> round_up a r" "round_up a r < r + a" "a dvd round_up a r"
proof -
  have e: "round_up a r = r + a - 1 - (r + a - 1) mod a"
    unfolding round_up_def by (simp add: minus_mod_eq_div_mult)
  have "0 \<le> (r + a - 1) mod a" "(r + a - 1) mod a < a" using assms by simp_all
  with e show "r \<le> round_up a r" "round_up a r < r + a" by linarith+
  show "a dvd round_up a r" by (simp add: round_up_def)
qed

lemma round_up_least:
  assumes "0 < a" "r \<le> m" "a dvd m"
  shows "round_up a r \<le> m"
proof -
  from assms(3) round_up_bounds(3) [OF assms(1)] have "a dvd m - round_up a r" by (rule dvd_diff)
  then obtain j where j: "m - round_up a r = a * j" ..
  from round_up_bounds(2) [OF assms(1), of r] assms(2) j have "a * (- 1) < a * j" by linarith
  with assms(1) have "- 1 < j" using mult_less_cancel_left_pos by blast
  then have "0 \<le> a * j" using assms(1) by simp
  with j show ?thesis by linarith
qed

lemma representableCapacity_round_up:
  assumes "int64 r" "0 \<le> r" and a: "protocolAlignment p = Some a"
    and ok: "representableCapacity p r = Inr t"
  shows "t = round_up a r" "int64 t"
proof -
  from protocolAlignment_values [OF a] have av: "a = 1024 \<or> a = 512" .
  have small: "sub64 MaxInt64 (sub64 a 1) = 2 ^ 63 - a"
    using av by (auto simp: sub64_def MaxInt64_def wrap64_def)
  from ok a small have le: "r \<le> 2 ^ 63 - a"
    and t: "t = mul64 (quot64 (sub64 (add64 r a) 1) a) a"
    by (auto simp: representableCapacity_def split: if_splits)
  have in_range: "int64 (r + a - 1)" using le assms(2) av by (auto simp: int64_def)
  have sum: "sub64 (add64 r a) 1 = r + a - 1"
    unfolding sub64_def add64_def wrap64_wrap64_sub using in_range by simp
  have pos: "0 \<le> r + a - 1" "0 < a" using assms(2) av by auto
  have q0: "0 \<le> (r + a - 1) div a" using pos by (simp add: pos_imp_zdiv_nonneg_iff)
  have qle: "(r + a - 1) div a * a \<le> r + a - 1"
    using pos_mod_sign [OF pos(2), of "r + a - 1"] minus_mod_eq_div_mult [of "r + a - 1" a] by linarith
  have qle1: "(r + a - 1) div a \<le> r + a - 1"
    using mult_left_mono [of 1 a, OF _ q0] pos(2) qle by simp
  have sgn: "sgn (r + a - 1) * sgn a * (\<bar>r + a - 1\<bar> div \<bar>a\<bar>) = (r + a - 1) div a"
    using pos by (cases "r + a - 1 = 0") auto
  have "quot64 (r + a - 1) a = (r + a - 1) div a"
    unfolding quot64_def sgn using q0 qle1 in_range by (intro wrap64_id) (auto simp: int64_def)
  moreover have "int64 ((r + a - 1) div a * a)"
    using q0 qle pos in_range by (auto simp: int64_def intro: order_trans [OF _ mult_nonneg_nonneg])
  ultimately show "t = round_up a r" "int64 t"
    unfolding t sum by (simp_all add: mul64_def round_up_def)
qed

text \<open>
  C20: the smallest representable capacity. For every non-negative \<^verbatim>\<open>int64\<close> request the rounding is
  exact despite wrap-around in its intermediate sum: the result is an \<^verbatim>\<open>int64\<close>, a multiple of the
  protocol's alignment, at least the request, and no smaller multiple satisfies the request. It
  fails only for an unknown protocol or within one alignment of the largest \<^verbatim>\<open>int64\<close>.
\<close>

theorem representableCapacity_correct:
  assumes "int64 r" "0 \<le> r"
  shows "case representableCapacity p r of
      Inl errUnsupportedExpandProtocol \<Rightarrow> protocolAlignment p = None
    | Inl errExpansionCapacityTooLarge \<Rightarrow> (\<exists>a. protocolAlignment p = Some a \<and> MaxInt64 - (a - 1) < r)
    | Inr t \<Rightarrow> (\<exists>a. protocolAlignment p = Some a \<and> int64 t \<and> a dvd t \<and> r \<le> t \<and>
        (\<forall>m. a dvd m \<and> r \<le> m \<longrightarrow> t \<le> m))"
proof (cases "protocolAlignment p")
  case None
  then show ?thesis by (simp add: representableCapacity_def)
next
  case (Some a)
  from protocolAlignment_values [OF Some] have "0 < a" by auto
  have small: "sub64 MaxInt64 (sub64 a 1) = MaxInt64 - (a - 1)"
    using protocolAlignment_values [OF Some] by (auto simp: sub64_def MaxInt64_def wrap64_def)
  show ?thesis
  proof (cases "representableCapacity p r")
    case (Inl e)
    with Some small show ?thesis by (auto simp: representableCapacity_def split: if_splits)
  next
    case (Inr t)
    from representableCapacity_round_up [OF assms Some Inr] round_up_bounds [OF \<open>0 < a\<close>]
      round_up_least [OF \<open>0 < a\<close>] Some Inr
    show ?thesis by auto
  qed
qed

theorem representableCapacity_correct_witness:
  "representableCapacity ProtocolNFS 1073741825 = Inr 1073742848 \<and> 1024 dvd (1073742848 :: int) \<and>
   representableCapacity ProtocolNFS (2 ^ 63 - 1024) = Inr (2 ^ 63 - 1024)"
proof -
  have v: "representableCapacity ProtocolNFS 1073741825 = Inr 1073742848"
    "protocolAlignment ProtocolNFS = Some 1024"
    by (simp_all add: representableCapacity_def protocolAlignment_def sub64_def add64_def mul64_def
        quot64_def MaxInt64_def wrap64_def)
  have w: "representableCapacity ProtocolNFS (2 ^ 63 - 1024) = Inr (2 ^ 63 - 1024)"
    by (simp add: representableCapacity_def protocolAlignment_def sub64_def add64_def mul64_def
        quot64_def MaxInt64_def wrap64_def)
  have "int64 1073741825" "(0::int) \<le> 1073741825" by (simp_all add: int64_def)
  from representableCapacity_correct [OF this, of ProtocolNFS] v w show ?thesis by simp
qed

section \<open>Create and expand requests\<close>

definition request_in_range :: "create_request \<Rightarrow> bool" where
  "request_in_range req \<longleftrightarrow> int64 (GetRequiredBytes req) \<and> int64 (GetLimitBytes req)"

lemma GetBytes_setRequiredBytes [simp]:
  "GetRequiredBytes (setRequiredBytes b req) = b"
  "GetLimitBytes (setRequiredBytes b req) = GetLimitBytes req"
  by (simp_all add: GetRequiredBytes_def GetLimitBytes_def setRequiredBytes_def split: option.split)

lemma round_up_fixed: "0 < a \<Longrightarrow> a dvd r \<Longrightarrow> round_up a r = r"
  using round_up_bounds(1) [of a r] round_up_least [of a r r] by simp

lemma representableCapacity_ok:
  assumes "0 \<le> r" "r \<le> MaxVolumeSize" and a: "protocolAlignment p = Some a"
  shows "representableCapacity p r = Inr (round_up a r)"
proof -
  have "int64 r" using assms(1,2) by (simp add: int64_def MaxVolumeSize_def)
  moreover have "\<exists>t. representableCapacity p r = Inr t"
    using assms protocolAlignment_values [OF a]
    by (auto simp: representableCapacity_def MaxVolumeSize_def sub64_def MaxInt64_def wrap64_def)
  ultimately show ?thesis using representableCapacity_round_up(1) [OF _ assms(1) a] by auto
qed

lemma normalizeCreateCapacity_cases:
  assumes "normalizeCreateCapacity req p = Inr req'"
  obtains a where "protocolAlignment p = Some a" "0 \<le> GetRequiredBytes req" "0 \<le> GetLimitBytes req"
    "req' = setRequiredBytes (round_up a (max MinVolumeSize (GetRequiredBytes req))) req"
    "max MinVolumeSize (GetRequiredBytes req) \<le> MaxVolumeSize"
    "GetLimitBytes req = 0 \<or> round_up a (max MinVolumeSize (GetRequiredBytes req)) \<le> GetLimitBytes req"
proof -
  let ?m = "max MinVolumeSize (GetRequiredBytes req)"
  have req: "(let requiredBytes = if 0 < GetRequiredBytes req then GetRequiredBytes req else MinVolumeSize
      in if requiredBytes < MinVolumeSize then MinVolumeSize else requiredBytes) = ?m"
    by (simp add: Let_def MinVolumeSize_def max_def)
  from assms have le: "?m \<le> MaxVolumeSize" and nn: "0 \<le> GetRequiredBytes req" "0 \<le> GetLimitBytes req"
    using req by (auto simp: normalizeCreateCapacity_def Let_def split: if_splits)
  from assms le have "\<exists>a. protocolAlignment p = Some a"
    by (auto simp: normalizeCreateCapacity_def Let_def representableCapacity_def
        split: if_splits option.splits sum.splits)
  then obtain a where a: "protocolAlignment p = Some a" ..
  have m0: "0 \<le> ?m" by (simp add: MinVolumeSize_def max_def)
  from representableCapacity_ok [OF m0 le a] assms req nn
  have "req' = setRequiredBytes (round_up a ?m) req"
    "GetLimitBytes req = 0 \<or> round_up a ?m \<le> GetLimitBytes req"
    by (auto simp: normalizeCreateCapacity_def Let_def split: if_splits)
  with a nn le that show thesis by blast
qed

lemma round_up_le_MaxVolumeSize: "protocolAlignment p = Some a \<Longrightarrow> r \<le> MaxVolumeSize \<Longrightarrow> round_up a r \<le> MaxVolumeSize"
  by (rule round_up_least) (auto dest!: protocolAlignment_values simp: MaxVolumeSize_def)

text \<open>
  C21: a create request that passes \<^verbatim>\<open>normalizeCreateCapacity\<close> asks for the least size that is aligned
  for the protocol and at least both the request and the 1 GiB minimum; the size stays within the
  backend maximum and the caller's limit; nothing but the required size is changed; and a second
  pass, as the clone paths make it, changes nothing.
\<close>

theorem normalizeCreateCapacity_correct:
  assumes "normalizeCreateCapacity req p = Inr req'"
  shows "\<exists>a. protocolAlignment p = Some a \<and>
      a dvd GetRequiredBytes req' \<and>
      max MinVolumeSize (GetRequiredBytes req) \<le> GetRequiredBytes req' \<and>
      (\<forall>m. a dvd m \<and> max MinVolumeSize (GetRequiredBytes req) \<le> m \<longrightarrow> GetRequiredBytes req' \<le> m) \<and>
      GetRequiredBytes req' \<le> MaxVolumeSize \<and>
      (GetLimitBytes req = 0 \<or> GetRequiredBytes req' \<le> GetLimitBytes req) \<and>
      req' = setRequiredBytes (GetRequiredBytes req') req \<and>
      normalizeCreateCapacity req' p = Inr req'"
proof -
  from assms obtain a where a: "protocolAlignment p = Some a" "0 \<le> GetRequiredBytes req" "0 \<le> GetLimitBytes req"
    "req' = setRequiredBytes (round_up a (max MinVolumeSize (GetRequiredBytes req))) req"
    "max MinVolumeSize (GetRequiredBytes req) \<le> MaxVolumeSize"
    "GetLimitBytes req = 0 \<or> round_up a (max MinVolumeSize (GetRequiredBytes req)) \<le> GetLimitBytes req"
    by (rule normalizeCreateCapacity_cases)
  let ?m = "max MinVolumeSize (GetRequiredBytes req)" let ?t = "round_up a ?m"
  have pos: "0 < a" using protocolAlignment_values [OF a(1)] by auto
  note b = round_up_bounds [OF pos, of ?m]
  have tmin: "MinVolumeSize \<le> ?t" using b(1) by linarith
  then have t0: "0 < ?t" by (simp add: MinVolumeSize_def)
  have tmax: "?t \<le> MaxVolumeSize" using a(1,5) by (rule round_up_le_MaxVolumeSize)
  have again: "representableCapacity p ?t = Inr ?t"
    using representableCapacity_ok [OF _ tmax a(1)] t0 round_up_fixed [OF pos b(3)] by simp
  have "setRequiredBytes ?t req' = req'"
    unfolding a(4) by (simp add: setRequiredBytes_def split: option.split)
  then have "normalizeCreateCapacity req' p = Inr req'"
    using a(3,4,6) tmin t0 tmax again
    by (auto simp: normalizeCreateCapacity_def Let_def)
  with a b tmax round_up_least [OF pos, of ?m] show ?thesis by auto
qed

theorem normalizeCreateCapacity_correct_witness:
  "let req = \<lparr>req_Name = ''pvc-1'', req_Parameters = fmempty,
              req_CapacityRange = Some \<lparr>RequiredBytes = 1073741825, LimitBytes = 2000000000\<rparr>,
              req_VolumeCapabilities = [], req_ContentSource = None\<rparr>;
       req' = setRequiredBytes 1073742336 req
   in normalizeCreateCapacity req ProtocolISCSI = Inr req' \<and>
      (\<exists>a. protocolAlignment ProtocolISCSI = Some a \<and> a dvd GetRequiredBytes req') \<and>
      normalizeCreateCapacity req' ProtocolISCSI = Inr req'"
proof -
  let ?req = "\<lparr>req_Name = ''pvc-1'', req_Parameters = fmempty,
              req_CapacityRange = Some \<lparr>RequiredBytes = 1073741825, LimitBytes = 2000000000\<rparr>,
              req_VolumeCapabilities = [], req_ContentSource = None\<rparr>"
  have n: "normalizeCreateCapacity ?req ProtocolISCSI = Inr (setRequiredBytes 1073742336 ?req)"
    by (simp add: normalizeCreateCapacity_def GetRequiredBytes_def GetLimitBytes_def Let_def
        MinVolumeSize_def MaxVolumeSize_def representableCapacity_def protocolAlignment_def
        sub64_def add64_def mul64_def quot64_def MaxInt64_def wrap64_def)
  from n normalizeCreateCapacity_correct [OF n] show ?thesis by (auto simp: Let_def)
qed

lemma planGrowth_plan:
  assumes g: "planGrowth meta r l = Inr plan" and nn: "0 \<le> r" "0 \<le> l" and r_le: "r \<le> MaxVolumeSize"
  shows "r \<le> targetBytes plan \<and> (l = 0 \<or> targetBytes plan \<le> l) \<and> int64 (targetBytes plan) \<and>
      \<not> alreadySatisfied plan \<and> MinVolumeSize \<le> targetBytes plan \<and>
      (\<exists>a. protocolAlignment (vm_Protocol meta) = Some a \<and> a dvd targetBytes plan)"
proof -
  let ?m = "max MinVolumeSize r"
  have m: "0 \<le> ?m" "?m \<le> MaxVolumeSize" using r_le by (auto simp: MinVolumeSize_def MaxVolumeSize_def)
  have eq: "(if r < MinVolumeSize then MinVolumeSize else r) = ?m" by auto
  from g obtain a where a: "protocolAlignment (vm_Protocol meta) = Some a"
    by (auto simp: planGrowth_def Let_def representableCapacity_def split: option.splits if_splits)
  have pos: "0 < a" using protocolAlignment_values [OF a] by auto
  from g representableCapacity_ok [OF m a] eq
  have "targetBytes plan = round_up a ?m" "\<not> alreadySatisfied plan" "\<not> (0 < l \<and> round_up a ?m > l)"
    by (auto simp: planGrowth_def Let_def split: if_splits)
  with round_up_bounds [OF pos, of ?m] round_up_le_MaxVolumeSize [OF a m(2)] a nn
  show ?thesis by (auto simp: int64_def MaxVolumeSize_def)
qed

lemma planExpansion_plan:
  assumes "validateExpansionRange r l = None" and "planExpansion meta r l = Inr plan"
  shows "r \<le> targetBytes plan \<and> (l = 0 \<or> targetBytes plan \<le> l) \<and> int64 (targetBytes plan) \<and>
    (\<forall>c. vm_CurrentCapacityBytes meta = Some c \<longrightarrow> uint c \<le> targetBytes plan) \<and>
    (alreadySatisfied plan \<longleftrightarrow> (\<exists>c. vm_CurrentCapacityBytes meta = Some c \<and> r \<le> uint c)) \<and>
    (if alreadySatisfied plan then uint (currentBytes plan) = targetBytes plan
     else MinVolumeSize \<le> targetBytes plan \<and>
       (\<exists>a. protocolAlignment (vm_Protocol meta) = Some a \<and> a dvd targetBytes plan))"
proof -
  from assms(1) have nn: "0 \<le> r" "0 \<le> l" by (auto simp: validateExpansionRange_def split: if_splits)
  have small: "to_int64 c = uint c" if "\<not> MaxInt64 < uint c" for c
    using that by (intro to_int64_small) (simp add: MaxInt64_def)
  from assms(2) have r_le: "r \<le> MaxVolumeSize" by (auto simp: planExpansion_def split: if_splits)
  note growth = planGrowth_plan [OF _ nn r_le]
  show ?thesis
  proof (cases "vm_CurrentCapacityBytes meta")
    case None
    with assms(2) have "planGrowth meta r l = Inr plan"
      by (auto simp: planExpansion_def split: if_splits)
    from growth [OF this] None show ?thesis by simp
  next
    case (Some c)
    with assms(2) have c: "\<not> MaxInt64 < uint c" "\<not> (0 < l \<and> to_int64 c > l)"
      by (auto simp: planExpansion_def split: if_splits)
    note cu = small [OF c(1)]
    show ?thesis
    proof (cases "r \<le> uint c")
      case True
      with Some assms(2) c cu
      have "plan = \<lparr>targetBytes = uint c, currentBytes = c, alreadySatisfied = True\<rparr>"
        by (auto simp: planExpansion_def split: if_splits)
      with Some True c cu nn show ?thesis by (auto simp: int64_def MaxInt64_def)
    next
      case False
      with Some assms(2) c cu have "planGrowth meta r l = Inr plan"
        by (auto simp: planExpansion_def split: if_splits)
      from growth [OF this] Some False show ?thesis by auto
    qed
  qed
qed

text \<open>
  C22: the planner of an expansion. With a validated range, every plan it returns reaches the
  required size, stays within the limit and never shrinks the volume; it is marked as already
  satisfied exactly when the backend's size is known and large enough, and then its target is that
  size; a plan that grows the volume has an aligned target of at least 1 GiB.
\<close>

theorem planExpansion_correct:
  assumes "validateExpansionRange r l = None" "int64 r" "int64 l"
    and "planExpansion meta r l = Inr plan"
  shows "r \<le> targetBytes plan \<and> (l = 0 \<or> targetBytes plan \<le> l) \<and> int64 (targetBytes plan) \<and>
    (\<forall>c. vm_CurrentCapacityBytes meta = Some c \<longrightarrow> uint c \<le> targetBytes plan) \<and>
    (alreadySatisfied plan \<longleftrightarrow> (\<exists>c. vm_CurrentCapacityBytes meta = Some c \<and> r \<le> uint c)) \<and>
    (if alreadySatisfied plan then uint (currentBytes plan) = targetBytes plan
     else MinVolumeSize \<le> targetBytes plan \<and>
       (\<exists>a. protocolAlignment (vm_Protocol meta) = Some a \<and> a dvd targetBytes plan))"
  using planExpansion_plan [OF assms(1,4)] .

theorem planExpansion_correct_witness:
  "let meta = \<lparr>vm_Name = ''tank/pvc-1'', vm_Protocol = ProtocolNFS, vm_DatasetID = ''tank/pvc-1'',
               vm_DatasetName = ''pvc-1'', vm_CurrentCapacityBytes = Some 1073741824,
               vm_RecordedCapacityBytes = None, vm_Server = [], vm_NVMeOFNQN = [], vm_ISCSIIQN = [],
               vm_NFSShareUUID = [], vm_SMBShareUUID = []\<rparr>;
       plan = \<lparr>targetBytes = 2147483648, currentBytes = 0, alreadySatisfied = False\<rparr>
   in validateExpansionRange 2147483000 0 = None \<and>
      planExpansion meta 2147483000 0 = Inr plan \<and> 2147483000 \<le> targetBytes plan"
proof -
  let ?meta = "\<lparr>vm_Name = ''tank/pvc-1'', vm_Protocol = ProtocolNFS, vm_DatasetID = ''tank/pvc-1'',
               vm_DatasetName = ''pvc-1'', vm_CurrentCapacityBytes = Some 1073741824,
               vm_RecordedCapacityBytes = None, vm_Server = [], vm_NVMeOFNQN = [], vm_ISCSIIQN = [],
               vm_NFSShareUUID = [], vm_SMBShareUUID = []\<rparr>"
  let ?plan = "\<lparr>targetBytes = 2147483648, currentBytes = 0, alreadySatisfied = False\<rparr>"
  have p: "planExpansion ?meta 2147483000 0 = Inr ?plan"
    by (simp add: planExpansion_def planGrowth_def Let_def MinVolumeSize_def MaxVolumeSize_def
        representableCapacity_def protocolAlignment_def sub64_def add64_def mul64_def quot64_def
        MaxInt64_def wrap64_def to_int64_def)
  have v: "validateExpansionRange 2147483000 0 = None" "int64 2147483000" "int64 0"
    by (simp_all add: validateExpansionRange_def int64_def)
  from v p planExpansion_correct [OF v p] show ?thesis by (simp add: Let_def)
qed

section \<open>Capabilities and backend errors\<close>

definition wants_filesystem :: "string \<Rightarrow> capability \<Rightarrow> bool" where
  "wants_filesystem fs c \<longleftrightarrow> cap_access c = MountAccess fs \<or> fs = fsTypeExt4 \<and> cap_access c = MountAccess []"

lemma fsType_neq [simp]:
  "fsTypeExt3 \<noteq> []" "fsTypeExt4 \<noteq> []" "fsTypeXFS \<noteq> []"
  "[] \<noteq> fsTypeExt3" "[] \<noteq> fsTypeExt4" "[] \<noteq> fsTypeXFS"
  "fsTypeExt3 \<noteq> fsTypeExt4" "fsTypeExt3 \<noteq> fsTypeXFS" "fsTypeExt4 \<noteq> fsTypeXFS"
  "fsTypeExt4 \<noteq> fsTypeExt3" "fsTypeXFS \<noteq> fsTypeExt3" "fsTypeXFS \<noteq> fsTypeExt4"
  by (simp_all add: fsTypeExt3_def fsTypeExt4_def fsTypeXFS_def)

lemma blockFilesystemLoop_mount:
  assumes "f \<in> {fsTypeExt3, fsTypeExt4, fsTypeXFS}"
  shows "blockFilesystemLoop caps ''mount'' f = Inr fs \<longleftrightarrow> fs = f \<and> list_all (wants_filesystem f) caps"
  using assms
proof (induction caps)
  case Nil
  then show ?case by auto
next
  case (Cons c caps)
  then show ?case
    by (cases "cap_access c") (auto simp: Let_def wants_filesystem_def)
qed

lemma blockFilesystemLoop_block:
  "blockFilesystemLoop caps ''block'' [] = Inr fs \<longleftrightarrow> fs = [] \<and> list_all (\<lambda>c. cap_access c = BlockAccess) caps"
proof (induction caps)
  case (Cons c caps)
  then show ?case by (cases "cap_access c") (auto simp: Let_def)
qed auto

text \<open>
  Which filesystem a set of capabilities asks for. \<^verbatim>\<open>requestedBlockFilesystem\<close> answers the empty
  string exactly when every capability is raw block, and a filesystem exactly when it is one of
  ext3, ext4 and xfs and every capability mounts it (an unset type counting as ext4); any mixture
  of presentations or types, any other type and a capability with neither presentation is refused.
\<close>

theorem requestedBlockFilesystem_spec:
  "requestedBlockFilesystem caps = Inr fs \<longleftrightarrow>
     fs = [] \<and> list_all (\<lambda>c. cap_access c = BlockAccess) caps \<or>
     caps \<noteq> [] \<and> fs \<in> {fsTypeExt3, fsTypeExt4, fsTypeXFS} \<and> list_all (wants_filesystem fs) caps"
proof (cases caps)
  case Nil
  then show ?thesis by (auto simp: requestedBlockFilesystem_def)
next
  case (Cons c cs)
  show ?thesis
  proof (cases "cap_access c")
    case (MountAccess t)
    with Cons show ?thesis
      by (auto simp: requestedBlockFilesystem_def Let_def blockFilesystemLoop_mount wants_filesystem_def)
  next
    case BlockAccess
    with Cons show ?thesis
      by (auto simp: requestedBlockFilesystem_def Let_def blockFilesystemLoop_block wants_filesystem_def)
  next
    case NoAccess
    with Cons show ?thesis by (auto simp: requestedBlockFilesystem_def Let_def wants_filesystem_def)
  qed
qed

lemma to_lower_char_not_E: "to_lower_char c \<noteq> CHR ''E''"
proof
  assume e: "to_lower_char c = CHR ''E''"
  show False
  proof (cases "CHR ''A'' \<le> c \<and> c \<le> CHR ''Z''")
    case True
    then have "of_char c \<in> {65..90::nat}" by (simp add: less_eq_char_def)
    with True e have "char_of (of_char c + 32 :: nat) = CHR ''E''" "(of_char c + 32 :: nat) \<ge> 97" "(of_char c + 32 :: nat) < 256"
      by (simp_all add: to_lower_char_def)
    then have "(of_char c + 32 :: nat) = of_char (CHR ''E'')" by (metis of_char_of mod_less)
    with \<open>(of_char c + 32 :: nat) \<ge> 97\<close> show False by simp
  next
    case False
    with e show False by (auto simp: to_lower_char_def less_eq_char_def)
  qed
qed

lemma lower_never_ENOSPC: "\<not> str_contains (to_lower s) ''ENOSPC''"
proof
  assume "str_contains (to_lower s) ''ENOSPC''"
  then have "CHR ''E'' \<in> set (to_lower s)" by (auto simp: str_contains_def sublist_def)
  then show False using to_lower_char_not_E by (auto simp: to_lower_def) metis
qed

text \<open>
  The list of capacity-error patterns has a dead entry. Since the text is lower-cased before
  the search, the upper-case pattern \<^verbatim>\<open>ENOSPC\<close> can never match: only the other five classify an
  error as a capacity error, and a backend error that says just \<^verbatim>\<open>ENOSPC\<close> is answered with
  \<^verbatim>\<open>Internal\<close> instead of \<^verbatim>\<open>ResourceExhausted\<close>.
\<close>

theorem ENOSPC_never_matches:
  "isCapacityError (Some e) \<longleftrightarrow>
     list_ex (str_contains (to_lower (err_text e)))
       [''insufficient space'', ''out of space'', ''not enough space'', ''no space left'', ''quota exceeded''] \<and>
   createVolumeError \<lparr>err_text = ''ENOSPC'', err_chain = [], err_net_timeout = False\<rparr> = Status Internal"
proof -
  have "createVolumeError \<lparr>err_text = ''ENOSPC'', err_chain = [], err_net_timeout = False\<rparr> = Status Internal"
    by code_simp
  then show ?thesis
    using lower_never_ENOSPC [of "err_text e"]
    by (auto simp: isCapacityError_def capacityErrorSubstrings_def)
qed

end
