(* ===== verification/Volume_Identity.thy ===== *)
theory Volume_Identity
  imports Controller_Base
begin

text \<open>
  Ownership of backend volumes (\<^verbatim>\<open>src/pkg/driver/volume_identity.go\<close>): the version-2 identity a
  volume carries in its properties, the decision whether an existing volume belongs to a create
  request, writing the identity, rolling a fresh subvolume back, and the identity of clones.

  A subvolume pointer whose properties the code overwrites is returned updated.
\<close>

section \<open>Identity properties\<close>

definition identityVersion2 :: string where
  "identityVersion2 = ''2''"

record volumeIdentityDecision =
  vid_properties :: "props option"
  vid_persist :: bool

definition noDecision :: volumeIdentityDecision where
  "noDecision = \<lparr>vid_properties = None, vid_persist = False\<rparr>"

text \<open>\<^verbatim>\<open>%x\<close> of a byte slice.\<close>

definition hex_digit :: "8 word \<Rightarrow> char" where
  "hex_digit n = ''0123456789abcdef'' ! unat n"

definition hex_bytes :: "8 word list \<Rightarrow> string" where
  "hex_bytes bs = concat (map (\<lambda>b. [hex_digit (b div 16), hex_digit (b mod 16)]) bs)"

text \<open>The 16 bytes after the version and the variant bits are set, and their rendering.\<close>

definition stampUUID :: "8 word list \<Rightarrow> 8 word list" where
  "stampUUID value =
     (let value = value[6 := or (and (value ! 6) 0x0f) 0x40]
      in value[8 := or (and (value ! 8) 0x3f) 0x80])"

definition formatUUID :: "8 word list \<Rightarrow> string" where
  "formatUUID value =
     hex_bytes (take 4 value) @ ''-'' @ hex_bytes (take 2 (drop 4 value)) @ ''-'' @
     hex_bytes (take 2 (drop 6 value)) @ ''-'' @ hex_bytes (take 2 (drop 8 value)) @ ''-'' @
     hex_bytes (take 6 (drop 10 value))"

text \<open>\<^verbatim>\<open>rand.Read\<close> fills a zeroed 16-byte array.\<close>

definition byteArray16 :: "8 word list \<Rightarrow> 8 word list" where
  "byteArray16 bs = take 16 (bs @ replicate 16 0)"

definition newVolumeUUID :: "'w svc \<Rightarrow> ('w, go_error + string) op" where
  "newVolumeUUID S = do {
     r \<leftarrow> quiet (env_randRead S);
     ret (case r of
         Inl err \<Rightarrow> Inl err
       | Inr bs \<Rightarrow> Inr (formatUUID (stampUUID (byteArray16 bs))))
   }"

definition identity_map :: "string \<Rightarrow> string \<Rightarrow> string \<Rightarrow> string \<Rightarrow> props" where
  "identity_map requestName backendName protocol uuid =
     fmap_of_list
       [(PropertyCSIVolumeName, backendName), (PropertyProtocol, protocol),
        (propertyCSIRequestName, requestName), (propertyVolumeUUID, uuid),
        (propertyIdentityVersion, identityVersion2)]"

definition identityProperties ::
  "'w svc \<Rightarrow> props \<Rightarrow> string \<Rightarrow> string \<Rightarrow> string \<Rightarrow> ('w, go_error + props) op" where
  "identityProperties S existing requestName backendName protocol =
     (if mget existing propertyVolumeUUID = [] then do {
        r \<leftarrow> newVolumeUUID S;
        ret (case r of
            Inl err \<Rightarrow> Inl err
          | Inr uuid \<Rightarrow> Inr (identity_map requestName backendName protocol uuid))
      }
      else ret (Inr (identity_map requestName backendName protocol (mget existing propertyVolumeUUID))))"

definition mergeProperties :: "props \<Rightarrow> props \<Rightarrow> props" where
  "mergeProperties base extra = base ++\<^sub>f extra"

definition copyProperties :: "props option \<Rightarrow> props" where
  "copyProperties properties = (case properties of None \<Rightarrow> fmempty | Some p \<Rightarrow> p)"

definition propertiesContain :: "props \<Rightarrow> props \<Rightarrow> bool" where
  "propertiesContain properties expected = fmpred (\<lambda>key value. mget properties key = value) expected"

definition legacyPVCIdentityMatches :: "string \<Rightarrow> smap \<Rightarrow> props \<Rightarrow> bool" where
  "legacyPVCIdentityMatches requestName params ps =
     (if mget ps PropertyCSIVolumeName = requestName then True
      else mget params CSIPVCName \<noteq> [] \<and> mget params CSIPVCNamespace \<noteq> [] \<and>
        mget ps PropertyPVCName = mget params CSIPVCName \<and>
        mget ps PropertyPVCNamespace = mget params CSIPVCNamespace)"

definition hasCompleteV2Identity :: "props \<Rightarrow> string \<Rightarrow> bool" where
  "hasCompleteV2Identity ps backendName \<longleftrightarrow>
     mget ps PropertyManagedBy = ManagedByValue \<and>
     mget ps propertyIdentityVersion = identityVersion2 \<and>
     mget ps propertyCSIRequestName \<noteq> [] \<and> mget ps propertyVolumeUUID \<noteq> [] \<and>
     mget ps PropertyProtocol \<noteq> [] \<and> mget ps PropertyCSIVolumeName = backendName"

section \<open>Existing volumes\<close>

text \<open>The last step of each accepting branch; a failure of the random source is \<^verbatim>\<open>Internal\<close>.\<close>

definition acceptIdentity ::
  "'w svc \<Rightarrow> props \<Rightarrow> string \<Rightarrow> string \<Rightarrow> string \<Rightarrow> bool \<Rightarrow> ('w, failure + volumeIdentityDecision) op" where
  "acceptIdentity S ps requestName backendName protocol persist = do {
     r \<leftarrow> identityProperties S ps requestName backendName protocol;
     ret (case r of
         Inl _ \<Rightarrow> Inl (Status Internal)
       | Inr identity \<Rightarrow> Inr \<lparr>vid_properties = Some identity, vid_persist = persist\<rparr>)
   }"

definition decideExistingVolumeIdentity ::
  "'w svc \<Rightarrow> create_request \<Rightarrow> string \<Rightarrow> string \<Rightarrow> subvolume \<Rightarrow> ('w, failure + volumeIdentityDecision) op"
where
  "decideExistingVolumeIdentity S req protocol backendName sv =
     (let ps = sv_Properties sv;
          managed = (mget ps PropertyManagedBy = ManagedByValue);
          adoptExisting = (mget (req_Parameters req) ''adoptExisting'' = VolumeContextValueTrue)
      in if managed \<and> mget ps propertyIdentityVersion = identityVersion2
         then if mget ps propertyCSIRequestName \<noteq> req_Name req \<or> mget ps PropertyProtocol \<noteq> protocol
              then ret (Inl (Status FailedPrecondition))
              else acceptIdentity S ps (req_Name req) backendName protocol
                     (mget ps propertyVolumeUUID = [] \<or> mget ps PropertyCSIVolumeName \<noteq> backendName)
         else if managed
         then (let legacyMatch = (sv_Name sv = backendName \<and> mget ps PropertyProtocol = protocol \<and>
                     legacyPVCIdentityMatches (req_Name req) (req_Parameters req) ps)
               in if \<not> legacyMatch \<and> \<not> adoptExisting then ret (Inl (Status AlreadyExists))
                  else acceptIdentity S ps (req_Name req) backendName protocol True)
         else if \<not> adoptExisting then ret (Inl (Status AlreadyExists))
         else acceptIdentity S ps (req_Name req) backendName protocol True)"

definition newVolumeIdentityDecision ::
  "'w svc \<Rightarrow> create_request \<Rightarrow> string \<Rightarrow> string \<Rightarrow> ('w, failure + volumeIdentityDecision) op" where
  "newVolumeIdentityDecision S req backendName protocol =
     acceptIdentity S fmempty (req_Name req) backendName protocol True"

text \<open>A read that counts a not-found error as an absent subvolume.\<close>

definition getOptional :: "'w svc \<Rightarrow> string \<Rightarrow> string \<Rightarrow> ('w, failure + subvolume option) op" where
  "getOptional S filesystem name = do {
     r \<leftarrow> GetSubvolume S filesystem name;
     ret (case r of
         Inl err \<Rightarrow> if isNotFoundError err then Inr None else Inl (Status Internal)
       | Inr sv \<Rightarrow> Inr sv)
   }"

definition selectExistingCreateSubvolume ::
  "'w svc \<Rightarrow> create_request \<Rightarrow> string \<Rightarrow> string \<Rightarrow> string \<Rightarrow>
     ('w, failure + (subvolume option \<times> string \<times> volumeIdentityDecision)) op"
where
  "selectExistingCreateSubvolume S req filesystem backendName protocol =
     (case ResolveLegacyVolumeName (svc_names S) (req_Parameters req) (req_Name req) of
        Inl _ \<Rightarrow> ret (Inl (Status InvalidArgument))
      | Inr legacyName \<Rightarrow> do {
          r \<leftarrow> getOptional S filesystem backendName;
          case r of
            Inl e \<Rightarrow> ret (Inl e)
          | Inr found \<Rightarrow> do {
              r2 \<leftarrow> (case found of
                  Some sv \<Rightarrow> ret (Inr (Some sv, backendName))
                | None \<Rightarrow>
                    if legacyName \<noteq> backendName then do {
                      r' \<leftarrow> getOptional S filesystem legacyName;
                      ret (case r' of
                          Inl e \<Rightarrow> Inl e
                        | Inr None \<Rightarrow> Inr (None, backendName)
                        | Inr (Some sv) \<Rightarrow> Inr (Some sv, legacyName))
                    }
                    else ret (Inr (None, backendName)));
              case r2 of
                Inl e \<Rightarrow> ret (Inl e)
              | Inr (None, _) \<Rightarrow> ret (Inr (None, backendName, noDecision))
              | Inr (Some sv, selectedName) \<Rightarrow> do {
                  d \<leftarrow> decideExistingVolumeIdentity S req protocol selectedName sv;
                  ret (case d of
                      Inl e \<Rightarrow> Inl e
                    | Inr decision \<Rightarrow> Inr (Some sv, selectedName, decision))
                }
            }
        })"

section \<open>Writing the identity\<close>

text \<open>The properties \<^verbatim>\<open>persistVolumeIdentity\<close> wants the subvolume to have.\<close>

definition intendedProperties :: "subvolume \<Rightarrow> props option \<Rightarrow> props \<Rightarrow> props" where
  "intendedProperties sv base identity =
     (let ps = mergeProperties (copyProperties base) identity;
          ps = fmupd PropertyManagedBy ManagedByValue ps;
          createdAt = mget (sv_Properties sv) PropertyCreatedAt
      in if createdAt \<noteq> [] then fmupd PropertyCreatedAt createdAt ps else ps)"

definition persistVolumeIdentity ::
  "'w svc \<Rightarrow> subvolume \<Rightarrow> props option \<Rightarrow> volumeIdentityDecision \<Rightarrow> ('w, failure option \<times> subvolume) op"
where
  "persistVolumeIdentity S sv base decision =
     (if \<not> vid_persist decision \<and> base = None then ret (None, sv)
      else case vid_properties decision of
        None \<Rightarrow> ret (Some (Status Internal), sv)
      | Some identity \<Rightarrow>
          (let ps = intendedProperties sv base identity
           in if propertiesContain (sv_Properties sv) ps then ret (None, sv)
              else do {
                w \<leftarrow> SetSubvolumeProperties S (sv_Filesystem sv) (sv_Name sv) ps;
                case w of
                  None \<Rightarrow> ret (None, sv\<lparr>sv_Properties := ps\<rparr>)
                | Some err \<Rightarrow> do {
                    r \<leftarrow> GetSubvolume S (sv_Filesystem sv) (sv_Name sv);
                    ret (case r of
                        Inl _ \<Rightarrow> (Some (Status Aborted), sv)
                      | Inr None \<Rightarrow> (Some (Status Aborted), sv)
                      | Inr (Some refreshed) \<Rightarrow>
                          (if \<not> propertiesContain (sv_Properties refreshed) ps
                           then Some (Status Internal) else Some (Status Aborted),
                           sv\<lparr>sv_Properties := sv_Properties refreshed\<rparr>))
                  }
              }))"

text \<open>The error \<^verbatim>\<open>rollbackCreatedSubvolume\<close> returns in place of the one it is given.\<close>

definition rollbackCreatedSubvolume :: "'w svc \<Rightarrow> subvolume \<Rightarrow> failure \<Rightarrow> ('w, failure) op" where
  "rollbackCreatedSubvolume S sv operationErr =
     (if operationErr = Status Aborted then ret operationErr
      else do {
        r \<leftarrow> GetSubvolume S (sv_Filesystem sv) (sv_Name sv);
        case r of
          Inl readErr \<Rightarrow> ret (if \<not> isNotFoundError readErr then Status Aborted else operationErr)
        | Inr None \<Rightarrow> ret operationErr
        | Inr (Some current) \<Rightarrow>
            if hasCompleteV2Identity (sv_Properties current) (sv_Name sv) then ret (Status Aborted)
            else do {
              d \<leftarrow> DeleteSubvolume S (sv_Filesystem sv) (sv_Name sv);
              ret (case d of None \<Rightarrow> operationErr | Some _ \<Rightarrow> Status Internal)
            }
      })"

section \<open>Clones\<close>

record cloneDestinationSelection =
  cd_name :: string
  cd_existed :: bool
  cd_legacy :: bool

definition legacyCloneProof :: "create_request \<Rightarrow> string \<Rightarrow> string \<Rightarrow> subvolume \<Rightarrow> bool" where
  "legacyCloneProof req protocol backendName sv \<longleftrightarrow>
     mget (sv_Properties sv) PropertyManagedBy = ManagedByValue \<and> sv_Name sv = backendName \<and>
     mget (sv_Properties sv) PropertyProtocol = protocol \<and>
     legacyPVCIdentityMatches (req_Name req) (req_Parameters req) (sv_Properties sv)"

definition selectCloneDestination ::
  "'w svc \<Rightarrow> create_request \<Rightarrow> string \<Rightarrow> string \<Rightarrow> string \<Rightarrow> ('w, failure + cloneDestinationSelection) op"
where
  "selectCloneDestination S req filesystem backendName protocol =
     (case ResolveLegacyVolumeName (svc_names S) (req_Parameters req) (req_Name req) of
        Inl _ \<Rightarrow> ret (Inl (Status InvalidArgument))
      | Inr legacyName \<Rightarrow> do {
          r \<leftarrow> getOptional S filesystem backendName;
          case r of
            Inl e \<Rightarrow> ret (Inl e)
          | Inr (Some _) \<Rightarrow> ret (Inr \<lparr>cd_name = backendName, cd_existed = True, cd_legacy = False\<rparr>)
          | Inr None \<Rightarrow>
              if legacyName = backendName
              then ret (Inr \<lparr>cd_name = backendName, cd_existed = False, cd_legacy = False\<rparr>)
              else do {
                r' \<leftarrow> getOptional S filesystem legacyName;
                ret (case r' of
                    Inl e \<Rightarrow> Inl e
                  | Inr None \<Rightarrow> Inr \<lparr>cd_name = backendName, cd_existed = False, cd_legacy = False\<rparr>
                  | Inr (Some destination) \<Rightarrow>
                      if \<not> legacyCloneProof req protocol legacyName destination
                      then Inl (Status AlreadyExists)
                      else Inr \<lparr>cd_name = legacyName, cd_existed = True, cd_legacy = True\<rparr>)
              }
        })"

definition cloneCarriesSourceIdentity :: "props \<Rightarrow> props \<Rightarrow> bool" where
  "cloneCarriesSourceIdentity destination source =
     (if mget source propertyVolumeUUID \<noteq> [] \<and>
         mget destination propertyVolumeUUID = mget source propertyVolumeUUID then True
      else if mget source propertyCSIRequestName \<noteq> [] \<and>
         mget destination propertyCSIRequestName = mget source propertyCSIRequestName \<and>
         mget source PropertyCSIVolumeName \<noteq> [] \<and>
         mget destination PropertyCSIVolumeName = mget source PropertyCSIVolumeName then True
      else if mget source propertyIdentityVersion = identityVersion2 then False
      else if mget destination propertyIdentityVersion \<noteq> [] \<or>
         mget destination propertyCSIRequestName \<noteq> [] \<or> mget destination propertyVolumeUUID \<noteq> []
      then False
      else if list_ex (\<lambda>key. mget source key \<noteq> [] \<and> mget destination key \<noteq> mget source key)
         [PropertyManagedBy, PropertyCSIVolumeName, PropertyProtocol, PropertyCreatedAt,
          PropertyCapacityBytes, PropertyPVCName, PropertyPVCNamespace, PropertyStorageClass]
      then False
      else mget source PropertyManagedBy = ManagedByValue \<and>
        mget source PropertyCSIVolumeName \<noteq> [] \<and> mget source PropertyProtocol \<noteq> [])"

definition classifyCloneIdentity ::
  "'w svc \<Rightarrow> create_request \<Rightarrow> string \<Rightarrow> string \<Rightarrow> string \<Rightarrow> subvolume \<Rightarrow> props \<Rightarrow>
     bool \<Rightarrow> bool \<Rightarrow> bool \<Rightarrow> bool \<Rightarrow> volumeIdentityDecision \<Rightarrow> ('w, failure + volumeIdentityDecision) op"
where
  "classifyCloneIdentity S req protocol sourceBackendName backendName destination sourceProperties
     sourceExists backendCreated destinationExisted legacy freshIdentity =
     (if backendCreated \<or> \<not> destinationExisted then ret (Inr freshIdentity)
      else
        (let ps = sv_Properties destination;
             matchingDestination = (mget ps PropertyManagedBy = ManagedByValue \<and>
               mget ps propertyIdentityVersion = identityVersion2 \<and>
               mget ps propertyCSIRequestName = req_Name req \<and> mget ps PropertyProtocol = protocol);
             sourceIdentityCopied = (if sourceExists then cloneCarriesSourceIdentity ps sourceProperties
               else hasCompleteV2Identity ps sourceBackendName \<and> mget ps PropertyProtocol = protocol)
         in if matchingDestination then acceptIdentity S ps (req_Name req) backendName protocol True
            else if sourceIdentityCopied \<and> \<not> legacy then ret (Inr freshIdentity)
            else if legacy
            then if \<not> legacyCloneProof req protocol backendName destination
                 then ret (Inl (Status AlreadyExists))
                 else if sourceIdentityCopied then ret (Inr freshIdentity)
                 else acceptIdentity S ps (req_Name req) backendName protocol True
            else ret (Inl (Status AlreadyExists))))"

section \<open>UUIDs\<close>

definition is_uuid4 :: "string \<Rightarrow> bool" where
  "is_uuid4 u \<longleftrightarrow> length u = 36 \<and>
     list_all (\<lambda>i. if i \<in> {8, 13, 18, 23} then u ! i = CHR ''-''
        else u ! i \<in> set ''0123456789abcdef'') [0..<36] \<and>
     u ! 14 = CHR ''4'' \<and> u ! 19 \<in> set ''89ab''"

lemma length_16:
  assumes "length (v :: 'a list) = 16"
  obtains a b c d e f g h i j k l m n p q where "v = [a, b, c, d, e, f, g, h, i, j, k, l, m, n, p, q]"
  using assms by (auto simp: length_Suc_conv eval_nat_numeral)

lemma length_byteArray16 [simp]: "length (byteArray16 bs) = 16"
  by (simp add: byteArray16_def)

lemma length_stampUUID [simp]: "length (stampUUID v) = length v"
  by (simp add: stampUUID_def Let_def)

lemma unat_nibbles: "unat (b div 16 :: 8 word) < 16" "unat (b mod 16 :: 8 word) < 16"
proof -
  have "unat b < 256" using unsigned_less [of b] by simp
  then show "unat (b div 16) < 16" by (simp add: unat_div)
  show "unat (b mod 16) < 16" by (simp add: unat_mod)
qed

lemma hex_digit_nibbles [simp]:
  "hex_digit (b div 16) \<in> set ''0123456789abcdef''" "hex_digit (b mod 16) \<in> set ''0123456789abcdef''"
  unfolding hex_digit_def using unat_nibbles [of b]
  by (auto intro!: nth_mem simp del: list.set)

lemma hex_digit_inject:
  assumes "unat a < 16" "unat b < 16" "hex_digit a = hex_digit b"
  shows "a = b"
proof -
  have "distinct ''0123456789abcdef''" "length ''0123456789abcdef'' = 16" by simp_all
  with assms have "unat a = unat b" unfolding hex_digit_def using nth_eq_iff_index_eq by metis
  then show ?thesis by (simp add: word_unat_eq_iff)
qed

lemma hex_bytes_Nil [simp]: "hex_bytes [] = []"
  by (simp add: hex_bytes_def)

lemma hex_bytes_Cons [simp]: "hex_bytes (b # bs) = hex_digit (b div 16) # hex_digit (b mod 16) # hex_bytes bs"
  by (simp add: hex_bytes_def)

lemma hex_byte_inject:
  "hex_digit (a div 16) = hex_digit (b div 16) \<Longrightarrow> hex_digit (a mod 16) = hex_digit (b mod 16) \<Longrightarrow> a = b"
  by (metis div_mult_mod_eq hex_digit_inject unat_nibbles)

lemma formatUUID_inject:
  assumes "length v = 16" "length w = 16" "formatUUID v = formatUUID w"
  shows "v = w"
proof (rule length_16 [OF assms(1)], rule length_16 [OF assms(2)])
  fix a b c d e f g h i j k l m n p q a' b' c' d' e' f' g' h' i' j' k' l' m' n' p' q'
  assume "v = [a, b, c, d, e, f, g, h, i, j, k, l, m, n, p, q]"
    "w = [a', b', c', d', e', f', g', h', i', j', k', l', m', n', p', q']"
  with assms(3) show "v = w" by (simp add: formatUUID_def eval_nat_numeral hex_byte_inject)
qed

lemma version_nibble: "(or (and b 0x0f) 0x40 :: 8 word) div 16 = 4"
proof -
  have "(or (and b 0x0f) 0x40 :: 8 word) div 16 = drop_bit 4 (or (and b 0x0f) 0x40)"
    by (simp add: drop_bit_eq_div)
  also have "\<dots> = or (and (drop_bit 4 b) (drop_bit 4 0x0f)) (drop_bit 4 0x40)"
    by (simp only: drop_bit_or drop_bit_and)
  also have "\<dots> = 4" by simp
  finally show ?thesis .
qed

lemma variant_nibble: "hex_digit ((or (and b 0x3f) 0x80 :: 8 word) div 16) \<in> set ''89ab''"
proof -
  have "(or (and b 0x3f) 0x80 :: 8 word) div 16 = drop_bit 4 (or (and b 0x3f) 0x80)"
    by (simp add: drop_bit_eq_div)
  also have "\<dots> = or (and (drop_bit 4 b) (drop_bit 4 0x3f)) (drop_bit 4 0x80)"
    by (simp only: drop_bit_or drop_bit_and)
  also have "\<dots> = or (and (drop_bit 4 b) 3) 8" by simp
  finally have eq: "(or (and b 0x3f) 0x80 :: 8 word) div 16 = or (and (drop_bit 4 b) 3) 8" .
  have "and (drop_bit 4 b) 3 = take_bit 2 (drop_bit 4 b)"
    by (simp add: take_bit_eq_mask mask_eq_exp_minus_1)
  then have "and (drop_bit 4 b) 3 = drop_bit 4 b mod 4" by (simp add: take_bit_eq_mod)
  then obtain x where x: "and (drop_bit 4 b) 3 = x" "unat x < 4" by (auto simp: unat_mod)
  from x(2) have "unat x \<in> {0, 1, 2, 3}" by auto
  then have "x \<in> {0, 1, 2, 3}" by (simp add: word_unat_eq_iff)
  then show ?thesis unfolding eq x(1) hex_digit_def by auto
qed

lemma stamped_is_uuid4: "length v = 16 \<Longrightarrow> is_uuid4 (formatUUID (stampUUID v))"
proof (erule length_16)
  fix a b c d e f g h i j k l m n p q
  assume v: "v = [a, b, c, d, e, f, g, h, i, j, k, l, m, n, p, q]"
  have 4: "hex_digit 4 = CHR ''4''" "CHR ''4'' \<in> set ''0123456789abcdef''"
    by (simp_all add: hex_digit_def)
  show "is_uuid4 (formatUUID (stampUUID v))"
    unfolding v is_uuid4_def stampUUID_def formatUUID_def Let_def
    using variant_nibble [of i] hex_digit_nibbles
    by (simp add: version_nibble 4 upt_rec eval_nat_numeral del: list.set)
qed

lemma and_or_disjoint: "and m (n :: 8 word) = 0 \<Longrightarrow> and (or (and x m) n) m = and x m"
  by (rule bit_eqI) (auto simp: bit_simps dest: bit_eq_iff [THEN iffD1, rule_format])

lemma or_and_inject:
  assumes "and m n = (0 :: 8 word)"
  shows "or (and x m) n = or (and y m) n \<longleftrightarrow> and x m = and y m"
  using and_or_disjoint [OF assms] by metis

lemma stampUUID_eq_iff:
  assumes "length v = 16" "length w = 16"
  shows "stampUUID v = stampUUID w \<longleftrightarrow>
     (\<forall>i < 16. i \<noteq> 6 \<and> i \<noteq> 8 \<longrightarrow> v ! i = w ! i) \<and>
     and (v ! 6) 0x0f = and (w ! 6) 0x0f \<and> and (v ! 8) 0x3f = and (w ! 8) 0x3f"
proof -
  have inj: "or (and x 0x0f) 0x40 = or (and y 0x0f) 0x40 \<longleftrightarrow> and x 0x0f = and y (0x0f :: 8 word)"
    "or (and x 0x3f) 0x80 = or (and y 0x3f) 0x80 \<longleftrightarrow> and x 0x3f = and y (0x3f :: 8 word)" for x y :: "8 word"
    by (rule or_and_inject, simp)+
  have nth: "stampUUID u ! i = (if i = 8 then or (and (u ! 8) 0x3f) 0x80
      else if i = 6 then or (and (u ! 6) 0x0f) 0x40 else u ! i)"
    if "length u = 16" "i < 16" for u :: "8 word list" and i
    using that by (simp add: stampUUID_def Let_def nth_list_update)
  have at: "stampUUID v ! i = stampUUID w ! i \<longleftrightarrow> (if i = 8 then and (v ! 8) 0x3f = and (w ! 8) 0x3f
      else if i = 6 then and (v ! 6) 0x0f = and (w ! 6) 0x0f else v ! i = w ! i)" if "i < 16" for i
    unfolding nth [OF assms(1) that] nth [OF assms(2) that] by (cases "i = 8"; cases "i = 6") (simp_all add: inj)
  have "stampUUID v = stampUUID w \<longleftrightarrow> (\<forall>i < 16. stampUUID v ! i = stampUUID w ! i)"
    using assms by (simp add: list_eq_iff_nth_eq)
  also have "\<dots> \<longleftrightarrow> (\<forall>i < 16. i \<noteq> 6 \<and> i \<noteq> 8 \<longrightarrow> v ! i = w ! i) \<and>
     and (v ! 6) 0x0f = and (w ! 6) 0x0f \<and> and (v ! 8) 0x3f = and (w ! 8) 0x3f"
    (is "?L \<longleftrightarrow> ?A \<and> ?B \<and> ?C")
  proof
    assume L: ?L
    then have "?A" using at by (metis (full_types))
    moreover have ?B using L at [of 6] by simp
    moreover have ?C using L at [of 8] by simp
    ultimately show "?A \<and> ?B \<and> ?C" by blast
  next
    assume "?A \<and> ?B \<and> ?C"
    then show ?L using at by (metis (full_types))
  qed
  finally show ?thesis .
qed

end
