(* ===== verification/Memory_Backend.thy ===== *)
theory Memory_Backend
  imports Backend_API
begin

text \<open>
  A concrete environment, on which the handlers can be run: an in-memory backend in the manner of
  the driver's own mock (\<^verbatim>\<open>src/tests/sanity/mock_client.go\<close>) with a fixed clock, a counting random
  source and a context that is never cancelled. The properties hold for every environment; this
  one shows that their hypotheses can be met.
\<close>

record memory =
  m_subvolumes :: "subvolume list"
  m_snapshots :: "(string \<times> backend_snapshot) list"
  m_nfsShares :: "nfs_share list"
  m_smbShares :: "smb_share list"
  m_iscsiTargets :: "iscsi_target list"
  m_nvmeofSubsystems :: "nvmeof_subsystem list"
  m_nextID :: nat

definition memory_empty :: memory where
  "memory_empty =
     \<lparr>m_subvolumes = [], m_snapshots = [], m_nfsShares = [], m_smbShares = [], m_iscsiTargets = [],
      m_nvmeofSubsystems = [], m_nextID = 0\<rparr>"

definition mem_error :: "string \<Rightarrow> go_error" where
  "mem_error t = \<lparr>err_text = t, err_chain = [], err_net_timeout = False\<rparr>"

definition mem_notFound :: go_error where
  "mem_notFound = mem_error ''dataset not found''"

definition is_subvolume :: "string \<Rightarrow> string \<Rightarrow> subvolume \<Rightarrow> bool" where
  "is_subvolume fs n sv \<longleftrightarrow> sv_Filesystem sv = fs \<and> sv_Name sv = n"

definition mem_find :: "string \<Rightarrow> string \<Rightarrow> memory \<Rightarrow> subvolume option" where
  "mem_find fs n w = List.find (is_subvolume fs n) (m_subvolumes w)"

definition mem_update :: "string \<Rightarrow> string \<Rightarrow> (subvolume \<Rightarrow> subvolume) \<Rightarrow> memory \<Rightarrow> memory" where
  "mem_update fs n f w =
     w\<lparr>m_subvolumes := map (\<lambda>sv. if is_subvolume fs n sv then f sv else sv) (m_subvolumes w)\<rparr>"

definition mem_get :: "string \<Rightarrow> string \<Rightarrow> memory \<Rightarrow> (go_error + subvolume option) \<times> memory" where
  "mem_get fs n w =
     ((case mem_find fs n w of None \<Rightarrow> Inl mem_notFound | Some sv \<Rightarrow> Inr (Some sv)), w)"

definition mem_byProperty :: "propkey \<Rightarrow> string \<Rightarrow> string \<Rightarrow> memory \<Rightarrow> subvolume list" where
  "mem_byProperty k v fs w =
     filter (\<lambda>sv. (fs = [] \<or> sv_Filesystem sv = fs) \<and> mget (sv_Properties sv) k = v) (m_subvolumes w)"

definition mem_new :: "string \<Rightarrow> string \<Rightarrow> string \<Rightarrow> uint64 option \<Rightarrow> string \<Rightarrow> subvolume" where
  "mem_new fs n ty volsize bfs =
     \<lparr>sv_Filesystem = fs, sv_Name = n, sv_SubvolumeType = ty, sv_Path = ''/'' @ fs @ ''/'' @ n,
      sv_Properties = fmempty, sv_Snapshots = [], sv_QuotaBytes = None, sv_VolsizeBytes = volsize,
      sv_BlockDevice = (if ty = ''block'' then Some (''/dev/zvol/'' @ fs @ ''/'' @ n) else None),
      sv_BlockFilesystem = (if bfs = [] then None else Some bfs),
      sv_BlockFilesystemUUID = (if bfs = [] then None else Some ''fs-uuid''), sv_Created = False\<rparr>"

definition mem_create :: "create_params \<Rightarrow> memory \<Rightarrow> (go_error + subvolume option) \<times> memory" where
  "mem_create p w =
     (case mem_find (cp_Filesystem p) (cp_Name p) w of
        Some sv \<Rightarrow> (Inr (Some (sv\<lparr>sv_Created := False\<rparr>)), w)
      | None \<Rightarrow>
          (let sv = mem_new (cp_Filesystem p) (cp_Name p) (cp_SubvolumeType p) (cp_VolsizeBytes p)
                 (cp_BlockFilesystem p)
           in (Inr (Some (sv\<lparr>sv_Created := True\<rparr>)), w\<lparr>m_subvolumes := m_subvolumes w @ [sv]\<rparr>)))"

definition mem_clone :: "string \<Rightarrow> string \<Rightarrow> string \<Rightarrow> memory \<Rightarrow> (go_error + subvolume option) \<times> memory" where
  "mem_clone fs src n w =
     (case mem_find fs n w of
        Some sv \<Rightarrow> (Inr (Some (sv\<lparr>sv_Created := False\<rparr>)), w)
      | None \<Rightarrow>
          (case mem_find fs src w of
             None \<Rightarrow> (Inl mem_notFound, w)
           | Some sv \<Rightarrow>
               (let c = sv\<lparr>sv_Name := n, sv_Path := ''/'' @ fs @ ''/'' @ n, sv_Snapshots := []\<rparr>
                in (Inr (Some (c\<lparr>sv_Created := True\<rparr>)), w\<lparr>m_subvolumes := m_subvolumes w @ [c]\<rparr>))))"

definition mem_delete :: "string \<Rightarrow> string \<Rightarrow> memory \<Rightarrow> go_error option \<times> memory" where
  "mem_delete fs n w =
     (if mem_find fs n w = None then (Some mem_notFound, w)
      else (None, w\<lparr>m_subvolumes := filter (\<lambda>sv. \<not> is_subvolume fs n sv) (m_subvolumes w)\<rparr>))"

definition mem_resize :: "string \<Rightarrow> string \<Rightarrow> uint64 \<Rightarrow> memory \<Rightarrow> (go_error + subvolume option) \<times> memory" where
  "mem_resize fs n b w =
     (if mem_find fs n w = None then (Inl mem_notFound, w)
      else (let w' = mem_update fs n (\<lambda>sv. sv\<lparr>sv_VolsizeBytes := Some b\<rparr>) w in (Inr (mem_find fs n w'), w')))"

definition mem_setProps :: "string \<Rightarrow> string \<Rightarrow> props \<Rightarrow> memory \<Rightarrow> go_error option \<times> memory" where
  "mem_setProps fs n ps w =
     (if mem_find fs n w = None then (Some mem_notFound, w)
      else (None, mem_update fs n (\<lambda>sv. sv\<lparr>sv_Properties := sv_Properties sv ++\<^sub>f ps\<rparr>) w))"

definition mem_createSnapshot ::
  "string \<Rightarrow> string \<Rightarrow> string \<Rightarrow> memory \<Rightarrow> (go_error + backend_snapshot option) \<times> memory" where
  "mem_createSnapshot fs sub n w =
     (case mem_find fs sub w of
        None \<Rightarrow> (Inl mem_notFound, w)
      | Some sv \<Rightarrow>
          if n \<in> set (sv_Snapshots sv) then (Inl (mem_error ''snapshot already exists''), w)
          else (let snap = \<lparr>sn_Name = n, sn_Subvolume = sub, sn_CreatedAt = Some 1700000000\<rparr>
                in (Inr (Some snap),
                    (mem_update fs sub (\<lambda>sv. sv\<lparr>sv_Snapshots := sv_Snapshots sv @ [n]\<rparr>) w)
                      \<lparr>m_snapshots := m_snapshots w @ [(fs, snap)]\<rparr>)))"

definition mem_deleteSnapshot :: "string \<Rightarrow> string \<Rightarrow> string \<Rightarrow> memory \<Rightarrow> go_error option \<times> memory" where
  "mem_deleteSnapshot fs sub n w =
     (let hit = (\<lambda>(f, s). f = fs \<and> sn_Subvolume s = sub \<and> sn_Name s = n)
      in if List.find hit (m_snapshots w) = None then (Some (mem_error ''snapshot not found''), w)
         else (None, (mem_update fs sub (\<lambda>sv. sv\<lparr>sv_Snapshots := remove1 n (sv_Snapshots sv)\<rparr>) w)
                \<lparr>m_snapshots := filter (\<lambda>x. \<not> hit x) (m_snapshots w)\<rparr>))"

definition mem_id :: "memory \<Rightarrow> string \<times> memory" where
  "mem_id w = (''mock-'' @ format_nat (m_nextID w), w\<lparr>m_nextID := Suc (m_nextID w)\<rparr>)"

text \<open>The operations on one kind of presentation, over the list that holds it.\<close>

definition mem_lookup :: "('a \<Rightarrow> string) \<Rightarrow> string \<Rightarrow> 'a list \<Rightarrow> go_error + 'a option" where
  "mem_lookup key k xs =
     (case List.find (\<lambda>x. key x = k) xs of None \<Rightarrow> Inl mem_notFound | Some x \<Rightarrow> Inr (Some x))"

definition mem_remove ::
  "('a \<Rightarrow> string) \<Rightarrow> string \<Rightarrow> 'a list \<Rightarrow> ('a list \<Rightarrow> memory) \<Rightarrow> memory \<Rightarrow> go_error option \<times> memory" where
  "mem_remove key k xs put w =
     (if List.find (\<lambda>x. key x = k) xs = None then (Some mem_notFound, w)
      else (None, put (filter (\<lambda>x. key x \<noteq> k) xs)))"

definition mem_svc :: "memory svc" where
  "mem_svc =
     \<lparr>svc_clusterID = ''c1'', svc_kubeClient = False, svc_names = plain_lib,
      svc_VolumeProperties = (\<lambda>p. fmap_of_list
        [(PropertyManagedBy, ManagedByValue), (PropertyCSIVolumeName, vp_VolumeID p),
         (PropertyProtocol, vp_Protocol p), (PropertyCapacityBytes, format_int (vp_CapacityBytes p)),
         (PropertyCreatedAt, vp_CreatedAt p), (PropertyDeleteStrategy, vp_DeleteStrategy p)]),
      svc_StringToInt64 = (\<lambda>s. case atoi s of None \<Rightarrow> 0 | Some i \<Rightarrow> i),
      env_Now = (\<lambda>w. (''2026-01-01T00:00:00Z'', w)),
      env_Sleep = (\<lambda>_ w. ((), w)),
      env_ctxErr = (\<lambda>w. (None, w)),
      env_After = (\<lambda>_ w. (None, w)),
      env_randRead = (\<lambda>w. (Inr (replicate 15 0 @ [of_nat (m_nextID w)]), w\<lparr>m_nextID := Suc (m_nextID w)\<rparr>)),
      env_pvcAnnotations = (\<lambda>_ _ w. (Inr fmempty, w)),
      api_GetSubvolume = mem_get,
      api_FindSubvolumeByCSIVolumeName = (\<lambda>fs n w.
        ((case mem_byProperty PropertyCSIVolumeName n fs w of [] \<Rightarrow> Inl mem_notFound | sv # _ \<Rightarrow> Inr (Some sv)), w)),
      api_FindManagedSubvolumes = (\<lambda>fs w. (Inr (mem_byProperty PropertyManagedBy ManagedByValue fs w), w)),
      api_FindSubvolumesByProperty = (\<lambda>k v fs w. (Inr (mem_byProperty k v fs w), w)),
      api_CreateSubvolume = mem_create,
      api_DeleteSubvolume = mem_delete,
      api_CloneSubvolume = mem_clone,
      api_CloneSnapshot = (\<lambda>fs parent _ n. mem_clone fs parent n),
      api_ResizeSubvolume = mem_resize,
      api_SetSubvolumeProperties = mem_setProps,
      api_CreateSnapshot = mem_createSnapshot,
      api_DeleteSnapshot = mem_deleteSnapshot,
      api_ListSnapshots = (\<lambda>fs w. (Inr (map snd (filter (\<lambda>(f, _). f = fs) (m_snapshots w))), w)),
      api_QueryFilesystem = (\<lambda>_ w.
        (Inr (Some \<lparr>fs_TotalBytes = 10737418240, fs_UsedBytes = 1073741824, fs_AvailableBytes = 9663676416,
          fs_Encrypted = None\<rparr>), w)),
      api_ListNFSShares = (\<lambda>w. (Inr (m_nfsShares w), w)),
      api_GetNFSShare = (\<lambda>k w. (mem_lookup nfs_ID k (m_nfsShares w), w)),
      api_CreateNFSShare = (\<lambda>path comment _ w. case mem_id w of (i, w') \<Rightarrow>
        let x = \<lparr>nfs_ID = i, nfs_Path = path, nfs_Comment = Some comment, nfs_Enabled = True\<rparr>
        in (Inr (Some x), w'\<lparr>m_nfsShares := m_nfsShares w' @ [x]\<rparr>)),
      api_DeleteNFSShare = (\<lambda>k w. mem_remove nfs_ID k (m_nfsShares w) (\<lambda>xs. w\<lparr>m_nfsShares := xs\<rparr>) w),
      api_ListSMBShares = (\<lambda>w. (Inr (m_smbShares w), w)),
      api_GetSMBShare = (\<lambda>k w. (mem_lookup smb_ID k (m_smbShares w), w)),
      api_CreateSMBShare = (\<lambda>name path comment _ w. case mem_id w of (i, w') \<Rightarrow>
        let x = \<lparr>smb_ID = i, smb_Name = name, smb_Path = path, smb_Comment = Some comment, smb_Enabled = True\<rparr>
        in (Inr (Some x), w'\<lparr>m_smbShares := m_smbShares w' @ [x]\<rparr>)),
      api_DeleteSMBShare = (\<lambda>k w. mem_remove smb_ID k (m_smbShares w) (\<lambda>xs. w\<lparr>m_smbShares := xs\<rparr>) w),
      api_ListISCSITargets = (\<lambda>w. (Inr (m_iscsiTargets w), w)),
      api_GetISCSITargetByIQN = (\<lambda>k w. (mem_lookup it_IQN k (m_iscsiTargets w), w)),
      api_CreateISCSITarget = (\<lambda>name dev w. case mem_id w of (i, w') \<Rightarrow>
        let x = \<lparr>it_ID = i, it_IQN = ''iqn.2137-04.storage.nasty:'' @ name, it_Luns = [dev]\<rparr>
        in (Inr (Some x), w'\<lparr>m_iscsiTargets := m_iscsiTargets w' @ [x]\<rparr>)),
      api_DeleteISCSITarget = (\<lambda>k w. mem_remove it_ID k (m_iscsiTargets w) (\<lambda>xs. w\<lparr>m_iscsiTargets := xs\<rparr>) w),
      api_ListNVMeOFSubsystems = (\<lambda>w. (Inr (m_nvmeofSubsystems w), w)),
      api_GetNVMeOFSubsystemByNQN = (\<lambda>k w. (mem_lookup ns_NQN k (m_nvmeofSubsystems w), w)),
      api_CreateNVMeOFSubsystem = (\<lambda>name dev w. case mem_id w of (i, w') \<Rightarrow>
        let x = \<lparr>ns_ID = i, ns_NQN = ''nqn.2137-04.storage.nasty:'' @ name, ns_Namespaces = [dev]\<rparr>
        in (Inr (Some x), w'\<lparr>m_nvmeofSubsystems := m_nvmeofSubsystems w' @ [x]\<rparr>)),
      api_DeleteNVMeOFSubsystem = (\<lambda>k w.
        mem_remove ns_ID k (m_nvmeofSubsystems w) (\<lambda>xs. w\<lparr>m_nvmeofSubsystems := xs\<rparr>) w)\<rparr>"

definition controller_at :: "memory \<Rightarrow> memory controller" where
  "controller_at w = \<lparr>world = w, calls = [], publishedVolumes = fmempty, volumeCapacity = fmempty\<rparr>"

text \<open>A create request that adopts, and the backend it finds.\<close>

definition sample_subvolume :: subvolume where
  "sample_subvolume = mem_new ''tank'' ''pvc-1'' ''filesystem'' (Some 1073741824) []"

definition sample_controller :: "memory controller" where
  "sample_controller = controller_at (memory_empty\<lparr>m_subvolumes := [sample_subvolume]\<rparr>)"

end
