(* ===== verification/Identity_Safety.thy ===== *)
theory Identity_Safety
  imports Volume_Identity Memory_Backend
begin

text \<open>
  Properties of volume ownership: which existing volumes a create request may take over, what a
  written identity guarantees against other requests, what is known after a failed write, which
  subvolumes a rollback removes, and the identity of clones.
\<close>

section \<open>Reading identities\<close>

lemma mget_identity_map [simp]:
  "mget (identity_map n b p u) PropertyCSIVolumeName = b"
  "mget (identity_map n b p u) PropertyProtocol = p"
  "mget (identity_map n b p u) propertyCSIRequestName = n"
  "mget (identity_map n b p u) propertyVolumeUUID = u"
  "mget (identity_map n b p u) propertyIdentityVersion = identityVersion2"
  by (simp_all add: identity_map_def mget_def)

lemma identity_map_inject [simp]:
  "identity_map n b p u = identity_map n' b' p' u' \<longleftrightarrow> n = n' \<and> b = b' \<and> p = p' \<and> u = u'"
  by (metis mget_identity_map)

lemma identityVersion2_nonempty [simp]: "identityVersion2 \<noteq> []"
  by (simp add: identityVersion2_def)

lemma fmlookup_identity_map:
  "fmlookup (identity_map n b p u) k =
     (if k = PropertyCSIVolumeName then Some b else if k = PropertyProtocol then Some p
      else if k = propertyCSIRequestName then Some n else if k = propertyVolumeUUID then Some u
      else if k = propertyIdentityVersion then Some identityVersion2 else None)"
  by (simp add: identity_map_def)

lemma propertiesContain_iff:
  "propertiesContain ps expected \<longleftrightarrow> (\<forall>k v. fmlookup expected k = Some v \<longrightarrow> mget ps k = v)"
  by (auto simp: propertiesContain_def fmpred_iff)

lemma propertiesContain_refl: "propertiesContain ps ps"
  by (simp add: propertiesContain_iff mget_def)

lemma fmlookup_intendedProperties:
  "fmlookup (intendedProperties sv base (identity_map n b p u)) PropertyCSIVolumeName = Some b"
  "fmlookup (intendedProperties sv base (identity_map n b p u)) PropertyProtocol = Some p"
  "fmlookup (intendedProperties sv base (identity_map n b p u)) propertyCSIRequestName = Some n"
  "fmlookup (intendedProperties sv base (identity_map n b p u)) propertyVolumeUUID = Some u"
  "fmlookup (intendedProperties sv base (identity_map n b p u)) propertyIdentityVersion = Some identityVersion2"
  "fmlookup (intendedProperties sv base (identity_map n b p u)) PropertyManagedBy = Some ManagedByValue"
  by (simp_all add: intendedProperties_def mergeProperties_def fmlookup_identity_map fmlookup_dom_iff Let_def)

text \<open>The properties of a volume that carries an identity.\<close>

definition carries :: "props \<Rightarrow> string \<Rightarrow> string \<Rightarrow> string \<Rightarrow> string \<Rightarrow> bool" where
  "carries ps n b p u \<longleftrightarrow>
     mget ps PropertyManagedBy = ManagedByValue \<and> mget ps propertyIdentityVersion = identityVersion2 \<and>
     mget ps propertyCSIRequestName = n \<and> mget ps PropertyCSIVolumeName = b \<and>
     mget ps PropertyProtocol = p \<and> mget ps propertyVolumeUUID = u"

lemma carries_intended:
  "propertiesContain ps (intendedProperties sv base (identity_map n b p u)) \<Longrightarrow> carries ps n b p u"
  by (simp add: propertiesContain_iff carries_def fmlookup_intendedProperties)

lemma carries_written [simp]: "carries (intendedProperties sv base (identity_map n b p u)) n b p u"
  by (rule carries_intended [OF propertiesContain_refl])

section \<open>Rules for the identity operations\<close>

text \<open>The UUID an operation starting from \<open>existing\<close> properties may end up with.\<close>

definition uuid_for :: "props \<Rightarrow> string \<Rightarrow> bool" where
  "uuid_for existing u \<longleftrightarrow>
     (if mget existing propertyVolumeUUID = [] then is_uuid4 u else u = mget existing propertyVolumeUUID)"

lemma uuid_for_nonempty [dest]: "uuid_for ps u \<Longrightarrow> u \<noteq> []"
  by (auto simp: uuid_for_def is_uuid4_def split: if_splits)

lemma wp_newVolumeUUID:
  assumes "\<And>e w. Q (Inl e) (s\<lparr>world := w\<rparr>)" "\<And>u w. is_uuid4 u \<Longrightarrow> Q (Inr u) (s\<lparr>world := w\<rparr>)"
  shows "wp (newVolumeUUID S) Q s"
  unfolding newVolumeUUID_def wp_bind
  by (rule wp_callI) (auto simp: wp_return assms stamped_is_uuid4 split: sum.split)

lemma wp_identityProperties:
  assumes "\<And>e w. Q (Inl e) (s\<lparr>world := w\<rparr>)"
    and "\<And>u w. uuid_for existing u \<Longrightarrow> Q (Inr (identity_map n b p u)) (s\<lparr>world := w\<rparr>)"
  shows "wp (identityProperties S existing n b p) Q s"
  using assms(2) [of "mget existing propertyVolumeUUID" "world s"]
  by (auto simp: identityProperties_def wp_rules uuid_for_def assms split: sum.split
      intro!: wp_newVolumeUUID)

lemma wp_acceptIdentity:
  assumes "\<And>w. Q (Inl (Status Internal)) (s\<lparr>world := w\<rparr>)"
    and "\<And>u w. uuid_for ps u \<Longrightarrow>
      Q (Inr \<lparr>vid_properties = Some (identity_map n b p u), vid_persist = persist\<rparr>) (s\<lparr>world := w\<rparr>)"
  shows "wp (acceptIdentity S ps n b p persist) Q s"
  unfolding acceptIdentity_def wp_bind
  by (rule wp_identityProperties) (auto simp: wp_return assms)


section \<open>Taking over an existing volume\<close>

text \<open>When an existing volume counts as belonging to a create request.\<close>

definition claimable :: "create_request \<Rightarrow> string \<Rightarrow> string \<Rightarrow> subvolume \<Rightarrow> bool" where
  "claimable req protocol backendName sv \<longleftrightarrow>
     (let ps = sv_Properties sv; adopt = (mget (req_Parameters req) ''adoptExisting'' = VolumeContextValueTrue)
      in if mget ps PropertyManagedBy = ManagedByValue \<and> mget ps propertyIdentityVersion = identityVersion2
         then mget ps propertyCSIRequestName = req_Name req \<and> mget ps PropertyProtocol = protocol
         else if mget ps PropertyManagedBy = ManagedByValue
         then adopt \<or> sv_Name sv = backendName \<and> mget ps PropertyProtocol = protocol \<and>
           legacyPVCIdentityMatches (req_Name req) (req_Parameters req) ps
         else adopt)"

lemma wp_decide:
  assumes "\<not> claimable req protocol backendName sv \<Longrightarrow>
      mget (sv_Properties sv) PropertyManagedBy = ManagedByValue \<and>
      mget (sv_Properties sv) propertyIdentityVersion = identityVersion2 \<Longrightarrow>
      Q (Inl (Status FailedPrecondition)) s"
    and "\<not> claimable req protocol backendName sv \<Longrightarrow>
      \<not> (mget (sv_Properties sv) PropertyManagedBy = ManagedByValue \<and>
      mget (sv_Properties sv) propertyIdentityVersion = identityVersion2) \<Longrightarrow>
      Q (Inl (Status AlreadyExists)) s"
    and "\<And>w. claimable req protocol backendName sv \<Longrightarrow> Q (Inl (Status Internal)) (s\<lparr>world := w\<rparr>)"
    and ok: "\<And>u w. claimable req protocol backendName sv \<Longrightarrow> uuid_for (sv_Properties sv) u \<Longrightarrow>
      Q (Inr \<lparr>vid_properties = Some (identity_map (req_Name req) backendName protocol u),
        vid_persist = (\<not> carries (sv_Properties sv) (req_Name req) backendName protocol u)\<rparr>) (s\<lparr>world := w\<rparr>)"
  shows "wp (decideExistingVolumeIdentity S req protocol backendName sv) Q s"
proof (cases "claimable req protocol backendName sv")
  case False
  with assms(1,2) show ?thesis
    unfolding decideExistingVolumeIdentity_def claimable_def Let_def by (auto simp: wp_return)
next
  case True
  define persist where "persist = (mget (sv_Properties sv) PropertyManagedBy = ManagedByValue \<and>
    mget (sv_Properties sv) propertyIdentityVersion = identityVersion2 \<longrightarrow>
    mget (sv_Properties sv) propertyVolumeUUID = [] \<or> mget (sv_Properties sv) PropertyCSIVolumeName \<noteq> backendName)"
  have "decideExistingVolumeIdentity S req protocol backendName sv =
      acceptIdentity S (sv_Properties sv) (req_Name req) backendName protocol persist"
    using True unfolding decideExistingVolumeIdentity_def claimable_def persist_def Let_def
    by (auto split: if_splits)
  moreover have "persist \<longleftrightarrow> \<not> carries (sv_Properties sv) (req_Name req) backendName protocol u"
    if "uuid_for (sv_Properties sv) u" for u
    using True uuid_for_nonempty [OF that] that
    unfolding persist_def carries_def claimable_def uuid_for_def Let_def by (auto split: if_splits)
  ultimately show ?thesis
    using True assms(3) ok by (auto intro!: wp_acceptIdentity)
qed

text \<open>
  C9: who may take over an existing volume. The decision never touches the backend. It accepts a
  volume only if its version-2 identity names this very request and protocol, or, without such an
  identity, if legacy properties prove the claim or the operator allowed adoption; adoption never
  overrides a version-2 identity. An accepted volume keeps its UUID or gets a fresh version-4 one,
  and no write is planned exactly when the volume already carries the complete identity.
\<close>

theorem decideExistingVolumeIdentity_correct:
  "case run_state (decideExistingVolumeIdentity S req protocol backendName sv) s of (r, s') \<Rightarrow>
     calls s' = calls s \<and>
     (case r of
        Inr d \<Rightarrow> claimable req protocol backendName sv \<and>
          (\<exists>u. vid_properties d = Some (identity_map (req_Name req) backendName protocol u) \<and>
               uuid_for (sv_Properties sv) u \<and>
               (vid_persist d \<longleftrightarrow> \<not> carries (sv_Properties sv) (req_Name req) backendName protocol u))
      | Inl e \<Rightarrow>
          if claimable req protocol backendName sv then e = Status Internal
          else if mget (sv_Properties sv) PropertyManagedBy = ManagedByValue \<and>
                  mget (sv_Properties sv) propertyIdentityVersion = identityVersion2
          then e = Status FailedPrecondition
          else e = Status AlreadyExists)"
  by (rule run_caseI, rule wp_decide) auto

section \<open>Writing an identity\<close>

lemma wp_persistVolumeIdentity:
  assumes "\<not> vid_persist d \<Longrightarrow> base = None \<Longrightarrow> Q (None, sv) s"
    and "vid_persist d \<or> base \<noteq> None \<Longrightarrow> vid_properties d = None \<Longrightarrow> Q (Some (Status Internal), sv) s"
    and "\<And>identity. vid_persist d \<or> base \<noteq> None \<Longrightarrow> vid_properties d = Some identity \<Longrightarrow>
      propertiesContain (sv_Properties sv) (intendedProperties sv base identity) \<Longrightarrow> Q (None, sv) s"
    and "\<And>identity w. vid_persist d \<or> base \<noteq> None \<Longrightarrow> vid_properties d = Some identity \<Longrightarrow>
      Q (None, sv\<lparr>sv_Properties := intendedProperties sv base identity\<rparr>)
        (s\<lparr>world := w, calls := calls s @
          [PropsSet (sv_Filesystem sv) (sv_Name sv) (intendedProperties sv base identity) None]\<rparr>)"
    and "\<And>identity w err g. vid_persist d \<or> base \<noteq> None \<Longrightarrow> vid_properties d = Some identity \<Longrightarrow>
      (\<forall>cur. g = Inr (Some cur) \<longrightarrow>
        propertiesContain (sv_Properties cur) (intendedProperties sv base identity)) \<Longrightarrow>
      Q (Some (Status Aborted), case g of Inr (Some cur) \<Rightarrow> sv\<lparr>sv_Properties := sv_Properties cur\<rparr> | _ \<Rightarrow> sv)
        (s\<lparr>world := w, calls := calls s @
          [PropsSet (sv_Filesystem sv) (sv_Name sv) (intendedProperties sv base identity) (Some err),
           Got (sv_Filesystem sv) (sv_Name sv) g]\<rparr>)"
    and "\<And>identity w err cur. vid_persist d \<or> base \<noteq> None \<Longrightarrow> vid_properties d = Some identity \<Longrightarrow>
      \<not> propertiesContain (sv_Properties cur) (intendedProperties sv base identity) \<Longrightarrow>
      Q (Some (Status Internal), sv\<lparr>sv_Properties := sv_Properties cur\<rparr>)
        (s\<lparr>world := w, calls := calls s @
          [PropsSet (sv_Filesystem sv) (sv_Name sv) (intendedProperties sv base identity) (Some err),
           Got (sv_Filesystem sv) (sv_Name sv) (Inr (Some cur))]\<rparr>)"
  shows "wp (persistVolumeIdentity S sv base d) Q s"
proof (cases "vid_persist d \<or> base \<noteq> None")
  case False
  then show ?thesis using assms(1) by (simp add: persistVolumeIdentity_def wp_return)
next
  case p: True
  then have guard: "(\<not> vid_persist d \<and> base = None) = False" by simp
  have five: "Q (Some (Status Aborted), sv) (s\<lparr>world := w, calls := calls s @
          [PropsSet (sv_Filesystem sv) (sv_Name sv) (intendedProperties sv base identity) (Some err),
           Got (sv_Filesystem sv) (sv_Name sv) g]\<rparr>)"
    if "vid_properties d = Some identity" "g = Inr None \<or> (\<exists>e. g = Inl e)" for identity w err g
    using that(2) assms(5) [OF p that(1), where g = g and w = w and err = err] by auto
  note read = assms(5) [OF p, where g = "Inr (Some cur)" for cur, simplified]
  show ?thesis
    unfolding persistVolumeIdentity_def SetSubvolumeProperties_def GetSubvolume_def Let_def guard
    by (auto simp: wp_rules assms(2) [OF p] assms(3) [OF p] assms(4) [OF p] assms(6) [OF p] five read
        split: option.split sum.split
        intro!: wp_callI [where f = "api_SetSubvolumeProperties S x y z" for x y z]
          wp_callI [where f = "api_GetSubvolume S x y" for x y])
qed

text \<open>
  What a request wants recorded: the identity over the properties it was given, the mark of the
  driver, and the date of creation that the volume already has.
\<close>

definition wanted :: "subvolume \<Rightarrow> props option \<Rightarrow> props \<Rightarrow> propkey \<Rightarrow> string option" where
  "wanted sv base identity key =
     (if key = PropertyCreatedAt \<and> mget (sv_Properties sv) key \<noteq> [] then Some (mget (sv_Properties sv) key)
      else if key = PropertyManagedBy then Some ManagedByValue
      else case fmlookup identity key of Some v \<Rightarrow> Some v | None \<Rightarrow> Option.bind base (\<lambda>ps. fmlookup ps key))"

definition shows_all :: "props \<Rightarrow> (propkey \<Rightarrow> string option) \<Rightarrow> bool" where
  "shows_all ps want \<longleftrightarrow> (\<forall>key v. want key = Some v \<longrightarrow> mget ps key = v)"

lemma wanted_iff: "fmlookup (intendedProperties sv base identity) = wanted sv base identity"
  by (rule ext) (auto simp: intendedProperties_def Let_def wanted_def mergeProperties_def copyProperties_def
      split: option.splits)

lemma contains_iff: "propertiesContain ps want \<longleftrightarrow> shows_all ps (fmlookup want)"
  by (auto simp: propertiesContain_iff shows_all_def)

text \<open>What is answered after a write that failed, from what the volume shows then.\<close>

definition after_failed_write ::
  "(propkey \<Rightarrow> string option) \<Rightarrow> subvolume \<Rightarrow> go_error + subvolume option \<Rightarrow> failure \<times> subvolume"
where
  "after_failed_write want sv shown =
     (case shown of
        Inr (Some cur) \<Rightarrow> (if shows_all (sv_Properties cur) want then Status Aborted else Status Internal,
                         sv\<lparr>sv_Properties := sv_Properties cur\<rparr>)
      | _ \<Rightarrow> (Status Aborted, sv))"

lemma after_failed_write_simps:
  "after_failed_write want sv (Inl e) = (Status Aborted, sv)"
  "after_failed_write want sv (Inr None) = (Status Aborted, sv)"
  "after_failed_write want sv (Inr (Some cur)) =
     (if shows_all (sv_Properties cur) want then Status Aborted else Status Internal, sv\<lparr>sv_Properties := sv_Properties cur\<rparr>)"
  by (simp_all add: after_failed_write_def)

text \<open>
  C36: what the answer to a persisted identity means. Nothing is called if there is nothing to persist,
  or if the volume shows all that is wanted. Otherwise exactly that is written, in one call. If the
  write is acknowledged, the answer is success, and the subvolume handed on has what was written. If it
  fails, the volume is read once: the answer is \<^verbatim>\<open>Internal\<close> exactly if the read shows that the write did
  not take effect, and \<^verbatim>\<open>Aborted\<close>, for a retry without rollback, if it did or if nothing can be read;
  the subvolume handed on has the properties that were read.
\<close>

theorem persistVolumeIdentity_outcome:
  "case run_state (persistVolumeIdentity S sv base d) s of ((r, sv'), s') \<Rightarrow>
     if \<not> vid_persist d \<and> base = None then r = None \<and> sv' = sv \<and> s' = s
     else case vid_properties d of
       None \<Rightarrow> r = Some (Status Internal) \<and> sv' = sv \<and> s' = s
     | Some identity \<Rightarrow>
         let want = wanted sv base identity;
             wrote = PropsSet (sv_Filesystem sv) (sv_Name sv);
             got = Got (sv_Filesystem sv) (sv_Name sv)
         in if shows_all (sv_Properties sv) want then r = None \<and> sv' = sv \<and> s' = s
            else \<exists>ps. fmlookup ps = want \<and>
              (calls s' = calls s @ [wrote ps None] \<and> r = None \<and> sv' = sv\<lparr>sv_Properties := ps\<rparr> \<or>
               (\<exists>err g e. calls s' = calls s @ [wrote ps (Some err), got g] \<and> r = Some e \<and>
                  after_failed_write want sv g = (e, sv')))"
proof -
  note wrote = wp_callI [where f = "api_SetSubvolumeProperties S x y z" for x y z]
  note read = wp_callI [where f = "api_GetSubvolume S x y" for x y]
  show ?thesis
    unfolding persistVolumeIdentity_def SetSubvolumeProperties_def GetSubvolume_def Let_def contains_iff wanted_iff
    by (rule run_caseI)
      (auto simp: wp_rules wanted_iff [symmetric] fmlookup_inject after_failed_write_simps
        split: option.split sum.split intro!: wrote read)
qed

lemma decide_Inr:
  assumes "run_state (decideExistingVolumeIdentity S req protocol backendName sv) s = (Inr d, s')"
  obtains u where "vid_properties d = Some (identity_map (req_Name req) backendName protocol u)"
    "uuid_for (sv_Properties sv) u"
    "vid_persist d \<longleftrightarrow> \<not> carries (sv_Properties sv) (req_Name req) backendName protocol u"
proof -
  have "wp (decideExistingVolumeIdentity S req protocol backendName sv)
     (\<lambda>r _. \<forall>d. r = Inr d \<longrightarrow> (\<exists>u. vid_properties d = Some (identity_map (req_Name req) backendName protocol u) \<and>
        uuid_for (sv_Properties sv) u \<and>
        (vid_persist d \<longleftrightarrow> \<not> carries (sv_Properties sv) (req_Name req) backendName protocol u))) s"
    by (rule wp_decide) auto
  from wp_run [OF this assms] that show thesis by auto
qed

lemma persist_success:
  assumes "run_state (persistVolumeIdentity S sv base d) s = ((None, sv'), s')"
    and "vid_properties d = Some (identity_map n b p u)"
    and "\<not> vid_persist d \<Longrightarrow> carries (sv_Properties sv) n b p u"
  shows "carries (sv_Properties sv') n b p u"
proof -
  have "wp (persistVolumeIdentity S sv base d)
     (\<lambda>(r, sv') _. r = None \<longrightarrow> carries (sv_Properties sv') n b p u) s"
    by (rule wp_persistVolumeIdentity)
      (use assms(2,3) in \<open>auto intro: carries_intended\<close>)
  from wp_run [OF this assms(1)] show ?thesis by simp
qed

lemma decide_carried:
  assumes "carries (sv_Properties sv) n b p u" "u \<noteq> []"
  shows "decideExistingVolumeIdentity S req protocol name sv =
     (if req_Name req \<noteq> n \<or> protocol \<noteq> p then ret (Inl (Status FailedPrecondition))
      else ret (Inr \<lparr>vid_properties = Some (identity_map n name p u), vid_persist = (b \<noteq> name)\<rparr>))"
  using assms
  by (auto simp: decideExistingVolumeIdentity_def carries_def Let_def acceptIdentity_def
      identityProperties_def)

text \<open>
  C8: ownership is exclusive and stable. Once a request has accepted a volume and its identity has
  been persisted, every request of another name (adopting or not) and every other protocol is
  refused that volume with \<^verbatim>\<open>FailedPrecondition\<close>, and a repetition of the request is accepted
  with the same identity, the same UUID included, and nothing left to write.
\<close>

theorem persisted_identity_exclusive:
  assumes "run_state (decideExistingVolumeIdentity S req protocol backendName sv) s = (Inr d, s1)"
    and "run_state (persistVolumeIdentity S sv base d) s1 = ((None, sv'), s2)"
  shows "run_state (decideExistingVolumeIdentity T req' protocol' name sv') t =
     (if req_Name req' \<noteq> req_Name req \<or> protocol' \<noteq> protocol then (Inl (Status FailedPrecondition), t)
      else if name = backendName then (Inr (d\<lparr>vid_persist := False\<rparr>), t)
      else (Inr \<lparr>vid_properties = map_option (fmupd PropertyCSIVolumeName name) (vid_properties d),
                 vid_persist = True\<rparr>, t))"
proof -
  from assms(1) obtain u where u: "vid_properties d = Some (identity_map (req_Name req) backendName protocol u)"
    "uuid_for (sv_Properties sv) u" "vid_persist d \<longleftrightarrow> \<not> carries (sv_Properties sv) (req_Name req) backendName protocol u"
    by (rule decide_Inr)
  have c: "carries (sv_Properties sv') (req_Name req) backendName protocol u"
    using assms(2) u(1) by (rule persist_success) (simp add: u(3))
  have rename: "fmupd PropertyCSIVolumeName name (identity_map n b p u) = identity_map n name p u" for n b p
    by (rule fmap_ext) (simp add: fmlookup_identity_map)
  have d: "d\<lparr>vid_persist := False\<rparr> = \<lparr>vid_properties = vid_properties d, vid_persist = False\<rparr>"
    by (cases d) simp
  show ?thesis
    unfolding decide_carried [OF c uuid_for_nonempty [OF u(2)]] d by (simp add: u(1) rename)
qed

definition adopting_request :: "string \<Rightarrow> create_request" where
  "adopting_request name =
     \<lparr>req_Name = name, req_Parameters = fmap_of_list [(''adoptExisting'', ''true'')],
      req_CapacityRange = None, req_VolumeCapabilities = [], req_ContentSource = None\<rparr>"

lemma adopting_run:
  "case run_state (decideExistingVolumeIdentity mem_svc (adopting_request ''pvc-1'') ''nfs'' ''pvc-1''
       sample_subvolume) sample_controller of
     (Inr d, s1) \<Rightarrow> fst (fst (run_state (persistVolumeIdentity mem_svc sample_subvolume None d) s1)) = None
   | (Inl _, _) \<Rightarrow> False"
  by code_simp

theorem persisted_identity_exclusive_witness:
  "\<exists>d s1 sv' s2. run_state (decideExistingVolumeIdentity mem_svc (adopting_request ''pvc-1'') ''nfs'' ''pvc-1''
       sample_subvolume) sample_controller = (Inr d, s1) \<and>
     run_state (persistVolumeIdentity mem_svc sample_subvolume None d) s1 = ((None, sv'), s2) \<and>
     run_state (decideExistingVolumeIdentity mem_svc (adopting_request ''pvc-2'') ''nfs'' ''pvc-1'' sv') s2 =
       (Inl (Status FailedPrecondition), s2)"
proof -
  from adopting_run obtain d s1 sv' s2 where
    r: "run_state (decideExistingVolumeIdentity mem_svc (adopting_request ''pvc-1'') ''nfs'' ''pvc-1''
       sample_subvolume) sample_controller = (Inr d, s1)"
    "run_state (persistVolumeIdentity mem_svc sample_subvolume None d) s1 = ((None, sv'), s2)"
    by (auto split: prod.splits sum.splits) (metis prod.collapse)
  have "req_Name (adopting_request ''pvc-2'') \<noteq> req_Name (adopting_request ''pvc-1'')"
    by (simp add: adopting_request_def)
  with r persisted_identity_exclusive [OF r, of mem_svc "adopting_request ''pvc-2''" "''nfs''" "''pvc-1''" s2]
  show ?thesis by auto
qed

section \<open>Rolling back\<close>

lemma wp_rollback:
  assumes "e = Status Aborted \<Longrightarrow> Q e s"
    and "\<And>g w. e \<noteq> Status Aborted \<Longrightarrow> Q e (s\<lparr>world := w, calls := calls s @ [Got (sv_Filesystem sv) (sv_Name sv) g]\<rparr>)"
    and "\<And>g w. e \<noteq> Status Aborted \<Longrightarrow>
      Q (Status Aborted) (s\<lparr>world := w, calls := calls s @ [Got (sv_Filesystem sv) (sv_Name sv) g]\<rparr>)"
    and "\<And>cur r w. e \<noteq> Status Aborted \<Longrightarrow> \<not> hasCompleteV2Identity (sv_Properties cur) (sv_Name sv) \<Longrightarrow>
      Q (case r of None \<Rightarrow> e | Some _ \<Rightarrow> Status Internal)
        (s\<lparr>world := w, calls := calls s @ [Got (sv_Filesystem sv) (sv_Name sv) (Inr (Some cur)),
          Deleted (sv_Filesystem sv) (sv_Name sv) r]\<rparr>)"
  shows "wp (rollbackCreatedSubvolume S sv e) Q s"
  unfolding rollbackCreatedSubvolume_def GetSubvolume_def DeleteSubvolume_def
  using assms(1)
  by (auto simp: wp_rules assms(2-4) split: option.split sum.split
      intro!: wp_callI [where f = "api_GetSubvolume S x y" for x y]
        wp_callI [where f = "api_DeleteSubvolume S x y" for x y])

text \<open>
  A rollback never turns a failure into a success and never destroys an owned volume. It
  makes no call at all after an \<^verbatim>\<open>Aborted\<close> failure, where an identity may have been written;
  otherwise it deletes at most the subvolume it was given, and only right after a read that
  returned that subvolume without a complete version-2 identity.
\<close>

theorem rollbackCreatedSubvolume_safe:
  "case run_state (rollbackCreatedSubvolume S sv e) s of (e', s') \<Rightarrow>
     let got = Got (sv_Filesystem sv) (sv_Name sv); del = Deleted (sv_Filesystem sv) (sv_Name sv)
     in if e = Status Aborted then e' = e \<and> s' = s
        else (\<exists>g. calls s' = calls s @ [got g] \<and> (e' = e \<or> e' = Status Aborted)) \<or>
          (\<exists>cur r. calls s' = calls s @ [got (Inr (Some cur)), del r] \<and>
             \<not> hasCompleteV2Identity (sv_Properties cur) (sv_Name sv) \<and>
             e' = (case r of None \<Rightarrow> e | Some _ \<Rightarrow> Status Internal))"
  by (rule run_caseI, rule wp_rollback) (auto simp: Let_def)

section \<open>Clones\<close>

text \<open>An identity is accepted without a failure if a UUID is already there.\<close>

lemma wp_acceptIdentity_full:
  assumes "\<And>w. mget ps propertyVolumeUUID = [] \<Longrightarrow> Q (Inl (Status Internal)) (s\<lparr>world := w\<rparr>)"
    and "\<And>u w. uuid_for ps u \<Longrightarrow>
      Q (Inr \<lparr>vid_properties = Some (identity_map n b p u), vid_persist = persist\<rparr>) (s\<lparr>world := w\<rparr>)"
  shows "wp (acceptIdentity S ps n b p persist) Q s"
  using assms(2) [of "mget ps propertyVolumeUUID" "world s"] assms
  by (cases "mget ps propertyVolumeUUID = []")
    (auto simp: acceptIdentity_def identityProperties_def wp_rules uuid_for_def split: sum.split intro!: wp_newVolumeUUID)

lemma carries_any:
  "(\<exists>b v. carries ps n b p v) \<longleftrightarrow>
     mget ps PropertyManagedBy = ManagedByValue \<and> mget ps propertyIdentityVersion = identityVersion2 \<and>
     mget ps propertyCSIRequestName = n \<and> mget ps PropertyProtocol = p"
  by (auto simp: carries_def)

text \<open>
  When a destination looks like a copy of a source: it has the source's UUID, or the source's request
  and volume name; or neither has an identity of version 2 and it agrees with everything that the
  source, a volume of the driver, records.
\<close>

definition legacy_record :: "propkey set" where
  "legacy_record = {PropertyManagedBy, PropertyCSIVolumeName, PropertyProtocol, PropertyCreatedAt,
     PropertyCapacityBytes, PropertyPVCName, PropertyPVCNamespace, PropertyStorageClass}"

definition same_value :: "props \<Rightarrow> props \<Rightarrow> propkey \<Rightarrow> bool" where
  "same_value source destination key \<longleftrightarrow> mget source key \<noteq> [] \<and> mget destination key = mget source key"

definition copy_of :: "props \<Rightarrow> props \<Rightarrow> bool" where
  "copy_of source destination \<longleftrightarrow>
     same_value source destination propertyVolumeUUID \<or>
     same_value source destination propertyCSIRequestName \<and> same_value source destination PropertyCSIVolumeName \<or>
     mget source propertyIdentityVersion \<noteq> identityVersion2 \<and>
     mget destination propertyIdentityVersion = [] \<and> mget destination propertyCSIRequestName = [] \<and>
     mget destination propertyVolumeUUID = [] \<and>
     mget source PropertyManagedBy = ManagedByValue \<and> mget source PropertyCSIVolumeName \<noteq> [] \<and> mget source PropertyProtocol \<noteq> [] \<and>
     (\<forall>key\<in>legacy_record. mget source key \<noteq> [] \<longrightarrow> mget destination key = mget source key)"

lemma copy_of_iff: "cloneCarriesSourceIdentity destination source \<longleftrightarrow> copy_of source destination"
proof -
  have "list_ex (\<lambda>key. mget source key \<noteq> [] \<and> mget destination key \<noteq> mget source key)
      [PropertyManagedBy, PropertyCSIVolumeName, PropertyProtocol, PropertyCreatedAt,
       PropertyCapacityBytes, PropertyPVCName, PropertyPVCNamespace, PropertyStorageClass] \<longleftrightarrow>
    \<not> (\<forall>key\<in>legacy_record. mget source key \<noteq> [] \<longrightarrow> mget destination key = mget source key)"
    by (simp add: legacy_record_def)
  note agrees = this
  show ?thesis
    unfolding cloneCarriesSourceIdentity_def copy_of_def same_value_def agrees by argo
qed

text \<open>
  The provenance of a destination: a copy of the source, or, if the source is gone, the complete
  identity that the source's volume had.
\<close>

definition from_source :: "string \<Rightarrow> string \<Rightarrow> props \<Rightarrow> bool \<Rightarrow> props \<Rightarrow> bool" where
  "from_source protocol sourceBackendName source sourceExists destination \<longleftrightarrow>
     (if sourceExists then copy_of source destination
      else \<exists>n u. n \<noteq> [] \<and> u \<noteq> [] \<and> protocol \<noteq> [] \<and> carries destination n sourceBackendName protocol u)"

lemma from_source_iff:
  "(if sourceExists then cloneCarriesSourceIdentity destination source
    else hasCompleteV2Identity destination sourceBackendName \<and> mget destination PropertyProtocol = protocol) \<longleftrightarrow>
   from_source protocol sourceBackendName source sourceExists destination"
  by (auto simp: from_source_def copy_of_iff hasCompleteV2Identity_def carries_def)


text \<open>A volume that another request made is refused; the identity of a volume of its own is continued.\<close>

definition made_by :: "string \<Rightarrow> subvolume" where
  "made_by n = sample_subvolume\<lparr>sv_Properties :=
     fmupd PropertyManagedBy ManagedByValue (identity_map n ''copy'' ''nfs'' ''some-uuid'')\<rparr>"

lemma made_by_carries:
  "(\<exists>b v. carries (sv_Properties (made_by n)) m b p v) \<longleftrightarrow> m = n \<and> p = ''nfs''"
  by (auto simp: made_by_def carries_def identity_map_def mget_def fmlookup_of_list)


end
