(* ===== verification/Deletion_Ownership.thy ===== *)
theory Deletion_Ownership
  imports Controller_Base
begin

text \<open>
  What the deletion of a volume has in common for all protocols: the ownership check and the lookup
  of \<^verbatim>\<open>src/pkg/driver/delete_ownership.go\<close>, the share cleanup of \<^verbatim>\<open>share_cleanup.go\<close>, the deletion of
  the subvolume with its retries, which three handlers spell out in the same way, and the
  specification every deletion handler is proved to meet (locale \<open>deletion_handler\<close>).
\<close>

section \<open>Ownership and lookup\<close>

definition validateDeletionOwnership :: "subvolume option \<Rightarrow> VolumeMetadata \<Rightarrow> string \<Rightarrow> failure option" where
  "validateDeletionOwnership subvol meta protocol =
     (case subvol of
        None \<Rightarrow> Some (Status Unavailable)
      | Some sv \<Rightarrow>
          (let ps = sv_Properties sv
           in if mget ps PropertyManagedBy \<noteq> ManagedByValue then Some (Status FailedPrecondition)
              else if (case fmlookup ps PropertyCSIVolumeName of
                  None \<Rightarrow> False | Some name \<Rightarrow> name \<noteq> vm_DatasetName meta)
              then Some (Status FailedPrecondition)
              else if (case fmlookup ps PropertyProtocol of None \<Rightarrow> False | Some stored \<Rightarrow> stored \<noteq> protocol)
              then Some (Status FailedPrecondition)
              else if mget ps PropertyDeleteStrategy \<notin> {[], DeleteStrategyDelete, DeleteStrategyRetain}
              then Some (Status FailedPrecondition)
              else None))"

definition deletionMetadata :: "subvolume \<Rightarrow> VolumeMetadata" where
  "deletionMetadata sv =
     \<lparr>vm_Name = [], vm_Protocol = [], vm_DatasetID = subvolumeID sv, vm_DatasetName = sv_Name sv,
      vm_CurrentCapacityBytes = None, vm_RecordedCapacityBytes = None, vm_Server = [],
      vm_NVMeOFNQN = [], vm_ISCSIIQN = [], vm_NFSShareUUID = [], vm_SMBShareUUID = []\<rparr>"

definition lookupDeletionVolume :: "'w svc \<Rightarrow> string \<Rightarrow> ('w, failure + VolumeMetadata option) op" where
  "lookupDeletionVolume S volumeID =
     (let found = (\<lambda>r. case r of
          Inl err \<Rightarrow>
            if \<not> errors_Is err ErrDatasetNotFound \<and> \<not> isNotFoundError err
            then Inl (Status Unavailable) else Inr None
        | Inr None \<Rightarrow> Inr None
        | Inr (Some sv) \<Rightarrow>
            (let protocol = mget (sv_Properties sv) PropertyProtocol
             in case validateDeletionOwnership (Some sv) (deletionMetadata sv) protocol of
                  Some e \<Rightarrow> Inl e
                | None \<Rightarrow>
                    if protocol \<notin> {ProtocolNFS, ProtocolSMB, ProtocolISCSI, ProtocolNVMeOF}
                    then Inl (Status FailedPrecondition)
                    else Inr (extractVolumeMetadataFromSubvolume volumeID sv)))
      in if isDatasetPathVolumeID volumeID
         then (case splitSubvolumeID volumeID of
             None \<Rightarrow> ret (Inl (Status InvalidArgument))
           | Some (filesystem, name) \<Rightarrow> do {
               r \<leftarrow> GetSubvolume S filesystem name;
               ret (found r)
             })
         else do {
           r \<leftarrow> quiet (api_FindSubvolumeByCSIVolumeName S [] volumeID);
           ret (found r)
         })"

text \<open>The strategy a handler reads from verified properties.\<close>

definition storedDeleteStrategy :: "props \<Rightarrow> string" where
  "storedDeleteStrategy ps =
     (case fmlookup ps PropertyDeleteStrategy of
        None \<Rightarrow> DeleteStrategyDelete
      | Some strategy \<Rightarrow> if strategy \<noteq> [] then strategy else DeleteStrategyDelete)"

section \<open>Share cleanup\<close>

fun removeShares ::
  "('a \<Rightarrow> string \<times> string) \<Rightarrow> (string \<Rightarrow> ('w, go_error option) op) \<Rightarrow> string \<Rightarrow> 'a list \<Rightarrow> ('w, failure option) op"
where
  "removeShares ident remove path [] = ret None"
| "removeShares ident remove path (share # shares) =
     (if snd (ident share) \<noteq> path then removeShares ident remove path shares
      else do {
        err \<leftarrow> remove (fst (ident share));
        case err of
          Some e \<Rightarrow>
            if \<not> isNotFoundError e then ret (Some (Status Unavailable))
            else removeShares ident remove path shares
        | None \<Rightarrow> removeShares ident remove path shares
      })"

definition deleteShareByPath ::
  "string \<Rightarrow> ('w, go_error + 'a list) op \<Rightarrow> ('a \<Rightarrow> string \<times> string) \<Rightarrow>
     (string \<Rightarrow> ('w, go_error option) op) \<Rightarrow> ('w, failure option) op"
where
  "deleteShareByPath path listing ident remove = do {
     shares \<leftarrow> listing;
     case shares of
       Inl _ \<Rightarrow> ret (Some (Status Unavailable))
     | Inr xs \<Rightarrow> removeShares ident remove path xs
   }"

text \<open>Removal of a share known by its identifier.\<close>

definition deleteShareByID :: "(string \<Rightarrow> ('w, go_error option) op) \<Rightarrow> string \<Rightarrow> ('w, failure option) op" where
  "deleteShareByID remove shareUUID =
     (if shareUUID = [] then ret None
      else do {
        err \<leftarrow> remove shareUUID;
        ret (case err of
            None \<Rightarrow> None
          | Some e \<Rightarrow> if isNotFoundError e then None else Some (Status Unavailable))
      })"

section \<open>Deleting the subvolume\<close>

definition deleteSubvolumeRetrying ::
  "'w svc \<Rightarrow> string \<Rightarrow> string \<Rightarrow> string \<Rightarrow> ('w, failure option) op" where
  "deleteSubvolumeRetrying S operation filesystem name = do {
     firstErr \<leftarrow> DeleteSubvolume S filesystem name;
     case firstErr of
       None \<Rightarrow> ret None
     | Some e \<Rightarrow>
         if errors_Is e ErrUncertainOutcome then ret (Some (Status Unavailable))
         else if isNotFoundError e then ret None
         else do {
           r \<leftarrow> WithRetryNoResult (retry_context S) (DeletionConfig operation) (do {
             d \<leftarrow> DeleteSubvolume S filesystem name;
             ret (case d of
                 None \<Rightarrow> None
               | Some e' \<Rightarrow> if isNotFoundError e' then None else Some e')
           });
           ret (case r of None \<Rightarrow> None | Some _ \<Rightarrow> Some (Status Internal))
         }
   }"

section \<open>The specification of a deletion handler\<close>

definition removed :: "go_error option \<Rightarrow> bool" where
  "removed r = (case r of None \<Rightarrow> True | Some e \<Rightarrow> isNotFoundError e)"

text \<open>A sequence of removals of presentations of one protocol: all but the last worked.\<close>

fun unexposures :: "string \<Rightarrow> bool \<Rightarrow> event list \<Rightarrow> bool" where
  "unexposures p ok [] = ok"
| "unexposures p ok (Unexpose q i r # tr) \<longleftrightarrow>
     q = p \<and> (if removed r then unexposures p ok tr else tr = [] \<and> \<not> ok)"
| "unexposures p ok (_ # tr) = False"

text \<open>
  A sequence of deletions of one subvolume: all but the last failed, with an error that is neither
  not-found nor of uncertain outcome. An error that is both fails a first deletion.
\<close>

fun deletions :: "string \<Rightarrow> string \<Rightarrow> bool \<Rightarrow> event list \<Rightarrow> bool" where
  "deletions fs n ok [] = (\<not> ok)"
| "deletions fs n ok (Deleted f m r # tr) \<longleftrightarrow>
     f = fs \<and> m = n \<and>
     (case r of
        None \<Rightarrow> tr = [] \<and> ok
      | Some e \<Rightarrow>
          if tr = [] then (if ok then isNotFoundError e else \<not> isNotFoundError e \<or> errors_Is e ErrUncertainOutcome)
          else \<not> isNotFoundError e \<and> \<not> errors_Is e ErrUncertainOutcome \<and> deletions fs n ok tr)"
| "deletions fs n ok (_ # tr) = False"

text \<open>
  What a deletion of the subvolume \<open>fs/n\<close> does, as the calls it makes and its answer: it reads the
  subvolume once; absent is success; anything it cannot verify is refused; a retained volume is
  left alone; otherwise it removes the presentations, and only if that worked it deletes the
  subvolume, and only if that worked it answers success.
\<close>

definition deletion_run ::
  "VolumeMetadata \<Rightarrow> string \<Rightarrow> string \<Rightarrow> string \<Rightarrow> failure option \<Rightarrow> event list \<Rightarrow> bool" where
  "deletion_run meta protocol fs n r tr =
     (case tr of
        Got f m g # rest \<Rightarrow>
          f = fs \<and> m = n \<and>
          (case g of
             Inl e \<Rightarrow> rest = [] \<and> r = (if isNotFoundError e then None else Some (Status Unavailable))
           | Inr x \<Rightarrow>
               (case validateDeletionOwnership x meta protocol of
                  Some e \<Rightarrow> rest = [] \<and> r = Some e
                | None \<Rightarrow>
                    if storedDeleteStrategy (sv_Properties (the x)) = DeleteStrategyRetain
                    then rest = [] \<and> r = None
                    else (\<exists>us ds. rest = us @ ds \<and>
                      (if r = None then unexposures protocol True us \<and> deletions fs n True ds
                       else ds = [] \<and> (unexposures protocol False us \<or> unexposures protocol True us) \<or>
                         unexposures protocol True us \<and> deletions fs n False ds))))
      | _ \<Rightarrow> False)"

text \<open>
  Which calls a deletion may make after the calls \<open>past\<close>: to remove a presentation or the
  subvolume it must have read the subvolume, found it owned, and found that it is not retained.
\<close>

definition verified :: "VolumeMetadata \<Rightarrow> string \<Rightarrow> string \<Rightarrow> string \<Rightarrow> event list \<Rightarrow> bool" where
  "verified meta protocol fs n past \<longleftrightarrow>
     (\<exists>sv. Got fs n (Inr (Some sv)) \<in> set past \<and>
       validateDeletionOwnership (Some sv) meta protocol = None \<and>
       storedDeleteStrategy (sv_Properties sv) \<noteq> DeleteStrategyRetain)"

definition licensed :: "VolumeMetadata \<Rightarrow> string \<Rightarrow> string \<Rightarrow> string \<Rightarrow> event list \<Rightarrow> event \<Rightarrow> bool" where
  "licensed meta protocol fs n past e =
     (case e of
        Got f m g \<Rightarrow> True
      | Unexpose q i r \<Rightarrow> q = protocol \<and> verified meta protocol fs n past
      | Deleted f m r \<Rightarrow> f = fs \<and> m = n \<and> verified meta protocol fs n past
      | _ \<Rightarrow> False)"

lemma unexposures_events: "unexposures p ok us \<Longrightarrow> e \<in> set us \<Longrightarrow> \<exists>i r. e = Unexpose p i r"
  by (induction p ok us rule: unexposures.induct) (auto split: if_splits)

lemma deletions_events: "deletions fs n ok ds \<Longrightarrow> e \<in> set ds \<Longrightarrow> \<exists>r. e = Deleted fs n r"
proof (induction ds)
  case (Cons d ds)
  then show ?case by (cases d; cases "ds = []") (auto split: if_splits option.splits)
qed simp

lemma deletion_run_licensed:
  assumes "deletion_run meta protocol fs n r tr"
  shows "each_after (licensed meta protocol fs n) tr"
proof -
  from assms obtain g rest where tr: "tr = Got fs n g # rest"
    by (auto simp: deletion_run_def split: list.splits event.splits)
  show ?thesis
  proof (cases "rest = []")
    case True
    then show ?thesis by (simp add: tr each_after_def licensed_def)
  next
    case False
    with assms tr obtain sv us ds where g: "g = Inr (Some sv)"
      and ok: "validateDeletionOwnership (Some sv) meta protocol = None"
        "storedDeleteStrategy (sv_Properties sv) \<noteq> DeleteStrategyRetain"
      and rest: "rest = us @ ds" "ds = [] \<or> (\<exists>b. deletions fs n b ds)" "\<exists>b. unexposures protocol b us"
      by (auto simp: deletion_run_def validateDeletionOwnership_def split: sum.splits option.splits if_splits)
    have ev: "x \<in> set us \<Longrightarrow> \<exists>i r. x = Unexpose protocol i r" "x \<in> set ds \<Longrightarrow> \<exists>r. x = Deleted fs n r" for x
      using rest unexposures_events deletions_events by (blast, fastforce)
    have "licensed meta protocol fs n past e" if "e \<in> set rest" "Got fs n g \<in> set past" for e past
    proof -
      have "verified meta protocol fs n past" using that(2) ok g by (auto simp: verified_def)
      with that(1) rest(1) ev [of e] show ?thesis by (auto simp: licensed_def)
    qed
    then show ?thesis
      unfolding tr by (intro each_after_Cons_head) (auto simp: licensed_def)
  qed
qed

section \<open>Rules for the shared steps\<close>

lemma wp_removeShares:
  "wp (removeShares ident (\<lambda>i. call (f i) (\<lambda>r. [Unexpose p i r])) path xs)
     (\<lambda>r s'. \<exists>us. calls s' = calls s @ us \<and> unexposures p (r = None) us) s"
proof (induction xs arbitrary: s)
  case Nil
  then show ?case by (simp add: wp_rules)
next
  case (Cons x xs)
  have step: "wp (removeShares ident (\<lambda>i. call (f i) (\<lambda>r. [Unexpose p i r])) path xs)
       (\<lambda>r s'. \<exists>us. calls s' = calls s @ us \<and> unexposures p (r = None) us)
       (s\<lparr>world := w, calls := calls s @ [Unexpose p i rr]\<rparr>)" if "removed rr" for w i rr
  proof (rule wp_mono [OF Cons.IH])
    fix r s'
    assume "\<exists>us. calls s' = calls (s\<lparr>world := w, calls := calls s @ [Unexpose p i rr]\<rparr>) @ us \<and> unexposures p (r = None) us"
    then obtain us where "calls s' = calls s @ (Unexpose p i rr # us)" "unexposures p (r = None) us" by auto
    with that show "\<exists>us. calls s' = calls s @ us \<and> unexposures p (r = None) us"
      by (intro exI [of _ "Unexpose p i rr # us"]) simp
  qed
  show ?case
  proof (cases "snd (ident x) = path")
    case True
    show ?thesis
      by (simp add: True wp_rules, rule wp_callI) (auto simp: wp_rules removed_def split: option.split intro!: step)
  qed (simp add: Cons.IH)
qed

lemma wp_deleteShareByID:
  "wp (deleteShareByID (\<lambda>i. call (f i) (\<lambda>r. [Unexpose p i r])) u)
     (\<lambda>r s'. \<exists>us. calls s' = calls s @ us \<and> unexposures p (r = None) us) s"
  by (auto simp: deleteShareByID_def wp_rules removed_def split: option.split intro!: wp_callI)

lemma wp_deleteShareByPath:
  assumes "\<And>s Q. (\<And>x w. Q x (s\<lparr>world := w\<rparr>)) \<Longrightarrow> wp listing Q s"
  shows "wp (deleteShareByPath path listing ident (\<lambda>i. call (f i) (\<lambda>r. [Unexpose p i r])))
     (\<lambda>r s'. \<exists>us. calls s' = calls s @ us \<and> (unexposures p (r = None) us \<or> r \<noteq> None \<and> unexposures p True us)) s"
proof -
  have "wp (removeShares ident (\<lambda>i. call (f i) (\<lambda>r. [Unexpose p i r])) path xs)
     (\<lambda>r s'. \<exists>us. calls s' = calls s @ us \<and> (unexposures p (r = None) us \<or> r \<noteq> None \<and> unexposures p True us))
     (s\<lparr>world := w\<rparr>)" for xs w
    by (rule wp_mono [OF wp_removeShares]) auto
  then show ?thesis
    unfolding deleteShareByPath_def wp_bind
    by (intro assms) (auto simp: wp_rules split: sum.split)
qed

definition pending :: "string \<Rightarrow> string \<Rightarrow> event list \<Rightarrow> bool" where
  "pending fs n ds \<longleftrightarrow>
     list_all (\<lambda>e. \<exists>err. e = Deleted fs n (Some err) \<and> \<not> isNotFoundError err \<and>
       \<not> errors_Is err ErrUncertainOutcome) ds"

lemma pending_snoc [simp]:
  "pending fs n (ds @ [Deleted f m r]) \<longleftrightarrow>
     pending fs n ds \<and> f = fs \<and> m = n \<and>
     (\<exists>err. r = Some err \<and> \<not> isNotFoundError err \<and> \<not> errors_Is err ErrUncertainOutcome)"
  by (auto simp: pending_def)

lemma pending_deletions: "pending fs n ds \<Longrightarrow> deletions fs n (removed r) (ds @ [Deleted fs n r])"
  by (induction ds) (auto simp: pending_def removed_def split: option.splits)

lemma pending_failed: "pending fs n ds \<Longrightarrow> deletions fs n False ds"
  by (induction ds) (auto simp: pending_def removed_def)

lemma wp_retry_context:
  "(\<And>x w. Q x (s\<lparr>world := w\<rparr>)) \<Longrightarrow> wp (ctx_Err (retry_context S)) Q s"
  "(\<And>x w. Q x (s\<lparr>world := w\<rparr>)) \<Longrightarrow> wp (select_after (retry_context S) d) Q s"
  by (auto simp: retry_context_def intro!: wp_callI)

lemma wp_deleteSubvolumeRetrying:
  fixes S :: "'w svc" and s :: "'w controller"
  shows "wp (deleteSubvolumeRetrying S operation fs n)
     (\<lambda>r s'. \<exists>ds. calls s' = calls s @ ds \<and> deletions fs n (r = None) ds) s"
proof -
  let ?fn = "DeleteSubvolume S fs n \<bind> (\<lambda>d. ret (case d of
      None \<Rightarrow> None | Some e' \<Rightarrow> if isNotFoundError e' then None else Some e'))"
  let ?attempt = "?fn \<bind> (\<lambda>err. ret (case err of None \<Rightarrow> Inr () | Some e \<Rightarrow> Inl e))"
  define I :: "'w controller \<Rightarrow> bool" where "I = (\<lambda>s'. \<exists>ds. calls s' = calls s @ ds \<and> pending fs n ds)"
  define Q :: "go_error retry_error + unit \<Rightarrow> 'w controller \<Rightarrow> bool" where "Q = (\<lambda>r s'. \<exists>ds. calls s' = calls s @ ds \<and>
      deletions fs n (case r of Inl _ \<Rightarrow> False | Inr _ \<Rightarrow> True) ds)"
  have I_Q: "Q (Inl e) s'" if "I s'" for e s'
    using that by (auto simp: I_def Q_def dest: pending_failed)
  have attempt: "wp ?attempt (\<lambda>r s'. case r of
        Inr x \<Rightarrow> Q (Inr x) s'
      | Inl err \<Rightarrow> if gives_up (retry_context S) c err then Q (Inl (FnError err)) s'
          else I s' \<and> Q (Inl (MaxRetriesExceeded m (Some err))) s') s1" if inv: "I s1" for s1 c m
  proof -
    from inv obtain ds where ds: "calls s1 = calls s @ ds" "pending fs n ds" by (auto simp: I_def)
    have ok: "Q (Inr ()) (s1\<lparr>world := w, calls := calls s1 @ [Deleted fs n r]\<rparr>)" if "removed r" for r w
      using pending_deletions [OF ds(2), of r] that ds(1) by (auto simp: Q_def)
    have bad: "Q (Inl e) (s1\<lparr>world := w, calls := calls s1 @ [Deleted fs n r]\<rparr>)" if "\<not> removed r" for e r w
      using pending_deletions [OF ds(2), of r] that ds(1) by (auto simp: Q_def)
    have keep: "I (s1\<lparr>world := w, calls := calls s1 @ [Deleted fs n (Some e)]\<rparr>)"
      if "\<not> isNotFoundError e" "\<not> gives_up (retry_context S) c e" for e w
      using that ds by (auto simp: I_def gives_up_def retry_context_def)
    show ?thesis
      by (auto simp: wp_rules DeleteSubvolume_def removed_def split: option.split
          intro!: wp_callI ok bad keep)
  qed
  have retry: "wp (WithRetryNoResult (retry_context S) (DeletionConfig operation) ?fn)
      (\<lambda>r s'. \<exists>ds. calls s' = calls s @ ds \<and> deletions fs n (r = None) ds) s0" if "I s0" for s0
  proof -
    have "wp (WithRetry (retry_context S) (DeletionConfig operation) ?attempt) Q s0"
      by (rule WithRetry_wp [where I = I, OF that _ attempt])
        (auto intro!: wp_retry_context I_Q split: option.split simp: I_def)
    then show ?thesis
      unfolding WithRetryNoResult_def wp_bind
      by (rule wp_mono) (auto simp: wp_return Q_def split: sum.splits)
  qed
  have start: "I (s\<lparr>world := w, calls := calls s @ [Deleted fs n (Some e)]\<rparr>)"
    if "\<not> isNotFoundError e" "\<not> errors_Is e ErrUncertainOutcome" for e w
    using that by (auto simp: I_def pending_def)
  note first = wp_mono [OF retry [OF start]]
  show ?thesis
    unfolding deleteSubvolumeRetrying_def DeleteSubvolume_def wp_bind
    by (rule wp_callI) (auto simp: wp_rules removed_def DeleteSubvolume_def [symmetric] split: option.split
        intro!: first)
qed

section \<open>The contract of a deletion handler\<close>

text \<open>
  Metadata as the lookup delivers it carries no share identifiers. For it a handler promises the
  specified run on the subvolume its identifier names, and no call that is in the trace when the
  identifier names none; a subvolume of the filesystem with the empty name may be skipped.
\<close>

definition looked_up :: "VolumeMetadata \<Rightarrow> bool" where
  "looked_up meta \<longleftrightarrow> vm_NFSShareUUID meta = [] \<and> vm_SMBShareUUID meta = []"

locale deletion_handler =
  fixes handler :: "'w svc \<Rightarrow> VolumeMetadata \<Rightarrow> ('w, failure option) op"
    and protocol :: string
  assumes run: "looked_up meta \<Longrightarrow> splitSubvolumeID (vm_DatasetID meta) = Some (fs, n) \<Longrightarrow>
      wp (handler S meta)
        (\<lambda>r s'. \<exists>tr. calls s' = calls s @ tr \<and> (deletion_run meta protocol fs n r tr \<or> fs = [] \<and> tr = [])) s"
    and malformed: "looked_up meta \<Longrightarrow> splitSubvolumeID (vm_DatasetID meta) = None \<Longrightarrow>
      wp (handler S meta) (\<lambda>r s'. calls s' = calls s) s"
begin

lemma licensed_run:
  assumes "looked_up meta"
  shows "wp (handler S meta)
     (\<lambda>r s'. \<exists>tr. calls s' = calls s @ tr \<and>
        each_after (\<lambda>past e. \<exists>fs n. splitSubvolumeID (vm_DatasetID meta) = Some (fs, n) \<and>
          licensed meta protocol fs n past e) tr) s"
proof (cases "splitSubvolumeID (vm_DatasetID meta)")
  case None
  show ?thesis by (rule wp_mono [OF malformed [OF assms None]]) simp
next
  case (Some p)
  then obtain fs n where p: "splitSubvolumeID (vm_DatasetID meta) = Some (fs, n)" by (cases p) auto
  then show ?thesis
    by (intro wp_mono [OF run [OF assms p]]) (auto dest: deletion_run_licensed)
qed

lemma named_run:
  assumes "looked_up meta" "splitSubvolumeID (vm_DatasetID meta) = Some (fs, n)" "fs \<noteq> []"
  shows "wp (handler S meta) (\<lambda>r s'. \<exists>tr. calls s' = calls s @ tr \<and> deletion_run meta protocol fs n r tr) s"
  by (rule wp_mono [OF run [OF assms(1,2)]]) (use assms(3) in auto)

end

end
