(* ===== verification/Controller_NFS.thy ===== *)
theory Controller_NFS
  imports Volume_Identity Deletion_Ownership
begin

text \<open>
  The NFS operations of the controller (\<^verbatim>\<open>src/pkg/driver/controller_nfs.go\<close>), with the helpers
  this file defines for the other protocols. Operation timers and log lines are left out.
\<close>

section \<open>Client calls\<close>

definition CreateNFSShare ::
  "'w svc \<Rightarrow> string \<Rightarrow> string \<Rightarrow> nfs_client list \<Rightarrow> ('w, go_error + nfs_share option) op" where
  "CreateNFSShare S path comment clients =
     call (api_CreateNFSShare S path comment clients) (\<lambda>_. [Expose ProtocolNFS path])"

definition DeleteNFSShare :: "'w svc \<Rightarrow> string \<Rightarrow> ('w, go_error option) op" where
  "DeleteNFSShare S i = call (api_DeleteNFSShare S i) (\<lambda>r. [Unexpose ProtocolNFS i r])"

section \<open>Parameters\<close>

definition defaultNFSClientOptions :: string where
  "defaultNFSClientOptions = ''rw,no_root_squash''"

record nfsVolumeParams =
  np_filesystem :: string
  np_volumeName :: string
  np_subvolumeName :: string
  np_subvolumeID :: string
  np_deleteStrategy :: string
  np_server :: string
  np_comment :: string
  np_compression :: string
  np_foregroundTarget :: string
  np_backgroundTarget :: string
  np_promoteTarget :: string
  np_metadataTarget :: string
  np_pvcName :: string
  np_pvcNamespace :: string
  np_storageClass :: string
  np_nfsClients :: "nfs_client list"
  np_requestedCapacity :: int
  np_dataReplicas :: uint32
  np_markAdoptable :: bool
  np_encrypted :: bool

definition parseNFSClients :: "string \<Rightarrow> nfs_client list" where
  "parseNFSClients clientsParam =
     (if clientsParam = [] then [\<lparr>nc_Host = ''*'', nc_Options = defaultNFSClientOptions\<rparr>]
      else map (\<lambda>entry.
        let e = trim_space entry
        in case str_index CHR '':'' e of
             None \<Rightarrow> \<lparr>nc_Host = e, nc_Options = defaultNFSClientOptions\<rparr>
           | Some i \<Rightarrow> \<lparr>nc_Host = take i e, nc_Options = drop (Suc i) e\<rparr>)
        (str_split CHR '','' clientsParam))"

definition defaultCapacity :: "int \<Rightarrow> int" where
  "defaultCapacity requested = (if requested = 0 then 1 * 1024 * 1024 * 1024 else requested)"

definition orDefault :: "string \<Rightarrow> string \<Rightarrow> string" where
  "orDefault v d = (if v = [] then d else v)"

definition validateNFSParams :: "'t name_lib \<Rightarrow> create_request \<Rightarrow> failure + nfsVolumeParams" where
  "validateNFSParams lib req =
     (let params = req_Parameters req
      in if mget params paramFilesystem = [] then Inl (Status InvalidArgument)
         else case ResolveVolumeName lib params (req_Name req) of
           Inl _ \<Rightarrow> Inl (Status InvalidArgument)
         | Inr volumeName \<Rightarrow>
             (case ResolveComment lib params (req_Name req) of
                Inl _ \<Rightarrow> Inl (Status InvalidArgument)
              | Inr comment \<Rightarrow>
                  (case parseDataReplicas (mget params ''dataReplicas'') of
                     Inl e \<Rightarrow> Inl e
                   | Inr dataReplicas \<Rightarrow>
                       Inr \<lparr>np_filesystem = mget params paramFilesystem,
                            np_volumeName = volumeName,
                            np_subvolumeName = volumeName,
                            np_subvolumeID = mget params paramFilesystem @ ''/'' @ volumeName,
                            np_deleteStrategy = orDefault (mget params ''deleteStrategy'') DeleteStrategyDelete,
                            np_server = orDefault (mget params ''server'') defaultServerAddress,
                            np_comment = comment,
                            np_compression = mget params ''compression'',
                            np_foregroundTarget = mget params ''foregroundTarget'',
                            np_backgroundTarget = mget params ''backgroundTarget'',
                            np_promoteTarget = mget params ''promoteTarget'',
                            np_metadataTarget = mget params ''metadataTarget'',
                            np_pvcName = mget params CSIPVCName,
                            np_pvcNamespace = mget params CSIPVCNamespace,
                            np_storageClass = mget params ''csi.storage.k8s.io/sc/name'',
                            np_nfsClients = parseNFSClients (mget params ''nfsClients''),
                            np_requestedCapacity = defaultCapacity (GetRequiredBytes req),
                            np_dataReplicas = dataReplicas,
                            np_markAdoptable = (mget params ''markAdoptable'' = VolumeContextValueTrue),
                            np_encrypted = equal_fold (mget params ''encryption'') ''true''\<rparr>)))"

section \<open>The capacity in a share comment\<close>

text \<open>
  \<^verbatim>\<open>fmt.Sscanf(comment, "CSI Volume: %s | Capacity: %d", \<dots>)\<close>: a space of the format matches one
  or more blanks (or the end), any other character itself; both verbs skip blanks first; a newline
  ends the scan with an error.
\<close>

definition blank :: "char \<Rightarrow> bool" where
  "blank c \<longleftrightarrow> white c \<and> c \<noteq> CHR 0x0A"

fun scan_literal :: "string \<Rightarrow> string \<Rightarrow> string option" where
  "scan_literal [] s = Some s"
| "scan_literal (f # fs) s =
     (if f = CHR '' '' then
        (case s of
           [] \<Rightarrow> scan_literal fs []
         | c # cs \<Rightarrow> if blank c then scan_literal fs (dropWhile blank cs) else None)
      else
        (case s of
           [] \<Rightarrow> None
         | c # cs \<Rightarrow> if c = f then scan_literal fs cs else None))"

definition skip_space :: "string \<Rightarrow> string option" where
  "skip_space s =
     (case dropWhile blank s of
        [] \<Rightarrow> Some []
      | c # cs \<Rightarrow> if c = CHR 0x0A then None else Some (c # cs))"

text \<open>\<^verbatim>\<open>%s\<close> leaves the rest of the input; \<^verbatim>\<open>%d\<close> is the value read.\<close>

definition scan_word :: "string \<Rightarrow> string option" where
  "scan_word s =
     (case skip_space s of
        None \<Rightarrow> None
      | Some t \<Rightarrow> if t = [] then None else Some (dropWhile (\<lambda>c. \<not> white c) t))"

definition scan_int :: "string \<Rightarrow> int option" where
  "scan_int s =
     (case skip_space s of
        None \<Rightarrow> None
      | Some [] \<Rightarrow> None
      | Some (c # cs) \<Rightarrow>
          if c = CHR ''-'' \<or> c = CHR ''+'' then atoi (c # takeWhile is_digit cs)
          else atoi (takeWhile is_digit (c # cs)))"

definition parseCapacityFromComment :: "string \<Rightarrow> int" where
  "parseCapacityFromComment comment =
     (if comment = [] then 0
      else
        (case Option.bind (scan_literal ''CSI Volume: '' comment) scan_word of
           None \<Rightarrow> 0
         | Some rest \<Rightarrow>
             (case Option.bind (scan_literal '' | Capacity: '' rest) scan_int of
                None \<Rightarrow> 0
              | Some parsedCapacity \<Rightarrow> parsedCapacity)))"

definition shareComment :: "string \<Rightarrow> int \<Rightarrow> string" where
  "shareComment volumeName capacity =
     ''CSI Volume: '' @ volumeName @ '' | Capacity: '' @ format_int capacity"

section \<open>Responses and properties\<close>

definition emptyMetadata :: VolumeMetadata where
  "emptyMetadata =
     \<lparr>vm_Name = [], vm_Protocol = [], vm_DatasetID = [], vm_DatasetName = [],
      vm_CurrentCapacityBytes = None, vm_RecordedCapacityBytes = None, vm_Server = [],
      vm_NVMeOFNQN = [], vm_ISCSIIQN = [], vm_NFSShareUUID = [], vm_SMBShareUUID = []\<rparr>"

definition nfsVolumeContext :: "string \<Rightarrow> string \<Rightarrow> subvolume \<Rightarrow> nfs_share \<Rightarrow> smap" where
  "nfsVolumeContext volumeName server sv share =
     fmupd ''share'' (sv_Path sv)
       (buildVolumeContext (emptyMetadata\<lparr>vm_Name := volumeName, vm_Protocol := ProtocolNFS,
          vm_DatasetID := subvolumeID sv, vm_DatasetName := sv_Name sv, vm_Server := server,
          vm_NFSShareUUID := nfs_ID share\<rparr>))"

definition buildNFSVolumeResponseFromSubvolume ::
  "string \<Rightarrow> string \<Rightarrow> subvolume \<Rightarrow> nfs_share \<Rightarrow> int \<Rightarrow> ('w, csi_volume) op" where
  "buildNFSVolumeResponseFromSubvolume volumeName server sv share capacity = do {
     SetVolumeCapacity (subvolumeID sv) ProtocolNFS capacity;
     ret \<lparr>vol_VolumeId = subvolumeID sv, vol_CapacityBytes = capacity,
          vol_VolumeContext = nfsVolumeContext volumeName server sv share, vol_ContentSource = None\<rparr>
   }"

definition nfsPropertiesV1 :: "'w svc \<Rightarrow> nfsVolumeParams \<Rightarrow> ('w, props) op" where
  "nfsPropertiesV1 S params = do {
     now \<leftarrow> quiet (env_Now S);
     ret (svc_VolumeProperties S
       \<lparr>vp_VolumeID = np_volumeName params, vp_Protocol = ProtocolNFS,
        vp_CapacityBytes = np_requestedCapacity params, vp_CreatedAt = now,
        vp_DeleteStrategy = np_deleteStrategy params, vp_PVCName = np_pvcName params,
        vp_PVCNamespace = np_pvcNamespace params, vp_StorageClass = np_storageClass params,
        vp_Adoptable = np_markAdoptable params, vp_ClusterID = svc_clusterID S,
        vp_Encrypted = np_encrypted params\<rparr>)
   }"

section \<open>Creation\<close>

text \<open>The answer is \<^const>\<open>None\<close> when the volume has no share yet and creation continues.\<close>

definition handleExistingNFSSubvolume ::
  "'w svc \<Rightarrow> nfsVolumeParams \<Rightarrow> subvolume \<Rightarrow> volumeIdentityDecision \<Rightarrow> ('w, failure + csi_volume option) op"
where
  "handleExistingNFSSubvolume S params existing identity = do {
     r \<leftarrow> quiet (api_ListNFSShares S);
     case r of
       Inl _ \<Rightarrow> ret (Inl (Status Internal))
     | Inr shares \<Rightarrow>
         (case List.find (\<lambda>sh. nfs_Path sh = sv_Path existing) shares of
            None \<Rightarrow> ret (Inr None)
          | Some share \<Rightarrow>
              (let existingCapacity =
                     (case nfs_Comment share of None \<Rightarrow> 0 | Some c \<Rightarrow> parseCapacityFromComment c)
               in if existingCapacity > 0 \<and> existingCapacity \<noteq> np_requestedCapacity params
                  then ret (Inl (Status AlreadyExists))
                  else do {
                    base \<leftarrow> nfsPropertiesV1 S params;
                    p \<leftarrow> persistVolumeIdentity S existing (Some base) identity;
                    case p of
                      (Some e, _) \<Rightarrow> ret (Inl e)
                    | (None, existing) \<Rightarrow> do {
                        resp \<leftarrow> buildNFSVolumeResponseFromSubvolume (np_volumeName params) (np_server params)
                          existing share
                          (if existingCapacity > 0 then existingCapacity else np_requestedCapacity params);
                        ret (Inr (Some resp))
                      }
                  }))
   }"

definition createNFSShareForSubvolume ::
  "'w svc \<Rightarrow> subvolume \<Rightarrow> nfsVolumeParams \<Rightarrow> ('w, failure + nfs_share) op" where
  "createNFSShareForSubvolume S sv params = do {
     r \<leftarrow> CreateNFSShare S (sv_Path sv)
       (shareComment (np_volumeName params) (np_requestedCapacity params)) (np_nfsClients params);
     ret (case r of
         Inl _ \<Rightarrow> Inl (Status Internal)
       | Inr None \<Rightarrow> Inl (Status Internal)
       | Inr (Some share) \<Rightarrow> if nfs_Path share \<noteq> sv_Path sv then Inl (Status Internal) else Inr share)
   }"

text \<open>From the property write on; \<open>createdByRequest\<close> says whether a failure rolls back.\<close>

definition finishNFSVolume ::
  "'w svc \<Rightarrow> nfsVolumeParams \<Rightarrow> subvolume \<Rightarrow> volumeIdentityDecision \<Rightarrow> bool \<Rightarrow> ('w, failure + csi_volume) op"
where
  "finishNFSVolume S params sv identity createdByRequest = do {
     base \<leftarrow> nfsPropertiesV1 S params;
     p \<leftarrow> persistVolumeIdentity S sv (Some base) identity;
     case p of
       (Some propertyErr, sv) \<Rightarrow>
         if createdByRequest then do {
           e \<leftarrow> rollbackCreatedSubvolume S sv propertyErr;
           ret (Inl e)
         }
         else ret (Inl propertyErr)
     | (None, sv) \<Rightarrow> do {
         r \<leftarrow> createNFSShareForSubvolume S sv params;
         case r of
           Inl e \<Rightarrow> ret (Inl e)
         | Inr share \<Rightarrow> do {
             resp \<leftarrow> buildNFSVolumeResponseFromSubvolume (np_volumeName params) (np_server params) sv share
               (np_requestedCapacity params);
             ret (Inr resp)
           }
       }
   }"

text \<open>The optional fields of \<^verbatim>\<open>SubvolumeCreateParams\<close>: an unset string is empty.\<close>

definition subvolumeCreateParams where
  "subvolumeCreateParams filesystem name subvolumeType comment compression foregroundTarget
     backgroundTarget promoteTarget metadataTarget blockFilesystem dataReplicas requestedCapacity =
     \<lparr>cp_Filesystem = filesystem, cp_Name = name, cp_SubvolumeType = subvolumeType,
      cp_Comments = comment, cp_BlockFilesystem = blockFilesystem, cp_Compression = compression,
      cp_ForegroundTarget = foregroundTarget, cp_BackgroundTarget = backgroundTarget,
      cp_PromoteTarget = promoteTarget, cp_MetadataTarget = metadataTarget,
      cp_DataReplicas = (if dataReplicas > 0 then Some dataReplicas else None),
      cp_VolsizeBytes = (if requestedCapacity > 0 then Some (to_uint64 requestedCapacity) else None)\<rparr>"

definition createNFSVolume :: "'w svc \<Rightarrow> create_request \<Rightarrow> ('w, failure + csi_volume) op" where
  "createNFSVolume S req =
     (case validateNFSParams (svc_names S) req of
        Inl e \<Rightarrow> ret (Inl e)
      | Inr params \<Rightarrow> do {
          adoptable \<leftarrow> (if np_markAdoptable params then ret True
                       else pvcHasAdoptableAnnotation S (req_Parameters req));
          sel \<leftarrow> selectExistingCreateSubvolume S req (np_filesystem params) (np_subvolumeName params) ProtocolNFS;
          case sel of
            Inl e \<Rightarrow> ret (Inl e)
          | Inr (found, selectedName, identity) \<Rightarrow>
              (let params = params\<lparr>np_markAdoptable := adoptable, np_volumeName := selectedName,
                     np_subvolumeName := selectedName,
                     np_subvolumeID := np_filesystem params @ ''/'' @ selectedName\<rparr>
               in case found of
                    Some existing \<Rightarrow> do {
                      h \<leftarrow> handleExistingNFSSubvolume S params existing identity;
                      case h of
                        Inl e \<Rightarrow> ret (Inl e)
                      | Inr (Some resp) \<Rightarrow> ret (Inr resp)
                      | Inr None \<Rightarrow> finishNFSVolume S params existing identity False
                    }
                  | None \<Rightarrow> do {
                      d \<leftarrow> newVolumeIdentityDecision S req (np_subvolumeName params) ProtocolNFS;
                      case d of
                        Inl e \<Rightarrow> ret (Inl e)
                      | Inr identity \<Rightarrow> do {
                          c \<leftarrow> CreateSubvolume S (subvolumeCreateParams (np_filesystem params)
                            (np_subvolumeName params) subvolumeTypeFilesystem (np_comment params)
                            (np_compression params) (np_foregroundTarget params) (np_backgroundTarget params)
                            (np_promoteTarget params) (np_metadataTarget params) [] (np_dataReplicas params)
                            (np_requestedCapacity params));
                          case c of
                            Inl createErr \<Rightarrow> ret (Inl (createVolumeError createErr))
                          | Inr None \<Rightarrow> ret (Inl NilDeref)
                          | Inr (Some newSubvol) \<Rightarrow>
                              if sv_Created newSubvol then finishNFSVolume S params newSubvol identity True
                              else do {
                                d' \<leftarrow> decideExistingVolumeIdentity S req ProtocolNFS (np_subvolumeName params) newSubvol;
                                case d' of
                                  Inl e \<Rightarrow> ret (Inl e)
                                | Inr identity \<Rightarrow> finishNFSVolume S params newSubvol identity False
                              }
                        }
                    })
        })"

text \<open>\<^verbatim>\<open>getOrCreateSubvolume\<close>: the subvolume and whether this call created it.\<close>

definition getOrCreateSubvolume :: "'w svc \<Rightarrow> create_params \<Rightarrow> ('w, failure + (subvolume \<times> bool)) op" where
  "getOrCreateSubvolume S createParams = do {
     g \<leftarrow> GetSubvolume S (cp_Filesystem createParams) (cp_Name createParams);
     let create = (do {
       c \<leftarrow> CreateSubvolume S createParams;
       ret (case c of
           Inl err \<Rightarrow> Inl (createVolumeError err)
         | Inr None \<Rightarrow> Inl NilDeref
         | Inr (Some sv) \<Rightarrow> Inr (sv, sv_Created sv))
     });
     case g of
       Inr (Some existing) \<Rightarrow> ret (Inr (existing, False))
     | Inl err \<Rightarrow> if \<not> isNotFoundError err then ret (Inl (Status Internal)) else create
     | Inr None \<Rightarrow> create
   }"

section \<open>Deletion\<close>

text \<open>
  Step 0 of \<^verbatim>\<open>deleteNFSVolume\<close>: either the answer, or the delete strategy to go on with. The
  checks after \<^verbatim>\<open>validateDeletionOwnership\<close> are kept as the code has them.
\<close>

definition verifyNFSDeletion ::
  "'w svc \<Rightarrow> VolumeMetadata \<Rightarrow> string \<Rightarrow> string \<Rightarrow> ('w, failure option + string) op" where
  "verifyNFSDeletion S meta filesystem subvolName = do {
     g \<leftarrow> GetSubvolume S filesystem subvolName;
     ret (case g of
         Inl getErr \<Rightarrow>
           Inl (if isNotFoundError getErr then None else Some (Status Unavailable))
       | Inr subvol \<Rightarrow>
           (case validateDeletionOwnership subvol meta ProtocolNFS of
              Some ownershipErr \<Rightarrow> Inl (Some ownershipErr)
            | None \<Rightarrow>
                (let ps = (case subvol of None \<Rightarrow> fmempty | Some sv \<Rightarrow> sv_Properties sv)
                 in if (case fmlookup ps PropertyManagedBy of None \<Rightarrow> False | Some m \<Rightarrow> m \<noteq> ManagedByValue)
                    then Inl (Some (Status FailedPrecondition))
                    else if (case fmlookup ps PropertyCSIVolumeName of
                        None \<Rightarrow> False | Some v \<Rightarrow> v \<noteq> vm_DatasetName meta)
                    then Inl (Some (Status FailedPrecondition))
                    else Inr (storedDeleteStrategy ps))))
   }"

definition deleteNFSVolume :: "'w svc \<Rightarrow> VolumeMetadata \<Rightarrow> ('w, failure option) op" where
  "deleteNFSVolume S meta =
     (let (filesystem, subvolName) =
            (case splitSubvolumeID (vm_DatasetID meta) of None \<Rightarrow> ([], vm_Name meta) | Some p \<Rightarrow> p);
          known = (filesystem \<noteq> [] \<and> subvolName \<noteq> [])
      in do {
        v \<leftarrow> (if known then verifyNFSDeletion S meta filesystem subvolName
              else ret (Inr DeleteStrategyDelete));
        case v of
          Inl answer \<Rightarrow> ret answer
        | Inr deleteStrategy \<Rightarrow>
            if deleteStrategy = DeleteStrategyRetain then ret None
            else do {
              u \<leftarrow> deleteShareByID (DeleteNFSShare S) (vm_NFSShareUUID meta);
              case u of
                Some e \<Rightarrow> ret (Some e)
              | None \<Rightarrow> do {
                  c \<leftarrow> (if known
                        then deleteShareByPath (''/fs/'' @ filesystem @ ''/'' @ subvolName)
                          (quiet (api_ListNFSShares S)) (\<lambda>sh. (nfs_ID sh, nfs_Path sh)) (DeleteNFSShare S)
                        else ret None);
                  case c of
                    Some e \<Rightarrow> ret (Some e)
                  | None \<Rightarrow> do {
                      d \<leftarrow> (if known
                            then deleteSubvolumeRetrying S ''delete-nfs-subvolume'' filesystem subvolName
                            else ret None);
                      case d of
                        Some e \<Rightarrow> ret (Some e)
                      | None \<Rightarrow> do {
                          DeleteVolumeCapacity (vm_Name meta) ProtocolNFS;
                          ret None
                        }
                    }
                }
            }
      })"

section \<open>Adoption and expansion\<close>

definition adoptNFSVolume ::
  "'w svc \<Rightarrow> create_request \<Rightarrow> subvolume \<Rightarrow> smap \<Rightarrow> ('w, failure + csi_volume) op" where
  "adoptNFSVolume S req sv params =
     (let volumeName = sv_Name sv;
          server = orDefault (mget params ''server'') defaultServerAddress;
          requestedCapacity = defaultCapacity (GetRequiredBytes req)
      in if sv_Path sv = [] then ret (Inl (Status Internal))
         else do {
           now \<leftarrow> quiet (env_Now S);
           let base = svc_VolumeProperties S
             \<lparr>vp_VolumeID = volumeName, vp_Protocol = ProtocolNFS, vp_CapacityBytes = requestedCapacity,
              vp_CreatedAt = now,
              vp_DeleteStrategy = orDefault (mget params ''deleteStrategy'') DeleteStrategyDelete,
              vp_PVCName = mget params CSIPVCName, vp_PVCNamespace = mget params CSIPVCNamespace,
              vp_StorageClass = mget params ''csi.storage.k8s.io/sc/name'',
              vp_Adoptable = (mget params ''markAdoptable'' = VolumeContextValueTrue),
              vp_ClusterID = svc_clusterID S, vp_Encrypted = False\<rparr>;
           i \<leftarrow> identityProperties S (sv_Properties sv) (req_Name req) (sv_Name sv) ProtocolNFS;
           case i of
             Inl _ \<Rightarrow> ret (Inl (Status Internal))
           | Inr identity \<Rightarrow> do {
               l \<leftarrow> quiet (api_ListNFSShares S);
               case l of
                 Inl _ \<Rightarrow> ret (Inl (Status Internal))
               | Inr existingShares \<Rightarrow> do {
                   p \<leftarrow> persistVolumeIdentity S sv (Some base) \<lparr>vid_properties = Some identity, vid_persist = True\<rparr>;
                   case p of
                     (Some e, _) \<Rightarrow> ret (Inl e)
                   | (None, sv) \<Rightarrow> do {
                       sh \<leftarrow> (case List.find (\<lambda>x. nfs_Path x = sv_Path sv) existingShares of
                           Some share \<Rightarrow> ret (Inr share)
                         | None \<Rightarrow> do {
                             c \<leftarrow> CreateNFSShare S (sv_Path sv) (shareComment volumeName requestedCapacity)
                               [\<lparr>nc_Host = ''*'', nc_Options = defaultNFSClientOptions\<rparr>];
                             ret (case c of
                                 Inl _ \<Rightarrow> Inl (Status Internal)
                               | Inr None \<Rightarrow> Inl (Status Internal)
                               | Inr (Some newShare) \<Rightarrow>
                                   if nfs_Path newShare \<noteq> sv_Path sv then Inl (Status Internal)
                                   else Inr newShare)
                           });
                       case sh of
                         Inl e \<Rightarrow> ret (Inl e)
                       | Inr share \<Rightarrow> do {
                           SetVolumeCapacity volumeName ProtocolNFS requestedCapacity;
                           ret (Inr \<lparr>vol_VolumeId = subvolumeID sv, vol_CapacityBytes = requestedCapacity,
                             vol_VolumeContext = nfsVolumeContext volumeName server sv share,
                             vol_ContentSource = None\<rparr>)
                         }
                     }
                 }
             }
         })"

text \<open>The answer of an expansion: the new size and whether the node has to expand too.\<close>

record expand_response =
  exp_CapacityBytes :: int
  exp_NodeExpansionRequired :: bool

text \<open>The body the four expansion handlers share: resize first, then record the capacity.\<close>

definition expandSubvolume ::
  "'w svc \<Rightarrow> VolumeMetadata \<Rightarrow> string \<Rightarrow> int \<Rightarrow> bool \<Rightarrow> ('w, failure + expand_response) op" where
  "expandSubvolume S meta protocol requiredBytes nodeExpansion =
     (if vm_DatasetID meta = [] then ret (Inl (Status InvalidArgument))
      else case splitSubvolumeID (vm_DatasetID meta) of
        None \<Rightarrow> ret (Inl (Status InvalidArgument))
      | Some (filesystem, name) \<Rightarrow> do {
          r \<leftarrow> ResizeSubvolume S filesystem name (to_uint64 requiredBytes);
          case r of
            Inl _ \<Rightarrow> ret (Inl (Status Internal))
          | Inr _ \<Rightarrow> do {
              p \<leftarrow> SetSubvolumeProperties S filesystem name
                (fmupd PropertyCapacityBytes (format_int requiredBytes) fmempty);
              case p of
                Some _ \<Rightarrow> ret (Inl (Status Internal))
              | None \<Rightarrow> do {
                  SetVolumeCapacity (vm_Name meta) protocol requiredBytes;
                  ret (Inr \<lparr>exp_CapacityBytes = requiredBytes, exp_NodeExpansionRequired = nodeExpansion\<rparr>)
                }
            }
        })"

definition expandNFSVolume :: "'w svc \<Rightarrow> VolumeMetadata \<Rightarrow> int \<Rightarrow> ('w, failure + expand_response) op" where
  "expandNFSVolume S meta requiredBytes = expandSubvolume S meta ProtocolNFS requiredBytes False"

end
