(* ===== verification/Controller_SMB.thy ===== *)
theory Controller_SMB
  imports Controller_NFS
begin

text \<open>The SMB operations of the controller (\<^verbatim>\<open>src/pkg/driver/controller_smb.go\<close>).\<close>

definition CreateSMBShare ::
  "'w svc \<Rightarrow> string \<Rightarrow> string \<Rightarrow> string \<Rightarrow> string list \<Rightarrow> ('w, go_error + smb_share option) op" where
  "CreateSMBShare S name path comment users =
     call (api_CreateSMBShare S name path comment users) (\<lambda>_. [Expose ProtocolSMB path])"

definition DeleteSMBShare :: "'w svc \<Rightarrow> string \<Rightarrow> ('w, go_error option) op" where
  "DeleteSMBShare S i = call (api_DeleteSMBShare S i) (\<lambda>r. [Unexpose ProtocolSMB i r])"

section \<open>Parameters, responses, properties\<close>

record smbVolumeParams =
  sp_filesystem :: string
  sp_volumeName :: string
  sp_subvolumeName :: string
  sp_deleteStrategy :: string
  sp_server :: string
  sp_comment :: string
  sp_compression :: string
  sp_foregroundTarget :: string
  sp_backgroundTarget :: string
  sp_promoteTarget :: string
  sp_metadataTarget :: string
  sp_smbUsername :: string
  sp_pvcName :: string
  sp_pvcNamespace :: string
  sp_storageClass :: string
  sp_requestedCapacity :: int
  sp_dataReplicas :: uint32
  sp_markAdoptable :: bool
  sp_encrypted :: bool

definition validateSMBParams :: "'t name_lib \<Rightarrow> create_request \<Rightarrow> failure + smbVolumeParams" where
  "validateSMBParams lib req =
     (let params = req_Parameters req
      in if mget params paramFilesystem = [] then Inl (Status InvalidArgument)
         else case ResolveVolumeName lib params (req_Name req) of
           Inl _ \<Rightarrow> Inl (Status InvalidArgument)
         | Inr volumeName \<Rightarrow>
             (case ResolveComment lib params (req_Name req) of
                Inl _ \<Rightarrow> Inl (Status InvalidArgument)
              | Inr comment \<Rightarrow>
                  (case parseDataReplicas (mget params ''dataReplicas'') of
                     Inl e \<Rightarrow> Inl e
                   | Inr dataReplicas \<Rightarrow>
                       Inr \<lparr>sp_filesystem = mget params paramFilesystem,
                            sp_volumeName = volumeName,
                            sp_subvolumeName = volumeName,
                            sp_deleteStrategy = orDefault (mget params ''deleteStrategy'') DeleteStrategyDelete,
                            sp_server = orDefault (mget params ''server'') defaultServerAddress,
                            sp_comment = comment,
                            sp_compression = mget params ''compression'',
                            sp_foregroundTarget = mget params ''foregroundTarget'',
                            sp_backgroundTarget = mget params ''backgroundTarget'',
                            sp_promoteTarget = mget params ''promoteTarget'',
                            sp_metadataTarget = mget params ''metadataTarget'',
                            sp_smbUsername = mget params ''smbUsername'',
                            sp_pvcName = mget params CSIPVCName,
                            sp_pvcNamespace = mget params CSIPVCNamespace,
                            sp_storageClass = mget params ''csi.storage.k8s.io/sc/name'',
                            sp_requestedCapacity = defaultCapacity (GetRequiredBytes req),
                            sp_dataReplicas = dataReplicas,
                            sp_markAdoptable = (mget params ''markAdoptable'' = VolumeContextValueTrue),
                            sp_encrypted = equal_fold (mget params ''encryption'') ''true''\<rparr>)))"

definition smbVolumeContext :: "string \<Rightarrow> string \<Rightarrow> subvolume \<Rightarrow> smb_share \<Rightarrow> smap" where
  "smbVolumeContext volumeName server sv share =
     fmupd ''share'' (smb_Name share)
       (buildVolumeContext (emptyMetadata\<lparr>vm_Name := volumeName, vm_Protocol := ProtocolSMB,
          vm_DatasetID := subvolumeID sv, vm_DatasetName := sv_Name sv, vm_Server := server,
          vm_SMBShareUUID := smb_ID share\<rparr>))"

definition buildSMBVolumeResponse ::
  "string \<Rightarrow> string \<Rightarrow> subvolume \<Rightarrow> smb_share \<Rightarrow> int \<Rightarrow> ('w, csi_volume) op" where
  "buildSMBVolumeResponse volumeName server sv share capacity = do {
     SetVolumeCapacity (subvolumeID sv) ProtocolSMB capacity;
     ret \<lparr>vol_VolumeId = subvolumeID sv, vol_CapacityBytes = capacity,
          vol_VolumeContext = smbVolumeContext volumeName server sv share, vol_ContentSource = None\<rparr>
   }"

definition smbPropertiesV1 :: "'w svc \<Rightarrow> smbVolumeParams \<Rightarrow> ('w, props) op" where
  "smbPropertiesV1 S params = do {
     now \<leftarrow> quiet (env_Now S);
     ret (svc_VolumeProperties S
       \<lparr>vp_VolumeID = sp_volumeName params, vp_Protocol = ProtocolSMB,
        vp_CapacityBytes = sp_requestedCapacity params, vp_CreatedAt = now,
        vp_DeleteStrategy = sp_deleteStrategy params, vp_PVCName = sp_pvcName params,
        vp_PVCNamespace = sp_pvcNamespace params, vp_StorageClass = sp_storageClass params,
        vp_Adoptable = sp_markAdoptable params, vp_ClusterID = svc_clusterID S,
        vp_Encrypted = sp_encrypted params\<rparr>)
   }"

section \<open>Creation\<close>

text \<open>The loop stops at the first share of the path, whose name has to be the volume's.\<close>

definition handleExistingSMBSubvolume ::
  "'w svc \<Rightarrow> smbVolumeParams \<Rightarrow> subvolume \<Rightarrow> volumeIdentityDecision \<Rightarrow> ('w, failure + csi_volume option) op"
where
  "handleExistingSMBSubvolume S params existing identity = do {
     r \<leftarrow> quiet (api_ListSMBShares S);
     case r of
       Inl _ \<Rightarrow> ret (Inl (Status Internal))
     | Inr shares \<Rightarrow>
         (case List.find (\<lambda>sh. smb_Path sh = sv_Path existing) shares of
            None \<Rightarrow> ret (Inr None)
          | Some share \<Rightarrow>
              if smb_Name share \<noteq> sp_subvolumeName params then ret (Inl (Status FailedPrecondition))
              else
                (let existingCapacity =
                       (case smb_Comment share of None \<Rightarrow> 0 | Some c \<Rightarrow> parseCapacityFromComment c)
                 in if existingCapacity > 0 \<and> existingCapacity \<noteq> sp_requestedCapacity params
                    then ret (Inl (Status AlreadyExists))
                    else do {
                      base \<leftarrow> smbPropertiesV1 S params;
                      p \<leftarrow> persistVolumeIdentity S existing (Some base) identity;
                      case p of
                        (Some e, _) \<Rightarrow> ret (Inl e)
                      | (None, existing) \<Rightarrow> do {
                          resp \<leftarrow> buildSMBVolumeResponse (sp_volumeName params) (sp_server params)
                            existing share
                            (if existingCapacity > 0 then existingCapacity else sp_requestedCapacity params);
                          ret (Inr (Some resp))
                        }
                    }))
   }"

definition createSMBShareForSubvolume ::
  "'w svc \<Rightarrow> subvolume \<Rightarrow> smbVolumeParams \<Rightarrow> ('w, failure + smb_share) op" where
  "createSMBShareForSubvolume S sv params = do {
     r \<leftarrow> CreateSMBShare S (sp_volumeName params) (sv_Path sv)
       (shareComment (sp_volumeName params) (sp_requestedCapacity params))
       (if sp_smbUsername params \<noteq> [] then [sp_smbUsername params] else []);
     ret (case r of
         Inl _ \<Rightarrow> Inl (Status Internal)
       | Inr None \<Rightarrow> Inl (Status Internal)
       | Inr (Some share) \<Rightarrow>
           if smb_Path share \<noteq> sv_Path sv \<or> smb_Name share \<noteq> sp_volumeName params
           then Inl (Status Internal) else Inr share)
   }"

definition finishSMBVolume ::
  "'w svc \<Rightarrow> smbVolumeParams \<Rightarrow> subvolume \<Rightarrow> volumeIdentityDecision \<Rightarrow> bool \<Rightarrow> ('w, failure + csi_volume) op"
where
  "finishSMBVolume S params sv identity createdByRequest = do {
     base \<leftarrow> smbPropertiesV1 S params;
     p \<leftarrow> persistVolumeIdentity S sv (Some base) identity;
     case p of
       (Some propertyErr, sv) \<Rightarrow>
         if createdByRequest then do {
           e \<leftarrow> rollbackCreatedSubvolume S sv propertyErr;
           ret (Inl e)
         }
         else ret (Inl propertyErr)
     | (None, sv) \<Rightarrow> do {
         r \<leftarrow> createSMBShareForSubvolume S sv params;
         case r of
           Inl e \<Rightarrow> ret (Inl e)
         | Inr share \<Rightarrow> do {
             resp \<leftarrow> buildSMBVolumeResponse (sp_volumeName params) (sp_server params) sv share
               (sp_requestedCapacity params);
             ret (Inr resp)
           }
       }
   }"

definition createSMBVolume :: "'w svc \<Rightarrow> create_request \<Rightarrow> ('w, failure + csi_volume) op" where
  "createSMBVolume S req =
     (case validateSMBParams (svc_names S) req of
        Inl e \<Rightarrow> ret (Inl e)
      | Inr params \<Rightarrow> do {
          adoptable \<leftarrow> (if sp_markAdoptable params then ret True
                       else pvcHasAdoptableAnnotation S (req_Parameters req));
          sel \<leftarrow> selectExistingCreateSubvolume S req (sp_filesystem params) (sp_subvolumeName params) ProtocolSMB;
          case sel of
            Inl e \<Rightarrow> ret (Inl e)
          | Inr (found, selectedName, identity) \<Rightarrow>
              (let params = params\<lparr>sp_markAdoptable := adoptable, sp_volumeName := selectedName,
                     sp_subvolumeName := selectedName\<rparr>
               in case found of
                    Some existing \<Rightarrow> do {
                      h \<leftarrow> handleExistingSMBSubvolume S params existing identity;
                      case h of
                        Inl e \<Rightarrow> ret (Inl e)
                      | Inr (Some resp) \<Rightarrow> ret (Inr resp)
                      | Inr None \<Rightarrow> finishSMBVolume S params existing identity False
                    }
                  | None \<Rightarrow> do {
                      d \<leftarrow> newVolumeIdentityDecision S req (sp_subvolumeName params) ProtocolSMB;
                      case d of
                        Inl e \<Rightarrow> ret (Inl e)
                      | Inr identity \<Rightarrow> do {
                          c \<leftarrow> getOrCreateSubvolume S (subvolumeCreateParams (sp_filesystem params)
                            (sp_subvolumeName params) subvolumeTypeFilesystem (sp_comment params)
                            (sp_compression params) (sp_foregroundTarget params) (sp_backgroundTarget params)
                            (sp_promoteTarget params) (sp_metadataTarget params) [] (sp_dataReplicas params)
                            (sp_requestedCapacity params));
                          case c of
                            Inl e \<Rightarrow> ret (Inl e)
                          | Inr (newSubvol, created) \<Rightarrow>
                              if created then finishSMBVolume S params newSubvol identity True
                              else do {
                                d' \<leftarrow> decideExistingVolumeIdentity S req ProtocolSMB (sp_subvolumeName params) newSubvol;
                                case d' of
                                  Inl e \<Rightarrow> ret (Inl e)
                                | Inr identity \<Rightarrow> finishSMBVolume S params newSubvol identity False
                              }
                        }
                    })
        })"

section \<open>Deletion\<close>

definition verifySMBDeletion ::
  "'w svc \<Rightarrow> VolumeMetadata \<Rightarrow> string \<Rightarrow> string \<Rightarrow> ('w, failure option + string) op" where
  "verifySMBDeletion S meta filesystem subvolName = do {
     g \<leftarrow> GetSubvolume S filesystem subvolName;
     ret (case g of
         Inl getErr \<Rightarrow>
           Inl (if isNotFoundError getErr then None else Some (Status Unavailable))
       | Inr subvol \<Rightarrow>
           (case validateDeletionOwnership subvol meta ProtocolSMB of
              Some ownershipErr \<Rightarrow> Inl (Some ownershipErr)
            | None \<Rightarrow>
                Inr (storedDeleteStrategy (case subvol of None \<Rightarrow> fmempty | Some sv \<Rightarrow> sv_Properties sv))))
   }"

definition deleteSMBVolume :: "'w svc \<Rightarrow> VolumeMetadata \<Rightarrow> ('w, failure option) op" where
  "deleteSMBVolume S meta =
     (let (filesystem, subvolName) =
            (case splitSubvolumeID (vm_DatasetID meta) of None \<Rightarrow> ([], []) | Some p \<Rightarrow> p);
          known = (filesystem \<noteq> [] \<and> subvolName \<noteq> [])
      in do {
        v \<leftarrow> (if known then verifySMBDeletion S meta filesystem subvolName
              else ret (Inr DeleteStrategyDelete));
        case v of
          Inl answer \<Rightarrow> ret answer
        | Inr deleteStrategy \<Rightarrow>
            if deleteStrategy = DeleteStrategyRetain then ret None
            else do {
              u \<leftarrow> deleteShareByID (DeleteSMBShare S) (vm_SMBShareUUID meta);
              case u of
                Some e \<Rightarrow> ret (Some e)
              | None \<Rightarrow> do {
                  c \<leftarrow> (if known
                        then deleteShareByPath (''/fs/'' @ filesystem @ ''/'' @ subvolName)
                          (quiet (api_ListSMBShares S)) (\<lambda>sh. (smb_ID sh, smb_Path sh)) (DeleteSMBShare S)
                        else ret None);
                  case c of
                    Some e \<Rightarrow> ret (Some e)
                  | None \<Rightarrow> do {
                      d \<leftarrow> (if known then do {
                              firstErr \<leftarrow> DeleteSubvolume S filesystem subvolName;
                              ret (case firstErr of
                                  None \<Rightarrow> None
                                | Some e \<Rightarrow> if \<not> isNotFoundError e then Some (Status Internal) else None)
                            }
                            else ret None);
                      case d of
                        Some e \<Rightarrow> ret (Some e)
                      | None \<Rightarrow> do {
                          DeleteVolumeCapacity (vm_Name meta) ProtocolSMB;
                          ret None
                        }
                    }
                }
            }
      })"

section \<open>Adoption and expansion\<close>

definition adoptSMBVolume ::
  "'w svc \<Rightarrow> create_request \<Rightarrow> subvolume \<Rightarrow> smap \<Rightarrow> ('w, failure + csi_volume) op" where
  "adoptSMBVolume S req sv params =
     (let volumeName = sv_Name sv;
          server = orDefault (mget params ''server'') defaultServerAddress;
          requestedCapacity = defaultCapacity (GetRequiredBytes req)
      in if sv_Path sv = [] then ret (Inl (Status Internal))
         else do {
           now \<leftarrow> quiet (env_Now S);
           let base = svc_VolumeProperties S
             \<lparr>vp_VolumeID = volumeName, vp_Protocol = ProtocolSMB, vp_CapacityBytes = requestedCapacity,
              vp_CreatedAt = now,
              vp_DeleteStrategy = orDefault (mget params ''deleteStrategy'') DeleteStrategyDelete,
              vp_PVCName = mget params CSIPVCName, vp_PVCNamespace = mget params CSIPVCNamespace,
              vp_StorageClass = mget params ''csi.storage.k8s.io/sc/name'',
              vp_Adoptable = (mget params ''markAdoptable'' = VolumeContextValueTrue),
              vp_ClusterID = svc_clusterID S, vp_Encrypted = False\<rparr>;
           i \<leftarrow> identityProperties S (sv_Properties sv) (req_Name req) (sv_Name sv) ProtocolSMB;
           case i of
             Inl _ \<Rightarrow> ret (Inl (Status Internal))
           | Inr identity \<Rightarrow> do {
               l \<leftarrow> quiet (api_ListSMBShares S);
               case l of
                 Inl _ \<Rightarrow> ret (Inl (Status Internal))
               | Inr existingShares \<Rightarrow> do {
                   p \<leftarrow> persistVolumeIdentity S sv (Some base) \<lparr>vid_properties = Some identity, vid_persist = True\<rparr>;
                   case p of
                     (Some e, _) \<Rightarrow> ret (Inl e)
                   | (None, sv) \<Rightarrow> do {
                       sh \<leftarrow> (case List.find (\<lambda>x. smb_Path x = sv_Path sv) existingShares of
                           Some share \<Rightarrow> ret (Inr share)
                         | None \<Rightarrow> do {
                             c \<leftarrow> CreateSMBShare S volumeName (sv_Path sv) (shareComment volumeName requestedCapacity)
                               (if mget params ''smbUsername'' \<noteq> [] then [mget params ''smbUsername''] else []);
                             ret (case c of
                                 Inl _ \<Rightarrow> Inl (Status Internal)
                               | Inr None \<Rightarrow> Inl (Status Internal)
                               | Inr (Some newShare) \<Rightarrow>
                                   if smb_Path newShare \<noteq> sv_Path sv \<or> smb_Name newShare \<noteq> volumeName
                                   then Inl (Status Internal) else Inr newShare)
                           });
                       case sh of
                         Inl e \<Rightarrow> ret (Inl e)
                       | Inr share \<Rightarrow> do {
                           SetVolumeCapacity volumeName ProtocolSMB requestedCapacity;
                           ret (Inr \<lparr>vol_VolumeId = subvolumeID sv, vol_CapacityBytes = requestedCapacity,
                             vol_VolumeContext = smbVolumeContext volumeName server sv share,
                             vol_ContentSource = None\<rparr>)
                         }
                     }
                 }
             }
         })"

definition expandSMBVolume :: "'w svc \<Rightarrow> VolumeMetadata \<Rightarrow> int \<Rightarrow> ('w, failure + expand_response) op" where
  "expandSMBVolume S meta requiredBytes = expandSubvolume S meta ProtocolSMB requiredBytes False"

end
