(* ===== verification/Controller_ISCSI.thy ===== *)
theory Controller_ISCSI
  imports Controller_NFS
begin

text \<open>
  The iSCSI operations of the controller (\<^verbatim>\<open>src/pkg/driver/controller_iscsi.go\<close>), with the steps they
  share word for word with the NVMe-oF operations: \<open>prepareBlockSubvolume\<close> is the middle of both
  creation handlers, \<open>deletePresentation\<close> the first step of both deletions.
\<close>

section \<open>Preparing a block subvolume\<close>

definition rollbackIf :: "'w svc \<Rightarrow> bool \<Rightarrow> subvolume \<Rightarrow> failure \<Rightarrow> ('w, failure + 'a) op" where
  "rollbackIf S createdByRequest sv err =
     (if createdByRequest then do {
        e \<leftarrow> rollbackCreatedSubvolume S sv err;
        ret (Inl e)
      }
      else ret (Inl err))"

definition prepareBlockSubvolume ::
  "'w svc \<Rightarrow> create_request \<Rightarrow> string \<Rightarrow> string \<Rightarrow> bool \<Rightarrow> volumeIdentityDecision \<Rightarrow>
     (string \<Rightarrow> create_params) \<Rightarrow> string \<Rightarrow> ('w, props) op \<Rightarrow> ('w, failure + (subvolume \<times> string)) op"
where
  "prepareBlockSubvolume S req protocol subvolumeName existed identity createParams blockFilesystem propertiesV1 =
     (let requestedInitialization = (if req_ContentSource req \<noteq> None then [] else blockFilesystem)
      in do {
        d \<leftarrow> (if existed then ret (Inr identity)
              else newVolumeIdentityDecision S req subvolumeName protocol);
        case d of
          Inl e \<Rightarrow> ret (Inl e)
        | Inr identity \<Rightarrow> do {
            c \<leftarrow> getOrCreateSubvolume S (createParams requestedInitialization);
            case c of
              Inl e \<Rightarrow> ret (Inl e)
            | Inr (sv, created) \<Rightarrow> do {
                i \<leftarrow> (if created
                      then if existed then newVolumeIdentityDecision S req subvolumeName protocol
                           else ret (Inr identity)
                      else decideExistingVolumeIdentity S req protocol subvolumeName sv);
                case i of
                  Inl e \<Rightarrow> rollbackIf S created sv e
                | Inr identity \<Rightarrow>
                    (case sv_BlockDevice sv of
                       None \<Rightarrow> rollbackIf S created sv (Status Internal)
                     | Some blockDevice \<Rightarrow>
                         if blockDevice = [] then rollbackIf S created sv (Status Internal)
                         else case validateInitializedBlockFilesystem sv requestedInitialization of
                           Some initErr \<Rightarrow> rollbackIf S created sv initErr
                         | None \<Rightarrow> do {
                             base \<leftarrow> propertiesV1;
                             p \<leftarrow> persistVolumeIdentity S sv (Some base) identity;
                             case p of
                               (Some propertyErr, sv) \<Rightarrow> rollbackIf S created sv propertyErr
                             | (None, sv) \<Rightarrow> ret (Inr (sv, blockDevice))
                           })
              }
          }
      })"

text \<open>The capacity an existing block volume records, if it is positive.\<close>

definition existingBlockCapacity :: "'w svc \<Rightarrow> subvolume \<Rightarrow> int \<Rightarrow> int" where
  "existingBlockCapacity S sv requestedCapacity =
     (case fmlookup (sv_Properties sv) PropertyCapacityBytes of
        None \<Rightarrow> requestedCapacity
      | Some capStr \<Rightarrow>
          if svc_StringToInt64 S capStr > 0 then svc_StringToInt64 S capStr else requestedCapacity)"

section \<open>iSCSI: parameters\<close>

definition CreateISCSITarget ::
  "'w svc \<Rightarrow> string \<Rightarrow> string \<Rightarrow> ('w, go_error + iscsi_target option) op" where
  "CreateISCSITarget S name devicePath =
     call (api_CreateISCSITarget S name devicePath) (\<lambda>_. [Expose ProtocolISCSI devicePath])"

definition DeleteISCSITarget :: "'w svc \<Rightarrow> string \<Rightarrow> ('w, go_error option) op" where
  "DeleteISCSITarget S i = call (api_DeleteISCSITarget S i) (\<lambda>r. [Unexpose ProtocolISCSI i r])"

record iscsiVolumeParams =
  ip_volumeName :: string
  ip_subvolumeName :: string
  ip_deleteStrategy :: string
  ip_storageClass :: string
  ip_targetIQN :: string
  ip_pvcNamespace :: string
  ip_pvcName :: string
  ip_comment :: string
  ip_compression :: string
  ip_foregroundTarget :: string
  ip_backgroundTarget :: string
  ip_promoteTarget :: string
  ip_metadataTarget :: string
  ip_blockFilesystem :: string
  ip_server :: string
  ip_filesystem :: string
  ip_requestedCapacity :: int
  ip_dataReplicas :: uint32
  ip_markAdoptable :: bool
  ip_encrypted :: bool

definition iscsiPropertiesV1 :: "'w svc \<Rightarrow> iscsiVolumeParams \<Rightarrow> ('w, props) op" where
  "iscsiPropertiesV1 S params = do {
     now \<leftarrow> quiet (env_Now S);
     ret (svc_VolumeProperties S
       \<lparr>vp_VolumeID = ip_volumeName params, vp_Protocol = ProtocolISCSI,
        vp_CapacityBytes = ip_requestedCapacity params, vp_CreatedAt = now,
        vp_DeleteStrategy = ip_deleteStrategy params, vp_PVCName = ip_pvcName params,
        vp_PVCNamespace = ip_pvcNamespace params, vp_StorageClass = ip_storageClass params,
        vp_Adoptable = ip_markAdoptable params, vp_ClusterID = svc_clusterID S,
        vp_Encrypted = ip_encrypted params\<rparr>)
   }"

definition generateIQN :: "string \<Rightarrow> string" where
  "generateIQN volumeName = ''iqn.2137-04.storage.nasty:'' @ to_lower volumeName"

definition iscsiTargetUsesDevice :: "iscsi_target option \<Rightarrow> string \<Rightarrow> bool" where
  "iscsiTargetUsesDevice target devicePath =
     (case target of
        None \<Rightarrow> False
      | Some t \<Rightarrow> devicePath \<noteq> [] \<and> devicePath \<in> set (it_Luns t))"

definition deleteStrategyDelete :: string where
  "deleteStrategyDelete = ''delete''"

definition validateISCSIParams :: "'t name_lib \<Rightarrow> create_request \<Rightarrow> failure + iscsiVolumeParams" where
  "validateISCSIParams lib req =
     (let params = req_Parameters req
      in if mget params paramFilesystem = [] then Inl (Status InvalidArgument)
         else if mget params ''server'' = [] then Inl (Status InvalidArgument)
         else case ResolveVolumeName lib params (req_Name req) of
           Inl _ \<Rightarrow> Inl (Status InvalidArgument)
         | Inr volumeName \<Rightarrow>
             (case ResolveComment lib params (req_Name req) of
                Inl _ \<Rightarrow> Inl (Status InvalidArgument)
              | Inr comment \<Rightarrow>
                  (case parseDataReplicas (mget params ''dataReplicas'') of
                     Inl e \<Rightarrow> Inl e
                   | Inr dataReplicas \<Rightarrow>
                       (case requestedBlockFilesystem (req_VolumeCapabilities req) of
                          Inl e \<Rightarrow> Inl e
                        | Inr blockFilesystem \<Rightarrow>
                            Inr \<lparr>ip_volumeName = volumeName,
                                 ip_subvolumeName = volumeName,
                                 ip_deleteStrategy = orDefault (mget params ''deleteStrategy'') deleteStrategyDelete,
                                 ip_storageClass = mget params ''csi.storage.k8s.io/sc/name'',
                                 ip_targetIQN = generateIQN volumeName,
                                 ip_pvcNamespace = mget params CSIPVCNamespace,
                                 ip_pvcName = mget params CSIPVCName,
                                 ip_comment = comment,
                                 ip_compression = mget params ''compression'',
                                 ip_foregroundTarget = mget params ''foregroundTarget'',
                                 ip_backgroundTarget = mget params ''backgroundTarget'',
                                 ip_promoteTarget = mget params ''promoteTarget'',
                                 ip_metadataTarget = mget params ''metadataTarget'',
                                 ip_blockFilesystem = blockFilesystem,
                                 ip_server = mget params ''server'',
                                 ip_filesystem = mget params paramFilesystem,
                                 ip_requestedCapacity = defaultCapacity (GetRequiredBytes req),
                                 ip_dataReplicas = dataReplicas,
                                 ip_markAdoptable = (mget params ''markAdoptable'' = VolumeContextValueTrue),
                                 ip_encrypted = equal_fold (mget params ''encryption'') ''true''\<rparr>))))"

definition buildISCSIVolumeResponse ::
  "string \<Rightarrow> string \<Rightarrow> subvolume \<Rightarrow> iscsi_target \<Rightarrow> int \<Rightarrow> ('w, csi_volume) op" where
  "buildISCSIVolumeResponse volumeName server sv target capacity = do {
     SetVolumeCapacity (subvolumeID sv) ProtocolISCSI capacity;
     ret \<lparr>vol_VolumeId = subvolumeID sv, vol_CapacityBytes = capacity,
          vol_VolumeContext = fmupd ''expectedCapacity'' (format_int capacity)
            (buildVolumeContext (emptyMetadata\<lparr>vm_Name := volumeName, vm_Protocol := ProtocolISCSI,
               vm_DatasetID := subvolumeID sv, vm_DatasetName := sv_Name sv, vm_Server := server,
               vm_ISCSIIQN := it_IQN target\<rparr>)),
          vol_ContentSource = None\<rparr>
   }"

section \<open>iSCSI: creation\<close>

definition handleExistingISCSISubvolume ::
  "'w svc \<Rightarrow> iscsiVolumeParams \<Rightarrow> subvolume \<Rightarrow> volumeIdentityDecision \<Rightarrow> ('w, failure + csi_volume option) op"
where
  "handleExistingISCSISubvolume S params existing identity =
     (case validateKnownBlockFilesystem existing (ip_blockFilesystem params) of
        Some e \<Rightarrow> ret (Inl e)
      | None \<Rightarrow>
          (let existingCapacity = existingBlockCapacity S existing (ip_requestedCapacity params)
           in if existingCapacity > 0 \<and> existingCapacity \<noteq> ip_requestedCapacity params
              then ret (Inl (Status AlreadyExists))
              else do {
                r \<leftarrow> quiet (api_ListISCSITargets S);
                case r of
                  Inl _ \<Rightarrow> ret (Inl (Status Internal))
                | Inr targets \<Rightarrow>
                    (case List.find (\<lambda>t. it_IQN t = ip_targetIQN params) targets of
                       None \<Rightarrow> ret (Inr None)
                     | Some target \<Rightarrow>
                         (case sv_BlockDevice existing of
                            None \<Rightarrow> ret (Inl (Status FailedPrecondition))
                          | Some dev \<Rightarrow>
                              if dev = [] then ret (Inl (Status FailedPrecondition))
                              else if \<not> iscsiTargetUsesDevice (Some target) dev
                              then ret (Inl (Status FailedPrecondition))
                              else do {
                                base \<leftarrow> iscsiPropertiesV1 S params;
                                p \<leftarrow> persistVolumeIdentity S existing (Some base) identity;
                                case p of
                                  (Some e, _) \<Rightarrow> ret (Inl e)
                                | (None, existing) \<Rightarrow> do {
                                    resp \<leftarrow> buildISCSIVolumeResponse (ip_volumeName params) (ip_server params)
                                      existing target existingCapacity;
                                    ret (Inr (Some resp))
                                  }
                              }))
              }))"

definition finishISCSIVolume ::
  "'w svc \<Rightarrow> create_request \<Rightarrow> iscsiVolumeParams \<Rightarrow> bool \<Rightarrow> volumeIdentityDecision \<Rightarrow> ('w, failure + csi_volume) op"
where
  "finishISCSIVolume S req params existed identity = do {
     b \<leftarrow> prepareBlockSubvolume S req ProtocolISCSI (ip_subvolumeName params) existed identity
       (\<lambda>init. subvolumeCreateParams (ip_filesystem params) (ip_subvolumeName params) ''block''
          (ip_comment params) (ip_compression params) (ip_foregroundTarget params)
          (ip_backgroundTarget params) (ip_promoteTarget params) (ip_metadataTarget params) init
          (ip_dataReplicas params) (ip_requestedCapacity params))
       (ip_blockFilesystem params) (iscsiPropertiesV1 S params);
     case b of
       Inl e \<Rightarrow> ret (Inl e)
     | Inr (sv, blockDevice) \<Rightarrow> do {
         t \<leftarrow> CreateISCSITarget S (ip_volumeName params) blockDevice;
         case t of
           Inl _ \<Rightarrow> ret (Inl (Status Internal))
         | Inr None \<Rightarrow> ret (Inl (Status Internal))
         | Inr (Some target) \<Rightarrow>
             if it_IQN target \<noteq> ip_targetIQN params \<or> \<not> iscsiTargetUsesDevice (Some target) blockDevice
             then ret (Inl (Status Internal))
             else do {
               resp \<leftarrow> buildISCSIVolumeResponse (ip_volumeName params) (ip_server params) sv target
                 (ip_requestedCapacity params);
               ret (Inr resp)
             }
       }
   }"

definition createISCSIVolume :: "'w svc \<Rightarrow> create_request \<Rightarrow> ('w, failure + csi_volume) op" where
  "createISCSIVolume S req =
     (case validateISCSIParams (svc_names S) req of
        Inl e \<Rightarrow> ret (Inl e)
      | Inr params \<Rightarrow> do {
          adoptable \<leftarrow> (if ip_markAdoptable params then ret True
                       else pvcHasAdoptableAnnotation S (req_Parameters req));
          sel \<leftarrow> selectExistingCreateSubvolume S req (ip_filesystem params) (ip_subvolumeName params) ProtocolISCSI;
          case sel of
            Inl e \<Rightarrow> ret (Inl e)
          | Inr (found, selectedName, identity) \<Rightarrow>
              (let params = params\<lparr>ip_markAdoptable := adoptable, ip_volumeName := selectedName,
                     ip_subvolumeName := selectedName, ip_targetIQN := generateIQN selectedName\<rparr>
               in case found of
                    Some existing \<Rightarrow> do {
                      h \<leftarrow> handleExistingISCSISubvolume S params existing identity;
                      case h of
                        Inl e \<Rightarrow> ret (Inl e)
                      | Inr (Some resp) \<Rightarrow> ret (Inr resp)
                      | Inr None \<Rightarrow> finishISCSIVolume S req params True identity
                    }
                  | None \<Rightarrow> finishISCSIVolume S req params False identity)
        })"

section \<open>iSCSI: deletion, expansion, adoption\<close>

text \<open>\<^verbatim>\<open>verifyISCSIOwnership\<close>: the strategy, or \<^const>\<open>None\<close> for a subvolume that is not found.\<close>

definition verifyISCSIOwnership :: "'w svc \<Rightarrow> VolumeMetadata \<Rightarrow> ('w, failure + string option) op" where
  "verifyISCSIOwnership S meta =
     (case splitSubvolumeID (vm_DatasetID meta) of
        None \<Rightarrow> ret (Inl (Status InvalidArgument))
      | Some (filesystem, name) \<Rightarrow> do {
          g \<leftarrow> GetSubvolume S filesystem name;
          ret (case g of
              Inl err \<Rightarrow> if isNotFoundError err then Inr None else Inl (Status Unavailable)
            | Inr subvol \<Rightarrow>
                (case validateDeletionOwnership subvol meta ProtocolISCSI of
                   Some ownershipErr \<Rightarrow> Inl ownershipErr
                 | None \<Rightarrow>
                     (let ps = (case subvol of None \<Rightarrow> fmempty | Some sv \<Rightarrow> sv_Properties sv)
                      in if (case fmlookup ps PropertyManagedBy of None \<Rightarrow> False | Some m \<Rightarrow> m \<noteq> ManagedByValue)
                         then Inl (Status FailedPrecondition)
                         else if (case fmlookup ps PropertyCSIVolumeName of
                             None \<Rightarrow> False | Some v \<Rightarrow> v \<noteq> vm_DatasetName meta)
                         then Inl (Status FailedPrecondition)
                         else Inr (Some (storedDeleteStrategy ps)))))
        })"

text \<open>
  Removal of a target or subsystem that is looked up by its qualified name: a failing lookup is
  \<^verbatim>\<open>Unavailable\<close>, a failing removal \<^verbatim>\<open>Internal\<close>, both unless the object is not found.
\<close>

definition deletePresentation ::
  "('w, go_error + string option) op \<Rightarrow> (string \<Rightarrow> ('w, go_error option) op) \<Rightarrow> ('w, failure option) op" where
  "deletePresentation lookup remove = do {
     l \<leftarrow> lookup;
     case l of
       Inl lookupErr \<Rightarrow> ret (if isNotFoundError lookupErr then None else Some (Status Unavailable))
     | Inr found \<Rightarrow>
         (let objectID = (case found of None \<Rightarrow> [] | Some i \<Rightarrow> i)
          in if objectID = [] then ret None
             else do {
               r \<leftarrow> remove objectID;
               ret (case r of
                   None \<Rightarrow> None
                 | Some err \<Rightarrow> if \<not> isNotFoundError err then Some (Status Internal) else None)
             })
   }"

definition findISCSITargetID :: "'w svc \<Rightarrow> string \<Rightarrow> ('w, go_error + string option) op" where
  "findISCSITargetID S iqn =
     (if iqn = [] then ret (Inr None)
      else do {
        t \<leftarrow> quiet (api_GetISCSITargetByIQN S iqn);
        ret (case t of Inl e \<Rightarrow> Inl e | Inr target \<Rightarrow> Inr (map_option it_ID target))
      })"

definition deleteISCSIVolume :: "'w svc \<Rightarrow> VolumeMetadata \<Rightarrow> ('w, failure option) op" where
  "deleteISCSIVolume S meta = do {
     v \<leftarrow> verifyISCSIOwnership S meta;
     case v of
       Inl e \<Rightarrow> ret (Some e)
     | Inr None \<Rightarrow> ret None
     | Inr (Some deleteStrategy) \<Rightarrow>
         if deleteStrategy = DeleteStrategyRetain then ret None
         else
           (case splitSubvolumeID (vm_DatasetID meta) of
              None \<Rightarrow> ret (Some (Status InvalidArgument))
            | Some (filesystem, name) \<Rightarrow>
                (let iqn = (if vm_ISCSIIQN meta = [] \<and> name \<noteq> [] then generateIQN name else vm_ISCSIIQN meta)
                 in do {
                   t \<leftarrow> deletePresentation (findISCSITargetID S iqn) (DeleteISCSITarget S);
                   case t of
                     Some e \<Rightarrow> ret (Some e)
                   | None \<Rightarrow> do {
                       d \<leftarrow> deleteSubvolumeRetrying S ''delete-iscsi-subvol'' filesystem name;
                       case d of
                         Some e \<Rightarrow> ret (Some e)
                       | None \<Rightarrow> do {
                           DeleteVolumeCapacity (vm_Name meta) ProtocolISCSI;
                           ret None
                         }
                     }
                 }))
   }"

definition expandISCSIVolume :: "'w svc \<Rightarrow> VolumeMetadata \<Rightarrow> int \<Rightarrow> ('w, failure + expand_response) op" where
  "expandISCSIVolume S meta requiredBytes = expandSubvolume S meta ProtocolISCSI requiredBytes True"

text \<open>The properties an adopted block volume is given; encryption is not recorded.\<close>

definition adoptedProperties ::
  "'w svc \<Rightarrow> string \<Rightarrow> string \<Rightarrow> int \<Rightarrow> smap \<Rightarrow> ('w, props) op" where
  "adoptedProperties S volumeName protocol requestedCapacity params = do {
     now \<leftarrow> quiet (env_Now S);
     ret (svc_VolumeProperties S
       \<lparr>vp_VolumeID = volumeName, vp_Protocol = protocol, vp_CapacityBytes = requestedCapacity,
        vp_CreatedAt = now,
        vp_DeleteStrategy = orDefault (mget params ''deleteStrategy'') DeleteStrategyDelete,
        vp_PVCName = mget params CSIPVCName, vp_PVCNamespace = mget params CSIPVCNamespace,
        vp_StorageClass = mget params ''csi.storage.k8s.io/sc/name'',
        vp_Adoptable = (mget params ''markAdoptable'' = VolumeContextValueTrue),
        vp_ClusterID = svc_clusterID S, vp_Encrypted = False\<rparr>)
   }"

definition adoptISCSIVolume ::
  "'w svc \<Rightarrow> create_request \<Rightarrow> subvolume \<Rightarrow> smap \<Rightarrow> ('w, failure + csi_volume) op" where
  "adoptISCSIVolume S req sv params =
     (let volumeName = sv_Name sv; server = mget params ''server'';
          requestedCapacity = defaultCapacity (GetRequiredBytes req); expectedIQN = generateIQN volumeName
      in if server = [] then ret (Inl (Status InvalidArgument))
         else case requestedBlockFilesystem (req_VolumeCapabilities req) of
           Inl e \<Rightarrow> ret (Inl e)
         | Inr requestedFilesystem \<Rightarrow>
             (case validateKnownBlockFilesystem sv requestedFilesystem of
                Some e \<Rightarrow> ret (Inl e)
              | None \<Rightarrow>
                  (let blockDevice = (case sv_BlockDevice sv of None \<Rightarrow> [] | Some dev \<Rightarrow> dev)
                   in if blockDevice = [] then ret (Inl (Status Internal))
                      else do {
                        base \<leftarrow> adoptedProperties S volumeName ProtocolISCSI requestedCapacity params;
                        i \<leftarrow> identityProperties S (sv_Properties sv) (req_Name req) (sv_Name sv) ProtocolISCSI;
                        case i of
                          Inl _ \<Rightarrow> ret (Inl (Status Internal))
                        | Inr identity \<Rightarrow> do {
                            l \<leftarrow> quiet (api_ListISCSITargets S);
                            case l of
                              Inl _ \<Rightarrow> ret (Inl (Status Internal))
                            | Inr targets \<Rightarrow>
                                (let target = List.find (\<lambda>t. it_IQN t = expectedIQN) targets
                                 in if target \<noteq> None \<and> \<not> iscsiTargetUsesDevice target blockDevice
                                    then ret (Inl (Status FailedPrecondition))
                                    else do {
                                      p \<leftarrow> persistVolumeIdentity S sv (Some base)
                                        \<lparr>vid_properties = Some identity, vid_persist = True\<rparr>;
                                      case p of
                                        (Some e, _) \<Rightarrow> ret (Inl e)
                                      | (None, sv) \<Rightarrow> do {
                                          t \<leftarrow> (case target of
                                              Some t \<Rightarrow> ret (Inr t)
                                            | None \<Rightarrow> do {
                                                c \<leftarrow> CreateISCSITarget S volumeName blockDevice;
                                                ret (case c of
                                                    Inl _ \<Rightarrow> Inl (Status Internal)
                                                  | Inr None \<Rightarrow> Inl (Status Internal)
                                                  | Inr (Some t) \<Rightarrow>
                                                      if it_IQN t \<noteq> expectedIQN \<or> \<not> iscsiTargetUsesDevice (Some t) blockDevice
                                                      then Inl (Status Internal) else Inr t)
                                              });
                                          case t of
                                            Inl e \<Rightarrow> ret (Inl e)
                                          | Inr t \<Rightarrow> do {
                                              SetVolumeCapacity volumeName ProtocolISCSI requestedCapacity;
                                              resp \<leftarrow> buildISCSIVolumeResponse volumeName server sv t requestedCapacity;
                                              ret (Inr resp)
                                            }
                                        }
                                    })
                          }
                      })))"

end
