(* ===== verification/Controller_NVMeOF.thy ===== *)
theory Controller_NVMeOF
  imports Controller_ISCSI
begin

text \<open>The NVMe-oF operations of the controller (\<^verbatim>\<open>src/pkg/driver/controller_nvmeof.go\<close>).\<close>

section \<open>Subsystems\<close>

definition CreateNVMeOFSubsystem ::
  "'w svc \<Rightarrow> string \<Rightarrow> string \<Rightarrow> ('w, go_error + nvmeof_subsystem option) op" where
  "CreateNVMeOFSubsystem S name devicePath =
     call (api_CreateNVMeOFSubsystem S name devicePath) (\<lambda>_. [Expose ProtocolNVMeOF devicePath])"

definition DeleteNVMeOFSubsystem :: "'w svc \<Rightarrow> string \<Rightarrow> ('w, go_error option) op" where
  "DeleteNVMeOFSubsystem S i = call (api_DeleteNVMeOFSubsystem S i) (\<lambda>r. [Unexpose ProtocolNVMeOF i r])"

definition defaultNQNPrefix :: string where
  "defaultNQNPrefix = ''nqn.2026-02.io.nasty.csi''"

definition generateNQN :: "string \<Rightarrow> string \<Rightarrow> string" where
  "generateNQN nqnPrefix volumeName = nqnPrefix @ '':'' @ volumeName"

definition nvmeSubsystemMatchesName :: "nvmeof_subsystem option \<Rightarrow> string \<Rightarrow> bool" where
  "nvmeSubsystemMatchesName subsystem volumeName =
     (case subsystem of None \<Rightarrow> False | Some x \<Rightarrow> suffix ('':'' @ volumeName) (ns_NQN x))"

definition nvmeSubsystemUsesDevice :: "nvmeof_subsystem option \<Rightarrow> string \<Rightarrow> bool" where
  "nvmeSubsystemUsesDevice subsystem devicePath =
     (case subsystem of
        None \<Rightarrow> False
      | Some x \<Rightarrow> devicePath \<noteq> [] \<and> devicePath \<in> set (ns_Namespaces x))"

text \<open>The loop collects indices in order; here the candidates themselves are collected.\<close>

definition selectNVMeSubsystem ::
  "nvmeof_subsystem list \<Rightarrow> string \<Rightarrow> string \<Rightarrow> string \<Rightarrow> failure + nvmeof_subsystem option" where
  "selectNVMeSubsystem subsystems expectedNQN volumeName devicePath =
     (let exactCandidates = filter (\<lambda>x. ns_NQN x = expectedNQN) subsystems;
          suffixCandidates = filter (\<lambda>x. nvmeSubsystemMatchesName (Some x) volumeName) subsystems;
          candidates = (if length exactCandidates > 0 then exactCandidates else suffixCandidates)
      in if length candidates = 0 then Inr None
         else case filter (\<lambda>x. nvmeSubsystemUsesDevice (Some x) devicePath) candidates of
           [] \<Rightarrow> Inl (Status FailedPrecondition)
         | [x] \<Rightarrow> Inr (Some x)
         | _ \<Rightarrow> Inl (Status FailedPrecondition))"

definition injectQueueParams :: "string \<Rightarrow> string \<Rightarrow> csi_volume \<Rightarrow> csi_volume" where
  "injectQueueParams nrIOQueues queueSize v =
     v\<lparr>vol_VolumeContext := set_if ''nvmeof.queue-size'' queueSize
         (set_if ''nvmeof.nr-io-queues'' nrIOQueues (vol_VolumeContext v))\<rparr>"

section \<open>Parameters\<close>

record nvmeofVolumeParams =
  qp_deleteStrategy :: string
  qp_comment :: string
  qp_volumeName :: string
  qp_subvolumeName :: string
  qp_subsystemNQN :: string
  qp_queueSize :: string
  qp_nrIOQueues :: string
  qp_storageClass :: string
  qp_server :: string
  qp_filesystem :: string
  qp_pvcName :: string
  qp_pvcNamespace :: string
  qp_compression :: string
  qp_foregroundTarget :: string
  qp_backgroundTarget :: string
  qp_promoteTarget :: string
  qp_metadataTarget :: string
  qp_blockFilesystem :: string
  qp_requestedCapacity :: int
  qp_dataReplicas :: uint32
  qp_markAdoptable :: bool
  qp_encrypted :: bool

definition nvmeofPropertiesV1 :: "'w svc \<Rightarrow> nvmeofVolumeParams \<Rightarrow> ('w, props) op" where
  "nvmeofPropertiesV1 S params = do {
     now \<leftarrow> quiet (env_Now S);
     ret (svc_VolumeProperties S
       \<lparr>vp_VolumeID = qp_volumeName params, vp_Protocol = ProtocolNVMeOF,
        vp_CapacityBytes = qp_requestedCapacity params, vp_CreatedAt = now,
        vp_DeleteStrategy = qp_deleteStrategy params, vp_PVCName = qp_pvcName params,
        vp_PVCNamespace = qp_pvcNamespace params, vp_StorageClass = qp_storageClass params,
        vp_Adoptable = qp_markAdoptable params, vp_ClusterID = svc_clusterID S,
        vp_Encrypted = qp_encrypted params\<rparr>)
   }"

definition validateNVMeOFParams :: "'t name_lib \<Rightarrow> create_request \<Rightarrow> failure + nvmeofVolumeParams" where
  "validateNVMeOFParams lib req =
     (let params = req_Parameters req
      in if mget params paramFilesystem = [] then Inl (Status InvalidArgument)
         else if mget params ''server'' = [] then Inl (Status InvalidArgument)
         else case ResolveVolumeName lib params (req_Name req) of
           Inl _ \<Rightarrow> Inl (Status InvalidArgument)
         | Inr volumeName \<Rightarrow>
             (case ResolveComment lib params (req_Name req) of
                Inl _ \<Rightarrow> Inl (Status InvalidArgument)
              | Inr comment \<Rightarrow>
                  (case parseDataReplicas (mget params ''dataReplicas'') of
                     Inl e \<Rightarrow> Inl e
                   | Inr dataReplicas \<Rightarrow>
                       (case requestedBlockFilesystem (req_VolumeCapabilities req) of
                          Inl e \<Rightarrow> Inl e
                        | Inr blockFilesystem \<Rightarrow>
                            Inr \<lparr>qp_deleteStrategy = orDefault (mget params ''deleteStrategy'') DeleteStrategyDelete,
                                 qp_comment = comment,
                                 qp_volumeName = volumeName,
                                 qp_subvolumeName = volumeName,
                                 qp_subsystemNQN =
                                   generateNQN (orDefault (mget params ''subsystemNQN'') defaultNQNPrefix) volumeName,
                                 qp_queueSize = mget params ''nvmeof.queue-size'',
                                 qp_nrIOQueues = mget params ''nvmeof.nr-io-queues'',
                                 qp_storageClass = mget params ''csi.storage.k8s.io/sc/name'',
                                 qp_server = mget params ''server'',
                                 qp_filesystem = mget params paramFilesystem,
                                 qp_pvcName = mget params CSIPVCName,
                                 qp_pvcNamespace = mget params CSIPVCNamespace,
                                 qp_compression = mget params ''compression'',
                                 qp_foregroundTarget = mget params ''foregroundTarget'',
                                 qp_backgroundTarget = mget params ''backgroundTarget'',
                                 qp_promoteTarget = mget params ''promoteTarget'',
                                 qp_metadataTarget = mget params ''metadataTarget'',
                                 qp_blockFilesystem = blockFilesystem,
                                 qp_requestedCapacity = defaultCapacity (GetRequiredBytes req),
                                 qp_dataReplicas = dataReplicas,
                                 qp_markAdoptable = (mget params ''markAdoptable'' = VolumeContextValueTrue),
                                 qp_encrypted = equal_fold (mget params ''encryption'') ''true''\<rparr>))))"

definition buildNVMeOFVolumeResponse ::
  "string \<Rightarrow> string \<Rightarrow> subvolume \<Rightarrow> nvmeof_subsystem \<Rightarrow> int \<Rightarrow> ('w, csi_volume) op" where
  "buildNVMeOFVolumeResponse volumeName server sv subsystem capacity = do {
     SetVolumeCapacity (subvolumeID sv) ProtocolNVMeOF capacity;
     ret \<lparr>vol_VolumeId = subvolumeID sv, vol_CapacityBytes = capacity,
          vol_VolumeContext = fmupd ''expectedCapacity'' (format_int capacity) (fmupd ''nsid'' ''1''
            (buildVolumeContext (emptyMetadata\<lparr>vm_Name := volumeName, vm_Protocol := ProtocolNVMeOF,
               vm_DatasetID := subvolumeID sv, vm_DatasetName := sv_Name sv, vm_Server := server,
               vm_NVMeOFNQN := ns_NQN subsystem\<rparr>))),
          vol_ContentSource = None\<rparr>
   }"

section \<open>Creation\<close>

definition handleExistingNVMeOFSubvolume ::
  "'w svc \<Rightarrow> nvmeofVolumeParams \<Rightarrow> subvolume \<Rightarrow> volumeIdentityDecision \<Rightarrow> ('w, failure + csi_volume option) op"
where
  "handleExistingNVMeOFSubvolume S params existing identity =
     (case validateKnownBlockFilesystem existing (qp_blockFilesystem params) of
        Some e \<Rightarrow> ret (Inl e)
      | None \<Rightarrow>
          (let existingCapacity = existingBlockCapacity S existing (qp_requestedCapacity params);
               dev = (case sv_BlockDevice existing of None \<Rightarrow> [] | Some d \<Rightarrow> d)
           in if existingCapacity > 0 \<and> existingCapacity \<noteq> qp_requestedCapacity params
              then ret (Inl (Status AlreadyExists))
              else if dev = [] then ret (Inl (Status FailedPrecondition))
              else do {
                r \<leftarrow> quiet (api_ListNVMeOFSubsystems S);
                case r of
                  Inl _ \<Rightarrow> ret (Inl (Status Internal))
                | Inr subsystems \<Rightarrow>
                    (case selectNVMeSubsystem subsystems (qp_subsystemNQN params) (qp_volumeName params) dev of
                       Inl e \<Rightarrow> ret (Inl e)
                     | Inr None \<Rightarrow> ret (Inr None)
                     | Inr (Some subsystem) \<Rightarrow> do {
                         base \<leftarrow> nvmeofPropertiesV1 S params;
                         p \<leftarrow> persistVolumeIdentity S existing (Some base) identity;
                         case p of
                           (Some e, _) \<Rightarrow> ret (Inl e)
                         | (None, existing) \<Rightarrow> do {
                             resp \<leftarrow> buildNVMeOFVolumeResponse (qp_volumeName params) (qp_server params)
                               existing subsystem existingCapacity;
                             ret (Inr (Some (injectQueueParams (qp_nrIOQueues params) (qp_queueSize params) resp)))
                           }
                       })
              }))"

definition finishNVMeOFVolume ::
  "'w svc \<Rightarrow> create_request \<Rightarrow> nvmeofVolumeParams \<Rightarrow> bool \<Rightarrow> volumeIdentityDecision \<Rightarrow> ('w, failure + csi_volume) op"
where
  "finishNVMeOFVolume S req params existed identity = do {
     b \<leftarrow> prepareBlockSubvolume S req ProtocolNVMeOF (qp_subvolumeName params) existed identity
       (\<lambda>init. subvolumeCreateParams (qp_filesystem params) (qp_subvolumeName params) ''block''
          (qp_comment params) (qp_compression params) (qp_foregroundTarget params)
          (qp_backgroundTarget params) (qp_promoteTarget params) (qp_metadataTarget params) init
          (qp_dataReplicas params) (qp_requestedCapacity params))
       (qp_blockFilesystem params) (nvmeofPropertiesV1 S params);
     case b of
       Inl e \<Rightarrow> ret (Inl e)
     | Inr (sv, blockDevice) \<Rightarrow> do {
         t \<leftarrow> CreateNVMeOFSubsystem S (qp_volumeName params) blockDevice;
         case t of
           Inl _ \<Rightarrow> ret (Inl (Status Internal))
         | Inr subsystem \<Rightarrow>
             if \<not> nvmeSubsystemMatchesName subsystem (qp_volumeName params) \<or>
                \<not> nvmeSubsystemUsesDevice subsystem blockDevice
             then ret (Inl (Status Internal))
             else (case subsystem of
                 None \<Rightarrow> ret (Inl NilDeref)
               | Some x \<Rightarrow> do {
                   quiet (env_Sleep S (3 * Second));
                   resp \<leftarrow> buildNVMeOFVolumeResponse (qp_volumeName params) (qp_server params) sv x
                     (qp_requestedCapacity params);
                   ret (Inr (injectQueueParams (qp_nrIOQueues params) (qp_queueSize params) resp))
                 })
       }
   }"

definition createNVMeOFVolume :: "'w svc \<Rightarrow> create_request \<Rightarrow> ('w, failure + csi_volume) op" where
  "createNVMeOFVolume S req =
     (case validateNVMeOFParams (svc_names S) req of
        Inl e \<Rightarrow> ret (Inl e)
      | Inr params \<Rightarrow> do {
          adoptable \<leftarrow> (if qp_markAdoptable params then ret True
                       else pvcHasAdoptableAnnotation S (req_Parameters req));
          sel \<leftarrow> selectExistingCreateSubvolume S req (qp_filesystem params) (qp_subvolumeName params) ProtocolNVMeOF;
          case sel of
            Inl e \<Rightarrow> ret (Inl e)
          | Inr (found, selectedName, identity) \<Rightarrow>
              (let params = params\<lparr>qp_markAdoptable := adoptable, qp_volumeName := selectedName,
                     qp_subvolumeName := selectedName,
                     qp_subsystemNQN := generateNQN
                       (orDefault (mget (req_Parameters req) ''subsystemNQN'') defaultNQNPrefix) selectedName\<rparr>
               in case found of
                    Some existing \<Rightarrow> do {
                      h \<leftarrow> handleExistingNVMeOFSubvolume S params existing identity;
                      case h of
                        Inl e \<Rightarrow> ret (Inl e)
                      | Inr (Some resp) \<Rightarrow> ret (Inr resp)
                      | Inr None \<Rightarrow> finishNVMeOFVolume S req params True identity
                    }
                  | None \<Rightarrow> finishNVMeOFVolume S req params False identity)
        })"

section \<open>Deletion and expansion\<close>

definition findNVMeOFSubsystemID :: "'w svc \<Rightarrow> string \<Rightarrow> ('w, go_error + string option) op" where
  "findNVMeOFSubsystemID S nqn =
     (if nqn = [] then ret (Inr None)
      else do {
        t \<leftarrow> quiet (api_GetNVMeOFSubsystemByNQN S nqn);
        ret (case t of Inl e \<Rightarrow> Inl e | Inr subsystem \<Rightarrow> Inr (map_option ns_ID subsystem))
      })"

definition deletionNQN :: "VolumeMetadata \<Rightarrow> string \<Rightarrow> string" where
  "deletionNQN meta name =
     (if vm_NVMeOFNQN meta = [] \<and> name \<noteq> [] then ''nqn.2137-04.storage.nasty:'' @ name
      else vm_NVMeOFNQN meta)"

definition deleteNVMeOFVolume :: "'w svc \<Rightarrow> VolumeMetadata \<Rightarrow> ('w, failure option) op" where
  "deleteNVMeOFVolume S meta =
     (case splitSubvolumeID (vm_DatasetID meta) of
        None \<Rightarrow> ret (Some (Status InvalidArgument))
      | Some (filesystem, name) \<Rightarrow> do {
          g \<leftarrow> GetSubvolume S filesystem name;
          case g of
            Inl err \<Rightarrow> ret (if isNotFoundError err then None else Some (Status Unavailable))
          | Inr subvol \<Rightarrow>
              (case validateDeletionOwnership subvol meta ProtocolNVMeOF of
                 Some ownershipErr \<Rightarrow> ret (Some ownershipErr)
               | None \<Rightarrow>
                   if (case subvol of None \<Rightarrow> False
                       | Some sv \<Rightarrow> fmlookup (sv_Properties sv) PropertyDeleteStrategy = Some DeleteStrategyRetain)
                   then ret None
                   else do {
                     t \<leftarrow> deletePresentation (findNVMeOFSubsystemID S (deletionNQN meta name)) (DeleteNVMeOFSubsystem S);
                     case t of
                       Some e \<Rightarrow> ret (Some e)
                     | None \<Rightarrow> do {
                         d \<leftarrow> deleteSubvolumeRetrying S ''delete-nvmeof-subvol'' filesystem name;
                         case d of
                           Some e \<Rightarrow> ret (Some e)
                         | None \<Rightarrow> do {
                             DeleteVolumeCapacity (vm_Name meta) ProtocolNVMeOF;
                             ret None
                           }
                       }
                   })
        })"

definition expandNVMeOFVolume ::
  "'w svc \<Rightarrow> VolumeMetadata \<Rightarrow> int \<Rightarrow> bool \<Rightarrow> ('w, failure + expand_response) op" where
  "expandNVMeOFVolume S meta requiredBytes nodeExpansionRequired =
     expandSubvolume S meta ProtocolNVMeOF requiredBytes nodeExpansionRequired"

section \<open>Adoption\<close>

definition adoptNVMeOFVolume ::
  "'w svc \<Rightarrow> create_request \<Rightarrow> subvolume \<Rightarrow> smap \<Rightarrow> ('w, failure + csi_volume) op" where
  "adoptNVMeOFVolume S req sv params =
     (let volumeName = sv_Name sv; server = mget params ''server'';
          requestedCapacity = defaultCapacity (GetRequiredBytes req);
          expectedNQN = generateNQN (orDefault (mget params ''subsystemNQN'') defaultNQNPrefix) volumeName
      in if server = [] then ret (Inl (Status InvalidArgument))
         else case requestedBlockFilesystem (req_VolumeCapabilities req) of
           Inl e \<Rightarrow> ret (Inl e)
         | Inr requestedFilesystem \<Rightarrow>
             (case validateKnownBlockFilesystem sv requestedFilesystem of
                Some e \<Rightarrow> ret (Inl e)
              | None \<Rightarrow>
                  (let blockDevice = (case sv_BlockDevice sv of None \<Rightarrow> [] | Some dev \<Rightarrow> dev)
                   in if blockDevice = [] then ret (Inl (Status Internal))
                      else do {
                        base \<leftarrow> adoptedProperties S volumeName ProtocolNVMeOF requestedCapacity params;
                        i \<leftarrow> identityProperties S (sv_Properties sv) (req_Name req) (sv_Name sv) ProtocolNVMeOF;
                        case i of
                          Inl _ \<Rightarrow> ret (Inl (Status Internal))
                        | Inr identity \<Rightarrow> do {
                            l \<leftarrow> quiet (api_ListNVMeOFSubsystems S);
                            case l of
                              Inl _ \<Rightarrow> ret (Inl (Status Internal))
                            | Inr subsystems \<Rightarrow>
                                (case selectNVMeSubsystem subsystems expectedNQN volumeName blockDevice of
                                   Inl e \<Rightarrow> ret (Inl e)
                                 | Inr selected \<Rightarrow> do {
                                     p \<leftarrow> persistVolumeIdentity S sv (Some base)
                                       \<lparr>vid_properties = Some identity, vid_persist = True\<rparr>;
                                     case p of
                                       (Some e, _) \<Rightarrow> ret (Inl e)
                                     | (None, sv) \<Rightarrow> do {
                                         t \<leftarrow> (case selected of
                                             Some x \<Rightarrow> ret (Inr x)
                                           | None \<Rightarrow> do {
                                               c \<leftarrow> CreateNVMeOFSubsystem S volumeName blockDevice;
                                               ret (case c of
                                                   Inl _ \<Rightarrow> Inl (Status Internal)
                                                 | Inr None \<Rightarrow> Inl (Status Internal)
                                                 | Inr (Some x) \<Rightarrow>
                                                     if \<not> nvmeSubsystemMatchesName (Some x) volumeName \<or>
                                                        \<not> nvmeSubsystemUsesDevice (Some x) blockDevice
                                                     then Inl (Status Internal) else Inr x)
                                             });
                                         case t of
                                           Inl e \<Rightarrow> ret (Inl e)
                                         | Inr x \<Rightarrow> do {
                                             SetVolumeCapacity volumeName ProtocolNVMeOF requestedCapacity;
                                             resp \<leftarrow> buildNVMeOFVolumeResponse volumeName server sv x requestedCapacity;
                                             ret (Inr (injectQueueParams (mget params ''nvmeof.nr-io-queues'')
                                               (mget params ''nvmeof.queue-size'') resp))
                                           }
                                       }
                                   })
                          }
                      })))"

end
