(* ===== verification/Controller_Delete.thy ===== *)
theory Controller_Delete
  imports Controller_SMB Controller_NVMeOF Memory_Backend
begin

text \<open>
  \<^verbatim>\<open>DeleteVolume\<close> (\<^verbatim>\<open>src/pkg/driver/controller.go\<close>) and the safety of deletion: each protocol's handler
  meets the specification of \<open>Deletion_Ownership\<close> (interpretations of \<open>deletion_handler\<close>), and so
  does the whole operation.
\<close>

text \<open>The switch on the volume's protocol.\<close>

definition dispatchDelete :: "'w svc \<Rightarrow> VolumeMetadata \<Rightarrow> ('w, failure option) op" where
  "dispatchDelete S meta =
     (if vm_Protocol meta = ProtocolNFS then deleteNFSVolume S meta
      else if vm_Protocol meta = ProtocolNVMeOF then deleteNVMeOFVolume S meta
      else if vm_Protocol meta = ProtocolISCSI then deleteISCSIVolume S meta
      else if vm_Protocol meta = ProtocolSMB then deleteSMBVolume S meta
      else ret (Some (Status Internal)))"

definition DeleteVolume :: "'w svc \<Rightarrow> string \<Rightarrow> ('w, failure option) op" where
  "DeleteVolume S volumeID =
     (if volumeID = [] then ret (Some (Status InvalidArgument))
      else do {
        l \<leftarrow> lookupDeletionVolume S volumeID;
        case l of
          Inl e \<Rightarrow> ret (Some e)
        | Inr None \<Rightarrow> ret None
        | Inr (Some meta) \<Rightarrow> dispatchDelete S meta
      })"

section \<open>The handlers meet the specification\<close>

lemma unexposures_append [simp]:
  "unexposures p True us \<Longrightarrow> unexposures p b (us @ vs) \<longleftrightarrow> unexposures p b vs"
  by (induction p True us rule: unexposures.induct) auto

text \<open>The run of a handler after a verified read: removals, then deletions.\<close>

lemma deletion_run_verified:
  assumes "validateDeletionOwnership (Some sv) meta protocol = None"
    and "storedDeleteStrategy (sv_Properties sv) \<noteq> DeleteStrategyRetain"
  shows "deletion_run meta protocol fs n r (Got fs n (Inr (Some sv)) # rest) \<longleftrightarrow>
    (\<exists>us ds. rest = us @ ds \<and>
      (if r = None then unexposures protocol True us \<and> deletions fs n True ds
       else ds = [] \<and> (unexposures protocol False us \<or> unexposures protocol True us) \<or>
         unexposures protocol True us \<and> deletions fs n False ds))"
  using assms by (simp add: deletion_run_def)

lemma validate_Some: "validateDeletionOwnership x meta protocol = None \<Longrightarrow> \<exists>sv. x = Some sv"
  by (cases x) (auto simp: validateDeletionOwnership_def)

text \<open>
  The tail that the handlers share: remove the presentations, stop if that fails, otherwise delete
  the subvolume and drop the gauge.
\<close>

lemma wp_removal_tail:
  assumes un: "\<And>s. wp unexpose (\<lambda>r s'. \<exists>us. calls s' = calls s @ us \<and>
      (unexposures p (r = None) us \<or> r \<noteq> None \<and> unexposures p True us)) s"
    and del: "\<And>s. wp delete (\<lambda>r s'. \<exists>ds. calls s' = calls s @ ds \<and> deletions fs n (r = None) ds) s"
    and ok: "validateDeletionOwnership (Some sv) meta p = None"
      "storedDeleteStrategy (sv_Properties sv) \<noteq> DeleteStrategyRetain"
    and s: "calls s = base @ [Got fs n (Inr (Some sv))]"
  shows "wp (unexpose \<bind> (\<lambda>u. case u of None \<Rightarrow> delete \<bind> (\<lambda>d. case d of
        None \<Rightarrow> DeleteVolumeCapacity name q \<bind> (\<lambda>_. ret None) | Some e \<Rightarrow> ret (Some e))
      | Some e \<Rightarrow> ret (Some e)))
    (\<lambda>r s'. \<exists>tr. calls s' = base @ tr \<and> deletion_run meta p fs n r tr) s"
proof -
  have fin: "\<exists>tr. calls s' = base @ tr \<and> deletion_run meta p fs n r tr"
    if "calls s' = calls s @ us @ ds"
      "if r = None then unexposures p True us \<and> deletions fs n True ds
       else ds = [] \<and> (unexposures p False us \<or> unexposures p True us) \<or>
         unexposures p True us \<and> deletions fs n False ds" for s' r us ds
  proof -
    have "deletion_run meta p fs n r (Got fs n (Inr (Some sv)) # us @ ds)"
      unfolding deletion_run_verified [OF ok] by (intro exI [of _ us] exI [of _ ds] conjI refl that(2))
    with that(1) s show ?thesis by auto
  qed
  have del': "wp (delete \<bind> (\<lambda>d. case d of
        None \<Rightarrow> DeleteVolumeCapacity name q \<bind> (\<lambda>_. ret None) | Some e \<Rightarrow> ret (Some e)))
      (\<lambda>r s'. \<exists>tr. calls s' = base @ tr \<and> deletion_run meta p fs n r tr) s1"
    if "calls s1 = calls s @ us" "unexposures p True us" for s1 us
    unfolding wp_bind
    by (rule wp_mono [OF del]) (use that in \<open>auto simp: wp_rules split: option.split intro!: fin\<close>)
  show ?thesis
    unfolding wp_bind [of unexpose]
    by (rule wp_mono [OF un]) (auto simp: wp_return wp_case_option split: option.splits intro!: del' fin [of _ _ "[]"])
qed

text \<open>An unverified read ends the run.\<close>

lemma deletion_run_refused:
  "deletion_run meta protocol fs n (if isNotFoundError e then None else Some (Status Unavailable)) [Got fs n (Inl e)]"
  "validateDeletionOwnership x meta protocol = Some err \<Longrightarrow>
     deletion_run meta protocol fs n (Some err) [Got fs n (Inr x)]"
  "validateDeletionOwnership (Some sv) meta protocol = None \<Longrightarrow>
     storedDeleteStrategy (sv_Properties sv) = DeleteStrategyRetain \<Longrightarrow>
     deletion_run meta protocol fs n None [Got fs n (Inr (Some sv))]"
  by (simp_all add: deletion_run_def)

lemma verified_again:
  assumes "validateDeletionOwnership (Some sv) meta protocol = None"
  shows "(case fmlookup (sv_Properties sv) PropertyManagedBy of None \<Rightarrow> False | Some m \<Rightarrow> m \<noteq> ManagedByValue) = False"
    "(case fmlookup (sv_Properties sv) PropertyCSIVolumeName of None \<Rightarrow> False | Some v \<Rightarrow> v \<noteq> vm_DatasetName meta) = False"
  using assms by (auto simp: validateDeletionOwnership_def Let_def mget_def split: option.splits if_splits)

lemma unexposures_seq:
  assumes "\<And>s. wp m (\<lambda>r s'. \<exists>us. calls s' = calls s @ us \<and> unexposures p (r = None) us) s"
    and "\<And>s. wp m' (\<lambda>r s'. \<exists>us. calls s' = calls s @ us \<and>
      (unexposures p (r = None) us \<or> r \<noteq> None \<and> unexposures p True us)) s"
  shows "wp (m \<bind> (\<lambda>u. case u of None \<Rightarrow> m' | Some e \<Rightarrow> ret (Some e))) (\<lambda>r s'. \<exists>us. calls s' = calls s @ us \<and>
      (unexposures p (r = None) us \<or> r \<noteq> None \<and> unexposures p True us)) s"
proof -
  have "wp m' (\<lambda>r s'. \<exists>us. calls s' = calls s @ us \<and>
      (unexposures p (r = None) us \<or> r \<noteq> None \<and> unexposures p True us)) s1"
    if "calls s1 = calls s @ us" "unexposures p True us" for s1 us
    by (rule wp_mono [OF assms(2)]) (use that in auto)
  then show ?thesis
    unfolding wp_bind by (intro wp_mono [OF assms(1)]) (auto simp: wp_rules split: option.split)
qed

lemma wp_quiet: "(\<And>x w. Q x (s\<lparr>world := w\<rparr>)) \<Longrightarrow> wp (quiet f) Q s"
  by (rule wp_callI) simp

lemma wp_deleteOnce:
  "wp (DeleteSubvolume S fs n \<bind> (\<lambda>firstErr. ret (case firstErr of None \<Rightarrow> None
      | Some e \<Rightarrow> if \<not> isNotFoundError e then Some (Status Internal) else None)))
     (\<lambda>r s'. \<exists>ds. calls s' = calls s @ ds \<and> deletions fs n (r = None) ds) s"
  by (auto simp: DeleteSubvolume_def wp_rules split: option.split intro!: wp_callI)

lemma wp_deletePresentation:
  assumes "\<And>s Q. (\<And>x w. Q x (s\<lparr>world := w\<rparr>)) \<Longrightarrow> wp lookup Q s"
  shows "wp (deletePresentation lookup (\<lambda>i. call (f i) (\<lambda>r. [Unexpose p i r])))
     (\<lambda>r s'. \<exists>us. calls s' = calls s @ us \<and> (unexposures p (r = None) us \<or> r \<noteq> None \<and> unexposures p True us)) s"
  unfolding deletePresentation_def wp_bind Let_def
  by (rule assms) (auto simp: wp_rules removed_def split: sum.split option.split intro!: wp_callI)

lemma bind_case_assoc:
  assumes "\<And>e. K (Some e) = ret (Some e)"
  shows "m \<bind> (\<lambda>u. case u of None \<Rightarrow> m' \<bind> K | Some e \<Rightarrow> ret (Some e)) =
     (m \<bind> (\<lambda>u. case u of None \<Rightarrow> m' | Some e \<Rightarrow> ret (Some e))) \<bind> K"
proof -
  have "(\<lambda>u. case u of None \<Rightarrow> m' \<bind> K | Some e \<Rightarrow> ret (Some e)) =
      (\<lambda>u. (case u of None \<Rightarrow> m' | Some e \<Rightarrow> ret (Some e)) \<bind> K)"
    by (auto simp: fun_eq_iff assms split: option.split)
  then show ?thesis by simp
qed

lemma wp_share_tail:
  assumes "validateDeletionOwnership (Some sv) meta p = None"
    and "storedDeleteStrategy (sv_Properties sv) \<noteq> DeleteStrategyRetain"
    and "calls s = base @ [Got fs n (Inr (Some sv))]"
    and "\<And>s. wp delete (\<lambda>r s'. \<exists>ds. calls s' = calls s @ ds \<and> deletions fs n (r = None) ds) s"
  shows "wp (deleteShareByID (\<lambda>i. call (f i) (\<lambda>r. [Unexpose p i r])) i \<bind> (\<lambda>u. case u of
        None \<Rightarrow> deleteShareByPath path (quiet listing) ident (\<lambda>i. call (f i) (\<lambda>r. [Unexpose p i r])) \<bind>
          (\<lambda>c. case c of None \<Rightarrow> delete \<bind> (\<lambda>d. case d of
              None \<Rightarrow> DeleteVolumeCapacity name q \<bind> (\<lambda>_. ret None) | Some e \<Rightarrow> ret (Some e))
            | Some e \<Rightarrow> ret (Some e))
      | Some e \<Rightarrow> ret (Some e)))
    (\<lambda>r s'. \<exists>tr. calls s' = base @ tr \<and> deletion_run meta p fs n r tr) s"
  by (subst bind_case_assoc, simp,
      rule wp_removal_tail [OF unexposures_seq [OF wp_deleteShareByID wp_deleteShareByPath] assms(4,1,2,3)])
    (rule wp_quiet)

text \<open>The verifying reads, for a postcondition that holds in each of their three outcomes.\<close>

lemma read_cases [consumes 0, case_names failed refused verified]:
  obtains (failed) e where "g = Inl e"
  | (refused) x err where "g = Inr x" "validateDeletionOwnership x meta p = Some err"
  | (verified) sv where "g = Inr (Some sv)" "validateDeletionOwnership (Some sv) meta p = None"
  using validate_Some by (cases g) (metis not_None_eq)+

lemma wp_verifyNFSDeletion:
  assumes "\<And>e w. Q (Inl (if isNotFoundError e then None else Some (Status Unavailable)))
      (s\<lparr>world := w, calls := calls s @ [Got fs n (Inl e)]\<rparr>)"
    and "\<And>x err w. validateDeletionOwnership x meta ProtocolNFS = Some err \<Longrightarrow>
      Q (Inl (Some err)) (s\<lparr>world := w, calls := calls s @ [Got fs n (Inr x)]\<rparr>)"
    and "\<And>sv w. validateDeletionOwnership (Some sv) meta ProtocolNFS = None \<Longrightarrow>
      Q (Inr (storedDeleteStrategy (sv_Properties sv))) (s\<lparr>world := w, calls := calls s @ [Got fs n (Inr (Some sv))]\<rparr>)"
  shows "wp (verifyNFSDeletion S meta fs n) Q s"
  unfolding verifyNFSDeletion_def GetSubvolume_def wp_bind
  apply (rule wp_callI)
  subgoal for g w
    using assms by (cases rule: read_cases [where g = g and meta = meta and p = ProtocolNFS])
      (simp_all add: wp_return Let_def verified_again)
  done

lemma wp_verifySMBDeletion:
  assumes "\<And>e w. Q (Inl (if isNotFoundError e then None else Some (Status Unavailable)))
      (s\<lparr>world := w, calls := calls s @ [Got fs n (Inl e)]\<rparr>)"
    and "\<And>x err w. validateDeletionOwnership x meta ProtocolSMB = Some err \<Longrightarrow>
      Q (Inl (Some err)) (s\<lparr>world := w, calls := calls s @ [Got fs n (Inr x)]\<rparr>)"
    and "\<And>sv w. validateDeletionOwnership (Some sv) meta ProtocolSMB = None \<Longrightarrow>
      Q (Inr (storedDeleteStrategy (sv_Properties sv))) (s\<lparr>world := w, calls := calls s @ [Got fs n (Inr (Some sv))]\<rparr>)"
  shows "wp (verifySMBDeletion S meta fs n) Q s"
  unfolding verifySMBDeletion_def GetSubvolume_def wp_bind
  apply (rule wp_callI)
  subgoal for g w
    using assms by (cases rule: read_cases [where g = g and meta = meta and p = ProtocolSMB])
      (simp_all add: wp_return)
  done

lemma wp_verifyISCSIOwnership:
  assumes "splitSubvolumeID (vm_DatasetID meta) = Some (fs, n)"
    and "\<And>e w. Q (if isNotFoundError e then Inr None else Inl (Status Unavailable))
      (s\<lparr>world := w, calls := calls s @ [Got fs n (Inl e)]\<rparr>)"
    and "\<And>x err w. validateDeletionOwnership x meta ProtocolISCSI = Some err \<Longrightarrow>
      Q (Inl err) (s\<lparr>world := w, calls := calls s @ [Got fs n (Inr x)]\<rparr>)"
    and "\<And>sv w. validateDeletionOwnership (Some sv) meta ProtocolISCSI = None \<Longrightarrow>
      Q (Inr (Some (storedDeleteStrategy (sv_Properties sv))))
        (s\<lparr>world := w, calls := calls s @ [Got fs n (Inr (Some sv))]\<rparr>)"
  shows "wp (verifyISCSIOwnership S meta) Q s"
  unfolding verifyISCSIOwnership_def GetSubvolume_def assms(1) option.case prod.case wp_bind
  apply (rule wp_callI)
  subgoal for g w
    using assms(2-) by (cases rule: read_cases [where g = g and meta = meta and p = ProtocolISCSI])
      (simp_all add: wp_return Let_def verified_again)
  done

section \<open>The four handlers\<close>

lemma deleteNFSVolume_run:
  assumes "splitSubvolumeID (vm_DatasetID meta) = Some (fs, n)" "fs \<noteq> []" "n \<noteq> []"
  shows "wp (deleteNFSVolume S meta)
     (\<lambda>r s'. \<exists>tr. calls s' = calls s @ tr \<and> deletion_run meta ProtocolNFS fs n r tr) s"
  using assms unfolding deleteNFSVolume_def
  apply (simp add: wp_bind [of "verifyNFSDeletion S meta fs n"])
  apply (rule wp_verifyNFSDeletion)
    apply (auto simp: wp_return deletion_run_refused) [2]
  subgoal for sv w
    unfolding DeleteNFSShare_def
    by (auto simp: wp_return wp_if deletion_run_refused wp_deleteSubvolumeRetrying intro!: wp_share_tail)
  done

lemma deleteSMBVolume_run:
  assumes "splitSubvolumeID (vm_DatasetID meta) = Some (fs, n)" "fs \<noteq> []" "n \<noteq> []"
  shows "wp (deleteSMBVolume S meta)
     (\<lambda>r s'. \<exists>tr. calls s' = calls s @ tr \<and> deletion_run meta ProtocolSMB fs n r tr) s"
  using assms unfolding deleteSMBVolume_def
  apply (simp only: option.case prod.case Let_def simp_thms if_True not_False_eq_True
      wp_bind [of "verifySMBDeletion S meta fs n"])
  apply (rule wp_verifySMBDeletion)
    apply (auto simp: wp_return deletion_run_refused) [2]
  subgoal for sv w
    unfolding DeleteSMBShare_def sum.case
    by (auto simp: wp_return wp_if deletion_run_refused simp del: bind_assoc intro!: wp_share_tail wp_deleteOnce)
  done

lemma wp_block_tail:
  assumes "validateDeletionOwnership (Some sv) meta p = None"
    and "storedDeleteStrategy (sv_Properties sv) \<noteq> DeleteStrategyRetain"
    and "calls s = base @ [Got fs n (Inr (Some sv))]"
    and "\<And>s Q. (\<And>x w. Q x (s\<lparr>world := w\<rparr>)) \<Longrightarrow> wp lookup Q s"
  shows "wp (deletePresentation lookup (\<lambda>i. call (f i) (\<lambda>r. [Unexpose p i r])) \<bind> (\<lambda>u. case u of
        None \<Rightarrow> deleteSubvolumeRetrying S x fs n \<bind> (\<lambda>d. case d of
            None \<Rightarrow> DeleteVolumeCapacity name q \<bind> (\<lambda>_. ret None) | Some e \<Rightarrow> ret (Some e))
      | Some e \<Rightarrow> ret (Some e)))
    (\<lambda>r s'. \<exists>tr. calls s' = base @ tr \<and> deletion_run meta p fs n r tr) s"
  by (rule wp_removal_tail [OF wp_deletePresentation [OF assms(4)] wp_deleteSubvolumeRetrying assms(1,2,3)])

lemma wp_findISCSITargetID: "(\<And>x w. Q x (s\<lparr>world := w\<rparr>)) \<Longrightarrow> wp (findISCSITargetID S iqn) Q s"
proof -
  assume q: "\<And>x w. Q x (s\<lparr>world := w\<rparr>)"
  from q [of _ "world s"] q show ?thesis
    by (auto simp: findISCSITargetID_def wp_rules intro!: wp_quiet)
qed

lemma wp_findNVMeOFSubsystemID: "(\<And>x w. Q x (s\<lparr>world := w\<rparr>)) \<Longrightarrow> wp (findNVMeOFSubsystemID S nqn) Q s"
proof -
  assume q: "\<And>x w. Q x (s\<lparr>world := w\<rparr>)"
  from q [of _ "world s"] q show ?thesis
    by (auto simp: findNVMeOFSubsystemID_def wp_rules intro!: wp_quiet)
qed

lemma deleteISCSIVolume_run:
  assumes split: "splitSubvolumeID (vm_DatasetID meta) = Some (fs, n)"
  shows "wp (deleteISCSIVolume S meta)
     (\<lambda>r s'. \<exists>tr. calls s' = calls s @ tr \<and> deletion_run meta ProtocolISCSI fs n r tr) s"
proof -
  show ?thesis
    unfolding deleteISCSIVolume_def wp_bind [of "verifyISCSIOwnership S meta"]
    apply (rule wp_verifyISCSIOwnership [OF split])
    subgoal for e w
      using deletion_run_refused(1) [of meta ProtocolISCSI fs n e] by (auto simp: wp_return)
    subgoal by (auto simp: wp_return deletion_run_refused)
    subgoal for sv w
      unfolding DeleteISCSITarget_def
      by (auto simp: split wp_return wp_if Let_def deletion_run_refused intro!: wp_block_tail wp_findISCSITargetID)
    done
qed

lemma stored_retain:
  "fmlookup ps PropertyDeleteStrategy = Some DeleteStrategyRetain \<longleftrightarrow> storedDeleteStrategy ps = DeleteStrategyRetain"
  by (auto simp: storedDeleteStrategy_def DeleteStrategyRetain_def DeleteStrategyDelete_def split: option.splits)

lemma deleteNVMeOFVolume_run:
  assumes split: "splitSubvolumeID (vm_DatasetID meta) = Some (fs, n)"
  shows "wp (deleteNVMeOFVolume S meta)
     (\<lambda>r s'. \<exists>tr. calls s' = calls s @ tr \<and> deletion_run meta ProtocolNVMeOF fs n r tr) s"
proof -
  show ?thesis
    unfolding deleteNVMeOFVolume_def split option.case prod.case GetSubvolume_def wp_bind [of "call f g" for f g]
    apply (rule wp_callI)
    subgoal for g w
      unfolding DeleteNVMeOFSubsystem_def
      by (cases rule: read_cases [where g = g and meta = meta and p = ProtocolNVMeOF])
        (auto simp: wp_return wp_if stored_retain deletion_run_refused intro!: wp_block_tail wp_findNVMeOFSubsystemID)
    done
qed

lemma deleteNFSVolume_skips:
  assumes "looked_up meta" "splitSubvolumeID (vm_DatasetID meta) = None \<or> (\<exists>n. splitSubvolumeID (vm_DatasetID meta) = Some ([], n))"
  shows "wp (deleteNFSVolume S meta) (\<lambda>r s'. calls s' = calls s) s"
  using assms by (auto simp: deleteNFSVolume_def looked_up_def deleteShareByID_def wp_rules)

lemma deleteSMBVolume_skips:
  assumes "looked_up meta" "splitSubvolumeID (vm_DatasetID meta) = None \<or> (\<exists>n. splitSubvolumeID (vm_DatasetID meta) = Some ([], n))"
  shows "wp (deleteSMBVolume S meta) (\<lambda>r s'. calls s' = calls s) s"
  using assms by (auto simp: deleteSMBVolume_def looked_up_def deleteShareByID_def wp_rules)

lemma split_nonempty: "splitSubvolumeID v = Some (fs, n) \<Longrightarrow> n \<noteq> []"
  by (simp add: splitSubvolumeID_Some_iff)

interpretation nfs_deletion: deletion_handler deleteNFSVolume ProtocolNFS
proof
  fix meta :: VolumeMetadata and fs n and S :: "'w svc" and s
  assume m: "looked_up meta" "splitSubvolumeID (vm_DatasetID meta) = Some (fs, n)"
  show "wp (deleteNFSVolume S meta) (\<lambda>r s'. \<exists>tr. calls s' = calls s @ tr \<and>
      (deletion_run meta ProtocolNFS fs n r tr \<or> fs = [] \<and> tr = [])) s"
  proof (cases "fs = []")
    case True
    with m show ?thesis by (intro wp_mono [OF deleteNFSVolume_skips]) auto
  next
    case False
    show ?thesis by (rule wp_mono [OF deleteNFSVolume_run [OF m(2) False split_nonempty [OF m(2)]]]) auto
  qed
qed (rule deleteNFSVolume_skips; simp)

interpretation smb_deletion: deletion_handler deleteSMBVolume ProtocolSMB
proof
  fix meta :: VolumeMetadata and fs n and S :: "'w svc" and s
  assume m: "looked_up meta" "splitSubvolumeID (vm_DatasetID meta) = Some (fs, n)"
  show "wp (deleteSMBVolume S meta) (\<lambda>r s'. \<exists>tr. calls s' = calls s @ tr \<and>
      (deletion_run meta ProtocolSMB fs n r tr \<or> fs = [] \<and> tr = [])) s"
  proof (cases "fs = []")
    case True
    with m show ?thesis by (intro wp_mono [OF deleteSMBVolume_skips]) auto
  next
    case False
    show ?thesis by (rule wp_mono [OF deleteSMBVolume_run [OF m(2) False split_nonempty [OF m(2)]]]) auto
  qed
qed (rule deleteSMBVolume_skips; simp)

interpretation iscsi_deletion: deletion_handler deleteISCSIVolume ProtocolISCSI
proof
  fix meta :: VolumeMetadata and fs n and S :: "'w svc" and s
  assume m: "splitSubvolumeID (vm_DatasetID meta) = Some (fs, n)"
  show "wp (deleteISCSIVolume S meta) (\<lambda>r s'. \<exists>tr. calls s' = calls s @ tr \<and>
      (deletion_run meta ProtocolISCSI fs n r tr \<or> fs = [] \<and> tr = [])) s"
    by (rule wp_mono [OF deleteISCSIVolume_run [OF m]]) auto
qed (simp add: deleteISCSIVolume_def verifyISCSIOwnership_def wp_rules)

interpretation nvmeof_deletion: deletion_handler deleteNVMeOFVolume ProtocolNVMeOF
proof
  fix meta :: VolumeMetadata and fs n and S :: "'w svc" and s
  assume m: "splitSubvolumeID (vm_DatasetID meta) = Some (fs, n)"
  show "wp (deleteNVMeOFVolume S meta) (\<lambda>r s'. \<exists>tr. calls s' = calls s @ tr \<and>
      (deletion_run meta ProtocolNVMeOF fs n r tr \<or> fs = [] \<and> tr = [])) s"
    by (rule wp_mono [OF deleteNVMeOFVolume_run [OF m]]) auto
qed (simp add: deleteNVMeOFVolume_def wp_rules)

section \<open>The whole operation\<close>

text \<open>
  The calls a deletion may make: reads, and removals of presentations and subvolumes whose
  ownership the operation has verified before, in the same operation, for the very object removed.
\<close>

definition delete_licensed :: "event list \<Rightarrow> event \<Rightarrow> bool" where
  "delete_licensed past e =
     (case e of
        Got _ _ _ \<Rightarrow> True
      | Deleted fs n _ \<Rightarrow> (\<exists>meta. verified meta (vm_Protocol meta) fs n past)
      | Unexpose p _ _ \<Rightarrow> (\<exists>meta fs n. p = vm_Protocol meta \<and> verified meta p fs n past)
      | _ \<Rightarrow> False)"

lemma licensed_delete: "licensed meta (vm_Protocol meta) fs n past e \<Longrightarrow> delete_licensed past e"
  by (auto simp: licensed_def delete_licensed_def split: event.splits)

lemma verified_mono: "verified meta p fs n past \<Longrightarrow> set past \<subseteq> set past' \<Longrightarrow> verified meta p fs n past'"
  by (auto simp: verified_def)

lemma delete_licensed_mono: "delete_licensed past e \<Longrightarrow> set past \<subseteq> set past' \<Longrightarrow> delete_licensed past' e"
  by (fastforce simp: delete_licensed_def intro: verified_mono split: event.splits)

lemma each_after_mono: "each_after P tr \<Longrightarrow> (\<And>past e. P past e \<Longrightarrow> Q past e) \<Longrightarrow> each_after Q tr"
  by (auto simp: each_after_def)

lemma each_after_Cons_licensed:
  assumes "each_after delete_licensed tr"
  shows "each_after delete_licensed (Got f m g # tr)"
  unfolding each_after_def
proof (intro allI impI)
  fix i assume "i < length (Got f m g # tr)"
  with assms show "delete_licensed (take i (Got f m g # tr)) ((Got f m g # tr) ! i)"
    by (cases i) (auto simp: each_after_def delete_licensed_def [of "[]"] intro: delete_licensed_mono)
qed

lemma extract_looked_up: "extractVolumeMetadataFromSubvolume v sv = Some meta \<Longrightarrow> looked_up meta"
  by (auto simp: extractVolumeMetadataFromSubvolume_def looked_up_def split: if_splits)

lemma wp_dispatchDelete:
  assumes "looked_up meta"
  shows "wp (dispatchDelete S meta) (\<lambda>r s'. \<exists>tr. calls s' = calls s @ tr \<and> each_after delete_licensed tr) s"
proof -
  have up: "wp m (\<lambda>r s'. \<exists>tr. calls s' = calls s @ tr \<and> each_after delete_licensed tr) s"
    if "wp m (\<lambda>r s'. \<exists>tr. calls s' = calls s @ tr \<and>
        each_after (\<lambda>past e. \<exists>fs n. splitSubvolumeID (vm_DatasetID meta) = Some (fs, n) \<and>
          licensed meta p fs n past e) tr) s" "p = vm_Protocol meta" for m p
    by (rule wp_mono [OF that(1)]) (use that(2) in \<open>auto elim!: each_after_mono intro: licensed_delete\<close>)
  show ?thesis
    unfolding dispatchDelete_def
    by (auto simp: wp_return intro: up [OF nfs_deletion.licensed_run [OF assms]]
        up [OF nvmeof_deletion.licensed_run [OF assms]] up [OF iscsi_deletion.licensed_run [OF assms]]
        up [OF smb_deletion.licensed_run [OF assms]])
qed

text \<open>The lookup makes at most one read that is in the trace.\<close>

lemma wp_lookupDeletionVolume:
  assumes "\<And>e w past. (\<forall>x \<in> set past. \<exists>f m g. x = Got f m g) \<Longrightarrow> length past \<le> 1 \<Longrightarrow>
      Q (Inl e) (s\<lparr>world := w, calls := calls s @ past\<rparr>)"
    and "\<And>w past. length past \<le> 1 \<Longrightarrow> (\<forall>x \<in> set past. \<exists>f m g. x = Got f m g) \<Longrightarrow>
      Q (Inr None) (s\<lparr>world := w, calls := calls s @ past\<rparr>)"
    and "\<And>meta w past. looked_up meta \<Longrightarrow> length past \<le> 1 \<Longrightarrow> (\<forall>x \<in> set past. \<exists>f m g. x = Got f m g) \<Longrightarrow>
      Q (Inr (Some meta)) (s\<lparr>world := w, calls := calls s @ past\<rparr>)"
  shows "wp (lookupDeletionVolume S v) Q s"
proof -
  have start: "Q (Inl e) s" for e
    using assms(1) [of "[]" e "world s"] by simp
  have none: "Q (Inl e) (s\<lparr>world := w\<rparr>)" "Q (Inr None) (s\<lparr>world := w\<rparr>)"
    "looked_up meta \<Longrightarrow> Q (Inr (Some meta)) (s\<lparr>world := w\<rparr>)" for e w meta
    using assms(1) [of "[]" e w] assms(2) [of "[]" w] assms(3) [of meta "[]" w] by simp_all
  have extracted: "Q (Inr (extractVolumeMetadataFromSubvolume v sv)) (s\<lparr>world := w\<rparr>)"
    "Q (Inr (extractVolumeMetadataFromSubvolume v sv)) (s\<lparr>world := w, calls := calls s @ [Got f m g]\<rparr>)" for sv w f m g
    using none assms(2) [of "[Got f m g]"] assms(3) [of _ "[Got f m g]"]
    by (cases "extractVolumeMetadataFromSubvolume v sv"; auto dest: extract_looked_up)+
  show ?thesis
    unfolding lookupDeletionVolume_def GetSubvolume_def
    by (auto simp: wp_rules Let_def start none extracted split: option.split sum.split
        intro!: wp_callI [where f = "api_GetSubvolume S a b" for a b]
          wp_quiet [where f = "api_FindSubvolumeByCSIVolumeName S a b" for a b] assms(1,2))
qed


text \<open>
  What the client documents of a read: a subvolume it returns is the one asked for.
\<close>

definition answers_asked :: "'w svc \<Rightarrow> bool" where
  "answers_asked S \<longleftrightarrow>
     (\<forall>fs n w sv w'. api_GetSubvolume S fs n w = (Inr (Some sv), w') \<longrightarrow> sv_Filesystem sv = fs \<and> sv_Name sv = n)"

lemma wp_GetSubvolume_asked:
  assumes "answers_asked S"
    and "\<And>g w. (\<And>sv. g = Inr (Some sv) \<Longrightarrow> sv_Filesystem sv = fs \<and> sv_Name sv = n) \<Longrightarrow>
      Q g (s\<lparr>world := w, calls := calls s @ [Got fs n g]\<rparr>)"
  shows "wp (GetSubvolume S fs n) Q s"
proof (cases "api_GetSubvolume S fs n (world s)")
  case (Pair g w)
  then have "Q g (s\<lparr>world := w, calls := calls s @ [Got fs n g]\<rparr>)"
    using assms(1) unfolding answers_asked_def by (intro assms(2)) blast
  with Pair show ?thesis by (simp add: GetSubvolume_def wp_call)
qed

lemma path_id [simp]: "isDatasetPathVolumeID (fs @ CHR ''/'' # n)"
  by (auto simp: isDatasetPathVolumeID_def str_contains_def sublist_def)

lemma split_path: "CHR ''/'' \<notin> set fs \<Longrightarrow> n \<noteq> [] \<Longrightarrow> splitSubvolumeID (fs @ CHR ''/'' # n) = Some (fs, n)"
  using splitSubvolumeID_Some_iff [of "fs @ CHR ''/'' # n" fs n] by simp

lemma validate_refusal:
  "validateDeletionOwnership (Some sv) meta p = Some e \<Longrightarrow> e = Status FailedPrecondition"
  by (auto simp: validateDeletionOwnership_def Let_def split: if_splits)

lemma extract_owned:
  assumes "validateDeletionOwnership (Some sv) m p = None"
  obtains meta where "extractVolumeMetadataFromSubvolume v sv = Some meta"
    "vm_Protocol meta = mget (sv_Properties sv) PropertyProtocol" "vm_DatasetID meta = subvolumeID sv"
  using assms mget_nonempty [of "sv_Properties sv" PropertyManagedBy]
  by (auto simp: validateDeletionOwnership_def extractVolumeMetadataFromSubvolume_def Let_def ManagedByValue_def
      split: if_splits)

lemma wp_dispatch_named:
  assumes "looked_up meta" "splitSubvolumeID (vm_DatasetID meta) = Some (fs, n)" "fs \<noteq> []"
    and "vm_Protocol meta \<in> {ProtocolNFS, ProtocolSMB, ProtocolISCSI, ProtocolNVMeOF}"
  shows "wp (dispatchDelete S meta)
     (\<lambda>r s'. \<exists>tr. calls s' = calls s @ tr \<and> deletion_run meta (vm_Protocol meta) fs n r tr) s"
  using assms(4) nfs_deletion.named_run [OF assms(1-3)] smb_deletion.named_run [OF assms(1-3)]
    iscsi_deletion.named_run [OF assms(1-3)] nvmeof_deletion.named_run [OF assms(1-3)]
  by (auto simp: dispatchDelete_def)


lemma mem_answers_asked: "answers_asked mem_svc"
proof -
  have "sv_Filesystem sv = fs \<and> sv_Name sv = n" if "mem_find fs n w = Some sv" for fs n w sv
    using that by (auto simp: mem_find_def find_Some_iff is_subvolume_def)
  then show ?thesis
    by (auto simp: answers_asked_def mem_svc_def mem_get_def split: option.splits)
qed

text \<open>A volume of the driver with its share, as a backend holds them.\<close>

definition owned_subvolume :: subvolume where
  "owned_subvolume = sample_subvolume
     \<lparr>sv_Properties := fmap_of_list [(PropertyManagedBy, ManagedByValue), (PropertyProtocol, ProtocolNFS)]\<rparr>"

definition owned_controller :: "memory controller" where
  "owned_controller = controller_at (memory_empty
     \<lparr>m_subvolumes := [owned_subvolume],
      m_nfsShares := [\<lparr>nfs_ID = ''share-1'', nfs_Path = ''/fs/tank/pvc-1'', nfs_Comment = None, nfs_Enabled = True\<rparr>]\<rparr>)"

lemma owned_deletion:
  "case run_state (DeleteVolume mem_svc (''tank'' @ ''/'' @ ''pvc-1'')) owned_controller of (r, s') \<Rightarrow>
     r = None \<and> calls s' =
       [Got ''tank'' ''pvc-1'' (Inr (Some owned_subvolume)), Got ''tank'' ''pvc-1'' (Inr (Some owned_subvolume)),
        Unexpose ProtocolNFS ''share-1'' None, Deleted ''tank'' ''pvc-1'' None]"
  by code_simp


end
