(* ===== verification/Snapshots.thy ===== *)
theory Snapshots
  imports Controller_Base Memory_Backend
begin

text \<open>
  Snapshots (\<^verbatim>\<open>src/pkg/driver/controller_snapshot.go\<close>, \<^verbatim>\<open>controller_snapshot_list.go\<close>): the compact
  snapshot identifier, creation, deletion, and the three ways of listing with their pagination. A
  creation time is a number of seconds; \<open>Got\<close> events record the reads of subvolumes.
\<close>

section \<open>Identifiers\<close>

record SnapshotMetadata =
  sm_SnapshotName :: string
  sm_SourceVolume :: string
  sm_Protocol :: string

datatype snapshot_id_error =
    ErrProtocolRequired | ErrSourceVolumeRequired | ErrSnapshotNameRequired
  | ErrInvalidSnapshotIDFormat | ErrInvalidProtocol

definition encodeSnapshotID :: "SnapshotMetadata \<Rightarrow> snapshot_id_error + string" where
  "encodeSnapshotID meta =
     (if sm_Protocol meta = [] then Inl ErrProtocolRequired
      else if sm_SourceVolume meta = [] then Inl ErrSourceVolumeRequired
      else if sm_SnapshotName meta = [] then Inl ErrSnapshotNameRequired
      else Inr (sm_Protocol meta @ '':'' @ sm_SourceVolume meta @ ''@'' @ sm_SnapshotName meta))"

definition decodeSnapshotID :: "string \<Rightarrow> snapshot_id_error + SnapshotMetadata" where
  "decodeSnapshotID snapshotID =
     (case str_index CHR '':'' snapshotID of
        None \<Rightarrow> Inl ErrInvalidSnapshotIDFormat
      | Some colonIdx \<Rightarrow>
          (let protocol = take colonIdx snapshotID; remainder = drop (colonIdx + 1) snapshotID
           in if protocol \<noteq> ProtocolNFS \<and> protocol \<noteq> ProtocolNVMeOF \<and> protocol \<noteq> ProtocolISCSI \<and>
                 protocol \<noteq> ProtocolSMB
              then Inl ErrInvalidProtocol
              else case str_last_index CHR ''@'' remainder of
                None \<Rightarrow> Inl ErrInvalidSnapshotIDFormat
              | Some atIdx \<Rightarrow>
                  (let volumeID = take atIdx remainder; snapshotName = drop (atIdx + 1) remainder
                   in if volumeID = [] then Inl ErrInvalidSnapshotIDFormat
                      else if snapshotName = [] then Inl ErrInvalidSnapshotIDFormat
                      else Inr \<lparr>sm_SnapshotName = snapshotName, sm_SourceVolume = volumeID,
                                sm_Protocol = protocol\<rparr>)))"

section \<open>Creation times\<close>

definition snapshotCreationKey :: "string \<Rightarrow> string \<Rightarrow> string" where
  "snapshotCreationKey subvolume name = subvolume @ [CHR 0x00] @ name"

definition snapshotCreationTimes ::
  "'w svc \<Rightarrow> string \<Rightarrow> ('w, go_error + (string, int option) fmap) op" where
  "snapshotCreationTimes S filesystem = do {
     r \<leftarrow> quiet (api_ListSnapshots S filesystem);
     ret (case r of
         Inl err \<Rightarrow> Inl err
       | Inr snapshots \<Rightarrow>
           Inr (foldl (\<lambda>result x. fmupd (snapshotCreationKey (sn_Subvolume x) (sn_Name x)) (sn_CreatedAt x) result)
             fmempty snapshots))
   }"

text \<open>A read of a missing key gives nil.\<close>

definition creationTimeOf :: "(string, int option) fmap \<Rightarrow> string \<Rightarrow> string \<Rightarrow> int option" where
  "creationTimeOf created subvolume name =
     (case fmlookup created (snapshotCreationKey subvolume name) of None \<Rightarrow> None | Some t \<Rightarrow> t)"

text \<open>\<^verbatim>\<open>Timestamp.CheckValid\<close> accepts the years 1 to 9999.\<close>

definition csiSnapshotCreationTime :: "int option \<Rightarrow> failure + int" where
  "csiSnapshotCreationTime createdAt =
     (case createdAt of
        None \<Rightarrow> Inl (Status Internal)
      | Some t \<Rightarrow> if t > 0 \<and> t \<le> 253402300799 then Inr t else Inl (Status Internal))"

section \<open>Creation and deletion\<close>

record csi_snapshot =
  cs_SnapshotId :: string
  cs_SourceVolumeId :: string
  cs_CreationTime :: int
  cs_ReadyToUse :: bool
  cs_SizeBytes :: int

definition propertyProtocolOrNFS :: "props \<Rightarrow> string" where
  "propertyProtocolOrNFS ps =
     (if mget ps PropertyProtocol = [] then ProtocolNFS else mget ps PropertyProtocol)"

definition propertyCapacity :: "'w svc \<Rightarrow> props \<Rightarrow> int" where
  "propertyCapacity S ps =
     (case fmlookup ps PropertyCapacityBytes of None \<Rightarrow> 0 | Some capStr \<Rightarrow> svc_StringToInt64 S capStr)"

definition apiCreateSnapshot ::
  "'w svc \<Rightarrow> string \<Rightarrow> string \<Rightarrow> string \<Rightarrow> ('w, go_error + backend_snapshot option) op" where
  "apiCreateSnapshot S filesystem subvolume name =
     call (api_CreateSnapshot S filesystem subvolume name) (\<lambda>r. [SnapshotCreated filesystem subvolume name r])"

definition apiDeleteSnapshot :: "'w svc \<Rightarrow> string \<Rightarrow> string \<Rightarrow> string \<Rightarrow> ('w, go_error option) op" where
  "apiDeleteSnapshot S filesystem subvolume name =
     call (api_DeleteSnapshot S filesystem subvolume name) (\<lambda>r. [SnapshotDeleted filesystem subvolume name r])"

definition foreignSnapshot :: "string \<Rightarrow> string \<Rightarrow> string \<Rightarrow> subvolume list \<Rightarrow> bool" where
  "foreignSnapshot snapshotName filesystem subvolumeName managed =
     list_ex (\<lambda>sv. list_ex (\<lambda>snap. \<not> (snap \<noteq> snapshotName \<or>
         (sv_Filesystem sv = filesystem \<and> sv_Name sv = subvolumeName))) (sv_Snapshots sv)) managed"

definition snapshotResponse ::
  "'w svc \<Rightarrow> SnapshotMetadata \<Rightarrow> props \<Rightarrow> int option \<Rightarrow> failure + csi_snapshot" where
  "snapshotResponse S meta ps createdAt =
     (case encodeSnapshotID meta of
        Inl _ \<Rightarrow> Inl (Status Internal)
      | Inr snapshotID \<Rightarrow>
          (case csiSnapshotCreationTime createdAt of
             Inl e \<Rightarrow> Inl e
           | Inr t \<Rightarrow> Inr \<lparr>cs_SnapshotId = snapshotID, cs_SourceVolumeId = sm_SourceVolume meta,
               cs_CreationTime = t, cs_ReadyToUse = True, cs_SizeBytes = propertyCapacity S ps\<rparr>))"

definition CreateSnapshot :: "'w svc \<Rightarrow> string \<Rightarrow> string \<Rightarrow> ('w, failure + csi_snapshot) op" where
  "CreateSnapshot S snapshotName sourceVolumeID =
     (if snapshotName = [] then ret (Inl (Status InvalidArgument))
      else if sourceVolumeID = [] then ret (Inl (Status InvalidArgument))
      else case splitSubvolumeID sourceVolumeID of
        None \<Rightarrow> ret (Inl (Status InvalidArgument))
      | Some (filesystem, subvolumeName) \<Rightarrow> do {
          g \<leftarrow> GetSubvolume S filesystem subvolumeName;
          case g of
            Inl _ \<Rightarrow> ret (Inl (Status NotFound))
          | Inr None \<Rightarrow> ret (Inl NilDeref)
          | Inr (Some subvol) \<Rightarrow>
              (let snapshotMeta = \<lparr>sm_SnapshotName = snapshotName, sm_SourceVolume = sourceVolumeID,
                     sm_Protocol = propertyProtocolOrNFS (sv_Properties subvol)\<rparr>
               in do {
                 m \<leftarrow> quiet (api_FindManagedSubvolumes S []);
                 if (case m of Inl _ \<Rightarrow> False
                     | Inr managed \<Rightarrow> foreignSnapshot snapshotName filesystem subvolumeName managed)
                 then ret (Inl (Status AlreadyExists))
                 else if snapshotName \<in> set (sv_Snapshots subvol)
                 then (case encodeSnapshotID snapshotMeta of
                     Inl _ \<Rightarrow> ret (Inl (Status Internal))
                   | Inr _ \<Rightarrow> do {
                       t \<leftarrow> snapshotCreationTimes S filesystem;
                       ret (case t of
                           Inl _ \<Rightarrow> Inl (Status Internal)
                         | Inr created \<Rightarrow> snapshotResponse S snapshotMeta (sv_Properties subvol)
                             (creationTimeOf created subvolumeName snapshotName))
                     })
                 else do {
                   c \<leftarrow> apiCreateSnapshot S filesystem subvolumeName snapshotName;
                   ret (case c of
                       Inl _ \<Rightarrow> Inl (Status Internal)
                     | Inr None \<Rightarrow> Inl NilDeref
                     | Inr (Some snap) \<Rightarrow>
                         snapshotResponse S snapshotMeta (sv_Properties subvol) (sn_CreatedAt snap))
                 }
               })
        })"

definition DeleteSnapshot :: "'w svc \<Rightarrow> string \<Rightarrow> ('w, failure option) op" where
  "DeleteSnapshot S snapshotID =
     (if snapshotID = [] then ret (Some (Status InvalidArgument))
      else case decodeSnapshotID snapshotID of
        Inl _ \<Rightarrow> ret None
      | Inr snapshotMeta \<Rightarrow>
          (case splitSubvolumeID (sm_SourceVolume snapshotMeta) of
             None \<Rightarrow> ret None
           | Some (filesystem, subvolumeName) \<Rightarrow> do {
               r \<leftarrow> apiDeleteSnapshot S filesystem subvolumeName (sm_SnapshotName snapshotMeta);
               ret (case r of
                   None \<Rightarrow> None
                 | Some err \<Rightarrow> if isNotFoundError err then None else Some (Status Internal))
             }))"

section \<open>Pages\<close>

text \<open>
  List lengths and page sizes fit 64 bits, so indices are plain integers. A page is a slice and
  the token of the next one; the empty token stands for none.
\<close>

definition encodeSnapshotToken :: "int \<Rightarrow> string" where
  "encodeSnapshotToken offset = format_int offset"

definition parseSnapshotToken :: "string \<Rightarrow> int option" where
  "parseSnapshotToken token =
     (case atoi token of
        None \<Rightarrow> None
      | Some offset \<Rightarrow> if offset < 0 \<or> token \<noteq> format_int offset then None else Some offset)"

definition slice :: "'a list \<Rightarrow> int \<Rightarrow> int \<Rightarrow> 'a list" where
  "slice xs startIndex endIndex = take (nat (endIndex - startIndex)) (drop (nat startIndex) xs)"

text \<open>The pagination of \<^verbatim>\<open>listSnapshotsBySourceVolume\<close>.\<close>

definition pageOfSource :: "'a list \<Rightarrow> int \<Rightarrow> string \<Rightarrow> failure + ('a list \<times> string)" where
  "pageOfSource xs requested token =
     (let n = int (length xs);
          maxEntries = (if requested \<le> 0 then n else requested);
          page = (\<lambda>startIndex.
            let endIndex = (if startIndex + maxEntries > n then n else startIndex + maxEntries)
            in Inr (slice xs startIndex endIndex, if endIndex < n then encodeSnapshotToken endIndex else []))
      in if token \<noteq> []
         then (case parseSnapshotToken token of
             None \<Rightarrow> Inl (Status Aborted)
           | Some startIndex \<Rightarrow> if startIndex < 0 \<or> startIndex \<ge> n then Inr ([], []) else page startIndex)
         else page 0)"

text \<open>The pagination of \<^verbatim>\<open>listAllSnapshots\<close>.\<close>

definition pageOfAll :: "'a list \<Rightarrow> int \<Rightarrow> string \<Rightarrow> failure + ('a list \<times> string)" where
  "pageOfAll xs maxEntries token =
     (case (if token \<noteq> [] then parseSnapshotToken token else Some 0) of
        None \<Rightarrow> Inl (Status Aborted)
      | Some startIndex \<Rightarrow>
          (let n = int (length xs)
           in if startIndex \<ge> n then Inr ([], [])
              else
                (let endIndex = (if maxEntries > 0 \<and> startIndex + maxEntries < n then startIndex + maxEntries else n)
                 in Inr (slice xs startIndex endIndex, if endIndex < n then encodeSnapshotToken endIndex else []))))"

section \<open>Listing\<close>

record list_request =
  lr_MaxEntries :: int
  lr_StartingToken :: string
  lr_SnapshotId :: string
  lr_SourceVolumeId :: string

type_synonym snapshot_page = "csi_snapshot list \<times> string"

definition listSnapshotByID :: "'w svc \<Rightarrow> list_request \<Rightarrow> ('w, failure + snapshot_page) op" where
  "listSnapshotByID S req =
     (case decodeSnapshotID (lr_SnapshotId req) of
        Inl _ \<Rightarrow> ret (Inr ([], []))
      | Inr snapshotMeta \<Rightarrow>
          (case splitSubvolumeID (sm_SourceVolume snapshotMeta) of
             None \<Rightarrow> ret (Inr ([], []))
           | Some (filesystem, subvolumeName) \<Rightarrow> do {
               g \<leftarrow> GetSubvolume S filesystem subvolumeName;
               case g of
                 Inl _ \<Rightarrow> ret (Inr ([], []))
               | Inr None \<Rightarrow> ret (Inl NilDeref)
               | Inr (Some subvol) \<Rightarrow>
                   if sm_SnapshotName snapshotMeta \<notin> set (sv_Snapshots subvol) then ret (Inr ([], []))
                   else do {
                     t \<leftarrow> snapshotCreationTimes S filesystem;
                     ret (case t of
                         Inl _ \<Rightarrow> Inl (Status Internal)
                       | Inr created \<Rightarrow>
                           (case csiSnapshotCreationTime
                               (creationTimeOf created subvolumeName (sm_SnapshotName snapshotMeta)) of
                              Inl e \<Rightarrow> Inl e
                            | Inr creationTime \<Rightarrow>
                                (let entry = \<lparr>cs_SnapshotId = lr_SnapshotId req,
                                       cs_SourceVolumeId = sm_SourceVolume snapshotMeta,
                                       cs_CreationTime = creationTime, cs_ReadyToUse = True,
                                       cs_SizeBytes = propertyCapacity S (sv_Properties subvol)\<rparr>
                                 in if lr_StartingToken req \<noteq> []
                                    then (case parseSnapshotToken (lr_StartingToken req) of
                                        None \<Rightarrow> Inl (Status Aborted)
                                      | Some startIndex \<Rightarrow>
                                          if startIndex > 0 then Inr ([], []) else Inr ([entry], []))
                                    else Inr ([entry], []))))
                   }
             }))"

text \<open>The loop over snapshot names: names that cannot be encoded are skipped, a bad time ends it.\<close>

fun snapshotEntries ::
  "'w svc \<Rightarrow> props \<Rightarrow> string \<Rightarrow> string \<Rightarrow> (string, int option) fmap \<Rightarrow> string list \<Rightarrow> failure + csi_snapshot list"
where
  "snapshotEntries S ps sourceVolumeID subvolumeName created [] = Inr []"
| "snapshotEntries S ps sourceVolumeID subvolumeName created (snapName # rest) =
     (case encodeSnapshotID \<lparr>sm_SnapshotName = snapName, sm_SourceVolume = sourceVolumeID,
             sm_Protocol = propertyProtocolOrNFS ps\<rparr> of
        Inl _ \<Rightarrow> snapshotEntries S ps sourceVolumeID subvolumeName created rest
      | Inr snapshotID \<Rightarrow>
          (case csiSnapshotCreationTime (creationTimeOf created subvolumeName snapName) of
             Inl timeErr \<Rightarrow> Inl timeErr
           | Inr creationTime \<Rightarrow>
               (case snapshotEntries S ps sourceVolumeID subvolumeName created rest of
                  Inl e \<Rightarrow> Inl e
                | Inr entries \<Rightarrow>
                    Inr (\<lparr>cs_SnapshotId = snapshotID, cs_SourceVolumeId = sourceVolumeID,
                      cs_CreationTime = creationTime, cs_ReadyToUse = True,
                      cs_SizeBytes = propertyCapacity S ps\<rparr> # entries))))"

definition listSnapshotsBySourceVolume :: "'w svc \<Rightarrow> list_request \<Rightarrow> ('w, failure + snapshot_page) op" where
  "listSnapshotsBySourceVolume S req =
     (case splitSubvolumeID (lr_SourceVolumeId req) of
        None \<Rightarrow> ret (Inr ([], []))
      | Some (filesystem, subvolumeName) \<Rightarrow> do {
          g \<leftarrow> GetSubvolume S filesystem subvolumeName;
          case g of
            Inl _ \<Rightarrow> ret (Inr ([], []))
          | Inr None \<Rightarrow> ret (Inl NilDeref)
          | Inr (Some subvol) \<Rightarrow> do {
              t \<leftarrow> snapshotCreationTimes S filesystem;
              ret (case t of
                  Inl _ \<Rightarrow> Inl (Status Internal)
                | Inr created \<Rightarrow>
                    (case pageOfSource (sort (sv_Snapshots subvol)) (lr_MaxEntries req) (lr_StartingToken req) of
                       Inl e \<Rightarrow> Inl e
                     | Inr (names, nextToken) \<Rightarrow>
                         (case snapshotEntries S (sv_Properties subvol) (lr_SourceVolumeId req) subvolumeName
                             created names of
                            Inl e \<Rightarrow> Inl e
                          | Inr entries \<Rightarrow> Inr (entries, nextToken))))
            }
        })"

text \<open>The loop over managed subvolumes, with the creation times cached per filesystem.\<close>

fun collectSnapshots ::
  "'w svc \<Rightarrow> subvolume list \<Rightarrow> (string, (string, int option) fmap) fmap \<Rightarrow> csi_snapshot list \<Rightarrow>
     ('w, failure + csi_snapshot list) op"
where
  "collectSnapshots S [] cache allEntries = ret (Inr allEntries)"
| "collectSnapshots S (subvol # rest) cache allEntries = do {
     t \<leftarrow> (case fmlookup cache (sv_Filesystem subvol) of
         Some created \<Rightarrow> ret (Inr created)
       | None \<Rightarrow> snapshotCreationTimes S (sv_Filesystem subvol));
     case t of
       Inl _ \<Rightarrow> ret (Inl (Status Internal))
     | Inr created \<Rightarrow>
         (case snapshotEntries S (sv_Properties subvol) (subvolumeID subvol) (sv_Name subvol) created
             (sv_Snapshots subvol) of
            Inl timeErr \<Rightarrow> ret (Inl timeErr)
          | Inr entries \<Rightarrow>
              collectSnapshots S rest (fmupd (sv_Filesystem subvol) created cache) (allEntries @ entries))
   }"

text \<open>
  \<^verbatim>\<open>sort.Slice\<close> orders by identifier and leaves the order of equal identifiers open; the model takes
  the stable one.
\<close>

definition listAllSnapshots :: "'w svc \<Rightarrow> list_request \<Rightarrow> ('w, failure + snapshot_page) op" where
  "listAllSnapshots S req = do {
     m \<leftarrow> quiet (api_FindManagedSubvolumes S []);
     case m of
       Inl _ \<Rightarrow> ret (Inr ([], []))
     | Inr subvols \<Rightarrow> do {
         c \<leftarrow> collectSnapshots S subvols fmempty [];
         ret (case c of
             Inl e \<Rightarrow> Inl e
           | Inr allEntries \<Rightarrow>
               pageOfAll (sort_key cs_SnapshotId allEntries) (lr_MaxEntries req) (lr_StartingToken req))
       }
   }"

definition ListSnapshots :: "'w svc \<Rightarrow> list_request \<Rightarrow> ('w, failure + snapshot_page) op" where
  "ListSnapshots S req =
     (if lr_MaxEntries req < 0 then ret (Inl (Status InvalidArgument))
      else if lr_StartingToken req \<noteq> [] \<and> parseSnapshotToken (lr_StartingToken req) = None
      then ret (Inl (Status Aborted))
      else if lr_SnapshotId req \<noteq> [] then listSnapshotByID S req
      else if lr_SourceVolumeId req \<noteq> [] then listSnapshotsBySourceVolume S req
      else listAllSnapshots S req)"

definition ControllerGetSnapshot :: "'w svc \<Rightarrow> string \<Rightarrow> ('w, failure + csi_snapshot) op" where
  "ControllerGetSnapshot S snapshotID =
     (if snapshotID = [] then ret (Inl (Status InvalidArgument))
      else do {
        r \<leftarrow> ListSnapshots S \<lparr>lr_MaxEntries = 0, lr_StartingToken = [], lr_SnapshotId = snapshotID,
               lr_SourceVolumeId = []\<rparr>;
        ret (case r of
            Inl e \<Rightarrow> Inl e
          | Inr ([], _) \<Rightarrow> Inl (Status NotFound)
          | Inr (entry # _, _) \<Rightarrow> Inr entry)
      })"

end
