(* ===== verification/Controller_Create.thy ===== *)
theory Controller_Create
  imports Controller_SMB Controller_NVMeOF Snapshots
begin

text \<open>
  \<^verbatim>\<open>CreateVolume\<close> of \<^verbatim>\<open>src/pkg/driver/controller.go\<close> and the ways it takes: the protocol handlers,
  clones of volumes and of snapshots (\<^verbatim>\<open>controller_snapshot_clone.go\<close>), adoption of orphaned volumes.
  A request whose capacity the code overwrites is returned updated.
\<close>

section \<open>Dispatch\<close>

definition createVolumeByProtocol ::
  "'w svc \<Rightarrow> create_request \<Rightarrow> string \<Rightarrow> ('w, failure + csi_volume) op" where
  "createVolumeByProtocol S req protocol =
     (if protocol = ProtocolNFS then createNFSVolume S req
      else if protocol = ProtocolNVMeOF then createNVMeOFVolume S req
      else if protocol = ProtocolISCSI then createISCSIVolume S req
      else if protocol = ProtocolSMB then createSMBVolume S req
      else ret (Inl (Status InvalidArgument)))"

section \<open>Clones\<close>

definition ensureClonedVolumeCapacity ::
  "'w svc \<Rightarrow> create_request \<Rightarrow> string \<Rightarrow> string \<Rightarrow> ('w, failure + (int \<times> create_request)) op" where
  "ensureClonedVolumeCapacity S req filesystem name = do {
     g \<leftarrow> GetSubvolume S filesystem name;
     case g of
       Inl _ \<Rightarrow> ret (Inl (Status Internal))
     | Inr sv \<Rightarrow>
         (case authoritativeSubvolumeCapacity sv of
            None \<Rightarrow> ret (Inl (Status Internal))
          | Some current \<Rightarrow>
              if uint current > MaxInt64 then ret (Inl (Status Internal))
              else
                (let currentBytes = to_int64 current; targetBytes = GetRequiredBytes req;
                     limitBytes = GetLimitBytes req
                 in if limitBytes > 0 \<and> currentBytes > limitBytes then ret (Inl (Status OutOfRange))
                    else
                      (let selectedBytes = (if currentBytes < targetBytes then targetBytes else currentBytes)
                       in do {
                         z \<leftarrow> ResizeSubvolume S filesystem name (to_uint64 selectedBytes);
                         ret (case z of
                             Inl _ \<Rightarrow> Inl (Status Internal)
                           | Inr resized \<Rightarrow>
                               (let returned = authoritativeSubvolumeCapacity resized
                                in if (case returned of None \<Rightarrow> False | Some u \<Rightarrow> uint u > MaxInt64)
                                   then Inl (Status Internal)
                                   else
                                     (let selectedBytes = (case returned of None \<Rightarrow> selectedBytes | Some u \<Rightarrow> to_int64 u)
                                      in if selectedBytes < targetBytes then Inl (Status Internal)
                                         else if limitBytes > 0 \<and> selectedBytes > limitBytes
                                         then Inl (Status OutOfRange)
                                         else case req_CapacityRange req of
                                           None \<Rightarrow> Inl NilDeref
                                         | Some _ \<Rightarrow> Inr (selectedBytes, setRequiredBytes selectedBytes req))))
                       })))
   }"

definition cloneProperties :: "int \<Rightarrow> volumeIdentityDecision \<Rightarrow> props" where
  "cloneProperties requestedCapacity identity =
     mergeProperties
       (fmap_of_list [(PropertyManagedBy, ManagedByValue), (PropertyCapacityBytes, format_int requestedCapacity)])
       (copyProperties (vid_properties identity))"

text \<open>
  The part the two clone functions share, from the resolution of the new name to the answer:
  \<open>clone\<close> is the backend call, \<open>source\<close> the properties of the source (\<^const>\<open>None\<close> for a nil
  pointer), \<open>contentSource\<close> what the answer names.
\<close>

definition cloneInto ::
  "'w svc \<Rightarrow> create_request \<Rightarrow> string \<Rightarrow> string \<Rightarrow> string \<Rightarrow> props option \<Rightarrow> bool \<Rightarrow>
     (string \<Rightarrow> ('w, go_error + subvolume option) op) \<Rightarrow> content_source \<Rightarrow> ('w, failure + csi_volume) op"
where
  "cloneInto S req filesystem sourceName protocol source sourceExists clone contentSource =
     (case ResolveVolumeName (svc_names S) (req_Parameters req) (req_Name req) of
        Inl _ \<Rightarrow> ret (Inl (Status InvalidArgument))
      | Inr newName \<Rightarrow> do {
          sel \<leftarrow> selectCloneDestination S req filesystem newName protocol;
          case sel of
            Inl e \<Rightarrow> ret (Inl e)
          | Inr selection \<Rightarrow>
              (let selectedName = cd_name selection
               in do {
                 f \<leftarrow> newVolumeIdentityDecision S req selectedName protocol;
                 case f of
                   Inl e \<Rightarrow> ret (Inl e)
                 | Inr freshIdentity \<Rightarrow> do {
                     c \<leftarrow> clone selectedName;
                     case c of
                       Inl cloneErr \<Rightarrow> ret (Inl (createVolumeError cloneErr))
                     | Inr created \<Rightarrow>
                         (let backendCreated = (case created of None \<Rightarrow> False | Some sv \<Rightarrow> sv_Created sv);
                              fail = (\<lambda>e. case created of
                                  None \<Rightarrow> ret (Inl e)
                                | Some sv \<Rightarrow> rollbackIf S (sv_Created sv) sv e)
                          in do {
                            z \<leftarrow> ensureClonedVolumeCapacity S req filesystem selectedName;
                            case z of
                              Inl capacityErr \<Rightarrow> fail capacityErr
                            | Inr (requestedCapacity, req) \<Rightarrow> do {
                                g \<leftarrow> GetSubvolume S filesystem selectedName;
                                case g of
                                  Inl _ \<Rightarrow> fail (Status Internal)
                                | Inr found \<Rightarrow>
                                    (case (source, found) of
                                       (Some sourceProperties, Some destination) \<Rightarrow> do {
                                         i \<leftarrow> classifyCloneIdentity S req protocol sourceName selectedName
                                           destination sourceProperties sourceExists backendCreated
                                           (cd_existed selection) (cd_legacy selection) freshIdentity;
                                         case i of
                                           Inl identityErr \<Rightarrow> fail identityErr
                                         | Inr identity \<Rightarrow>
                                             (let destination = (if backendCreated
                                                    then destination\<lparr>sv_Properties := fmempty\<rparr> else destination)
                                              in do {
                                                p \<leftarrow> persistVolumeIdentity S destination
                                                  (Some (cloneProperties requestedCapacity identity)) identity;
                                                case p of
                                                  (Some propErr, destination) \<Rightarrow>
                                                    rollbackIf S backendCreated destination propErr
                                                | (None, _) \<Rightarrow> do {
                                                    r \<leftarrow> createVolumeByProtocol S req protocol;
                                                    ret (case r of
                                                        Inl e \<Rightarrow> Inl e
                                                      | Inr vol \<Rightarrow> Inr (vol\<lparr>vol_ContentSource := Some contentSource\<rparr>))
                                                  }
                                              })
                                       }
                                     | _ \<Rightarrow> ret (Inl NilDeref))
                              }
                          })
                   }
               })
        })"

definition createVolumeFromVolume ::
  "'w svc \<Rightarrow> create_request \<Rightarrow> string \<Rightarrow> ('w, failure + csi_volume) op" where
  "createVolumeFromVolume S req sourceVolumeID = do {
     l \<leftarrow> lookupVolumeByCSIName S sourceVolumeID;
     case l of
       Inl _ \<Rightarrow> ret (Inl (Status Internal))
     | Inr None \<Rightarrow> ret (Inl (Status NotFound))
     | Inr (Some sourceMeta) \<Rightarrow>
         (case splitSubvolumeID (vm_DatasetID sourceMeta) of
            None \<Rightarrow> ret (Inl (Status InvalidArgument))
          | Some (filesystem, sourceSubvolName) \<Rightarrow> do {
              g \<leftarrow> GetSubvolume S filesystem sourceSubvolName;
              case g of
                Inl _ \<Rightarrow> ret (Inl (Status Internal))
              | Inr sourceSubvolume \<Rightarrow>
                  (let protocol = vm_Protocol sourceMeta; params = req_Parameters req
                   in case normalizeCreateCapacity req protocol of
                        Inl e \<Rightarrow> ret (Inl e)
                      | Inr req \<Rightarrow>
                          if mget params paramFilesystem \<noteq> [] \<and> mget params paramFilesystem \<noteq> filesystem
                          then ret (Inl (Status InvalidArgument))
                          else if mget params ''protocol'' \<noteq> [] \<and> mget params ''protocol'' \<noteq> protocol
                          then ret (Inl (Status InvalidArgument))
                          else cloneInto S req filesystem sourceSubvolName protocol
                            (map_option sv_Properties sourceSubvolume) True
                            (\<lambda>selectedName. CloneSubvolume S filesystem sourceSubvolName selectedName)
                            (FromVolume sourceVolumeID))
            })
   }"

definition snapshotSourceProperties ::
  "'w svc \<Rightarrow> string \<Rightarrow> string \<Rightarrow> ('w, failure + (props \<times> bool)) op" where
  "snapshotSourceProperties S filesystem subvolumeName = do {
     g \<leftarrow> GetSubvolume S filesystem subvolumeName;
     ret (case g of
         Inl err \<Rightarrow> if isNotFoundError err then Inr (fmempty, False) else Inl (Status Internal)
       | Inr None \<Rightarrow> Inr (fmempty, False)
       | Inr (Some source) \<Rightarrow> Inr (sv_Properties source, True))
   }"

definition createVolumeFromSnapshot ::
  "'w svc \<Rightarrow> create_request \<Rightarrow> string \<Rightarrow> ('w, failure + csi_volume) op" where
  "createVolumeFromSnapshot S req snapshotID =
     (case decodeSnapshotID snapshotID of
        Inl _ \<Rightarrow> ret (Inl (Status NotFound))
      | Inr meta \<Rightarrow>
          (case splitSubvolumeID (sm_SourceVolume meta) of
             None \<Rightarrow> ret (Inl (Status InvalidArgument))
           | Some (filesystem, parentSubvolume) \<Rightarrow>
               (let protocol = sm_Protocol meta; params = req_Parameters req
                in case normalizeCreateCapacity req protocol of
                     Inl e \<Rightarrow> ret (Inl e)
                   | Inr req \<Rightarrow>
                       if mget params paramFilesystem \<noteq> [] \<and> mget params paramFilesystem \<noteq> filesystem
                       then ret (Inl (Status InvalidArgument))
                       else if mget params ''protocol'' \<noteq> [] \<and> mget params ''protocol'' \<noteq> protocol
                       then ret (Inl (Status InvalidArgument))
                       else do {
                         sp \<leftarrow> snapshotSourceProperties S filesystem parentSubvolume;
                         case sp of
                           Inl e \<Rightarrow> ret (Inl e)
                         | Inr (sourceProperties, sourceExists) \<Rightarrow>
                             cloneInto S req filesystem parentSubvolume protocol (Some sourceProperties) sourceExists
                               (\<lambda>selectedName. CloneSnapshot S filesystem parentSubvolume (sm_SnapshotName meta) selectedName)
                               (FromSnapshot snapshotID)
                       })))"

text \<open>The answer is \<^const>\<open>None\<close> when the request has no usable content source.\<close>

definition handleVolumeContentSource ::
  "'w svc \<Rightarrow> create_request \<Rightarrow> string \<Rightarrow> ('w, (failure + csi_volume) option) op" where
  "handleVolumeContentSource S req protocol =
     (case req_ContentSource req of
        None \<Rightarrow> ret None
      | Some (FromSnapshot snapshotID) \<Rightarrow> do {
          r \<leftarrow> createVolumeFromSnapshot S req snapshotID;
          ret (Some r)
        }
      | Some (FromVolume sourceVolumeID) \<Rightarrow> do {
          r \<leftarrow> createVolumeFromVolume S req sourceVolumeID;
          ret (Some r)
        }
      | Some NoSource \<Rightarrow> ret None)"

section \<open>Adoption\<close>

definition IsVolumeAdoptable :: "props \<Rightarrow> bool" where
  "IsVolumeAdoptable ps =
     (if fmlookup ps PropertyManagedBy \<noteq> Some ManagedByValue then False
      else case fmlookup ps PropertyProtocol of
        None \<Rightarrow> False
      | Some protocol \<Rightarrow>
          if protocol = [] then False
          else protocol \<in> {ProtocolNFS, ProtocolNVMeOF, ProtocolISCSI, ProtocolSMB})"

definition GetAdoptionInfo :: "props \<Rightarrow> smap" where
  "GetAdoptionInfo ps =
     foldl (\<lambda>info (key, infoKey).
         case fmlookup ps key of
           None \<Rightarrow> info
         | Some v \<Rightarrow> if v \<noteq> [] then fmupd infoKey v info else info)
       fmempty
       [(PropertyCSIVolumeName, ''volumeID''), (PropertyProtocol, ''protocol''),
        (PropertyCapacityBytes, ''capacityBytes''), (PropertyDeleteStrategy, ''deleteStrategy''),
        (PropertyPVCName, ''pvcName''), (PropertyPVCNamespace, ''pvcNamespace''),
        (PropertyStorageClass, ''storageClass'')]"

text \<open>The loop over the candidates with its variable \<^verbatim>\<open>match\<close>.\<close>

fun matchPVCNamespace :: "string \<Rightarrow> subvolume list \<Rightarrow> subvolume option \<Rightarrow> failure + subvolume option" where
  "matchPVCNamespace pvcNamespace [] found = Inr found"
| "matchPVCNamespace pvcNamespace (sv # svs) found =
     (if mget (sv_Properties sv) PropertyPVCNamespace = pvcNamespace
      then if found \<noteq> None then Inl (Status FailedPrecondition)
           else matchPVCNamespace pvcNamespace svs (Some sv)
      else matchPVCNamespace pvcNamespace svs found)"

definition FindSubvolumesByProperty ::
  "'w svc \<Rightarrow> propkey \<Rightarrow> string \<Rightarrow> string \<Rightarrow> ('w, go_error + subvolume list) op" where
  "FindSubvolumesByProperty S key v filesystem =
     call (api_FindSubvolumesByProperty S key v filesystem)
       (\<lambda>r. [Found (case r of Inl _ \<Rightarrow> [] | Inr svs \<Rightarrow> svs)])"

definition FindSubvolumeByCSIVolumeName ::
  "'w svc \<Rightarrow> string \<Rightarrow> string \<Rightarrow> ('w, go_error + subvolume option) op" where
  "FindSubvolumeByCSIVolumeName S filesystem name =
     call (api_FindSubvolumeByCSIVolumeName S filesystem name)
       (\<lambda>r. [Found (case r of Inr (Some sv) \<Rightarrow> [sv] | _ \<Rightarrow> [])])"

definition findSubvolumeByPVCIdentity ::
  "'w svc \<Rightarrow> smap \<Rightarrow> string \<Rightarrow> ('w, failure + subvolume option) op" where
  "findSubvolumeByPVCIdentity S params filesystem =
     (if mget params CSIPVCName = [] \<or> mget params CSIPVCNamespace = [] then ret (Inr None)
      else do {
        r \<leftarrow> FindSubvolumesByProperty S PropertyPVCName (mget params CSIPVCName) filesystem;
        ret (case r of
            Inl _ \<Rightarrow> Inl (Status Internal)
          | Inr candidates \<Rightarrow> matchPVCNamespace (mget params CSIPVCNamespace) candidates None)
      })"

definition adoptVolume ::
  "'w svc \<Rightarrow> create_request \<Rightarrow> subvolume \<Rightarrow> smap \<Rightarrow> string \<Rightarrow> ('w, failure + csi_volume) op" where
  "adoptVolume S req sv params protocol =
     (if protocol = ProtocolNFS then adoptNFSVolume S req sv params
      else if protocol = ProtocolNVMeOF then adoptNVMeOFVolume S req sv params
      else if protocol = ProtocolISCSI then adoptISCSIVolume S req sv params
      else if protocol = ProtocolSMB then adoptSMBVolume S req sv params
      else ret (Inl (Status InvalidArgument)))"

text \<open>The answer is \<^const>\<open>None\<close> when nothing is adopted and creation goes on.\<close>

definition checkAndAdoptVolume ::
  "'w svc \<Rightarrow> create_request \<Rightarrow> smap \<Rightarrow> string \<Rightarrow> ('w, (failure + csi_volume) option) op" where
  "checkAndAdoptVolume S req params protocol =
     (let adoptExisting = (mget params ''adoptExisting'' = VolumeContextValueTrue);
          filesystem = mget params paramFilesystem
      in do {
        r \<leftarrow> FindSubvolumeByCSIVolumeName S filesystem (req_Name req);
        f \<leftarrow> (case r of
            Inr (Some sv) \<Rightarrow> ret (Inr (Some sv))
          | _ \<Rightarrow> findSubvolumeByPVCIdentity S params filesystem);
        case f of
          Inl adoptionErr \<Rightarrow> ret (Some (Inl adoptionErr))
        | Inr None \<Rightarrow> ret None
        | Inr (Some sv) \<Rightarrow>
            if \<not> IsVolumeAdoptable (sv_Properties sv) then ret None
            else if mget (sv_Properties sv) PropertyAdoptable \<noteq> VolumeContextValueTrue \<and> \<not> adoptExisting
            then ret None
            else if mget (sv_Properties sv) PropertyProtocol \<noteq> protocol
            then ret (Some (Inl (Status FailedPrecondition)))
            else do {
              a \<leftarrow> adoptVolume S req sv params protocol;
              ret (Some a)
            }
      })"

section \<open>CreateVolume\<close>

text \<open>The check of a \<^verbatim>\<open>StorageClass\<close> that asks for encryption.\<close>

definition encryptionCheck :: "'w svc \<Rightarrow> smap \<Rightarrow> ('w, failure option) op" where
  "encryptionCheck S params =
     (if equal_fold (mget params ''encryption'') ''true''
      then if mget params paramFilesystem = [] then ret (Some (Status InvalidArgument))
           else do {
             q \<leftarrow> quiet (api_QueryFilesystem S (mget params paramFilesystem));
             ret (case q of
                 Inl _ \<Rightarrow> Some (Status Internal)
               | Inr None \<Rightarrow> Some NilDeref
               | Inr (Some fs) \<Rightarrow> if fs_Encrypted fs \<noteq> Some True then Some (Status InvalidArgument) else None)
           }
      else ret None)"

text \<open>
  \<^verbatim>\<open>checkExistingVolume\<close> always answers \<^verbatim>\<open>ErrVolumeNotFound\<close>, with which creation goes on, so it leaves
  no trace here.
\<close>

definition CreateVolume :: "'w svc \<Rightarrow> create_request \<Rightarrow> ('w, failure + csi_volume) op" where
  "CreateVolume S req =
     (case validateCreateVolumeRequest req of
        Some e \<Rightarrow> ret (Inl e)
      | None \<Rightarrow>
          (let params = req_Parameters req; protocol = orDefault (mget params ''protocol'') ProtocolNFS
           in case normalizeCreateCapacity req protocol of
                Inl e \<Rightarrow> ret (Inl e)
              | Inr req \<Rightarrow>
                  (case validateAccessModeForProtocol (req_VolumeCapabilities req) protocol of
                     Some e \<Rightarrow> ret (Inl e)
                   | None \<Rightarrow>
                       (case (if protocol = ProtocolNVMeOF \<or> protocol = ProtocolISCSI
                              then requestedBlockFilesystem (req_VolumeCapabilities req) else Inr []) of
                          Inl e \<Rightarrow> ret (Inl e)
                        | Inr _ \<Rightarrow> do {
                            h \<leftarrow> handleVolumeContentSource S req protocol;
                            case h of
                              Some r \<Rightarrow> ret r
                            | None \<Rightarrow> do {
                                a \<leftarrow> checkAndAdoptVolume S req params protocol;
                                case a of
                                  Some r \<Rightarrow> ret r
                                | None \<Rightarrow> do {
                                    e \<leftarrow> encryptionCheck S params;
                                    case e of
                                      Some err \<Rightarrow> ret (Inl err)
                                    | None \<Rightarrow> createVolumeByProtocol S req protocol
                                  }
                              }
                          }))))"

end
