(* ===== verification/Creation_Safety.thy ===== *)
theory Creation_Safety
  imports Identity_Safety Controller_Create
begin

text \<open>
  The order of effects in volume creation: ownership is written only to volumes the request may
  take, and before a volume is exposed; only what this request created is ever rolled back; a volume
  is answered only once its identity is durable. The contract is the locale \<open>creation_handler\<close>,
  interpreted for the handler of each protocol; the clones, the adoption and \<^verbatim>\<open>CreateVolume\<close> build
  on it.
\<close>

section \<open>The contract\<close>

text \<open>Subvolumes the backend has returned to this request.\<close>

definition seen :: "event list \<Rightarrow> subvolume \<Rightarrow> bool" where
  "seen past sv \<longleftrightarrow>
     (\<exists>f m. Got f m (Inr (Some sv)) \<in> set past) \<or> (\<exists>c. Created c (Inr (Some sv)) \<in> set past) \<or>
     (\<exists>svs. Found svs \<in> set past \<and> sv \<in> set svs)"

definition same_place :: "subvolume \<Rightarrow> subvolume \<Rightarrow> bool" where
  "same_place sv sv' \<longleftrightarrow> sv_Filesystem sv' = sv_Filesystem sv \<and> sv_Name sv' = sv_Name sv \<and>
     sv_Path sv' = sv_Path sv \<and> sv_BlockDevice sv' = sv_BlockDevice sv"

text \<open>The backend reported that this request made the subvolume, anew or as a clone.\<close>

definition made :: "event list \<Rightarrow> subvolume \<Rightarrow> bool" where
  "made past sv \<longleftrightarrow>
     (\<exists>c sv0. Created c (Inr (Some sv0)) \<in> set past \<and> sv_Created sv0 \<and> same_place sv0 sv) \<or>
     (\<exists>f m sv0 sv1. Cloned f m (Inr (Some sv0)) \<in> set past \<and> sv_Created sv0 \<and>
        (sv1 = sv0 \<or> Got f m (Inr (Some sv1)) \<in> set past) \<and> same_place sv1 sv)"

text \<open>An orphan that adoption may take.\<close>

definition orphan :: "create_request \<Rightarrow> string \<Rightarrow> subvolume \<Rightarrow> bool" where
  "orphan req protocol sv \<longleftrightarrow>
     IsVolumeAdoptable (sv_Properties sv) \<and> mget (sv_Properties sv) PropertyProtocol = protocol \<and>
     (mget (sv_Properties sv) PropertyAdoptable = VolumeContextValueTrue \<or>
      mget (req_Parameters req) ''adoptExisting'' = VolumeContextValueTrue)"

text \<open>
  The request may become the owner of the subvolume: it is its own by identity or legacy proof, it
  has just made it, the backend has accepted it as the result of the requested clone, or it is an
  orphan.
\<close>

definition takeable :: "create_request \<Rightarrow> string \<Rightarrow> event list \<Rightarrow> subvolume \<Rightarrow> bool" where
  "takeable req protocol past sv \<longleftrightarrow>
     claimable req protocol (sv_Name sv) sv \<or> made past sv \<or> orphan req protocol sv \<or>
     (\<exists>f m r. Cloned f m (Inr r) \<in> set past \<and> Got f m (Inr (Some sv)) \<in> set past)"

definition owned_by :: "create_request \<Rightarrow> string \<Rightarrow> props \<Rightarrow> bool" where
  "owned_by req protocol ps \<longleftrightarrow> (\<exists>b u. carries ps (req_Name req) b protocol u \<and> u \<noteq> [])"

text \<open>The identity of this request is on the subvolume: written with success, or read.\<close>

definition durable :: "create_request \<Rightarrow> string \<Rightarrow> event list \<Rightarrow> subvolume \<Rightarrow> bool" where
  "durable req protocol past sv \<longleftrightarrow>
     owned_by req protocol (sv_Properties sv) \<or>
     (\<exists>ps. PropsSet (sv_Filesystem sv) (sv_Name sv) ps None \<in> set past \<and> owned_by req protocol ps)"

definition unexposed :: "event list \<Rightarrow> bool" where
  "unexposed tr = list_all (\<lambda>e. case e of Expose _ _ \<Rightarrow> False | _ \<Rightarrow> True) tr"

definition create_licensed :: "create_request \<Rightarrow> string \<Rightarrow> event list \<Rightarrow> event \<Rightarrow> bool" where
  "create_licensed req protocol past e =
     (case e of
        Got _ _ _ \<Rightarrow> True
      | Found _ \<Rightarrow> unexposed past
      | Created _ _ \<Rightarrow> unexposed past
      | Cloned _ _ _ \<Rightarrow> unexposed past
      | Resized fs n _ _ \<Rightarrow> unexposed past \<and> (\<exists>r. Cloned fs n (Inr r) \<in> set past)
      | PropsSet fs n ps _ \<Rightarrow> unexposed past \<and> owned_by req protocol ps \<and>
          (\<exists>sv. seen past sv \<and> takeable req protocol past sv \<and> sv_Filesystem sv = fs \<and> sv_Name sv = n)
      | Expose p loc \<Rightarrow> p = protocol \<and> unexposed past \<and>
          (\<exists>sv. seen past sv \<and> durable req protocol past sv \<and> (loc = sv_Path sv \<or> sv_BlockDevice sv = Some loc))
      | Deleted fs n _ \<Rightarrow> unexposed past \<and>
          (\<exists>sv. made past sv \<and> sv_Filesystem sv = fs \<and> sv_Name sv = n) \<and>
          (\<exists>cur. past \<noteq> [] \<and> last past = Got fs n (Inr (Some cur)) \<and> \<not> hasCompleteV2Identity (sv_Properties cur) n)
      | _ \<Rightarrow> False)"

definition answered :: "create_request \<Rightarrow> string \<Rightarrow> event list \<Rightarrow> failure + csi_volume \<Rightarrow> bool" where
  "answered req protocol tr r =
     (case r of
        Inl _ \<Rightarrow> True
      | Inr vol \<Rightarrow> (\<exists>sv. seen tr sv \<and> durable req protocol tr sv \<and> vol_VolumeId vol = subvolumeID sv))"

definition creation_ok :: "create_request \<Rightarrow> string \<Rightarrow> event list \<Rightarrow> failure + csi_volume \<Rightarrow> bool" where
  "creation_ok req protocol tr r \<longleftrightarrow>
     each_after (create_licensed req protocol) tr \<and> answered req protocol tr r"

text \<open>The state of a handler that has broken no rule and has exposed nothing yet.\<close>

definition prepared :: "create_request \<Rightarrow> string \<Rightarrow> 'w controller \<Rightarrow> bool" where
  "prepared req protocol s \<longleftrightarrow>
     each_after (create_licensed req protocol) (calls s) \<and> unexposed (calls s)"

locale creation_handler =
  fixes handler :: "'w svc \<Rightarrow> create_request \<Rightarrow> ('w, failure + csi_volume) op"
    and protocol :: string
  assumes ok: "prepared req protocol s \<Longrightarrow> wp (handler S req) (\<lambda>r s'. creation_ok req protocol (calls s') r) s"
begin

lemma run_ok:
  "case run_state (handler S req) (s\<lparr>calls := []\<rparr>) of (r, s') \<Rightarrow> creation_ok req protocol (calls s') r"
  by (rule run_caseI, rule ok) (simp add: prepared_def unexposed_def)

text \<open>At most one exposure, and nothing but reads after it.\<close>

lemma only_reads_after_exposure:
  assumes "run_state (handler S req) (s\<lparr>calls := []\<rparr>) = (r, s')" "calls s' = xs @ Expose p loc # ys"
  shows "p = protocol \<and> list_all (\<lambda>e. case e of Got _ _ _ \<Rightarrow> True | _ \<Rightarrow> False) ys"
proof -
  from run_ok [where S = S and req = req and s = s] assms have ea: "each_after (create_licensed req protocol) (xs @ Expose p loc # ys)"
    by (simp add: creation_ok_def)
  have "case e of Got _ _ _ \<Rightarrow> True | _ \<Rightarrow> False" if e: "e \<in> set ys" for e
  proof -
    from e obtain us vs where "ys = us @ e # vs" by (meson split_list)
    with ea have "create_licensed req protocol (xs @ Expose p loc # us) e"
      using each_after_split [of _ "xs @ Expose p loc # us" e vs] by simp
    then show ?thesis by (cases e) (auto simp: create_licensed_def unexposed_def)
  qed
  with each_after_split [OF ea] show ?thesis
    by (auto simp: create_licensed_def list_all_iff)
qed

end

section \<open>Monotonicity\<close>

lemma seen_append [intro]: "seen past sv \<Longrightarrow> seen (past @ tr) sv"
  by (auto simp: seen_def)

lemma seen_last [simp]:
  "seen (past @ [Got f m (Inr (Some sv))]) sv" "seen (past @ [e, Got f m (Inr (Some sv))]) sv"
  "seen (past @ [Created c (Inr (Some sv))]) sv" "seen (past @ [e, Created c (Inr (Some sv))]) sv"
  unfolding seen_def by (auto intro: exI [of _ f] exI [of _ m] exI [of _ c])

lemma durable_append [intro]: "durable req protocol past sv \<Longrightarrow> durable req protocol (past @ tr) sv"
  by (auto simp: durable_def)

lemma unexposed_append [simp]: "unexposed (xs @ ys) \<longleftrightarrow> unexposed xs \<and> unexposed ys"
  by (simp add: unexposed_def)

lemma unexposed_simps [simp]:
  "unexposed []" "unexposed (Found svs # tr) = unexposed tr"
  "unexposed (Cloned f m r # tr) = unexposed tr" "unexposed (Resized f m b r # tr) = unexposed tr"
  "unexposed (Got f m g # tr) = unexposed tr" "unexposed (Created c r # tr) = unexposed tr"
  "unexposed (PropsSet f m ps e # tr) = unexposed tr" "unexposed (Deleted f m e # tr) = unexposed tr"
  by (simp_all add: unexposed_def)

lemma each_after_snoc2 [simp]:
  "each_after P (tr @ [a, b]) \<longleftrightarrow> each_after P tr \<and> P tr a \<and> P (tr @ [a]) b"
  using each_after_snoc [of P "tr @ [a]" b] by simp

lemma licensed_Got [simp]: "create_licensed req protocol past (Got f m g)"
  by (simp add: create_licensed_def)

section \<open>Decisions\<close>

definition good_decision :: "create_request \<Rightarrow> string \<Rightarrow> subvolume \<Rightarrow> volumeIdentityDecision \<Rightarrow> bool" where
  "good_decision req protocol sv d \<longleftrightarrow>
     (\<exists>b u. vid_properties d = Some (identity_map (req_Name req) b protocol u) \<and> u \<noteq> [] \<and>
        (vid_persist d \<or> carries (sv_Properties sv) (req_Name req) b protocol u))"

lemma claimable_self: "claimable req protocol b sv \<Longrightarrow> claimable req protocol (sv_Name sv) sv"
  by (auto simp: claimable_def Let_def split: if_splits)

lemma wp_decide_good:
  assumes "\<And>e w. Q (Inl e) (s\<lparr>world := w\<rparr>)"
    and "\<And>d w. good_decision req protocol sv d \<Longrightarrow> claimable req protocol (sv_Name sv) sv \<Longrightarrow>
      Q (Inr d) (s\<lparr>world := w\<rparr>)"
  shows "wp (decideExistingVolumeIdentity S req protocol b sv) Q s"
proof -
  from assms(1) [of _ "world s"] have "Q (Inl e) s" for e by simp
  with assms show ?thesis by (intro wp_decide) (auto simp: good_decision_def claimable_self)
qed

lemma wp_newVolumeIdentityDecision:
  assumes "\<And>e w. Q (Inl e) (s\<lparr>world := w\<rparr>)"
    and "\<And>d w. (\<And>sv. good_decision req protocol sv d) \<Longrightarrow> Q (Inr d) (s\<lparr>world := w\<rparr>)"
  shows "wp (newVolumeIdentityDecision S req b protocol) Q s"
  unfolding newVolumeIdentityDecision_def
  by (rule wp_acceptIdentity) (auto simp: good_decision_def intro!: assms)

lemma wp_getOptional:
  assumes "\<And>e g w. Q (Inl e) (s\<lparr>world := w, calls := calls s @ [Got f m g]\<rparr>)"
    and "\<And>g w. Q (Inr None) (s\<lparr>world := w, calls := calls s @ [Got f m g]\<rparr>)"
    and "\<And>sv w. Q (Inr (Some sv)) (s\<lparr>world := w, calls := calls s @ [Got f m (Inr (Some sv))]\<rparr>)"
  shows "wp (getOptional S f m) Q s"
proof -
  have "Q (Inr x) (s\<lparr>world := w, calls := calls s @ [Got f m (Inr x)]\<rparr>)" for x w
    using assms(2,3) by (cases x) auto
  with assms show ?thesis
    unfolding getOptional_def GetSubvolume_def wp_bind
    by (intro wp_callI) (auto simp: wp_return split: sum.split)
qed

section \<open>Steps before the exposure\<close>

lemma same_place_simps [simp]: "same_place sv sv" "same_place sv (sv\<lparr>sv_Properties := ps\<rparr>)"
  by (simp_all add: same_place_def)

lemma prepared_world [simp]: "prepared req protocol (s\<lparr>world := w\<rparr>) = prepared req protocol s"
  by (simp add: prepared_def)

lemma prepared_Got [simp]:
  "prepared req protocol (s\<lparr>world := w, calls := calls s @ [Got f m g]\<rparr>) = prepared req protocol s"
  by (simp add: prepared_def)

lemma prepared_Created [simp]:
  "prepared req protocol (s\<lparr>world := w, calls := calls s @ [Created c r]\<rparr>) = prepared req protocol s"
  by (auto simp: prepared_def create_licensed_def)

lemma creation_failed: "prepared req protocol s \<Longrightarrow> creation_ok req protocol (calls s) (Inl e)"
  by (simp add: prepared_def creation_ok_def answered_def)

lemma wp_selectExisting:
  assumes s: "prepared req protocol s"
    and err: "\<And>e s'. prepared req protocol s' \<Longrightarrow> Q (Inl e) s'"
    and none: "\<And>name s'. prepared req protocol s' \<Longrightarrow> Q (Inr (None, name, noDecision)) s'"
    and some: "\<And>sv name d s'. prepared req protocol s' \<Longrightarrow> seen (calls s') sv \<Longrightarrow>
      good_decision req protocol sv d \<Longrightarrow> claimable req protocol (sv_Name sv) sv \<Longrightarrow>
      Q (Inr (Some sv, name, d)) s'"
  shows "wp (selectExistingCreateSubvolume S req f b protocol) Q s"
  unfolding selectExistingCreateSubvolume_def
  using s
  by (auto simp: wp_rules prepared_def split: sum.split option.split
      intro!: wp_getOptional wp_decide_good err none some)

text \<open>The identity is durable and every rule has been kept; an answer may name this subvolume.\<close>

definition ready :: "create_request \<Rightarrow> string \<Rightarrow> subvolume \<Rightarrow> 'w controller \<Rightarrow> bool" where
  "ready req protocol sv s \<longleftrightarrow>
     each_after (create_licensed req protocol) (calls s) \<and>
     (\<exists>sv0. same_place sv0 sv \<and> seen (calls s) sv0 \<and> durable req protocol (calls s) sv0)"

lemma readyI:
  "prepared req protocol s \<Longrightarrow> same_place sv0 sv \<Longrightarrow> seen (calls s) sv0 \<Longrightarrow>
     durable req protocol (calls s) sv0 \<Longrightarrow> ready req protocol sv s"
  by (auto simp: ready_def prepared_def)

lemma wp_persist_prepared:
  assumes s: "prepared req protocol s" and sv: "seen (calls s) sv" and d: "good_decision req protocol sv d"
    and err: "\<And>e sv' s'. prepared req protocol s' \<Longrightarrow> same_place sv sv' \<Longrightarrow> set (calls s) \<subseteq> set (calls s') \<Longrightarrow>
      Q (Some e, sv') s'"
    and tk: "takeable req protocol (calls s) sv"
    and ready: "\<And>sv' s'. prepared req protocol s' \<Longrightarrow> same_place sv sv' \<Longrightarrow> ready req protocol sv' s' \<Longrightarrow>
      Q (None, sv') s'"
  shows "wp (persistVolumeIdentity S sv base d) Q s"
proof -
  from d obtain b u where bu: "vid_properties d = Some (identity_map (req_Name req) b protocol u)" "u \<noteq> []"
    "vid_persist d \<or> carries (sv_Properties sv) (req_Name req) b protocol u"
    by (auto simp: good_decision_def)
  define want where "want = intendedProperties sv base (identity_map (req_Name req) b protocol u)"
  have owned: "owned_by req protocol want"
    unfolding owned_by_def want_def using bu(2) carries_written by blast
  have kept: "owned_by req protocol (sv_Properties sv)" if "propertiesContain (sv_Properties sv) want"
    using that bu(2) by (auto simp: owned_by_def want_def dest: carries_intended)
  have lic: "create_licensed req protocol (calls s) (PropsSet (sv_Filesystem sv) (sv_Name sv) want r)" for r
    using s sv tk owned by (auto simp: create_licensed_def prepared_def)
  have ok: "Q (None, sv') s'" if "prepared req protocol s'" "same_place sv sv'" "seen (calls s') sv"
    "durable req protocol (calls s') sv" for sv' s'
    using that by (intro ready readyI [where ?sv0.0 = sv]) auto
  note ps = s [unfolded prepared_def] lic
  show ?thesis
  proof (rule wp_persistVolumeIdentity, goal_cases)
    case 1
    with bu s sv show ?case by (intro ok) (auto simp: durable_def owned_by_def)
  next
    case 2 with bu show ?case by simp
  next
    case (3 identity)
    with bu kept s sv show ?case by (intro ok) (auto simp: durable_def want_def)
  next
    case (4 identity w)
    with bu(1) owned ps sv show ?case
      by (intro ok) (auto simp: prepared_def durable_def want_def)
  next
    case (5 identity w err g)
    with bu(1) ps show ?case
      by (intro err) (auto simp: prepared_def want_def split: sum.split option.split)
  next
    case (6 identity w err cur)
    with bu(1) ps show ?case by (intro err) (auto simp: prepared_def want_def)
  qed
qed

lemma takeableI:
  "claimable req protocol (sv_Name sv) sv \<Longrightarrow> takeable req protocol past sv"
  "made past sv \<Longrightarrow> takeable req protocol past sv"
  "orphan req protocol sv \<Longrightarrow> takeable req protocol past sv"
  by (simp_all add: takeable_def)

lemma same_place_trans: "same_place a b \<Longrightarrow> same_place b c \<Longrightarrow> same_place a c"
  by (simp add: same_place_def)

lemma made_later: "made past sv \<Longrightarrow> same_place sv sv' \<Longrightarrow> set past \<subseteq> set past' \<Longrightarrow> made past' sv'"
  unfolding made_def by (elim disjE exE conjE) (blast dest: same_place_trans)+

lemma wp_rollback_prepared:
  assumes s: "prepared req protocol s" and m: "made (calls s) sv"
    and Q: "\<And>e s'. prepared req protocol s' \<Longrightarrow> Q e s'"
  shows "wp (rollbackCreatedSubvolume S sv e) Q s"
proof (rule wp_rollback, goal_cases)
  case (4 cur r w)
  have "made (calls s @ [Got (sv_Filesystem sv) (sv_Name sv) (Inr (Some cur))]) sv"
    using m by (rule made_later) auto
  with 4 s show ?case
    by (intro Q) (auto simp: prepared_def create_licensed_def)
qed (use s in \<open>auto intro: Q\<close>)

section \<open>Exposing and answering\<close>

lemma ready_frame [simp]:
  "ready req protocol sv (s\<lparr>world := w\<rparr>) = ready req protocol sv s"
  "ready req protocol sv (s\<lparr>volumeCapacity := v\<rparr>) = ready req protocol sv s"
  by (simp_all add: ready_def)

lemma ready_answer:
  assumes "ready req protocol sv s" "vol_VolumeId vol = subvolumeID sv"
  shows "creation_ok req protocol (calls s) (Inr vol)"
  using assms by (auto simp: ready_def creation_ok_def answered_def same_place_def subvolumeID_def)

lemma ready_failed: "ready req protocol sv s \<Longrightarrow> creation_ok req protocol (calls s) (Inl e)"
  by (auto simp: ready_def creation_ok_def answered_def)

lemma wp_quietI: "(\<And>r w. Q r (s\<lparr>world := w\<rparr>)) \<Longrightarrow> wp (quiet f) Q s"
  by (rule wp_callI) simp

lemma wp_pvcHasAdoptableAnnotation:
  assumes "\<And>r w. Q r (s\<lparr>world := w\<rparr>)"
  shows "wp (pvcHasAdoptableAnnotation S params) Q s"
  using assms [of _ "world s"] unfolding pvcHasAdoptableAnnotation_def
  by (auto simp: wp_rules assms intro!: wp_quietI)

section \<open>NFS and SMB\<close>

text \<open>After an exposure, what was ready still is.\<close>

definition still :: "create_request \<Rightarrow> string \<Rightarrow> 'w controller \<Rightarrow> 'w controller \<Rightarrow> bool" where
  "still req protocol s s' \<longleftrightarrow> (\<forall>sv. ready req protocol sv s \<longrightarrow> ready req protocol sv s')"

lemma stillD: "still req protocol s s' \<Longrightarrow> ready req protocol sv s \<Longrightarrow> ready req protocol sv s'"
  by (simp add: still_def)

lemma ready_response:
  "ready req protocol sv s \<Longrightarrow> creation_ok req protocol (calls s)
     (Inr \<lparr>vol_VolumeId = subvolumeID sv, vol_CapacityBytes = c, vol_VolumeContext = x, vol_ContentSource = src\<rparr>)"
  "ready req protocol sv s \<Longrightarrow> creation_ok req protocol (calls s)
     (Inr (injectQueueParams i j
       \<lparr>vol_VolumeId = subvolumeID sv, vol_CapacityBytes = c, vol_VolumeContext = x, vol_ContentSource = src\<rparr>))"
  by (simp_all add: ready_answer injectQueueParams_def)

lemmas creation_ends = creation_failed ready_failed ready_response
  ready_failed [OF stillD] ready_response [OF stillD]

lemma wp_expose:
  assumes "prepared req protocol s"
    and "\<exists>sv. ready req protocol sv s \<and> (loc = sv_Path sv \<or> sv_BlockDevice sv = Some loc)"
    and "\<And>r s'. still req protocol s s' \<Longrightarrow> Q r s'"
  shows "wp (call f (\<lambda>_. [Expose protocol loc])) Q s"
proof (rule wp_callI, rule assms(3))
  fix r w
  from assms(1,2) have "create_licensed req protocol (calls s) (Expose protocol loc)"
    by (fastforce simp: ready_def prepared_def create_licensed_def same_place_def)
  then show "still req protocol s (s\<lparr>world := w, calls := calls s @ [Expose protocol loc]\<rparr>)"
    by (auto simp: still_def ready_def)
qed

lemma wp_rollbackIf_ok:
  assumes "prepared req protocol s" "created \<Longrightarrow> made (calls s) sv"
    and "\<And>e s'. prepared req protocol s' \<Longrightarrow> Q (Inl e) s'"
  shows "wp (rollbackIf S created sv e) Q s"
  unfolding rollbackIf_def using assms by (auto simp: wp_rules intro!: wp_rollback_prepared)

lemma finishNFSVolume_ok:
  assumes "prepared req ProtocolNFS s" "seen (calls s) sv" "good_decision req ProtocolNFS sv d"
    "takeable req ProtocolNFS (calls s) sv"
    and m: "created \<Longrightarrow> made (calls s) sv"
  shows "wp (finishNFSVolume S params sv d created) (\<lambda>r s'. creation_ok req ProtocolNFS (calls s') r) s"
proof -
  note steps = wp_persist_prepared wp_rollback_prepared wp_expose
  note steps = steps [where req = req and protocol = ProtocolNFS]
  show ?thesis
    unfolding finishNFSVolume_def nfsPropertiesV1_def createNFSShareForSubvolume_def CreateNFSShare_def
      buildNFSVolumeResponseFromSubvolume_def
    using assms(1-4)
    by (auto simp: wp_rules split: sum.split option.split intro!: wp_quietI steps)
      (blast intro: creation_ends made_later [OF m])+
qed

lemma finishSMBVolume_ok:
  assumes "prepared req ProtocolSMB s" "seen (calls s) sv" "good_decision req ProtocolSMB sv d"
    "takeable req ProtocolSMB (calls s) sv"
    and m: "created \<Longrightarrow> made (calls s) sv"
  shows "wp (finishSMBVolume S params sv d created) (\<lambda>r s'. creation_ok req ProtocolSMB (calls s') r) s"
proof -
  note steps = wp_persist_prepared wp_rollback_prepared wp_expose
  note steps = steps [where req = req and protocol = ProtocolSMB]
  show ?thesis
    unfolding finishSMBVolume_def smbPropertiesV1_def createSMBShareForSubvolume_def CreateSMBShare_def
      buildSMBVolumeResponse_def
    using assms(1-4)
    by (auto simp: wp_rules split: sum.split option.split intro!: wp_quietI steps)
      (blast intro: creation_ends made_later [OF m])+
qed

lemma wp_handleExistingNFS:
  assumes "prepared req ProtocolNFS s" "seen (calls s) sv" "good_decision req ProtocolNFS sv d"
    "takeable req ProtocolNFS (calls s) sv"
    and err: "\<And>e s'. prepared req ProtocolNFS s' \<Longrightarrow> Q (Inl e) s'"
    and none: "\<And>w. Q (Inr None) (s\<lparr>world := w\<rparr>)"
    and some: "\<And>vol s'. creation_ok req ProtocolNFS (calls s') (Inr vol) \<Longrightarrow> Q (Inr (Some vol)) s'"
  shows "wp (handleExistingNFSSubvolume S params sv d) Q s"
proof -
  note steps = wp_persist_prepared [where req = req and protocol = ProtocolNFS] err none some
  show ?thesis
    unfolding handleExistingNFSSubvolume_def nfsPropertiesV1_def buildNFSVolumeResponseFromSubvolume_def
    using assms(1-4)
    by (auto simp: wp_rules Let_def split: sum.split option.split intro!: wp_quietI steps)
      (blast intro: creation_ends)+
qed

lemma wp_handleExistingSMB:
  assumes "prepared req ProtocolSMB s" "seen (calls s) sv" "good_decision req ProtocolSMB sv d"
    "takeable req ProtocolSMB (calls s) sv"
    and err: "\<And>e s'. prepared req ProtocolSMB s' \<Longrightarrow> Q (Inl e) s'"
    and none: "\<And>w. Q (Inr None) (s\<lparr>world := w\<rparr>)"
    and some: "\<And>vol s'. creation_ok req ProtocolSMB (calls s') (Inr vol) \<Longrightarrow> Q (Inr (Some vol)) s'"
  shows "wp (handleExistingSMBSubvolume S params sv d) Q s"
proof -
  note steps = wp_persist_prepared [where req = req and protocol = ProtocolSMB] err none some
  show ?thesis
    unfolding handleExistingSMBSubvolume_def smbPropertiesV1_def buildSMBVolumeResponse_def
    using assms(1-4)
    by (auto simp: wp_rules Let_def split: sum.split option.split intro!: wp_quietI steps)
      (blast intro: creation_ends)+
qed

lemma wp_handleExistingISCSI:
  assumes "prepared req ProtocolISCSI s" "seen (calls s) sv" "good_decision req ProtocolISCSI sv d"
    "takeable req ProtocolISCSI (calls s) sv"
    and err: "\<And>e s'. prepared req ProtocolISCSI s' \<Longrightarrow> Q (Inl e) s'"
    and none: "\<And>w. Q (Inr None) (s\<lparr>world := w\<rparr>)"
    and some: "\<And>vol s'. creation_ok req ProtocolISCSI (calls s') (Inr vol) \<Longrightarrow> Q (Inr (Some vol)) s'"
  shows "wp (handleExistingISCSISubvolume S params sv d) Q s"
proof -
  note steps = wp_persist_prepared [where req = req and protocol = ProtocolISCSI] err none some
  show ?thesis
    unfolding handleExistingISCSISubvolume_def iscsiPropertiesV1_def buildISCSIVolumeResponse_def
    using assms(1-4)
    by (auto simp: wp_rules Let_def split: sum.split option.split intro!: wp_quietI steps)
      (blast intro: creation_ends)+
qed

lemma wp_handleExistingNVMeOF:
  assumes "prepared req ProtocolNVMeOF s" "seen (calls s) sv" "good_decision req ProtocolNVMeOF sv d"
    "takeable req ProtocolNVMeOF (calls s) sv"
    and err: "\<And>e s'. prepared req ProtocolNVMeOF s' \<Longrightarrow> Q (Inl e) s'"
    and none: "\<And>w. Q (Inr None) (s\<lparr>world := w\<rparr>)"
    and some: "\<And>vol s'. creation_ok req ProtocolNVMeOF (calls s') (Inr vol) \<Longrightarrow> Q (Inr (Some vol)) s'"
  shows "wp (handleExistingNVMeOFSubvolume S params sv d) Q s"
proof -
  note steps = wp_persist_prepared [where req = req and protocol = ProtocolNVMeOF] err none some
  show ?thesis
    unfolding handleExistingNVMeOFSubvolume_def nvmeofPropertiesV1_def buildNVMeOFVolumeResponse_def
    using assms(1-4)
    by (auto simp: wp_rules Let_def split: sum.split option.split intro!: wp_quietI steps)
      (blast intro: creation_ends)+
qed


section \<open>Block volumes\<close>

lemma wp_getOrCreateSubvolume:
  assumes "prepared req protocol s"
    and err: "\<And>e s'. prepared req protocol s' \<Longrightarrow> Q (Inl e) s'"
    and ok: "\<And>sv c s'. prepared req protocol s' \<Longrightarrow> seen (calls s') sv \<Longrightarrow> c \<longrightarrow> made (calls s') sv \<Longrightarrow>
      Q (Inr (sv, c)) s'"
  shows "wp (getOrCreateSubvolume S cp) Q s"
  unfolding getOrCreateSubvolume_def GetSubvolume_def CreateSubvolume_def
  using assms(1)
  by (auto simp: wp_rules Let_def prepared_def create_licensed_def split: sum.split option.split
      intro!: wp_callI [where f = "api_GetSubvolume S x y" for x y]
        wp_callI [where f = "api_CreateSubvolume S x" for x] err ok)
    (auto simp: made_def intro: exI [of _ cp] same_place_simps)

lemma wp_prepareBlockSubvolume:
  assumes "prepared req protocol s"
    and quiet: "\<And>R s. (\<And>r w. R r (s\<lparr>world := w\<rparr>)) \<Longrightarrow> wp propertiesV1 R s"
    and err: "\<And>e s'. prepared req protocol s' \<Longrightarrow> Q (Inl e) s'"
    and ok: "\<And>sv dev s'. prepared req protocol s' \<Longrightarrow> ready req protocol sv s' \<Longrightarrow>
      sv_BlockDevice sv = Some dev \<Longrightarrow> Q (Inr (sv, dev)) s'"
  shows "wp (prepareBlockSubvolume S req protocol name existed identity createParams bfs propertiesV1) Q s"
proof -
  note steps = wp_newVolumeIdentityDecision wp_decide_good
    wp_getOrCreateSubvolume [where req = req and protocol = protocol]
    wp_rollbackIf_ok [where req = req and protocol = protocol]
    wp_persist_prepared [where req = req and protocol = protocol] err
  show ?thesis
    unfolding prepareBlockSubvolume_def
    using assms(1)
    by (auto simp: wp_rules Let_def split: sum.split option.split intro!: quiet steps)
      (auto intro: made_later takeableI simp: same_place_def intro!: ok)
qed

lemma finishISCSIVolume_ok:
  assumes "prepared req ProtocolISCSI s"
  shows "wp (finishISCSIVolume S req params existed d) (\<lambda>r s'. creation_ok req ProtocolISCSI (calls s') r) s"
proof -
  note steps = wp_prepareBlockSubvolume wp_expose
  note steps = steps [where req = req and protocol = ProtocolISCSI]
  show ?thesis
    unfolding finishISCSIVolume_def CreateISCSITarget_def iscsiPropertiesV1_def buildISCSIVolumeResponse_def
    using assms
    by (auto simp: wp_rules split: sum.split option.split intro!: wp_quietI steps)
      (blast intro: creation_ends)+
qed

lemma finishNVMeOFVolume_ok:
  assumes "prepared req ProtocolNVMeOF s"
  shows "wp (finishNVMeOFVolume S req params existed d) (\<lambda>r s'. creation_ok req ProtocolNVMeOF (calls s') r) s"
proof -
  note steps = wp_prepareBlockSubvolume wp_expose
  note steps = steps [where req = req and protocol = ProtocolNVMeOF]
  show ?thesis
    unfolding finishNVMeOFVolume_def CreateNVMeOFSubsystem_def nvmeofPropertiesV1_def buildNVMeOFVolumeResponse_def
    using assms
    by (auto simp: wp_rules split: sum.split option.split intro!: wp_quietI steps)
      (blast intro: creation_ends)+
qed

section \<open>The four handlers\<close>

lemma wp_CreateSubvolume_prepared:
  assumes "prepared req protocol s"
    and "\<And>e s'. prepared req protocol s' \<Longrightarrow> Q (Inl e) s'" "\<And>s'. prepared req protocol s' \<Longrightarrow> Q (Inr None) s'"
    and "\<And>sv s'. prepared req protocol s' \<Longrightarrow> seen (calls s') sv \<Longrightarrow> sv_Created sv \<longrightarrow> made (calls s') sv \<Longrightarrow>
      Q (Inr (Some sv)) s'"
  shows "wp (CreateSubvolume S cp) Q s"
  unfolding CreateSubvolume_def
proof (rule wp_callI)
  fix r w
  let ?s = "s\<lparr>world := w, calls := calls s @ [Created cp r]\<rparr>"
  have "made (calls ?s) sv" if "r = Inr (Some sv)" "sv_Created sv" for sv
    using that by (auto simp: made_def intro: exI [of _ cp] same_place_simps)
  with assms show "Q r ?s" by (cases r; cases "projr r") auto
qed

lemma createNFSVolume_ok:
  assumes "prepared req ProtocolNFS s"
  shows "wp (createNFSVolume S req) (\<lambda>r s'. creation_ok req ProtocolNFS (calls s') r) s"
proof -
  note steps = wp_selectExisting wp_CreateSubvolume_prepared
  note steps = wp_pvcHasAdoptableAnnotation wp_newVolumeIdentityDecision wp_decide_good wp_handleExistingNFS
    finishNFSVolume_ok steps [where req = req and protocol = ProtocolNFS]
  show ?thesis
    unfolding createNFSVolume_def
    using assms
    by (auto simp: wp_rules Let_def split: sum.split option.split intro!: steps)
      (blast intro: creation_ends takeableI)+
qed

lemma createSMBVolume_ok:
  assumes "prepared req ProtocolSMB s"
  shows "wp (createSMBVolume S req) (\<lambda>r s'. creation_ok req ProtocolSMB (calls s') r) s"
proof -
  note steps = wp_selectExisting wp_getOrCreateSubvolume
  note steps = wp_pvcHasAdoptableAnnotation wp_newVolumeIdentityDecision wp_decide_good wp_handleExistingSMB
    finishSMBVolume_ok steps [where req = req and protocol = ProtocolSMB]
  show ?thesis
    unfolding createSMBVolume_def
    using assms
    by (auto simp: wp_rules Let_def split: sum.split option.split intro!: steps)
      (blast intro: creation_ends takeableI)+
qed

lemma createISCSIVolume_ok:
  assumes "prepared req ProtocolISCSI s"
  shows "wp (createISCSIVolume S req) (\<lambda>r s'. creation_ok req ProtocolISCSI (calls s') r) s"
proof -
  note steps = wp_pvcHasAdoptableAnnotation wp_handleExistingISCSI finishISCSIVolume_ok
    wp_selectExisting [where req = req and protocol = ProtocolISCSI]
  show ?thesis
    unfolding createISCSIVolume_def
    using assms
    by (auto simp: wp_rules Let_def split: sum.split option.split intro!: steps)
      (blast intro: creation_ends takeableI)+
qed

lemma createNVMeOFVolume_ok:
  assumes "prepared req ProtocolNVMeOF s"
  shows "wp (createNVMeOFVolume S req) (\<lambda>r s'. creation_ok req ProtocolNVMeOF (calls s') r) s"
proof -
  note steps = wp_pvcHasAdoptableAnnotation wp_handleExistingNVMeOF finishNVMeOFVolume_ok
    wp_selectExisting [where req = req and protocol = ProtocolNVMeOF]
  show ?thesis
    unfolding createNVMeOFVolume_def
    using assms
    by (auto simp: wp_rules Let_def split: sum.split option.split intro!: steps)
      (blast intro: creation_ends takeableI)+
qed

interpretation nfs_creation: creation_handler createNFSVolume ProtocolNFS
  by unfold_locales (rule createNFSVolume_ok)

interpretation smb_creation: creation_handler createSMBVolume ProtocolSMB
  by unfold_locales (rule createSMBVolume_ok)

interpretation iscsi_creation: creation_handler createISCSIVolume ProtocolISCSI
  by unfold_locales (rule createISCSIVolume_ok)

interpretation nvmeof_creation: creation_handler createNVMeOFVolume ProtocolNVMeOF
  by unfold_locales (rule createNVMeOFVolume_ok)

text \<open>
  The order of effects in volume creation, for every protocol, request and backend. Each client
  call of a creation handler is licensed by the calls before it: properties are written only to
  subvolumes this request has read or created, always with an identity naming the request and the
  protocol; a share, target or subsystem is created at most once, for a subvolume on which that
  identity is already durable; a subvolume is deleted only if the backend reported that this request
  created it, nothing has been exposed, and a read right before shows no complete identity. A volume
  is answered only when its identity is durable, under its own identifier.
\<close>

theorem creation_effects_ordered:
  "(case run_state (createNFSVolume S req) (s\<lparr>calls := []\<rparr>) of (r, s') \<Rightarrow> creation_ok req ProtocolNFS (calls s') r) \<and>
   (case run_state (createSMBVolume S req) (s\<lparr>calls := []\<rparr>) of (r, s') \<Rightarrow> creation_ok req ProtocolSMB (calls s') r) \<and>
   (case run_state (createISCSIVolume S req) (s\<lparr>calls := []\<rparr>) of (r, s') \<Rightarrow> creation_ok req ProtocolISCSI (calls s') r) \<and>
   (case run_state (createNVMeOFVolume S req) (s\<lparr>calls := []\<rparr>) of (r, s') \<Rightarrow>
      creation_ok req ProtocolNVMeOF (calls s') r)"
  by (intro conjI nfs_creation.run_ok smb_creation.run_ok iscsi_creation.run_ok nvmeof_creation.run_ok)

end
