(* ===== verification/CreateVolume_Safety.thy ===== *)
theory CreateVolume_Safety
  imports Creation_Safety
begin

text \<open>
  The contract of creation for the rest of \<^verbatim>\<open>CreateVolume\<close>: adoption of orphaned volumes, clones of
  volumes and of snapshots, and the handler as a whole.
\<close>

section \<open>Adoption\<close>

lemma wp_return_fun: "wp (ret x) Q = Q x"
  by (rule ext) (simp add: wp_return)

lemma good_decision_fresh:
  "uuid_for ps u \<Longrightarrow> good_decision req protocol sv
     \<lparr>vid_properties = Some (identity_map (req_Name req) b protocol u), vid_persist = True\<rparr>"
  by (auto simp: good_decision_def)

lemma adoptNFSVolume_ok:
  assumes "prepared req ProtocolNFS s" "seen (calls s) sv" "takeable req ProtocolNFS (calls s) sv"
  shows "wp (adoptNFSVolume S req sv params) (\<lambda>r s'. creation_ok req ProtocolNFS (calls s') r) s"
proof -
  note steps = wp_persist_prepared wp_expose
  note steps = wp_identityProperties steps [where req = req and protocol = ProtocolNFS]
  show ?thesis
    unfolding adoptNFSVolume_def CreateNFSShare_def
    using assms
    by (auto simp: wp_rules Let_def good_decision_fresh split: sum.split option.split intro!: wp_quietI steps)
      (blast intro: creation_ends)+
qed

lemma adoptSMBVolume_ok:
  assumes "prepared req ProtocolSMB s" "seen (calls s) sv" "takeable req ProtocolSMB (calls s) sv"
  shows "wp (adoptSMBVolume S req sv params) (\<lambda>r s'. creation_ok req ProtocolSMB (calls s') r) s"
proof -
  note steps = wp_persist_prepared wp_expose
  note steps = wp_identityProperties steps [where req = req and protocol = ProtocolSMB]
  show ?thesis
    unfolding adoptSMBVolume_def CreateSMBShare_def
    using assms
    by (auto simp: wp_rules Let_def good_decision_fresh split: sum.split option.split intro!: wp_quietI steps)
      (blast intro: creation_ends)+
qed

lemma adoptISCSIVolume_ok:
  assumes "prepared req ProtocolISCSI s" "seen (calls s) sv" "takeable req ProtocolISCSI (calls s) sv"
  shows "wp (adoptISCSIVolume S req sv params) (\<lambda>r s'. creation_ok req ProtocolISCSI (calls s') r) s"
proof (cases "sv_BlockDevice sv")
  case (Some dev)
  note steps = wp_persist_prepared wp_expose
  note steps = wp_identityProperties steps [where req = req and protocol = ProtocolISCSI]
  have dev: "same_place sv sv' \<Longrightarrow> sv_BlockDevice sv' = Some dev" for sv'
    using Some by (simp add: same_place_def)
  show ?thesis
    unfolding adoptISCSIVolume_def CreateISCSITarget_def buildISCSIVolumeResponse_def adoptedProperties_def
    using assms Some
    by (auto simp: wp_rules Let_def good_decision_fresh split: sum.split option.split intro!: wp_quietI steps)
      (blast intro: creation_ends dev)+
qed (use assms in \<open>auto simp: adoptISCSIVolume_def wp_rules Let_def split: sum.split option.split intro: creation_ends\<close>)

lemma adoptNVMeOFVolume_ok:
  assumes "prepared req ProtocolNVMeOF s" "seen (calls s) sv" "takeable req ProtocolNVMeOF (calls s) sv"
  shows "wp (adoptNVMeOFVolume S req sv params) (\<lambda>r s'. creation_ok req ProtocolNVMeOF (calls s') r) s"
proof (cases "sv_BlockDevice sv")
  case (Some dev)
  note steps = wp_persist_prepared wp_expose
  note steps = wp_identityProperties steps [where req = req and protocol = ProtocolNVMeOF]
  have dev: "same_place sv sv' \<Longrightarrow> sv_BlockDevice sv' = Some dev" for sv'
    using Some by (simp add: same_place_def)
  show ?thesis
    unfolding adoptNVMeOFVolume_def CreateNVMeOFSubsystem_def buildNVMeOFVolumeResponse_def adoptedProperties_def
    using assms Some
    by (auto simp: wp_rules Let_def good_decision_fresh split: sum.split option.split intro!: wp_quietI steps)
      (blast intro: creation_ends dev)+
qed (use assms in \<open>auto simp: adoptNVMeOFVolume_def wp_rules Let_def split: sum.split option.split intro: creation_ends\<close>)

lemma adoptVolume_ok:
  assumes "prepared req protocol s" "seen (calls s) sv" "takeable req protocol (calls s) sv"
  shows "wp (adoptVolume S req sv params protocol) (\<lambda>r s'. creation_ok req protocol (calls s') r) s"
  unfolding adoptVolume_def using assms
  by (auto simp: wp_return intro: adoptNFSVolume_ok adoptSMBVolume_ok adoptISCSIVolume_ok adoptNVMeOFVolume_ok
      creation_ends)

lemma matchPVCNamespace_member:
  "matchPVCNamespace ns svs found = Inr (Some sv) \<Longrightarrow> sv \<in> set svs \<or> found = Some sv"
  by (induction svs arbitrary: found) (auto split: if_splits)

lemma prepared_Found [simp]:
  "prepared req protocol (s\<lparr>world := w, calls := calls s @ [Found svs]\<rparr>) = prepared req protocol s"
  by (auto simp: prepared_def create_licensed_def)

lemma seen_Found: "sv \<in> set svs \<Longrightarrow> seen (past @ [Found svs]) sv"
  by (auto simp: seen_def)

lemma wp_findSubvolumeByPVCIdentity:
  assumes s: "prepared req protocol s"
    and err: "\<And>e s'. prepared req protocol s' \<Longrightarrow> Q (Inl e) s'"
    and none: "\<And>s'. prepared req protocol s' \<Longrightarrow> Q (Inr None) s'"
    and some: "\<And>sv s'. prepared req protocol s' \<Longrightarrow> seen (calls s') sv \<Longrightarrow> Q (Inr (Some sv)) s'"
  shows "wp (findSubvolumeByPVCIdentity S params fs) Q s"
proof -
  have "Q (matchPVCNamespace ns svs None) (s\<lparr>world := w, calls := calls s @ [Found svs]\<rparr>)" for ns svs w
  proof (cases "matchPVCNamespace ns svs None")
    case (Inr x)
    then show ?thesis
      using s matchPVCNamespace_member [of ns svs None]
      by (cases x) (auto intro!: none some simp: seen_Found)
  qed (simp add: err s)
  with s show ?thesis
    unfolding findSubvolumeByPVCIdentity_def FindSubvolumesByProperty_def
    by (auto simp: wp_rules split: sum.split intro!: wp_callI err none)
qed

lemma checkAndAdoptVolume_ok:
  assumes s: "prepared req protocol s" and params: "params = req_Parameters req"
    and none: "\<And>s'. prepared req protocol s' \<Longrightarrow> Q None s'"
    and some: "\<And>r s'. creation_ok req protocol (calls s') r \<Longrightarrow> Q (Some r) s'"
  shows "wp (checkAndAdoptVolume S req params protocol) Q s"
proof -
  have adopt: "wp (adoptVolume S req sv params protocol) (\<lambda>r. Q (Some r)) s'"
    if "prepared req protocol s'" "seen (calls s') sv" "orphan req protocol sv" for sv s'
    using adoptVolume_ok [OF that(1,2) takeableI(3) [OF that(3)], of S params] by (rule wp_mono) (rule some)
  define rest where "rest = (\<lambda>f. case f of
          Inl adoptionErr \<Rightarrow> ret (Some (Inl adoptionErr))
        | Inr None \<Rightarrow> ret None
        | Inr (Some sv) \<Rightarrow>
            if \<not> IsVolumeAdoptable (sv_Properties sv) then ret None
            else if mget (sv_Properties sv) PropertyAdoptable \<noteq> VolumeContextValueTrue \<and>
              mget params ''adoptExisting'' \<noteq> VolumeContextValueTrue
            then ret None
            else if mget (sv_Properties sv) PropertyProtocol \<noteq> protocol
            then ret (Some (Inl (Status FailedPrecondition)))
            else adoptVolume S req sv params protocol \<bind> (\<lambda>a. ret (Some a)))"
  have found: "wp (rest (Inr (Some sv))) Q s'" if p: "prepared req protocol s'" and "seen (calls s') sv" for sv s'
  proof (cases "orphan req protocol sv")
    case True
    then show ?thesis
      using adopt [OF that] unfolding rest_def by (auto simp: orphan_def params wp_bind wp_return_fun)
  next
    case False
    have "Q None s'" "Q (Some (Inl e)) s'" for e using p by (auto intro: none some creation_failed)
    with False show ?thesis unfolding rest_def orphan_def params by (auto simp: wp_return)
  qed
  have failed: "wp (rest (Inl e)) Q s'" "wp (rest (Inr None)) Q s'" if "prepared req protocol s'" for e s'
    using that unfolding rest_def by (auto simp: wp_rules intro!: none some creation_failed)
  have pvc: "wp (findSubvolumeByPVCIdentity S params fs) (\<lambda>f. wp (rest f) Q) s'"
    if "prepared req protocol s'" for fs s'
    using that by (rule wp_findSubvolumeByPVCIdentity) (auto intro: found failed)
  show ?thesis
    unfolding checkAndAdoptVolume_def Let_def FindSubvolumeByCSIVolumeName_def rest_def [symmetric] wp_bind
    by (rule wp_callI) (auto simp: wp_rules s seen_Found split: sum.split option.split intro!: found pvc)
qed

section \<open>Clones\<close>

lemma setRequiredBytes_fields [simp]:
  "req_Name (setRequiredBytes b req) = req_Name req"
  "req_Parameters (setRequiredBytes b req) = req_Parameters req"
  by (simp_all add: setRequiredBytes_def)

lemma resized_request [simp]:
  "create_licensed (setRequiredBytes b req) = create_licensed req"
  "creation_ok (setRequiredBytes b req) = creation_ok req"
  "prepared (setRequiredBytes b req) = prepared req"
proof -
  have o: "owned_by (setRequiredBytes b req) = owned_by req"
    by (intro ext) (simp add: owned_by_def)
  have d: "durable (setRequiredBytes b req) = durable req"
    by (intro ext) (simp add: durable_def o)
  have "claimable (setRequiredBytes b req) = claimable req" "orphan (setRequiredBytes b req) = orphan req"
    by (intro ext, simp add: claimable_def orphan_def)+
  then have t: "takeable (setRequiredBytes b req) = takeable req"
    by (intro ext) (simp add: takeable_def)
  show l: "create_licensed (setRequiredBytes b req) = create_licensed req"
    by (intro ext) (simp add: create_licensed_def o d t cong: event.case_cong)
  show "creation_ok (setRequiredBytes b req) = creation_ok req"
    by (intro ext) (simp add: creation_ok_def answered_def l d cong: sum.case_cong)
  show "prepared (setRequiredBytes b req) = prepared req"
    by (intro ext) (simp add: prepared_def l)
qed

lemma normalizeCreateCapacity_Inr:
  "normalizeCreateCapacity req protocol = Inr req' \<Longrightarrow> \<exists>b. req' = setRequiredBytes b req"
  by (auto simp: normalizeCreateCapacity_def Let_def split: if_splits sum.splits)

lemma wp_persist_keeps:
  assumes s: "prepared req protocol s" and d: "good_decision req protocol sv d"
    and lic: "\<And>ps r. owned_by req protocol ps \<Longrightarrow>
      create_licensed req protocol (calls s) (PropsSet (sv_Filesystem sv) (sv_Name sv) ps r)"
    and Q: "\<And>r sv' s'. prepared req protocol s' \<Longrightarrow> same_place sv sv' \<Longrightarrow> set (calls s) \<subseteq> set (calls s') \<Longrightarrow>
      Q (r, sv') s'"
  shows "wp (persistVolumeIdentity S sv base d) Q s"
proof -
  from d obtain b u where "vid_properties d = Some (identity_map (req_Name req) b protocol u)" "u \<noteq> []"
    by (auto simp: good_decision_def)
  moreover from this have "owned_by req protocol (intendedProperties sv base (identity_map (req_Name req) b protocol u))"
    unfolding owned_by_def using carries_written by blast
  ultimately show ?thesis
    using s lic unfolding prepared_def
    by (intro wp_persistVolumeIdentity Q) (auto simp: prepared_def split: sum.split option.split)
qed

lemma wp_getOptional_prepared:
  assumes "prepared req protocol s"
    and "\<And>r s'. prepared req protocol s' \<Longrightarrow> Q r s'"
  shows "wp (getOptional S f m) Q s"
  by (rule wp_getOptional) (use assms in auto)

lemma wp_selectCloneDestination:
  assumes "prepared req protocol s" "\<And>r s'. prepared req protocol s' \<Longrightarrow> Q r s'"
  shows "wp (selectCloneDestination S req f b p) Q s"
  unfolding selectCloneDestination_def
  by (auto simp: wp_rules assms split: sum.split option.split
      intro!: wp_getOptional_prepared [where req = req and protocol = protocol] assms)

lemma wp_classify_good:
  assumes "\<And>sv. good_decision req protocol sv fresh"
    and "\<And>e w. Q (Inl e) (s\<lparr>world := w\<rparr>)"
    and "\<And>d w. (\<And>sv. good_decision req protocol sv d) \<Longrightarrow> Q (Inr d) (s\<lparr>world := w\<rparr>)"
  shows "wp (classifyCloneIdentity S req protocol sn b dest sp se bc de lg fresh) Q s"
  using assms(2,3) [of _ "world s"] assms(1)
  unfolding classifyCloneIdentity_def Let_def
  by (auto simp: wp_rules intro!: wp_acceptIdentity assms(2,3) good_decision_fresh)

lemma prepared_Resized:
  "prepared req protocol s \<Longrightarrow> Cloned fs n (Inr r) \<in> set (calls s) \<Longrightarrow>
     prepared req protocol (s\<lparr>world := w, calls := calls s @ [Got fs n g, Resized fs n b z]\<rparr>)"
  by (auto simp: prepared_def create_licensed_def)

lemma wp_ensureClonedVolumeCapacity:
  assumes s: "prepared req protocol s" and c: "Cloned fs n (Inr r) \<in> set (calls s)"
    and err: "\<And>e s'. prepared req protocol s' \<Longrightarrow> set (calls s) \<subseteq> set (calls s') \<Longrightarrow> Q (Inl e) s'"
    and ok: "\<And>b s'. prepared req protocol s' \<Longrightarrow> set (calls s) \<subseteq> set (calls s') \<Longrightarrow>
      Q (Inr (b, setRequiredBytes b req)) s'"
  shows "wp (ensureClonedVolumeCapacity S req fs n) Q s"
  unfolding ensureClonedVolumeCapacity_def GetSubvolume_def ResizeSubvolume_def Let_def
  using s prepared_Resized [OF s c]
  by (auto simp: wp_rules split: sum.split option.split
      intro!: wp_callI [where f = "api_GetSubvolume S x y" for x y]
        wp_callI [where f = "api_ResizeSubvolume S x y z" for x y z] err ok)

lemma createVolumeByProtocol_ok:
  assumes "prepared req protocol s"
  shows "wp (createVolumeByProtocol S req protocol) (\<lambda>r s'. creation_ok req protocol (calls s') r) s"
  unfolding createVolumeByProtocol_def using assms
  by (auto simp: wp_return creation_failed intro: nfs_creation.ok smb_creation.ok iscsi_creation.ok nvmeof_creation.ok)

lemma answered_source:
  "creation_ok req protocol tr r \<Longrightarrow>
     creation_ok req protocol tr (case r of Inl e \<Rightarrow> Inl e | Inr vol \<Rightarrow> Inr (vol\<lparr>vol_ContentSource := c\<rparr>))"
  by (auto simp: creation_ok_def answered_def split: sum.split)

text \<open>From the read of the clone on.\<close>

lemma clone_written_ok:
  assumes s: "prepared req protocol s" and d: "\<And>sv. good_decision req protocol sv d"
    and dest: "Got fs n (Inr (Some dest)) \<in> set (calls s)" "Cloned fs n (Inr created) \<in> set (calls s)"
    and place: "same_place dest dest'"
    and bc: "bc \<Longrightarrow> made (calls s) dest'"
  shows "wp (persistVolumeIdentity S dest' base d \<bind> (\<lambda>p. case p of
       (Some e, sv) \<Rightarrow> rollbackIf S bc sv e
     | (None, _) \<Rightarrow> createVolumeByProtocol S (setRequiredBytes b req) protocol \<bind> (\<lambda>r.
         ret (case r of Inl e \<Rightarrow> Inl e | Inr vol \<Rightarrow> Inr (vol\<lparr>vol_ContentSource := Some c\<rparr>)))))
     (\<lambda>r s'. creation_ok req protocol (calls s') r) s"
proof -
  have "takeable req protocol (calls s) dest" "seen (calls s) dest"
    using dest by (auto simp: takeable_def seen_def)
  with s place have lic: "create_licensed req protocol (calls s) (PropsSet (sv_Filesystem dest') (sv_Name dest') ps r)"
    if "owned_by req protocol ps" for ps r
    using that by (auto simp: create_licensed_def prepared_def same_place_def)
  have finish: "wp (createVolumeByProtocol S (setRequiredBytes b req) protocol)
      (\<lambda>x s'. creation_ok req protocol (calls s') (case x of Inl e \<Rightarrow> Inl e
         | Inr vol \<Rightarrow> Inr (vol\<lparr>vol_ContentSource := Some c\<rparr>))) s'" if "prepared req protocol s'" for s'
    using createVolumeByProtocol_ok [of "setRequiredBytes b req" protocol s' S] that
    by (auto intro: wp_mono answered_source)
  show ?thesis
    unfolding wp_bind
    by (rule wp_persist_keeps [OF s d lic])
      (auto simp: wp_bind wp_return_fun finish split: option.split
        intro!: wp_rollbackIf_ok [where req = req and protocol = protocol]
        intro: creation_failed made_later [OF bc])
qed

lemma creation_ok_Inl: "creation_ok req protocol tr (Inl e) \<longleftrightarrow> each_after (create_licensed req protocol) tr"
  by (simp add: creation_ok_def answered_def)

lemma made_clone:
  assumes "Cloned f m (Inr (Some sv0)) \<in> set past" "sv_Created sv0"
  shows "made past sv0" "Got f m (Inr (Some sv1)) \<in> set past \<Longrightarrow> same_place sv1 sv \<Longrightarrow> made past sv"
  unfolding made_def using assms same_place_simps by blast+

lemma wp_bindI: "wp m (\<lambda>x. wp (k x) Q) s \<Longrightarrow> wp (m \<bind> k) Q s"
  by (simp add: wp_bind)

text \<open>The failure exit of a clone, and what follows the resize.\<close>

definition clone_failed :: "'w svc \<Rightarrow> subvolume option \<Rightarrow> failure \<Rightarrow> ('w, failure + csi_volume) op" where
  "clone_failed S created e = (case created of None \<Rightarrow> ret (Inl e) | Some sv \<Rightarrow> rollbackIf S (sv_Created sv) sv e)"

lemma clone_failed_ok:
  assumes "prepared req protocol s" "Cloned fs n (Inr created) \<in> set (calls s)"
  shows "wp (clone_failed S created e) (\<lambda>r s'. creation_ok req protocol (calls s') r) s"
proof (cases created)
  case (Some sv)
  then have "made (calls s) sv" if "sv_Created sv"
    using that assms(2) made_clone(1) by simp
  then show ?thesis
    unfolding clone_failed_def Some using assms(1)
    by (auto intro!: wp_rollbackIf_ok [where req = req and protocol = protocol] intro: creation_failed)
qed (simp add: clone_failed_def wp_return creation_failed assms)

lemma clone_read_ok:
  assumes s: "prepared req protocol s" and c: "Cloned fs n (Inr created) \<in> set (calls s)"
    and fresh: "\<And>sv. good_decision req protocol sv fresh"
  defines "bc \<equiv> (case created of None \<Rightarrow> False | Some sv \<Rightarrow> sv_Created sv)"
  shows "wp (GetSubvolume S fs n \<bind> (\<lambda>g. case g of
      Inl _ \<Rightarrow> clone_failed S created (Status Internal)
    | Inr found \<Rightarrow> (case (source, found) of
        (Some sp, Some dest) \<Rightarrow>
          classifyCloneIdentity S (setRequiredBytes b req) protocol sn n dest sp se bc ex lg fresh \<bind> (\<lambda>i. case i of
            Inl e \<Rightarrow> clone_failed S created e
          | Inr d \<Rightarrow> persistVolumeIdentity S (if bc then dest\<lparr>sv_Properties := fmempty\<rparr> else dest)
                (Some (cloneProperties b d)) d \<bind> (\<lambda>p. case p of
              (Some e, sv) \<Rightarrow> rollbackIf S bc sv e
            | (None, _) \<Rightarrow> createVolumeByProtocol S (setRequiredBytes b req) protocol \<bind> (\<lambda>r.
                ret (case r of Inl e \<Rightarrow> Inl e | Inr vol \<Rightarrow> Inr (vol\<lparr>vol_ContentSource := Some src\<rparr>)))))
      | _ \<Rightarrow> ret (Inl NilDeref)))) (\<lambda>r s'. creation_ok req protocol (calls s') r) s"
  unfolding GetSubvolume_def
proof (rule wp_bindI, rule wp_callI, goal_cases)
  case (1 g w)
  let ?s = "s\<lparr>world := w, calls := calls s @ [Got fs n g]\<rparr>"
  have p: "prepared req protocol ?s" and c': "Cloned fs n (Inr created) \<in> set (calls ?s)" using s c by auto
  have good: "good_decision (setRequiredBytes b req) = good_decision req"
    by (intro ext) (simp add: good_decision_def)
  consider e where "g = Inl e" | x where "g = Inr x" "source = None \<or> x = None"
    | sp dest where "source = Some sp" "g = Inr (Some dest)"
    by (cases g; cases source; cases "projr g") auto
  then show ?case
  proof cases
    case 3
    let ?dest = "if bc then dest\<lparr>sv_Properties := fmempty\<rparr> else dest"
    have made: "made (calls ?s) ?dest" if bc
    proof -
      from that obtain sv where "created = Some sv" "sv_Created sv" by (auto simp: bc_def split: option.splits)
      then show ?thesis using c' 3(2) by (intro made_clone(2) [where ?sv1.0 = dest]) auto
    qed
    have written: "wp (persistVolumeIdentity S ?dest (Some (cloneProperties b d)) d \<bind> (\<lambda>p. case p of
              (Some e, sv) \<Rightarrow> rollbackIf S bc sv e
            | (None, _) \<Rightarrow> createVolumeByProtocol S (setRequiredBytes b req) protocol \<bind> (\<lambda>r.
                ret (case r of Inl e \<Rightarrow> Inl e | Inr vol \<Rightarrow> Inr (vol\<lparr>vol_ContentSource := Some src\<rparr>)))))
        (\<lambda>r s'. creation_ok req protocol (calls s') r) (?s\<lparr>world := v\<rparr>)"
      if "\<And>sv. good_decision req protocol sv d" for d v
      using p c' made 3(2) that by (intro clone_written_ok [where dest = dest]) (auto simp: prepared_def)
    have failed: "wp (clone_failed S created e) (\<lambda>r s'. creation_ok req protocol (calls s') r) (?s\<lparr>world := v\<rparr>)" for e v
      using p c' by (intro clone_failed_ok) (auto simp: prepared_def)
    show ?thesis
      unfolding 3 sum.case option.case prod.case
      by (rule wp_bindI, rule wp_classify_good [where req = "setRequiredBytes b req"])
        (use fresh written failed 3(2) in \<open>simp_all add: good\<close>)
  qed (use p c' in \<open>auto simp: clone_failed_ok wp_return creation_ok_Inl prepared_def split: option.split sum.split\<close>)
qed

lemma cloneInto_ok:
  assumes s: "prepared req protocol s"
    and clone: "\<And>n. \<exists>f. clone n = call f (\<lambda>r. [Cloned fs n r])"
  shows "wp (cloneInto S req fs sn protocol source se clone src) (\<lambda>r s'. creation_ok req protocol (calls s') r) s"
proof -
  let ?ok = "\<lambda>r s'. creation_ok req protocol (calls s') r"
  have resized: "wp (ensureClonedVolumeCapacity S req fs n \<bind> (\<lambda>z. case z of
      Inl e \<Rightarrow> clone_failed S created e
    | Inr (b, req') \<Rightarrow> k b req')) ?ok s'"
    if "prepared req protocol s'" "Cloned fs n (Inr created) \<in> set (calls s')"
      "\<And>b s''. prepared req protocol s'' \<Longrightarrow> Cloned fs n (Inr created) \<in> set (calls s'') \<Longrightarrow>
         wp (k b (setRequiredBytes b req)) ?ok s''" for n created k s'
    using that by (intro wp_bindI wp_ensureClonedVolumeCapacity) (auto intro: clone_failed_ok)
  have after_clone: "wp (clone n \<bind> (\<lambda>c. case c of
      Inl e \<Rightarrow> ret (Inl (createVolumeError e)) | Inr created \<Rightarrow> k created)) ?ok s'"
    if "prepared req protocol s'"
      "\<And>created s''. prepared req protocol s'' \<Longrightarrow> Cloned fs n (Inr created) \<in> set (calls s'') \<Longrightarrow>
         wp (k created) ?ok s''" for n k s'
  proof -
    obtain f where f: "clone n = call f (\<lambda>r. [Cloned fs n r])" using clone by blast
    show ?thesis
      unfolding f
      by (rule wp_bindI, rule wp_callI)
        (use that in \<open>auto simp: wp_return prepared_def create_licensed_def creation_ok_Inl split: sum.split\<close>)
  qed
  show ?thesis
    unfolding cloneInto_def Let_def clone_failed_def [symmetric]
    using s
    apply (auto simp: wp_return creation_failed split: sum.split
        intro!: wp_bindI [where m = "selectCloneDestination S r f n p" for r f n p]
          wp_bindI [where m = "newVolumeIdentityDecision S r n p" for r n p]
          wp_selectCloneDestination [where protocol = protocol] wp_newVolumeIdentityDecision
          after_clone resized)
    subgoal for _ _ sel fresh created _ b s2
      using clone_read_ok [where req = req and protocol = protocol and s = s2 and fs = fs and n = "cd_name sel"
          and created = created and fresh = fresh and source = source and b = b and ex = "cd_existed sel"
          and lg = "cd_legacy sel"] by simp
    done
qed

text \<open>Before a protocol is known: only reads.\<close>

definition only_reads :: "'w controller \<Rightarrow> bool" where
  "only_reads s = list_all (\<lambda>e. case e of Got _ _ _ \<Rightarrow> True | _ \<Rightarrow> False) (calls s)"

lemma only_reads_prepared: "only_reads s \<Longrightarrow> prepared req protocol s"
proof -
  have "list_all (\<lambda>e. case e of Got _ _ _ \<Rightarrow> True | _ \<Rightarrow> False) tr \<Longrightarrow>
      each_after (create_licensed req protocol) tr \<and> unexposed tr" for tr
    by (induction tr rule: rev_induct) (auto split: event.splits)
  then show "only_reads s \<Longrightarrow> prepared req protocol s" by (simp add: only_reads_def prepared_def)
qed

lemma only_reads_Got [simp]:
  "only_reads (s\<lparr>world := w\<rparr>) = only_reads s"
  "only_reads (s\<lparr>world := w, calls := calls s @ [Got f m g]\<rparr>) = only_reads s"
  by (simp_all add: only_reads_def)

lemma wp_GetSubvolume_reads:
  assumes "only_reads s" "\<And>r s'. only_reads s' \<Longrightarrow> Q r s'"
  shows "wp (GetSubvolume S f m) Q s"
  unfolding GetSubvolume_def by (rule wp_callI) (simp add: assms)

lemma wp_lookup_reads:
  assumes "only_reads s" "\<And>r s'. only_reads s' \<Longrightarrow> Q r s'"
  shows "wp (lookupVolumeByCSIName S v) Q s"
  unfolding lookupVolumeByCSIName_def lookupVolumeBySubvolumePath_def lookupVolumeByPropertyScan_def
  using assms by (auto simp: wp_rules split: option.split intro!: wp_GetSubvolume_reads wp_quietI)

lemma cloneInto_normalized:
  assumes "normalizeCreateCapacity req p = Inr req'" "only_reads s" "\<And>n. \<exists>f. clone n = call f (\<lambda>r. [Cloned fs n r])"
  shows "wp (cloneInto S req' fs sn protocol source se clone src)
     (\<lambda>r s'. \<exists>protocol. creation_ok req protocol (calls s') r) s"
proof -
  from normalizeCreateCapacity_Inr [OF assms(1)] obtain b where b: "req' = setRequiredBytes b req" ..
  have "wp (cloneInto S req' fs sn protocol source se clone src)
      (\<lambda>r s'. creation_ok req' protocol (calls s') r) s"
    by (rule cloneInto_ok) (use assms only_reads_prepared in auto)
  then show ?thesis unfolding b by (rule wp_mono) auto
qed

lemma same_call: "\<exists>g. call f ev = call g ev"
  by blast

lemma failed_reads: "only_reads s \<Longrightarrow> \<exists>protocol. creation_ok req protocol (calls s) (Inl e)"
  using only_reads_prepared creation_failed by blast

lemma createVolumeFromVolume_ok:
  assumes "only_reads s"
  shows "wp (createVolumeFromVolume S req v) (\<lambda>r s'. \<exists>protocol. creation_ok req protocol (calls s') r) s"
  unfolding createVolumeFromVolume_def
  by (auto simp: wp_return failed_reads Let_def CloneSubvolume_def assms split: sum.split option.split
      intro!: wp_bindI wp_lookup_reads wp_GetSubvolume_reads cloneInto_normalized same_call)

lemma createVolumeFromSnapshot_ok:
  assumes "only_reads s"
  shows "wp (createVolumeFromSnapshot S req i) (\<lambda>r s'. \<exists>protocol. creation_ok req protocol (calls s') r) s"
  unfolding createVolumeFromSnapshot_def snapshotSourceProperties_def
  by (auto simp: wp_return failed_reads Let_def CloneSnapshot_def assms split: sum.split option.split
      intro!: wp_bindI wp_GetSubvolume_reads cloneInto_normalized same_call)

section \<open>CreateVolume\<close>

lemma wp_encryptionCheck:
  assumes "\<And>r w. Q r (s\<lparr>world := w\<rparr>)"
  shows "wp (encryptionCheck S params) Q s"
  using assms [of _ "world s"] unfolding encryptionCheck_def
  by (auto simp: wp_rules assms intro!: wp_quietI)

lemma createVolume_tail_ok:
  assumes "prepared req protocol s"
  shows "wp (checkAndAdoptVolume S (setRequiredBytes b req) (req_Parameters req) protocol \<bind> (\<lambda>a. case a of
       Some r \<Rightarrow> ret r
     | None \<Rightarrow> encryptionCheck S (req_Parameters req) \<bind> (\<lambda>e. case e of
         Some err \<Rightarrow> ret (Inl err)
       | None \<Rightarrow> createVolumeByProtocol S (setRequiredBytes b req) protocol)))
     (\<lambda>r s'. \<exists>protocol. creation_ok req protocol (calls s') r) s"
proof -
  have create: "wp (createVolumeByProtocol S (setRequiredBytes b req) protocol)
      (\<lambda>r s'. \<exists>protocol. creation_ok req protocol (calls s') r) s'" if "prepared req protocol s'" for s'
    using createVolumeByProtocol_ok [of "setRequiredBytes b req" protocol s' S] that
    by (auto elim!: wp_mono)
  show ?thesis
    by (rule wp_bindI, rule checkAndAdoptVolume_ok [where protocol = protocol])
      (use assms in \<open>auto simp: wp_return split: option.split
        intro!: wp_bindI wp_encryptionCheck create exI [of _ protocol] intro: creation_failed\<close>)
qed

text \<open>
  C1: the order of effects of \<^verbatim>\<open>CreateVolume\<close> as a whole, for every request and backend: plain
  creation, restores of snapshots, clones of volumes and adoption of orphans. For one protocol, every
  client call is licensed by the calls before it. Properties are written only with an identity that
  names this request and protocol, and only to a subvolume the backend has shown to this request and
  that it may take: its own by identity or legacy proof, one it has just made, the confirmed result of
  its clone, or an orphan of the same protocol whose adoption is allowed. A resize touches only a
  clone made or confirmed by this request. A share, target or subsystem is created at most once, and
  only for a subvolume on which the identity is durable. A subvolume is deleted only if this request
  made it, before any exposure, and right after a read that shows no complete identity. A volume is
  answered only under the identifier of a subvolume that carries the identity.
\<close>

theorem CreateVolume_effects_ordered:
  "case run_state (CreateVolume S req) (s\<lparr>calls := []\<rparr>) of (r, s') \<Rightarrow>
     \<exists>protocol. creation_ok req protocol (calls s') r"
proof (rule run_caseI)
  have start: "only_reads (s\<lparr>calls := []\<rparr>)" by (simp add: only_reads_def)
  have source: "wp (createVolumeFromSnapshot S (setRequiredBytes b req) i)
      (\<lambda>r s'. \<exists>protocol. creation_ok req protocol (calls s') r) (s\<lparr>calls := []\<rparr>)"
    "wp (createVolumeFromVolume S (setRequiredBytes b req) i)
      (\<lambda>r s'. \<exists>protocol. creation_ok req protocol (calls s') r) (s\<lparr>calls := []\<rparr>)" for b i
    using createVolumeFromSnapshot_ok [OF start, of S "setRequiredBytes b req" i]
      createVolumeFromVolume_ok [OF start, of S "setRequiredBytes b req" i] by simp_all
  show "wp (CreateVolume S req) (\<lambda>r s'. \<exists>protocol. creation_ok req protocol (calls s') r) (s\<lparr>calls := []\<rparr>)"
    using failed_reads [OF start, of req] only_reads_prepared [OF start]
    unfolding CreateVolume_def Let_def handleVolumeContentSource_def
    by (auto simp: wp_return wp_return_fun split: option.split sum.split content_source.split
        dest!: normalizeCreateCapacity_Inr
        intro!: wp_bindI [where m = "case_option a b c" for a b c] wp_bindI [where m = "createVolumeFromSnapshot S r i" for r i]
          wp_bindI [where m = "createVolumeFromVolume S r i" for r i] source createVolume_tail_ok)
qed

end
