(* ===== verification/Paging.thy ===== *)
theory Paging
  imports Prelude
begin

text \<open>
  The contract of a paginated listing: a page function over a list, the size limit and a token,
  and what a client relies on when it follows the tokens. It is interpreted on the paginations of
  the listings of snapshots and of volumes.
\<close>

text \<open>A client that follows the tokens; \<^const>\<open>None\<close> if it has not finished within its fuel.\<close>

fun walk :: "nat \<Rightarrow> (string \<Rightarrow> failure + ('a list \<times> string)) \<Rightarrow> string \<Rightarrow> (failure + 'a list) option" where
  "walk 0 page token = None"
| "walk (Suc k) page token =
     (case page token of
        Inl e \<Rightarrow> Some (Inl e)
      | Inr (xs, nextToken) \<Rightarrow>
          if nextToken = [] then Some (Inr xs)
          else case walk k page nextToken of
            None \<Rightarrow> None
          | Some (Inl e) \<Rightarrow> Some (Inl e)
          | Some (Inr ys) \<Rightarrow> Some (Inr (xs @ ys)))"

text \<open>\<open>token_of xs i\<close> is the token of the page that starts at index \<open>i\<close>.\<close>

locale paging =
  fixes page :: "'a list \<Rightarrow> int \<Rightarrow> string \<Rightarrow> failure + ('a list \<times> string)"
    and admissible :: "'a list \<Rightarrow> bool"
    and token_of :: "'a list \<Rightarrow> nat \<Rightarrow> string"
  assumes first_token: "token_of xs 0 = []"
    and later_token: "admissible xs \<Longrightarrow> 0 < i \<Longrightarrow> i < length xs \<Longrightarrow> token_of xs i \<noteq> []"
    and page_at: "admissible xs \<Longrightarrow> 0 < m \<Longrightarrow> i = 0 \<or> i < length xs \<Longrightarrow>
      page xs m (token_of xs i) =
        Inr (take (nat m) (drop i xs), if i + nat m < length xs then token_of xs (i + nat m) else [])"
begin

lemma walk_from:
  assumes "admissible xs" "0 < m" "i = 0 \<or> i < length xs" "length xs - i < k"
  shows "walk k (page xs m) (token_of xs i) = Some (Inr (drop i xs))"
  using assms(3,4)
proof (induction k arbitrary: i)
  case (Suc k)
  show ?case
  proof (cases "i + nat m < length xs")
    case True
    moreover have "walk k (page xs m) (token_of xs (i + nat m)) = Some (Inr (drop (i + nat m) xs))"
      using Suc.prems True assms(2) by (intro Suc.IH) auto
    moreover have "token_of xs (i + nat m) \<noteq> []"
      using later_token [OF assms(1)] True assms(2) by simp
    moreover have "take (nat m) (drop i xs) @ drop (i + nat m) xs = drop i xs"
      by (metis append_take_drop_id drop_drop add.commute)
    ultimately show ?thesis
      using page_at [OF assms(1,2) Suc.prems(1)] by simp
  next
    case False
    then show ?thesis
      using page_at [OF assms(1,2) Suc.prems(1)] by simp
  qed
qed simp

lemma walk_complete:
  assumes "admissible xs" "0 < m" "length xs < k"
  shows "walk k (page xs m) [] = Some (Inr xs)"
  using walk_from [OF assms(1,2), of 0 k] assms(3) by (simp add: first_token)

end

end
