(* ===== verification/Snapshot_Laws.thy ===== *)
theory Snapshot_Laws
  imports Snapshots Paging
begin

text \<open>
  Properties of the snapshot operations: when an identifier can be read back, what creation and
  deletion ask of the backend, and that following the page tokens visits a list once, in order. The
  last is proved in the locale \<open>paging\<close>, which the two paginations of snapshots interpret here and
  the pagination of volumes interprets in its own theory.
\<close>

section \<open>Identifiers\<close>

definition known_protocol :: "string \<Rightarrow> bool" where
  "known_protocol p \<longleftrightarrow> p \<in> {ProtocolNFS, ProtocolNVMeOF, ProtocolISCSI, ProtocolSMB}"

lemma known_protocol_no_colon: "known_protocol p \<Longrightarrow> CHR '':'' \<notin> set p"
  by (auto simp: known_protocol_def ProtocolNFS_def ProtocolNVMeOF_def ProtocolISCSI_def ProtocolSMB_def)

lemma known_protocol_nonempty: "known_protocol p \<Longrightarrow> p \<noteq> []"
  by (auto simp: known_protocol_def ProtocolNFS_def ProtocolNVMeOF_def ProtocolISCSI_def ProtocolSMB_def)

lemma decode_Nil: "decodeSnapshotID [] = Inl ErrInvalidSnapshotIDFormat"
  by (simp add: decodeSnapshotID_def)

lemma decode_encoded:
  assumes "known_protocol p" "v \<noteq> []" "n \<noteq> []" "CHR ''@'' \<notin> set n"
  shows "decodeSnapshotID (p @ '':'' @ v @ ''@'' @ n) =
     Inr \<lparr>sm_SnapshotName = n, sm_SourceVolume = v, sm_Protocol = p\<rparr>"
  using assms str_index_append [OF known_protocol_no_colon [OF assms(1)], of "v @ ''@'' @ n"]
    str_last_index_append [OF assms(4), of v]
  by (simp add: decodeSnapshotID_def Let_def known_protocol_def)

lemma decode_Inr:
  assumes "decodeSnapshotID i = Inr m"
  shows "i = sm_Protocol m @ '':'' @ sm_SourceVolume m @ ''@'' @ sm_SnapshotName m \<and>
     known_protocol (sm_Protocol m) \<and> sm_SourceVolume m \<noteq> [] \<and> sm_SnapshotName m \<noteq> [] \<and>
     CHR ''@'' \<notin> set (sm_SnapshotName m)"
proof -
  from assms obtain c a where
    c: "str_index CHR '':'' i = Some c" and a: "str_last_index CHR ''@'' (drop (c + 1) i) = Some a"
    and m: "m = \<lparr>sm_SnapshotName = drop (a + 1) (drop (c + 1) i), sm_SourceVolume = take a (drop (c + 1) i),
      sm_Protocol = take c i\<rparr>"
    and k: "known_protocol (take c i)" "take a (drop (c + 1) i) \<noteq> []" "drop (a + 1) (drop (c + 1) i) \<noteq> []"
    unfolding decodeSnapshotID_def Let_def known_protocol_def
    by (auto split: option.splits if_splits)
  from str_index_Some [OF c] have i: "i = take c i @ CHR '':'' # drop (c + 1) i" by simp
  from str_last_index_Some [OF a] have r: "drop (c + 1) i = take a (drop (c + 1) i) @ CHR ''@'' # drop (a + 1) (drop (c + 1) i)"
    and at: "CHR ''@'' \<notin> set (drop (a + 1) (drop (c + 1) i))" by simp_all
  from i r have "i = take c i @ '':'' @ take a (drop (c + 1) i) @ ''@'' @ drop (a + 1) (drop (c + 1) i)" by simp
  with m k at show ?thesis by simp
qed

text \<open>
  C23: snapshot identifiers. An identifier that decodes is exactly the encoding of what it decodes
  to, so decoding is injective. An encoded identifier decodes to the snapshot it was made for if
  and only if the protocol is one the driver knows and the snapshot name contains no \<^verbatim>\<open>@\<close>.
\<close>

theorem snapshotID_roundtrip:
  "(case decodeSnapshotID i of Inl _ \<Rightarrow> True | Inr m \<Rightarrow> encodeSnapshotID m = Inr i) \<and>
   (case encodeSnapshotID m of
      Inl _ \<Rightarrow> True
    | Inr j \<Rightarrow> decodeSnapshotID j = Inr m \<longleftrightarrow>
        known_protocol (sm_Protocol m) \<and> CHR ''@'' \<notin> set (sm_SnapshotName m))"
proof
  show "case decodeSnapshotID i of Inl _ \<Rightarrow> True | Inr m \<Rightarrow> encodeSnapshotID m = Inr i"
    using decode_Inr [of i] by (auto simp: encodeSnapshotID_def known_protocol_nonempty split: sum.split)
  show "case encodeSnapshotID m of
      Inl _ \<Rightarrow> True
    | Inr j \<Rightarrow> decodeSnapshotID j = Inr m \<longleftrightarrow>
        known_protocol (sm_Protocol m) \<and> CHR ''@'' \<notin> set (sm_SnapshotName m)"
    using decode_encoded [of "sm_Protocol m" "sm_SourceVolume m" "sm_SnapshotName m"] decode_Inr
    by (auto simp: encodeSnapshotID_def)
qed

text \<open>
  C38: a snapshot name with an \<^verbatim>\<open>@\<close> is accepted when the snapshot is created, and the identifier the
  driver then hands out denotes another snapshot of another volume: the part after the last \<^verbatim>\<open>@\<close>
  is taken for the name and the rest for a part of the volume. Deleting by that identifier asks
  the backend for the other snapshot, and never for the one that was created.
\<close>

theorem snapshot_name_with_at_misdirected:
  assumes "splitSubvolumeID volume = Some (fs, n)" "known_protocol p" "CHR ''@'' \<notin> set tail" "tail \<noteq> []"
  shows "encodeSnapshotID \<lparr>sm_SnapshotName = name @ ''@'' @ tail, sm_SourceVolume = volume, sm_Protocol = p\<rparr> =
       Inr (p @ '':'' @ volume @ ''@'' @ name @ ''@'' @ tail) \<and>
     (case run_state (DeleteSnapshot S (p @ '':'' @ volume @ ''@'' @ name @ ''@'' @ tail)) s of (_, s') \<Rightarrow>
        \<exists>r. calls s' = calls s @ [SnapshotDeleted fs (n @ ''@'' @ name) tail r])"
proof -
  from assms(1) have v: "volume = fs @ ''/'' @ n" "CHR ''/'' \<notin> set fs" "n \<noteq> []"
    by (simp_all add: splitSubvolumeID_Some_iff)
  have d: "decodeSnapshotID (p @ '':'' @ volume @ ''@'' @ name @ ''@'' @ tail) =
      Inr \<lparr>sm_SnapshotName = tail, sm_SourceVolume = volume @ ''@'' @ name, sm_Protocol = p\<rparr>"
    using decode_encoded [of p "volume @ ''@'' @ name" tail] assms by simp
  have sp: "splitSubvolumeID (volume @ ''@'' @ name) = Some (fs, n @ ''@'' @ name)"
    using v by (simp add: splitSubvolumeID_Some_iff)
  from known_protocol_nonempty [OF assms(2)] v(1) show ?thesis
    unfolding DeleteSnapshot_def d
    by (simp add: encodeSnapshotID_def sp [unfolded v(1), simplified] apiDeleteSnapshot_def split: prod.split)
qed

theorem snapshot_name_with_at_misdirected_witness:
  "splitSubvolumeID ''tank/pvc-1'' = Some (''tank'', ''pvc-1'') \<and>
   encodeSnapshotID \<lparr>sm_SnapshotName = ''day@1'', sm_SourceVolume = ''tank/pvc-1'', sm_Protocol = ''nfs''\<rparr> =
       Inr ''nfs:tank/pvc-1@day@1'' \<and>
     (case run_state (DeleteSnapshot mem_svc ''nfs:tank/pvc-1@day@1'') sample_controller of (_, s') \<Rightarrow>
        \<exists>r. calls s' = calls sample_controller @ [SnapshotDeleted ''tank'' ''pvc-1@day'' ''1'' r])"
proof -
  have h: "splitSubvolumeID ''tank/pvc-1'' = Some (''tank'', ''pvc-1'')" "known_protocol ''nfs''"
    by code_simp+
  show ?thesis
    using snapshot_name_with_at_misdirected [OF h, where tail = "''1''" and name = "''day''" and S = mem_svc and s = sample_controller] h(1)
    by simp
qed

section \<open>Creation and deletion\<close>

lemma snapshotResponse_Inr:
  "snapshotResponse S m ps t = Inr snap \<Longrightarrow>
     cs_SnapshotId snap = sm_Protocol m @ '':'' @ sm_SourceVolume m @ ''@'' @ sm_SnapshotName m \<and>
     cs_SourceVolumeId snap = sm_SourceVolume m \<and> cs_CreationTime snap > 0"
  by (auto simp: snapshotResponse_def encodeSnapshotID_def csiSnapshotCreationTime_def
      split: sum.splits option.splits if_splits)


text \<open>What one creation may do and answer, given the subvolume it reads.\<close>

definition snapshot_run :: "string \<Rightarrow> string \<Rightarrow> event list \<Rightarrow> failure + csi_snapshot \<Rightarrow> bool" where
  "snapshot_run name volume tr r \<longleftrightarrow>
     (tr = [] \<or>
      (\<exists>fs n g. splitSubvolumeID volume = Some (fs, n) \<and>
         (tr = [Got fs n g] \<or>
          (\<exists>sv c. g = Inr (Some sv) \<and> name \<notin> set (sv_Snapshots sv) \<and>
             tr = [Got fs n g, SnapshotCreated fs n name c])))) \<and>
     (case r of
        Inl _ \<Rightarrow> True
      | Inr snap \<Rightarrow>
          \<exists>fs n sv. splitSubvolumeID volume = Some (fs, n) \<and> name \<noteq> [] \<and>
            cs_SnapshotId snap = propertyProtocolOrNFS (sv_Properties sv) @ '':'' @ volume @ ''@'' @ name \<and>
            cs_SourceVolumeId snap = volume \<and> cs_CreationTime snap > 0 \<and>
            (if name \<in> set (sv_Snapshots sv) then tr = [Got fs n (Inr (Some sv))]
             else \<exists>b. tr = [Got fs n (Inr (Some sv)), SnapshotCreated fs n name (Inr (Some b))]))"

lemma snapshot_run_cases:
  "snapshot_run name volume [] (Inl e)"
  "splitSubvolumeID volume = Some (fs, n) \<Longrightarrow> snapshot_run name volume [Got fs n g] (Inl e)"
  "splitSubvolumeID volume = Some (fs, n) \<Longrightarrow> name \<notin> set (sv_Snapshots sv) \<Longrightarrow>
     snapshot_run name volume [Got fs n (Inr (Some sv)), SnapshotCreated fs n name c] (Inl e)"
  by (auto simp: snapshot_run_def)

lemma snapshot_run_response:
  assumes "splitSubvolumeID volume = Some (fs, n)" "name \<noteq> []"
    and "tr = (if name \<in> set (sv_Snapshots sv) then [Got fs n (Inr (Some sv))]
      else [Got fs n (Inr (Some sv)), SnapshotCreated fs n name (Inr (Some b))])"
  shows "snapshot_run name volume tr (snapshotResponse S \<lparr>sm_SnapshotName = name, sm_SourceVolume = volume,
     sm_Protocol = propertyProtocolOrNFS (sv_Properties sv)\<rparr> (sv_Properties sv) t)"
    (is "snapshot_run name volume tr ?r")
proof (cases ?r)
  case (Inl e)
  with assms show ?thesis unfolding Inl by (auto simp: snapshot_run_cases)
next
  case (Inr snap)
  from snapshotResponse_Inr [OF Inr] assms show ?thesis
    unfolding Inr by (fastforce simp: snapshot_run_def split: if_splits)
qed

lemma snapshot_run_responses:
  assumes "splitSubvolumeID volume = Some (fs, n)" "name \<noteq> []"
  defines "answer \<equiv> \<lambda>S sv. snapshotResponse S \<lparr>sm_SnapshotName = name, sm_SourceVolume = volume,
     sm_Protocol = propertyProtocolOrNFS (sv_Properties sv)\<rparr> (sv_Properties sv)"
  shows "name \<in> set (sv_Snapshots sv) \<Longrightarrow> snapshot_run name volume [Got fs n (Inr (Some sv))] (answer S sv t)"
    and "name \<notin> set (sv_Snapshots sv) \<Longrightarrow>
      snapshot_run name volume [Got fs n (Inr (Some sv)), SnapshotCreated fs n name (Inr (Some b))] (answer S sv t)"
  unfolding answer_def using assms(1,2) by (auto intro: snapshot_run_response)

text \<open>
  C24: what creating a snapshot asks of the backend. The handler makes at most one request to create
  a snapshot, always of the volume and the name it was asked for, right after a read of the volume
  that shows no snapshot of that name. A snapshot in the answer carries the name, the volume and the
  stored protocol in its identifier and a positive creation time, and it was either in that read or
  has just been created.
\<close>

theorem CreateSnapshot_correct:
  "case run_state (CreateSnapshot S name volume) s of (r, s') \<Rightarrow>
     \<exists>tr. calls s' = calls s @ tr \<and> snapshot_run name volume tr r"
  unfolding CreateSnapshot_def GetSubvolume_def apiCreateSnapshot_def snapshotCreationTimes_def
  by (rule run_caseI)
    (auto simp: wp_rules Let_def snapshot_run_cases snapshot_run_responses split: sum.split option.split
      intro!: wp_callI)

text \<open>
  Deletion by identifier. The only call is at most one request to delete, and it is made exactly
  when the identifier decodes to a snapshot of a well-formed volume, for that very snapshot. It
  succeeds when the backend does, when the snapshot is not found, and without any call for an
  identifier that denotes no snapshot.
\<close>

theorem DeleteSnapshot_correct:
  "case run_state (DeleteSnapshot S i) s of (r, s') \<Rightarrow>
     (case (case decodeSnapshotID i of
              Inl _ \<Rightarrow> None
            | Inr m \<Rightarrow> map_option (\<lambda>(fs, n). (fs, n, sm_SnapshotName m)) (splitSubvolumeID (sm_SourceVolume m))) of
        None \<Rightarrow> r = (if i = [] then Some (Status InvalidArgument) else None) \<and> calls s' = calls s
      | Some (fs, n, x) \<Rightarrow>
          \<exists>answer. calls s' = calls s @ [SnapshotDeleted fs n x answer] \<and>
            r = (case answer of
                   None \<Rightarrow> None
                 | Some err \<Rightarrow> if isNotFoundError err then None else Some (Status Internal)))"
proof (rule run_caseI, cases "decodeSnapshotID i")
  case (Inr m)
  then have "i \<noteq> []" by (auto simp: decode_Nil)
  with Inr show "wp (DeleteSnapshot S i) (\<lambda>r s'. case (case decodeSnapshotID i of
              Inl _ \<Rightarrow> None
            | Inr m \<Rightarrow> map_option (\<lambda>(fs, n). (fs, n, sm_SnapshotName m)) (splitSubvolumeID (sm_SourceVolume m))) of
        None \<Rightarrow> r = (if i = [] then Some (Status InvalidArgument) else None) \<and> calls s' = calls s
      | Some (fs, n, x) \<Rightarrow>
          \<exists>answer. calls s' = calls s @ [SnapshotDeleted fs n x answer] \<and>
            r = (case answer of
                   None \<Rightarrow> None
                 | Some err \<Rightarrow> if isNotFoundError err then None else Some (Status Internal))) s"
    by (cases "splitSubvolumeID (sm_SourceVolume m)")
      (auto simp: DeleteSnapshot_def apiDeleteSnapshot_def wp_bind wp_return intro!: wp_callI)
qed (simp add: DeleteSnapshot_def wp_return)

section \<open>Pagination\<close>

definition countable_list :: "'a list \<Rightarrow> bool" where
  "countable_list xs \<longleftrightarrow> length xs < 2 ^ 63"

definition offset_token :: "'a list \<Rightarrow> nat \<Rightarrow> string" where
  "offset_token xs i = (if i = 0 then [] else encodeSnapshotToken (int i))"

lemma encodeSnapshotToken_nonempty: "encodeSnapshotToken i \<noteq> []"
  by (simp add: encodeSnapshotToken_def format_int_def format_nat_nonempty)

lemma parse_offset_token:
  "i < 2 ^ 63 \<Longrightarrow> parseSnapshotToken (encodeSnapshotToken (int i)) = Some (int i)"
  by (simp add: parseSnapshotToken_def encodeSnapshotToken_def atoi_format int64_def)

lemma slice_take: "slice xs (int i) (int j) = take (j - i) (drop i xs)"
  by (simp add: slice_def nat_diff_distrib')

lemma pageOfSource_at:
  assumes "countable_list xs" "0 < m" "i = 0 \<or> i < length xs"
  shows "pageOfSource xs m (offset_token xs i) =
     Inr (take (nat m) (drop i xs), if i + nat m < length xs then offset_token xs (i + nat m) else [])"
proof -
  obtain k where k: "m = int k" "0 < k" using assms(2) by (metis zero_less_imp_eq_int)
  show ?thesis
    using assms(1,3) k(2) unfolding k(1) pageOfSource_def countable_list_def
    by (auto simp: offset_token_def encodeSnapshotToken_nonempty parse_offset_token Let_def
        slice_take [of xs 0, simplified] slice_take [of xs i] not_less
        simp flip: of_nat_add of_nat_less_iff split: if_splits)
qed

lemma pageOfAll_at:
  assumes "countable_list xs" "0 < m" "i = 0 \<or> i < length xs"
  shows "pageOfAll xs m (offset_token xs i) =
     Inr (take (nat m) (drop i xs), if i + nat m < length xs then offset_token xs (i + nat m) else [])"
proof -
  obtain k where k: "m = int k" "0 < k" using assms(2) by (metis zero_less_imp_eq_int)
  show ?thesis
    using assms(1,3) k(2) unfolding k(1) pageOfAll_def countable_list_def
    by (auto simp: offset_token_def encodeSnapshotToken_nonempty parse_offset_token Let_def
        slice_take [of xs 0, simplified] slice_take [of xs i] not_less
        simp flip: of_nat_add of_nat_less_iff split: if_splits)
qed

lemma offset_tokens: "offset_token xs 0 = []" "0 < i \<Longrightarrow> (offset_token xs i = []) = False"
  by (simp_all add: offset_token_def encodeSnapshotToken_nonempty)

interpretation source_pages: paging pageOfSource countable_list offset_token
  by unfold_locales (simp_all only: offset_tokens pageOfSource_at not_False_eq_True)

interpretation all_pages: paging pageOfAll countable_list offset_token
  by unfold_locales (simp_all only: offset_tokens pageOfAll_at not_False_eq_True)

text \<open>
  C25: pagination of snapshots is complete. With any positive page size, a client that starts without
  a token and follows the tokens it is given receives every element of the list exactly once and in
  order, in both listings, and stops after at most one page per element.
\<close>

theorem snapshot_pages_complete:
  assumes "int (length xs) < 2 ^ 63" "0 < m" "length xs < k"
  shows "walk k (pageOfSource xs m) [] = Some (Inr xs) \<and> walk k (pageOfAll xs m) [] = Some (Inr xs)"
  using assms source_pages.walk_complete [of xs m k] all_pages.walk_complete [of xs m k]
  by (simp_all add: countable_list_def)

theorem snapshot_pages_complete_witness:
  "walk 4 (pageOfSource [''a'', ''b'', ''c''] 2) [] = Some (Inr [''a'', ''b'', ''c'']) \<and>
   walk 4 (pageOfAll [''a'', ''b'', ''c''] 2) [] = Some (Inr [''a'', ''b'', ''c''])"
  using snapshot_pages_complete [of "[''a'', ''b'', ''c'']" 2 4] by simp

section \<open>Listing\<close>

text \<open>An entry names its volume in its identifier, is ready and has a creation time.\<close>

definition good_entry :: "csi_snapshot \<Rightarrow> bool" where
  "good_entry e \<longleftrightarrow> cs_ReadyToUse e \<and> 0 < cs_CreationTime e \<and>
     (\<exists>p n. cs_SnapshotId e = p @ '':'' @ cs_SourceVolumeId e @ ''@'' @ n \<and> p \<noteq> [] \<and> n \<noteq> [])"

lemma propertyProtocolOrNFS_nonempty: "propertyProtocolOrNFS ps \<noteq> []"
  by (simp add: propertyProtocolOrNFS_def)

lemma good_entryI:
  "p \<noteq> [] \<Longrightarrow> n \<noteq> [] \<Longrightarrow> 0 < t \<Longrightarrow> good_entry \<lparr>cs_SnapshotId = p @ CHR '':'' # v @ CHR ''@'' # n,
     cs_SourceVolumeId = v, cs_CreationTime = t, cs_ReadyToUse = True, cs_SizeBytes = z\<rparr>"
  by (auto simp: good_entry_def)

lemma snapshotEntries_ids:
  assumes "snapshotEntries S ps src sub created names = Inr es" "src \<noteq> []"
  shows "map cs_SnapshotId es =
       map (\<lambda>n. propertyProtocolOrNFS ps @ '':'' @ src @ ''@'' @ n) (filter (\<lambda>n. n \<noteq> []) names) \<and>
     list_all good_entry es"
  using assms
proof (induction names arbitrary: es)
  case (Cons n names)
  then show ?case
    by (auto simp: encodeSnapshotID_def propertyProtocolOrNFS_nonempty good_entryI
        csiSnapshotCreationTime_def split: sum.splits option.splits if_splits)
qed simp

lemma prefix_le [simp]: "p @ a \<le> p @ b \<longleftrightarrow> a \<le> (b :: string)"
  by (induction p) auto

lemma snapshotEntries_page:
  assumes "snapshotEntries S ps src sub created names = Inr es" "src \<noteq> []" "sorted names"
  shows "sorted (map cs_SnapshotId es)" "list_all good_entry es" "length es \<le> length names"
proof -
  note ids = snapshotEntries_ids [OF assms(1,2)]
  have "sorted (filter (\<lambda>n. n \<noteq> []) names)" using assms(3) by (rule sorted_wrt_filter)
  then show "sorted (map cs_SnapshotId es)"
    using ids by (auto simp: sorted_wrt_map elim!: sorted_wrt_mono_rel [rotated])
  show "list_all good_entry es" using ids by simp
  show "length es \<le> length names" using ids by (metis length_filter_le length_map)
qed

definition bounded :: "int \<Rightarrow> 'a list \<Rightarrow> bool" where
  "bounded m xs \<longleftrightarrow> (if 0 < m then int (length xs) \<le> m else True)"

lemma slice_part: "\<exists>i j. slice xs a b = take i (drop j xs)" "\<exists>i j. [] = take i (drop j xs)"
  by (auto simp: slice_def intro: exI [of _ "length xs"])

lemma slice_bounded: "b - a \<le> m \<Longrightarrow> bounded m (slice xs a b)"
  by (auto simp: bounded_def slice_def min_def)

lemma pages_bounded:
  "pageOfSource xs m tok = Inr (ys, next) \<Longrightarrow> bounded m ys \<and> (\<exists>i j. ys = take i (drop j xs))"
  "pageOfAll xs m tok = Inr (ys, next) \<Longrightarrow> bounded m ys \<and> (\<exists>i j. ys = take i (drop j xs))"
proof -
  have nil: "bounded m []" "m \<le> 0 \<Longrightarrow> bounded m zs" for zs by (simp_all add: bounded_def)
  show "pageOfSource xs m tok = Inr (ys, next) \<Longrightarrow> bounded m ys \<and> (\<exists>i j. ys = take i (drop j xs))"
    by (auto simp: pageOfSource_def slice_part nil Let_def split: if_splits option.splits intro!: slice_bounded)
  show "pageOfAll xs m tok = Inr (ys, next) \<Longrightarrow> bounded m ys \<and> (\<exists>i j. ys = take i (drop j xs))"
    by (cases "0 < m") (auto simp: pageOfAll_def slice_part nil Let_def not_less
        split: if_splits option.splits intro!: slice_bounded)
qed

definition listed :: "int \<Rightarrow> failure + snapshot_page \<Rightarrow> bool" where
  "listed m r = (case r of
     Inl _ \<Rightarrow> True
   | Inr (es, _) \<Rightarrow> bounded m es \<and> sorted (map cs_SnapshotId es) \<and> list_all good_entry es)"

lemma listed_simps [simp]: "listed m (Inl e)" "listed m (Inr ([], t))"
  by (simp_all add: listed_def bounded_def)

lemma listed_source_page:
  assumes "pageOfSource (sort names) m tok = Inr (page, next)"
    and "snapshotEntries S ps src sub created page = Inr es" "src \<noteq> []"
  shows "listed m (Inr (es, t))"
proof -
  from pages_bounded(1) [OF assms(1)] have b: "bounded m page" and s: "sorted page"
    by (auto simp: sorted_wrt_take sorted_wrt_drop)
  from snapshotEntries_page [OF assms(2,3) s] b show ?thesis
    by (auto simp: listed_def bounded_def split: if_splits)
qed

lemma listed_all_page:
  assumes "list_all good_entry es"
  shows "listed m (pageOfAll (sort_key cs_SnapshotId es) m tok)"
proof (cases "pageOfAll (sort_key cs_SnapshotId es) m tok")
  case (Inr p)
  obtain page t where p: "p = (page, t)" by fastforce
  from pages_bounded(2) [OF Inr [unfolded p]] obtain i j where b: "bounded m page"
    and page: "page = take i (drop j (sort_key cs_SnapshotId es))" by auto
  have "set page \<subseteq> set es" unfolding page by (metis set_take_subset set_drop_subset set_sort subset_trans)
  moreover have "sorted (map cs_SnapshotId page)"
    unfolding page take_map [symmetric] drop_map [symmetric] by (simp add: sorted_wrt_take sorted_wrt_drop)
  ultimately show ?thesis
    using assms b unfolding Inr p by (auto simp: listed_def list_all_iff)
qed simp

lemma wp_snapshotCreationTimes:
  "(\<And>r w. Q r (s\<lparr>world := w\<rparr>)) \<Longrightarrow> wp (snapshotCreationTimes S fs) Q s"
  unfolding snapshotCreationTimes_def wp_bind by (rule wp_callI) (simp add: wp_return)

lemma wp_collectSnapshots:
  assumes "list_all good_entry acc"
    and "\<And>r w. (\<And>es. r = Inr es \<Longrightarrow> list_all good_entry es) \<Longrightarrow> Q r (s\<lparr>world := w\<rparr>)"
  shows "wp (collectSnapshots S svs cache acc) Q s"
  using assms
proof (induction S svs cache acc arbitrary: Q s rule: collectSnapshots.induct)
  case (1 S cache acc)
  from 1(2) [of "Inr acc" "world s"] 1(1) show ?case by (simp add: wp_return)
next
  case (2 S sv svs cache acc)
  have step: "wp (case snapshotEntries S (sv_Properties sv) (subvolumeID sv) (sv_Name sv) created (sv_Snapshots sv) of
        Inl e \<Rightarrow> ret (Inl e)
      | Inr es \<Rightarrow> collectSnapshots S svs (fmupd (sv_Filesystem sv) created cache) (acc @ es)) Q (s\<lparr>world := w\<rparr>)"
    for created w
    using snapshotEntries_ids [of S "sv_Properties sv" "subvolumeID sv" "sv_Name sv" created "sv_Snapshots sv"] 2
    by (auto simp: wp_return subvolumeID_def split: sum.split intro!: 2(1))
  have err: "Q (Inl e) (s\<lparr>world := w\<rparr>)" for e w by (rule 2(3)) simp
  have next_step: "wp (case r of Inl _ \<Rightarrow> ret (Inl (Status Internal))
      | Inr created \<Rightarrow> (case snapshotEntries S (sv_Properties sv) (subvolumeID sv) (sv_Name sv) created (sv_Snapshots sv) of
        Inl e \<Rightarrow> ret (Inl e)
      | Inr es \<Rightarrow> collectSnapshots S svs (fmupd (sv_Filesystem sv) created cache) (acc @ es))) Q (s\<lparr>world := w\<rparr>)"
    for r :: "go_error + (string, int option) fmap" and w
    using step err by (cases r) (simp_all add: wp_return)
  show ?case
    using next_step [of "Inr _" "world s"]
    by (cases "fmlookup cache (sv_Filesystem sv)")
      (auto simp: wp_bind wp_return intro!: wp_snapshotCreationTimes next_step)
qed

abbreviation listing_ok :: "list_request \<Rightarrow> 'w controller \<Rightarrow> failure + snapshot_page \<Rightarrow> 'w controller \<Rightarrow> bool" where
  "listing_ok req s r s' \<equiv> listed (lr_MaxEntries req) r \<and>
     (calls s' = calls s \<or> (\<exists>fs n g. calls s' = calls s @ [Got fs n g]))"

lemma listed_entry:
  assumes "decodeSnapshotID i = Inr m" "csiSnapshotCreationTime c = Inr t" "0 \<le> k"
  shows "listed k (Inr ([\<lparr>cs_SnapshotId = i, cs_SourceVolumeId = sm_SourceVolume m, cs_CreationTime = t,
     cs_ReadyToUse = True, cs_SizeBytes = z\<rparr>], u))"
proof -
  from assms(2) have "0 < t" by (auto simp: csiSnapshotCreationTime_def split: option.splits if_splits)
  with decode_Inr [OF assms(1)] assms(3) known_protocol_nonempty show ?thesis
    by (auto simp: listed_def bounded_def intro: good_entryI)
qed

lemma listSnapshotByID_ok:
  assumes "0 \<le> lr_MaxEntries req"
  shows "wp (listSnapshotByID S req) (listing_ok req s) s"
  unfolding listSnapshotByID_def GetSubvolume_def using assms
  by (auto simp: wp_rules Let_def listed_entry split: sum.split option.split
      intro!: wp_callI [where f = "api_GetSubvolume S x y" for x y] wp_snapshotCreationTimes)

lemma listSnapshotsBySourceVolume_ok:
  assumes "lr_SourceVolumeId req \<noteq> []"
  shows "wp (listSnapshotsBySourceVolume S req) (listing_ok req s) s"
  unfolding listSnapshotsBySourceVolume_def GetSubvolume_def using assms
  by (auto simp: wp_rules Let_def listed_source_page split: sum.split option.split
      intro!: wp_callI [where f = "api_GetSubvolume S x y" for x y] wp_snapshotCreationTimes)

lemma listAllSnapshots_ok: "wp (listAllSnapshots S req) (listing_ok req s) s"
  unfolding listAllSnapshots_def
  by (auto simp: wp_bind wp_return wp_case_sum listed_all_page split: sum.split
      intro!: wp_callI wp_collectSnapshots)

text \<open>
  Listing snapshots. No listing changes anything: the only recorded call is at most one read of
  a subvolume. A page never exceeds the requested size, its entries are in order of their
  identifiers, and each is ready to use, has a positive creation time and an identifier that spells
  out a protocol, the entry's own source volume and a snapshot name.
\<close>

theorem ListSnapshots_correct:
  "case run_state (ListSnapshots S req) s of (r, s') \<Rightarrow>
     listed (lr_MaxEntries req) r \<and>
     (calls s' = calls s \<or> (\<exists>fs n g. calls s' = calls s @ [Got fs n g]))"
  by (rule run_caseI)
    (auto simp: ListSnapshots_def wp_rules not_less listSnapshotByID_ok listSnapshotsBySourceVolume_ok
      listAllSnapshots_ok)

end
