(* ===== verification/Publication.thy ===== *)
theory Publication
  imports Controller_Base Memory_Backend
begin

text \<open>
  Publication of volumes to nodes: the node registry (\<^verbatim>\<open>src/pkg/driver/node_registry.go\<close>) and the
  handlers \<^verbatim>\<open>ControllerPublishVolume\<close> and \<^verbatim>\<open>ControllerUnpublishVolume\<close> of \<^verbatim>\<open>controller.go\<close> on the table of
  published volumes, as a state machine, with the table of (volume, node) pairs it stands for as its
  specification.
\<close>

section \<open>The node registry\<close>

text \<open>The times of registration are opaque.\<close>

record NodeRegistry =
  nodes :: "(string, string) fmap"

definition NewNodeRegistry :: NodeRegistry where
  "NewNodeRegistry = \<lparr>nodes = fmempty\<rparr>"

definition Register :: "string \<Rightarrow> string \<Rightarrow> NodeRegistry \<Rightarrow> NodeRegistry" where
  "Register nodeID now r = r\<lparr>nodes := fmupd nodeID now (nodes r)\<rparr>"

definition IsRegistered :: "NodeRegistry \<Rightarrow> string \<Rightarrow> bool" where
  "IsRegistered r nodeID = (fmlookup (nodes r) nodeID \<noteq> None)"

definition Unregister :: "string \<Rightarrow> NodeRegistry \<Rightarrow> NodeRegistry" where
  "Unregister nodeID r = r\<lparr>nodes := fmdrop nodeID (nodes r)\<rparr>"

definition Count :: "NodeRegistry \<Rightarrow> nat" where
  "Count r = fcard (fmdom (nodes r))"

section \<open>The handlers\<close>

record publish_request =
  pr_VolumeId :: string
  pr_NodeId :: string
  pr_Readonly :: bool
  pr_VolumeCapability :: "capability option"

definition isKnownVolume :: "string \<Rightarrow> bool" where
  "isKnownVolume volumeID = str_contains volumeID ''/''"

definition publishKey :: "string \<Rightarrow> string \<Rightarrow> string" where
  "publishKey volumeID nodeID = volumeID @ '':'' @ nodeID"

definition setPublished :: "((string, bool) fmap \<Rightarrow> (string, bool) fmap) \<Rightarrow> ('w, unit) op" where
  "setPublished f = State (\<lambda>s. ((), s\<lparr>publishedVolumes := f (publishedVolumes s)\<rparr>))"

definition getPublished :: "('w, (string, bool) fmap) op" where
  "getPublished = State (\<lambda>s. (publishedVolumes s, s))"

definition ControllerPublishVolume ::
  "NodeRegistry option \<Rightarrow> publish_request \<Rightarrow> ('w, failure option) op" where
  "ControllerPublishVolume nodeRegistry req =
     (let volumeID = pr_VolumeId req; nodeID = pr_NodeId req; readonly = pr_Readonly req
      in if volumeID = [] then ret (Some (Status InvalidArgument))
         else if nodeID = [] then ret (Some (Status InvalidArgument))
         else if pr_VolumeCapability req = None then ret (Some (Status InvalidArgument))
         else if \<not> isKnownVolume volumeID then ret (Some (Status NotFound))
         else if (case nodeRegistry of None \<Rightarrow> False | Some r \<Rightarrow> Count r > 0 \<and> \<not> IsRegistered r nodeID)
         then ret (Some (Status NotFound))
         else do {
           published \<leftarrow> getPublished;
           case fmlookup published (publishKey volumeID nodeID) of
             Some existingReadonly \<Rightarrow>
               if existingReadonly \<noteq> readonly then ret (Some (Status AlreadyExists)) else ret None
           | None \<Rightarrow> do {
               setPublished (fmupd (publishKey volumeID nodeID) readonly);
               ret None
             }
         })"

definition ControllerUnpublishVolume :: "string \<Rightarrow> string \<Rightarrow> ('w, failure option) op" where
  "ControllerUnpublishVolume volumeID nodeID =
     (if volumeID = [] then ret (Some (Status InvalidArgument))
      else do {
        setPublished (if nodeID \<noteq> [] then fmdrop (publishKey volumeID nodeID)
          else fmfilter (\<lambda>key. \<not> prefix (volumeID @ '':'') key));
        ret None
      })"

section \<open>The machine\<close>

datatype pub_event =
    Publish publish_request | Unpublish string string
  | RegisterNode string string | UnregisterNode string

type_synonym 'w pub_state = "NodeRegistry option \<times> 'w controller"

inductive pub_step :: "'w pub_state \<Rightarrow> pub_event \<Rightarrow> failure option \<Rightarrow> 'w pub_state \<Rightarrow> bool" where
  publish: "run_state (ControllerPublishVolume reg req) s = (r, s') \<Longrightarrow>
     pub_step (reg, s) (Publish req) r (reg, s')"
| unpublish: "run_state (ControllerUnpublishVolume v n) s = (r, s') \<Longrightarrow>
     pub_step (reg, s) (Unpublish v n) r (reg, s')"
| register: "pub_step (Some reg, s) (RegisterNode n now) None (Some (Register n now reg), s)"
| unregister: "pub_step (Some reg, s) (UnregisterNode n) None (Some (Unregister n reg), s)"

inductive_cases publishE: "pub_step st (Publish req) r st'"
inductive_cases unpublishE: "pub_step st (Unpublish v n) r st'"
inductive_cases registerE: "pub_step st (RegisterNode n now) r st'"
inductive_cases unregisterE: "pub_step st (UnregisterNode n) r st'"

text \<open>Sequences of steps with their answers, from a controller that has just started.\<close>

inductive pub_run :: "'w pub_state \<Rightarrow> (pub_event \<times> failure option) list \<Rightarrow> 'w pub_state \<Rightarrow> bool" where
  start: "pub_run st [] st"
| more: "pub_run st tr st' \<Longrightarrow> pub_step st' e r st'' \<Longrightarrow> pub_run st (tr @ [(e, r)]) st''"

definition fresh_controller :: "'w \<Rightarrow> 'w controller" where
  "fresh_controller w = \<lparr>world = w, calls = [], publishedVolumes = fmempty, volumeCapacity = fmempty\<rparr>"

section \<open>The specification\<close>

text \<open>What a client expects: a table from (volume, node) pairs to the read-only flag.\<close>

type_synonym pub_table = "string \<times> string \<rightharpoonup> bool"

definition spec_publish :: "NodeRegistry option \<Rightarrow> publish_request \<Rightarrow> pub_table \<Rightarrow> failure option \<times> pub_table" where
  "spec_publish reg req t =
     (let p = (pr_VolumeId req, pr_NodeId req)
      in if pr_VolumeId req = [] \<or> pr_NodeId req = [] \<or> pr_VolumeCapability req = None
         then (Some (Status InvalidArgument), t)
         else if CHR ''/'' \<notin> set (pr_VolumeId req) then (Some (Status NotFound), t)
         else if (case reg of None \<Rightarrow> False | Some r \<Rightarrow> nodes r \<noteq> fmempty \<and> pr_NodeId req |\<notin>| fmdom (nodes r))
         then (Some (Status NotFound), t)
         else if t p = Some (\<not> pr_Readonly req) then (Some (Status AlreadyExists), t)
         else (None, t(p \<mapsto> pr_Readonly req)))"

definition spec_unpublish :: "string \<Rightarrow> string \<Rightarrow> pub_table \<Rightarrow> failure option \<times> pub_table" where
  "spec_unpublish v n t =
     (if v = [] then (Some (Status InvalidArgument), t)
      else (None, \<lambda>(v', n'). if v' = v \<and> (n = [] \<or> n' = n) then None else t (v', n')))"

fun spec_step :: "NodeRegistry option \<Rightarrow> pub_event \<Rightarrow> pub_table \<Rightarrow> failure option \<times> pub_table" where
  "spec_step reg (Publish req) t = spec_publish reg req t"
| "spec_step reg (Unpublish v n) t = spec_unpublish v n t"
| "spec_step reg _ t = (None, t)"

text \<open>Identifiers that the \<^verbatim>\<open>volume:node\<close> keys keep apart.\<close>

definition plain :: "string \<Rightarrow> bool" where
  "plain s \<longleftrightarrow> CHR '':'' \<notin> set s"

fun plain_event :: "pub_event \<Rightarrow> bool" where
  "plain_event (Publish req) = (plain (pr_VolumeId req) \<and> plain (pr_NodeId req))"
| "plain_event (Unpublish v n) = (plain v \<and> plain n)"
| "plain_event _ = True"

text \<open>The concrete table stands for a table of pairs.\<close>

definition represents :: "(string, bool) fmap \<Rightarrow> pub_table \<Rightarrow> bool" where
  "represents m t \<longleftrightarrow>
     (\<forall>v n. plain v \<and> plain n \<longrightarrow> fmlookup m (publishKey v n) = t (v, n)) \<and>
     (\<forall>k ro. fmlookup m k = Some ro \<longrightarrow> (\<exists>v n. k = publishKey v n \<and> plain v \<and> plain n)) \<and>
     (\<forall>v n ro. t (v, n) = Some ro \<longrightarrow> plain v \<and> plain n)"

fun registry_step :: "pub_event \<Rightarrow> NodeRegistry option \<Rightarrow> NodeRegistry option" where
  "registry_step (RegisterNode n now) reg = map_option (Register n now) reg"
| "registry_step (UnregisterNode n) reg = map_option (Unregister n) reg"
| "registry_step _ reg = reg"

inductive spec_run ::
  "NodeRegistry option \<times> pub_table \<Rightarrow> (pub_event \<times> failure option) list \<Rightarrow> NodeRegistry option \<times> pub_table \<Rightarrow> bool"
where
  start: "spec_run st [] st"
| more: "spec_run st tr (reg, t) \<Longrightarrow> spec_step reg e t = (r, t') \<Longrightarrow>
     spec_run st (tr @ [(e, r)]) (registry_step e reg, t')"

section \<open>Refinement\<close>

lemma publishKey_inject:
  "plain v \<Longrightarrow> plain v' \<Longrightarrow> publishKey v n = publishKey v' n' \<longleftrightarrow> v = v' \<and> n = n'"
proof -
  assume "plain v" "plain v'"
  then have "str_index CHR '':'' (publishKey v n) = Some (length v)"
    "str_index CHR '':'' (publishKey v' n') = Some (length v')"
    by (simp_all add: plain_def publishKey_def str_index_append)
  then show ?thesis by (auto simp: publishKey_def)
qed

lemma prefix_publishKey:
  assumes "plain v" "plain v'"
  shows "prefix (v @ '':'') (publishKey v' n') \<longleftrightarrow> v = v'"
proof
  assume "prefix (v @ '':'') (publishKey v' n')"
  then obtain x where "publishKey v' n' = publishKey v x" by (auto simp: prefix_def publishKey_def)
  with assms show "v = v'" by (simp add: publishKey_inject)
qed (auto simp: publishKey_def)

lemma representsD:
  "represents m t \<Longrightarrow> plain v \<Longrightarrow> plain n \<Longrightarrow> fmlookup m (publishKey v n) = t (v, n)"
  by (simp add: represents_def)

lemma represents_upd:
  assumes "represents m t" "plain v" "plain n"
  shows "represents (fmupd (publishKey v n) ro m) (t((v, n) \<mapsto> ro))"
  using assms by (auto simp: represents_def publishKey_inject split: if_splits)

lemma represents_drop:
  assumes "represents m t" "plain v" "plain n"
  shows "represents (fmdrop (publishKey v n) m) (\<lambda>(v', n'). if v' = v \<and> n' = n then None else t (v', n'))"
  using assms by (auto simp: represents_def publishKey_inject split: if_splits)

lemma represents_drop_all:
  assumes "represents m t" "plain v"
  shows "represents (fmfilter (\<lambda>key. \<not> prefix (v @ '':'') key) m) (\<lambda>(v', n'). if v' = v then None else t (v', n'))"
  using assms prefix_publishKey [OF assms(2)] by (auto simp: represents_def split: if_splits)

lemma represents_empty: "represents fmempty (\<lambda>_. None)"
  by (simp add: represents_def)

lemma Count_positive: "Count r > 0 \<longleftrightarrow> nodes r \<noteq> fmempty"
proof -
  have "fmdom m = {||} \<longleftrightarrow> m = fmempty" for m :: "(string, string) fmap"
    by (auto intro!: fmap_ext fmdom_notD)
  then show ?thesis by (simp add: Count_def flip: neq0_conv)
qed

lemma isKnownVolume_iff: "isKnownVolume v \<longleftrightarrow> CHR ''/'' \<in> set v"
proof -
  have "sublist [c] s \<longleftrightarrow> c \<in> set s" for c :: char and s by (induction s) (auto simp: sublist_Cons_right)
  then show ?thesis by (simp add: isKnownVolume_def str_contains_def)
qed

lemma run_Publish:
  "run_state (ControllerPublishVolume reg req) s = (r, s') \<Longrightarrow> represents (publishedVolumes s) t \<Longrightarrow>
     plain (pr_VolumeId req) \<Longrightarrow> plain (pr_NodeId req) \<Longrightarrow>
     \<exists>t'. spec_publish reg req t = (r, t') \<and> represents (publishedVolumes s') t'"
  unfolding ControllerPublishVolume_def spec_publish_def Let_def IsRegistered_def
  by (auto simp: Count_positive isKnownVolume_iff getPublished_def setPublished_def representsD represents_upd
      fmlookup_dom_iff fmdom_notI map_upd_triv split: if_splits option.splits)

lemma run_Unpublish:
  "run_state (ControllerUnpublishVolume v n) s = (r, s') \<Longrightarrow> represents (publishedVolumes s) t \<Longrightarrow>
     plain v \<Longrightarrow> plain n \<Longrightarrow>
     \<exists>t'. spec_unpublish v n t = (r, t') \<and> represents (publishedVolumes s') t'"
  unfolding ControllerUnpublishVolume_def spec_unpublish_def
  by (auto simp: setPublished_def represents_drop represents_drop_all split: if_splits)

lemma step_refines:
  assumes "pub_step (reg, s) e r (reg', s')" "plain_event e" "represents (publishedVolumes s) t"
  shows "\<exists>t'. spec_step reg e t = (r, t') \<and> registry_step e reg = reg' \<and> represents (publishedVolumes s') t'"
  using assms
  by (cases e) (auto elim!: publishE unpublishE registerE unregisterE dest: run_Publish run_Unpublish)

lemma run_refines:
  assumes "pub_run st tr st'" "represents (publishedVolumes (snd st)) t" "list_all (\<lambda>(e, _). plain_event e) tr"
  shows "\<exists>t'. spec_run (fst st, t) tr (fst st', t') \<and> represents (publishedVolumes (snd st')) t'"
  using assms
proof (induction rule: pub_run.induct)
  case (start st)
  then show ?case by (auto intro: spec_run.start)
next
  case (more st tr st' e r st'')
  then obtain t1 where t1: "spec_run (fst st, t) tr (fst st', t1)" "represents (publishedVolumes (snd st')) t1"
    by auto
  from step_refines [of "fst st'" "snd st'" e r "fst st''" "snd st''" t1] more t1(2)
  obtain t2 where "spec_step (fst st') e t1 = (r, t2)" "registry_step e (fst st') = fst st''"
    "represents (publishedVolumes (snd st'')) t2" by auto
  with spec_run.more [OF t1(1)] show ?case by metis
qed

text \<open>
  C10: publication refines a table of (volume, node) pairs. For every history of publish, unpublish,
  register and unregister requests whose volume and node identifiers contain no colon, from an empty
  controller, the answers are exactly those of the specification, which knows no string keys, and the
  table of published volumes stands for the specification's table: a repeated publish with the same
  flag succeeds, one with the other flag is refused, unpublishing from one node or from all nodes
  removes exactly the pairs it names.
\<close>

theorem publication_refines_table:
  assumes "pub_run (reg, fresh_controller w) tr (reg', s')" "list_all (\<lambda>(e, _). plain_event e) tr"
  shows "\<exists>t. spec_run (reg, \<lambda>_. None) tr (reg', t) \<and> represents (publishedVolumes s') t"
  using run_refines [OF assms(1) _ assms(2), of "\<lambda>_. None"] represents_empty
  by (simp add: fresh_controller_def)

definition sample_publish :: publish_request where
  "sample_publish = \<lparr>pr_VolumeId = ''tank/pvc-1'', pr_NodeId = ''node-1'', pr_Readonly = False,
     pr_VolumeCapability = Some \<lparr>cap_mode = SINGLE_NODE_WRITER, cap_access = BlockAccess\<rparr>\<rparr>"

theorem publication_refines_table_witness:
  "\<exists>s' t. pub_run (None, fresh_controller ()) [(Publish sample_publish, None)] (None, s') \<and>
     spec_run (None, \<lambda>_. None) [(Publish sample_publish, None)] (None, t) \<and> represents (publishedVolumes s') t"
proof -
  obtain r s' where run: "run_state (ControllerPublishVolume None sample_publish) (fresh_controller ()) = (r, s')"
    by fastforce
  have "fst (run_state (ControllerPublishVolume None sample_publish) (fresh_controller ())) = None"
    by code_simp
  with run have "pub_step (None, fresh_controller ()) (Publish sample_publish) None (None, s')"
    by (auto intro: pub_step.publish)
  from pub_run.more [OF pub_run.start this]
  have h: "pub_run (None, fresh_controller ()) [(Publish sample_publish, None)] (None, s')" by simp
  have "plain_event (Publish sample_publish)" by code_simp
  with h publication_refines_table [OF h] show ?thesis by auto
qed

text \<open>
  C40: volume names may contain colons, and then the keys run into each other: unpublishing a volume
  from all nodes also forgets every publication of each volume whose identifier continues with a
  colon, and such a volume shares its key with the shorter one on a node named by the rest.
\<close>

theorem unpublish_all_forgets_other_volume:
  assumes "v \<noteq> []"
  shows "case run_state (ControllerUnpublishVolume v []) s of (r, s') \<Rightarrow>
     r = None \<and> fmlookup (publishedVolumes s') (publishKey (v @ '':'' @ x) n) = None \<and>
     publishKey (v @ '':'' @ x) n = publishKey v (x @ '':'' @ n)"
  using assms by (simp add: ControllerUnpublishVolume_def setPublished_def publishKey_def)

definition colon_controller :: "unit controller" where
  "colon_controller = (fresh_controller ())\<lparr>publishedVolumes := fmupd (publishKey ''tank/a:b'' ''n1'') True fmempty\<rparr>"

theorem unpublish_all_forgets_other_volume_witness:
  "fmlookup (publishedVolumes colon_controller) (publishKey ''tank/a:b'' ''n1'') = Some True \<and>
   (case run_state (ControllerUnpublishVolume ''tank/a'' []) colon_controller of (r, s') \<Rightarrow>
      r = None \<and> fmlookup (publishedVolumes s') (publishKey ''tank/a:b'' ''n1'') = None)"
  using unpublish_all_forgets_other_volume [where v = "''tank/a''" and s = colon_controller and x = "''b''" and n = "''n1''"]
  by (auto simp: colon_controller_def)

end
