(* ===== verification/Controller_Query.thy ===== *)
theory Controller_Query
  imports Controller_SMB Controller_NVMeOF Snapshots
begin

text \<open>
  The remaining operations of \<^verbatim>\<open>src/pkg/driver/controller.go\<close>: expansion, validation of capabilities,
  listing of volumes, capacity, the seeding of the capacity gauges, volume information and health
  (with the parts of \<^verbatim>\<open>controller_iscsi.go\<close>, \<^verbatim>\<open>controller_smb.go\<close> and \<^verbatim>\<open>node_health.go\<close> it uses).
\<close>

section \<open>Expansion\<close>

text \<open>The error of \<^verbatim>\<open>reconcileCapacityProperty\<close> is only wrapped: whether there is one is kept.\<close>

definition reconcileCapacityProperty :: "'w svc \<Rightarrow> VolumeMetadata \<Rightarrow> uint64 \<Rightarrow> ('w, bool) op" where
  "reconcileCapacityProperty S meta capacity =
     (if vm_RecordedCapacityBytes meta = Some capacity then ret True
      else case splitSubvolumeID (vm_DatasetID meta) of
        None \<Rightarrow> ret False
      | Some (filesystem, name) \<Rightarrow> do {
          r \<leftarrow> ResizeSubvolume S filesystem name capacity;
          case r of
            Inl _ \<Rightarrow> ret False
          | Inr _ \<Rightarrow> do {
              p \<leftarrow> SetSubvolumeProperties S filesystem name
                (fmupd PropertyCapacityBytes (format_int (uint capacity)) fmempty);
              ret (p = None)
            }
        })"

record expand_request =
  er_VolumeId :: string
  er_CapacityRange :: "capacity_range option"
  er_VolumeCapability :: "capability option"

definition expandByProtocol ::
  "'w svc \<Rightarrow> VolumeMetadata \<Rightarrow> int \<Rightarrow> bool \<Rightarrow> ('w, failure + expand_response) op" where
  "expandByProtocol S meta target nodeExpansionRequired =
     (if vm_Protocol meta = ProtocolNFS then expandNFSVolume S meta target
      else if vm_Protocol meta = ProtocolNVMeOF then expandNVMeOFVolume S meta target nodeExpansionRequired
      else if vm_Protocol meta = ProtocolISCSI then expandISCSIVolume S meta target
      else if vm_Protocol meta = ProtocolSMB then expandSMBVolume S meta target
      else ret (Inl (Status Internal)))"

text \<open>The part of \<^verbatim>\<open>ControllerExpandVolume\<close> after the lookup.\<close>

definition expandPlanned ::
  "'w svc \<Rightarrow> capability option \<Rightarrow> int \<Rightarrow> int \<Rightarrow> VolumeMetadata \<Rightarrow> ('w, failure + expand_response) op" where
  "expandPlanned S cap requiredBytes limitBytes volumeMeta =
     (case planExpansion volumeMeta requiredBytes limitBytes of
        Inl e \<Rightarrow> ret (Inl e)
      | Inr plan \<Rightarrow>
          (let nodeExpansionRequired = requiresNodeExpansion (vm_Protocol volumeMeta) cap
           in if alreadySatisfied plan
              then do {
                ok \<leftarrow> reconcileCapacityProperty S volumeMeta (currentBytes plan);
                ret (if \<not> ok then Inl (Status Internal)
                     else Inr \<lparr>exp_CapacityBytes = targetBytes plan,
                               exp_NodeExpansionRequired = nodeExpansionRequired\<rparr>)
              }
              else expandByProtocol S volumeMeta (targetBytes plan) nodeExpansionRequired))"

definition ControllerExpandVolume :: "'w svc \<Rightarrow> expand_request \<Rightarrow> ('w, failure + expand_response) op" where
  "ControllerExpandVolume S req =
     (if er_VolumeId req = [] then ret (Inl (Status InvalidArgument))
      else case er_CapacityRange req of
        None \<Rightarrow> ret (Inl (Status InvalidArgument))
      | Some cr \<Rightarrow>
          (let requiredBytes = RequiredBytes cr; limitBytes = LimitBytes cr
           in case validateExpansionRange requiredBytes limitBytes of
                Some e \<Rightarrow> ret (Inl e)
              | None \<Rightarrow> do {
                  l \<leftarrow> lookupVolumeByCSIName S (er_VolumeId req);
                  case l of
                    Inl _ \<Rightarrow> ret (Inl (Status Internal))
                  | Inr None \<Rightarrow> ret (Inl (Status NotFound))
                  | Inr (Some volumeMeta) \<Rightarrow>
                      expandPlanned S (er_VolumeCapability req) requiredBytes limitBytes volumeMeta
                }))"

section \<open>Capabilities\<close>

text \<open>The confirmed capabilities, or \<^const>\<open>None\<close> for an answer that only carries a message.\<close>

definition ValidateVolumeCapabilities ::
  "'w svc \<Rightarrow> string \<Rightarrow> capability list \<Rightarrow> ('w, failure + capability list option) op" where
  "ValidateVolumeCapabilities S volumeID caps =
     (if volumeID = [] then ret (Inl (Status InvalidArgument))
      else if caps = [] then ret (Inl (Status InvalidArgument))
      else do {
        l \<leftarrow> lookupVolumeByCSIName S volumeID;
        ret (case l of
            Inl _ \<Rightarrow> Inl (Status NotFound)
          | Inr None \<Rightarrow> Inl (Status NotFound)
          | Inr (Some meta) \<Rightarrow>
              (let protocol = vm_Protocol meta
               in if protocol \<noteq> [] \<and> validateAccessModeForProtocol caps protocol \<noteq> None then Inr None
                  else if (protocol = ProtocolNVMeOF \<or> protocol = ProtocolISCSI) \<and>
                     (case requestedBlockFilesystem caps of Inl _ \<Rightarrow> True | Inr _ \<Rightarrow> False)
                  then Inr None
                  else Inr (Some caps)))
      })"

section \<open>Listing\<close>

text \<open>A nil property map and an empty one both give no metadata.\<close>

definition volumeEntry :: "'w svc \<Rightarrow> subvolume \<Rightarrow> csi_volume option" where
  "volumeEntry S sv =
     (case extractVolumeMetadataFromSubvolume (subvolumeID sv) sv of
        None \<Rightarrow> None
      | Some meta \<Rightarrow> Some \<lparr>vol_VolumeId = subvolumeID sv,
          vol_CapacityBytes = propertyCapacity S (sv_Properties sv),
          vol_VolumeContext = buildVolumeContext meta, vol_ContentSource = None\<rparr>)"

definition listManagedVolumes :: "'w svc \<Rightarrow> ('w, go_error + csi_volume list) op" where
  "listManagedVolumes S = do {
     r \<leftarrow> quiet (api_FindManagedSubvolumes S []);
     ret (case r of
         Inl err \<Rightarrow> Inl err
       | Inr subvols \<Rightarrow> Inr (List.map_filter (volumeEntry S) subvols))
   }"

fun indexOfVolume :: "string \<Rightarrow> csi_volume list \<Rightarrow> nat option" where
  "indexOfVolume token [] = None"
| "indexOfVolume token (v # vs) =
     (if vol_VolumeId v = token then Some 0 else map_option Suc (indexOfVolume token vs))"

text \<open>The pagination of \<^verbatim>\<open>ListVolumes\<close>: the token is the identifier of the last volume of the page before.\<close>

definition pageOfVolumes :: "csi_volume list \<Rightarrow> int \<Rightarrow> string \<Rightarrow> failure + (csi_volume list \<times> string)" where
  "pageOfVolumes entries maxEntries startingToken =
     (case (if startingToken = [] then Some 0 else map_option Suc (indexOfVolume startingToken entries)) of
        None \<Rightarrow> Inl (Status Aborted)
      | Some startIdx \<Rightarrow>
          (if maxEntries > 0 \<and> int startIdx + maxEntries < int (length entries)
           then (let endIdx = int startIdx + maxEntries
                 in Inr (slice entries (int startIdx) endIdx, vol_VolumeId (entries ! nat (endIdx - 1))))
           else Inr (drop startIdx entries, [])))"

definition ListVolumes :: "'w svc \<Rightarrow> int \<Rightarrow> string \<Rightarrow> ('w, failure + (csi_volume list \<times> string)) op" where
  "ListVolumes S maxEntries startingToken = do {
     l \<leftarrow> listManagedVolumes S;
     ret (case l of
         Inl _ \<Rightarrow> Inl (Status Internal)
       | Inr entries \<Rightarrow> pageOfVolumes entries maxEntries startingToken)
   }"

section \<open>Capacity\<close>

definition GetCapacity :: "'w svc \<Rightarrow> smap \<Rightarrow> ('w, failure + int) op" where
  "GetCapacity S params =
     (if mget params paramFilesystem = [] then ret (Inr 0)
      else do {
        r \<leftarrow> quiet (api_QueryFilesystem S (mget params paramFilesystem));
        ret (case r of
            Inl _ \<Rightarrow> Inl (Status Internal)
          | Inr None \<Rightarrow> Inl NilDeref
          | Inr (Some fs) \<Rightarrow> Inr (to_int64 (fs_AvailableBytes fs)))
      })"

text \<open>The loop of \<^verbatim>\<open>seedVolumeCapacityMetrics\<close>; the answer says whether the search succeeded.\<close>

fun seedCapacities :: "'w svc \<Rightarrow> subvolume list \<Rightarrow> ('w, unit) op" where
  "seedCapacities S [] = ret ()"
| "seedCapacities S (sv # svs) =
     (let ps = sv_Properties sv; owner = mget ps PropertyClusterID;
          protocol = mget ps PropertyProtocol;
          capacity = svc_StringToInt64 S (mget ps PropertyCapacityBytes)
      in if svc_clusterID S \<noteq> [] \<and> owner \<noteq> [] \<and> owner \<noteq> svc_clusterID S then seedCapacities S svs
         else if protocol = [] \<or> capacity \<le> 0 then seedCapacities S svs
         else do {
           SetVolumeCapacity (subvolumeID sv) protocol capacity;
           seedCapacities S svs
         })"

definition seedVolumeCapacityMetrics :: "'w svc \<Rightarrow> ('w, bool) op" where
  "seedVolumeCapacityMetrics S = do {
     r \<leftarrow> quiet (api_FindManagedSubvolumes S []);
     case r of
       Inl _ \<Rightarrow> ret False
     | Inr subvols \<Rightarrow> do {
         seedCapacities S subvols;
         ret True
       }
   }"

end
