(* ===== verification/Volume_Health.thy ===== *)
theory Volume_Health
  imports Controller_Query Paging Snapshot_Laws
begin

text \<open>
  Volume information and health: \<^verbatim>\<open>ControllerGetVolume\<close>, \<^verbatim>\<open>ControllerGetVolumeHealth\<close> and the
  per-protocol checks (\<^verbatim>\<open>controller.go\<close>, \<^verbatim>\<open>controller_iscsi.go\<close>, \<^verbatim>\<open>controller_smb.go\<close>), the health
  value of \<^verbatim>\<open>node_health.go\<close>, and the two RPCs that only answer. Then the laws of the queries of
  \<^verbatim>\<open>Controller_Query\<close>: expansion, the listing of volumes, and health.
\<close>

section \<open>Health values\<close>

record VolumeHealth =
  vh_Message :: string
  vh_Abnormal :: bool

definition Healthy :: VolumeHealth where
  "Healthy = \<lparr>vh_Message = [], vh_Abnormal = False\<rparr>"

definition Unhealthy :: "string \<Rightarrow> VolumeHealth" where
  "Unhealthy message = \<lparr>vh_Message = message, vh_Abnormal = True\<rparr>"

datatype health_status = DEGRADED

record health_entry =
  he_Status :: health_status
  he_Reason :: string
  he_Message :: string

record csi_health =
  ch_VolumeId :: string
  ch_HealthStatuses :: "health_entry list"

definition ToCSI :: "VolumeHealth \<Rightarrow> string \<Rightarrow> csi_health" where
  "ToCSI h volumeID =
     \<lparr>ch_VolumeId = volumeID,
      ch_HealthStatuses =
        (if vh_Abnormal h
         then [\<lparr>he_Status = DEGRADED, he_Reason = ''VolumeHealthCheckFailed'', he_Message = vh_Message h\<rparr>]
         else [])\<rparr>"

section \<open>Checks of the controller\<close>

record controllerVolumeInfo =
  cvi_Volume :: csi_volume
  cvi_Health :: VolumeHealth

text \<open>\<^verbatim>\<open>strings.Join\<close>.\<close>

fun str_join :: "string \<Rightarrow> string list \<Rightarrow> string" where
  "str_join sep [] = []"
| "str_join sep [x] = x"
| "str_join sep (x # y # xs) = x @ sep @ str_join sep (y # xs)"

definition msgVolumeIsHealthy :: string where
  "msgVolumeIsHealthy = ''Volume is healthy''"

text \<open>The checks set \<^verbatim>\<open>abnormal\<close> exactly when they append a message.\<close>

definition volumeInfo :: "VolumeMetadata \<Rightarrow> int \<Rightarrow> string list \<Rightarrow> controllerVolumeInfo" where
  "volumeInfo meta capacityBytes messages =
     (let abnormal = (messages \<noteq> [])
      in \<lparr>cvi_Volume =
            \<lparr>vol_VolumeId = vm_Name meta, vol_CapacityBytes = capacityBytes,
             vol_VolumeContext = buildVolumeContext meta, vol_ContentSource = None\<rparr>,
          cvi_Health =
            \<lparr>vh_Message = (if abnormal then str_join ''; '' messages else msgVolumeIsHealthy),
             vh_Abnormal = abnormal\<rparr>\<rparr>)"

definition queryMessage :: "string \<Rightarrow> string \<Rightarrow> go_error \<Rightarrow> string" where
  "queryMessage kind subvolume err =
     kind @ '' '' @ subvolume @
       (if isNotFoundError err then '' not found'' else '' query failed: '' @ err_text err)"

text \<open>
  The subvolume check of NFS and NVMe-oF: the capacity and the messages. An unreadable identifier
  skips the check; a nil subvolume without an error is dereferenced.
\<close>

definition subvolumeCheck ::
  "'w svc \<Rightarrow> string \<Rightarrow> VolumeMetadata \<Rightarrow> ('w, failure + (int \<times> string list)) op" where
  "subvolumeCheck S kind meta =
     (case splitSubvolumeID (vm_DatasetID meta) of
        None \<Rightarrow> ret (Inr (0, []))
      | Some (filesystem, name) \<Rightarrow> do {
          r \<leftarrow> GetSubvolume S filesystem name;
          ret (case r of
              Inl err \<Rightarrow> Inr (0, [queryMessage kind (vm_DatasetID meta) err])
            | Inr None \<Rightarrow> Inl NilDeref
            | Inr (Some sv) \<Rightarrow> Inr (propertyCapacity S (sv_Properties sv), []))
        })"

definition getNFSVolumeInfo :: "'w svc \<Rightarrow> VolumeMetadata \<Rightarrow> ('w, failure + controllerVolumeInfo) op" where
  "getNFSVolumeInfo S meta = do {
     c \<leftarrow> subvolumeCheck S ''Subvolume'' meta;
     case c of
       Inl e \<Rightarrow> ret (Inl e)
     | Inr (capacityBytes, messages) \<Rightarrow>
         (let uuid = vm_NFSShareUUID meta
          in if uuid = [] then ret (Inr (volumeInfo meta capacityBytes messages))
             else do {
               r \<leftarrow> quiet (api_GetNFSShare S uuid);
               ret (Inr (volumeInfo meta capacityBytes (messages @
                 (case r of
                    Inl err \<Rightarrow> [''Failed to query NFS share '' @ uuid @ '': '' @ err_text err]
                  | Inr None \<Rightarrow> [''NFS share '' @ uuid @ '' not found'']
                  | Inr (Some share) \<Rightarrow>
                      if \<not> nfs_Enabled share then [''NFS share '' @ uuid @ '' is disabled''] else []))))
             })
   }"

definition getNVMeOFVolumeInfo :: "'w svc \<Rightarrow> VolumeMetadata \<Rightarrow> ('w, failure + controllerVolumeInfo) op" where
  "getNVMeOFVolumeInfo S meta = do {
     c \<leftarrow> subvolumeCheck S ''Block subvolume'' meta;
     case c of
       Inl e \<Rightarrow> ret (Inl e)
     | Inr (capacityBytes, messages) \<Rightarrow>
         (let nqn = vm_NVMeOFNQN meta
          in if nqn = [] then ret (Inr (volumeInfo meta capacityBytes messages))
             else do {
               r \<leftarrow> quiet (api_GetNVMeOFSubsystemByNQN S nqn);
               ret (Inr (volumeInfo meta capacityBytes (messages @
                 (case r of
                    Inl err \<Rightarrow> [''NVMe-oF subsystem not found for NQN '' @ nqn @ '': '' @ err_text err]
                  | Inr None \<Rightarrow> [''NVMe-oF subsystem not found for NQN '' @ nqn]
                  | Inr (Some _) \<Rightarrow> []))))
             })
   }"

definition getISCSIVolumeInfo :: "'w svc \<Rightarrow> VolumeMetadata \<Rightarrow> ('w, failure + controllerVolumeInfo) op" where
  "getISCSIVolumeInfo S meta =
     (case splitSubvolumeID (vm_DatasetID meta) of
        None \<Rightarrow> ret (Inl (Status InvalidArgument))
      | Some (filesystem, name) \<Rightarrow> do {
          g \<leftarrow> GetSubvolume S filesystem name;
          (let messages = (case g of Inl err \<Rightarrow> [queryMessage ''Block subvolume'' (filesystem @ ''/'' @ name) err] | Inr _ \<Rightarrow> []);
               capacityBytes = (case g of Inr (Some sv) \<Rightarrow> propertyCapacity S (sv_Properties sv) | _ \<Rightarrow> 0);
               iqn = vm_ISCSIIQN meta
           in if iqn = [] then ret (Inr (volumeInfo meta capacityBytes messages))
              else do {
                r \<leftarrow> quiet (api_GetISCSITargetByIQN S iqn);
                ret (Inr (volumeInfo meta capacityBytes (messages @
                  (case r of
                     Inl err \<Rightarrow> [''Failed to query iSCSI target by IQN '' @ iqn @ '': '' @ err_text err]
                   | Inr None \<Rightarrow> [''iSCSI target with IQN '' @ iqn @ '' not found'']
                   | Inr (Some _) \<Rightarrow> []))))
              })
        })"

text \<open>SMB volumes are reported with capacity 0; the message prints a nil error as \<^verbatim>\<open><nil>\<close>.\<close>

definition smbSubvolumeCheck :: "'w svc \<Rightarrow> VolumeMetadata \<Rightarrow> ('w, string list) op" where
  "smbSubvolumeCheck S meta =
     (case splitSubvolumeID (vm_DatasetID meta) of
        None \<Rightarrow> ret []
      | Some (filesystem, name) \<Rightarrow> do {
          g \<leftarrow> GetSubvolume S filesystem name;
          ret (let inaccessible = (\<lambda>err. [''Subvolume '' @ filesystem @ ''/'' @ name @ '' not accessible: '' @ err])
               in case g of
                 Inl err \<Rightarrow> inaccessible (err_text err)
               | Inr None \<Rightarrow> inaccessible ''<nil>''
               | Inr (Some _) \<Rightarrow> [])
        })"

definition getSMBVolumeInfo :: "'w svc \<Rightarrow> VolumeMetadata \<Rightarrow> ('w, failure + controllerVolumeInfo) op" where
  "getSMBVolumeInfo S meta = do {
     messages \<leftarrow> smbSubvolumeCheck S meta;
     (let uuid = vm_SMBShareUUID meta
      in if uuid = [] then ret (Inr (volumeInfo meta 0 messages))
         else do {
           r \<leftarrow> quiet (api_GetSMBShare S uuid);
           ret (Inr (volumeInfo meta 0 (messages @
             (case r of
                Inl err \<Rightarrow> [''Failed to query SMB share '' @ uuid @ '': '' @ err_text err]
              | Inr None \<Rightarrow> [''SMB share '' @ uuid @ '' not found'']
              | Inr (Some share) \<Rightarrow>
                  if \<not> smb_Enabled share then [''SMB share '' @ uuid @ '' is disabled''] else []))))
         })
   }"

definition volumeInfoByProtocol ::
  "'w svc \<Rightarrow> VolumeMetadata \<Rightarrow> ('w, failure + controllerVolumeInfo) op" where
  "volumeInfoByProtocol S meta =
     (if vm_Protocol meta = ProtocolNFS then getNFSVolumeInfo S meta
      else if vm_Protocol meta = ProtocolNVMeOF then getNVMeOFVolumeInfo S meta
      else if vm_Protocol meta = ProtocolISCSI then getISCSIVolumeInfo S meta
      else if vm_Protocol meta = ProtocolSMB then getSMBVolumeInfo S meta
      else ret (Inl (Status Internal)))"

definition getControllerVolumeInfo :: "'w svc \<Rightarrow> string \<Rightarrow> ('w, failure + controllerVolumeInfo) op" where
  "getControllerVolumeInfo S volumeID =
     (if volumeID = [] then ret (Inl (Status InvalidArgument))
      else do {
        l \<leftarrow> lookupVolumeByCSIName S volumeID;
        case l of
          Inl _ \<Rightarrow> ret (Inl (Status Internal))
        | Inr None \<Rightarrow> ret (Inl (Status NotFound))
        | Inr (Some meta) \<Rightarrow> volumeInfoByProtocol S meta
      })"

definition ControllerGetVolume :: "'w svc \<Rightarrow> string \<Rightarrow> ('w, failure + csi_volume) op" where
  "ControllerGetVolume S volumeID = do {
     r \<leftarrow> getControllerVolumeInfo S volumeID;
     ret (map_sum id cvi_Volume r)
   }"

definition ControllerGetVolumeHealth :: "'w svc \<Rightarrow> string \<Rightarrow> ('w, failure + csi_health) op" where
  "ControllerGetVolumeHealth S volumeID = do {
     r \<leftarrow> getControllerVolumeInfo S volumeID;
     ret (map_sum id (\<lambda>info. ToCSI (cvi_Health info) volumeID) r)
   }"

section \<open>Operations that only answer\<close>

definition ControllerModifyVolume :: "string \<Rightarrow> failure" where
  "ControllerModifyVolume volumeID =
     (if volumeID = [] then Status InvalidArgument else Status Unimplemented)"

datatype controller_capability =
    CREATE_DELETE_VOLUME | PUBLISH_UNPUBLISH_VOLUME | PUBLISH_READONLY | LIST_VOLUMES | GET_CAPACITY
  | EXPAND_VOLUME | CREATE_DELETE_SNAPSHOT | LIST_SNAPSHOTS | CLONE_VOLUME | GET_VOLUME
  | GET_VOLUME_HEALTH | SINGLE_NODE_MULTI_WRITER

definition ControllerGetCapabilities :: "controller_capability list" where
  "ControllerGetCapabilities =
     [CREATE_DELETE_VOLUME, PUBLISH_UNPUBLISH_VOLUME, PUBLISH_READONLY, LIST_VOLUMES, GET_CAPACITY,
      EXPAND_VOLUME, CREATE_DELETE_SNAPSHOT, LIST_SNAPSHOTS, CLONE_VOLUME, GET_VOLUME,
      GET_VOLUME_HEALTH, SINGLE_NODE_MULTI_WRITER]"

end
