(* ===== verification/Query_Laws.thy ===== *)
theory Query_Laws
  imports Capacity_Checks CreateVolume_Safety Volume_Health
begin

text \<open>
  What the controller's queries and its expansion promise: the pages of \<^verbatim>\<open>ListVolumes\<close> against the
  pagination contract, the calls and answers of \<^verbatim>\<open>ControllerExpandVolume\<close>, and what the health report
  depends on.
\<close>

section \<open>Pages of volumes\<close>

definition distinct_volumes :: "csi_volume list \<Rightarrow> bool" where
  "distinct_volumes vs \<longleftrightarrow> distinct (map vol_VolumeId vs) \<and> [] \<notin> vol_VolumeId ` set vs"

definition volume_token :: "csi_volume list \<Rightarrow> nat \<Rightarrow> string" where
  "volume_token vs i = (if i = 0 then [] else vol_VolumeId (vs ! (i - 1)))"

lemma indexOfVolume_nth:
  "distinct (map vol_VolumeId vs) \<Longrightarrow> j < length vs \<Longrightarrow> indexOfVolume (vol_VolumeId (vs ! j)) vs = Some j"
  by (induction vs arbitrary: j) (auto simp: nth_Cons' less_Suc_eq_0_disj)

lemma volume_token_nonempty:
  "distinct_volumes vs \<Longrightarrow> 0 < i \<Longrightarrow> i < length vs \<Longrightarrow> volume_token vs i \<noteq> []"
  by (metis (no_types, lifting) distinct_volumes_def volume_token_def image_eqI less_imp_diff_less
      not_gr_zero nth_mem)

lemma volume_token_first: "volume_token vs 0 = []"
  by (simp add: volume_token_def)

lemma volume_token_index:
  assumes "distinct_volumes vs" "0 < i" "i < length vs"
  shows "indexOfVolume (volume_token vs i) vs = Some (i - 1)"
  using assms indexOfVolume_nth [of vs "i - 1"] by (simp add: distinct_volumes_def volume_token_def)

lemma pageOfVolumes_at:
  assumes "distinct_volumes vs" "0 < m" "i = 0 \<or> i < length vs"
  shows "pageOfVolumes vs m (volume_token vs i) =
    Inr (take (nat m) (drop i vs), if i + nat m < length vs then volume_token vs (i + nat m) else [])"
proof -
  have start: "(if volume_token vs i = [] then Some 0 else map_option Suc (indexOfVolume (volume_token vs i) vs)) = Some i"
    using assms volume_token_nonempty volume_token_index by (cases "i = 0") (auto simp: volume_token_def)
  obtain k where k: "m = int k" "0 < k" using assms(2) by (metis of_nat_0_less_iff zero_less_imp_eq_int)
  have "nat (int i + int k - 1) = i + k - 1" by linarith
  moreover have "slice vs (int i) (int i + int k) = take k (drop i vs)"
    using slice_take [of vs i "i + k"] by simp
  ultimately show ?thesis
    using k unfolding pageOfVolumes_def start by (auto simp: Let_def volume_token_def)
qed

interpretation volume_pages: paging pageOfVolumes distinct_volumes volume_token
  by unfold_locales (simp_all only: volume_token_first volume_token_nonempty pageOfVolumes_at not_False_eq_True)

lemma volumeEntry_id: "volumeEntry S sv = Some v \<Longrightarrow> vol_VolumeId v = subvolumeID sv"
  by (auto simp: volumeEntry_def split: option.splits)

lemma subvolumeID_nonempty [simp]: "subvolumeID sv \<noteq> []"
  by (simp add: subvolumeID_def)

lemma listed_ids:
  "map vol_VolumeId (List.map_filter (volumeEntry S) svs) =
     map subvolumeID (filter (\<lambda>sv. fmlookup (sv_Properties sv) PropertyManagedBy = Some ManagedByValue) svs)"
  by (induction svs)
    (auto simp: List.map_filter_def volumeEntry_def extractVolumeMetadataFromSubvolume_def split: option.splits)

lemma listed_distinct:
  assumes "distinct (map subvolumeID svs)"
  shows "distinct_volumes (List.map_filter (volumeEntry S) svs)"
proof -
  have "[] \<notin> set (map vol_VolumeId (List.map_filter (volumeEntry S) svs))"
    by (auto simp: listed_ids dest: sym)
  then show ?thesis
    using assms by (simp add: distinct_volumes_def listed_ids distinct_map_filter del: set_map flip: set_map)
qed

text \<open>
  C27: listing the volumes is complete. Against a backend that does not change meanwhile and whose
  subvolumes have different identifiers, a client that follows the tokens of \<^verbatim>\<open>ListVolumes\<close> with any
  positive page size gets, in finitely many pages, exactly one entry for each subvolume managed by
  the driver, in the backend's order, and no entry for any other.
\<close>

theorem ListVolumes_complete:
  assumes "fst (api_FindManagedSubvolumes S [] (world s)) = Inr svs" "distinct (map subvolumeID svs)"
    and "0 < m" "length svs < k"
  shows "\<exists>vs. walk k (\<lambda>token. fst (run_state (ListVolumes S m token) s)) [] = Some (Inr vs) \<and>
     map vol_VolumeId vs =
       map subvolumeID (filter (\<lambda>sv. fmlookup (sv_Properties sv) PropertyManagedBy = Some ManagedByValue) svs)"
proof -
  let ?vs = "List.map_filter (volumeEntry S) svs"
  have pages: "(\<lambda>token. fst (run_state (ListVolumes S m token) s)) = pageOfVolumes ?vs m"
    using assms(1) by (auto simp: fun_eq_iff ListVolumes_def listManagedVolumes_def split: prod.split)
  have "length (map vol_VolumeId ?vs) \<le> length svs"
    unfolding listed_ids by simp
  then have "walk k (pageOfVolumes ?vs m) [] = Some (Inr ?vs)"
    using assms(3,4) by (intro volume_pages.walk_complete listed_distinct assms(2)) simp_all
  then show ?thesis unfolding pages using listed_ids by blast
qed

definition two_volumes :: "memory controller" where
  "two_volumes =
     (let sv = (\<lambda>n. (mem_new ''tank'' n ''filesystem'' None [])\<lparr>sv_Properties := fmap_of_list [(PropertyManagedBy, ManagedByValue)]\<rparr>)
      in controller_at (memory_empty\<lparr>m_subvolumes := [sv ''a'', sv ''b'']\<rparr>))"

theorem ListVolumes_complete_witness:
  "\<exists>vs. walk 3 (\<lambda>token. fst (run_state (ListVolumes mem_svc 1 token) two_volumes)) [] = Some (Inr vs) \<and>
     map vol_VolumeId vs = [''tank/a'', ''tank/b'']"
proof -
  let ?svs = "mem_byProperty PropertyManagedBy ManagedByValue [] (world two_volumes)"
  have "fst (api_FindManagedSubvolumes mem_svc [] (world two_volumes)) = Inr ?svs"
    by (simp add: mem_svc_def)
  moreover have "distinct (map subvolumeID ?svs)" "length ?svs < 3"
    "map subvolumeID (filter (\<lambda>sv. fmlookup (sv_Properties sv) PropertyManagedBy = Some ManagedByValue) ?svs) =
       [''tank/a'', ''tank/b'']"
    by code_simp+
  ultimately show ?thesis
    using ListVolumes_complete [of mem_svc two_volumes ?svs 1 3] by simp
qed

section \<open>Expansion\<close>

text \<open>
  A resize to \<open>b\<close> bytes followed, if it succeeded, by the record of exactly that size; \<open>ok\<close> says
  that both were acknowledged.
\<close>

definition resize_run :: "string \<Rightarrow> string \<Rightarrow> int \<Rightarrow> bool \<Rightarrow> event list \<Rightarrow> bool" where
  "resize_run fs n b ok tr \<longleftrightarrow>
     (\<exists>e. tr = [Resized fs n (to_uint64 b) (Inl e)] \<and> \<not> ok) \<or>
     (\<exists>x p. tr = [Resized fs n (to_uint64 b) (Inr x),
              PropsSet fs n (fmupd PropertyCapacityBytes (format_int b) fmempty) p] \<and> (ok \<longleftrightarrow> p = None))"

text \<open>
  A run for volume \<open>meta\<close> with target \<open>b\<close>: nothing to do if the backend's size suffices and is the
  recorded one; otherwise one resize.
\<close>

definition expansion_run ::
  "VolumeMetadata \<Rightarrow> int \<Rightarrow> bool \<Rightarrow> failure + expand_response \<Rightarrow> event list \<Rightarrow> bool" where
  "expansion_run meta b nodeExpansion r tr \<longleftrightarrow>
     (case splitSubvolumeID (vm_DatasetID meta) of
        None \<Rightarrow> tr = []
      | Some (fs, n) \<Rightarrow>
          (if vm_RecordedCapacityBytes meta = Some (to_uint64 b) \<and> vm_CurrentCapacityBytes meta = Some (to_uint64 b)
           then tr = [] \<and> (\<exists>x. r = Inr x)
           else resize_run fs n b (\<exists>x. r = Inr x) tr)) \<and>
     (case r of
        Inr x \<Rightarrow> exp_CapacityBytes x = b \<and> exp_NodeExpansionRequired x = nodeExpansion
      | Inl e \<Rightarrow> e = Status Internal \<or> e = Status InvalidArgument)"

text \<open>The target of an expansion request for a volume.\<close>

definition sufficient :: "capacity_range \<Rightarrow> VolumeMetadata \<Rightarrow> int \<Rightarrow> bool" where
  "sufficient cr meta b \<longleftrightarrow>
     RequiredBytes cr \<le> b \<and> (LimitBytes cr = 0 \<or> b \<le> LimitBytes cr) \<and>
     (case vm_CurrentCapacityBytes meta of None \<Rightarrow> MinVolumeSize \<le> b | Some c \<Rightarrow> uint c \<le> b)"

lemma wp_expandSubvolume:
  assumes "vm_DatasetID meta \<noteq> []"
    "\<not> (vm_RecordedCapacityBytes meta = Some (to_uint64 b) \<and> vm_CurrentCapacityBytes meta = Some (to_uint64 b))"
  shows "wp (expandSubvolume S meta p b ne) (\<lambda>r s'. \<exists>tr. calls s' = calls s @ tr \<and> expansion_run meta b ne r tr) s"
  unfolding expandSubvolume_def ResizeSubvolume_def SetSubvolumeProperties_def
  using assms by (auto simp: wp_rules expansion_run_def resize_run_def
      split: option.split sum.split intro!: wp_bindI wp_callI)

lemma wp_expandByProtocol:
  assumes "vm_DatasetID meta \<noteq> []"
    "\<not> (vm_RecordedCapacityBytes meta = Some (to_uint64 b) \<and> vm_CurrentCapacityBytes meta = Some (to_uint64 b))"
    "vm_Protocol meta \<in> {ProtocolNFS, ProtocolNVMeOF, ProtocolISCSI, ProtocolSMB}"
    "ne = requiresNodeExpansion (vm_Protocol meta) cap"
  shows "wp (expandByProtocol S meta b ne) (\<lambda>r s'. \<exists>tr. calls s' = calls s @ tr \<and> expansion_run meta b ne r tr) s"
  using assms(3,4) wp_expandSubvolume [OF assms(1,2)] protocol_neq
  by (auto simp: expandByProtocol_def expandNFSVolume_def expandNVMeOFVolume_def expandISCSIVolume_def
      expandSMBVolume_def requiresNodeExpansion_def)

lemma to_uint64_uint [simp]: "to_uint64 (uint c) = c"
  by (simp add: to_uint64_def)

lemma wp_reconcile:
  assumes "vm_DatasetID meta \<noteq> []" "vm_CurrentCapacityBytes meta = Some c"
  shows "wp (reconcileCapacityProperty S meta c) (\<lambda>ok s'. \<exists>tr. calls s' = calls s @ tr \<and>
      expansion_run meta (uint c) ne
        (if \<not> ok then Inl (Status Internal)
         else Inr \<lparr>exp_CapacityBytes = uint c, exp_NodeExpansionRequired = ne\<rparr>) tr) s"
  unfolding reconcileCapacityProperty_def ResizeSubvolume_def SetSubvolumeProperties_def
  using assms by (auto simp: wp_rules expansion_run_def resize_run_def
      split: option.split sum.split intro!: wp_bindI wp_callI)

text \<open>What a lookup reads, and what it returns.\<close>

definition is_read :: "event \<Rightarrow> bool" where
  "is_read e = (case e of Got _ _ _ \<Rightarrow> True | _ \<Rightarrow> False)"

definition stored :: "VolumeMetadata \<Rightarrow> bool" where
  "stored meta \<longleftrightarrow> (\<exists>volumeID sv. extractVolumeMetadataFromSubvolume volumeID sv = Some meta)"

definition reads_only :: "'w controller \<Rightarrow> 'w controller \<Rightarrow> bool" where
  "reads_only s s' \<longleftrightarrow> (\<exists>reads. calls s' = calls s @ reads \<and> list_all is_read reads)"

lemma reads_only_simps [simp]:
  "reads_only s s"
  "reads_only s (s\<lparr>world := w, calls := calls s @ [Got f n g]\<rparr>)"
  "reads_only s (s\<lparr>world := w\<rparr>)"
  by (auto simp: reads_only_def is_read_def)

lemma storedI: "extractVolumeMetadataFromSubvolume volumeID sv = Some meta \<Longrightarrow> stored meta"
  by (auto simp: stored_def)

lemma wp_lookup_stored:
  "wp (lookupVolumeByCSIName S v)
     (\<lambda>r s'. reads_only s s' \<and> (case r of Inr (Some meta) \<Rightarrow> stored meta | _ \<Rightarrow> True)) s"
  unfolding lookupVolumeByCSIName_def lookupVolumeBySubvolumePath_def lookupVolumeByPropertyScan_def
    GetSubvolume_def
  by (auto simp: wp_rules split: option.split sum.split intro!: wp_bindI wp_callI intro: storedI)

lemma stored_DatasetID: "stored meta \<Longrightarrow> vm_DatasetID meta \<noteq> []"
  by (auto simp: stored_def extractVolumeMetadataFromSubvolume_def split: if_splits)

lemma satisfied_plan:
  assumes "planExpansion meta r l = Inr plan" "alreadySatisfied plan"
  obtains c where "vm_CurrentCapacityBytes meta = Some c" "currentBytes plan = c" "targetBytes plan = uint c"
    "r \<le> uint c" "l \<le> 0 \<or> uint c \<le> l"
proof -
  have small: "to_int64 c = uint c" if "\<not> MaxInt64 < uint c" for c
    using that by (intro to_int64_small) (simp add: MaxInt64_def)
  from assms show ?thesis
    by (intro that [of "currentBytes plan"])
      (auto simp: planExpansion_def planGrowth_def Let_def small not_less
        split: if_splits option.splits sum.splits)
qed

lemma wp_planned:
  assumes v: "validateExpansionRange (RequiredBytes cr) (LimitBytes cr) = None"
    and p: "planExpansion meta (RequiredBytes cr) (LimitBytes cr) = Inr plan" and m: "stored meta"
    and ne: "ne = requiresNodeExpansion (vm_Protocol meta) cap"
  shows "wp (expandPlanned S cap (RequiredBytes cr) (LimitBytes cr) meta)
     (\<lambda>r s'. \<exists>tr. calls s' = calls s @ tr \<and> sufficient cr meta (targetBytes plan) \<and>
        expansion_run meta (targetBytes plan) ne r tr) s"
proof (cases "alreadySatisfied plan")
  case True
  with p obtain c where c: "vm_CurrentCapacityBytes meta = Some c" "currentBytes plan = c"
      "targetBytes plan = uint c" "RequiredBytes cr \<le> uint c" "LimitBytes cr \<le> 0 \<or> uint c \<le> LimitBytes cr"
    by (rule satisfied_plan)
  moreover have "0 \<le> LimitBytes cr" using v by (auto simp: validateExpansionRange_def split: if_splits)
  ultimately have "sufficient cr meta (uint c)" by (auto simp: sufficient_def)
  then show ?thesis
    unfolding expandPlanned_def p sum.case Let_def if_P [OF True] c(2,3) ne
    by (intro wp_bindI wp_mono [OF wp_reconcile [OF stored_DatasetID [OF m] c(1)]])
      (auto simp: wp_return)
next
  case False
  let ?b = "targetBytes plan"
  note plan = planExpansion_plan [OF v p]
  have b: "uint (to_uint64 ?b) = ?b"
    using plan False by (auto simp: int64_def MinVolumeSize_def intro!: uint_to_uint64)
  have "vm_CurrentCapacityBytes meta \<noteq> Some (to_uint64 ?b)"
    using plan False b by auto
  moreover have "vm_Protocol meta \<in> {ProtocolNFS, ProtocolNVMeOF, ProtocolISCSI, ProtocolSMB}"
    using p by (auto simp: planExpansion_def split: if_splits)
  moreover have "sufficient cr meta ?b"
    using plan False by (auto simp: sufficient_def split: option.split)
  ultimately show ?thesis
    unfolding expandPlanned_def p sum.case Let_def if_not_P [OF False] ne
    by (intro wp_mono [OF wp_expandByProtocol [OF stored_DatasetID [OF m] _ _ refl]]) auto
qed

text \<open>
  The managed volume that an identifier denotes: that of the subvolume which the backend answers for
  the path in the identifier, or, for a plain name, for a search by that name. The only call on
  record is the read of that path.
\<close>

definition the_volume :: "'w svc \<Rightarrow> string \<Rightarrow> 'w \<Rightarrow> VolumeMetadata option" where
  "the_volume S v w =
     (if isDatasetPathVolumeID v
      then (case splitSubvolumeID v of
          None \<Rightarrow> None
        | Some (fs, n) \<Rightarrow>
            (case fst (api_GetSubvolume S fs n w) of
               Inr (Some sv) \<Rightarrow> extractVolumeMetadataFromSubvolume v sv
             | _ \<Rightarrow> None))
      else (case fst (api_FindSubvolumeByCSIVolumeName S [] v w) of
          Inr (Some sv) \<Rightarrow> extractVolumeMetadataFromSubvolume (subvolumeID sv) sv
        | _ \<Rightarrow> None))"

definition lookup_reads :: "'w svc \<Rightarrow> string \<Rightarrow> 'w \<Rightarrow> event list" where
  "lookup_reads S v w =
     (case (if isDatasetPathVolumeID v then splitSubvolumeID v else None) of
        None \<Rightarrow> []
      | Some (fs, n) \<Rightarrow> [Got fs n (fst (api_GetSubvolume S fs n w))])"

definition looked_up :: "'w svc \<Rightarrow> string \<Rightarrow> 'w controller \<Rightarrow> lookup_error + VolumeMetadata option \<Rightarrow> 'w controller \<Rightarrow> bool" where
  "looked_up S v s r s' \<longleftrightarrow>
     calls s' = calls s @ lookup_reads S v (world s) \<and>
     the_volume S v (world s) = (case r of Inr (Some meta) \<Rightarrow> Some meta | _ \<Rightarrow> None)"

lemma wp_lookup_exactly: "wp (lookupVolumeByCSIName S v) (looked_up S v s) s"
  unfolding lookupVolumeByCSIName_def lookupVolumeBySubvolumePath_def lookupVolumeByPropertyScan_def GetSubvolume_def
  by (auto simp: wp_rules wp_call looked_up_def the_volume_def lookup_reads_def
      split: option.split sum.split prod.split intro!: wp_bindI)

lemma the_volume_stored: "the_volume S v w = Some meta \<Longrightarrow> stored meta"
  by (auto simp: the_volume_def intro: storedI split: if_splits option.splits sum.splits)

text \<open>
  How a request for more space ends, and with which calls: the reads, and what came after them, for
  the volume that the request's identifier denotes at its start.
\<close>

definition expansion_ok ::
  "'w svc \<Rightarrow> expand_request \<Rightarrow> 'w \<Rightarrow> failure + expand_response \<Rightarrow> event list \<Rightarrow> event list \<Rightarrow> bool" where
  "expansion_ok S req w r reads tr \<longleftrightarrow>
     (case er_CapacityRange req of
        None \<Rightarrow> reads = [] \<and> tr = [] \<and> r = Inl (Status InvalidArgument)
      | Some cr \<Rightarrow>
          if er_VolumeId req = [] then reads = [] \<and> tr = [] \<and> r = Inl (Status InvalidArgument)
          else case validateExpansionRange (RequiredBytes cr) (LimitBytes cr) of
            Some e \<Rightarrow> reads = [] \<and> tr = [] \<and> r = Inl e
          | None \<Rightarrow> reads = lookup_reads S (er_VolumeId req) w \<and>
              (case the_volume S (er_VolumeId req) w of
                 None \<Rightarrow> tr = [] \<and> (r = Inl (Status NotFound) \<or> r = Inl (Status Internal))
               | Some meta \<Rightarrow>
                   (case planExpansion meta (RequiredBytes cr) (LimitBytes cr) of
                      Inl e \<Rightarrow> tr = [] \<and> r = Inl e
                    | Inr plan \<Rightarrow> sufficient cr meta (targetBytes plan) \<and>
                        expansion_run meta (targetBytes plan)
                          (requiresNodeExpansion (vm_Protocol meta) (er_VolumeCapability req)) r tr)))"

definition expands :: "'w svc \<Rightarrow> expand_request \<Rightarrow> 'w controller \<Rightarrow> failure + expand_response \<Rightarrow> 'w controller \<Rightarrow> bool" where
  "expands S req s r s' \<longleftrightarrow>
     (\<exists>reads tr. calls s' = calls s @ reads @ tr \<and> expansion_ok S req (world s) r reads tr)"

lemma wp_expandPlanned:
  assumes "looked_up S (er_VolumeId req) s (Inr (Some meta)) s1" "er_CapacityRange req = Some cr" "er_VolumeId req \<noteq> []"
    and v: "validateExpansionRange (RequiredBytes cr) (LimitBytes cr) = None"
  shows "wp (expandPlanned S (er_VolumeCapability req) (RequiredBytes cr) (LimitBytes cr) meta) (expands S req s) s1"
proof -
  from assms(1) have found: "the_volume S (er_VolumeId req) (world s) = Some meta"
    and reads: "calls s1 = calls s @ lookup_reads S (er_VolumeId req) (world s)" by (simp_all add: looked_up_def)
  note ok = expansion_ok_def expands_def
  show ?thesis
  proof (cases "planExpansion meta (RequiredBytes cr) (LimitBytes cr)")
    case (Inl e)
    then show ?thesis using assms(2-) found reads by (simp add: expandPlanned_def wp_return ok)
  next
    case (Inr plan)
    show ?thesis
      by (rule wp_mono [OF wp_planned [OF v Inr the_volume_stored [OF found] refl]])
        (use assms(2-) found reads Inr in \<open>auto simp: ok\<close>)
  qed
qed

text \<open>
  C26: expansion. A malformed request is refused before any call. Otherwise \<^verbatim>\<open>ControllerExpandVolume\<close>
  reads the volume that the request's identifier denotes, nothing else; if the backend answers no
  volume managed by the driver, or the plan for that very volume fails, the request is refused
  without a further call. Else the target reaches the required size, respects the limit and is not
  below the size that was just read; the subvolume that was read is resized to the target at most
  once and that very size is recorded, in this order, unless the size and the record that were read
  already agree with the target. The request succeeds exactly when everything was acknowledged,
  and answers the target.
\<close>

theorem ControllerExpandVolume_correct:
  "case run_state (ControllerExpandVolume S req) s of (r, s') \<Rightarrow>
     \<exists>reads tr. calls s' = calls s @ reads @ tr \<and> expansion_ok S req (world s) r reads tr"
proof (rule run_caseI, unfold expands_def [symmetric])
  have refused: "expands S req s r s'"
    if "looked_up S (er_VolumeId req) s l s'" "the_volume S (er_VolumeId req) (world s) = None"
      "r = Inl (Status NotFound) \<or> r = Inl (Status Internal)" "er_CapacityRange req = Some cr" "er_VolumeId req \<noteq> []"
      "validateExpansionRange (RequiredBytes cr) (LimitBytes cr) = None" for l r s' cr
    using that by (simp add: expands_def expansion_ok_def looked_up_def)
  show "wp (ControllerExpandVolume S req) (expands S req s) s"
  proof (cases "er_VolumeId req = [] \<or> er_CapacityRange req = None")
    case True
    then show ?thesis
      by (auto simp: ControllerExpandVolume_def wp_return expands_def expansion_ok_def split: option.split)
  next
    case False
    then obtain cr where cr: "er_CapacityRange req = Some cr" and id: "er_VolumeId req \<noteq> []" by auto
    show ?thesis
    proof (cases "validateExpansionRange (RequiredBytes cr) (LimitBytes cr)")
      case None
      note planned = wp_expandPlanned [OF _ cr id None] and refused = refused [OF _ _ _ cr id None]
      show ?thesis
        unfolding ControllerExpandVolume_def
        using id by (auto simp: cr None Let_def wp_return looked_up_def split: option.split sum.split
          intro!: wp_bindI wp_mono [OF wp_lookup_exactly] planned refused)
    next
      case (Some e)
      then show ?thesis
        using cr id by (simp add: ControllerExpandVolume_def Let_def wp_return expands_def expansion_ok_def)
    qed
  qed
qed

section \<open>Health\<close>

text \<open>What a lookup returns never names a share, a target or a subsystem.\<close>

lemma stored_unpresented:
  "stored meta \<Longrightarrow> vm_NFSShareUUID meta = [] \<and> vm_SMBShareUUID meta = [] \<and> vm_ISCSIIQN meta = [] \<and> vm_NVMeOFNQN meta = []"
  by (auto simp: stored_def extractVolumeMetadataFromSubvolume_def split: if_splits)

text \<open>The same environment with other answers to the queries for presentations.\<close>

definition other_presentations ::
  "'w svc \<Rightarrow> 'w svc \<Rightarrow> 'w svc" where
  "other_presentations S T =
     S\<lparr>api_GetNFSShare := api_GetNFSShare T, api_GetSMBShare := api_GetSMBShare T,
       api_GetISCSITargetByIQN := api_GetISCSITargetByIQN T,
       api_GetNVMeOFSubsystemByNQN := api_GetNVMeOFSubsystemByNQN T\<rparr>"

lemma other_presentations_simps [simp]:
  "api_GetSubvolume (other_presentations S T) = api_GetSubvolume S"
  "api_FindSubvolumeByCSIVolumeName (other_presentations S T) = api_FindSubvolumeByCSIVolumeName S"
  "propertyCapacity (other_presentations S T) = propertyCapacity S"
  by (simp_all add: other_presentations_def propertyCapacity_def fun_eq_iff split: option.split)

lemma other_presentations_same:
  "lookupVolumeByCSIName (other_presentations S T) = lookupVolumeByCSIName S"
  "stored meta \<Longrightarrow> volumeInfoByProtocol (other_presentations S T) meta = volumeInfoByProtocol S meta"
  unfolding lookupVolumeByCSIName_def lookupVolumeBySubvolumePath_def lookupVolumeByPropertyScan_def GetSubvolume_def
    volumeInfoByProtocol_def getNFSVolumeInfo_def getNVMeOFVolumeInfo_def getISCSIVolumeInfo_def
    getSMBVolumeInfo_def subvolumeCheck_def smbSubvolumeCheck_def other_presentations_simps
  by (simp_all add: fun_eq_iff Let_def stored_unpresented split: option.split)

text \<open>Programs with the same continuation on every value the first part can return are the same.\<close>

lemma bind_same:
  assumes "\<And>s. wp m (\<lambda>r _. k r = k' r) s"
  shows "m \<bind> k = m \<bind> k'"
proof (rule state_ext)
  fix s show "run_state (m \<bind> k) s = run_state (m \<bind> k') s"
    using assms [of s] by (auto simp: wp_def State_Monad.bind_def split: prod.splits)
qed

lemma wp_lookup_any:
  assumes "\<And>meta. stored meta \<Longrightarrow> P (Inr (Some meta))" "P (Inr None)" "\<And>e. P (Inl e)"
  shows "wp (lookupVolumeByCSIName S v) (\<lambda>r _. P r) s"
  by (rule wp_mono [OF wp_lookup_stored]) (auto simp: assms split: sum.splits option.splits)

lemma getControllerVolumeInfo_same:
  "getControllerVolumeInfo (other_presentations S T) v = getControllerVolumeInfo S v"
  unfolding getControllerVolumeInfo_def other_presentations_same(1)
  by (auto simp: other_presentations_same(2) intro!: bind_same wp_lookup_any)

text \<open>
  The health of the presentation is never checked. Whatever the backend would say about a
  volume's share, target or subsystem, missing, disabled or failing, the volume information and the
  health report are the same, because the looked-up metadata never carries the identifier that the
  check needs.
\<close>

theorem health_ignores_presentations:
  "ControllerGetVolumeHealth (other_presentations S T) v = ControllerGetVolumeHealth S v \<and>
   ControllerGetVolume (other_presentations S T) v = ControllerGetVolume S v"
  by (simp add: ControllerGetVolumeHealth_def ControllerGetVolume_def getControllerVolumeInfo_same)

text \<open>What each protocol accepts as a subvolume that is there.\<close>

definition accessible :: "string \<Rightarrow> go_error + subvolume option \<Rightarrow> bool" where
  "accessible protocol g =
     (case g of Inl _ \<Rightarrow> False | Inr None \<Rightarrow> protocol \<noteq> ProtocolSMB | Inr (Some _) \<Rightarrow> True)"

lemma accessible_simps [simp]:
  "\<not> accessible p (Inl e)" "accessible p (Inr x) \<longleftrightarrow> x \<noteq> None \<or> p \<noteq> ProtocolSMB"
  by (simp_all add: accessible_def split: option.split)

definition checked :: "VolumeMetadata \<Rightarrow> 'w controller \<Rightarrow> bool \<Rightarrow> 'w controller \<Rightarrow> bool" where
  "checked meta s healthy s' \<longleftrightarrow>
     (case splitSubvolumeID (vm_DatasetID meta) of
        None \<Rightarrow> healthy \<and> calls s' = calls s
      | Some (fs, n) \<Rightarrow>
          \<exists>g. calls s' = calls s @ [Got fs n g] \<and> (healthy \<longleftrightarrow> accessible (vm_Protocol meta) g))"

lemma volumeInfo_simps [simp]:
  "vh_Abnormal (cvi_Health (volumeInfo meta c ms)) \<longleftrightarrow> ms \<noteq> []"
  "vol_VolumeId (cvi_Volume (volumeInfo meta c ms)) = vm_Name meta"
  by (simp_all add: volumeInfo_def Let_def)

lemma wp_volumeInfoByProtocol:
  assumes "stored meta"
  shows "wp (volumeInfoByProtocol S meta)
     (\<lambda>r s'. case r of Inr info \<Rightarrow> checked meta s (\<not> vh_Abnormal (cvi_Health info)) s' | Inl _ \<Rightarrow> reads_only s s') s"
  unfolding volumeInfoByProtocol_def getNFSVolumeInfo_def getNVMeOFVolumeInfo_def getISCSIVolumeInfo_def
    getSMBVolumeInfo_def subvolumeCheck_def smbSubvolumeCheck_def GetSubvolume_def Let_def
  using protocol_neq by (auto simp: wp_rules stored_unpresented [OF assms] checked_def
      split: option.split sum.split intro!: wp_bindI wp_callI)

lemma reads_only_trans: "reads_only s s1 \<Longrightarrow> reads_only s1 s' \<Longrightarrow> reads_only s s'"
  by (force simp: reads_only_def)

lemma wp_getControllerVolumeInfo:
  "wp (getControllerVolumeInfo S v) (\<lambda>r s'. case r of
       Inl _ \<Rightarrow> reads_only s s'
     | Inr info \<Rightarrow> \<exists>meta s1. stored meta \<and> reads_only s s1 \<and> checked meta s1 (\<not> vh_Abnormal (cvi_Health info)) s') s"
  unfolding getControllerVolumeInfo_def
  apply (auto simp: wp_return split: option.splits sum.splits
      intro!: wp_bindI wp_mono [OF wp_lookup_stored] wp_mono [OF wp_volumeInfoByProtocol])
  apply (blast intro: reads_only_trans)+
  done

text \<open>
  What the health report says. \<^verbatim>\<open>ControllerGetVolumeHealth\<close> only reads. A report is for the volume
  that was asked for, and its content is decided by the last read of the volume's subvolume alone:
  it is free of adverse conditions exactly when that read found the subvolume (for an iSCSI volume,
  when it did not fail), or when the stored identifier does not denote a subvolume at all.
\<close>

theorem ControllerGetVolumeHealth_correct:
  "case run_state (ControllerGetVolumeHealth S v) s of (r, s') \<Rightarrow>
     (case r of
        Inl _ \<Rightarrow> reads_only s s'
      | Inr h \<Rightarrow> ch_VolumeId h = v \<and>
          (\<exists>meta s1. stored meta \<and> reads_only s s1 \<and> checked meta s1 (ch_HealthStatuses h = []) s'))"
  unfolding ControllerGetVolumeHealth_def
  by (rule run_caseI, rule wp_bindI, rule wp_mono [OF wp_getControllerVolumeInfo])
    (auto simp: wp_return ToCSI_def split: sum.splits, blast+)

end
