(* ===== verification/Lifecycle_Locks.thy ===== *)
theory Lifecycle_Locks
  imports Prelude
begin

text \<open>
  The per-volume locks of the node service (\<^verbatim>\<open>src/pkg/driver/node_lifecycle.go\<close>), as the steps that
  concurrent calls take: each step is one critical section of the mutex or one channel operation,
  and they interleave freely. Entries are objects that goroutines point to, so they live in a heap
  of addresses apart from the map; the one-place channel of an entry holds the token or is empty.
\<close>

section \<open>State\<close>

record volumeLifecycleEntry =
  token :: bool
  refs :: int

text \<open>
  Where a goroutine is in \<^verbatim>\<open>lock\<close> or in the function it returns: before the \<^verbatim>\<open>select\<close>, after it has
  received the token, after \<^verbatim>\<open>lock\<close> has returned, and before \<^verbatim>\<open>release\<close>; each with the volume and
  the entry it points to.
\<close>

datatype pc = Idle | Waiting string nat | Received string nat | Holding string nat | Releasing string nat

record volumeLifecycleLocks =
  heap :: "nat \<Rightarrow> volumeLifecycleEntry"
  next_entry :: nat
  entries :: "string \<rightharpoonup> nat"
  pcs :: "nat \<Rightarrow> pc"

section \<open>Steps\<close>

text \<open>The critical section of \<^verbatim>\<open>lock\<close>: find or make the entry and count the reference.\<close>

definition getEntry :: "string \<Rightarrow> volumeLifecycleLocks \<Rightarrow> nat \<times> volumeLifecycleLocks" where
  "getEntry volumeID l =
     (case entries l volumeID of
        Some e \<Rightarrow> (e, l)
      | None \<Rightarrow>
          (next_entry l,
           l\<lparr>heap := (heap l)(next_entry l := \<lparr>token = True, refs = 0\<rparr>), next_entry := Suc (next_entry l),
             entries := (entries l)(volumeID \<mapsto> next_entry l)\<rparr>))"

definition addRef :: "int \<Rightarrow> nat \<Rightarrow> volumeLifecycleLocks \<Rightarrow> volumeLifecycleLocks" where
  "addRef d e l = l\<lparr>heap := (heap l)(e := (heap l e)\<lparr>refs := refs (heap l e) + d\<rparr>)\<rparr>"

definition goto :: "nat \<Rightarrow> pc \<Rightarrow> volumeLifecycleLocks \<Rightarrow> volumeLifecycleLocks" where
  "goto t p l = l\<lparr>pcs := (pcs l)(t := p)\<rparr>"

definition lock_enter :: "nat \<Rightarrow> string \<Rightarrow> volumeLifecycleLocks \<Rightarrow> volumeLifecycleLocks" where
  "lock_enter t volumeID l =
     (case getEntry volumeID l of (e, l1) \<Rightarrow> goto t (Waiting volumeID e) (addRef 1 e l1))"

text \<open>A receive and a send on the token channel; the send needs the place to be free.\<close>

definition receiveToken :: "nat \<Rightarrow> volumeLifecycleLocks \<Rightarrow> volumeLifecycleLocks option" where
  "receiveToken e l =
     (if token (heap l e) then Some (l\<lparr>heap := (heap l)(e := (heap l e)\<lparr>token := False\<rparr>)\<rparr>) else None)"

definition sendToken :: "nat \<Rightarrow> volumeLifecycleLocks \<Rightarrow> volumeLifecycleLocks option" where
  "sendToken e l =
     (if token (heap l e) then None else Some (l\<lparr>heap := (heap l)(e := (heap l e)\<lparr>token := True\<rparr>)\<rparr>))"

definition release :: "string \<Rightarrow> nat \<Rightarrow> volumeLifecycleLocks \<Rightarrow> volumeLifecycleLocks" where
  "release volumeID e l =
     (let l1 = addRef (- 1) e l
      in if refs (heap l1 e) = 0 then l1\<lparr>entries := (entries l1)(volumeID := None)\<rparr> else l1)"

text \<open>
  A step of goroutine \<open>t\<close>. A \<^verbatim>\<open>lock\<close> whose context has already ended returns without a step. A
  waiting goroutine may receive the token or see its context end; one that has received it looks at
  the context again and either returns the lock or gives the token back.
\<close>

inductive lock_step :: "nat \<Rightarrow> volumeLifecycleLocks \<Rightarrow> volumeLifecycleLocks \<Rightarrow> bool" where
  Enter: "pcs l t = Idle \<Longrightarrow> lock_step t l (lock_enter t v l)"
| Receive: "pcs l t = Waiting v e \<Longrightarrow> receiveToken e l = Some l1 \<Longrightarrow> lock_step t l (goto t (Received v e) l1)"
| Cancelled: "pcs l t = Waiting v e \<Longrightarrow> lock_step t l (goto t (Releasing v e) l)"
| Locked: "pcs l t = Received v e \<Longrightarrow> lock_step t l (goto t (Holding v e) l)"
| Late: "pcs l t = Received v e \<Longrightarrow> sendToken e l = Some l1 \<Longrightarrow> lock_step t l (goto t (Releasing v e) l1)"
| Unlock: "pcs l t = Holding v e \<Longrightarrow> sendToken e l = Some l1 \<Longrightarrow> lock_step t l (goto t (Releasing v e) l1)"
| Release: "pcs l t = Releasing v e \<Longrightarrow> lock_step t l (goto t Idle (release v e l))"

inductive_cases lock_stepE: "lock_step t l l'"

definition unlocked :: volumeLifecycleLocks where
  "unlocked = \<lparr>heap = (\<lambda>_. \<lparr>token = False, refs = 0\<rparr>), next_entry = 0, entries = Map.empty, pcs = (\<lambda>_. Idle)\<rparr>"

inductive reachable :: "volumeLifecycleLocks \<Rightarrow> bool" where
  Init: "reachable unlocked"
| Step: "reachable l \<Longrightarrow> lock_step t l l' \<Longrightarrow> reachable l'"

section \<open>The invariant\<close>

text \<open>What a goroutine points to and whether it has the token; the goroutines of an entry.\<close>

fun points :: "pc \<Rightarrow> (string \<times> nat) option" where
  "points Idle = None"
| "points (Waiting v e) = Some (v, e)"
| "points (Received v e) = Some (v, e)"
| "points (Holding v e) = Some (v, e)"
| "points (Releasing v e) = Some (v, e)"

fun has_token :: "pc \<Rightarrow> bool" where
  "has_token (Received v e) = True"
| "has_token (Holding v e) = True"
| "has_token _ = False"

definition users :: "volumeLifecycleLocks \<Rightarrow> nat \<Rightarrow> nat set" where
  "users l e = {t. \<exists>v. points (pcs l t) = Some (v, e)}"

definition owners :: "volumeLifecycleLocks \<Rightarrow> nat \<Rightarrow> nat set" where
  "owners l e = {t. has_token (pcs l t) \<and> (\<exists>v. points (pcs l t) = Some (v, e))}"

text \<open>
  An entry in the map counts its users and has at least one; its token is in the channel, or with
  exactly one goroutine. Goroutines point to the entry the map has for their volume; no entry
  serves two volumes, and addresses from \<^const>\<open>next_entry\<close> on are unused.
\<close>

definition entry_ok :: "volumeLifecycleLocks \<Rightarrow> nat \<Rightarrow> bool" where
  "entry_ok l e \<longleftrightarrow>
     e < next_entry l \<and> finite (users l e) \<and> users l e \<noteq> {} \<and> refs (heap l e) = int (card (users l e)) \<and>
     (if token (heap l e) then owners l e = {} else \<exists>t. owners l e = {t})"

definition lock_inv :: "volumeLifecycleLocks \<Rightarrow> bool" where
  "lock_inv l \<longleftrightarrow>
     (\<forall>t v e. points (pcs l t) = Some (v, e) \<longrightarrow> entries l v = Some e) \<and>
     (\<forall>v e. entries l v = Some e \<longrightarrow> entry_ok l e) \<and>
     (\<forall>v w e. entries l v = Some e \<longrightarrow> entries l w = Some e \<longrightarrow> v = w)"

lemma lock_invD:
  assumes "lock_inv l"
  shows "points (pcs l t) = Some (v, e) \<Longrightarrow> entries l v = Some e"
    and "entries l v = Some e \<Longrightarrow> entry_ok l e"
    and "entries l v = Some e \<Longrightarrow> entries l w = Some e \<Longrightarrow> v = w"
  using assms by (auto simp: lock_inv_def)

lemma users_goto:
  "users (goto t p l) e = (if (\<exists>v. points p = Some (v, e)) then insert t (users l e) else users l e - {t})"
  by (auto simp: users_def goto_def)

lemma owners_goto:
  "owners (goto t p l) e =
     (if has_token p \<and> (\<exists>v. points p = Some (v, e)) then insert t (owners l e) else owners l e - {t})"
  by (auto simp: owners_def goto_def)

lemma goto_simps [simp]:
  "heap (goto t p l) = heap l" "next_entry (goto t p l) = next_entry l" "entries (goto t p l) = entries l"
  "pcs (goto t p l) = (pcs l)(t := p)"
  by (simp_all add: goto_def)

lemma users_owners_heap [simp]:
  "users (l\<lparr>heap := h\<rparr>) = users l" "owners (l\<lparr>heap := h\<rparr>) = owners l"
  "users (l\<lparr>entries := m\<rparr>) = users l" "owners (l\<lparr>entries := m\<rparr>) = owners l"
  "users (l\<lparr>next_entry := n\<rparr>) = users l" "owners (l\<lparr>next_entry := n\<rparr>) = owners l"
  by (simp_all add: users_def owners_def fun_eq_iff)

text \<open>A goroutine that keeps pointing to its entry changes at most that entry's token.\<close>

lemma inv_stay:
  assumes inv: "lock_inv l" and t: "points (pcs l t) = Some (v, e)" "points p = Some (v, e)"
    and own: "if b then (if has_token p then insert t (owners l e) else owners l e - {t}) = {}
       else \<exists>u. (if has_token p then insert t (owners l e) else owners l e - {t}) = {u}"
  shows "lock_inv (goto t p (l\<lparr>heap := (heap l)(e := (heap l e)\<lparr>token := b\<rparr>)\<rparr>))" (is "lock_inv ?l")
proof -
  have e: "entries l v = Some e" by (rule lock_invD(1) [OF inv t(1)])
  have u: "users ?l f = users l f" for f using t by (auto simp: users_goto) (auto simp: users_def)
  have o: "owners ?l f = owners l f" if "f \<noteq> e" for f
    using t that by (auto simp: owners_goto) (auto simp: owners_def)
  have "entry_ok ?l f" if f: "entries l w = Some f" for w f
  proof (cases "f = e")
    case True
    with lock_invD(2) [OF inv f] own t show ?thesis by (auto simp: entry_ok_def u owners_goto)
  next
    case False
    with lock_invD(2) [OF inv f] show ?thesis by (simp add: entry_ok_def u o)
  qed
  with e t lock_invD [OF inv] show ?thesis unfolding lock_inv_def by (auto split: if_splits)
qed

lemma users_next: "lock_inv l \<Longrightarrow> users l (next_entry l) = {} \<and> owners l (next_entry l) = {}"
  using lock_invD by (fastforce simp: users_def owners_def entry_ok_def)

text \<open>A goroutine that starts or stops using an entry, and no other change.\<close>

lemma inv_enter_existing:
  assumes inv: "lock_inv l" and t: "pcs l t = Idle" and e: "entries l v = Some e"
  shows "lock_inv (goto t (Waiting v e) (addRef 1 e l))" (is "lock_inv ?l")
proof -
  have "t \<notin> users l f" for f using t by (simp add: users_def)
  moreover have "t \<notin> owners l f" for f using t by (simp add: owners_def)
  ultimately have "entry_ok ?l f" if "entries l w = Some f" for w f
    using lock_invD(2) [OF inv that] by (auto simp: entry_ok_def users_goto owners_goto addRef_def)
  with e lock_invD [OF inv] show ?thesis unfolding lock_inv_def by (auto simp: addRef_def)
qed

lemma inv_enter_new:
  assumes inv: "lock_inv l" and t: "pcs l t = Idle" and v: "entries l v = None"
  shows "lock_inv (lock_enter t v l)"
proof -
  let ?l = "lock_enter t v l" and ?n = "next_entry l"
  have idle: "t \<notin> users l f" "t \<notin> owners l f" for f using t by (simp_all add: users_def owners_def)
  have l: "entries ?l = (entries l)(v \<mapsto> ?n)" "pcs ?l = (pcs l)(t := Waiting v ?n)" "next_entry ?l = Suc ?n"
    "heap ?l = (heap l)(?n := \<lparr>token = True, refs = 1\<rparr>)"
    using v by (simp_all add: lock_enter_def getEntry_def addRef_def)
  have u: "users ?l f = (if f = ?n then insert t (users l f) else users l f)" "owners ?l f = owners l f" for f
    using v idle by (auto simp: lock_enter_def getEntry_def users_goto owners_goto addRef_def)
  have "f \<noteq> ?n" if "entries l w = Some f" for w f using lock_invD(2) [OF inv that] by (auto simp: entry_ok_def)
  moreover from this have "entry_ok ?l f" if "entries l w = Some f" for w f
    using lock_invD(2) [OF inv that] that by (auto simp: entry_ok_def l u)
  moreover have "entry_ok ?l ?n" using users_next [OF inv] by (simp add: entry_ok_def l u)
  ultimately show ?thesis
    using lock_invD [OF inv] v unfolding lock_inv_def l by (auto split: if_splits) 
qed

lemma inv_release:
  assumes inv: "lock_inv l" and t: "pcs l t = Releasing v e"
  shows "lock_inv (goto t Idle (release v e l))"
proof -
  let ?l = "goto t Idle (release v e l)"
  have e: "entries l v = Some e" by (rule lock_invD(1) [OF inv, of t]) (simp add: t)
  note ok = lock_invD(2) [OF inv e]
  have tu: "t \<in> users l f \<longleftrightarrow> f = e" "t \<notin> owners l f" for f using t by (auto simp: users_def owners_def)
  have card: "int (card (users l e - {t})) = refs (heap l e) - 1"
    using ok tu(1) [of e] by (auto simp: entry_ok_def card_gt_0_iff of_nat_diff Suc_le_eq)
  have "finite (users l e - {t})" using ok by (simp add: entry_ok_def)
  from card_eq_0_iff [of "users l e - {t}"] this have "card (users l e - {t}) = 0 \<longleftrightarrow> users l e - {t} = {}" by blast
  then have last: "refs (heap l e) - 1 = 0 \<longleftrightarrow> users l e = {t}"
    using tu(1) [of e] unfolding card [symmetric] of_nat_eq_0_iff by blast
  have l: "entries ?l = (if users l e = {t} then (entries l)(v := None) else entries l)"
    "pcs ?l = (pcs l)(t := Idle)" "next_entry ?l = next_entry l"
    "heap ?l = (heap l)(e := (heap l e)\<lparr>refs := refs (heap l e) - 1\<rparr>)"
    "users ?l f = users l f - {t}" "owners ?l f = owners l f" for f
    using last tu by (auto simp: release_def addRef_def Let_def users_goto owners_goto)
  have "entry_ok ?l f" if f: "entries l w = Some f" "f \<noteq> e \<or> users l e \<noteq> {t}" for w f
  proof (cases "f = e")
    case True
    with f(2) tu(1) [of e] have "users l e - {t} \<noteq> {}" by blast
    with ok card True show ?thesis unfolding entry_ok_def l by simp
  next
    case False
    with tu(1) [of f] have "users l f - {t} = users l f" by blast
    with False lock_invD(2) [OF inv f(1)] show ?thesis unfolding entry_ok_def l by simp
  qed
  moreover have "w = v" if "entries l w = Some e" for w using lock_invD(3) [OF inv that e] .
  moreover have "u = t" if "users l e = {t}" "points (pcs l u) = Some (v, f)" for u f
    using that lock_invD(1) [OF inv that(2)] e by (auto simp: users_def)
  ultimately show ?thesis
    using lock_invD [OF inv] unfolding lock_inv_def l by (auto split: if_splits)
qed

lemma sole_owner:
  assumes "lock_inv l" "points (pcs l t) = Some (v, e)" "has_token (pcs l t)"
  shows "owners l e = {t} \<and> \<not> token (heap l e)"
proof -
  have "t \<in> owners l e" using assms by (auto simp: owners_def)
  with lock_invD(2) [OF assms(1) lock_invD(1) [OF assms(1,2)]] show ?thesis
    by (auto simp: entry_ok_def split: if_splits)
qed

lemma free_token:
  assumes "lock_inv l" "points (pcs l t) = Some (v, e)" "token (heap l e)"
  shows "owners l e = {}"
  using lock_invD(2) [OF assms(1) lock_invD(1) [OF assms(1,2)]] assms(3) by (simp add: entry_ok_def)

lemma goto_keeps:
  assumes "lock_inv l" "points (pcs l t) = Some (v, e)" "points p = Some (v, e)" "has_token p = has_token (pcs l t)"
  shows "lock_inv (goto t p l)"
proof -
  have "(if has_token p then insert t (owners l e) else owners l e - {t}) = owners l e"
    using assms(2,4) by (auto simp: owners_def)
  with inv_stay [OF assms(1-3), of "token (heap l e)"] lock_invD(2) [OF assms(1) lock_invD(1) [OF assms(1,2)]]
  show ?thesis by (simp add: entry_ok_def split: if_splits)
qed

lemma lock_step_inv:
  assumes "lock_step t l l'" "lock_inv l"
  shows "lock_inv l'"
  using assms
proof (induction rule: lock_step.induct)
  case (Enter l t v)
  then show ?case
    by (cases "entries l v") (simp add: inv_enter_new, simp add: inv_enter_existing lock_enter_def getEntry_def)
next
  case (Receive l t v e l1)
  with free_token [of l t v e] inv_stay [of l t v e "Received v e" False] show ?case
    by (auto simp: receiveToken_def split: if_splits)
next
  case (Late l t v e l1)
  with sole_owner [of l t v e] inv_stay [of l t v e "Releasing v e" True] show ?case
    by (auto simp: sendToken_def split: if_splits)
next
  case (Unlock l t v e l1)
  with sole_owner [of l t v e] inv_stay [of l t v e "Releasing v e" True] show ?case
    by (auto simp: sendToken_def split: if_splits)
qed (auto intro: inv_release goto_keeps)

lemma unlocked_inv: "lock_inv unlocked"
  by (simp add: lock_inv_def unlocked_def)

lemma reachable_inv: "reachable l \<Longrightarrow> lock_inv l"
  by (induction rule: reachable.induct) (auto simp: unlocked_inv intro: lock_step_inv)

section \<open>What the locks promise\<close>

text \<open>
  C28: exclusion, for any number of concurrent calls and every interleaving, cancellations included.
  At most one goroutine holds the lock of a volume. The map has an entry for a volume exactly while
  some goroutine uses it, so nothing is left behind, and the entry counts its users. A goroutine
  that gives its token back never blocks on the channel.
\<close>

theorem lifecycle_locks_exclusive:
  assumes "reachable l"
  shows "(pcs l t = Holding v e \<and> pcs l u = Holding v f \<longrightarrow> t = u) \<and>
    (entries l v \<noteq> None \<longleftrightarrow> (\<exists>u x. points (pcs l u) = Some (v, x))) \<and>
    (entries l v = Some e \<longrightarrow> refs (heap l e) = int (card {u. points (pcs l u) = Some (v, e)})) \<and>
    (pcs l t \<in> {Received v e, Holding v e} \<longrightarrow> sendToken e l \<noteq> None)"
proof (intro conjI impI)
  note inv = reachable_inv [OF assms]
  show "t = u" if h: "pcs l t = Holding v e \<and> pcs l u = Holding v f"
    using h lock_invD(1) [OF inv, of t v e] lock_invD(1) [OF inv, of u v f]
      sole_owner [OF inv, of t v e] sole_owner [OF inv, of u v f] by simp
  have same: "users l e = {u. points (pcs l u) = Some (v, e)}" if "entries l v = Some e" for e
    using lock_invD(1,3) [OF inv] that by (fastforce simp: users_def)
  show "entries l v \<noteq> None \<longleftrightarrow> (\<exists>u x. points (pcs l u) = Some (v, x))"
    using lock_invD(1,2) [OF inv] same by (fastforce simp: entry_ok_def)
  show "refs (heap l e) = int (card {u. points (pcs l u) = Some (v, e)})" if "entries l v = Some e"
    using lock_invD(2) [OF inv that] same [OF that] by (simp add: entry_ok_def)
  show "sendToken e l \<noteq> None" if "pcs l t \<in> {Received v e, Holding v e}"
    using that sole_owner [OF inv, of t v e] by (auto simp: sendToken_def)
qed

text \<open>A first call on a volume, up to the point where it holds the lock.\<close>

definition first_lock :: volumeLifecycleLocks where
  "first_lock =
     goto 0 (Holding ''tank/a'' 0) (goto 0 (Received ''tank/a'' 0)
       (the (receiveToken 0 (lock_enter 0 ''tank/a'' unlocked))))"

lemma first_lock_reachable: "reachable first_lock"
proof -
  let ?e = "lock_enter 0 ''tank/a'' unlocked"
  have "reachable ?e"
    by (rule reachable.Step [OF reachable.Init lock_step.Enter]) (simp add: unlocked_def)
  moreover have "lock_step 0 ?e (goto 0 (Received ''tank/a'' 0) (the (receiveToken 0 ?e)))"
    by (rule lock_step.Receive)
      (simp_all add: unlocked_def lock_enter_def getEntry_def addRef_def receiveToken_def)
  ultimately have "reachable (goto 0 (Received ''tank/a'' 0) (the (receiveToken 0 ?e)))"
    by (rule reachable.Step)
  then show ?thesis
    unfolding first_lock_def by (rule reachable.Step [OF _ lock_step.Locked]) simp
qed

theorem lifecycle_locks_exclusive_witness:
  "reachable first_lock \<and> pcs first_lock 0 = Holding ''tank/a'' 0 \<and> sendToken 0 first_lock \<noteq> None \<and>
   refs (heap first_lock 0) = int (card {u. points (pcs first_lock u) = Some (''tank/a'', 0)})"
proof -
  have "pcs first_lock 0 = Holding ''tank/a'' 0" "entries first_lock ''tank/a'' = Some 0"
    by (simp_all add: first_lock_def unlocked_def lock_enter_def getEntry_def addRef_def receiveToken_def)
  with lifecycle_locks_exclusive [OF first_lock_reachable, of 0 "''tank/a''" 0] first_lock_reachable
  show ?thesis by simp
qed

inductive lock_run :: "nat list \<Rightarrow> volumeLifecycleLocks \<Rightarrow> volumeLifecycleLocks \<Rightarrow> bool" where
  Done: "lock_run [] l l"
| More: "lock_step t l l1 \<Longrightarrow> lock_run ts l1 l2 \<Longrightarrow> lock_run (t # ts) l l2"

lemma unlock_run:
  assumes inv: "lock_inv l" and u: "u \<in> owners l e"
  shows "\<exists>ts l'. lock_run ts l l' \<and> set ts = {u} \<and> length ts \<le> 2 \<and> token (heap l' e) \<and> (\<forall>t. t \<noteq> u \<longrightarrow> pcs l' t = pcs l t)"
proof -
  have unlock: "lock_step u m (goto u (Releasing v e) (m\<lparr>heap := (heap m)(e := (heap m e)\<lparr>token := True\<rparr>)\<rparr>))"
    if "pcs m u = Holding v e" "\<not> token (heap m e)" for m v
    using that by (intro lock_step.Unlock) (auto simp: sendToken_def)
  from u obtain v where v: "points (pcs l u) = Some (v, e)" "has_token (pcs l u)" by (auto simp: owners_def)
  then consider "pcs l u = Holding v e" | "pcs l u = Received v e" by (cases "pcs l u") auto
  moreover have finish: ?thesis if "lock_run ts l l'" "set ts = {u}" "length ts \<le> 2" "token (heap l' e)"
      "\<forall>t. t \<noteq> u \<longrightarrow> pcs l' t = pcs l t" for ts l'
    using that by blast
  ultimately show ?thesis
  proof cases
    case 1
    from unlock [OF this] sole_owner [OF inv v] have "lock_run [u] l (goto u (Releasing v e)
        (l\<lparr>heap := (heap l)(e := (heap l e)\<lparr>token := True\<rparr>)\<rparr>))"
      by (blast intro: lock_run.intros)
    then show ?thesis by (rule finish) auto
  next
    case 2
    let ?m = "goto u (Holding v e) l"
    have "lock_step u ?m (goto u (Releasing v e) (?m\<lparr>heap := (heap ?m)(e := (heap ?m e)\<lparr>token := True\<rparr>)\<rparr>))"
      by (rule unlock) (use sole_owner [OF inv v] in simp_all)
    with lock_step.Locked [OF 2]
    have "lock_run [u, u] l (goto u (Releasing v e) (?m\<lparr>heap := (heap ?m)(e := (heap ?m e)\<lparr>token := True\<rparr>)\<rparr>))"
      by (blast intro: lock_run.intros)
    then show ?thesis by (rule finish) auto
  qed
qed

text \<open>
  C29: no call waits for ever. Whenever a goroutine waits for a volume, either the token is there, or
  the one goroutine that has it can give it back in at most two steps of its own; after that the
  waiting goroutine can take it. No token is ever lost, by cancellation at any point.
\<close>

theorem lifecycle_locks_progress:
  assumes "reachable l" "pcs l t = Waiting v e"
  shows "\<exists>ts l1 l2. lock_run ts l l1 \<and> set ts = owners l e \<and> length ts \<le> 2 \<and>
    lock_step t l1 l2 \<and> pcs l2 t = Received v e"
proof -
  note inv = reachable_inv [OF assms(1)]
  have take: "\<exists>l2. lock_step t m l2 \<and> pcs l2 t = Received v e" if "pcs m t = Waiting v e" "token (heap m e)" for m
    using that lock_step.Receive [of m t v e] by (fastforce simp: receiveToken_def)
  have "entries l v = Some e" using lock_invD(1) [OF inv, of t v e] assms(2) by simp
  from lock_invD(2) [OF inv this] consider "token (heap l e)" "owners l e = {}" | u where "owners l e = {u}"
    by (auto simp: entry_ok_def split: if_splits)
  then show ?thesis
  proof cases
    case 1
    with take assms(2) show ?thesis by (metis lock_run.Done list.set(1) list.size(3) zero_le)
  next
    case (2 u)
    moreover have "t \<notin> owners l e" using assms(2) by (simp add: owners_def)
    with 2 have "t \<noteq> u" by blast
    ultimately show ?thesis using unlock_run [OF inv, of u e] take assms(2) by (metis singletonI)
  qed
qed

definition waiting_lock :: volumeLifecycleLocks where
  "waiting_lock = lock_enter 1 ''tank/a'' first_lock"

theorem lifecycle_locks_progress_witness:
  "\<exists>ts l1 l2. lock_run ts waiting_lock l1 \<and> length ts \<le> 2 \<and> lock_step 1 l1 l2 \<and> pcs l2 1 = Received ''tank/a'' 0"
proof -
  have "pcs first_lock 1 = Idle" "pcs waiting_lock 1 = Waiting ''tank/a'' 0"
    by (simp_all add: waiting_lock_def first_lock_def unlocked_def lock_enter_def getEntry_def addRef_def receiveToken_def)
  moreover from this have "reachable waiting_lock"
    unfolding waiting_lock_def by (intro reachable.Step [OF first_lock_reachable lock_step.Enter])
  ultimately show ?thesis using lifecycle_locks_progress [of waiting_lock 1 "''tank/a''" 0] by blast
qed

end
