(* ===== verification/Mount_Table.thy ===== *)
theory Mount_Table
  imports Prelude
begin

text \<open>
  The mount tables of the kernel as the node reads them (\<^verbatim>\<open>src/pkg/mount\<close>): the scanner, the parser of
  \<^verbatim>\<open>mountinfo\<close> lines, whether a path or a device is mounted, and the bind mounts of a staged volume;
  with what they use of Go's \<^verbatim>\<open>path/filepath\<close> (for Unix paths).
\<close>

section \<open>Paths and fields\<close>

definition IsAbs :: "string \<Rightarrow> bool" where
  "IsAbs path \<longleftrightarrow> path \<noteq> [] \<and> hd path = CHR ''/''"

text \<open>Components with empty ones and dots removed and \<^verbatim>\<open>..\<close> resolved; \<open>acc\<close> is reversed.\<close>

fun clean_components :: "bool \<Rightarrow> string list \<Rightarrow> string list \<Rightarrow> string list" where
  "clean_components rooted acc [] = rev acc"
| "clean_components rooted acc (c # cs) =
     (if c = [] \<or> c = ''.'' then clean_components rooted acc cs
      else if c = ''..'' then
        (case acc of
           [] \<Rightarrow> clean_components rooted (if rooted then [] else [c]) cs
         | a # as \<Rightarrow> clean_components rooted (if a = ''..'' then c # acc else as) cs)
      else clean_components rooted (c # acc) cs)"

fun join_path :: "string list \<Rightarrow> string" where
  "join_path [] = []"
| "join_path [x] = x"
| "join_path (x # y # xs) = x @ ''/'' @ join_path (y # xs)"

definition Clean :: "string \<Rightarrow> string" where
  "Clean path =
     (let cs = clean_components (IsAbs path) [] (str_split CHR ''/'' path)
      in if IsAbs path then ''/'' @ join_path cs else if cs = [] then ''.'' else join_path cs)"

text \<open>\<^verbatim>\<open>filepath.Abs\<close> with the working directory, if that is known.\<close>

definition Abs :: "string option \<Rightarrow> string \<Rightarrow> string option" where
  "Abs cwd path =
     (if IsAbs path then Some (Clean path) else map_option (\<lambda>d. Clean (d @ ''/'' @ path)) cwd)"

definition Join :: "string list \<Rightarrow> string" where
  "Join elem =
     (let es = filter (\<lambda>e. e \<noteq> []) elem in if es = [] then [] else Clean (join_path es))"

definition components :: "string \<Rightarrow> string list" where
  "components path = filter (\<lambda>c. c \<noteq> []) (str_split CHR ''/'' path)"

fun strip_common :: "string list \<Rightarrow> string list \<Rightarrow> string list \<times> string list" where
  "strip_common (b # bs) (t # ts) = (if b = t then strip_common bs ts else (b # bs, t # ts))"
| "strip_common bs ts = (bs, ts)"

text \<open>\<^verbatim>\<open>filepath.Rel\<close>; \<^const>\<open>None\<close> is its error.\<close>

definition Rel :: "string \<Rightarrow> string \<Rightarrow> string option" where
  "Rel basepath targpath =
     (let base = Clean basepath; targ = Clean targpath
      in if targ = base then Some ''.''
         else if IsAbs base \<noteq> IsAbs targ then None
         else case strip_common (if base = ''.'' then [] else components base) (components targ) of
           (bs, ts) \<Rightarrow>
             if bs \<noteq> [] \<and> hd bs = ''..'' then None
             else Some (join_path (map (\<lambda>_. ''..'') bs @ ts)))"

text \<open>\<^verbatim>\<open>strings.Cut\<close> and \<^verbatim>\<open>strings.Fields\<close> (ASCII).\<close>

fun str_cut :: "string \<Rightarrow> string \<Rightarrow> (string \<times> string) option" where
  "str_cut sep [] = (if sep = [] then Some ([], []) else None)"
| "str_cut sep (c # cs) =
     (if take (length sep) (c # cs) = sep then Some ([], drop (length sep) (c # cs))
      else map_option (\<lambda>(front, rest). (c # front, rest)) (str_cut sep cs))"

fun split_white :: "string \<Rightarrow> string list" where
  "split_white [] = [[]]"
| "split_white (c # cs) =
     (if white c then [] # split_white cs
      else case split_white cs of [] \<Rightarrow> [[c]] | w # ws \<Rightarrow> (c # w) # ws)"

definition Fields :: "string \<Rightarrow> string list" where
  "Fields s = filter (\<lambda>w. w \<noteq> []) (split_white s)"

section \<open>Reading a table\<close>

text \<open>
  A file is what could be read of it and whether reading then failed. \<^verbatim>\<open>bufio.Scanner\<close> delivers the
  lines, without a final carriage return, up to the first that does not fit its buffer.
\<close>

type_synonym table_file = "string \<times> bool"

definition max_line :: int where
  "max_line = 1024 * 1024"

definition drop_cr :: "string \<Rightarrow> string" where
  "drop_cr line = (if line \<noteq> [] \<and> last line = CHR 0x0D then butlast line else line)"

definition scanLines :: "table_file \<Rightarrow> string list \<times> bool" where
  "scanLines f =
     (case f of (content, failed) \<Rightarrow>
        let pieces = str_split CHR 0x0A content;
            pieces = (if last pieces = [] then butlast pieces else pieces);
            fitting = takeWhile (\<lambda>l. int (length l) < max_line) pieces
        in (map drop_cr fitting, failed \<or> length fitting < length pieces))"

datatype mount_error = Malformed | NoDirectory | ReadFailed

text \<open>\<^verbatim>\<open>decodeMountInfoPath\<close>: three octal digits after a backslash, and only for four characters.\<close>

definition octal_value :: "char \<Rightarrow> nat option" where
  "octal_value c = (if is_digit c \<and> digit_value c < 8 then Some (digit_value c) else None)"

definition parse_octal8 :: "char \<Rightarrow> char \<Rightarrow> char \<Rightarrow> nat option" where
  "parse_octal8 a b c =
     (case (octal_value a, octal_value b, octal_value c) of
        (Some x, Some y, Some z) \<Rightarrow> if x * 64 + y * 8 + z < 256 then Some (x * 64 + y * 8 + z) else None
      | _ \<Rightarrow> None)"

fun decodeMountInfoPath :: "string \<Rightarrow> string option" where
  "decodeMountInfoPath [] = Some []"
| "decodeMountInfoPath (c # cs) =
     (if c \<noteq> CHR 0x5C then map_option ((#) c) (decodeMountInfoPath cs)
      else case cs of
        x # y # z # rest \<Rightarrow>
          (case parse_octal8 x y z of
             None \<Rightarrow> None
           | Some v \<Rightarrow>
               if v \<noteq> 32 \<and> v \<noteq> 9 \<and> v \<noteq> 10 \<and> v \<noteq> 92 then None
               else map_option ((#) (char_of v)) (decodeMountInfoPath rest))
      | _ \<Rightarrow> None)"

text \<open>The \<^verbatim>\<open>major:minor\<close> field.\<close>

definition parseDeviceNumber :: "string \<Rightarrow> (nat \<times> nat) option" where
  "parseDeviceNumber field =
     (case str_split CHR '':'' field of
        [a, b] \<Rightarrow>
          (case (parse_uint 32 a, parse_uint 32 b) of (Some major, Some minor) \<Rightarrow> Some (major, minor) | _ \<Rightarrow> None)
      | _ \<Rightarrow> None)"

section \<open>Is a path mounted?\<close>

text \<open>The loop body of \<^verbatim>\<open>isPathInMountInfo\<close>: the mount point of a line.\<close>

definition mountPointOf :: "string \<Rightarrow> string option" where
  "mountPointOf line =
     (case str_cut '' - '' line of
        None \<Rightarrow> None
      | Some (front, rest) \<Rightarrow>
          (let fields = Fields front
           in if length fields < 6 \<or> length (Fields rest) < 3 then None
              else if parseDeviceNumber (fields ! 2) = None then None
              else case decodeMountInfoPath (fields ! 4) of
                None \<Rightarrow> None
              | Some point \<Rightarrow> if IsAbs point then Some point else None))"

fun scanMountPoints :: "string \<Rightarrow> string list \<Rightarrow> bool \<Rightarrow> bool option" where
  "scanMountPoints target [] mounted = Some mounted"
| "scanMountPoints target (line # lines) mounted =
     (case mountPointOf line of
        None \<Rightarrow> None
      | Some point \<Rightarrow> scanMountPoints target lines (mounted \<or> Clean point = target))"

definition isPathInMountInfo :: "string option \<Rightarrow> string \<Rightarrow> table_file \<Rightarrow> mount_error + bool" where
  "isPathInMountInfo cwd target f =
     (if target = [] then Inl Malformed
      else case Abs cwd target of
        None \<Rightarrow> Inl NoDirectory
      | Some path \<Rightarrow>
          (case scanLines f of (lines, failed) \<Rightarrow>
             (case scanMountPoints path lines False of
                None \<Rightarrow> Inl Malformed
              | Some mounted \<Rightarrow>
                  if failed then Inl ReadFailed else if lines = [] then Inl Malformed else Inr mounted)))"

section \<open>Is a device mounted?\<close>

definition deviceOf :: "string \<Rightarrow> (nat \<times> nat) option" where
  "deviceOf line =
     (case str_cut '' - '' line of
        None \<Rightarrow> None
      | Some (front, _) \<Rightarrow>
          (let fields = Fields front
           in if length fields < 6 then None else parseDeviceNumber (fields ! 2)))"

fun scanDevices :: "nat \<times> nat \<Rightarrow> string list \<Rightarrow> bool option" where
  "scanDevices device [] = Some False"
| "scanDevices device (line # lines) =
     (case deviceOf line of
        None \<Rightarrow> None
      | Some d \<Rightarrow> if d = device then Some True else scanDevices device lines)"

definition isDeviceInMountInfo :: "nat \<times> nat \<Rightarrow> table_file \<Rightarrow> mount_error + bool" where
  "isDeviceInMountInfo device f =
     (case scanLines f of (lines, failed) \<Rightarrow>
        (case scanDevices device lines of
           None \<Rightarrow> Inl Malformed
         | Some True \<Rightarrow> Inr True
         | Some False \<Rightarrow> if failed then Inl ReadFailed else Inr False))"

section \<open>Bind mounts of a staged volume\<close>

text \<open>The replacer of \<^verbatim>\<open>bindMountRefs\<close>: unlike \<^verbatim>\<open>decodeMountInfoPath\<close> it keeps other backslashes.\<close>

fun unescape :: "string \<Rightarrow> string" where
  "unescape [] = []"
| "unescape (c # cs) =
     (if c = CHR 0x5C \<and> take 3 cs = ''040'' then CHR '' '' # unescape (drop 3 cs)
      else if c = CHR 0x5C \<and> take 3 cs = ''011'' then CHR 0x09 # unescape (drop 3 cs)
      else if c = CHR 0x5C \<and> take 3 cs = ''012'' then CHR 0x0A # unescape (drop 3 cs)
      else if c = CHR 0x5C \<and> take 3 cs = ''134'' then CHR 0x5C # unescape (drop 3 cs)
      else c # unescape cs)"

record mount_entry =
  me_device :: string
  me_root :: string
  me_target :: string

definition mountEntryOf :: "string \<Rightarrow> mount_entry option" where
  "mountEntryOf line =
     (case str_cut '' - '' line of
        None \<Rightarrow> None
      | Some (front, rest) \<Rightarrow>
          (let filesystem = Fields rest; fields = Fields front
           in if length filesystem < 3 \<or> length fields < 6 then None
              else if parseDeviceNumber (fields ! 2) = None then None
              else let e = \<lparr>me_device = fields ! 2, me_root = unescape (fields ! 3), me_target = unescape (fields ! 4)\<rparr>
                   in if \<not> IsAbs (me_target e) \<or> (\<not> IsAbs (me_root e) \<and> filesystem ! 0 \<noteq> ''nsfs'') then None
                      else Some e))"

definition trim_suffix_slash :: "string \<Rightarrow> string" where
  "trim_suffix_slash s = (if s \<noteq> [] \<and> last s = CHR ''/'' then butlast s else s)"

definition contains_path :: "mount_entry \<Rightarrow> string \<Rightarrow> bool" where
  "contains_path e source \<longleftrightarrow>
     source = me_target e \<or> prefix (trim_suffix_slash (me_target e) @ ''/'') source"

text \<open>The loop: all entries, and the longest that contains the source, the last of equals.\<close>

fun scanEntries ::
  "string \<Rightarrow> string list \<Rightarrow> mount_entry list \<Rightarrow> mount_entry option \<Rightarrow> (mount_entry list \<times> mount_entry option) option"
where
  "scanEntries source [] found containing = Some (found, containing)"
| "scanEntries source (line # lines) found containing =
     (case mountEntryOf line of
        None \<Rightarrow> None
      | Some e \<Rightarrow>
          scanEntries source lines (found @ [e])
            (if contains_path e source \<and>
                (case containing of None \<Rightarrow> True | Some c \<Rightarrow> length (me_target e) \<ge> length (me_target c))
             then Some e else containing))"

definition bindMountRefs :: "string \<Rightarrow> table_file \<Rightarrow> mount_error + string list" where
  "bindMountRefs source f =
     (case scanLines f of (lines, failed) \<Rightarrow>
        (case scanEntries source lines [] None of
           None \<Rightarrow> Inl Malformed
         | Some (found, containing) \<Rightarrow>
             if failed then Inl ReadFailed
             else case containing of
               None \<Rightarrow> Inl Malformed
             | Some c \<Rightarrow>
                 if \<not> IsAbs (me_root c) then Inl Malformed
                 else case Rel (me_target c) source of
                   None \<Rightarrow> Inl Malformed
                 | Some relative \<Rightarrow>
                     (let root = Join [me_root c, relative]
                      in Inr (map me_target
                           (filter (\<lambda>e. me_device e = me_device c \<and> me_root e = root \<and> me_target e \<noteq> source) found)))))"

end
