(* ===== verification/Mount_Laws.thy ===== *)
theory Mount_Laws
  imports Mount_Table
begin

text \<open>
  What the readers of the mount tables promise: escaped paths are read back exactly, a table that
  cannot be read in full never counts as evidence that something is not mounted, and the bind mounts
  found for a staged volume are all the mounts of the same file or directory.
\<close>

section \<open>Escaped paths\<close>

text \<open>How the kernel writes a path into the table: four characters are escaped in octal.\<close>

definition escape_char :: "char \<Rightarrow> string" where
  "escape_char c =
     (if c = CHR '' '' then CHR 0x5C # ''040''
      else if c = CHR 0x09 then CHR 0x5C # ''011''
      else if c = CHR 0x0A then CHR 0x5C # ''012''
      else if c = CHR 0x5C then CHR 0x5C # ''134''
      else [c])"

definition encodeMountInfoPath :: "string \<Rightarrow> string" where
  "encodeMountInfoPath p = concat (map escape_char p)"

lemma parse_octal8_escapes:
  "parse_octal8 CHR ''0'' CHR ''4'' CHR ''0'' = Some 32" "parse_octal8 CHR ''0'' CHR ''1'' CHR ''1'' = Some 9"
  "parse_octal8 CHR ''0'' CHR ''1'' CHR ''2'' = Some 10" "parse_octal8 CHR ''1'' CHR ''3'' CHR ''4'' = Some 92"
  by code_simp+

lemma octal_value_Some: "octal_value c = Some n \<Longrightarrow> c = digit_char n \<and> n < 8"
  by (auto simp: octal_value_def is_digit_def digit_value_def digit_char_def less_eq_char_def split: if_splits)

lemma octal_digits:
  assumes "(b :: nat) < 8" "c < 8"
  shows "(a * 64 + b * 8 + c) div 64 = a" "(a * 64 + b * 8 + c) div 8 mod 8 = b" "(a * 64 + b * 8 + c) mod 8 = c"
proof -
  have e: "a * 64 + b * 8 + c = c + (b + a * 8) * 8" by (simp add: algebra_simps)
  have d: "(c + (b + a * 8) * 8) div 8 = b + a * 8" using assms by (simp del: distrib_right_numeral)
  show "(a * 64 + b * 8 + c) mod 8 = c" unfolding e using assms by (simp del: distrib_right_numeral)
  show "(a * 64 + b * 8 + c) div 8 mod 8 = b" unfolding e d using assms by simp
  have "(c + (b + a * 8) * 8) div 64 = (c + (b + a * 8) * 8) div 8 div 8" by (simp add: div_mult2_eq [symmetric])
  then show "(a * 64 + b * 8 + c) div 64 = a" unfolding e d using assms by simp
qed

lemma char_of_escapes:
  "char_of (32 :: nat) = CHR '' ''" "char_of (9 :: nat) = CHR 0x09" "char_of (10 :: nat) = CHR 0x0A"
  "char_of (92 :: nat) = CHR 0x5C"
  by (simp_all add: char_of_def bit_0)

lemma escaped:
  assumes "parse_octal8 x y z = Some v" "v = 32 \<or> v = 9 \<or> v = 10 \<or> v = 92"
  shows "escape_char (char_of v) = [CHR 0x5C, x, y, z]"
proof -
  from assms(1) obtain a b c where o: "octal_value x = Some a" "octal_value y = Some b" "octal_value z = Some c"
    and v: "v = a * 64 + b * 8 + c"
    by (auto simp: parse_octal8_def split: option.splits if_splits)
  note d = octal_value_Some [OF o(1)] octal_value_Some [OF o(2)] octal_value_Some [OF o(3)]
  have "x = digit_char (v div 64)" "y = digit_char (v div 8 mod 8)" "z = digit_char (v mod 8)"
    unfolding v using d octal_digits [of b c a] by simp_all
  with assms(2) show ?thesis
    by (elim disjE) (simp_all add: char_of_escapes escape_char_def digit_char_def char_of_def bit_0)
qed

lemma decode_escape: "decodeMountInfoPath (escape_char c @ s) = map_option ((#) c) (decodeMountInfoPath s)"
  by (simp add: escape_char_def parse_octal8_escapes char_of_escapes)

lemma unescape_escape: "unescape (escape_char c @ s) = c # unescape s"
  by (simp add: escape_char_def)

lemma decode_Some_encode:
  "decodeMountInfoPath s = Some p \<Longrightarrow> list_all (\<lambda>c. c \<notin> set [CHR '' '', CHR 0x09, CHR 0x0A]) s \<Longrightarrow>
     encodeMountInfoPath p = s"
proof (induction s arbitrary: p rule: decodeMountInfoPath.induct)
  case (2 c cs)
  show ?case
  proof (cases "c = CHR 0x5C")
    case False
    with 2 show ?thesis by (auto simp: encodeMountInfoPath_def escape_char_def)
  next
    case True
    with 2 show ?thesis
      by (auto simp: encodeMountInfoPath_def escaped split: list.splits option.splits if_splits)
  qed
qed (simp add: encodeMountInfoPath_def)

lemma encoded_chars: "list_all (\<lambda>c. c \<notin> set [CHR '' '', CHR 0x09, CHR 0x0A]) (encodeMountInfoPath p)"
  by (induction p) (auto simp: encodeMountInfoPath_def escape_char_def)

text \<open>
  C34: paths in a mount table. Every path the kernel writes is read back unchanged, by the strict
  decoder and by the replacer alike. Conversely, a field the strict decoder accepts is the escaped
  form of what it returns, unless the field contains a raw blank, tab or newline, which no field of
  a line does; so two different fields never denote the same path.
\<close>

theorem mountinfo_path_roundtrip:
  "decodeMountInfoPath (encodeMountInfoPath p) = Some p \<and> unescape (encodeMountInfoPath p) = p \<and>
   (case decodeMountInfoPath s of
      None \<Rightarrow> True
    | Some q \<Rightarrow> encodeMountInfoPath q = s \<longleftrightarrow> list_all (\<lambda>c. c \<notin> set [CHR '' '', CHR 0x09, CHR 0x0A]) s)"
proof (intro conjI)
  show "decodeMountInfoPath (encodeMountInfoPath p) = Some p"
    by (induction p) (simp_all add: encodeMountInfoPath_def decode_escape)
  show "unescape (encodeMountInfoPath p) = p"
    by (induction p) (simp_all add: encodeMountInfoPath_def unescape_escape)
  show "case decodeMountInfoPath s of
      None \<Rightarrow> True
    | Some q \<Rightarrow> encodeMountInfoPath q = s \<longleftrightarrow> list_all (\<lambda>c. c \<notin> set [CHR '' '', CHR 0x09, CHR 0x0A]) s"
    using decode_Some_encode [of s] encoded_chars by (auto split: option.split)
qed

section \<open>Mounted or not\<close>

lemma scanMountPoints_iff:
  "scanMountPoints path lines m = Some b \<longleftrightarrow>
     list_all (\<lambda>l. mountPointOf l \<noteq> None) lines \<and>
     (b \<longleftrightarrow> m \<or> list_ex (\<lambda>l. map_option Clean (mountPointOf l) = Some path) lines)"
  by (induction lines arbitrary: m) (auto split: option.split)

lemma scanMountPoints_None:
  "scanMountPoints path lines m = None \<longleftrightarrow> \<not> list_all (\<lambda>l. mountPointOf l \<noteq> None) lines"
  by (induction lines arbitrary: m) (auto split: option.split)

lemma scanDevices_iff:
  "scanDevices d lines = Some False \<longleftrightarrow> list_all (\<lambda>l. deviceOf l \<noteq> None \<and> deviceOf l \<noteq> Some d) lines"
  "scanDevices d lines = Some True \<longleftrightarrow>
     Some d \<in> set (takeWhile (\<lambda>x. x \<noteq> None) (map deviceOf lines))"
  by (induction lines) (auto split: option.split)


end
