(* ===== verification/Node_Host.thy ===== *)
theory Node_Host
  imports Mount_Table Retry Backend_API
begin

text \<open>
  The node service's environment and memory. Commands, files, the mount tables, contexts, timers
  and the backend client are fields of the record \<open>host\<close>: functions on an unspecified world \<open>'w\<close>,
  so an answer may depend on everything before it and on what the kernel, the kubelet or an operator
  did in between. The record \<open>node\<close> is what the \<^verbatim>\<open>NodeService\<close> keeps in memory, and a ghost trace of
  what a handler did to the host and of the observations its safety rests on. With them, the
  operations of \<^verbatim>\<open>src/pkg/mount\<close> that the handlers call.
\<close>

section \<open>Answers of the host\<close>

record os_error =
  oe_NotExist :: bool
  oe_Exist :: bool
  oe_text :: string

text \<open>The error of a command: its exit status, if it ran to its end, and the text.\<close>

record cmd_error =
  ce_ExitCode :: "int option"
  ce_text :: string

record cmd_result =
  cr_output :: string
  cr_err :: "cmd_error option"

text \<open>\<^verbatim>\<open>os.FileInfo\<close>: the mode bits the code looks at, and the device number of a device file.\<close>

record file_info =
  fi_IsDir :: bool
  fi_Symlink :: bool
  fi_Device :: bool
  fi_CharDevice :: bool
  fi_Rdev :: "(nat \<times> nat) option"

text \<open>\<^verbatim>\<open>syscall.Statfs_t\<close>.\<close>

record statfs =
  sf_Bsize :: int
  sf_Blocks :: uint64
  sf_Bfree :: uint64
  sf_Bavail :: uint64
  sf_Files :: uint64
  sf_Ffree :: uint64

text \<open>The context of the request, or a detached one with a time limit of its own.\<close>

datatype context_kind = Request | Detached

datatype host_error = ContextEnded ctx_error | Failed os_error | BadTable mount_error | BadDevice

text \<open>
  What \<^verbatim>\<open>Open\<close>, \<^verbatim>\<open>Readdirnames(1)\<close> and \<^verbatim>\<open>Close\<close> of a directory return (the end of the directory is the
  error \<^verbatim>\<open>io.EOF\<close>), and what comes first where a goroutine does this beside a timer and a context.
\<close>

datatype read_error = EOF | ReadFailed os_error

datatype directory_read = NotOpened os_error | Opened "read_error option" "os_error option"

datatype reading = ReadDone directory_read | ReadTimeout | ReadCancelled ctx_error

section \<open>The environment\<close>

text \<open>
  \<open>os_mountinfo\<close> opens, reads and closes a mount table, that of process 1 (the host's) or the own
  one; \<open>os_Before\<close> is \<^verbatim>\<open>time.Now().Before(deadline)\<close> in a loop that waits.
\<close>

record 'w host =
  os_testMode :: bool
  os_nodeID :: string
  os_enableDiscovery :: bool
  os_cwd :: "string option"
  os_hasClient :: bool
  os_run :: "string list \<Rightarrow> 'w \<Rightarrow> cmd_result \<times> 'w"
  os_Stat :: "string \<Rightarrow> 'w \<Rightarrow> (os_error + file_info) \<times> 'w"
  os_Lstat :: "string \<Rightarrow> 'w \<Rightarrow> (os_error + file_info) \<times> 'w"
  os_Readlink :: "string \<Rightarrow> 'w \<Rightarrow> (os_error + string) \<times> 'w"
  os_EvalSymlinks :: "string \<Rightarrow> 'w \<Rightarrow> (os_error + string) \<times> 'w"
  os_ReadFile :: "string \<Rightarrow> 'w \<Rightarrow> (os_error + string) \<times> 'w"
  os_ReadDir :: "string \<Rightarrow> 'w \<Rightarrow> (os_error + string list) \<times> 'w"
  os_Glob :: "string \<Rightarrow> 'w \<Rightarrow> (os_error + string list) \<times> 'w"
  os_Statfs :: "string \<Rightarrow> 'w \<Rightarrow> (os_error + statfs) \<times> 'w"
  os_mountinfo :: "bool \<Rightarrow> 'w \<Rightarrow> (os_error + table_file \<times> os_error option) \<times> 'w"
  os_MkdirAll :: "string \<Rightarrow> 'w \<Rightarrow> os_error option \<times> 'w"
  os_Remove :: "string \<Rightarrow> 'w \<Rightarrow> os_error option \<times> 'w"
  os_CreateExcl :: "string \<Rightarrow> 'w \<Rightarrow> os_error option \<times> 'w"
  os_Symlink :: "string \<Rightarrow> string \<Rightarrow> 'w \<Rightarrow> os_error option \<times> 'w"
  os_WriteFile :: "string \<Rightarrow> string \<Rightarrow> 'w \<Rightarrow> os_error option \<times> 'w"
  os_WriteTemp :: "string \<Rightarrow> 'w \<Rightarrow> (os_error + string) \<times> 'w"
  os_ReadDirectory :: "string \<Rightarrow> 'w \<Rightarrow> reading \<times> 'w"
  os_ctxErr :: "context_kind \<Rightarrow> 'w \<Rightarrow> ctx_error option \<times> 'w"
  os_After :: "context_kind \<Rightarrow> int \<Rightarrow> 'w \<Rightarrow> ctx_error option \<times> 'w"
  os_Sleep :: "int \<Rightarrow> 'w \<Rightarrow> unit \<times> 'w"
  os_Before :: "'w \<Rightarrow> bool \<times> 'w"
  os_Now :: "'w \<Rightarrow> int \<times> 'w"
  os_lock :: "string \<Rightarrow> 'w \<Rightarrow> ctx_error option \<times> 'w"
  os_semaphore :: "'w \<Rightarrow> ctx_error option \<times> 'w"
  os_GetSubvolume :: "string \<Rightarrow> string \<Rightarrow> 'w \<Rightarrow> (go_error + subvolume option) \<times> 'w"

section \<open>The node's memory and its trace\<close>

text \<open>
  An event is a call with its answer: \<open>RemovedPath\<close> and \<open>WroteFile\<close> carry the error, so the path is gone
  or the file written only if there is none. \<open>MadeDir\<close>, \<open>MadeFile\<close> and \<open>MadeLink\<close> are attempts.
\<close>

datatype host_event =
    Locked string
  | Unlocked string
  | Ran "string list" cmd_result
  | SawMounted string "host_error + bool"
  | SawSource string "host_error + bool"
  | SawRefs string "host_error + string list"
  | SawLink string "os_error + file_info"
  | SawFile string "os_error + string"
  | SawStat string "os_error + file_info"
  | SawTarget string "os_error + string"
  | SawResolved string "os_error + string"
  | SawGlob string "os_error + string list"
  | RemovedPath string "os_error option"
  | MadeDir string
  | MadeFile string
  | MadeLink string string
  | WroteFile string "os_error option"

record 'w node =
  nworld :: 'w
  trace :: "host_event list"
  testPublications :: "(string, string fset) fmap"
  recentUnmounts :: "(string, int) fmap"

type_synonym ('w, 'a) nop = "('w node, 'a) state"

definition ask :: "('w \<Rightarrow> 'r \<times> 'w) \<Rightarrow> ('r \<Rightarrow> host_event list) \<Rightarrow> ('w, 'r) nop" where
  "ask f ev =
     State (\<lambda>s. case f (nworld s) of (r, w) \<Rightarrow> (r, s\<lparr>nworld := w, trace := trace s @ ev r\<rparr>))"

abbreviation peek :: "('w \<Rightarrow> 'r \<times> 'w) \<Rightarrow> ('w, 'r) nop" where
  "peek f \<equiv> ask f (\<lambda>_. [])"

lemma run_state_ask [simp]:
  "run_state (ask f ev) s = (case f (nworld s) of (r, w) \<Rightarrow> (r, s\<lparr>nworld := w, trace := trace s @ ev r\<rparr>))"
  by (simp add: ask_def)

lemma wp_ask:
  "wp (ask f ev) Q s = (case f (nworld s) of (r, w) \<Rightarrow> Q r (s\<lparr>nworld := w, trace := trace s @ ev r\<rparr>))"
  by (simp add: wp_def split: prod.split)

lemma wp_askI: "(\<And>r w. Q r (s\<lparr>nworld := w, trace := trace s @ ev r\<rparr>)) \<Longrightarrow> wp (ask f ev) Q s"
  by (simp add: wp_ask split: prod.split)

definition note_event :: "host_event \<Rightarrow> ('w, unit) nop" where
  "note_event e = State (\<lambda>s. ((), s\<lparr>trace := trace s @ [e]\<rparr>))"

lemma wp_note_event [wp_rules]: "wp (note_event e) Q s = Q () (s\<lparr>trace := trace s @ [e]\<rparr>)"
  by (simp add: note_event_def wp_def)

definition Run :: "'w host \<Rightarrow> string list \<Rightarrow> ('w, cmd_result) nop" where
  "Run H cmd = ask (os_run H cmd) (\<lambda>r. [Ran cmd r])"

definition Lstat :: "'w host \<Rightarrow> string \<Rightarrow> ('w, os_error + file_info) nop" where
  "Lstat H path = ask (os_Lstat H path) (\<lambda>r. [SawLink path r])"

definition Stat :: "'w host \<Rightarrow> string \<Rightarrow> ('w, os_error + file_info) nop" where
  "Stat H path = ask (os_Stat H path) (\<lambda>r. [SawStat path r])"

definition ReadFile :: "'w host \<Rightarrow> string \<Rightarrow> ('w, os_error + string) nop" where
  "ReadFile H path = ask (os_ReadFile H path) (\<lambda>r. [SawFile path r])"

definition Readlink :: "'w host \<Rightarrow> string \<Rightarrow> ('w, os_error + string) nop" where
  "Readlink H path = ask (os_Readlink H path) (\<lambda>r. [SawTarget path r])"

definition EvalSymlinks :: "'w host \<Rightarrow> string \<Rightarrow> ('w, os_error + string) nop" where
  "EvalSymlinks H path = ask (os_EvalSymlinks H path) (\<lambda>r. [SawResolved path r])"

definition Glob :: "'w host \<Rightarrow> string \<Rightarrow> ('w, os_error + string list) nop" where
  "Glob H pattern = ask (os_Glob H pattern) (\<lambda>r. [SawGlob pattern r])"

definition Remove :: "'w host \<Rightarrow> string \<Rightarrow> ('w, os_error option) nop" where
  "Remove H path = ask (os_Remove H path) (\<lambda>r. [RemovedPath path r])"

definition MkdirAll :: "'w host \<Rightarrow> string \<Rightarrow> ('w, os_error option) nop" where
  "MkdirAll H path = ask (os_MkdirAll H path) (\<lambda>_. [MadeDir path])"

definition Sleep :: "'w host \<Rightarrow> int \<Rightarrow> ('w, unit) nop" where
  "Sleep H d = peek (os_Sleep H d)"

lemmas host_ops = Run_def Lstat_def Stat_def ReadFile_def Readlink_def EvalSymlinks_def Glob_def Remove_def
  MkdirAll_def Sleep_def

text \<open>\<^verbatim>\<open>status.FromContextError\<close>.\<close>

definition FromContextError :: "ctx_error \<Rightarrow> failure" where
  "FromContextError e =
     Status (case e of Canceled \<Rightarrow> StatusCanceled | DeadlineExceeded \<Rightarrow> StatusDeadlineExceeded)"

text \<open>\<^verbatim>\<open>filepath.Dir\<close> and \<^verbatim>\<open>filepath.Base\<close>.\<close>

definition Dir :: "string \<Rightarrow> string" where
  "Dir path = Clean (case str_last_index CHR ''/'' path of None \<Rightarrow> [] | Some i \<Rightarrow> take (Suc i) path)"

definition Base :: "string \<Rightarrow> string" where
  "Base path =
     (if path = [] then ''.''
      else let p = trim_right path ''/''
           in if p = [] then ''/''
              else case str_last_index CHR ''/'' p of None \<Rightarrow> p | Some i \<Rightarrow> drop (Suc i) p)"

section \<open>Mounts\<close>

fun JoinMountOptions :: "string list \<Rightarrow> string" where
  "JoinMountOptions [] = []"
| "JoinMountOptions [opt] = opt"
| "JoinMountOptions (opt # next # options) = opt @ '','' @ JoinMountOptions (next # options)"

text \<open>\<^verbatim>\<open>IsMounted\<close>: the steps before its answer, which the trace records.\<close>

definition readMounted :: "'w host \<Rightarrow> context_kind \<Rightarrow> string \<Rightarrow> 'w \<Rightarrow> (host_error + bool) \<times> 'w" where
  "readMounted H ctx targetPath w =
     (case os_ctxErr H ctx w of
        (Some e, w) \<Rightarrow> (Inl (ContextEnded e), w)
      | (None, w) \<Rightarrow>
          (case os_mountinfo H False w of
             (Inl e, w) \<Rightarrow> (Inl (Failed e), w)
           | (Inr (table, closeErr), w) \<Rightarrow>
               (case isPathInMountInfo (os_cwd H) targetPath table of
                  Inl e \<Rightarrow> (Inl (BadTable e), w)
                | Inr mounted \<Rightarrow>
                    (case closeErr of
                       Some e \<Rightarrow> (Inl (Failed e), w)
                     | None \<Rightarrow>
                         (case os_ctxErr H ctx w of
                            (Some e, w) \<Rightarrow> (Inl (ContextEnded e), w)
                          | (None, w) \<Rightarrow> (Inr mounted, w))))))"

definition IsMounted :: "'w host \<Rightarrow> context_kind \<Rightarrow> string \<Rightarrow> ('w, host_error + bool) nop" where
  "IsMounted H ctx targetPath = ask (readMounted H ctx targetPath) (\<lambda>r. [SawMounted targetPath r])"

definition IsDeviceMounted :: "'w host \<Rightarrow> context_kind \<Rightarrow> string \<Rightarrow> ('w, host_error + bool) nop" where
  "IsDeviceMounted H ctx targetPath = IsMounted H ctx targetPath"

definition readSourceMounted :: "'w host \<Rightarrow> string \<Rightarrow> 'w \<Rightarrow> (host_error + bool) \<times> 'w" where
  "readSourceMounted H sourcePath w =
     (case os_ctxErr H Request w of
        (Some e, w) \<Rightarrow> (Inl (ContextEnded e), w)
      | (None, w) \<Rightarrow>
          (case os_Stat H sourcePath w of
             (Inl e, w) \<Rightarrow> (Inl (Failed e), w)
           | (Inr info, w) \<Rightarrow>
               if \<not> fi_Device info \<or> fi_CharDevice info then (Inl BadDevice, w)
               else case fi_Rdev info of
                 None \<Rightarrow> (Inl BadDevice, w)
               | Some device \<Rightarrow>
                   (case os_mountinfo H True w of
                      (Inl e, w) \<Rightarrow> (Inl (Failed e), w)
                    | (Inr (table, closeErr), w) \<Rightarrow>
                        (case isDeviceInMountInfo device table of
                           Inl e \<Rightarrow> (Inl (BadTable e), w)
                         | Inr mounted \<Rightarrow>
                             (case closeErr of
                                Some e \<Rightarrow> (Inl (Failed e), w)
                              | None \<Rightarrow> (Inr mounted, w))))))"

definition IsSourceMounted :: "'w host \<Rightarrow> string \<Rightarrow> ('w, host_error + bool) nop" where
  "IsSourceMounted H sourcePath = ask (readSourceMounted H sourcePath) (\<lambda>r. [SawSource sourcePath r])"

definition readBindMountRefs :: "'w host \<Rightarrow> string \<Rightarrow> 'w \<Rightarrow> (host_error + string list) \<times> 'w" where
  "readBindMountRefs H sourcePath w =
     (case os_ctxErr H Request w of
        (Some e, w) \<Rightarrow> (Inl (ContextEnded e), w)
      | (None, w) \<Rightarrow>
          (case os_EvalSymlinks H sourcePath w of
             (Inl e, w) \<Rightarrow> (Inl (Failed e), w)
           | (Inr source, w) \<Rightarrow>
               (case os_mountinfo H True w of
                  (Inl e, w) \<Rightarrow> (Inl (Failed e), w)
                | (Inr (table, closeErr), w) \<Rightarrow>
                    (case bindMountRefs (Clean source) table of
                       Inl e \<Rightarrow> (Inl (BadTable e), w)
                     | Inr refs \<Rightarrow>
                         (case closeErr of
                            Some e \<Rightarrow> (Inl (Failed e), w)
                          | None \<Rightarrow> (Inr refs, w))))))"

definition GetBindMountRefs :: "'w host \<Rightarrow> string \<Rightarrow> ('w, host_error + string list) nop" where
  "GetBindMountRefs H sourcePath = ask (readBindMountRefs H sourcePath) (\<lambda>r. [SawRefs sourcePath r])"

text \<open>\<^verbatim>\<open>Unmount\<close>: a normal unmount, then a lazy one; \<^const>\<open>True\<close> is success.\<close>

definition Unmount :: "'w host \<Rightarrow> string \<Rightarrow> ('w, bool) nop" where
  "Unmount H targetPath = do {
     normal \<leftarrow> Run H [''umount'', targetPath];
     if cr_err normal = None then ret True
     else do {
       lazy \<leftarrow> Run H [''umount'', ''-l'', targetPath];
       ret (cr_err lazy = None)
     }
   }"

lemmas mount_ops = IsMounted_def IsDeviceMounted_def IsSourceMounted_def GetBindMountRefs_def

end
