(* ===== verification/Node_Mounts.thy ===== *)
theory Node_Mounts
  imports Node_Host Controller_Base
begin

text \<open>
  What the node mounts and unmounts: the shares of NFS and SMB volumes
  (\<^verbatim>\<open>src/pkg/driver/node_nfs.go\<close>, \<^verbatim>\<open>node_smb.go\<close> and their option merging), the bind mounts that
  publish a staged volume (\<^verbatim>\<open>node_device.go\<close>), the single-writer check (\<^verbatim>\<open>node_publish.go\<close>), and the
  handlers \<^verbatim>\<open>NodePublishVolume\<close> and \<^verbatim>\<open>NodeUnpublishVolume\<close> of \<^verbatim>\<open>node.go\<close>. The answer of a handler is
  its failure, or \<^const>\<open>None\<close> for its empty response. The function fields that tests install in
  place of the mount package are left out.
\<close>

section \<open>Requests\<close>

text \<open>A capability with what the node uses of it: filesystem type and mount flags, or raw block.\<close>

datatype node_access = MountVolume string "string list" | BlockVolume | NoVolume

record node_capability =
  ncap_mode :: access_mode
  ncap_access :: node_access

definition is_block :: "node_capability \<Rightarrow> bool" where
  "is_block c \<longleftrightarrow> ncap_access c = BlockVolume"

definition mountFlags :: "node_capability \<Rightarrow> string list" where
  "mountFlags c = (case ncap_access c of MountVolume _ flags \<Rightarrow> flags | _ \<Rightarrow> [])"

record stage_request =
  st_VolumeId :: string
  st_StagingTargetPath :: string
  st_VolumeCapability :: "node_capability option"
  st_VolumeContext :: smap
  st_Secrets :: smap

record node_publish_request =
  npr_VolumeId :: string
  npr_TargetPath :: string
  npr_StagingTargetPath :: string
  npr_VolumeCapability :: "node_capability option"
  npr_VolumeContext :: smap
  npr_Readonly :: bool

section \<open>Mount options\<close>

definition mountOptBind :: string where
  "mountOptBind = ''bind''"

definition defaultNFSMountOptions :: "string list" where
  "defaultNFSMountOptions = [''vers=4.2'', ''nolock'']"

definition defaultSMBMountOptions :: "string list" where
  "defaultSMBMountOptions = [''vers=3.0'', ''nosharesock'', ''file_mode=0777'', ''dir_mode=0777'']"

definition extractOptionKey :: "string \<Rightarrow> string" where
  "extractOptionKey option = takeWhile (\<lambda>c. c \<noteq> CHR ''='') option"

text \<open>The body the four protocols share: user options, then the defaults with other keys.\<close>

definition mergeMountOptions :: "string list \<Rightarrow> string list \<Rightarrow> string list" where
  "mergeMountOptions defaults userOptions =
     (if userOptions = [] then defaults
      else userOptions @
        filter (\<lambda>d. extractOptionKey d \<notin> extractOptionKey ` set userOptions) defaults)"

definition getNFSMountOptions :: "string list \<Rightarrow> string list" where
  "getNFSMountOptions = mergeMountOptions defaultNFSMountOptions"

definition getSMBMountOptions :: "string list \<Rightarrow> string list" where
  "getSMBMountOptions = mergeMountOptions defaultSMBMountOptions"

section \<open>Shares\<close>

text \<open>Create a directory that \<^verbatim>\<open>os.Stat\<close> reports missing; \<^const>\<open>False\<close> is a failure to do so.\<close>

definition createMissing :: "'w host \<Rightarrow> string \<Rightarrow> ('w, bool) nop" where
  "createMissing H path = do {
     st \<leftarrow> peek (os_Stat H path);
     if (case st of Inl e \<Rightarrow> oe_NotExist e | Inr _ \<Rightarrow> False) then do {
       m \<leftarrow> MkdirAll H path;
       ret (m = None)
     }
     else ret True
   }"

text \<open>Run \<open>mount\<close> unless the path is a mount point already.\<close>

definition mountUnlessMounted :: "'w host \<Rightarrow> string \<Rightarrow> ('w, failure option) nop \<Rightarrow> ('w, failure option) nop" where
  "mountUnlessMounted H path mnt = do {
     mounted \<leftarrow> IsMounted H Request path;
     case mounted of
       Inl _ \<Rightarrow> ret (Some (Status Internal))
     | Inr True \<Rightarrow> ret None
     | Inr False \<Rightarrow> mnt
   }"

definition runMount :: "'w host \<Rightarrow> string list \<Rightarrow> ('w, failure option) nop" where
  "runMount H args = do {
     r \<leftarrow> Run H (''mount'' # args);
     ret (if cr_err r = None then None else Some (Status Internal))
   }"

definition stageNFSVolume :: "'w host \<Rightarrow> stage_request \<Rightarrow> node_capability \<Rightarrow> ('w, failure option) nop" where
  "stageNFSVolume H req cap =
     (let path = st_StagingTargetPath req;
          server = mget (st_VolumeContext req) ''server''; share = mget (st_VolumeContext req) ''share''
      in if server = [] \<or> share = [] then ret (Some (Status InvalidArgument))
         else do {
           ok \<leftarrow> createMissing H path;
           if \<not> ok then ret (Some (Status Internal))
           else if os_testMode H then ret None
           else mountUnlessMounted H path
             (runMount H [''-t'', ProtocolNFS, ''-o'', JoinMountOptions (getNFSMountOptions (mountFlags cap)),
                server @ '':'' @ share, path])
         })"

definition credentialsContent :: "smap \<Rightarrow> string" where
  "credentialsContent secrets =
     ''username='' @ mget secrets ''username'' @ [CHR 0x0A] @
     (case fmlookup secrets ''password'' of
        None \<Rightarrow> [] | Some password \<Rightarrow> ''password='' @ password @ [CHR 0x0A]) @
     (case fmlookup secrets ''domain'' of
        None \<Rightarrow> []
      | Some domain \<Rightarrow> if domain \<noteq> [] then ''domain='' @ domain @ [CHR 0x0A] else [])"

text \<open>\<^const>\<open>None\<close> is \<^verbatim>\<open>errSMBUsernameRequired\<close> or a failure to write, after which no file is left.\<close>

definition writeSMBCredentialsFile :: "'w host \<Rightarrow> smap \<Rightarrow> ('w, string option) nop" where
  "writeSMBCredentialsFile H secrets =
     (if mget secrets ''username'' = [] then ret None
      else do {
        f \<leftarrow> ask (os_WriteTemp H (credentialsContent secrets))
          (\<lambda>r. case r of Inl _ \<Rightarrow> [] | Inr path \<Rightarrow> [MadeFile path]);
        ret (case f of Inl _ \<Rightarrow> None | Inr path \<Rightarrow> Some path)
      })"

definition isSMBKerberosAuth :: "string list \<Rightarrow> bool" where
  "isSMBKerberosAuth mountOptions = list_ex (prefix ''sec=krb5'') mountOptions"

definition mountSMB :: "'w host \<Rightarrow> stage_request \<Rightarrow> string \<Rightarrow> string list \<Rightarrow> ('w, failure option) nop" where
  "mountSMB H req cifsSource mountOptions =
     (let secrets = st_Secrets req;
          mnt = (\<lambda>opts. runMount H
            [''-t'', ''cifs'', ''-o'', JoinMountOptions opts, cifsSource, st_StagingTargetPath req])
      in if mget secrets ''username'' \<noteq> [] \<and> \<not> isSMBKerberosAuth mountOptions then do {
           cred \<leftarrow> writeSMBCredentialsFile H secrets;
           case cred of
             None \<Rightarrow> ret (Some (Status Internal))
           | Some credFile \<Rightarrow> do {
               r \<leftarrow> mnt (mountOptions @ [''credentials='' @ credFile]);
               d \<leftarrow> Remove H credFile;
               ret r
             }
         }
         else if \<not> isSMBKerberosAuth mountOptions then mnt (mountOptions @ [''guest''])
         else mnt mountOptions)"

definition stageSMBVolume :: "'w host \<Rightarrow> stage_request \<Rightarrow> node_capability \<Rightarrow> ('w, failure option) nop" where
  "stageSMBVolume H req cap =
     (let path = st_StagingTargetPath req;
          server = mget (st_VolumeContext req) ''server''; share = mget (st_VolumeContext req) ''share''
      in if server = [] \<or> share = [] then ret (Some (Status InvalidArgument))
         else do {
           ok \<leftarrow> createMissing H path;
           if \<not> ok then ret (Some (Status Internal))
           else if os_testMode H then ret None
           else mountUnlessMounted H path
             (mountSMB H req (''//'' @ server @ ''/'' @ share) (getSMBMountOptions (mountFlags cap)))
         })"

text \<open>
  Unstaging a share is the same for both protocols: unmount, then remove the directory, which is
  never emptied. In test mode a failure to remove it is only logged.
\<close>

definition unstageShare :: "'w host \<Rightarrow> string \<Rightarrow> ('w, failure option) nop" where
  "unstageShare H path =
     (let removeDir = (do {
            d \<leftarrow> Remove H path;
            ret (if (case d of None \<Rightarrow> True | Some e \<Rightarrow> oe_NotExist e) then None else Some (Status Internal))
          })
      in if os_testMode H then do {
           d \<leftarrow> Remove H path;
           ret None
         }
         else do {
           mounted \<leftarrow> IsMounted H Request path;
           case mounted of
             Inl _ \<Rightarrow> ret (Some (Status Internal))
           | Inr True \<Rightarrow> do {
               ok \<leftarrow> Unmount H path;
               if ok then removeDir else ret (Some (Status Internal))
             }
           | Inr False \<Rightarrow> removeDir
         })"

definition unstageNFSVolume :: "'w host \<Rightarrow> string \<Rightarrow> ('w, failure option) nop" where
  "unstageNFSVolume H stagingTargetPath = unstageShare H stagingTargetPath"

definition unstageSMBVolume :: "'w host \<Rightarrow> string \<Rightarrow> ('w, failure option) nop" where
  "unstageSMBVolume H stagingTargetPath = unstageShare H stagingTargetPath"

section \<open>Bind mounts\<close>

definition bindOptions :: "bool \<Rightarrow> string list" where
  "bindOptions readonly = (if readonly then [mountOptBind, ''ro''] else [mountOptBind])"

definition bindMountArgs :: "bool \<Rightarrow> string \<Rightarrow> string \<Rightarrow> string list" where
  "bindMountArgs readonly source target = [''-o'', JoinMountOptions (bindOptions readonly), source, target]"

text \<open>\<^verbatim>\<open>publishNFSVolume\<close> and \<^verbatim>\<open>publishSMBVolume\<close>.\<close>

definition publishShare :: "'w host \<Rightarrow> node_publish_request \<Rightarrow> ('w, failure option) nop" where
  "publishShare H req =
     (let target = npr_TargetPath req
      in do {
        ok \<leftarrow> createMissing H target;
        if \<not> ok then ret (Some (Status Internal))
        else if os_testMode H then ret None
        else mountUnlessMounted H target
          (runMount H (bindMountArgs (npr_Readonly req) (npr_StagingTargetPath req) target))
      })"

definition publishNFSVolume :: "'w host \<Rightarrow> node_publish_request \<Rightarrow> ('w, failure option) nop" where
  "publishNFSVolume H req = publishShare H req"

definition publishSMBVolume :: "'w host \<Rightarrow> node_publish_request \<Rightarrow> ('w, failure option) nop" where
  "publishSMBVolume H req = publishShare H req"

definition publishBlockVolume :: "'w host \<Rightarrow> string \<Rightarrow> string \<Rightarrow> bool \<Rightarrow> ('w, failure option) nop" where
  "publishBlockVolume H stagingTargetPath targetPath readonly = do {
     st \<leftarrow> peek (os_Stat H stagingTargetPath);
     case st of
       Inl _ \<Rightarrow> ret (Some (Status Internal))
     | Inr info \<Rightarrow>
         if fi_IsDir info then ret (Some (Status Internal))
         else do {
           m \<leftarrow> MkdirAll H (Dir targetPath);
           if m \<noteq> None then ret (Some (Status Internal))
           else do {
             f \<leftarrow> ask (os_CreateExcl H targetPath) (\<lambda>_. [MadeFile targetPath]);
             if (case f of None \<Rightarrow> False | Some e \<Rightarrow> \<not> oe_Exist e) then ret (Some (Status Internal))
             else do {
               mounted \<leftarrow> IsDeviceMounted H Request targetPath;
               case mounted of
                 Inl _ \<Rightarrow> ret (Some (Status Internal))
               | Inr True \<Rightarrow> ret None
               | Inr False \<Rightarrow> do {
                   r \<leftarrow> runMount H (bindMountArgs readonly stagingTargetPath targetPath);
                   if r = None then ret None
                   else do {
                     d \<leftarrow> Remove H targetPath;
                     ret r
                   }
                 }
             }
           }
         }
   }"

definition publishFilesystemVolume :: "'w host \<Rightarrow> string \<Rightarrow> string \<Rightarrow> bool \<Rightarrow> ('w, failure option) nop" where
  "publishFilesystemVolume H stagingTargetPath targetPath readonly = do {
     st \<leftarrow> peek (os_Stat H stagingTargetPath);
     case st of
       Inl _ \<Rightarrow> ret (Some (Status Internal))
     | Inr info \<Rightarrow>
         if \<not> fi_IsDir info then ret (Some (Status Internal))
         else do {
           m \<leftarrow> MkdirAll H targetPath;
           if m \<noteq> None then ret (Some (Status Internal))
           else mountUnlessMounted H targetPath
             (runMount H (bindMountArgs readonly stagingTargetPath targetPath))
         }
   }"

section \<open>Publishing\<close>

definition getTestPublications :: "('w, (string, string fset) fmap) nop" where
  "getTestPublications = State (\<lambda>s. (testPublications s, s))"

definition setTestPublications ::
  "((string, string fset) fmap \<Rightarrow> (string, string fset) fmap) \<Rightarrow> ('w, unit) nop" where
  "setTestPublications f = State (\<lambda>s. ((), s\<lparr>testPublications := f (testPublications s)\<rparr>))"

definition sameTarget :: "string \<Rightarrow> string \<Rightarrow> bool" where
  "sameTarget targetPath ref \<longleftrightarrow> Clean ref = Clean targetPath"

definition checkSingleWriterPublication ::
  "'w host \<Rightarrow> node_publish_request \<Rightarrow> node_capability \<Rightarrow> ('w, failure option) nop" where
  "checkSingleWriterPublication H req cap =
     (if ncap_mode cap \<noteq> SINGLE_NODE_SINGLE_WRITER then ret None
      else if os_testMode H then do {
        pubs \<leftarrow> getTestPublications;
        ret (if fBall (case fmlookup pubs (npr_VolumeId req) of None \<Rightarrow> {||} | Some targets \<Rightarrow> targets)
                  (sameTarget (npr_TargetPath req))
             then None else Some (Status FailedPrecondition))
      }
      else if npr_StagingTargetPath req = [] then ret (Some (Status InvalidArgument))
      else do {
        r \<leftarrow> GetBindMountRefs H (npr_StagingTargetPath req);
        ret (case r of
            Inl _ \<Rightarrow> Some (Status Internal)
          | Inr refs \<Rightarrow>
              if list_all (sameTarget (npr_TargetPath req)) refs then None
              else Some (Status FailedPrecondition))
      })"

text \<open>Lock the volume, run the handler's body, unlock: \<^verbatim>\<open>defer unlock()\<close>.\<close>

definition locking :: "'w host \<Rightarrow> string \<Rightarrow> ('w, failure option) nop \<Rightarrow> ('w, failure option) nop" where
  "locking H volumeID body = do {
     l \<leftarrow> ask (os_lock H volumeID) (\<lambda>r. if r = None then [Locked volumeID] else []);
     case l of
       Some e \<Rightarrow> ret (Some (FromContextError e))
     | None \<Rightarrow> do {
         r \<leftarrow> body;
         u \<leftarrow> note_event (Unlocked volumeID);
         ret r
       }
   }"

definition publishByProtocol ::
  "'w host \<Rightarrow> node_publish_request \<Rightarrow> node_capability \<Rightarrow> ('w, failure option) nop" where
  "publishByProtocol H req cap =
     (let protocol = getProtocolFromVolumeContext (npr_VolumeContext req);
          staging = npr_StagingTargetPath req; target = npr_TargetPath req
      in if protocol = ProtocolNFS then publishNFSVolume H req
         else if protocol = ProtocolSMB then publishSMBVolume H req
         else if protocol = ProtocolNVMeOF \<or> protocol = ProtocolISCSI
         then if staging = [] then ret (Some (Status InvalidArgument))
              else if is_block cap then publishBlockVolume H staging target (npr_Readonly req)
              else publishFilesystemVolume H staging target (npr_Readonly req)
         else ret (Some (Status InvalidArgument)))"

definition rememberPublication :: "string \<Rightarrow> string \<Rightarrow> (string, string fset) fmap \<Rightarrow> (string, string fset) fmap" where
  "rememberPublication volumeID targetPath pubs =
     fmupd volumeID
       (finsert (Clean targetPath) (case fmlookup pubs volumeID of None \<Rightarrow> {||} | Some ts \<Rightarrow> ts)) pubs"

definition forgetPublication :: "string \<Rightarrow> string \<Rightarrow> (string, string fset) fmap \<Rightarrow> (string, string fset) fmap" where
  "forgetPublication volumeID targetPath pubs =
     (case fmlookup pubs volumeID of
        None \<Rightarrow> pubs
      | Some ts \<Rightarrow>
          (let rest = ts |-| {|Clean targetPath|}
           in if rest = {||} then fmdrop volumeID pubs else fmupd volumeID rest pubs))"

definition NodePublishVolume :: "'w host \<Rightarrow> node_publish_request \<Rightarrow> ('w, failure option) nop" where
  "NodePublishVolume H req =
     (if npr_VolumeId req = [] then ret (Some (Status InvalidArgument))
      else if npr_TargetPath req = [] then ret (Some (Status InvalidArgument))
      else case npr_VolumeCapability req of
        None \<Rightarrow> ret (Some (Status InvalidArgument))
      | Some cap \<Rightarrow>
          locking H (npr_VolumeId req) (do {
            single \<leftarrow> checkSingleWriterPublication H req cap;
            case single of
              Some e \<Rightarrow> ret (Some e)
            | None \<Rightarrow> do {
                r \<leftarrow> publishByProtocol H req cap;
                if os_testMode H \<and> r = None then do {
                  u \<leftarrow> setTestPublications (rememberPublication (npr_VolumeId req) (npr_TargetPath req));
                  ret r
                }
                else ret r
              }
          }))"

definition NodeUnpublishVolume :: "'w host \<Rightarrow> string \<Rightarrow> string \<Rightarrow> ('w, failure option) nop" where
  "NodeUnpublishVolume H volumeID targetPath =
     (if volumeID = [] then ret (Some (Status InvalidArgument))
      else if targetPath = [] then ret (Some (Status InvalidArgument))
      else locking H volumeID
        (if os_testMode H then do {
           d \<leftarrow> Remove H targetPath;
           u \<leftarrow> setTestPublications (forgetPublication volumeID targetPath);
           ret None
         }
         else do {
           mounted \<leftarrow> IsMounted H Request targetPath;
           case mounted of
             Inl _ \<Rightarrow> ret (Some (Status Internal))
           | Inr m \<Rightarrow> do {
               ok \<leftarrow> (if m then Unmount H targetPath else ret True);
               if \<not> ok then ret (Some (Status Internal))
               else do {
                 d \<leftarrow> Remove H targetPath;
                 ret None
               }
             }
         }))"

section \<open>Staging of block devices\<close>

definition refuseTeardownWhileStaged :: "'w host \<Rightarrow> string \<Rightarrow> ('w, failure option) nop" where
  "refuseTeardownWhileStaged H stagingTargetPath = do {
     l \<leftarrow> Lstat H stagingTargetPath;
     if (case l of Inl e \<Rightarrow> \<not> oe_NotExist e | Inr info \<Rightarrow> fi_Symlink info)
     then ret (Some (Status Unavailable))
     else do {
       mounted \<leftarrow> IsMounted H Request stagingTargetPath;
       ret (case mounted of
           Inl _ \<Rightarrow> Some (Status Unavailable)
         | Inr m \<Rightarrow> if m then Some (Status Unavailable) else None)
     }
   }"

definition stageBlockDevice :: "'w host \<Rightarrow> string \<Rightarrow> string \<Rightarrow> ('w, failure option) nop" where
  "stageBlockDevice H devicePath stagingTargetPath =
     (let link = (do {
            m \<leftarrow> MkdirAll H (Dir stagingTargetPath);
            if m \<noteq> None then ret (Some (Status Internal))
            else do {
              l \<leftarrow> ask (os_Symlink H devicePath stagingTargetPath) (\<lambda>_. [MadeLink devicePath stagingTargetPath]);
              ret (if l = None then None else Some (Status Internal))
            }
          })
      in do {
        d \<leftarrow> peek (os_Stat H devicePath);
        case d of
          Inl _ \<Rightarrow> ret (Some (Status Internal))
        | Inr _ \<Rightarrow> do {
            st \<leftarrow> peek (os_Stat H stagingTargetPath);
            case st of
              Inl _ \<Rightarrow> link
            | Inr _ \<Rightarrow> do {
                t \<leftarrow> EvalSymlinks H stagingTargetPath;
                if t = Inr devicePath then ret None
                else do {
                  r \<leftarrow> Remove H stagingTargetPath;
                  if r \<noteq> None then ret (Some (Status Internal)) else link
                }
              }
          }
      })"

end
