(* ===== verification/Node_Filesystem.thy ===== *)
theory Node_Filesystem
  imports Node_Mounts
begin

text \<open>
  Block devices on the node (\<^verbatim>\<open>src/pkg/driver/node_nvmeof_device.go\<close>, shared by iSCSI and NVMe-oF):
  waiting for a device, checking its size against the volume's, verifying and repairing the
  filesystem the backend made, and mounting it. Loops with a fixed number of attempts recurse on the
  attempts that are left.
\<close>

section \<open>Size of a device\<close>

definition getsize :: "'w host \<Rightarrow> string \<Rightarrow> ('w, cmd_result) nop" where
  "getsize H devicePath = Run H [''blockdev'', ''--getsize64'', devicePath]"

text \<open>A size that was reported, parses and is positive.\<close>

definition positiveSize :: "cmd_result \<Rightarrow> bool" where
  "positiveSize r \<longleftrightarrow>
     cr_err r = None \<and> (case atoi (trim_space (cr_output r)) of None \<Rightarrow> False | Some bytes \<Rightarrow> bytes > 0)"

definition isDeviceHealthy :: "'w host \<Rightarrow> string \<Rightarrow> ('w, bool) nop" where
  "isDeviceHealthy H devicePath = do {
     r \<leftarrow> getsize H devicePath;
     ret (positiveSize r)
   }"

text \<open>\<^verbatim>\<open>verifyDeviceHealthy\<close>: five attempts, half a second apart.\<close>

fun verifyDeviceHealthyLoop :: "'w host \<Rightarrow> string \<Rightarrow> nat \<Rightarrow> ('w, bool) nop" where
  "verifyDeviceHealthyLoop H devicePath 0 = ret False"
| "verifyDeviceHealthyLoop H devicePath (Suc n) = do {
     r \<leftarrow> getsize H devicePath;
     if positiveSize r then ret True
     else if n > 0 then do {
       u \<leftarrow> Sleep H (Second div 2);
       verifyDeviceHealthyLoop H devicePath n
     }
     else ret False
   }"

definition verifyDeviceHealthy :: "'w host \<Rightarrow> string \<Rightarrow> ('w, bool) nop" where
  "verifyDeviceHealthy H devicePath = verifyDeviceHealthyLoop H devicePath 5"

text \<open>\<^verbatim>\<open>waitForDeviceInitialization\<close>: sixty attempts, a second apart; \<^const>\<open>False\<close> is its error.\<close>

fun waitForDeviceLoop :: "'w host \<Rightarrow> string \<Rightarrow> nat \<Rightarrow> ('w, bool) nop" where
  "waitForDeviceLoop H devicePath 0 = ret False"
| "waitForDeviceLoop H devicePath (Suc n) = do {
     c \<leftarrow> peek (os_ctxErr H Detached);
     if c \<noteq> None then ret False
     else do {
       r \<leftarrow> getsize H devicePath;
       if positiveSize r then ret True
       else if n > 0 then do {
         t \<leftarrow> peek (os_After H Detached (1 * Second));
         if t \<noteq> None then ret False else waitForDeviceLoop H devicePath n
       }
       else ret False
     }
   }"

definition waitForDeviceInitialization :: "'w host \<Rightarrow> string \<Rightarrow> ('w, bool) nop" where
  "waitForDeviceInitialization H devicePath = waitForDeviceLoop H devicePath 60"

definition forceDeviceRescan :: "'w host \<Rightarrow> string \<Rightarrow> ('w, unit) nop" where
  "forceDeviceRescan H devicePath = do {
     a \<leftarrow> Run H [''blockdev'', ''--flushbufs'', devicePath];
     b \<leftarrow> Run H [''udevadm'', ''trigger'', ''--action=change'', devicePath];
     c \<leftarrow> Run H [''udevadm'', ''settle'', ''--timeout=5''];
     ret ()
   }"

text \<open>\<^verbatim>\<open>logDeviceInfo\<close> runs commands only to log what they print.\<close>

definition logDeviceInfo :: "'w host \<Rightarrow> string \<Rightarrow> ('w, unit) nop" where
  "logDeviceInfo H devicePath = do {
     st \<leftarrow> peek (os_Stat H devicePath);
     case st of
       Inl _ \<Rightarrow> ret ()
     | Inr _ \<Rightarrow> do {
         a \<leftarrow> getsize H devicePath;
         b \<leftarrow> Run H [''blkid'', ''-p'', ''-s'', ''UUID'', ''-o'', ''value'', devicePath];
         c \<leftarrow> Run H [''blkid'', ''-p'', ''-s'', ''TYPE'', ''-o'', ''value'', devicePath];
         ret ()
       }
   }"

section \<open>Is it the right device?\<close>

datatype size_error = DeviceGone | SizeUnreadable | ErrDeviceSizeMismatch

definition getBlockDeviceSize :: "'w host \<Rightarrow> string \<Rightarrow> ('w, int option) nop" where
  "getBlockDeviceSize H devicePath = do {
     r \<leftarrow> getsize H devicePath;
     ret (if cr_err r \<noteq> None then None else atoi (trim_space (cr_output r)))
   }"

definition getExpectedCapacity :: "'w host \<Rightarrow> string \<Rightarrow> smap \<Rightarrow> ('w, int) nop" where
  "getExpectedCapacity H datasetName volumeContext =
     (let given = mget volumeContext ''expectedCapacity''
      in case (if given = [] then None else atoi given) of
           Some capacity \<Rightarrow> ret capacity
         | None \<Rightarrow>
             if datasetName = [] \<or> \<not> os_hasClient H then ret 0
             else case splitSubvolumeID datasetName of
               None \<Rightarrow> ret 0
             | Some (filesystem, name) \<Rightarrow> do {
                 g \<leftarrow> peek (os_GetSubvolume H filesystem name);
                 ret (case g of
                     Inl _ \<Rightarrow> 0
                   | Inr None \<Rightarrow> 0
                   | Inr (Some sv) \<Rightarrow> (case sv_VolsizeBytes sv of None \<Rightarrow> 0 | Some v \<Rightarrow> to_int64 v))
               })"

definition minTolerance :: int where
  "minTolerance = 100 * 1024 * 1024"

definition verifySizeMatch :: "int \<Rightarrow> int \<Rightarrow> size_error option" where
  "verifySizeMatch actualSize expectedCapacity =
     (if actualSize \<ge> expectedCapacity then None
      else
        (let sizeDiff = sub64 expectedCapacity actualSize;
             tolerance = quot64 expectedCapacity 10;
             tolerance = (if tolerance < minTolerance then minTolerance else tolerance)
         in if sizeDiff > tolerance then Some ErrDeviceSizeMismatch else None))"

definition verifyDeviceSize :: "'w host \<Rightarrow> string \<Rightarrow> smap \<Rightarrow> ('w, size_error option) nop" where
  "verifyDeviceSize H devicePath volumeContext = do {
     a \<leftarrow> getBlockDeviceSize H devicePath;
     case a of
       None \<Rightarrow> do {
         st \<leftarrow> peek (os_Stat H devicePath);
         ret (Some (case st of Inl _ \<Rightarrow> DeviceGone | Inr _ \<Rightarrow> SizeUnreadable))
       }
     | Some actualSize \<Rightarrow> do {
         expectedCapacity \<leftarrow> getExpectedCapacity H (mget volumeContext ''datasetName'') volumeContext;
         ret (if expectedCapacity = 0 then None else verifySizeMatch actualSize expectedCapacity)
       }
   }"

section \<open>The filesystem on it\<close>

definition extFilesystem :: "string \<Rightarrow> bool" where
  "extFilesystem fsType \<longleftrightarrow> fsType = ''ext2'' \<or> fsType = ''ext3'' \<or> fsType = ''ext4''"

definition blkidType :: "string \<Rightarrow> string list" where
  "blkidType devicePath = [''blkid'', ''-p'', ''-s'', ''TYPE'', ''-o'', ''value'', devicePath]"

text \<open>The outcome of the probe loop: the wanted filesystem, or none found; with no signature at all?\<close>

datatype probe = Verified | Unverified bool

fun probeLoop :: "'w host \<Rightarrow> string \<Rightarrow> string \<Rightarrow> nat \<Rightarrow> int \<Rightarrow> bool \<Rightarrow> ('w, failure + probe) nop" where
  "probeLoop H devicePath fsType 0 attempt lastNoSignature = ret (Inr (Unverified lastNoSignature))"
| "probeLoop H devicePath fsType (Suc n) attempt lastNoSignature = do {
     r \<leftarrow> Run H (blkidType devicePath);
     probeErr \<leftarrow> peek (os_ctxErr H Detached);
     ctxErr \<leftarrow> peek (os_ctxErr H Request);
     case ctxErr of
       Some e \<Rightarrow> ret (Inl (FromContextError e))
     | None \<Rightarrow>
         (let detected = trim_space (cr_output r)
          in if probeErr = None \<and> cr_err r = None \<and> detected \<noteq> []
             then ret (if detected \<noteq> fsType then Inl (Status FailedPrecondition) else Inr Verified)
             else
               (let noSignature = (probeErr = None \<and> (case cr_err r of
                      None \<Rightarrow> True | Some e \<Rightarrow> ce_ExitCode e = Some 2 \<and> detected = []))
                in if n > 0 then do {
                     t \<leftarrow> peek (os_After H Request (attempt * (Second div 2)));
                     case t of
                       Some e \<Rightarrow> ret (Inl (FromContextError e))
                     | None \<Rightarrow> probeLoop H devicePath fsType n (attempt + 1) noSignature
                   }
                   else ret (Inr (Unverified noSignature))))
   }"

text \<open>\<^verbatim>\<open>repairFilesystem\<close>; \<^const>\<open>False\<close> is its error. Exit status 1 means errors were corrected.\<close>

definition repairFilesystem :: "'w host \<Rightarrow> string \<Rightarrow> string \<Rightarrow> ('w, bool) nop" where
  "repairFilesystem H devicePath fsType =
     (if \<not> extFilesystem fsType then ret True
      else do {
        c \<leftarrow> peek (os_ctxErr H Request);
        if c \<noteq> None then ret False
        else do {
          r \<leftarrow> Run H [''e2fsck'', ''-p'', ''-f'', devicePath];
          ret (case cr_err r of None \<Rightarrow> True | Some e \<Rightarrow> ce_ExitCode e = Some 1)
        }
      })"

definition prepareFilesystemForMount :: "'w host \<Rightarrow> string \<Rightarrow> string \<Rightarrow> ('w, failure option) nop" where
  "prepareFilesystemForMount H devicePath fsType = do {
     p \<leftarrow> probeLoop H devicePath fsType 3 1 False;
     case p of
       Inl e \<Rightarrow> ret (Some e)
     | Inr (Unverified noSignature) \<Rightarrow>
         ret (Some (Status (if noSignature then FailedPrecondition else Unavailable)))
     | Inr Verified \<Rightarrow> do {
         m \<leftarrow> (if extFilesystem fsType then do {
                s \<leftarrow> IsSourceMounted H devicePath;
                ret (case s of
                    Inl _ \<Rightarrow> Some (Status Unavailable)
                  | Inr mounted \<Rightarrow> if mounted then Some (Status FailedPrecondition) else None)
              }
              else ret None);
         case m of
           Some e \<Rightarrow> ret (Some e)
         | None \<Rightarrow> do {
             ok \<leftarrow> repairFilesystem H devicePath fsType;
             ret (if ok then None else Some (Status FailedPrecondition))
           }
       }
   }"

section \<open>Mounting it\<close>

definition defaultBlockMountOptions :: "string list" where
  "defaultBlockMountOptions = [''noatime'', ''_netdev'', ''errors=continue'']"

definition getISCSIMountOptions :: "string list \<Rightarrow> string list" where
  "getISCSIMountOptions = mergeMountOptions defaultBlockMountOptions"

definition getNVMeOFMountOptions :: "string list \<Rightarrow> string list" where
  "getNVMeOFMountOptions = mergeMountOptions defaultBlockMountOptions"

definition requestedFsType :: "node_capability \<Rightarrow> string" where
  "requestedFsType cap =
     (case ncap_access cap of MountVolume fsType _ \<Rightarrow> if fsType \<noteq> [] then fsType else ''ext4'' | _ \<Rightarrow> ''ext4'')"

definition deviceMountArgs :: "string list \<Rightarrow> string \<Rightarrow> string \<Rightarrow> string list" where
  "deviceMountArgs mountOptions devicePath path =
     (if mountOptions \<noteq> [] then [''-o'', JoinMountOptions mountOptions, devicePath, path]
      else [devicePath, path])"

text \<open>The common part of \<^verbatim>\<open>formatAndMountISCSIDevice\<close> and \<^verbatim>\<open>formatAndMountNVMeDevice\<close>.\<close>

definition mountVerifiedDevice ::
  "'w host \<Rightarrow> string \<Rightarrow> string \<Rightarrow> node_capability \<Rightarrow> string list \<Rightarrow> ('w, failure option) nop"
where
  "mountVerifiedDevice H devicePath stagingTargetPath cap mountOptions = do {
     m \<leftarrow> MkdirAll H stagingTargetPath;
     if m \<noteq> None then ret (Some (Status Internal))
     else mountUnlessMounted H stagingTargetPath (do {
       p \<leftarrow> prepareFilesystemForMount H devicePath (requestedFsType cap);
       case p of
         Some e \<Rightarrow> ret (Some e)
       | None \<Rightarrow> runMount H (deviceMountArgs mountOptions devicePath stagingTargetPath)
     })
   }"

definition verifyAndMountDevice ::
  "'w host \<Rightarrow> string \<Rightarrow> string \<Rightarrow> node_capability \<Rightarrow> smap \<Rightarrow> string list \<Rightarrow> ('w, failure option) nop"
where
  "verifyAndMountDevice H devicePath stagingTargetPath cap volumeContext mountOptions = do {
     u \<leftarrow> logDeviceInfo H devicePath;
     v \<leftarrow> verifyDeviceSize H devicePath volumeContext;
     if v \<noteq> None then ret (Some (Status FailedPrecondition))
     else mountVerifiedDevice H devicePath stagingTargetPath cap mountOptions
   }"

end
