(* ===== verification/Node_ISCSI.thy ===== *)
theory Node_ISCSI
  imports Node_Filesystem
begin

text \<open>
  iSCSI volumes on the node (\<^verbatim>\<open>src/pkg/driver/node_iscsi.go\<close>, with the session queries of
  \<^verbatim>\<open>node_health.go\<close> and \<^verbatim>\<open>node_recovery.go\<close>): sessions, discovery, login and logout, finding the disk of
  a session in the output of \<^verbatim>\<open>iscsiadm\<close>, staging and unstaging.
\<close>

section \<open>Commands\<close>

definition iscsiadmCmd :: "'w host \<Rightarrow> string list \<Rightarrow> ('w, cmd_result) nop" where
  "iscsiadmCmd H args = do {
     st \<leftarrow> peek (os_Stat H ''/proc/1/ns/mnt'');
     case st of
       Inr _ \<Rightarrow> Run H ([''nsenter'', ''--mount=/proc/1/ns/mnt'', ''--ipc=/proc/1/ns/ipc'', ''--'', ''iscsiadm''] @ args)
     | Inl _ \<Rightarrow> Run H (''iscsiadm'' # args)
   }"

record iscsiConnectionParams =
  ic_iqn :: string
  ic_server :: string
  ic_port :: string
  ic_lun :: int

definition validateISCSIParams_node :: "smap \<Rightarrow> failure + iscsiConnectionParams" where
  "validateISCSIParams_node volumeContext =
     (let iqn = mget volumeContext ''iscsiIQN''; server = mget volumeContext ''server'';
          port = mget volumeContext ''port''
      in if iqn = [] \<or> server = [] then Inl (Status InvalidArgument)
         else Inr \<lparr>ic_iqn = iqn, ic_server = server, ic_port = (if port = [] then ''3260'' else port), ic_lun = 0\<rparr>)"

definition checkISCSIAdm :: "'w host \<Rightarrow> ('w, bool) nop" where
  "checkISCSIAdm H = do {
     r \<leftarrow> iscsiadmCmd H [''--version''];
     ret (cr_err r = None)
   }"

datatype iscsi_error =
  ErrISCSIDeviceNotFound | ErrISCSIDeviceTimeout | ErrISCSILoginFailed | ErrISCSIDiscoveryFailed

section \<open>Parsing the output of iscsiadm\<close>

definition output_lines :: "string \<Rightarrow> string list" where
  "output_lines s = str_split CHR 0x0A s"

text \<open>A portal without its \<^verbatim>\<open>,tpg\<close> suffix.\<close>

definition stripTPG :: "string \<Rightarrow> string" where
  "stripTPG portal = (case str_last_index CHR '','' portal of None \<Rightarrow> portal | Some i \<Rightarrow> take i portal)"

definition portalOfLine :: "string \<Rightarrow> string \<Rightarrow> string option" where
  "portalOfLine iqn line =
     (let line = trim_space line; parts = Fields line
      in if \<not> str_contains line iqn then None
         else if length parts < 2 then None
         else Some (stripTPG (parts ! 0)))"

definition findAllDiscoveredPortals :: "string \<Rightarrow> string \<Rightarrow> string list" where
  "findAllDiscoveredPortals discoveryOutput iqn = List.map_filter (portalOfLine iqn) (output_lines discoveryOutput)"

definition findDiscoveredPortal :: "string \<Rightarrow> string \<Rightarrow> string" where
  "findDiscoveredPortal discoveryOutput iqn =
     (case findAllDiscoveredPortals discoveryOutput iqn of [] \<Rightarrow> [] | portal # _ \<Rightarrow> portal)"

text \<open>The word after the first \<open>w\<close> that has one.\<close>

fun wordAfter :: "string \<Rightarrow> string list \<Rightarrow> string option" where
  "wordAfter w (x # y # parts) = (if x = w then Some y else wordAfter w (y # parts))"
| "wordAfter w _ = None"

fun sessionDeviceLoop :: "string \<Rightarrow> bool \<Rightarrow> string list \<Rightarrow> string" where
  "sessionDeviceLoop targetIQN inTargetSection [] = []"
| "sessionDeviceLoop targetIQN inTargetSection (l # lines) =
     (let line = trim_space l
      in if prefix ''Target:'' line
         then sessionDeviceLoop targetIQN (prefix targetIQN (trim_space (drop 7 line))) lines
         else if inTargetSection \<and> str_contains line ''Attached scsi disk''
         then (case wordAfter ''disk'' (Fields line) of
                 Some device \<Rightarrow> device
               | None \<Rightarrow> sessionDeviceLoop targetIQN inTargetSection lines)
         else sessionDeviceLoop targetIQN inTargetSection lines)"

definition parseISCSISessionDevice :: "string \<Rightarrow> string \<Rightarrow> string" where
  "parseISCSISessionDevice output targetIQN = sessionDeviceLoop targetIQN False (output_lines output)"

text \<open>\<^verbatim>\<open>parseISCSISessionInfo\<close>: the target and portal whose section has the disk.\<close>

fun hasDisk :: "string \<Rightarrow> string list \<Rightarrow> bool" where
  "hasDisk devName (x # y # parts) \<longleftrightarrow> x = ''disk'' \<and> y = devName \<or> hasDisk devName (y # parts)"
| "hasDisk devName _ \<longleftrightarrow> False"

fun sessionInfoLoop :: "string \<Rightarrow> string \<Rightarrow> string \<Rightarrow> string list \<Rightarrow> string \<times> string" where
  "sessionInfoLoop devName iqn portal [] = ([], [])"
| "sessionInfoLoop devName iqn portal (l # lines) =
     (let line = trim_space l
      in if prefix ''Target:'' line
         then sessionInfoLoop devName
                (case Fields (trim_space (drop 7 line)) of [] \<Rightarrow> iqn | w # _ \<Rightarrow> w) [] lines
         else if prefix ''Current Portal:'' line
         then sessionInfoLoop devName iqn (stripTPG (trim_space (drop 15 line))) lines
         else if str_contains line ''Attached scsi disk'' \<and> hasDisk devName (Fields line) then (iqn, portal)
         else sessionInfoLoop devName iqn portal lines)"

definition parseISCSISessionInfo :: "string \<Rightarrow> string \<Rightarrow> string \<times> string" where
  "parseISCSISessionInfo output devName = sessionInfoLoop devName [] [] (output_lines output)"

section \<open>Sessions\<close>

definition getISCSISessionInfoFromIscsiadm :: "'w host \<Rightarrow> string \<Rightarrow> ('w, string \<times> string) nop" where
  "getISCSISessionInfoFromIscsiadm H devName = do {
     r \<leftarrow> iscsiadmCmd H [''-m'', ''session'', ''-P'', ''3''];
     ret (if cr_err r \<noteq> None then ([], []) else parseISCSISessionInfo (cr_output r) devName)
   }"

definition replace_first :: "string \<Rightarrow> string \<Rightarrow> string \<Rightarrow> string" where
  "replace_first s old new = (case str_cut old s of None \<Rightarrow> s | Some (a, b) \<Rightarrow> a @ new @ b)"

definition connectionGlob :: "string \<Rightarrow> string" where
  "connectionGlob sess =
     replace_first (replace_first sess ''iscsi_session'' ''iscsi_connection'') ''session'' ''connection'' @
     ''*/persistent_address''"

text \<open>The portal of a session in sysfs, if it can be read, else what was known.\<close>

definition sessionPortal :: "'w host \<Rightarrow> string \<Rightarrow> string \<Rightarrow> ('w, string) nop" where
  "sessionPortal H sess portal = do {
     g \<leftarrow> Glob H (connectionGlob sess);
     case g of
       Inr (conn # _) \<Rightarrow> do {
         a \<leftarrow> ReadFile H conn;
         ret (case a of Inl _ \<Rightarrow> portal | Inr addr \<Rightarrow> trim_space addr @ '':3260'')
       }
     | _ \<Rightarrow> ret portal
   }"

fun sysfsSessionLoop :: "'w host \<Rightarrow> string \<Rightarrow> string list \<Rightarrow> ('w, (string \<times> string) option) nop" where
  "sysfsSessionLoop H portal [] = ret None"
| "sysfsSessionLoop H portal (sess # sessions) = do {
     t \<leftarrow> ReadFile H (Join [sess, ''targetname'']);
     portal \<leftarrow> sessionPortal H sess portal;
     let iqn = (case t of Inl _ \<Rightarrow> [] | Inr name \<Rightarrow> trim_space name)
     in if iqn \<noteq> [] then ret (Some (iqn, portal)) else sysfsSessionLoop H portal sessions
   }"

definition getISCSISessionInfo :: "'w host \<Rightarrow> string \<Rightarrow> ('w, string \<times> string) nop" where
  "getISCSISessionInfo H sysBlockPath = do {
     g \<leftarrow> Glob H (sysBlockPath @ ''/device/../../iscsi_session/session*'');
     sessions \<leftarrow> (case g of
         Inr (x # xs) \<Rightarrow> ret (x # xs)
       | _ \<Rightarrow> do {
           g2 \<leftarrow> Glob H (sysBlockPath @ ''/device/../../../iscsi_session/session*'');
           ret (case g2 of Inl _ \<Rightarrow> [] | Inr xs \<Rightarrow> xs)
         });
     r \<leftarrow> sysfsSessionLoop H [] sessions;
     case r of
       Some info \<Rightarrow> ret info
     | None \<Rightarrow> getISCSISessionInfoFromIscsiadm H (Base sysBlockPath)
   }"

definition iscsiSessionStateLoggedIn :: string where
  "iscsiSessionStateLoggedIn = ''LOGGED_IN''"

text \<open>The first line that names a session state; the text after its first colon.\<close>

fun sessionStateLine :: "string list \<Rightarrow> string option" where
  "sessionStateLine [] = None"
| "sessionStateLine (line # lines) =
     (if str_contains line ''iSCSI Session State:''
      then (case str_index CHR '':'' line of
              None \<Rightarrow> sessionStateLine lines | Some i \<Rightarrow> Some (trim_space (drop (Suc i) line)))
      else sessionStateLine lines)"

definition getISCSISessionState :: "'w host \<Rightarrow> string \<Rightarrow> ('w, string option) nop" where
  "getISCSISessionState H devicePath = do {
     f \<leftarrow> ReadFile H (''/sys/block/'' @ Base devicePath @ ''/device/state'');
     case f of
       Inr content \<Rightarrow>
         ret (Some (if trim_space content = ''running'' then iscsiSessionStateLoggedIn else trim_space content))
     | Inl _ \<Rightarrow> do {
         r \<leftarrow> iscsiadmCmd H [''-m'', ''session'', ''-P'', ''1''];
         ret (if cr_err r \<noteq> None then None else sessionStateLine (output_lines (cr_output r)))
       }
   }"

section \<open>Login and logout\<close>

definition portalOf :: "iscsiConnectionParams \<Rightarrow> string" where
  "portalOf params = ic_server params @ '':'' @ ic_port params"

text \<open>Remove the node records of the other portals; failures are only logged.\<close>

fun prunePortals :: "'w host \<Rightarrow> string \<Rightarrow> string \<Rightarrow> string list \<Rightarrow> ('w, unit) nop" where
  "prunePortals H iqn portal [] = ret ()"
| "prunePortals H iqn portal (dp # dps) =
     (if dp = portal then prunePortals H iqn portal dps
      else do {
        d \<leftarrow> iscsiadmCmd H [''-m'', ''node'', ''-T'', iqn, ''-p'', dp, ''--op'', ''delete''];
        prunePortals H iqn portal dps
      })"

definition createPortalEntry :: "'w host \<Rightarrow> string \<Rightarrow> string \<Rightarrow> ('w, unit) nop" where
  "createPortalEntry H iqn portal = do {
     a \<leftarrow> iscsiadmCmd H [''-m'', ''node'', ''--op'', ''new'', ''-T'', iqn, ''-p'', portal];
     b \<leftarrow> iscsiadmCmd H [''-m'', ''node'', ''-T'', iqn, ''-p'', portal, ''--op'', ''update'', ''-n'',
            ''node.session.auth.authmethod'', ''-v'', ''None''];
     ret ()
   }"

definition loginISCSITarget :: "'w host \<Rightarrow> iscsiConnectionParams \<Rightarrow> ('w, iscsi_error option) nop" where
  "loginISCSITarget H params =
     (let portal = portalOf params; iqn = ic_iqn params
      in do {
        d \<leftarrow> iscsiadmCmd H [''-m'', ''discovery'', ''-t'', ''sendtargets'', ''-p'', portal];
        if cr_err d \<noteq> None \<and>
           (str_contains (cr_output d) ''connect'' \<or> str_contains (cr_output d) ''Connection refused'')
        then ret (Some ErrISCSIDiscoveryFailed)
        else
          (let discovered = findAllDiscoveredPortals (cr_output d) iqn
           in do {
             u \<leftarrow> prunePortals H iqn portal discovered;
             v \<leftarrow> (if portal \<notin> set discovered then createPortalEntry H iqn portal else ret ());
             l \<leftarrow> iscsiadmCmd H [''-m'', ''node'', ''-T'', iqn, ''-p'', portal, ''--login''];
             ret (if cr_err l = None \<or> str_contains (cr_output l) ''already present'' \<or>
                     str_contains (cr_output l) ''session already exists'' \<or>
                     str_contains (cr_output l) ''session exists''
                  then None else Some ErrISCSILoginFailed)
           })
      })"

text \<open>\<^verbatim>\<open>logoutISCSITarget\<close>, whose failures are only logged: it always returns nil.\<close>

definition logoutISCSITarget :: "'w host \<Rightarrow> string \<Rightarrow> ('w, unit) nop" where
  "logoutISCSITarget H iqn = do {
     a \<leftarrow> iscsiadmCmd H [''-m'', ''node'', ''-T'', iqn, ''--logout''];
     b \<leftarrow> iscsiadmCmd H [''-m'', ''node'', ''-T'', iqn, ''-o'', ''delete''];
     ret ()
   }"

definition forceKillISCSISession :: "'w host \<Rightarrow> iscsiConnectionParams \<Rightarrow> ('w, unit) nop" where
  "forceKillISCSISession H params = do {
     a \<leftarrow> iscsiadmCmd H [''-m'', ''node'', ''-T'', ic_iqn params, ''--op'', ''update'', ''-n'',
            ''node.session.timeo.replacement_timeout'', ''-v'', ''0''];
     b \<leftarrow> Sleep H (1 * Second);
     c \<leftarrow> logoutISCSITarget H (ic_iqn params);
     Sleep H (2 * Second)
   }"

definition forceKillISCSISessionByIQN :: "'w host \<Rightarrow> iscsiConnectionParams \<Rightarrow> ('w, unit) nop" where
  "forceKillISCSISessionByIQN H params = do {
     r \<leftarrow> iscsiadmCmd H [''-m'', ''session''];
     if cr_err r \<noteq> None \<or> \<not> str_contains (cr_output r) (ic_iqn params) then ret ()
     else forceKillISCSISession H params
   }"

section \<open>Finding the device\<close>

text \<open>\<^verbatim>\<open>findISCSIDevice\<close>; \<^const>\<open>None\<close> is \<^verbatim>\<open>ErrISCSIDeviceNotFound\<close>.\<close>

definition findISCSIDevice :: "'w host \<Rightarrow> iscsiConnectionParams \<Rightarrow> ('w, string option) nop" where
  "findISCSIDevice H params = do {
     r \<leftarrow> iscsiadmCmd H [''-m'', ''session'', ''-P'', ''3''];
     ret (if cr_err r \<noteq> None then None
          else let deviceName = parseISCSISessionDevice (cr_output r) (ic_iqn params)
               in if deviceName = [] then None else Some (''/dev/'' @ deviceName))
   }"

text \<open>
  \<^verbatim>\<open>waitForISCSIDevice\<close>, \<^const>\<open>None\<close> being \<^verbatim>\<open>ErrISCSIDeviceTimeout\<close>. Every round sleeps for two seconds,
  so at most fifteen start before the deadline of thirty seconds.
\<close>

fun waitForISCSIDeviceLoop :: "'w host \<Rightarrow> iscsiConnectionParams \<Rightarrow> nat \<Rightarrow> ('w, string option) nop" where
  "waitForISCSIDeviceLoop H params 0 = ret None"
| "waitForISCSIDeviceLoop H params (Suc n) = do {
     b \<leftarrow> peek (os_Before H);
     if \<not> b then ret None
     else do {
       d \<leftarrow> findISCSIDevice H params;
       found \<leftarrow> (case d of
           None \<Rightarrow> ret None
         | Some devicePath \<Rightarrow> do {
             st \<leftarrow> peek (os_Stat H devicePath);
             ret (case st of Inl _ \<Rightarrow> None | Inr _ \<Rightarrow> Some devicePath)
           });
       case found of
         Some devicePath \<Rightarrow> ret (Some devicePath)
       | None \<Rightarrow> do {
           u \<leftarrow> Sleep H (2 * Second);
           waitForISCSIDeviceLoop H params n
         }
     }
   }"

definition waitForISCSIDevice :: "'w host \<Rightarrow> iscsiConnectionParams \<Rightarrow> ('w, string option) nop" where
  "waitForISCSIDevice H params = waitForISCSIDeviceLoop H params 15"

section \<open>Staging\<close>

definition formatAndMountISCSIDevice ::
  "'w host \<Rightarrow> string \<Rightarrow> string \<Rightarrow> node_capability \<Rightarrow> smap \<Rightarrow> ('w, failure option) nop" where
  "formatAndMountISCSIDevice H devicePath stagingTargetPath cap volumeContext =
     verifyAndMountDevice H devicePath stagingTargetPath cap volumeContext
       (getISCSIMountOptions (mountFlags cap))"

definition stageISCSIDevice ::
  "'w host \<Rightarrow> string \<Rightarrow> string \<Rightarrow> node_capability \<Rightarrow> smap \<Rightarrow> ('w, failure option) nop" where
  "stageISCSIDevice H devicePath stagingTargetPath cap volumeContext = do {
     st \<leftarrow> peek (os_Stat H devicePath);
     case st of
       Inl _ \<Rightarrow> ret (Some (Status Unavailable))
     | Inr _ \<Rightarrow>
         if is_block cap then stageBlockDevice H devicePath stagingTargetPath
         else do {
           ok \<leftarrow> waitForDeviceInitialization H devicePath;
           if \<not> ok then do {
             st2 \<leftarrow> peek (os_Stat H devicePath);
             ret (Some (Status (case st2 of Inl _ \<Rightarrow> Unavailable | Inr _ \<Rightarrow> Internal)))
           }
           else do {
             u \<leftarrow> Sleep H (2 * Second);
             st3 \<leftarrow> peek (os_Stat H devicePath);
             case st3 of
               Inl _ \<Rightarrow> ret (Some (Status Unavailable))
             | Inr _ \<Rightarrow> formatAndMountISCSIDevice H devicePath stagingTargetPath cap volumeContext
           }
         }
   }"

text \<open>The loop over the two attempts; the last argument is the number that is left.\<close>

fun stageISCSIAttempts ::
  "'w host \<Rightarrow> iscsiConnectionParams \<Rightarrow> stage_request \<Rightarrow> node_capability \<Rightarrow> nat \<Rightarrow> ('w, failure option) nop"
where
  "stageISCSIAttempts H params req cap 0 = ret (Some (Status Internal))"
| "stageISCSIAttempts H params req cap (Suc n) =
     (let again = (do {
            u \<leftarrow> (if n > 0 then Sleep H (5 * Second) else ret ());
            stageISCSIAttempts H params req cap n
          })
      in do {
        l \<leftarrow> loginISCSITarget H params;
        case l of
          Some _ \<Rightarrow> again
        | None \<Rightarrow> do {
            w \<leftarrow> waitForISCSIDevice H params;
            case w of
              None \<Rightarrow> do {
                u \<leftarrow> logoutISCSITarget H (ic_iqn params);
                again
              }
            | Some devicePath \<Rightarrow> do {
                r \<leftarrow> stageISCSIDevice H devicePath (st_StagingTargetPath req) cap (st_VolumeContext req);
                if r = Some (Status Unavailable) then do {
                  u \<leftarrow> logoutISCSITarget H (ic_iqn params);
                  again
                }
                else ret r
              }
          }
      })"

definition connectISCSI ::
  "'w host \<Rightarrow> iscsiConnectionParams \<Rightarrow> stage_request \<Rightarrow> node_capability \<Rightarrow> ('w, failure option) nop" where
  "connectISCSI H params req cap = do {
     ok \<leftarrow> checkISCSIAdm H;
     if \<not> ok then ret (Some (Status FailedPrecondition))
     else stageISCSIAttempts H params req cap 2
   }"

definition stageISCSIVolume :: "'w host \<Rightarrow> stage_request \<Rightarrow> node_capability \<Rightarrow> ('w, failure option) nop" where
  "stageISCSIVolume H req cap =
     (case validateISCSIParams_node (st_VolumeContext req) of
        Inl e \<Rightarrow> ret (Some e)
      | Inr params \<Rightarrow>
          (let teardown = (\<lambda>kill. do {
                 guard \<leftarrow> refuseTeardownWhileStaged H (st_StagingTargetPath req);
                 case guard of
                   Some e \<Rightarrow> ret (Some e)
                 | None \<Rightarrow> do {
                     u \<leftarrow> kill;
                     connectISCSI H params req cap
                   }
               })
           in do {
             found \<leftarrow> findISCSIDevice H params;
             case found of
               None \<Rightarrow> teardown (forceKillISCSISessionByIQN H params)
             | Some devicePath \<Rightarrow> do {
                 st \<leftarrow> getISCSISessionState H devicePath;
                 if st = Some iscsiSessionStateLoggedIn
                 then stageISCSIDevice H devicePath (st_StagingTargetPath req) cap (st_VolumeContext req)
                 else teardown (forceKillISCSISession H params)
               }
           }))"

section \<open>Unstaging\<close>

text \<open>\<^verbatim>\<open>getStagedISCSIDevicePath\<close>; \<^const>\<open>None\<close> is its error.\<close>

definition findmntSource :: "'w host \<Rightarrow> string \<Rightarrow> ('w, cmd_result) nop" where
  "findmntSource H path = Run H [''findmnt'', ''-n'', ''-o'', ''SOURCE'', path]"

definition stagingLink :: "'w host \<Rightarrow> string \<Rightarrow> ('w, string option) nop" where
  "stagingLink H stagingTargetPath = do {
     l \<leftarrow> Readlink H stagingTargetPath;
     ret (case l of
         Inl _ \<Rightarrow> None
       | Inr target \<Rightarrow> Some (Clean (if IsAbs target then target else Join [Dir stagingTargetPath, target])))
   }"

definition getStagedISCSIDevicePath :: "'w host \<Rightarrow> string \<Rightarrow> ('w, string option) nop" where
  "getStagedISCSIDevicePath H stagingTargetPath = do {
     mounted \<leftarrow> IsMounted H Detached stagingTargetPath;
     if mounted = Inr True then do {
       r \<leftarrow> findmntSource H stagingTargetPath;
       if cr_err r \<noteq> None then ret None
       else if trim_space (cr_output r) \<noteq> [] then ret (Some (trim_space (cr_output r)))
       else stagingLink H stagingTargetPath
     }
     else stagingLink H stagingTargetPath
   }"

definition unstageISCSIVolume :: "'w host \<Rightarrow> string \<Rightarrow> ('w, failure option) nop" where
  "unstageISCSIVolume H stagingTargetPath = do {
     dev \<leftarrow> getStagedISCSIDevicePath H stagingTargetPath;
     iqn \<leftarrow> (case dev of
         None \<Rightarrow> ret []
       | Some devicePath \<Rightarrow> do {
           info \<leftarrow> getISCSISessionInfo H (''/sys/block/'' @ Base devicePath);
           ret (fst info)
         });
     mounted \<leftarrow> IsMounted H Detached stagingTargetPath;
     case mounted of
       Inl _ \<Rightarrow> ret (Some (Status Internal))
     | Inr m \<Rightarrow> do {
         ok \<leftarrow> (if m then Unmount H stagingTargetPath else ret True);
         if iqn = [] then ret None
         else do {
           u \<leftarrow> logoutISCSITarget H iqn;
           ret None
         }
       }
   }"

end
