(* ===== verification/Node_NVMeOF.thy ===== *)
theory Node_NVMeOF
  imports Node_ISCSI
begin

text \<open>
  NVMe-oF volumes on the node (\<^verbatim>\<open>src/pkg/driver/node_nvmeof.go\<close> and its \<^verbatim>\<open>_sysfs\<close>, \<^verbatim>\<open>_discovery\<close> and
  \<^verbatim>\<open>_device\<close> files): the identity of namespaces in sysfs, finding and waiting for the device of a
  subsystem, connecting and disconnecting, staging and unstaging.
\<close>

section \<open>Names in sysfs\<close>

definition digits1 :: "string \<Rightarrow> bool" where
  "digits1 s \<longleftrightarrow> s \<noteq> [] \<and> list_all is_digit s"

text \<open>The regular expressions \<^verbatim>\<open>^nvme\d+$\<close>, \<^verbatim>\<open>^nvme\d+n\d+$\<close> and \<^verbatim>\<open>^(nvme\d+n\d+)p\d+$\<close>.\<close>

definition nvmeControllerName :: "string \<Rightarrow> bool" where
  "nvmeControllerName s \<longleftrightarrow> prefix ''nvme'' s \<and> digits1 (drop 4 s)"

definition nvmeNamespaceName :: "string \<Rightarrow> bool" where
  "nvmeNamespaceName s \<longleftrightarrow>
     prefix ''nvme'' s \<and>
     (let r = drop 4 s
      in takeWhile is_digit r \<noteq> [] \<and>
         (case dropWhile is_digit r of c # ds \<Rightarrow> c = CHR ''n'' \<and> digits1 ds | [] \<Rightarrow> False))"

definition nvmeNamespacePartition :: "string \<Rightarrow> string option" where
  "nvmeNamespacePartition s =
     (case str_last_index CHR ''p'' s of
        None \<Rightarrow> None
      | Some i \<Rightarrow> if nvmeNamespaceName (take i s) \<and> digits1 (drop (Suc i) s) then Some (take i s) else None)"

definition sysBlockPath :: string where
  "sysBlockPath = ''/sys/block''"

definition nvmeSubsystemStateLive :: string where
  "nvmeSubsystemStateLive = ''live''"

definition readNVMeSysfsValue :: "'w host \<Rightarrow> string \<Rightarrow> ('w, string option) nop" where
  "readNVMeSysfsValue H path = do {
     f \<leftarrow> ReadFile H path;
     ret (case f of Inl _ \<Rightarrow> None | Inr content \<Rightarrow> Some (trim_space content))
   }"

datatype nvme_error =
    ErrNVMeDeviceNotFound | ErrNVMeDeviceUnhealthy | ErrNVMeDeviceTimeout | errNVMeAmbiguousNamespace
  | NVMeOther

fun filter_op :: "('a \<Rightarrow> ('w, bool) nop) \<Rightarrow> 'a list \<Rightarrow> ('w, 'a list) nop" where
  "filter_op p [] = ret []"
| "filter_op p (x # xs) = do {
     b \<leftarrow> p x;
     ys \<leftarrow> filter_op p xs;
     ret (if b then x # ys else ys)
   }"

definition nvmeNamespaceDeviceForNQN :: "'w host \<Rightarrow> string \<Rightarrow> string \<Rightarrow> ('w, nvme_error + string) nop" where
  "nvmeNamespaceDeviceForNQN H root nqn = do {
     d \<leftarrow> peek (os_ReadDir H root);
     case d of
       Inl _ \<Rightarrow> ret (Inl NVMeOther)
     | Inr names \<Rightarrow> do {
         found \<leftarrow> filter_op (\<lambda>name. do {
             owner \<leftarrow> readNVMeSysfsValue H (Join [root, name, ''device'', ''subsysnqn'']);
             ret (owner = Some nqn \<and> nqn \<noteq> [])
           }) (filter nvmeNamespaceName names);
         case found of
           [] \<Rightarrow> ret (Inl ErrNVMeDeviceNotFound)
         | [name] \<Rightarrow> ret (Inr (''/dev/'' @ name))
         | _ \<Rightarrow> do {
             nsidOne \<leftarrow> filter_op (\<lambda>name. do {
                 nsid \<leftarrow> readNVMeSysfsValue H (Join [root, name, ''nsid'']);
                 ret (nsid = Some ''1'')
               }) found;
             ret (case nsidOne of [name] \<Rightarrow> Inr (''/dev/'' @ name) | _ \<Rightarrow> Inl errNVMeAmbiguousNamespace)
           }
       }
   }"

definition nvmeNamespaceBase :: "string \<Rightarrow> string option" where
  "nvmeNamespaceBase device =
     (let name = (case nvmeNamespacePartition (Base device) of None \<Rightarrow> Base device | Some n \<Rightarrow> n)
      in if nvmeNamespaceName name then Some name else None)"

text \<open>\<^const>\<open>None\<close> is an error: no NVMe device, or an NQN that is unreadable or empty.\<close>

definition nvmeNQNForDevice :: "'w host \<Rightarrow> string \<Rightarrow> string \<Rightarrow> ('w, string option) nop" where
  "nvmeNQNForDevice H root device =
     (case nvmeNamespaceBase device of
        None \<Rightarrow> ret None
      | Some name \<Rightarrow> do {
          nqn \<leftarrow> readNVMeSysfsValue H (Join [root, name, ''device'', ''subsysnqn'']);
          ret (if nqn = Some [] then None else nqn)
        })"

text \<open>The first live controller of a subsystem, else the first whose state can be read.\<close>

fun controllerLoop ::
  "'w host \<Rightarrow> string \<Rightarrow> (string \<times> string) option \<Rightarrow> string list \<Rightarrow> ('w, (string \<times> string) option) nop" where
  "controllerLoop H owner first [] = ret first"
| "controllerLoop H owner first (name # names) =
     (if \<not> nvmeControllerName name then controllerLoop H owner first names
      else do {
        st \<leftarrow> readNVMeSysfsValue H (Join [owner, name, ''state'']);
        case st of
          None \<Rightarrow> controllerLoop H owner first names
        | Some ctrlState \<Rightarrow>
            if ctrlState = ''live'' then ret (Some (''/dev/'' @ name, ctrlState))
            else controllerLoop H owner
                   (case first of None \<Rightarrow> Some (''/dev/'' @ name, ctrlState) | Some f \<Rightarrow> Some f) names
      })"

definition nvmeControllerForNamespace ::
  "'w host \<Rightarrow> string \<Rightarrow> string \<Rightarrow> ('w, (string \<times> string) option) nop" where
  "nvmeControllerForNamespace H root device =
     (case nvmeNamespaceBase device of
        None \<Rightarrow> ret None
      | Some name \<Rightarrow> do {
          o1 \<leftarrow> EvalSymlinks H (Join [root, name, ''device'']);
          case o1 of
            Inl _ \<Rightarrow> ret None
          | Inr owner \<Rightarrow>
              if nvmeControllerName (Base owner) then do {
                st \<leftarrow> readNVMeSysfsValue H (Join [owner, ''state'']);
                ret (map_option (\<lambda>s. (''/dev/'' @ Base owner, s)) st)
              }
              else do {
                d \<leftarrow> peek (os_ReadDir H owner);
                case d of
                  Inl _ \<Rightarrow> ret None
                | Inr names \<Rightarrow> controllerLoop H owner None names
              }
        })"

definition getNVMeControllerState :: "'w host \<Rightarrow> string \<Rightarrow> ('w, string option) nop" where
  "getNVMeControllerState H devicePath = do {
     c \<leftarrow> nvmeControllerForNamespace H sysBlockPath devicePath;
     ret (map_option snd c)
   }"

definition extractNVMeController :: "'w host \<Rightarrow> string \<Rightarrow> ('w, string) nop" where
  "extractNVMeController H devicePath = do {
     c \<leftarrow> nvmeControllerForNamespace H sysBlockPath devicePath;
     ret (case c of None \<Rightarrow> [] | Some (controller, _) \<Rightarrow> controller)
   }"

section \<open>Parsing the list of subsystems\<close>

definition quoted :: "string \<Rightarrow> string" where
  "quoted s = CHR 0x22 # s @ [CHR 0x22]"

fun valueAfter :: "string \<Rightarrow> string list \<Rightarrow> string option" where
  "valueAfter w (x # y # z # parts) = (if x = w then Some (trim_space z) else valueAfter w (y # z # parts))"
| "valueAfter w _ = None"

fun subsystemStateLoop :: "string \<Rightarrow> bool \<Rightarrow> string list \<Rightarrow> string" where
  "subsystemStateLoop nqn foundNQN [] = []"
| "subsystemStateLoop nqn foundNQN (line # lines) =
     (let found = (foundNQN \<or> str_contains line nqn);
          st = (if found \<and> str_contains line (quoted ''State'')
                then valueAfter ''State'' (str_split CHR 0x22 line) else None)
      in case st of
           Some s \<Rightarrow> s
         | None \<Rightarrow>
             if found \<and> str_contains line (quoted ''NQN'') \<and> \<not> str_contains line nqn then []
             else subsystemStateLoop nqn found lines)"

definition runNVMeListSubsys :: "'w host \<Rightarrow> ('w, cmd_result) nop" where
  "runNVMeListSubsys H = Run H [''nvme'', ''list-subsys'', ''-o'', ''json'']"

definition getSubsystemState :: "'w host \<Rightarrow> string \<Rightarrow> ('w, string) nop" where
  "getSubsystemState H nqn = do {
     r \<leftarrow> runNVMeListSubsys H;
     ret (if cr_err r \<noteq> None then [] else subsystemStateLoop nqn False (output_lines (cr_output r)))
   }"

definition extractControllerFromParts :: "string list \<Rightarrow> string" where
  "extractControllerFromParts parts = (case valueAfter ''Name'' parts of None \<Rightarrow> [] | Some name \<Rightarrow> name)"

definition namesController :: "string \<Rightarrow> bool" where
  "namesController line \<longleftrightarrow> str_contains line (quoted ''Name'') \<and> str_contains line ''nvme''"

fun extractDevicePathFromLinesForNQN :: "'w host \<Rightarrow> string \<Rightarrow> string list \<Rightarrow> ('w, string) nop" where
  "extractDevicePathFromLinesForNQN H nqn [] = ret []"
| "extractDevicePathFromLinesForNQN H nqn (line # lines) =
     (if \<not> namesController line \<or> extractControllerFromParts (str_split CHR 0x22 line) = []
      then extractDevicePathFromLinesForNQN H nqn lines
      else do {
        d \<leftarrow> nvmeNamespaceDeviceForNQN H sysBlockPath nqn;
        ret (case d of Inl _ \<Rightarrow> [] | Inr devicePath \<Rightarrow> devicePath)
      })"

text \<open>From every line with the NQN, twenty lines are searched.\<close>

fun parseNVMeListSubsysOutputForNQN :: "'w host \<Rightarrow> string \<Rightarrow> string list \<Rightarrow> ('w, string) nop" where
  "parseNVMeListSubsysOutputForNQN H nqn [] = ret []"
| "parseNVMeListSubsysOutputForNQN H nqn (line # lines) =
     (if \<not> str_contains line nqn then parseNVMeListSubsysOutputForNQN H nqn lines
      else do {
        devicePath \<leftarrow> extractDevicePathFromLinesForNQN H nqn (take 20 (line # lines));
        if devicePath \<noteq> [] then ret devicePath else parseNVMeListSubsysOutputForNQN H nqn lines
      })"

text \<open>The first value of a \<^verbatim>\<open>Name\<close> that is the name of a controller.\<close>

fun controllerIn :: "string list \<Rightarrow> string option" where
  "controllerIn (x # y # z # parts) =
     (if x = ''Name'' \<and> nvmeControllerName (trim_space z) then Some (trim_space z)
      else controllerIn (y # z # parts))"
| "controllerIn _ = None"

fun findControllerLoop :: "string \<Rightarrow> bool \<Rightarrow> bool \<Rightarrow> string list \<Rightarrow> string" where
  "findControllerLoop nqn later foundNQN [] = []"
| "findControllerLoop nqn later foundNQN (line # lines) =
     (let found = (foundNQN \<or> str_contains line nqn);
          name = (if found \<and> namesController line then controllerIn (str_split CHR 0x22 line) else None)
      in case name of
           Some n \<Rightarrow> n
         | None \<Rightarrow>
             findControllerLoop nqn True
               (found \<and> \<not> (later \<and> str_contains line ''NQN'' \<and> \<not> str_contains line nqn)) lines)"

definition findControllerForNQN :: "string \<Rightarrow> string \<Rightarrow> string" where
  "findControllerForNQN output nqn = findControllerLoop nqn False False (output_lines output)"

section \<open>Finding the device\<close>

text \<open>An error comes with the device path, which the unhealthy case has.\<close>

type_synonym found_device = "(nvme_error \<times> string) + string"

definition forceNamespaceRescan :: "'w host \<Rightarrow> string \<Rightarrow> ('w, unit) nop" where
  "forceNamespaceRescan H controllerPath = do {
     r \<leftarrow> Run H [''nvme'', ''ns-rescan'', controllerPath];
     ret ()
   }"

definition existsHealthy :: "'w host \<Rightarrow> string \<Rightarrow> ('w, bool) nop" where
  "existsHealthy H devicePath = do {
     st \<leftarrow> peek (os_Stat H devicePath);
     case st of Inl _ \<Rightarrow> ret False | Inr _ \<Rightarrow> isDeviceHealthy H devicePath
   }"

text \<open>The namespace of a matching controller, after a rescan if it is not ready.\<close>

definition namespaceOfController :: "'w host \<Rightarrow> string \<Rightarrow> string \<Rightarrow> ('w, found_device) nop" where
  "namespaceOfController H nqn deviceName = do {
     d \<leftarrow> nvmeNamespaceDeviceForNQN H sysBlockPath nqn;
     case d of
       Inl e \<Rightarrow> ret (Inl (if e = errNVMeAmbiguousNamespace then e else ErrNVMeDeviceUnhealthy, []))
     | Inr devicePath \<Rightarrow> do {
         ok \<leftarrow> existsHealthy H devicePath;
         if ok then ret (Inr devicePath)
         else do {
           u \<leftarrow> forceNamespaceRescan H (''/dev/'' @ deviceName);
           ok2 \<leftarrow> existsHealthy H devicePath;
           ret (if ok2 then Inr devicePath else Inl (ErrNVMeDeviceUnhealthy, devicePath))
         }
       }
   }"

definition controllerEntry :: "string \<Rightarrow> bool" where
  "controllerEntry name \<longleftrightarrow>
     prefix ''nvme'' name \<and> CHR ''-'' \<notin> set name \<and> CHR ''n'' \<notin> set (drop 4 name)"

fun sysfsLoop :: "'w host \<Rightarrow> string \<Rightarrow> string list \<Rightarrow> ('w, found_device) nop" where
  "sysfsLoop H nqn [] = ret (Inl (ErrNVMeDeviceNotFound, []))"
| "sysfsLoop H nqn (deviceName # names) =
     (if \<not> controllerEntry deviceName then sysfsLoop H nqn names
      else do {
        v \<leftarrow> readNVMeSysfsValue H (Join [''/sys/class/nvme'', deviceName, ''subsysnqn'']);
        if v = Some nqn then namespaceOfController H nqn deviceName else sysfsLoop H nqn names
      })"

text \<open>Identity is resolved first, so that an ambiguity is not hidden.\<close>

definition unlessAmbiguous :: "'w host \<Rightarrow> context_kind \<Rightarrow> string \<Rightarrow> (nvme_error \<Rightarrow> 'a) \<Rightarrow> ('w, 'a) nop \<Rightarrow> ('w, 'a) nop" where
  "unlessAmbiguous H ctx nqn fail body = do {
     c \<leftarrow> peek (os_ctxErr H ctx);
     if c \<noteq> None then ret (fail NVMeOther)
     else do {
       d \<leftarrow> nvmeNamespaceDeviceForNQN H sysBlockPath nqn;
       if d = Inl errNVMeAmbiguousNamespace then ret (fail errNVMeAmbiguousNamespace) else body
     }
   }"

definition findNVMeDeviceByNQNFromSys :: "'w host \<Rightarrow> context_kind \<Rightarrow> string \<Rightarrow> ('w, found_device) nop" where
  "findNVMeDeviceByNQNFromSys H ctx nqn =
     unlessAmbiguous H ctx nqn (\<lambda>e. Inl (e, [])) (do {
       d \<leftarrow> peek (os_ReadDir H ''/sys/class/nvme'');
       case d of Inl _ \<Rightarrow> ret (Inl (NVMeOther, [])) | Inr names \<Rightarrow> sysfsLoop H nqn names
     })"

definition findNVMeDeviceByNQN :: "'w host \<Rightarrow> context_kind \<Rightarrow> string \<Rightarrow> ('w, found_device) nop" where
  "findNVMeDeviceByNQN H ctx nqn =
     unlessAmbiguous H ctx nqn (\<lambda>e. Inl (e, [])) (do {
       r \<leftarrow> runNVMeListSubsys H;
       if cr_err r \<noteq> None then findNVMeDeviceByNQNFromSys H ctx nqn
       else do {
         devicePath \<leftarrow> parseNVMeListSubsysOutputForNQN H nqn (output_lines (cr_output r));
         if devicePath \<noteq> [] then ret (Inr devicePath) else findNVMeDeviceByNQNFromSys H ctx nqn
       }
     })"

definition findNVMeDeviceByNQNWithController ::
  "'w host \<Rightarrow> context_kind \<Rightarrow> string \<Rightarrow> ('w, found_device \<times> string) nop" where
  "findNVMeDeviceByNQNWithController H ctx nqn =
     (let fromSys = (do {
            d \<leftarrow> findNVMeDeviceByNQNFromSys H ctx nqn;
            ret (d, [])
          })
      in unlessAmbiguous H ctx nqn (\<lambda>e. (Inl (e, []), [])) (do {
           r \<leftarrow> runNVMeListSubsys H;
           if cr_err r \<noteq> None then fromSys
           else
             (let controllerName = findControllerForNQN (cr_output r) nqn
              in if controllerName = [] then fromSys
                 else do {
                   d \<leftarrow> nvmeNamespaceDeviceForNQN H sysBlockPath nqn;
                   case d of
                     Inl e \<Rightarrow> ret (Inl (e, []), controllerName)
                   | Inr devicePath \<Rightarrow> do {
                       c \<leftarrow> nvmeControllerForNamespace H sysBlockPath devicePath;
                       ret (case c of
                           None \<Rightarrow> (Inl (NVMeOther, []), [])
                         | Some (controller, _) \<Rightarrow> (Inr devicePath, Base controller))
                     }
                 })
         }))"

definition triggerUdevForNVMeSubsystem :: "'w host \<Rightarrow> ('w, unit) nop" where
  "triggerUdevForNVMeSubsystem H = do {
     a \<leftarrow> Run H [''udevadm'', ''trigger'', ''--action=add'', ''--subsystem-match=nvme''];
     b \<leftarrow> Run H [''udevadm'', ''trigger'', ''--action=add'', ''--subsystem-match=block''];
     c \<leftarrow> Run H [''udevadm'', ''settle'', ''--timeout=10''];
     ret ()
   }"

text \<open>The commands of \<^verbatim>\<open>logNVMeDiscoveryDiagnostics\<close>, whose output is only logged.\<close>

definition logNVMeDiscoveryDiagnostics :: "'w host \<Rightarrow> ('w, unit) nop" where
  "logNVMeDiscoveryDiagnostics H = do {
     a \<leftarrow> Run H [''nvme'', ''list-subsys''];
     b \<leftarrow> Run H [''nvme'', ''list''];
     c \<leftarrow> peek (os_ReadDir H ''/sys/class/nvme'');
     d \<leftarrow> Run H [''ls'', ''-la'', ''/dev/nvme*''];
     ret ()
   }"

end
