(* ===== verification/Node_NVMeOF_Stage.thy ===== *)
theory Node_NVMeOF_Stage
  imports Node_NVMeOF
begin

text \<open>
  Connecting, staging and unstaging of NVMe-oF volumes (\<^verbatim>\<open>src/pkg/driver/node_nvmeof.go\<close> and the
  connection part of \<^verbatim>\<open>node_nvmeof_device.go\<close>). The loops that wait for a deadline sleep in every
  round, so a deadline of thirty seconds and rounds of two seconds give at most fifteen rounds.
\<close>

section \<open>Waiting\<close>

fun waitForSubsystemLoop :: "'w host \<Rightarrow> string \<Rightarrow> nat \<Rightarrow> nat \<Rightarrow> ('w, bool) nop" where
  "waitForSubsystemLoop H nqn attempt 0 = do {
     st \<leftarrow> getSubsystemState H nqn;
     ret (st = nvmeSubsystemStateLive)
   }"
| "waitForSubsystemLoop H nqn attempt (Suc n) = do {
     b \<leftarrow> peek (os_Before H);
     if \<not> b then do {
       st \<leftarrow> getSubsystemState H nqn;
       ret (st = nvmeSubsystemStateLive)
     }
     else do {
       st \<leftarrow> getSubsystemState H nqn;
       if st = nvmeSubsystemStateLive then ret True
       else do {
         u \<leftarrow> (if attempt mod 5 = 0 then triggerUdevForNVMeSubsystem H else ret ());
         t \<leftarrow> peek (os_After H Detached (2 * Second));
         if t \<noteq> None then ret False else waitForSubsystemLoop H nqn (Suc attempt) n
       }
     }
   }"

definition waitForSubsystemLive :: "'w host \<Rightarrow> string \<Rightarrow> ('w, bool) nop" where
  "waitForSubsystemLive H nqn = waitForSubsystemLoop H nqn 1 15"

text \<open>One round of \<^verbatim>\<open>waitForNVMeDevice\<close>: done, given up, or the controller seen last.\<close>

datatype poll = Ready string | GiveUp nvme_error | Again string

definition rescanIf :: "'w host \<Rightarrow> bool \<Rightarrow> string \<Rightarrow> ('w, unit) nop" where
  "rescanIf H b controllerName = (if b then forceNamespaceRescan H (''/dev/'' @ controllerName) else ret ())"

definition pollFound :: "'w host \<Rightarrow> nat \<Rightarrow> string \<Rightarrow> string \<Rightarrow> string \<Rightarrow> ('w, poll) nop" where
  "pollFound H attempt lastControllerFound devicePath controllerName = do {
     st \<leftarrow> peek (os_Stat H devicePath);
     case st of
       Inr _ \<Rightarrow> do {
         ok \<leftarrow> isDeviceHealthy H devicePath;
         if ok then ret (Ready devicePath)
         else do {
           u \<leftarrow> rescanIf H (controllerName \<noteq> [] \<and> attempt mod 5 = 0) controllerName;
           ret (Again lastControllerFound)
         }
       }
     | Inl _ \<Rightarrow>
         if controllerName = [] then ret (Again lastControllerFound)
         else do {
           u \<leftarrow> rescanIf H (controllerName \<noteq> lastControllerFound \<or> attempt mod 5 = 0) controllerName;
           ret (Again controllerName)
         }
   }"

definition pollNVMeDevice :: "'w host \<Rightarrow> string \<Rightarrow> nat \<Rightarrow> string \<Rightarrow> ('w, poll) nop" where
  "pollNVMeDevice H nqn attempt lastControllerFound = do {
     f \<leftarrow> findNVMeDeviceByNQNWithController H Detached nqn;
     case f of
       (Inr devicePath, controllerName) \<Rightarrow>
         pollFound H attempt lastControllerFound devicePath controllerName
     | (Inl (e, devicePath), controllerName) \<Rightarrow>
         if e = ErrNVMeDeviceUnhealthy then do {
           u \<leftarrow> (if attempt mod 5 = 0 then do {
                  ctrl \<leftarrow> extractNVMeController H devicePath;
                  if ctrl \<noteq> [] then forceNamespaceRescan H ctrl else ret ()
                }
                else ret ());
           ret (Again lastControllerFound)
         }
         else if e = ErrNVMeDeviceNotFound \<and> controllerName \<noteq> [] then
           if controllerName \<noteq> lastControllerFound \<or> attempt mod 5 = 0 then do {
             u \<leftarrow> forceNamespaceRescan H (''/dev/'' @ controllerName);
             ret (Again controllerName)
           }
           else ret (Again lastControllerFound)
         else if e = errNVMeAmbiguousNamespace then ret (GiveUp e)
         else do {
           u \<leftarrow> (if attempt mod 10 = 0 then logNVMeDiscoveryDiagnostics H else ret ());
           ret (Again lastControllerFound)
         }
   }"

fun waitForNVMeDeviceLoop :: "'w host \<Rightarrow> string \<Rightarrow> nat \<Rightarrow> string \<Rightarrow> nat \<Rightarrow> ('w, nvme_error + string) nop" where
  "waitForNVMeDeviceLoop H nqn attempt lastControllerFound 0 = do {
     u \<leftarrow> logNVMeDiscoveryDiagnostics H;
     ret (Inl ErrNVMeDeviceTimeout)
   }"
| "waitForNVMeDeviceLoop H nqn attempt lastControllerFound (Suc n) = do {
     b \<leftarrow> peek (os_Before H);
     if \<not> b then do {
       u \<leftarrow> logNVMeDiscoveryDiagnostics H;
       ret (Inl ErrNVMeDeviceTimeout)
     }
     else do {
       p \<leftarrow> pollNVMeDevice H nqn attempt lastControllerFound;
       case p of
         Ready devicePath \<Rightarrow> ret (Inr devicePath)
       | GiveUp e \<Rightarrow> ret (Inl e)
       | Again controllerName \<Rightarrow> do {
           u \<leftarrow> (if attempt mod 10 = 0 then triggerUdevForNVMeSubsystem H else ret ());
           t \<leftarrow> peek (os_After H Detached (2 * Second));
           if t \<noteq> None then ret (Inl NVMeOther)
           else waitForNVMeDeviceLoop H nqn (Suc attempt) controllerName n
         }
     }
   }"

definition waitForNVMeDevice :: "'w host \<Rightarrow> string \<Rightarrow> ('w, nvme_error + string) nop" where
  "waitForNVMeDevice H nqn = waitForNVMeDeviceLoop H nqn 1 [] 15"

section \<open>Connecting and disconnecting\<close>

record nvmeOFConnectionParams =
  nv_nqn :: string
  nv_server :: string
  nv_transport :: string
  nv_port :: string
  nv_nrIOQueues :: string
  nv_queueSize :: string

definition validateNVMeOFParams_node :: "smap \<Rightarrow> failure + nvmeOFConnectionParams" where
  "validateNVMeOFParams_node volumeContext =
     (let nqn = mget volumeContext ''nqn''; server = mget volumeContext ''server'';
          transport = mget volumeContext ''transport''; port = mget volumeContext ''port''
      in if nqn = [] \<or> server = [] then Inl (Status InvalidArgument)
         else Inr \<lparr>nv_nqn = nqn, nv_server = server,
                   nv_transport = (if transport = [] then ''tcp'' else transport),
                   nv_port = (if port = [] then ''4420'' else port),
                   nv_nrIOQueues = mget volumeContext ''nvmeof.nr-io-queues'',
                   nv_queueSize = mget volumeContext ''nvmeof.queue-size''\<rparr>)"

definition connectArgs :: "nvmeOFConnectionParams \<Rightarrow> string list" where
  "connectArgs params =
     [''connect'', ''-t'', nv_transport params, ''-n'', nv_nqn params, ''-a'', nv_server params,
      ''-s'', nv_port params, ''--keep-alive-tmo=15'', ''--ctrl-loss-tmo=120'', ''--reconnect-delay=5''] @
     [''--nr-io-queues='' @ (if nv_nrIOQueues params \<noteq> [] then nv_nrIOQueues params else ''4'')] @
     (if nv_queueSize params \<noteq> [] then [''--queue-size='' @ nv_queueSize params] else [])"

text \<open>A failed attempt is the text of its error.\<close>

definition attemptNVMeConnect :: "'w host \<Rightarrow> nvmeOFConnectionParams \<Rightarrow> ('w, string option) nop" where
  "attemptNVMeConnect H params = do {
     r \<leftarrow> Run H (''nvme'' # connectArgs params);
     ret (case cr_err r of
         None \<Rightarrow> None
       | Some e \<Rightarrow>
           if str_contains (cr_output r) ''already connected'' then None
           else Some (''nvme connect failed: '' @ ce_text e @ '', output: '' @ cr_output r))
   }"

definition isRetryableNVMeConnectError :: "string \<Rightarrow> bool" where
  "isRetryableNVMeConnectError errStr =
     list_ex (str_contains errStr)
       [''failed to write to nvme-fabrics device'', ''could not add new controller'', ''connection refused'',
        ''connection timed out'', ''No route to host'', ''Host is down'', ''Network is unreachable'']"

definition connectRetryConfig :: "string \<Rightarrow> string config" where
  "connectRetryConfig nqn =
     \<lparr>MaxAttempts = 6, InitialBackoff = 2 * Second, MaxBackoff = 10 * Second, BackoffMultiplier = 3 / 2,
      RetryableFunc = Some isRetryableNVMeConnectError, OperationName = ''nvme-connect('' @ nqn @ '')''\<rparr>"

definition detached_retry :: "'w host \<Rightarrow> ('w node, string) retry_env" where
  "detached_retry H =
     \<lparr>ctx_Err = peek (os_ctxErr H Detached), select_after = (\<lambda>d. peek (os_After H Detached d)),
      is_uncertain = (\<lambda>_. False)\<rparr>"

definition connectNVMeOFTarget :: "'w host \<Rightarrow> nvmeOFConnectionParams \<Rightarrow> ('w, bool) nop" where
  "connectNVMeOFTarget H params = do {
     d \<leftarrow> (if os_enableDiscovery H then do {
            r \<leftarrow> Run H [''nvme'', ''discover'', ''-t'', nv_transport params, ''-a'', nv_server params, ''-s'', nv_port params];
            ret ()
          }
          else ret ());
     e \<leftarrow> WithRetryNoResult (detached_retry H) (connectRetryConfig (nv_nqn params)) (attemptNVMeConnect H params);
     if e \<noteq> None then ret False
     else do {
       u \<leftarrow> Sleep H (2 * Second);
       v \<leftarrow> triggerUdevForNVMeSubsystem H;
       ret True
     }
   }"

definition checkNVMeCLI :: "'w host \<Rightarrow> ('w, bool) nop" where
  "checkNVMeCLI H = do {
     r \<leftarrow> Run H [''nvme'', ''version''];
     ret (cr_err r = None)
   }"

text \<open>\<^verbatim>\<open>disconnectNVMeOF\<close>; callers only log its error, which is \<^const>\<open>False\<close>.\<close>

definition disconnectNVMeOF :: "'w host \<Rightarrow> string \<Rightarrow> ('w, bool) nop" where
  "disconnectNVMeOF H nqn = do {
     r \<leftarrow> Run H [''nvme'', ''disconnect'', ''-n'', nqn];
     if cr_err r \<noteq> None
     then ret (str_contains (cr_output r) ''No subsystems'' \<or> str_contains (cr_output r) ''not found'')
     else do {
       u \<leftarrow> Sleep H (1 * Second);
       ret True
     }
   }"

definition rescanNVMeNamespace :: "'w host \<Rightarrow> string \<Rightarrow> ('w, bool) nop" where
  "rescanNVMeNamespace H devicePath = do {
     controllerPath \<leftarrow> extractNVMeController H devicePath;
     if controllerPath = [] then ret False
     else do {
       r \<leftarrow> Run H [''nvme'', ''ns-rescan'', controllerPath];
       ret (cr_err r = None)
     }
   }"

section \<open>Staging\<close>

definition formatAndMountNVMeDevice ::
  "'w host \<Rightarrow> string \<Rightarrow> string \<Rightarrow> node_capability \<Rightarrow> smap \<Rightarrow> ('w, failure option) nop" where
  "formatAndMountNVMeDevice H devicePath stagingTargetPath cap volumeContext = do {
     st \<leftarrow> peek (os_Stat H devicePath);
     case st of
       Inl _ \<Rightarrow> ret (Some (Status Unavailable))
     | Inr _ \<Rightarrow>
         verifyAndMountDevice H devicePath stagingTargetPath cap volumeContext
           (getNVMeOFMountOptions (mountFlags cap))
   }"

definition stageNVMeDevice ::
  "'w host \<Rightarrow> string \<Rightarrow> string \<Rightarrow> node_capability \<Rightarrow> smap \<Rightarrow> ('w, failure option) nop" where
  "stageNVMeDevice H devicePath stagingTargetPath cap volumeContext =
     (if is_block cap then stageBlockDevice H devicePath stagingTargetPath
      else do {
        ok \<leftarrow> waitForDeviceInitialization H devicePath;
        if \<not> ok then ret (Some (Status Internal))
        else do {
          u \<leftarrow> forceDeviceRescan H devicePath;
          v \<leftarrow> Sleep H (2 * Second);
          formatAndMountNVMeDevice H devicePath stagingTargetPath cap volumeContext
        }
      })"

text \<open>
  \<^verbatim>\<open>tryReuseExistingConnection\<close>: \<open>Inl e\<close> fails, \<open>Inr True\<close> has staged the volume, \<open>Inr False\<close> goes on to
  connect. A stale connection is disconnected, unless something is still staged on it.
\<close>

definition dropStaleConnection ::
  "'w host \<Rightarrow> string \<Rightarrow> string \<Rightarrow> bool \<Rightarrow> ('w, failure + bool) nop" where
  "dropStaleConnection H nqn stagingTargetPath pause = do {
     guard \<leftarrow> refuseTeardownWhileStaged H stagingTargetPath;
     case guard of
       Some e \<Rightarrow> ret (Inl e)
     | None \<Rightarrow> do {
         d \<leftarrow> disconnectNVMeOF H nqn;
         u \<leftarrow> (if pause then Sleep H (2 * Second) else ret ());
         ret (Inr False)
       }
   }"

definition reuseDevice ::
  "'w host \<Rightarrow> string \<Rightarrow> stage_request \<Rightarrow> node_capability \<Rightarrow> string \<Rightarrow> ('w, failure + bool) nop" where
  "reuseDevice H nqn req cap devicePath = do {
     r \<leftarrow> rescanNVMeNamespace H devicePath;
     healthy \<leftarrow> verifyDeviceHealthy H devicePath;
     if \<not> healthy then dropStaleConnection H nqn (st_StagingTargetPath req) False
     else do {
       s \<leftarrow> stageNVMeDevice H devicePath (st_StagingTargetPath req) cap (st_VolumeContext req);
       ret (case s of None \<Rightarrow> Inr True | Some e \<Rightarrow> Inl e)
     }
   }"

definition tryReuseExistingConnection ::
  "'w host \<Rightarrow> nvmeOFConnectionParams \<Rightarrow> stage_request \<Rightarrow> node_capability \<Rightarrow> ('w, failure + bool) nop" where
  "tryReuseExistingConnection H params req cap = do {
     f \<leftarrow> findNVMeDeviceByNQN H Request (nv_nqn params);
     case f of
       Inl (e, _) \<Rightarrow>
         if e = errNVMeAmbiguousNamespace then ret (Inl (Status FailedPrecondition))
         else if e = ErrNVMeDeviceUnhealthy
         then dropStaleConnection H (nv_nqn params) (st_StagingTargetPath req) True
         else ret (Inr False)
     | Inr devicePath \<Rightarrow> do {
         st \<leftarrow> getNVMeControllerState H devicePath;
         if (case st of None \<Rightarrow> False | Some ctrlState \<Rightarrow> ctrlState \<noteq> nvmeSubsystemStateLive)
         then dropStaleConnection H (nv_nqn params) (st_StagingTargetPath req) True
         else reuseDevice H (nv_nqn params) req cap devicePath
       }
   }"

fun connectAndStageAttempts ::
  "'w host \<Rightarrow> nvmeOFConnectionParams \<Rightarrow> stage_request \<Rightarrow> node_capability \<Rightarrow> nat \<Rightarrow> ('w, failure option) nop"
where
  "connectAndStageAttempts H params req cap 0 = ret (Some (Status Internal))"
| "connectAndStageAttempts H params req cap (Suc n) =
     (let again = (do {
            u \<leftarrow> (if n > 0 then Sleep H (3 * Second) else ret ());
            connectAndStageAttempts H params req cap n
          });
          disconnectAndRetry = (do {
            d \<leftarrow> disconnectNVMeOF H (nv_nqn params);
            again
          })
      in do {
        c \<leftarrow> peek (os_ctxErr H Request);
        if c \<noteq> None then ret (Some (Status StatusDeadlineExceeded))
        else do {
          ok \<leftarrow> connectNVMeOFTarget H params;
          if \<not> ok then again
          else do {
            live \<leftarrow> waitForSubsystemLive H (nv_nqn params);
            if \<not> live then disconnectAndRetry
            else do {
              w \<leftarrow> waitForNVMeDevice H (nv_nqn params);
              case w of
                Inl _ \<Rightarrow> disconnectAndRetry
              | Inr devicePath \<Rightarrow> do {
                  r \<leftarrow> stageNVMeDevice H devicePath (st_StagingTargetPath req) cap (st_VolumeContext req);
                  if r = Some (Status Unavailable) then disconnectAndRetry else ret r
                }
            }
          }
        }
      })"

definition connectAndStageDevice ::
  "'w host \<Rightarrow> nvmeOFConnectionParams \<Rightarrow> stage_request \<Rightarrow> node_capability \<Rightarrow> ('w, failure option) nop" where
  "connectAndStageDevice H params req cap = connectAndStageAttempts H params req cap 3"

definition stageNVMeOFVolume :: "'w host \<Rightarrow> stage_request \<Rightarrow> node_capability \<Rightarrow> ('w, failure option) nop" where
  "stageNVMeOFVolume H req cap =
     (case validateNVMeOFParams_node (st_VolumeContext req) of
        Inl e \<Rightarrow> ret (Some e)
      | Inr params \<Rightarrow> do {
          reuse \<leftarrow> tryReuseExistingConnection H params req cap;
          case reuse of
            Inl e \<Rightarrow> ret (Some e)
          | Inr True \<Rightarrow> ret None
          | Inr False \<Rightarrow> do {
              ok \<leftarrow> checkNVMeCLI H;
              if \<not> ok then ret (Some (Status FailedPrecondition))
              else do {
                sem \<leftarrow> peek (os_semaphore H);
                if sem \<noteq> None then ret (Some (Status StatusDeadlineExceeded))
                else connectAndStageDevice H params req cap
              }
            }
        })"

section \<open>Unstaging\<close>

text \<open>\<^verbatim>\<open>getStagedNVMeDevicePath\<close>; \<^const>\<open>None\<close> is its error.\<close>

definition resolvedNVMeLink :: "'w host \<Rightarrow> string \<Rightarrow> ('w, string option) nop" where
  "resolvedNVMeLink H stagingTargetPath = do {
     r \<leftarrow> EvalSymlinks H stagingTargetPath;
     ret (case r of
         Inl _ \<Rightarrow> None
       | Inr resolved \<Rightarrow> if prefix ''nvme'' (Base resolved) then Some resolved else None)
   }"

definition getStagedNVMeDevicePath :: "'w host \<Rightarrow> string \<Rightarrow> ('w, string option) nop" where
  "getStagedNVMeDevicePath H stagingTargetPath = do {
     mounted \<leftarrow> IsMounted H Detached stagingTargetPath;
     if mounted = Inr True then do {
       r \<leftarrow> findmntSource H stagingTargetPath;
       let source = trim_space (cr_output r)
       in if cr_err r \<noteq> None then ret None
          else if source \<noteq> [] \<and> prefix ''nvme'' (Base source) then ret (Some source)
          else resolvedNVMeLink H stagingTargetPath
     }
     else resolvedNVMeLink H stagingTargetPath
   }"

definition deriveNQNFromStagingPath :: "'w host \<Rightarrow> string \<Rightarrow> ('w, string option) nop" where
  "deriveNQNFromStagingPath H stagingTargetPath = do {
     d \<leftarrow> getStagedNVMeDevicePath H stagingTargetPath;
     case d of None \<Rightarrow> ret None | Some devicePath \<Rightarrow> nvmeNQNForDevice H sysBlockPath devicePath
   }"

definition unstageNVMeOFVolume :: "'w host \<Rightarrow> string \<Rightarrow> smap \<Rightarrow> ('w, failure option) nop" where
  "unstageNVMeOFVolume H stagingTargetPath volumeContext = do {
     nqn \<leftarrow> (if mget volumeContext ''nqn'' \<noteq> [] then ret (mget volumeContext ''nqn'')
            else do {
              d \<leftarrow> deriveNQNFromStagingPath H stagingTargetPath;
              ret (case d of None \<Rightarrow> [] | Some n \<Rightarrow> n)
            });
     mounted \<leftarrow> IsMounted H Detached stagingTargetPath;
     case mounted of
       Inl _ \<Rightarrow> ret (Some (Status Internal))
     | Inr m \<Rightarrow> do {
         ok \<leftarrow> (if m then Unmount H stagingTargetPath else ret True);
         if nqn = [] then ret None
         else do {
           d \<leftarrow> disconnectNVMeOF H nqn;
           ret None
         }
       }
   }"

end
