(* ===== verification/Node_Service.thy ===== *)
theory Node_Service
  imports Node_NVMeOF_Stage Volume_Health Publication
begin

text \<open>
  The remaining handlers of the node service (\<^verbatim>\<open>src/pkg/driver/node.go\<close>): staging and unstaging with
  the choice of the protocol, statistics, expansion, health (\<^verbatim>\<open>node_health.go\<close>) and the two RPCs that
  describe the node.
\<close>

section \<open>Which protocol?\<close>

fun iscsiLinkLoop :: "'w host \<Rightarrow> string \<Rightarrow> string list \<Rightarrow> ('w, bool) nop" where
  "iscsiLinkLoop H realPath [] = ret False"
| "iscsiLinkLoop H realPath (name # names) =
     (if \<not> str_contains name ''iscsi'' then iscsiLinkLoop H realPath names
      else do {
        r \<leftarrow> EvalSymlinks H (Join [''/dev/disk/by-path'', name]);
        case r of
          Inl _ \<Rightarrow> iscsiLinkLoop H realPath names
        | Inr resolved \<Rightarrow>
            if resolved = realPath \<or> suffix realPath resolved \<or> suffix resolved realPath then ret True
            else iscsiLinkLoop H realPath names
      })"

definition isISCSIDevice :: "'w host \<Rightarrow> string \<Rightarrow> ('w, bool) nop" where
  "isISCSIDevice H devicePath = do {
     l \<leftarrow> Readlink H devicePath;
     d \<leftarrow> peek (os_ReadDir H ''/dev/disk/by-path'');
     case d of
       Inl _ \<Rightarrow> ret False
     | Inr names \<Rightarrow> iscsiLinkLoop H (case l of Inl _ \<Rightarrow> devicePath | Inr r \<Rightarrow> r) names
   }"

definition detectBlockProtocolFromDevice :: "'w host \<Rightarrow> string \<Rightarrow> ('w, string) nop" where
  "detectBlockProtocolFromDevice H devicePath =
     (if str_contains devicePath ''nvme'' then ret ProtocolNVMeOF
      else do {
        b \<leftarrow> isISCSIDevice H devicePath;
        if b then ret ProtocolISCSI
        else if prefix ''sd'' (Base devicePath) then do {
          info \<leftarrow> getISCSISessionInfo H (''/sys/block/'' @ Base devicePath);
          ret (if fst info \<noteq> [] then ProtocolISCSI else ProtocolNVMeOF)
        }
        else ret ProtocolNVMeOF
      })"

definition detectBlockProtocolFromMount :: "'w host \<Rightarrow> string \<Rightarrow> ('w, string) nop" where
  "detectBlockProtocolFromMount H mountPath = do {
     r \<leftarrow> findmntSource H mountPath;
     if cr_err r \<noteq> None then ret ProtocolNVMeOF
     else detectBlockProtocolFromDevice H (trim_space (cr_output r))
   }"

text \<open>\<^verbatim>\<open>detectFilesystemType\<close>; \<^const>\<open>None\<close> is its error.\<close>

definition detectFilesystemType :: "'w host \<Rightarrow> string \<Rightarrow> ('w, string option) nop" where
  "detectFilesystemType H mountPath = do {
     r \<leftarrow> Run H [''findmnt'', ''-n'', ''-o'', ''FSTYPE'', mountPath];
     let fsType = trim_space (cr_output r)
     in ret (if cr_err r \<noteq> None \<or> fsType = [] then None else Some fsType)
   }"

text \<open>\<^verbatim>\<open>detectProtocolFromVolumePath\<close>, which is also the second half of the detection below.\<close>

definition detectProtocolFromVolumePath :: "'w host \<Rightarrow> string \<Rightarrow> ('w, string) nop" where
  "detectProtocolFromVolumePath H volumePath = do {
     t \<leftarrow> detectFilesystemType H volumePath;
     case t of
       None \<Rightarrow> ret ProtocolNFS
     | Some fsType \<Rightarrow>
         if prefix ''nfs'' fsType then ret ProtocolNFS
         else if fsType = ''cifs'' \<or> prefix ''smb'' fsType then ret ProtocolSMB
         else detectBlockProtocolFromMount H volumePath
   }"

definition detectProtocolFromStagingPath :: "'w host \<Rightarrow> string \<Rightarrow> ('w, string) nop" where
  "detectProtocolFromStagingPath H stagingPath = do {
     mounted \<leftarrow> IsMounted H Request stagingPath;
     if mounted \<noteq> Inr True then do {
       l \<leftarrow> Lstat H stagingPath;
       if (case l of Inl _ \<Rightarrow> False | Inr info \<Rightarrow> fi_Symlink info) then do {
         t \<leftarrow> Readlink H stagingPath;
         case t of
           Inl _ \<Rightarrow> ret ProtocolNVMeOF
         | Inr target \<Rightarrow> detectBlockProtocolFromDevice H target
       }
       else ret ProtocolNFS
     }
     else detectProtocolFromVolumePath H stagingPath
   }"

section \<open>Staging and unstaging\<close>

definition stageByProtocol :: "'w host \<Rightarrow> stage_request \<Rightarrow> node_capability \<Rightarrow> ('w, failure option) nop" where
  "stageByProtocol H req cap =
     (let protocol = getProtocolFromVolumeContext (st_VolumeContext req)
      in if protocol = ProtocolNFS then stageNFSVolume H req cap
         else if protocol = ProtocolNVMeOF then stageNVMeOFVolume H req cap
         else if protocol = ProtocolISCSI then stageISCSIVolume H req cap
         else if protocol = ProtocolSMB then stageSMBVolume H req cap
         else ret (Some (Status InvalidArgument)))"

definition NodeStageVolume :: "'w host \<Rightarrow> stage_request \<Rightarrow> ('w, failure option) nop" where
  "NodeStageVolume H req =
     (if st_VolumeId req = [] then ret (Some (Status InvalidArgument))
      else if st_StagingTargetPath req = [] then ret (Some (Status InvalidArgument))
      else case st_VolumeCapability req of
        None \<Rightarrow> ret (Some (Status InvalidArgument))
      | Some cap \<Rightarrow> locking H (st_VolumeId req) (stageByProtocol H req cap))"

definition unstageByProtocol :: "'w host \<Rightarrow> string \<Rightarrow> ('w, failure option) nop" where
  "unstageByProtocol H stagingTargetPath = do {
     protocol \<leftarrow> detectProtocolFromStagingPath H stagingTargetPath;
     if protocol = ProtocolNVMeOF then unstageNVMeOFVolume H stagingTargetPath fmempty
     else if protocol = ProtocolISCSI then unstageISCSIVolume H stagingTargetPath
     else if protocol = ProtocolSMB then unstageSMBVolume H stagingTargetPath
     else unstageNFSVolume H stagingTargetPath
   }"

definition NodeUnstageVolume :: "'w host \<Rightarrow> string \<Rightarrow> string \<Rightarrow> ('w, failure option) nop" where
  "NodeUnstageVolume H volumeID stagingTargetPath =
     (if volumeID = [] then ret (Some (Status InvalidArgument))
      else if stagingTargetPath = [] then ret (Some (Status InvalidArgument))
      else locking H volumeID (unstageByProtocol H stagingTargetPath))"

section \<open>Statistics\<close>

definition safeUint64ToInt64 :: "uint64 \<Rightarrow> int" where
  "safeUint64ToInt64 val = (if uint val > MaxInt64 then MaxInt64 else to_int64 val)"

definition getBlockSize :: "statfs \<Rightarrow> uint64" where
  "getBlockSize st = (if sf_Bsize st < 0 then 0 else to_uint64 (sf_Bsize st))"

datatype usage_unit = BYTES | INODES

record volume_usage =
  vu_Unit :: usage_unit
  vu_Total :: int
  vu_Used :: int
  vu_Available :: int

definition bytesUsage :: "statfs \<Rightarrow> volume_usage" where
  "bytesUsage st =
     (let blockSize = getBlockSize st;
          totalBytes = sf_Blocks st * blockSize;
          availableBytes = sf_Bavail st * blockSize;
          usedBytes = totalBytes - sf_Bfree st * blockSize
      in \<lparr>vu_Unit = BYTES, vu_Total = safeUint64ToInt64 totalBytes, vu_Used = safeUint64ToInt64 usedBytes,
          vu_Available = safeUint64ToInt64 availableBytes\<rparr>)"

definition inodeUsage :: "statfs \<Rightarrow> volume_usage" where
  "inodeUsage st =
     \<lparr>vu_Unit = INODES, vu_Total = safeUint64ToInt64 (sf_Files st),
      vu_Used = safeUint64ToInt64 (sf_Files st - sf_Ffree st), vu_Available = safeUint64ToInt64 (sf_Ffree st)\<rparr>"

definition mockUsage :: volume_usage where
  "mockUsage = \<lparr>vu_Unit = BYTES, vu_Total = 1073741824, vu_Used = 104857600, vu_Available = 968884224\<rparr>"

definition NodeGetVolumeStats :: "'w host \<Rightarrow> string \<Rightarrow> string \<Rightarrow> ('w, failure + volume_usage list) nop" where
  "NodeGetVolumeStats H volumeID volumePath =
     (if volumeID = [] then ret (Inl (Status InvalidArgument))
      else if volumePath = [] then ret (Inl (Status InvalidArgument))
      else do {
        st \<leftarrow> peek (os_Stat H volumePath);
        case st of
          Inl e \<Rightarrow> ret (Inl (Status (if oe_NotExist e then NotFound else Internal)))
        | Inr pathInfo \<Rightarrow>
            if os_testMode H then ret (Inr [mockUsage])
            else do {
              mounted \<leftarrow> IsMounted H Request volumePath;
              case mounted of
                Inl _ \<Rightarrow> ret (Inl (Status Internal))
              | Inr False \<Rightarrow> ret (Inl (Status InvalidArgument))
              | Inr True \<Rightarrow> do {
                  f \<leftarrow> peek (os_Statfs H volumePath);
                  ret (case f of
                      Inl _ \<Rightarrow> Inl (Status Internal)
                    | Inr sf \<Rightarrow> Inr (bytesUsage sf # (if fi_IsDir pathInfo then [inodeUsage sf] else [])))
                }
            }
      })"

section \<open>Expansion\<close>

text \<open>\<^verbatim>\<open>resizeFilesystem\<close>; its failures all become an internal error of the caller.\<close>

definition resizeFilesystem :: "'w host \<Rightarrow> string \<Rightarrow> string \<Rightarrow> ('w, bool) nop" where
  "resizeFilesystem H mountPath fsType =
     (if extFilesystem fsType then do {
        r \<leftarrow> findmntSource H mountPath;
        let device = trim_space (cr_output r)
        in if cr_err r \<noteq> None \<or> device = [] then ret False
           else do {
             s \<leftarrow> Run H [''resize2fs'', device];
             ret (cr_err s = None)
           }
      }
      else if fsType = ''xfs'' then do {
        s \<leftarrow> Run H [''xfs_growfs'', mountPath];
        ret (cr_err s = None)
      }
      else ret False)"

definition NodeExpandVolume ::
  "'w host \<Rightarrow> string \<Rightarrow> string \<Rightarrow> node_capability option \<Rightarrow> int \<Rightarrow> ('w, failure + int) nop" where
  "NodeExpandVolume H volumeID volumePath volumeCap requiredBytes =
     (if volumeID = [] then ret (Inl (Status InvalidArgument))
      else if volumePath = [] then ret (Inl (Status InvalidArgument))
      else do {
        st \<leftarrow> peek (os_Stat H volumePath);
        if (case st of Inl e \<Rightarrow> oe_NotExist e | Inr _ \<Rightarrow> False) then ret (Inl (Status NotFound))
        else if os_testMode H then ret (Inr requiredBytes)
        else do {
          mounted \<leftarrow> IsMounted H Request volumePath;
          case mounted of
            Inl _ \<Rightarrow> ret (Inl (Status Internal))
          | Inr False \<Rightarrow> ret (Inl (Status InvalidArgument))
          | Inr True \<Rightarrow> do {
              protocol \<leftarrow> detectProtocolFromStagingPath H volumePath;
              if protocol = ProtocolNFS \<or> protocol = ProtocolSMB then ret (Inr requiredBytes)
              else if (case volumeCap of None \<Rightarrow> False | Some cap \<Rightarrow> is_block cap) then ret (Inr requiredBytes)
              else do {
                t \<leftarrow> detectFilesystemType H volumePath;
                case t of
                  None \<Rightarrow> ret (Inl (Status Internal))
                | Some fsType \<Rightarrow> do {
                    ok \<leftarrow> resizeFilesystem H volumePath fsType;
                    ret (if ok then Inr requiredBytes else Inl (Status Internal))
                  }
              }
            }
        }
      })"

section \<open>Health\<close>

definition checkBasicHealth :: "'w host \<Rightarrow> string \<Rightarrow> ('w, VolumeHealth) nop" where
  "checkBasicHealth H volumePath = do {
     st \<leftarrow> peek (os_Stat H volumePath);
     ret (case st of
         Inl e \<Rightarrow> Unhealthy (''Volume path not accessible: '' @ oe_text e)
       | Inr _ \<Rightarrow> Healthy)
   }"

text \<open>\<^verbatim>\<open>isMountedWithTimeout\<close>: the text of its error, or the answer of \<^verbatim>\<open>findmnt\<close>.\<close>

definition isMountedWithTimeout :: "'w host \<Rightarrow> string \<Rightarrow> ('w, string + bool) nop" where
  "isMountedWithTimeout H path = do {
     r \<leftarrow> Run H [''findmnt'', ''-n'', path];
     c \<leftarrow> peek (os_ctxErr H Detached);
     ret (if c = Some DeadlineExceeded then Inl ''timeout checking mount status''
          else case cr_err r of
            Some e \<Rightarrow> if ce_ExitCode e = Some 1 then Inr False else Inl (ce_text e)
          | None \<Rightarrow> Inr (trim_space (cr_output r) \<noteq> []))
   }"

definition isStale :: "string \<Rightarrow> bool" where
  "isStale err \<longleftrightarrow> str_contains err ''stale'' \<or> str_contains err ''Stale''"

text \<open>
  \<^verbatim>\<open>checkDirectoryReadable\<close>: the text of the error of the reading goroutine, the timer or the context,
  whichever the \<^verbatim>\<open>select\<close> takes. An empty directory is readable.
\<close>

fun ctx_text :: "ctx_error \<Rightarrow> string" where
  "ctx_text Canceled = ''context canceled''"
| "ctx_text DeadlineExceeded = ''context deadline exceeded''"

fun readDirectory :: "directory_read \<Rightarrow> string option" where
  "readDirectory (NotOpened e) = Some (oe_text e)"
| "readDirectory (Opened (Some (ReadFailed e)) closeErr) = Some (oe_text e)"
| "readDirectory (Opened (Some EOF) closeErr) = map_option oe_text closeErr"
| "readDirectory (Opened None closeErr) = map_option oe_text closeErr"

definition checkDirectoryReadable :: "'w host \<Rightarrow> string \<Rightarrow> ('w, string option) nop" where
  "checkDirectoryReadable H path = do {
     r \<leftarrow> peek (os_ReadDirectory H path);
     ret (case r of
         ReadDone d \<Rightarrow> readDirectory d
       | ReadTimeout \<Rightarrow> Some ''timeout reading directory''
       | ReadCancelled c \<Rightarrow> Some (ctx_text c))
   }"

text \<open>The checks of a mounted share; \<open>kind\<close> is the name of the protocol in the messages.\<close>

definition shareReadable :: "'w host \<Rightarrow> string \<Rightarrow> bool \<Rightarrow> string \<Rightarrow> ('w, VolumeHealth) nop" where
  "shareReadable H kind detectStale volumePath = do {
     m \<leftarrow> isMountedWithTimeout H volumePath;
     case m of
       Inl err \<Rightarrow> ret (Unhealthy (''Failed to check '' @ kind @ '' mount status: '' @ err))
     | Inr False \<Rightarrow> ret (Unhealthy (kind @ '' volume is not mounted''))
     | Inr True \<Rightarrow> do {
         e \<leftarrow> checkDirectoryReadable H volumePath;
         ret (case e of
             None \<Rightarrow> Healthy
           | Some err \<Rightarrow>
               if detectStale \<and> isStale err then Unhealthy ''Stale NFS file handle''
               else Unhealthy (kind @ '' mount not readable: '' @ err))
       }
   }"

definition checkShareHealth :: "'w host \<Rightarrow> string \<Rightarrow> bool \<Rightarrow> string \<Rightarrow> ('w, VolumeHealth) nop" where
  "checkShareHealth H kind detectStale volumePath = do {
     st \<leftarrow> peek (os_Stat H volumePath);
     case st of
       Inr _ \<Rightarrow> shareReadable H kind detectStale volumePath
     | Inl e \<Rightarrow>
         ret (if oe_NotExist e then Unhealthy (kind @ '' mount path does not exist'')
              else if detectStale \<and> isStale (oe_text e) then Unhealthy ''Stale NFS file handle''
              else Unhealthy (kind @ '' mount path not accessible: '' @ oe_text e))
   }"

definition checkNFSHealth :: "'w host \<Rightarrow> string \<Rightarrow> ('w, VolumeHealth) nop" where
  "checkNFSHealth H volumePath = checkShareHealth H ''NFS'' True volumePath"

definition checkSMBHealth :: "'w host \<Rightarrow> string \<Rightarrow> ('w, VolumeHealth) nop" where
  "checkSMBHealth H volumePath = checkShareHealth H ''SMB'' False volumePath"

text \<open>\<^verbatim>\<open>getSourceDevice\<close>, and the checks of a block volume before its session is looked at.\<close>

definition getSourceDevice :: "'w host \<Rightarrow> string \<Rightarrow> ('w, string + string) nop" where
  "getSourceDevice H mountPath = do {
     r \<leftarrow> findmntSource H mountPath;
     ret (case cr_err r of
         Some e \<Rightarrow> Inl (''findmnt failed: '' @ ce_text e)
       | None \<Rightarrow> Inr (trim_space (cr_output r)))
   }"

definition checkBlockHealth ::
  "'w host \<Rightarrow> string \<Rightarrow> string \<Rightarrow> (string \<Rightarrow> ('w, VolumeHealth) nop) \<Rightarrow> string \<Rightarrow> ('w, VolumeHealth) nop" where
  "checkBlockHealth H kind dev session volumePath = do {
     st \<leftarrow> peek (os_Stat H volumePath);
     case st of
       Inl e \<Rightarrow> ret (Unhealthy (kind @ '' volume path not accessible: '' @ oe_text e))
     | Inr _ \<Rightarrow> do {
         s \<leftarrow> getSourceDevice H volumePath;
         case s of
           Inl err \<Rightarrow> ret (Unhealthy (''Failed to determine '' @ dev @ '' device: '' @ err))
         | Inr devicePath \<Rightarrow> do {
             d \<leftarrow> peek (os_Stat H devicePath);
             case d of
               Inl _ \<Rightarrow> ret (Unhealthy (dev @ '' device '' @ devicePath @ '' not found''))
             | Inr _ \<Rightarrow> session devicePath
           }
       }
   }"

definition checkNVMeOFHealth :: "'w host \<Rightarrow> string \<Rightarrow> ('w, VolumeHealth) nop" where
  "checkNVMeOFHealth H volumePath =
     checkBlockHealth H ''NVMe-oF'' ''NVMe'' (\<lambda>devicePath. do {
       st \<leftarrow> getNVMeControllerState H devicePath;
       ret (case st of
           None \<Rightarrow> Healthy
         | Some ctrlState \<Rightarrow>
             if ctrlState \<noteq> nvmeSubsystemStateLive
             then Unhealthy (''NVMe controller state is '' @ quoted ctrlState @ '' (expected: live)'') else Healthy)
     }) volumePath"

definition checkISCSIHealth :: "'w host \<Rightarrow> string \<Rightarrow> ('w, VolumeHealth) nop" where
  "checkISCSIHealth H volumePath =
     checkBlockHealth H ''iSCSI'' ''iSCSI'' (\<lambda>devicePath. do {
       st \<leftarrow> getISCSISessionState H devicePath;
       ret (case st of
           None \<Rightarrow> Healthy
         | Some sessionState \<Rightarrow>
             if sessionState \<noteq> iscsiSessionStateLoggedIn
             then Unhealthy (''iSCSI session state is '' @ quoted sessionState @ '' (expected: LOGGED_IN)'')
             else Healthy)
     }) volumePath"

definition checkVolumeHealth :: "'w host \<Rightarrow> string \<Rightarrow> ('w, VolumeHealth) nop" where
  "checkVolumeHealth H volumePath = do {
     protocol \<leftarrow> detectProtocolFromVolumePath H volumePath;
     if protocol = ProtocolNFS then checkNFSHealth H volumePath
     else if protocol = ProtocolNVMeOF then checkNVMeOFHealth H volumePath
     else if protocol = ProtocolISCSI then checkISCSIHealth H volumePath
     else if protocol = ProtocolSMB then checkSMBHealth H volumePath
     else checkBasicHealth H volumePath
   }"

definition NodeGetVolumeHealth ::
  "'w host \<Rightarrow> string \<Rightarrow> string \<Rightarrow> string \<Rightarrow> ('w, failure + csi_health) nop" where
  "NodeGetVolumeHealth H volumeID publishPath stagingPath =
     (if volumeID = [] then ret (Inl (Status InvalidArgument))
      else if list_ex (\<lambda>path. path \<noteq> [] \<and> \<not> IsAbs path) [publishPath, stagingPath]
      then ret (Inl (Status InvalidArgument))
      else
        (let volumePath = (if publishPath = [] then stagingPath else publishPath)
         in if volumePath = []
            then ret (Inr \<lparr>ch_VolumeId = volumeID, ch_HealthStatuses =
                   [\<lparr>he_Status = DEGRADED, he_Reason = ''VolumePathUnknown'',
                     he_Message = ''No published or staging path is available to check volume health''\<rparr>]\<rparr>)
            else do {
              h \<leftarrow> (if os_testMode H then checkBasicHealth H volumePath else checkVolumeHealth H volumePath);
              ret (Inr (ToCSI h volumeID))
            }))"

section \<open>The node\<close>

datatype node_rpc =
  STAGE_UNSTAGE_VOLUME | GET_VOLUME_STATS | NODE_EXPAND_VOLUME | NODE_GET_VOLUME_HEALTH | NODE_MULTI_WRITER

definition NodeGetCapabilities :: "node_rpc list" where
  "NodeGetCapabilities =
     [STAGE_UNSTAGE_VOLUME, GET_VOLUME_STATS, NODE_EXPAND_VOLUME, NODE_GET_VOLUME_HEALTH, NODE_MULTI_WRITER]"

text \<open>\<^verbatim>\<open>NodeGetInfo\<close> registers the node in the registry, if there is one, and returns its name.\<close>

definition NodeGetInfo :: "'w host \<Rightarrow> string \<Rightarrow> NodeRegistry option \<Rightarrow> NodeRegistry option \<times> string" where
  "NodeGetInfo H now registry = (map_option (Register (os_nodeID H) now) registry, os_nodeID H)"

end
