(* ===== verification/Node_Recovery.thy ===== *)
theory Node_Recovery
  imports Node_Service
begin

text \<open>
  The background health monitor of the node (\<^verbatim>\<open>src/pkg/driver/node_recovery.go\<close>): recovery of iSCSI
  sessions and NVMe-oF controllers, remounting of filesystems that became read-only, and unmounting
  of staging paths whose device is gone for good. One pass is a function; the loop that starts a
  pass every thirty seconds is not modelled.
\<close>

section \<open>Is a device usable?\<close>

definition isDeviceAccessible :: "'w host \<Rightarrow> string \<Rightarrow> ('w, bool) nop" where
  "isDeviceAccessible H devicePath = do {
     r \<leftarrow> getsize H devicePath;
     let bytes = trim_space (cr_output r)
     in ret (cr_err r = None \<and> bytes \<noteq> [] \<and> bytes \<noteq> ''0'')
   }"

definition iscsiSessionRecovering :: "string \<Rightarrow> bool" where
  "iscsiSessionRecovering st \<longleftrightarrow> st \<in> {''blocked'', ''transport-offline'', ''quiesce''}"

definition hasISCSISession :: "'w host \<Rightarrow> string \<Rightarrow> ('w, bool) nop" where
  "hasISCSISession H sysPath = do {
     st \<leftarrow> Stat H (sysPath @ ''/device/../../iscsi_session'');
     ret (case st of Inl _ \<Rightarrow> False | Inr _ \<Rightarrow> True)
   }"

definition isISCSIDeviceRecovering :: "'w host \<Rightarrow> string \<Rightarrow> ('w, bool) nop" where
  "isISCSIDeviceRecovering H devicePath = do {
     b \<leftarrow> hasISCSISession H (''/sys/block/'' @ Base devicePath);
     if \<not> b then ret False
     else do {
       st \<leftarrow> getISCSISessionState H devicePath;
       ret (case st of None \<Rightarrow> False | Some s \<Rightarrow> iscsiSessionRecovering s)
     }
   }"

text \<open>The controller in the name of a namespace: up to the first \<^verbatim>\<open>n\<close> after \<^verbatim>\<open>nvme\<close> and a digit.\<close>

definition controllerOfBase :: "string \<Rightarrow> string" where
  "controllerOfBase base =
     (case str_index CHR ''n'' (drop 5 base) of None \<Rightarrow> [] | Some i \<Rightarrow> take (5 + i) base)"

definition nvmeRecovering :: "string \<Rightarrow> bool" where
  "nvmeRecovering st \<longleftrightarrow> st = ''connecting'' \<or> st = ''resetting''"

text \<open>A controller with a transport, which is what tells a fabrics controller.\<close>

definition hasTransport :: "'w host \<Rightarrow> string \<Rightarrow> ('w, bool) nop" where
  "hasTransport H ctrlPath = do {
     t \<leftarrow> ReadFile H (ctrlPath @ ''/transport'');
     ret (case t of Inl _ \<Rightarrow> False | Inr content \<Rightarrow> trim_space content \<noteq> [])
   }"

definition isNVMeDeviceRecovering :: "'w host \<Rightarrow> string \<Rightarrow> ('w, bool) nop" where
  "isNVMeDeviceRecovering H devicePath =
     (let ctrlName = controllerOfBase (Base devicePath); ctrlPath = ''/sys/class/nvme/'' @ ctrlName
      in if ctrlName = [] then ret False
         else do {
           b \<leftarrow> hasTransport H ctrlPath;
           if \<not> b then ret False
           else do {
             st \<leftarrow> ReadFile H (ctrlPath @ ''/state'');
             ret (case st of Inl _ \<Rightarrow> False | Inr content \<Rightarrow> nvmeRecovering (trim_space content))
           }
         })"

section \<open>Broken staging paths\<close>

definition unmountCooldown :: int where
  "unmountCooldown = 5 * 60 * Second"

definition stagingPathMarker :: string where
  "stagingPathMarker = ''/plugins/kubernetes.io/csi/nasty.csi.io/''"

definition getRecentUnmounts :: "('w, (string, int) fmap) nop" where
  "getRecentUnmounts = State (\<lambda>s. (recentUnmounts s, s))"

definition setRecentUnmounts :: "((string, int) fmap \<Rightarrow> (string, int) fmap) \<Rightarrow> ('w, unit) nop" where
  "setRecentUnmounts f = State (\<lambda>s. ((), s\<lparr>recentUnmounts := f (recentUnmounts s)\<rparr>))"

text \<open>Is the device of a staging path gone or dead, with no session that is coming back?\<close>

definition deviceBroken :: "'w host \<Rightarrow> string \<Rightarrow> ('w, bool) nop" where
  "deviceBroken H source = do {
     st \<leftarrow> Stat H source;
     ok \<leftarrow> (case st of Inl _ \<Rightarrow> ret False | Inr _ \<Rightarrow> isDeviceAccessible H source);
     if ok then ret False
     else do {
       i \<leftarrow> isISCSIDeviceRecovering H source;
       if i then ret False
       else do {
         n \<leftarrow> isNVMeDeviceRecovering H source;
         ret (\<not> n)
       }
     }
   }"

fun unmountBrokenLoop :: "'w host \<Rightarrow> int \<Rightarrow> string list \<Rightarrow> ('w, unit) nop" where
  "unmountBrokenLoop H now [] = ret ()"
| "unmountBrokenLoop H now (line # lines) =
     (let fields = Fields line; source = fields ! 0; target = fields ! 1
      in if \<not> str_contains line stagingPathMarker \<or> length fields < 2 then unmountBrokenLoop H now lines
         else do {
           recent \<leftarrow> getRecentUnmounts;
           if fmlookup recent target \<noteq> None then unmountBrokenLoop H now lines
           else do {
             broken \<leftarrow> deviceBroken H source;
             if \<not> broken then unmountBrokenLoop H now lines
             else do {
               r \<leftarrow> Run H [''umount'', ''-l'', target];
               u \<leftarrow> setRecentUnmounts (fmupd target now);
               unmountBrokenLoop H now lines
             }
           }
         })"

definition unmountBrokenStagingPaths :: "'w host \<Rightarrow> ('w, unit) nop" where
  "unmountBrokenStagingPaths H = do {
     r \<leftarrow> Run H [''findmnt'', ''-n'', ''-o'', ''SOURCE,TARGET'', ''-t'', ''ext4,xfs'', ''--raw''];
     if cr_err r \<noteq> None then ret ()
     else do {
       now \<leftarrow> peek (os_Now H);
       recent \<leftarrow> getRecentUnmounts;
       u \<leftarrow> setRecentUnmounts
         (fmfilter (\<lambda>path. case fmlookup recent path of None \<Rightarrow> True | Some ts \<Rightarrow> \<not> now - ts > unmountCooldown));
       unmountBrokenLoop H now (output_lines (cr_output r))
     }
   }"

section \<open>Read-only filesystems\<close>

fun remountLoop :: "'w host \<Rightarrow> string list \<Rightarrow> ('w, unit) nop" where
  "remountLoop H [] = ret ()"
| "remountLoop H (line # lines) =
     (let fields = Fields line; source = fields ! 0; target = fields ! 1; options = fields ! 2
      in if \<not> str_contains line stagingPathMarker \<or> length fields < 3 then remountLoop H lines
         else if ''ro'' \<notin> set (str_split CHR '','' options) then remountLoop H lines
         else do {
           ok \<leftarrow> isDeviceAccessible H source;
           if \<not> ok then remountLoop H lines
           else do {
             r \<leftarrow> Run H [''mount'', ''-o'', ''remount,rw'', target];
             remountLoop H lines
           }
         })"

definition remountReadOnlyVolumes :: "'w host \<Rightarrow> ('w, unit) nop" where
  "remountReadOnlyVolumes H = do {
     r \<leftarrow> Run H [''findmnt'', ''-n'', ''-o'', ''SOURCE,TARGET,OPTIONS'', ''-t'', ''ext4,xfs'', ''--raw''];
     if cr_err r \<noteq> None then ret () else remountLoop H (output_lines (cr_output r))
   }"

section \<open>Sessions and controllers\<close>

text \<open>\<^verbatim>\<open>recoverISCSISession\<close>; \<^const>\<open>False\<close> is its error.\<close>

definition reloginISCSI :: "'w host \<Rightarrow> string \<Rightarrow> string \<Rightarrow> ('w, bool) nop" where
  "reloginISCSI H iqn portal = do {
     a \<leftarrow> iscsiadmCmd H [''-m'', ''node'', ''-T'', iqn, ''--logout''];
     u \<leftarrow> Sleep H (2 * Second);
     l \<leftarrow> iscsiadmCmd H ([''-m'', ''node'', ''-T'', iqn] @ (if portal \<noteq> [] then [''-p'', portal] else []) @ [''--login'']);
     ret (cr_err l = None \<or> str_contains (cr_output l) ''already present'' \<or>
          str_contains (cr_output l) ''session exists'')
   }"

definition recoverISCSISession :: "'w host \<Rightarrow> string \<Rightarrow> string \<Rightarrow> ('w, bool) nop" where
  "recoverISCSISession H iqn portal = do {
     a \<leftarrow> iscsiadmCmd H ([''-m'', ''session''] @ (if portal \<noteq> [] then [''-r'', iqn] else []) @ [''--rescan'']);
     u \<leftarrow> Sleep H (3 * Second);
     c \<leftarrow> iscsiadmCmd H [''-m'', ''session'', ''-P'', ''1''];
     if cr_err c = None \<and> str_contains (cr_output c) iscsiSessionStateLoggedIn then ret True
     else reloginISCSI H iqn portal
   }"

text \<open>One device of \<^verbatim>\<open>recoverISCSISessions\<close>: was its session recovered?\<close>

definition recoverISCSIDevice :: "'w host \<Rightarrow> string \<Rightarrow> ('w, bool) nop" where
  "recoverISCSIDevice H sysPath = do {
     b \<leftarrow> hasISCSISession H sysPath;
     if \<not> b then ret False
     else do {
       st \<leftarrow> getISCSISessionState H (''/dev/'' @ Base sysPath);
       case st of
         None \<Rightarrow> ret False
       | Some s \<Rightarrow>
           if s = iscsiSessionStateLoggedIn \<or> iscsiSessionRecovering s then ret False
           else do {
             info \<leftarrow> getISCSISessionInfo H sysPath;
             if fst info = [] then ret False else recoverISCSISession H (fst info) (snd info)
           }
     }
   }"

fun count_op :: "('a \<Rightarrow> ('w, bool) nop) \<Rightarrow> 'a list \<Rightarrow> ('w, nat) nop" where
  "count_op p [] = ret 0"
| "count_op p (x # xs) = do {
     b \<leftarrow> p x;
     n \<leftarrow> count_op p xs;
     ret (if b then Suc n else n)
   }"

definition recoverISCSISessions :: "'w host \<Rightarrow> ('w, nat) nop" where
  "recoverISCSISessions H = do {
     g \<leftarrow> Glob H ''/sys/block/sd*'';
     case g of Inl _ \<Rightarrow> ret 0 | Inr devices \<Rightarrow> count_op (recoverISCSIDevice H) devices
   }"

definition resetNVMeController :: "'w host \<Rightarrow> string \<Rightarrow> ('w, bool) nop" where
  "resetNVMeController H ctrlName = do {
     r \<leftarrow> Run H [''nvme'', ''reset'', ''/dev/'' @ ctrlName];
     ret (cr_err r = None)
   }"

text \<open>Rounds of two seconds until a deadline of thirty.\<close>

fun waitForControllerLoop :: "'w host \<Rightarrow> string \<Rightarrow> nat \<Rightarrow> ('w, bool) nop" where
  "waitForControllerLoop H ctrlPath 0 = ret False"
| "waitForControllerLoop H ctrlPath (Suc n) = do {
     b \<leftarrow> peek (os_Before H);
     c \<leftarrow> (if b then peek (os_ctxErr H Detached) else ret None);
     if \<not> b \<or> c \<noteq> None then ret False
     else do {
       st \<leftarrow> readNVMeSysfsValue H (ctrlPath @ ''/state'');
       if st = Some nvmeSubsystemStateLive then ret True
       else do {
         u \<leftarrow> Sleep H (2 * Second);
         waitForControllerLoop H ctrlPath n
       }
     }
   }"

definition waitForNVMeControllerRecovery :: "'w host \<Rightarrow> string \<Rightarrow> ('w, bool) nop" where
  "waitForNVMeControllerRecovery H ctrlPath = waitForControllerLoop H ctrlPath 15"

definition resetController :: "'w host \<Rightarrow> string \<Rightarrow> ('w, bool) nop" where
  "resetController H ctrlPath = do {
     w \<leftarrow> ask (os_WriteFile H (ctrlPath @ ''/reset_controller'') ''1'')
       (\<lambda>r. [WroteFile (ctrlPath @ ''/reset_controller'') r]);
     if w = None then ret True else resetNVMeController H (Base ctrlPath)
   }"

definition recoverNVMeController :: "'w host \<Rightarrow> string \<Rightarrow> ('w, bool) nop" where
  "recoverNVMeController H ctrlPath = do {
     b \<leftarrow> hasTransport H ctrlPath;
     if \<not> b then ret False
     else do {
       st \<leftarrow> readNVMeSysfsValue H (ctrlPath @ ''/state'');
       case st of
         None \<Rightarrow> ret False
       | Some s \<Rightarrow>
           if s = nvmeSubsystemStateLive \<or> nvmeRecovering s then ret False
           else do {
             ok \<leftarrow> resetController H ctrlPath;
             if ok then waitForNVMeControllerRecovery H ctrlPath else ret False
           }
     }
   }"

definition recoverNVMeOFConnections :: "'w host \<Rightarrow> ('w, nat) nop" where
  "recoverNVMeOFConnections H = do {
     g \<leftarrow> Glob H ''/sys/class/nvme/nvme*'';
     case g of Inl _ \<Rightarrow> ret 0 | Inr controllers \<Rightarrow> count_op (recoverNVMeController H) controllers
   }"

definition recoverVolumes :: "'w host \<Rightarrow> ('w, nat \<times> nat) nop" where
  "recoverVolumes H = do {
     i \<leftarrow> recoverISCSISessions H;
     n \<leftarrow> recoverNVMeOFConnections H;
     ret (i, n)
   }"

definition runHealthCheck :: "'w host \<Rightarrow> ('w, unit) nop" where
  "runHealthCheck H = do {
     r \<leftarrow> recoverVolumes H;
     u \<leftarrow> remountReadOnlyVolumes H;
     unmountBrokenStagingPaths H
   }"

end
