(* ===== verification/Node_Logic.thy ===== *)
theory Node_Logic
  imports Node_Recovery
begin

text \<open>
  A program logic for the node's handlers. A policy says which events are allowed after which; a
  triple says that an operation keeps to the policy, and what is known of the trace after it. The
  trace meant is that of the handler: what was there before is not looked at. Everything holds for
  every host, so for every answer to every command and every read.
\<close>

section \<open>Triples\<close>

type_synonym policy = "host_event list \<Rightarrow> host_event \<Rightarrow> bool"

definition triple ::
  "policy \<Rightarrow> (host_event list \<Rightarrow> bool) \<Rightarrow> ('w, 'a) nop \<Rightarrow> ('a \<Rightarrow> host_event list \<Rightarrow> bool) \<Rightarrow> bool" where
  "triple P F m G \<longleftrightarrow>
     (\<forall>s b t. trace s = b @ t \<longrightarrow> F t \<longrightarrow> each_after P t \<longrightarrow>
        wp m (\<lambda>r s'. \<exists>u. trace s' = b @ t @ u \<and> each_after P (t @ u) \<and> G r (t @ u)) s)"

lemma tripleI:
  assumes "\<And>s b t. trace s = b @ t \<Longrightarrow> F t \<Longrightarrow> each_after P t \<Longrightarrow>
    wp m (\<lambda>r s'. \<exists>u. trace s' = b @ t @ u \<and> each_after P (t @ u) \<and> G r (t @ u)) s"
  shows "triple P F m G"
  using assms by (simp add: triple_def)

lemma tripleD:
  "triple P F m G \<Longrightarrow> trace s = b @ t \<Longrightarrow> F t \<Longrightarrow> each_after P t \<Longrightarrow>
     wp m (\<lambda>r s'. \<exists>u. trace s' = b @ t @ u \<and> each_after P (t @ u) \<and> G r (t @ u)) s"
  by (simp add: triple_def)

text \<open>What a triple says of a run.\<close>

lemma triple_run:
  assumes "triple P (\<lambda>_. True) m G"
  shows "case run_state m s of (r, s') \<Rightarrow> \<exists>tr. trace s' = trace s @ tr \<and> each_after P tr \<and> G r tr"
  using tripleD [OF assms, of s "trace s" "[]"] by (simp add: wp_def)

lemma triple_run_start:
  assumes "triple P (\<lambda>t. t = []) m G"
  shows "case run_state m s of (r, s') \<Rightarrow> \<exists>tr. trace s' = trace s @ tr \<and> each_after P tr \<and> G r tr"
  using tripleD [OF assms, of s "trace s" "[]"] by (simp add: wp_def)

lemma triple_conseq:
  assumes "triple P F' m G'" "\<And>t. F t \<Longrightarrow> F' t" "\<And>r t. G' r t \<Longrightarrow> G r t"
  shows "triple P F m G"
proof (rule tripleI)
  fix s :: "'a node" and b t assume "trace s = b @ t" "F t" "each_after P t"
  from tripleD [OF assms(1) this(1) assms(2) [OF this(2)] this(3)]
  show "wp m (\<lambda>r s'. \<exists>u. trace s' = b @ t @ u \<and> each_after P (t @ u) \<and> G r (t @ u)) s"
    by (rule wp_mono) (use assms(3) in blast)
qed

lemma triple_ret: "(\<And>t. F t \<Longrightarrow> G x t) \<Longrightarrow> triple P F (ret x) G"
  by (rule tripleI) (simp add: wp_rules)

lemma triple_bind:
  assumes "triple P F m G" "\<And>x. triple P (G x) (f x) K"
  shows "triple P F (State_Monad.bind m f) K"
proof (rule tripleI)
  fix s :: "'a node" and b t assume "trace s = b @ t" "F t" "each_after P t"
  from tripleD [OF assms(1) this]
  show "wp (State_Monad.bind m f) (\<lambda>r s'. \<exists>u. trace s' = b @ t @ u \<and> each_after P (t @ u) \<and> K r (t @ u)) s"
    unfolding wp_bind
  proof (rule wp_mono, elim exE conjE)
    fix x u and s' :: "'a node" assume h: "trace s' = b @ t @ u" "each_after P (t @ u)" "G x (t @ u)"
    show "wp (f x) (\<lambda>r s'. \<exists>u. trace s' = b @ t @ u \<and> each_after P (t @ u) \<and> K r (t @ u)) s'"
      using tripleD [OF assms(2) h(1) h(3) h(2)]
      by (rule wp_mono) (metis append.assoc)
  qed
qed

lemma triple_ask:
  assumes "\<And>t r. F t \<Longrightarrow> each_after P t \<Longrightarrow> each_after P (t @ ev r) \<and> G r (t @ ev r)"
  shows "triple P F (ask f ev) G"
  by (rule tripleI, rule wp_askI) (use assms in auto)

lemma triple_frame:
  assumes "triple P F m G" "\<And>t u. R t \<Longrightarrow> R (t @ u)"
  shows "triple P (\<lambda>t. F t \<and> R t) m (\<lambda>r t. G r t \<and> R t)"
proof (rule tripleI, elim conjE)
  fix s :: "'a node" and b t assume h: "trace s = b @ t" "F t" "R t" "each_after P t"
  from tripleD [OF assms(1) h(1,2,4)]
  show "wp m (\<lambda>r s'. \<exists>u. trace s' = b @ t @ u \<and> each_after P (t @ u) \<and> G r (t @ u) \<and> R (t @ u)) s"
    by (rule wp_mono) (use assms(2) h(3) in blast)
qed

text \<open>Facts about the past that no later event undoes.\<close>

definition stable :: "(host_event list \<Rightarrow> bool) \<Rightarrow> bool" where
  "stable F \<longleftrightarrow> (\<forall>t u. F t \<longrightarrow> F (t @ u))"

lemma stable_intros [intro]:
  "stable (\<lambda>_. b)" "stable (\<lambda>t. e \<in> set t)"
  "stable F \<Longrightarrow> stable G \<Longrightarrow> stable (\<lambda>t. F t \<and> G t)"
  "stable F \<Longrightarrow> stable G \<Longrightarrow> stable (\<lambda>t. F t \<or> G t)"
  "(\<And>x. stable (K x)) \<Longrightarrow> stable (\<lambda>t. \<exists>x. K x t)"
  "(\<And>x. stable (K x)) \<Longrightarrow> stable (\<lambda>t. \<forall>x. K x t)"
  "stable F \<Longrightarrow> stable (\<lambda>t. b \<longrightarrow> F t)"
  unfolding stable_def by (auto | blast)+

text \<open>Case distinctions: the triple of the branch that is taken.\<close>

lemma triple_if: "(b \<Longrightarrow> triple P F m G) \<Longrightarrow> (\<not> b \<Longrightarrow> triple P F n G) \<Longrightarrow> triple P F (if b then m else n) G"
  by simp

lemma triple_option:
  "(x = None \<Longrightarrow> triple P F m G) \<Longrightarrow> (\<And>y. x = Some y \<Longrightarrow> triple P F (n y) G) \<Longrightarrow>
     triple P F (case x of None \<Rightarrow> m | Some y \<Rightarrow> n y) G"
  by (cases x) auto

lemma triple_sum:
  "(\<And>y. x = Inl y \<Longrightarrow> triple P F (m y) G) \<Longrightarrow> (\<And>y. x = Inr y \<Longrightarrow> triple P F (n y) G) \<Longrightarrow>
     triple P F (case x of Inl y \<Rightarrow> m y | Inr y \<Rightarrow> n y) G"
  by (cases x) auto

lemma triple_prod:
  "(\<And>y z. x = (y, z) \<Longrightarrow> triple P F (m y z) G) \<Longrightarrow> triple P F (case x of (y, z) \<Rightarrow> m y z) G"
  by (cases x) auto

lemma triple_list:
  "(x = [] \<Longrightarrow> triple P F m G) \<Longrightarrow> (\<And>y ys. x = y # ys \<Longrightarrow> triple P F (n y ys) G) \<Longrightarrow>
     triple P F (case x of [] \<Rightarrow> m | y # ys \<Rightarrow> n y ys) G"
  by (cases x) auto

lemma triple_bool:
  "(x \<Longrightarrow> triple P F m G) \<Longrightarrow> (\<not> x \<Longrightarrow> triple P F n G) \<Longrightarrow>
     triple P F (case x of True \<Rightarrow> m | False \<Rightarrow> n) G"
  by (cases x) auto

lemma triple_let: "triple P F (f x) G \<Longrightarrow> triple P F (Let x f) G"
  by simp

lemmas triple_cases = triple_if triple_option triple_sum triple_prod triple_list triple_bool triple_let

section \<open>Handlers under the lock of a volume\<close>

text \<open>
  Either nothing happened, which is an error, or everything happened between taking and releasing
  the lock.
\<close>

definition lock_bracketed ::
  "string \<Rightarrow> ('a option \<Rightarrow> host_event list \<Rightarrow> bool) \<Rightarrow> 'a option \<Rightarrow> host_event list \<Rightarrow> bool" where
  "lock_bracketed v Q r tr \<longleftrightarrow>
     tr = [] \<and> r \<noteq> None \<or> (\<exists>body. tr = Locked v # body @ [Unlocked v] \<and> Q r body)"

lemma triple_start: "triple P (\<lambda>_. True) m G \<Longrightarrow> triple P (\<lambda>t. t = []) m G"
  by (rule triple_conseq) auto

lemma locking_run:
  assumes "triple P (\<lambda>t. t = []) m G"
  shows "case run_state (locking H v m) s of (r, s') \<Rightarrow>
    \<exists>tr. trace s' = trace s @ tr \<and> lock_bracketed v (\<lambda>r body. each_after P body \<and> G r body) r tr"
proof -
  let ?Q = "\<lambda>r (s' :: 'a node).
    \<exists>tr. trace s' = trace s @ tr \<and> lock_bracketed v (\<lambda>r body. each_after P body \<and> G r body) r tr"
  have body: "wp m (\<lambda>r. wp (do { u \<leftarrow> note_event (Unlocked v); ret r }) ?Q) (s\<lparr>nworld := w, trace := trace s @ [Locked v]\<rparr>)" for w
    by (rule wp_mono [OF tripleD [OF assms, of _ "trace s @ [Locked v]" "[]"]])
      (auto simp: wp_bind wp_rules lock_bracketed_def)
  have "wp (case l of
      Some e \<Rightarrow> ret (Some (FromContextError e))
    | None \<Rightarrow> do { r \<leftarrow> m; u \<leftarrow> note_event (Unlocked v); ret r }) ?Q
      (s\<lparr>nworld := w, trace := trace s @ (if l = None then [Locked v] else [])\<rparr>)" for l w
    by (cases l) (simp_all only: option.case wp_bind [of m] body if_True simp_thms, simp add: wp_rules lock_bracketed_def)
  then have "wp (locking H v m) ?Q s"
    unfolding locking_def wp_bind [of "ask _ _"] by (intro wp_askI)
  then show ?thesis by (simp add: wp_def)
qed

lemma refused_run:
  "case run_state (ret (Some e)) s of (r, s') \<Rightarrow> \<exists>tr. trace s' = trace s @ tr \<and> lock_bracketed v Q r tr"
  by (auto simp: lock_bracketed_def)

section \<open>Operations that do no harm\<close>

text \<open>
  Commands that change a mount, a filesystem or a session. Harmless are the tools that only look or
  attach; of these, \<^verbatim>\<open>nvme\<close> and \<^verbatim>\<open>iscsiadm\<close> (directly or in the host's namespaces) can also end a session,
  forget the record of a target, or reset a controller.
\<close>

definition ends_session :: "string list \<Rightarrow> bool" where
  "ends_session cmd \<longleftrightarrow>
     take 2 cmd = [''nvme'', ''disconnect''] \<or>
     (case rev cmd of
        a # _ # c # d # e # _ \<Rightarrow> a = ''--logout'' \<and> c = ''-T'' \<and> d = ''node'' \<and> e = ''-m''
      | _ \<Rightarrow> False)"

definition forgets_target :: "string list \<Rightarrow> bool" where
  "forgets_target cmd \<longleftrightarrow>
     (case rev cmd of
        a # b # _ # d # e # f # _ \<Rightarrow> a = ''delete'' \<and> b = ''-o'' \<and> d = ''-T'' \<and> e = ''node'' \<and> f = ''-m''
      | _ \<Rightarrow> False)"

definition detaches :: "string list \<Rightarrow> bool" where
  "detaches cmd \<longleftrightarrow> ends_session cmd \<or> forgets_target cmd"

definition hostIscsiadm :: "string list" where
  "hostIscsiadm = [''nsenter'', ''--mount=/proc/1/ns/mnt'', ''--ipc=/proc/1/ns/ipc'', ''--'', ''iscsiadm'']"

definition iscsiadm_cmd :: "string list \<Rightarrow> string list \<Rightarrow> bool" where
  "iscsiadm_cmd args cmd \<longleftrightarrow> cmd = ''iscsiadm'' # args \<or> cmd = hostIscsiadm @ args"

lemma iscsiadm_suffix [dest]: "iscsiadm_cmd args cmd \<Longrightarrow> suffix args cmd"
  by (auto simp: iscsiadm_cmd_def suffix_def)

definition harmless_tool :: "string list \<Rightarrow> bool" where
  "harmless_tool cmd \<longleftrightarrow>
     take 1 cmd \<in> {[''findmnt''], [''blkid''], [''blockdev''], [''udevadm''], [''ls''], [''nvme''], [''iscsiadm'']} \<or>
     take 5 cmd = hostIscsiadm"

definition risky :: "string list \<Rightarrow> bool" where
  "risky cmd \<longleftrightarrow> \<not> harmless_tool cmd \<or> detaches cmd \<or> take 2 cmd = [''nvme'', ''reset'']"

definition benign :: "host_event \<Rightarrow> bool" where
  "benign e \<longleftrightarrow>
     (case e of
        Ran cmd _ \<Rightarrow> \<not> risky cmd
      | RemovedPath _ _ \<Rightarrow> False
      | MadeLink _ _ \<Rightarrow> False
      | WroteFile _ _ \<Rightarrow> False
      | _ \<Rightarrow> True)"

lemmas detach_defs = detaches_def ends_session_def forgets_target_def

lemmas risk_defs = risky_def harmless_tool_def hostIscsiadm_def detach_defs benign_def

lemma risky_tools [simp]:
  "take (Suc 0) cmd = [tool] \<Longrightarrow> tool \<in> {''mount'', ''umount'', ''e2fsck'', ''resize2fs'', ''xfs_growfs''} \<Longrightarrow> risky cmd"
  by (cases cmd) (auto simp: risky_def harmless_tool_def hostIscsiadm_def)

lemma each_after_short [simp]:
  "each_after P [a] \<longleftrightarrow> P [] a" "each_after P [a, b] \<longleftrightarrow> P [] a \<and> P [a] b"
  "each_after P [a, b, c] \<longleftrightarrow> P [] a \<and> P [a] b \<and> P [a, b] c"
  using each_after_snoc [of P "[]" a] each_after_snoc [of P "[a]" b] each_after_snoc [of P "[a, b]" c] by auto

lemma each_after_append_all:
  "each_after P t \<Longrightarrow> list_all (\<lambda>e. \<forall>past. P past e) xs \<Longrightarrow> each_after P (t @ xs)"
  by (induction xs rule: rev_induct) (auto simp flip: append_assoc)

locale node_policy =
  fixes P :: policy
  assumes benign: "benign e \<Longrightarrow> P t e"
begin

definition harmless :: "('w, 'a) nop \<Rightarrow> bool" where
  "harmless m \<longleftrightarrow> triple P (\<lambda>_. True) m (\<lambda>_ _. True)"

lemma harmless_ret: "harmless (ret x)"
  by (simp add: harmless_def triple_ret)

lemma harmless_bind: "harmless m \<Longrightarrow> (\<And>x. harmless (f x)) \<Longrightarrow> harmless (State_Monad.bind m f)"
  unfolding harmless_def by (rule triple_bind)

lemma harmless_cases:
  "(b \<Longrightarrow> harmless m) \<Longrightarrow> (\<not> b \<Longrightarrow> harmless n) \<Longrightarrow> harmless (if b then m else n)"
  "(o1 = None \<Longrightarrow> harmless m) \<Longrightarrow> (\<And>y. o1 = Some y \<Longrightarrow> harmless (k1 y)) \<Longrightarrow>
     harmless (case o1 of None \<Rightarrow> m | Some y \<Rightarrow> k1 y)"
  "(\<And>y. s1 = Inl y \<Longrightarrow> harmless (k2 y)) \<Longrightarrow> (\<And>y. s1 = Inr y \<Longrightarrow> harmless (k3 y)) \<Longrightarrow>
     harmless (case s1 of Inl y \<Rightarrow> k2 y | Inr y \<Rightarrow> k3 y)"
  "(\<And>y z. p1 = (y, z) \<Longrightarrow> harmless (k4 y z)) \<Longrightarrow> harmless (case p1 of (y, z) \<Rightarrow> k4 y z)"
  "(l1 = [] \<Longrightarrow> harmless m) \<Longrightarrow> (\<And>y ys. l1 = y # ys \<Longrightarrow> harmless (k5 y ys)) \<Longrightarrow>
     harmless (case l1 of [] \<Rightarrow> m | y # ys \<Rightarrow> k5 y ys)"
  "(b \<Longrightarrow> harmless m) \<Longrightarrow> (\<not> b \<Longrightarrow> harmless n) \<Longrightarrow> harmless (case b of True \<Rightarrow> m | False \<Rightarrow> n)"
  "harmless (k6 x) \<Longrightarrow> harmless (Let x k6)"
  unfolding harmless_def by (auto intro: triple_cases split: option.split sum.split prod.split list.split bool.split)

lemma harmless_ask: "(\<And>r. list_all benign (ev r)) \<Longrightarrow> harmless (ask f ev)"
  unfolding harmless_def
  by (rule triple_ask) (simp add: each_after_append_all list_all_iff benign)

lemma harmless_peek: "harmless (peek f)"
  by (rule harmless_ask) simp

lemma harmless_Run: "\<not> risky cmd \<Longrightarrow> harmless (Run H cmd)"
  unfolding Run_def by (rule harmless_ask) (simp add: benign_def)

lemma harmless_host:
  "harmless (Lstat H path)" "harmless (Stat H path)" "harmless (ReadFile H path)" "harmless (MkdirAll H path)" "harmless (Sleep H d)"
  "harmless (Readlink H path)" "harmless (EvalSymlinks H path)" "harmless (Glob H pattern)"
  "harmless (IsMounted H ctx path)" "harmless (IsDeviceMounted H ctx path)"
  "harmless (IsSourceMounted H path)" "harmless (GetBindMountRefs H path)"
  unfolding host_ops mount_ops by (rule harmless_ask; simp add: benign_def)+

text \<open>What is known stays known, and what was seen is remembered.\<close>

lemma triple_harmless: "harmless m \<Longrightarrow> stable F \<Longrightarrow> triple P F m (\<lambda>_. F)"
  unfolding harmless_def
  by (rule triple_conseq [OF triple_frame [where R = F]]) (auto simp: stable_def)

lemma seq_harmless:
  assumes "harmless m" "stable F" "\<And>x. triple P F (f x) K"
  shows "triple P F (State_Monad.bind m f) K"
  by (rule triple_bind [OF triple_harmless]) (rule assms)+

lemma seq_peek: "(\<And>x. triple P F (f x) K) \<Longrightarrow> triple P F (State_Monad.bind (peek g) f) K"
  by (rule triple_bind [OF triple_ask [where G = "\<lambda>_. F"]]) auto

lemma seq_look:
  assumes "\<And>r. benign (ev r)" "stable F" "\<And>r. triple P (\<lambda>t. F t \<and> ev r \<in> set t) (f r) K"
  shows "triple P F (State_Monad.bind (ask g (\<lambda>r. [ev r])) f) K"
  by (rule triple_bind [OF triple_ask assms(3)]) (use assms benign in \<open>auto simp: stable_def\<close>)

lemma seq_Run:
  "\<not> risky cmd \<Longrightarrow> stable F \<Longrightarrow> (\<And>r. triple P (\<lambda>t. F t \<and> Ran cmd r \<in> set t) (f r) K) \<Longrightarrow>
     triple P F (State_Monad.bind (Run H cmd) f) K"
  unfolding Run_def by (rule seq_look) (simp_all add: benign_def)

lemma seq_IsMounted:
  "stable F \<Longrightarrow> (\<And>r. triple P (\<lambda>t. F t \<and> SawMounted path r \<in> set t) (f r) K) \<Longrightarrow>
     triple P F (State_Monad.bind (IsMounted H ctx path) f) K"
  unfolding IsMounted_def by (rule seq_look) (simp_all add: benign_def)

lemma seq_Lstat:
  "stable F \<Longrightarrow> (\<And>r. triple P (\<lambda>t. F t \<and> SawLink path r \<in> set t) (f r) K) \<Longrightarrow>
     triple P F (State_Monad.bind (Lstat H path) f) K"
  unfolding Lstat_def by (rule seq_look) (simp_all add: benign_def)

lemma seq_Stat:
  "stable F \<Longrightarrow> (\<And>r. triple P (\<lambda>t. F t \<and> SawStat path r \<in> set t) (f r) K) \<Longrightarrow>
     triple P F (State_Monad.bind (Stat H path) f) K"
  unfolding Stat_def by (rule seq_look) (simp_all add: benign_def)

lemma seq_ReadFile:
  "stable F \<Longrightarrow> (\<And>r. triple P (\<lambda>t. F t \<and> SawFile path r \<in> set t) (f r) K) \<Longrightarrow>
     triple P F (State_Monad.bind (ReadFile H path) f) K"
  unfolding ReadFile_def by (rule seq_look) (simp_all add: benign_def)

lemma seq_links:
  "stable F \<Longrightarrow> (\<And>r. triple P (\<lambda>t. F t \<and> SawTarget path r \<in> set t) (f r) K) \<Longrightarrow>
     triple P F (State_Monad.bind (Readlink H path) f) K"
  "stable F \<Longrightarrow> (\<And>r. triple P (\<lambda>t. F t \<and> SawResolved path r \<in> set t) (f r) K) \<Longrightarrow>
     triple P F (State_Monad.bind (EvalSymlinks H path) f) K"
  "stable F \<Longrightarrow> (\<And>g. triple P (\<lambda>t. F t \<and> SawGlob pattern g \<in> set t) (f' g) K) \<Longrightarrow>
     triple P F (State_Monad.bind (Glob H pattern) f') K"
  unfolding Readlink_def EvalSymlinks_def Glob_def by (rule seq_look; simp add: benign_def)+

text \<open>An observation that is still the last one, and a risky command, which needs its licence.\<close>

lemma triple_last:
  assumes "\<And>t r. F t \<Longrightarrow> P t (ev r)" "stable K" "\<And>t. F t \<Longrightarrow> K t"
  shows "triple P F (ask f (\<lambda>r. [ev r])) (\<lambda>r t. K t \<and> ev r \<in> set t \<and> last t = ev r)"
  by (rule triple_ask) (use assms in \<open>auto simp: stable_def\<close>)

lemmas harmless_basic = harmless_ret harmless_bind harmless_peek harmless_host harmless_cases

end

end
