(* ===== verification/Node_Benign.thy ===== *)
theory Node_Benign
  imports Node_Logic
begin

text \<open>
  The parts of the handlers that only look: probing, waiting, discovery, rescans and logins neither
  mount nor unmount, repair, end a session or remove anything, whatever the policy.
\<close>

context node_policy
begin

section \<open>Devices and filesystems\<close>

lemma harmless_filesystem:
  "harmless (getsize H d)" "harmless (isDeviceHealthy H d)" "harmless (forceDeviceRescan H d)"
  "harmless (logDeviceInfo H d)" "harmless (getBlockDeviceSize H d)" "harmless (getExpectedCapacity H n ctx)"
  "harmless (createMissing H d)"
  unfolding getsize_def isDeviceHealthy_def forceDeviceRescan_def logDeviceInfo_def getBlockDeviceSize_def
    getExpectedCapacity_def createMissing_def
  by (intro harmless_basic harmless_Run; simp add: risk_defs)+

lemma harmless_size: "harmless (verifyDeviceSize H d ctx)"
  unfolding verifyDeviceSize_def by (intro harmless_basic harmless_filesystem)

lemma harmless_healthy_loop: "harmless (verifyDeviceHealthyLoop H d n)"
  by (induction n) (simp_all only: verifyDeviceHealthyLoop.simps, (intro harmless_basic harmless_filesystem; assumption?)+)

lemma harmless_device_loop: "harmless (waitForDeviceLoop H d n)"
  by (induction n) (simp_all only: waitForDeviceLoop.simps, (intro harmless_basic harmless_filesystem; assumption?)+)

lemma harmless_waits: "harmless (verifyDeviceHealthy H d)" "harmless (waitForDeviceInitialization H d)"
  by (simp_all add: verifyDeviceHealthy_def waitForDeviceInitialization_def harmless_healthy_loop
    harmless_device_loop)

lemma harmless_blkid: "harmless (Run H (blkidType d))"
  by (rule harmless_Run) (simp add: risk_defs blkidType_def)

lemma harmless_probe: "harmless (probeLoop H d fs n a b)"
proof (induction n arbitrary: a b)
  case (Suc n)
  show ?case
    unfolding probeLoop.simps by (intro harmless_basic harmless_blkid Suc.IH)
qed (simp add: harmless_ret)

lemmas harmless_devices = harmless_filesystem harmless_size harmless_waits harmless_probe

section \<open>iSCSI\<close>

lemma harmless_iscsiadm:
  assumes "\<not> risky (''iscsiadm'' # args)"
    "\<not> risky ([''nsenter'', ''--mount=/proc/1/ns/mnt'', ''--ipc=/proc/1/ns/ipc'', ''--'', ''iscsiadm''] @ args)"
  shows "harmless (iscsiadmCmd H args)"
  unfolding iscsiadmCmd_def by (intro harmless_basic harmless_Run assms)

lemma iscsiadm_known:
  assumes "\<not> risky (''iscsiadm'' # args)"
    "\<not> risky ([''nsenter'', ''--mount=/proc/1/ns/mnt'', ''--ipc=/proc/1/ns/ipc'', ''--'', ''iscsiadm''] @ args)"
    "stable F"
  shows "triple P F (iscsiadmCmd H args)
    (\<lambda>r t. F t \<and> (\<exists>cmd. Ran cmd r \<in> set t \<and> iscsiadm_cmd args cmd))"
proof -
  have "triple P F (Run H cmd) (\<lambda>r t. F t \<and> (\<exists>cmd. Ran cmd r \<in> set t \<and> iscsiadm_cmd args cmd))"
    if "\<not> risky cmd" "iscsiadm_cmd args cmd" for cmd
    unfolding Run_def
    by (rule triple_conseq [OF triple_last [where F = F and K = F]]) (use that assms benign in \<open>auto simp: benign_def\<close>)
  with assms(1,2) show ?thesis
    unfolding iscsiadmCmd_def by (intro seq_peek triple_sum) (simp_all add: iscsiadm_cmd_def hostIscsiadm_def)
qed

lemma iscsiadm_seen:
  assumes "\<not> risky (''iscsiadm'' # args)"
    "\<not> risky ([''nsenter'', ''--mount=/proc/1/ns/mnt'', ''--ipc=/proc/1/ns/ipc'', ''--'', ''iscsiadm''] @ args)"
    "stable F"
  shows "triple P F (iscsiadmCmd H args) (\<lambda>r t. F t \<and> (\<exists>cmd. Ran cmd r \<in> set t \<and> suffix args cmd))"
  by (rule triple_conseq [OF iscsiadm_known [OF assms]]) auto

lemma harmless_queries:
  "harmless (checkISCSIAdm H)" "harmless (getISCSISessionInfoFromIscsiadm H d)"
  "harmless (sessionPortal H sess portal)" "harmless (getISCSISessionState H d)" "harmless (findISCSIDevice H params)"
  unfolding checkISCSIAdm_def getISCSISessionInfoFromIscsiadm_def sessionPortal_def getISCSISessionState_def
    findISCSIDevice_def
  by (intro harmless_basic harmless_iscsiadm; simp add: risk_defs)+

lemma harmless_sessions: "harmless (sysfsSessionLoop H portal sessions)"
proof (induction sessions arbitrary: portal)
  case (Cons a sessions)
  show ?case
    unfolding sysfsSessionLoop.simps by (intro harmless_basic harmless_queries Cons.IH)
qed (simp add: harmless_ret)

lemma harmless_session_info: "harmless (getISCSISessionInfo H path)"
  unfolding getISCSISessionInfo_def by (intro harmless_basic harmless_sessions harmless_queries)

lemma harmless_prune: "harmless (prunePortals H iqn portal dps)"
proof (induction dps)
  case (Cons a dps)
  show ?case
    unfolding prunePortals.simps
    by (intro harmless_basic harmless_iscsiadm Cons.IH; simp add: risk_defs)
qed (simp add: harmless_ret)

lemma harmless_portal: "harmless (createPortalEntry H iqn portal)"
  unfolding createPortalEntry_def by (intro harmless_basic harmless_iscsiadm; simp add: risk_defs)

lemma harmless_login: "harmless (loginISCSITarget H params)"
  unfolding loginISCSITarget_def
  by (intro harmless_basic harmless_prune harmless_portal harmless_iscsiadm; simp add: risk_defs)

lemma harmless_wait_iscsi: "harmless (waitForISCSIDeviceLoop H params n)"
proof (induction n)
  case (Suc n)
  show ?case
    unfolding waitForISCSIDeviceLoop.simps by (intro harmless_basic harmless_queries Suc.IH)
qed (simp add: harmless_ret)

lemmas harmless_iscsi = harmless_queries harmless_session_info harmless_login harmless_wait_iscsi

section \<open>NVMe-oF\<close>

lemma harmless_sysfs: "harmless (readNVMeSysfsValue H path)"
  unfolding readNVMeSysfsValue_def by (intro harmless_basic)

lemma sysfs_read:
  assumes "stable F"
  shows "triple P F (readNVMeSysfsValue H p)
    (\<lambda>v t. F t \<and> (\<forall>c. v = Some c \<longrightarrow> (\<exists>x. SawFile p (Inr x) \<in> set t \<and> trim_space x = c)))"
  unfolding readNVMeSysfsValue_def
  by (intro seq_ReadFile triple_ret assms) (auto split: sum.splits)

lemma harmless_filter: "(\<And>x. harmless (p x)) \<Longrightarrow> harmless (filter_op p xs)"
  by (induction xs) (auto intro!: harmless_ret harmless_bind)

lemma harmless_namespace: "harmless (nvmeNamespaceDeviceForNQN H root nqn)"
  unfolding nvmeNamespaceDeviceForNQN_def by (intro harmless_basic harmless_filter harmless_sysfs)

lemma harmless_controller_loop: "harmless (controllerLoop H owner first names)"
proof (induction names arbitrary: first)
  case (Cons a names)
  show ?case
    unfolding controllerLoop.simps by (intro harmless_basic harmless_sysfs Cons.IH)
qed (simp add: harmless_ret)

lemma harmless_controller:
  "harmless (nvmeNQNForDevice H root d)" "harmless (nvmeControllerForNamespace H root d)"
  "harmless (getNVMeControllerState H d)" "harmless (extractNVMeController H d)"
  unfolding nvmeNQNForDevice_def getNVMeControllerState_def extractNVMeController_def nvmeControllerForNamespace_def
  by (intro harmless_basic harmless_sysfs harmless_controller_loop)+

lemma harmless_rescan:
  "harmless (runNVMeListSubsys H)" "harmless (getSubsystemState H nqn)" "harmless (forceNamespaceRescan H c)"
  "harmless (triggerUdevForNVMeSubsystem H)" "harmless (logNVMeDiscoveryDiagnostics H)" "harmless (checkNVMeCLI H)"
  "harmless (existsHealthy H d)"
  unfolding runNVMeListSubsys_def getSubsystemState_def forceNamespaceRescan_def checkNVMeCLI_def
    triggerUdevForNVMeSubsystem_def logNVMeDiscoveryDiagnostics_def existsHealthy_def
  by (intro harmless_basic harmless_Run harmless_filesystem; simp add: risk_defs)+

lemma harmless_rescan_namespace: "harmless (rescanNVMeNamespace H d)"
  unfolding rescanNVMeNamespace_def
  by (intro harmless_basic harmless_controller harmless_Run; simp add: risk_defs)

lemma harmless_subsystem: "harmless (waitForSubsystemLoop H nqn a n)"
proof (induction n arbitrary: a)
  case (Suc n)
  show ?case
    unfolding waitForSubsystemLoop.simps by (intro harmless_basic harmless_rescan Suc.IH)
next
  case 0
  show ?case unfolding waitForSubsystemLoop.simps by (intro harmless_basic harmless_rescan)
qed

lemmas harmless_nvme = harmless_namespace harmless_controller harmless_rescan harmless_rescan_namespace
  harmless_subsystem

section \<open>What is mounted where\<close>

lemma harmless_staged_path:
  "harmless (findmntSource H p)" "harmless (stagingLink H p)" "harmless (resolvedNVMeLink H p)"
  unfolding findmntSource_def stagingLink_def resolvedNVMeLink_def
  by (intro harmless_basic harmless_Run; simp add: risk_defs)+

lemma harmless_links: "harmless (iscsiLinkLoop H realPath names)"
proof (induction names)
  case (Cons name names)
  show ?case unfolding iscsiLinkLoop.simps by (intro harmless_basic Cons.IH)
qed (simp add: harmless_ret)

lemma harmless_block_protocol:
  "harmless (detectBlockProtocolFromDevice H d)" "harmless (detectFilesystemType H p)"
  unfolding detectBlockProtocolFromDevice_def isISCSIDevice_def detectFilesystemType_def
  by (intro harmless_basic harmless_links harmless_session_info harmless_Run; simp add: risk_defs)+

lemma harmless_detection:
  "harmless (detectProtocolFromVolumePath H p)" "harmless (detectProtocolFromStagingPath H p)"
  unfolding detectProtocolFromStagingPath_def detectProtocolFromVolumePath_def detectBlockProtocolFromMount_def
  by (intro harmless_basic harmless_staged_path harmless_block_protocol)+

lemma harmless_mounted: "harmless (isMountedWithTimeout H p)"
  unfolding isMountedWithTimeout_def by (intro harmless_basic harmless_Run; simp add: risk_defs)

lemma harmless_health: "harmless (NodeGetVolumeHealth H v p q)"
  unfolding NodeGetVolumeHealth_def checkVolumeHealth_def checkBasicHealth_def checkNFSHealth_def checkSMBHealth_def
    checkShareHealth_def shareReadable_def checkDirectoryReadable_def checkNVMeOFHealth_def checkISCSIHealth_def checkBlockHealth_def getSourceDevice_def
  by (intro harmless_basic harmless_detection harmless_mounted harmless_staged_path harmless_controller harmless_queries)

lemma harmless_stats: "harmless (NodeGetVolumeStats H v p)"
  unfolding NodeGetVolumeStats_def by (intro harmless_basic)

end

end
