(* ===== verification/Node_Staging.thy ===== *)
theory Node_Staging
  imports Node_Benign
begin

text \<open>
  The policy of staging: which events of \<^verbatim>\<open>NodeStageVolume\<close> are allowed after which, and that every
  run keeps to it.
\<close>

section \<open>The policy\<close>

definition verified_probe :: "string \<Rightarrow> cmd_result \<Rightarrow> bool" where
  "verified_probe fsType r \<longleftrightarrow> cr_err r = None \<and> trim_space (cr_output r) = fsType"

text \<open>The device belongs to the subsystem of the volume: its NQN was read and is the same.\<close>

definition nqn_device :: "string \<Rightarrow> host_event list \<Rightarrow> string \<Rightarrow> bool" where
  "nqn_device nqn past d \<longleftrightarrow>
     (\<exists>name c. d = ''/dev/'' @ name \<and>
        SawFile (Join [sysBlockPath, name, ''device'', ''subsysnqn'']) (Inr c) \<in> set past \<and> trim_space c = nqn)"

text \<open>The device is the one that a listing of the sessions names for the target.\<close>

definition session_device :: "string \<Rightarrow> host_event list \<Rightarrow> string \<Rightarrow> bool" where
  "session_device iqn past d \<longleftrightarrow>
     (\<exists>cmd r. Ran cmd r \<in> set past \<and> cr_err r = None \<and> d = ''/dev/'' @ parseISCSISessionDevice (cr_output r) iqn)"

definition volume_device :: "stage_request \<Rightarrow> host_event list \<Rightarrow> string \<Rightarrow> bool" where
  "volume_device req past d \<longleftrightarrow>
     (let ctx = st_VolumeContext req
      in if getProtocolFromVolumeContext ctx = ProtocolNVMeOF then nqn_device (mget ctx ''nqn'') past d
         else getProtocolFromVolumeContext ctx = ProtocolISCSI \<and> session_device (mget ctx ''iscsiIQN'') past d)"

text \<open>If the request says how large the volume is, the device was measured and is large enough.\<close>

definition size_checked :: "smap \<Rightarrow> host_event list \<Rightarrow> string \<Rightarrow> bool" where
  "size_checked ctx past d \<longleftrightarrow>
     (case atoi (mget ctx ''expectedCapacity'') of
        None \<Rightarrow> True
      | Some c \<Rightarrow>
          c = 0 \<or>
          (\<exists>r n. Ran [''blockdev'', ''--getsize64'', d] r \<in> set past \<and> cr_err r = None \<and>
             atoi (trim_space (cr_output r)) = Some n \<and> verifySizeMatch n c = None))"

text \<open>What must be known of a device before its filesystem is touched.\<close>

definition device_verified :: "stage_request \<Rightarrow> node_capability \<Rightarrow> host_event list \<Rightarrow> string \<Rightarrow> bool" where
  "device_verified req cap past d \<longleftrightarrow>
     volume_device req past d \<and> size_checked (st_VolumeContext req) past d \<and>
     SawMounted (st_StagingTargetPath req) (Inr False) \<in> set past \<and>
     (\<exists>r. Ran (blkidType d) r \<in> set past \<and> verified_probe (requestedFsType cap) r)"

definition repaired :: "cmd_result \<Rightarrow> bool" where
  "repaired r \<longleftrightarrow> (case cr_err r of None \<Rightarrow> True | Some e \<Rightarrow> ce_ExitCode e = Some 1)"

definition e2fsck :: "string \<Rightarrow> string list" where
  "e2fsck d = [''e2fsck'', ''-p'', ''-f'', d]"

definition repair_ok :: "stage_request \<Rightarrow> node_capability \<Rightarrow> host_event list \<Rightarrow> string \<Rightarrow> bool" where
  "repair_ok req cap past d \<longleftrightarrow> device_verified req cap past d \<and> last past = SawSource d (Inr False)"

definition mount_ok :: "stage_request \<Rightarrow> node_capability \<Rightarrow> host_event list \<Rightarrow> string list \<Rightarrow> bool" where
  "mount_ok req cap past cmd \<longleftrightarrow>
     (let path = st_StagingTargetPath req
      in SawMounted path (Inr False) \<in> set past \<and>
         ((\<exists>fs opts source. cmd = [''mount'', ''-t'', fs, ''-o'', opts, source, path]) \<or>
          (\<exists>opts d. cmd = ''mount'' # deviceMountArgs opts d path \<and> device_verified req cap past d \<and>
             (extFilesystem (requestedFsType cap) \<longrightarrow> (\<exists>r. last past = Ran (e2fsck d) r \<and> repaired r)))))"

text \<open>A session may end if this request has made it, or if nothing is staged on it.\<close>

definition connects :: "string list \<Rightarrow> bool" where
  "connects cmd \<longleftrightarrow> take 2 cmd = [''nvme'', ''connect''] \<or> (cmd \<noteq> [] \<and> last cmd = ''--login'')"

definition not_linked :: "os_error + file_info \<Rightarrow> bool" where
  "not_linked l \<longleftrightarrow> (case l of Inl e \<Rightarrow> oe_NotExist e | Inr info \<Rightarrow> \<not> fi_Symlink info)"

definition session_free :: "stage_request \<Rightarrow> host_event list \<Rightarrow> bool" where
  "session_free req past \<longleftrightarrow>
     (\<exists>cmd r. Ran cmd r \<in> set past \<and> connects cmd) \<or>
     ((\<exists>l. SawLink (st_StagingTargetPath req) l \<in> set past \<and> not_linked l) \<and>
      SawMounted (st_StagingTargetPath req) (Inr False) \<in> set past)"

definition stage_licensed :: "stage_request \<Rightarrow> node_capability \<Rightarrow> policy" where
  "stage_licensed req cap past e \<longleftrightarrow>
     (case e of
        Ran cmd _ \<Rightarrow>
          if take 1 cmd = [''e2fsck''] then \<exists>d. cmd = e2fsck d \<and> repair_ok req cap past d
          else if take 1 cmd = [''mount''] then mount_ok req cap past cmd
          else if take 1 cmd = [''umount''] then False
          else risky cmd \<longrightarrow> detaches cmd \<and> session_free req past
      | RemovedPath p _ \<Rightarrow> MadeFile p \<in> set past \<or> is_block cap \<and> p = st_StagingTargetPath req
      | MadeLink d p \<Rightarrow> is_block cap \<and> p = st_StagingTargetPath req \<and> volume_device req past d
      | WroteFile _ _ \<Rightarrow> False
      | _ \<Rightarrow> True)"

lemma stable_device:
  "stable (\<lambda>t. nqn_device nqn t d)" "stable (\<lambda>t. session_device iqn t d)" "stable (\<lambda>t. volume_device req t d)"
  "stable (\<lambda>t. size_checked ctx t d)" "stable (\<lambda>t. device_verified req cap t d)" "stable (session_free req)"
  unfolding stable_def volume_device_def device_verified_def nqn_device_def session_device_def size_checked_def
    session_free_def Let_def
  by (auto split: option.splits | fastforce split: option.split)+

interpretation stage: node_policy "stage_licensed req cap" for req cap
  by unfold_locales (auto simp: benign_def stage_licensed_def split: host_event.splits)

section \<open>Devices\<close>

lemma probe_verified:
  assumes "stable F"
  shows "triple (stage_licensed req cap) F (probeLoop H d fs n a b)
    (\<lambda>p t. F t \<and> (p = Inr Verified \<longrightarrow> (\<exists>r. Ran (blkidType d) r \<in> set t \<and> verified_probe fs r)))"
proof (induction n arbitrary: a b)
  case 0
  show ?case by (simp add: triple_ret)
next
  case (Suc n)
  note IH = triple_conseq [OF Suc.IH]
  show ?case
    unfolding probeLoop.simps
    by (intro stage.seq_Run stage.seq_peek triple_cases triple_ret IH assms)
      (auto simp: risk_defs blkidType_def verified_probe_def split: if_splits)
qed

lemma stage_risky:
  "stage_licensed req cap t (Ran (e2fsck d) r) \<longleftrightarrow> repair_ok req cap t d"
  "stage_licensed req cap t (Ran (''mount'' # args) r) \<longleftrightarrow> mount_ok req cap t (''mount'' # args)"
  by (auto simp: stage_licensed_def e2fsck_def)

lemma repair_checked:
  assumes "extFilesystem (requestedFsType cap)"
  shows "triple (stage_licensed req cap)
    (\<lambda>t. device_verified req cap t d \<and> last t = SawSource d (Inr False))
    (repairFilesystem H d (requestedFsType cap))
    (\<lambda>ok t. device_verified req cap t d \<and> (ok \<longrightarrow> (\<exists>r. last t = Ran (e2fsck d) r \<and> repaired r)))"
proof -
  have run: "triple (stage_licensed req cap)
      (\<lambda>t. device_verified req cap t d \<and> last t = SawSource d (Inr False)) (Run H (e2fsck d))
      (\<lambda>r t. device_verified req cap t d \<and> Ran (e2fsck d) r \<in> set t \<and> last t = Ran (e2fsck d) r)"
    unfolding Run_def
    by (rule stage.triple_last) (auto simp: stage_risky repair_ok_def stable_device)
  show ?thesis
    unfolding repairFilesystem_def e2fsck_def [symmetric]
    by (intro triple_if stage.seq_peek triple_bind [OF run] triple_ret)
      (use assms in \<open>auto simp: repaired_def split: option.splits\<close>)
qed

lemma source_checked:
  "triple (stage_licensed req cap) (\<lambda>t. device_verified req cap t d) (IsSourceMounted H d)
     (\<lambda>s t. device_verified req cap t d \<and> SawSource d s \<in> set t \<and> last t = SawSource d s)"
  unfolding IsSourceMounted_def
  by (rule stage.triple_last) (auto simp: stage_licensed_def stable_device)

text \<open>After a successful preparation the device may be mounted.\<close>

definition mountable :: "stage_request \<Rightarrow> node_capability \<Rightarrow> string \<Rightarrow> host_event list \<Rightarrow> bool" where
  "mountable req cap d t \<longleftrightarrow>
     device_verified req cap t d \<and>
     (extFilesystem (requestedFsType cap) \<longrightarrow> (\<exists>r. last t = Ran (e2fsck d) r \<and> repaired r))"

lemma triple_probe:
  "(x = Verified \<Longrightarrow> triple P F m G) \<Longrightarrow> (\<And>b. x = Unverified b \<Longrightarrow> triple P F (n b) G) \<Longrightarrow>
     triple P F (case x of Verified \<Rightarrow> m | Unverified b \<Rightarrow> n b) G"
  by (cases x) auto

lemma prepare_checked:
  "triple (stage_licensed req cap)
     (\<lambda>t. volume_device req t d \<and> size_checked (st_VolumeContext req) t d \<and>
        SawMounted (st_StagingTargetPath req) (Inr False) \<in> set t)
     (prepareFilesystemForMount H d (requestedFsType cap))
     (\<lambda>p t. p = None \<longrightarrow> mountable req cap d t)"
proof -
  let ?F = "\<lambda>t. volume_device req t d \<and> size_checked (st_VolumeContext req) t d \<and>
        SawMounted (st_StagingTargetPath req) (Inr False) \<in> set t"
  let ?fs = "requestedFsType cap"
  let ?G = "\<lambda>m t. (m = None \<longrightarrow> device_verified req cap t d) \<and>
      (m = None \<longrightarrow> extFilesystem ?fs \<longrightarrow> last t = SawSource d (Inr False))"
  have F: "stable ?F" by (intro stable_intros stable_device)
  have mounted: "triple (stage_licensed req cap) (\<lambda>t. device_verified req cap t d)
      (if extFilesystem ?fs then do {
         s \<leftarrow> IsSourceMounted H d;
         ret (case s of Inl _ \<Rightarrow> Some (Status Unavailable)
           | Inr mounted \<Rightarrow> if mounted then Some (Status FailedPrecondition) else None)
       } else ret None) ?G"
    by (intro triple_if triple_bind [OF source_checked] triple_ret) (auto split: sum.splits if_splits)
  have repair: "triple (stage_licensed req cap) (?G None) (repairFilesystem H d ?fs)
      (\<lambda>ok t. ok \<longrightarrow> mountable req cap d t)"
  proof (cases "extFilesystem ?fs")
    case True
    then show ?thesis
      by (intro triple_conseq [OF repair_checked]) (auto simp: mountable_def)
  next
    case False
    then show ?thesis by (simp add: repairFilesystem_def triple_ret mountable_def)
  qed
  have "triple (stage_licensed req cap) (?G m) (case m of
        Some e \<Rightarrow> ret (Some e)
      | None \<Rightarrow> do {
          ok \<leftarrow> repairFilesystem H d ?fs;
          ret (if ok then None else Some (Status FailedPrecondition))
        }) (\<lambda>p t. p = None \<longrightarrow> mountable req cap d t)" for m
    by (intro triple_option triple_ret triple_bind [OF triple_conseq [OF repair]]) (auto split: if_splits)
  note rest = triple_bind [OF triple_conseq [OF mounted] this]
  show ?thesis
    unfolding prepareFilesystemForMount_def
    by (intro triple_bind [OF probe_verified [OF F]] triple_sum triple_probe triple_ret rest)
      (auto simp: device_verified_def)
qed

lemma expected_given:
  "atoi (mget ctx ''expectedCapacity'') = Some c \<Longrightarrow> getExpectedCapacity H n ctx = ret c"
  by (cases "mget ctx ''expectedCapacity'' = []") (simp_all add: getExpectedCapacity_def atoi_def)

lemma size_verified:
  assumes "stable F"
  shows "triple (stage_licensed req cap) F (verifyDeviceSize H d ctx)
    (\<lambda>v t. F t \<and> (v = None \<longrightarrow> size_checked ctx t d))"
proof (cases "atoi (mget ctx ''expectedCapacity'')")
  case None
  then show ?thesis
    by (intro triple_conseq [OF stage.triple_harmless [OF stage.harmless_size assms]]) (auto simp: size_checked_def)
next
  case (Some c)
  have dead: "\<not> risky [''blockdev'', ''--getsize64'', d]" by (simp add: risk_defs)
  have size: "triple (stage_licensed req cap) F (getBlockDeviceSize H d)
      (\<lambda>a t. F t \<and> (\<forall>n. a = Some n \<longrightarrow> (\<exists>r. Ran [''blockdev'', ''--getsize64'', d] r \<in> set t \<and>
         cr_err r = None \<and> atoi (trim_space (cr_output r)) = Some n)))"
    unfolding getBlockDeviceSize_def getsize_def
    by (intro stage.seq_Run dead assms triple_ret) (auto split: if_splits)
  show ?thesis
    unfolding verifyDeviceSize_def expected_given [OF Some] State_Monad.bind_left_identity
    by (intro triple_bind [OF size] triple_option triple_ret stage.seq_peek) (auto simp: size_checked_def Some split: if_splits)
qed

lemma runMount_licensed:
  "(\<And>t. F t \<Longrightarrow> mount_ok req cap t (''mount'' # args)) \<Longrightarrow>
     triple (stage_licensed req cap) F (runMount H args) (\<lambda>_ _. True)"
  unfolding runMount_def Run_def
  by (rule triple_bind [OF triple_ask triple_ret]) (auto simp: stage_risky)

lemma mount_unless_mounted:
  assumes "stable F"
    "triple (stage_licensed req cap) (\<lambda>t. F t \<and> SawMounted path (Inr False) \<in> set t) mnt (\<lambda>_ _. True)"
  shows "triple (stage_licensed req cap) F (mountUnlessMounted H path mnt) (\<lambda>_ _. True)"
  unfolding mountUnlessMounted_def
  by (intro stage.seq_IsMounted triple_sum triple_bool triple_ret triple_conseq [OF assms(2)])
    (auto intro: assms(1))

lemma device_mounted:
  "triple (stage_licensed req cap) (\<lambda>t. volume_device req t d)
     (verifyAndMountDevice H d (st_StagingTargetPath req) cap (st_VolumeContext req) opts) (\<lambda>_ _. True)"
proof -
  let ?F = "\<lambda>t. volume_device req t d \<and> size_checked (st_VolumeContext req) t d"
  have F: "stable (\<lambda>t. volume_device req t d)" "stable ?F" by (intro stable_intros stable_device)+
  have "mount_ok req cap t (''mount'' # deviceMountArgs opts d (st_StagingTargetPath req))"
    if "mountable req cap d t" for t
    unfolding mount_ok_def Let_def using that
    by (intro conjI disjI2 exI [of _ opts] exI [of _ d]) (auto simp: mountable_def device_verified_def)
  note mount = runMount_licensed [where F = "mountable req cap d", OF this]
  have prepare: "triple (stage_licensed req cap)
      (\<lambda>t. ?F t \<and> SawMounted (st_StagingTargetPath req) (Inr False) \<in> set t)
      (prepareFilesystemForMount H d (requestedFsType cap)) (\<lambda>p t. p = None \<longrightarrow> mountable req cap d t)"
    by (rule triple_conseq [OF prepare_checked]) auto
  have "triple (stage_licensed req cap) (\<lambda>t. ?F t \<and> SawMounted (st_StagingTargetPath req) (Inr False) \<in> set t)
      (do {
         p \<leftarrow> prepareFilesystemForMount H d (requestedFsType cap);
         case p of
           Some e \<Rightarrow> ret (Some e)
         | None \<Rightarrow> runMount H (deviceMountArgs opts d (st_StagingTargetPath req))
       }) (\<lambda>_ _. True)"
    by (intro triple_bind [OF prepare] triple_option triple_ret triple_conseq [OF mount]) auto
  note rest = mount_unless_mounted [OF F(2) this]
  have "triple (stage_licensed req cap) ?F
      (mountVerifiedDevice H d (st_StagingTargetPath req) cap opts) (\<lambda>_ _. True)"
    unfolding mountVerifiedDevice_def
    by (intro stage.seq_harmless [OF stage.harmless_host(4) F(2)] triple_if triple_ret rest) auto
  note mountIt = triple_conseq [OF this]
  show ?thesis
    unfolding verifyAndMountDevice_def
    by (intro stage.seq_harmless [OF stage.harmless_filesystem(4) F(1)] triple_bind [OF size_verified [OF F(1)]]
        triple_if triple_ret mountIt) auto
qed

section \<open>Links, shares and sessions\<close>

lemma block_staged:
  assumes "is_block cap"
  shows "triple (stage_licensed req cap) (\<lambda>t. volume_device req t d)
    (stageBlockDevice H d (st_StagingTargetPath req)) (\<lambda>_ _. True)"
proof -
  let ?F = "\<lambda>t. volume_device req t d"
  have F: "stable ?F" by (rule stable_device)
  have link: "triple (stage_licensed req cap) ?F (do {
        m \<leftarrow> MkdirAll H (Dir (st_StagingTargetPath req));
        if m \<noteq> None then ret (Some (Status Internal))
        else do {
          l \<leftarrow> ask (os_Symlink H d (st_StagingTargetPath req)) (\<lambda>_. [MadeLink d (st_StagingTargetPath req)]);
          ret (if l = None then None else Some (Status Internal))
        }
      }) (\<lambda>_ _. True)"
    by (intro stage.seq_harmless [OF stage.harmless_host(4) F] triple_if triple_ret triple_bind [OF triple_ask])
      (auto simp: stage_licensed_def assms)
  have remove: "triple (stage_licensed req cap) ?F (Remove H (st_StagingTargetPath req)) (\<lambda>_. ?F)"
    unfolding Remove_def by (rule triple_ask) (use F in \<open>auto simp: stage_licensed_def assms stable_def\<close>)
  show ?thesis
    unfolding stageBlockDevice_def Let_def
    by (intro stage.seq_peek stage.seq_harmless [OF stage.harmless_host(7) F] triple_sum triple_if triple_ret link
        triple_bind [OF remove]) auto
qed

lemma share_mounted:
  assumes "\<And>t. SawMounted (st_StagingTargetPath req) (Inr False) \<in> set t \<Longrightarrow>
    mount_ok req cap t (''mount'' # args)"
  shows "triple (stage_licensed req cap) (\<lambda>_. True)
    (mountUnlessMounted H (st_StagingTargetPath req) (runMount H args)) (\<lambda>_ _. True)"
  by (intro mount_unless_mounted stable_intros runMount_licensed assms) auto

lemma share_mount_ok:
  "SawMounted (st_StagingTargetPath req) (Inr False) \<in> set t \<Longrightarrow>
     mount_ok req cap t [''mount'', ''-t'', fs, ''-o'', opts, source, st_StagingTargetPath req]"
  by (auto simp: mount_ok_def Let_def)

lemma NFS_staged: "triple (stage_licensed req cap) (\<lambda>_. True) (stageNFSVolume H req cap) (\<lambda>_ _. True)"
  unfolding stageNFSVolume_def Let_def
  by (intro triple_if triple_ret stage.seq_harmless stage.harmless_filesystem stable_intros share_mounted
      share_mount_ok) auto

lemma credentials_written:
  assumes "stable F"
  shows "triple (stage_licensed req cap) F (writeSMBCredentialsFile H secrets)
    (\<lambda>c t. F t \<and> (\<forall>f. c = Some f \<longrightarrow> MadeFile f \<in> set t))"
proof -
  have "triple (stage_licensed req cap) F
      (ask (os_WriteTemp H content) (\<lambda>r. case r of Inl _ \<Rightarrow> [] | Inr path \<Rightarrow> [MadeFile path]))
      (\<lambda>r t. F t \<and> (\<forall>f. r = Inr f \<longrightarrow> MadeFile f \<in> set t))" for content
    by (rule triple_ask) (use assms in \<open>auto simp: stage_licensed_def stable_def split: sum.split\<close>)
  note written = this
  show ?thesis
    unfolding writeSMBCredentialsFile_def
    by (intro triple_if triple_ret triple_bind [OF written]) (auto split: sum.splits)
qed

lemma SMB_mounted:
  "triple (stage_licensed req cap) (\<lambda>t. SawMounted (st_StagingTargetPath req) (Inr False) \<in> set t)
     (mountSMB H req source opts) (\<lambda>_ _. True)"
proof -
  let ?F = "\<lambda>t. SawMounted (st_StagingTargetPath req) (Inr False) \<in> set t"
  let ?cmd = "\<lambda>opts. [''mount'', ''-t'', ''cifs'', ''-o'', JoinMountOptions opts, source, st_StagingTargetPath req]"
  have F: "stable ?F" by (intro stable_intros)
  have mount: "triple (stage_licensed req cap) ?F
      (runMount H [''-t'', ''cifs'', ''-o'', JoinMountOptions opts, source, st_StagingTargetPath req]) (\<lambda>_ _. True)" for opts
    by (rule runMount_licensed) (rule share_mount_ok)
  have made: "triple (stage_licensed req cap) (\<lambda>t. ?F t \<and> MadeFile f \<in> set t)
      (runMount H [''-t'', ''cifs'', ''-o'', JoinMountOptions opts, source, st_StagingTargetPath req])
      (\<lambda>_ t. MadeFile f \<in> set t)" for f opts
    by (rule triple_conseq [OF triple_frame [OF mount, where R = "\<lambda>t. MadeFile f \<in> set t"]]) auto
  have remove: "triple (stage_licensed req cap) (\<lambda>t. MadeFile f \<in> set t) (Remove H f) (\<lambda>_ _. True)" for f
    unfolding Remove_def by (rule triple_ask) (auto simp: stage_licensed_def)
  have "triple (stage_licensed req cap) (\<lambda>t. ?F t \<and> MadeFile f \<in> set t)
      (do {
         r \<leftarrow> runMount H [''-t'', ''cifs'', ''-o'', JoinMountOptions opts, source, st_StagingTargetPath req];
         d \<leftarrow> Remove H f;
         ret r
       }) (\<lambda>_ _. True)" for f opts
    by (intro triple_bind [OF made] triple_bind [OF remove] triple_ret) auto
  note withFile = triple_conseq [OF this]
  show ?thesis
    unfolding mountSMB_def Let_def
    by (intro triple_if triple_bind [OF credentials_written [OF F]] triple_option triple_ret withFile mount) auto
qed

lemma SMB_staged: "triple (stage_licensed req cap) (\<lambda>_. True) (stageSMBVolume H req cap) (\<lambda>_ _. True)"
  unfolding stageSMBVolume_def Let_def
  by (intro triple_if triple_ret stage.seq_harmless stage.harmless_filesystem stable_intros
      mount_unless_mounted triple_conseq [OF SMB_mounted]) auto

section \<open>Sessions\<close>

lemma teardown_guarded:
  assumes "stable F"
  shows "triple (stage_licensed req cap) F (refuseTeardownWhileStaged H (st_StagingTargetPath req))
    (\<lambda>g t. F t \<and> (g = None \<longrightarrow> session_free req t))"
  unfolding refuseTeardownWhileStaged_def
  by (intro stage.seq_Lstat triple_if triple_ret stage.seq_IsMounted stable_intros assms)
    (auto simp: session_free_def not_linked_def split: sum.splits if_splits)

lemma session_ended:
  assumes "detaches cmd" "take 1 cmd \<notin> {[''mount''], [''umount''], [''e2fsck'']}"
  shows "triple (stage_licensed req cap) (session_free req) (Run H cmd) (\<lambda>_. session_free req)"
  unfolding Run_def
  by (rule triple_ask) (use assms stable_device(6) in \<open>auto simp: stage_licensed_def stable_def\<close>)

lemma disconnected: "triple (stage_licensed req cap) (session_free req) (disconnectNVMeOF H nqn) (\<lambda>_. session_free req)"
  unfolding disconnectNVMeOF_def
  by (intro triple_bind [OF session_ended] triple_if triple_ret stage.seq_harmless stage.harmless_host stable_device)
    (auto simp: detach_defs)

lemma logged_out: "triple (stage_licensed req cap) (session_free req) (logoutISCSITarget H iqn) (\<lambda>_. session_free req)"
proof -
  have "triple (stage_licensed req cap) (session_free req)
      (iscsiadmCmd H ([''-m'', ''node'', ''-T'', iqn] @ args)) (\<lambda>_. session_free req)"
    if "args \<in> {[''--logout''], [''-o'', ''delete'']}" for args
    unfolding iscsiadmCmd_def
    by (intro stage.seq_peek triple_sum session_ended) (use that in \<open>auto simp: detach_defs\<close>)
  note this [simplified]
  then show ?thesis
    unfolding logoutISCSITarget_def
    by (intro triple_bind [where G = "\<lambda>_. session_free req"] triple_ret) auto
qed

section \<open>iSCSI\<close>

lemma iscsi_found:
  assumes "stable F" "ic_iqn params = iqn"
  shows "triple (stage_licensed req cap) F (findISCSIDevice H params)
    (\<lambda>r t. F t \<and> (\<forall>d. r = Some d \<longrightarrow> session_device iqn t d))"
proof -
  have "triple (stage_licensed req cap) F (iscsiadmCmd H [''-m'', ''session'', ''-P'', ''3''])
    (\<lambda>r t. F t \<and> (\<exists>cmd. Ran cmd r \<in> set t \<and> suffix [''-m'', ''session'', ''-P'', ''3''] cmd))"
    by (rule stage.iscsiadm_seen) (simp_all add: risk_defs assms(1))
  note seen = this
  show ?thesis
    unfolding findISCSIDevice_def
    by (intro triple_bind [OF seen] triple_ret) (auto simp: session_device_def assms(2) Let_def split: if_splits)
qed

lemma iscsi_awaited:
  assumes "stable F" "ic_iqn params = iqn"
  shows "triple (stage_licensed req cap) F (waitForISCSIDeviceLoop H params n)
    (\<lambda>r t. F t \<and> (\<forall>d. r = Some d \<longrightarrow> session_device iqn t d))"
proof (induction n)
  case (Suc n)
  have check: "triple (stage_licensed req cap) (\<lambda>t. F t \<and> (\<forall>p. d = Some p \<longrightarrow> session_device iqn t p))
      (case d of
         None \<Rightarrow> ret None
       | Some devicePath \<Rightarrow> do {
           st \<leftarrow> peek (os_Stat H devicePath);
           ret (case st of Inl _ \<Rightarrow> None | Inr _ \<Rightarrow> Some devicePath)
         }) (\<lambda>r t. F t \<and> (\<forall>p. r = Some p \<longrightarrow> session_device iqn t p))" for d
    by (intro triple_option stage.seq_peek triple_ret) (auto split: sum.splits)
  have again: "triple (stage_licensed req cap) F (do { u \<leftarrow> Sleep H (2 * Second); waitForISCSIDeviceLoop H params n })
      (\<lambda>r t. F t \<and> (\<forall>d. r = Some d \<longrightarrow> session_device iqn t d))"
    by (intro stage.seq_harmless stage.harmless_host Suc.IH assms)
  show ?case
    unfolding waitForISCSIDeviceLoop.simps
    by (intro stage.seq_peek triple_if triple_ret triple_bind [OF iscsi_found [OF assms]] triple_bind [OF check]
        triple_option triple_conseq [OF again]) auto
qed (simp add: triple_ret)

lemma iscsi_login:
  "triple (stage_licensed req cap) (\<lambda>_. True) (loginISCSITarget H params) (\<lambda>r t. r = None \<longrightarrow> session_free req t)"
proof -
  have "triple (stage_licensed req cap) (\<lambda>_. True)
      (iscsiadmCmd H [''-m'', ''node'', ''-T'', iqn, ''-p'', portal, ''--login''])
      (\<lambda>r t. True \<and> (\<exists>cmd. Ran cmd r \<in> set t \<and> suffix [''-m'', ''node'', ''-T'', iqn, ''-p'', portal, ''--login''] cmd))"
    for iqn portal
    by (rule stage.iscsiadm_seen) (auto simp: risk_defs)
  note login = this
  have "connects cmd" if "suffix [''-m'', ''node'', ''-T'', iqn, ''-p'', portal, ''--login''] cmd" for cmd iqn portal
    using that by (auto simp: suffix_def connects_def)
  then have free: "session_free req t"
    if "\<exists>cmd. Ran cmd r \<in> set t \<and> suffix [''-m'', ''node'', ''-T'', iqn, ''-p'', portal, ''--login''] cmd" for t r iqn portal
    using that by (auto simp: session_free_def)
  show ?thesis
    unfolding loginISCSITarget_def Let_def
    by (intro stage.seq_harmless stage.harmless_iscsiadm stage.harmless_prune stable_intros triple_if triple_ret
        stage.harmless_cases(1) stage.harmless_portal stage.harmless_ret triple_bind [OF login])
      (auto simp: risk_defs intro: free)
qed

lemma iscsi_device_staged:
  "triple (stage_licensed req cap) (\<lambda>t. volume_device req t d)
     (stageISCSIDevice H d (st_StagingTargetPath req) cap (st_VolumeContext req)) (\<lambda>_ _. True)"
  unfolding stageISCSIDevice_def formatAndMountISCSIDevice_def
  by (intro stage.seq_peek triple_sum triple_if triple_ret block_staged stage.seq_harmless stage.harmless_waits
      stage.harmless_host stable_device device_mounted) auto

lemma triple_keep:
  assumes "triple P F m (\<lambda>_ _. True)" "stable R" "\<And>t. K t \<Longrightarrow> F t \<and> R t"
  shows "triple P K m (\<lambda>_. R)"
  by (rule triple_conseq [OF triple_frame [OF assms(1), of R]]) (use assms(2,3) in \<open>auto simp: stable_def\<close>)

lemma iscsi_attempts:
  assumes iscsi: "getProtocolFromVolumeContext (st_VolumeContext req) = ProtocolISCSI"
    "ic_iqn params = mget (st_VolumeContext req) ''iscsiIQN''"
  shows "triple (stage_licensed req cap) (\<lambda>_. True) (stageISCSIAttempts H params req cap n) (\<lambda>_ _. True)"
proof (induction n)
  case (Suc n)
  let ?P = "stage_licensed req cap"
  let ?again = "do {
      u \<leftarrow> (if n > 0 then Sleep H (5 * Second) else ret ());
      stageISCSIAttempts H params req cap n
    }"
  let ?retry = "do {
      u \<leftarrow> logoutISCSITarget H (ic_iqn params);
      ?again
    }"
  have again: "triple ?P (\<lambda>_. True) ?again (\<lambda>_ _. True)"
    by (intro stage.seq_harmless stage.harmless_cases(1) stage.harmless_host stage.harmless_ret stable_intros Suc.IH)
  have wait: "triple ?P (session_free req) (waitForISCSIDevice H params)
      (\<lambda>r t. session_free req t \<and> (\<forall>d. r = Some d \<longrightarrow> volume_device req t d))"
    unfolding waitForISCSIDevice_def
    by (rule triple_conseq [OF iscsi_awaited [OF stable_device(6) iscsi(2)]])
      (simp_all add: volume_device_def iscsi(1) ProtocolISCSI_def ProtocolNVMeOF_def)
  have retry: "triple ?P (session_free req) ?retry (\<lambda>_ _. True)"
    by (intro triple_bind [OF logged_out] triple_conseq [OF again]) auto
  have staged: "triple ?P (\<lambda>t. session_free req t \<and> volume_device req t d)
      (stageISCSIDevice H d (st_StagingTargetPath req) cap (st_VolumeContext req)) (\<lambda>_. session_free req)" for d
    by (rule triple_keep [OF iscsi_device_staged stable_device(6)]) auto
  have result: "triple ?P (session_free req) (if r = Some (Status Unavailable) then ?retry else ret r) (\<lambda>_ _. True)" for r
    by (intro triple_if retry triple_ret) auto
  have device: "triple ?P (\<lambda>t. session_free req t \<and> (\<forall>d. w = Some d \<longrightarrow> volume_device req t d))
      (case w of
         None \<Rightarrow> ?retry
       | Some d \<Rightarrow> do {
           r \<leftarrow> stageISCSIDevice H d (st_StagingTargetPath req) cap (st_VolumeContext req);
           if r = Some (Status Unavailable) then ?retry else ret r
         }) (\<lambda>_ _. True)" for w
    by (intro triple_option triple_conseq [OF retry] triple_conseq [OF triple_bind [OF staged result]]) auto
  show ?case
    unfolding stageISCSIAttempts.simps Let_def
    by (intro triple_bind [OF iscsi_login] triple_option triple_conseq [OF again]
        triple_conseq [OF triple_bind [OF wait device]]) auto
qed (simp add: triple_ret)

lemma connected_iscsi:
  assumes "getProtocolFromVolumeContext (st_VolumeContext req) = ProtocolISCSI"
    "ic_iqn params = mget (st_VolumeContext req) ''iscsiIQN''"
  shows "triple (stage_licensed req cap) (\<lambda>_. True) (connectISCSI H params req cap) (\<lambda>_ _. True)"
  unfolding connectISCSI_def
  by (intro stage.seq_harmless stage.harmless_queries stable_intros triple_if triple_ret iscsi_attempts [OF assms]) auto

lemma session_killed:
  "triple (stage_licensed req cap) (session_free req) (forceKillISCSISession H params) (\<lambda>_ _. True)"
  "triple (stage_licensed req cap) (session_free req) (forceKillISCSISessionByIQN H params) (\<lambda>_ _. True)"
proof -
  show kill: "triple (stage_licensed req cap) (session_free req) (forceKillISCSISession H params) (\<lambda>_ _. True)"
    unfolding forceKillISCSISession_def
    by (intro stage.seq_harmless stage.harmless_iscsiadm stage.harmless_host stable_device
        triple_bind [OF logged_out] triple_conseq [OF stage.triple_harmless [OF stage.harmless_host(5) stable_device(6)]])
      (auto simp: risk_defs)
  show "triple (stage_licensed req cap) (session_free req) (forceKillISCSISessionByIQN H params) (\<lambda>_ _. True)"
    unfolding forceKillISCSISessionByIQN_def
    by (intro stage.seq_harmless stage.harmless_iscsiadm stable_device triple_if triple_ret kill) (auto simp: risk_defs)
qed

lemma ISCSI_staged:
  assumes "getProtocolFromVolumeContext (st_VolumeContext req) = ProtocolISCSI"
  shows "triple (stage_licensed req cap) (\<lambda>_. True) (stageISCSIVolume H req cap) (\<lambda>_ _. True)"
proof (cases "validateISCSIParams_node (st_VolumeContext req)")
  case (Inl e)
  then show ?thesis by (simp add: stageISCSIVolume_def triple_ret)
next
  case (Inr params)
  then have iqn: "ic_iqn params = mget (st_VolumeContext req) ''iscsiIQN''"
    by (auto simp: validateISCSIParams_node_def Let_def split: if_splits)
  note connect = connected_iscsi [OF assms iqn]
  have teardown: "triple (stage_licensed req cap) (\<lambda>_. True) (do {
      guard \<leftarrow> refuseTeardownWhileStaged H (st_StagingTargetPath req);
      case guard of
        Some e \<Rightarrow> ret (Some e)
      | None \<Rightarrow> do { u \<leftarrow> kill; connectISCSI H params req cap }
    }) (\<lambda>_ _. True)"
    if "triple (stage_licensed req cap) (session_free req) kill (\<lambda>_ _. True)" for kill
    by (intro triple_bind [OF teardown_guarded [OF stable_intros(1)]] triple_option triple_ret
        triple_conseq [OF triple_bind [OF that connect]]) auto
  have found: "triple (stage_licensed req cap) (\<lambda>_. True) (findISCSIDevice H params)
      (\<lambda>r t. \<forall>d. r = Some d \<longrightarrow> volume_device req t d)"
    by (rule triple_conseq [OF iscsi_found [OF stable_intros(1) [of True] iqn]])
      (simp_all add: volume_device_def assms ProtocolISCSI_def ProtocolNVMeOF_def)
  have healthy: "triple (stage_licensed req cap) (\<lambda>t. volume_device req t d) (do {
      st \<leftarrow> getISCSISessionState H d;
      if st = Some iscsiSessionStateLoggedIn
      then stageISCSIDevice H d (st_StagingTargetPath req) cap (st_VolumeContext req)
      else do {
        guard \<leftarrow> refuseTeardownWhileStaged H (st_StagingTargetPath req);
        case guard of
          Some e \<Rightarrow> ret (Some e)
        | None \<Rightarrow> do { u \<leftarrow> forceKillISCSISession H params; connectISCSI H params req cap }
      }
    }) (\<lambda>_ _. True)" for d
    by (intro stage.seq_harmless stage.harmless_queries stable_device triple_if iscsi_device_staged
        triple_conseq [OF teardown [OF session_killed(1)]]) auto
  show ?thesis
    unfolding stageISCSIVolume_def Inr sum.case Let_def
    by (intro triple_bind [OF found] triple_option triple_conseq [OF teardown [OF session_killed(2)]]
        triple_conseq [OF healthy]) auto
qed

end
