(* ===== verification/Node_Safety.thy ===== *)
theory Node_Safety
  imports Node_Staging
begin

text \<open>
  Staging of NVMe-oF volumes keeps to the policy: every way of finding a device ends in sysfs with
  the NQN of the volume. With the other protocols, that is the safety of \<^verbatim>\<open>NodeStageVolume\<close>.
\<close>

section \<open>Finding the namespace\<close>

lemma filter_seen:
  assumes "\<And>x. triple P F (p x) (\<lambda>b t. F t \<and> (b \<longrightarrow> Q x t))" "stable F" "\<And>x. stable (Q x)"
  shows "triple P F (filter_op p xs) (\<lambda>ys t. F t \<and> set ys \<subseteq> set xs \<and> (\<forall>y\<in>set ys. Q y t))"
proof (induction xs)
  case (Cons x xs)
  have rest: "triple P (\<lambda>t. F t \<and> (b \<longrightarrow> Q x t)) (filter_op p xs)
      (\<lambda>ys t. (F t \<and> set ys \<subseteq> set xs \<and> (\<forall>y\<in>set ys. Q y t)) \<and> (b \<longrightarrow> Q x t))" for b
    by (rule triple_frame [OF Cons.IH]) (use assms(3) in \<open>auto simp: stable_def\<close>)
  show ?case
    unfolding filter_op.simps by (intro triple_bind [OF assms(1)] triple_bind [OF rest] triple_ret) auto
qed (simp add: triple_ret)

definition named_namespace :: "string \<Rightarrow> string \<Rightarrow> host_event list \<Rightarrow> bool" where
  "named_namespace nqn name t \<longleftrightarrow>
     (\<exists>c. SawFile (Join [sysBlockPath, name, ''device'', ''subsysnqn'']) (Inr c) \<in> set t \<and> trim_space c = nqn)"

lemma stable_named: "stable (named_namespace nqn name)"
  unfolding named_namespace_def by (auto simp: stable_def)

lemma named_device: "named_namespace nqn name t \<Longrightarrow> nqn_device nqn t (''/dev/'' @ name)"
  by (auto simp: named_namespace_def nqn_device_def)

text \<open>Every answer that is a device belongs to the NQN.\<close>

abbreviation owned :: "string \<Rightarrow> 'e + string \<Rightarrow> host_event list \<Rightarrow> bool" where
  "owned nqn r t \<equiv> \<forall>d. r = Inr d \<longrightarrow> nqn_device nqn t d"

lemma stable_owned: "stable (\<lambda>t. nqn_device nqn t d)" "stable (owned nqn r)"
  by (intro stable_intros stable_device)+

lemma triple_known:
  assumes "triple P (\<lambda>_. True) m G" "stable F"
  shows "triple P F m (\<lambda>r t. F t \<and> G r t)"
  by (rule triple_conseq [OF triple_frame [OF assms(1), of F]]) (use assms(2) in \<open>auto simp: stable_def\<close>)

lemma namespace_owned:
  "triple (stage_licensed req cap) (\<lambda>_. True) (nvmeNamespaceDeviceForNQN H sysBlockPath nqn) (owned nqn)"
proof -
  let ?P = "stage_licensed req cap"
  have read: "triple ?P (\<lambda>_. True) (do {
      owner \<leftarrow> readNVMeSysfsValue H (Join [sysBlockPath, name, ''device'', ''subsysnqn'']);
      ret (owner = Some nqn \<and> nqn \<noteq> [])
    }) (\<lambda>b t. True \<and> (b \<longrightarrow> named_namespace nqn name t))" for name
    by (intro triple_bind [OF stage.sysfs_read [OF stable_intros(1) [of True]]] triple_ret) (auto simp: named_namespace_def)
  note names = filter_seen [OF read stable_intros(1) stable_named]
  have named: "stable (\<lambda>t. \<forall>y\<in>set ys. named_namespace nqn y t)" for ys
    using stable_named by (auto simp: stable_def)
  have nsid: "triple ?P (\<lambda>t. \<forall>y\<in>set ys. named_namespace nqn y t) (do {
      nsid \<leftarrow> readNVMeSysfsValue H (Join [sysBlockPath, name, ''nsid'']);
      ret (nsid = Some ''1'')
    }) (\<lambda>b t. (\<forall>y\<in>set ys. named_namespace nqn y t) \<and> (b \<longrightarrow> True))" for ys name
    by (intro stage.seq_harmless stage.harmless_sysfs triple_ret named) auto
  note ones = filter_seen [OF nsid named stable_intros(1)]
  have many: "triple ?P (\<lambda>t. \<forall>y\<in>set ys. named_namespace nqn y t) (do {
      nsidOne \<leftarrow> filter_op (\<lambda>name. do {
          nsid \<leftarrow> readNVMeSysfsValue H (Join [sysBlockPath, name, ''nsid'']);
          ret (nsid = Some ''1'')
        }) ys;
      ret (case nsidOne of [name] \<Rightarrow> Inr (''/dev/'' @ name) | _ \<Rightarrow> Inl errNVMeAmbiguousNamespace)
    }) (owned nqn)" for ys
    by (intro triple_bind [OF ones] triple_ret) (auto intro!: named_device [simplified] split: list.splits)
  show ?thesis
    unfolding nvmeNamespaceDeviceForNQN_def
    by (intro stage.seq_peek triple_sum triple_ret triple_bind [OF names] triple_list triple_conseq [OF many])
      (auto intro!: named_device [simplified])
qed

lemma listed_owned:
  "triple (stage_licensed req cap) (\<lambda>_. True) (extractDevicePathFromLinesForNQN H nqn lines)
     (\<lambda>d t. d \<noteq> [] \<longrightarrow> nqn_device nqn t d)"
proof (induction lines)
  case (Cons line lines)
  show ?case
    unfolding extractDevicePathFromLinesForNQN.simps
    by (intro triple_if Cons.IH triple_bind [OF namespace_owned] triple_ret) (auto split: sum.splits)
qed (simp add: triple_ret)

lemma parsed_owned:
  "triple (stage_licensed req cap) (\<lambda>_. True) (parseNVMeListSubsysOutputForNQN H nqn lines)
     (\<lambda>d t. d \<noteq> [] \<longrightarrow> nqn_device nqn t d)"
proof (induction lines)
  case (Cons line lines)
  show ?case
    unfolding parseNVMeListSubsysOutputForNQN.simps
    by (intro triple_if Cons.IH triple_bind [OF listed_owned] triple_ret triple_conseq [OF Cons.IH]) auto
qed (simp add: triple_ret)

lemma controller_owned:
  "triple (stage_licensed req cap) (\<lambda>_. True) (namespaceOfController H nqn name) (owned nqn)"
  unfolding namespaceOfController_def
  by (intro triple_bind [OF namespace_owned] triple_sum triple_ret stage.seq_harmless stage.harmless_rescan
      triple_if stable_owned) auto

lemma sysfs_owned: "triple (stage_licensed req cap) (\<lambda>_. True) (sysfsLoop H nqn names) (owned nqn)"
proof (induction names)
  case (Cons name names)
  show ?case
    unfolding sysfsLoop.simps
    by (intro triple_if Cons.IH stage.seq_harmless stage.harmless_sysfs stable_intros controller_owned)
qed (simp add: triple_ret)

lemma unambiguous_owned:
  assumes "triple (stage_licensed req cap) (\<lambda>_. True) body G" "\<And>e t. G (fail e) t"
  shows "triple (stage_licensed req cap) (\<lambda>_. True) (unlessAmbiguous H ctx nqn fail body) G"
  unfolding unlessAmbiguous_def
  by (intro stage.seq_peek triple_if triple_ret stage.seq_harmless stage.harmless_namespace stable_intros assms)

lemma sys_owned: "triple (stage_licensed req cap) (\<lambda>_. True) (findNVMeDeviceByNQNFromSys H ctx nqn) (owned nqn)"
  unfolding findNVMeDeviceByNQNFromSys_def
  by (intro unambiguous_owned stage.seq_peek triple_sum triple_ret sysfs_owned) auto

lemma found_owned: "triple (stage_licensed req cap) (\<lambda>_. True) (findNVMeDeviceByNQN H ctx nqn) (owned nqn)"
  unfolding findNVMeDeviceByNQN_def
  by (intro unambiguous_owned stage.seq_harmless stage.harmless_rescan stable_intros triple_if sys_owned
      triple_bind [OF parsed_owned] triple_ret triple_conseq [OF sys_owned]) auto

lemma controlled_owned:
  "triple (stage_licensed req cap) (\<lambda>_. True) (findNVMeDeviceByNQNWithController H ctx nqn)
     (\<lambda>f. owned nqn (fst f))"
proof -
  have sys: "triple (stage_licensed req cap) (\<lambda>_. True) (do {
      d \<leftarrow> findNVMeDeviceByNQNFromSys H ctx nqn;
      ret (d, [])
    }) (\<lambda>f. owned nqn (fst f))"
    by (intro triple_bind [OF sys_owned] triple_ret) auto
  show ?thesis
    unfolding findNVMeDeviceByNQNWithController_def Let_def
    by (intro unambiguous_owned stage.seq_harmless stage.harmless_rescan stage.harmless_controller stable_intros
        triple_if sys triple_bind [OF namespace_owned] triple_sum triple_ret stable_owned)
      (auto split: option.splits)
qed

section \<open>Waiting for the device\<close>

lemma rescanIf_harmless: "stage.harmless req cap (rescanIf H b c)"
  unfolding rescanIf_def by (intro stage.harmless_basic stage.harmless_rescan)

lemma poll_owned:
  "triple (stage_licensed req cap) (\<lambda>_. True) (pollNVMeDevice H nqn attempt c)
     (\<lambda>p t. \<forall>d. p = Ready d \<longrightarrow> nqn_device nqn t d)"
proof -
  have found: "triple (stage_licensed req cap) (\<lambda>t. nqn_device nqn t d) (pollFound H attempt c d name)
      (\<lambda>p t. \<forall>d. p = Ready d \<longrightarrow> nqn_device nqn t d)" for d name
    unfolding pollFound_def
    by (intro stage.seq_peek triple_sum stage.seq_harmless stage.harmless_filesystem rescanIf_harmless
        stable_owned triple_if triple_ret) auto
  show ?thesis
    unfolding pollNVMeDevice_def
    by (intro triple_bind [OF controlled_owned] triple_prod triple_sum triple_conseq [OF found] triple_if triple_ret
        stage.seq_harmless stage.harmless_basic stage.harmless_controller stage.harmless_rescan stable_owned) auto
qed

lemma triple_poll:
  "(\<And>d. x = Ready d \<Longrightarrow> triple P F (m d) G) \<Longrightarrow> (\<And>e. x = GiveUp e \<Longrightarrow> triple P F (n e) G) \<Longrightarrow>
     (\<And>c. x = Again c \<Longrightarrow> triple P F (k c) G) \<Longrightarrow>
     triple P F (case x of Ready d \<Rightarrow> m d | GiveUp e \<Rightarrow> n e | Again c \<Rightarrow> k c) G"
  by (cases x) auto

lemma awaited_owned:
  "triple (stage_licensed req cap) (\<lambda>_. True) (waitForNVMeDeviceLoop H nqn attempt c n) (owned nqn)"
proof (induction n arbitrary: attempt c)
  case 0
  show ?case
    unfolding waitForNVMeDeviceLoop.simps
    by (intro stage.seq_harmless stage.harmless_rescan stable_intros triple_ret) auto
next
  case (Suc n)
  show ?case
    unfolding waitForNVMeDeviceLoop.simps
    by (intro stage.seq_peek triple_if stage.seq_harmless stage.harmless_basic stage.harmless_rescan stable_intros(1)
        triple_bind [OF poll_owned] triple_poll triple_ret triple_conseq [OF Suc.IH]) auto
qed

section \<open>Connecting\<close>

lemma retried:
  assumes "triple P (\<lambda>_. True) fn (\<lambda>r t. r = None \<longrightarrow> G t)"
  shows "triple P (\<lambda>_. True) (WithRetryNoResult (detached_retry H) config fn) (\<lambda>e t. e = None \<longrightarrow> G t)"
proof (rule tripleI)
  fix s :: "'a node" and b t assume start: "trace s = b @ t" "each_after P t"
  let ?I = "\<lambda>s :: 'a node. \<exists>u. trace s = b @ t @ u \<and> each_after P (t @ u)"
  let ?Q = "\<lambda>ok (s :: 'a node). \<exists>u. trace s = b @ t @ u \<and> each_after P (t @ u) \<and> (ok \<longrightarrow> G (t @ u))"
  have I: "?I s" using start by (intro exI [of _ "[]"]) simp
  have attempt: "wp fn (\<lambda>r. ?Q (r = None)) s" if "?I s" for s
  proof -
    from that obtain u where u: "trace s = b @ t @ u" "each_after P (t @ u)" by blast
    show ?thesis
      by (rule wp_mono [OF tripleD [OF assms u(1) _ u(2)]]) (auto intro: exI [of _ "u @ _"])
  qed
  have "wp (WithRetry (detached_retry H) config (do {
      err \<leftarrow> fn;
      ret (case err of None \<Rightarrow> Inr () | Some e \<Rightarrow> Inl e)
    })) (\<lambda>r. ?Q (\<exists>x. r = Inr x)) s"
    by (rule WithRetry_wp [where I = ?I])
      (use I in \<open>auto simp: detached_retry_def wp_bind wp_rules split: option.split intro!: wp_askI wp_mono [OF attempt]\<close>)
  then show "wp (WithRetryNoResult (detached_retry H) config fn)
      (\<lambda>r s'. \<exists>u. trace s' = b @ t @ u \<and> each_after P (t @ u) \<and> (r = None \<longrightarrow> G (t @ u))) s"
    unfolding WithRetryNoResult_def wp_bind by (rule wp_mono) (auto simp: wp_rules split: sum.splits)
qed

lemma attempt_connects:
  "triple (stage_licensed req cap) (\<lambda>_. True) (attemptNVMeConnect H params) (\<lambda>r t. r = None \<longrightarrow> session_free req t)"
  unfolding attemptNVMeConnect_def
  by (intro stage.seq_Run triple_ret stable_intros)
    (auto simp: risk_defs connectArgs_def session_free_def connects_def)

lemma connected_nvme:
  "triple (stage_licensed req cap) (\<lambda>_. True) (connectNVMeOFTarget H params) (\<lambda>ok t. ok \<longrightarrow> session_free req t)"
proof -
  have "stable (\<lambda>t. e = None \<longrightarrow> session_free req t)" for e :: "string retry_error option"
    by (intro stable_intros stable_device)
  note known = this
  show ?thesis
    unfolding connectNVMeOFTarget_def
    by (intro stage.seq_harmless stage.harmless_basic stage.harmless_Run stage.harmless_rescan stable_intros(1)
        triple_bind [OF retried [OF attempt_connects]] known triple_if triple_ret) (auto simp: risk_defs)
qed

section \<open>Staging\<close>

lemma nvme_device_staged:
  "triple (stage_licensed req cap) (\<lambda>t. volume_device req t d)
     (stageNVMeDevice H d (st_StagingTargetPath req) cap (st_VolumeContext req)) (\<lambda>_ _. True)"
  unfolding stageNVMeDevice_def formatAndMountNVMeDevice_def
  by (intro stage.seq_peek triple_sum triple_if triple_ret block_staged stage.seq_harmless stage.harmless_waits
      stage.harmless_filesystem stage.harmless_host stable_device device_mounted) auto

lemma stale_dropped:
  "triple (stage_licensed req cap) (\<lambda>_. True) (dropStaleConnection H nqn (st_StagingTargetPath req) pause) (\<lambda>_ _. True)"
  unfolding dropStaleConnection_def
  by (intro triple_bind [OF teardown_guarded [OF stable_intros(1) [of True]]] triple_option triple_ret
      triple_conseq [OF triple_bind [OF disconnected]] stage.seq_harmless stage.harmless_basic stable_device) auto

lemma nvme_volume_device:
  assumes "getProtocolFromVolumeContext (st_VolumeContext req) = ProtocolNVMeOF"
  shows "volume_device req t d \<longleftrightarrow> nqn_device (mget (st_VolumeContext req) ''nqn'') t d"
  by (simp add: volume_device_def assms)

lemma connection_reused:
  assumes "getProtocolFromVolumeContext (st_VolumeContext req) = ProtocolNVMeOF"
    "nv_nqn params = mget (st_VolumeContext req) ''nqn''"
  shows "triple (stage_licensed req cap) (\<lambda>_. True) (tryReuseExistingConnection H params req cap) (\<lambda>_ _. True)"
proof -
  note dropped = triple_conseq [OF stale_dropped]
  have reuse: "triple (stage_licensed req cap) (\<lambda>t. volume_device req t d) (reuseDevice H nqn req cap d) (\<lambda>_ _. True)" for nqn d
    unfolding reuseDevice_def
    by (intro stage.seq_harmless stage.harmless_rescan_namespace stage.harmless_waits stable_device triple_if
        dropped triple_bind [OF nvme_device_staged] triple_ret) auto
  show ?thesis
    unfolding tryReuseExistingConnection_def assms(2)
    by (intro triple_bind [OF found_owned] triple_sum triple_prod triple_if triple_ret dropped
        stage.seq_harmless stage.harmless_controller stable_owned triple_conseq [OF reuse])
      (auto simp: nvme_volume_device [OF assms(1)])
qed

lemma nvme_attempts:
  assumes nvme: "getProtocolFromVolumeContext (st_VolumeContext req) = ProtocolNVMeOF"
    "nv_nqn params = mget (st_VolumeContext req) ''nqn''"
  shows "triple (stage_licensed req cap) (\<lambda>_. True) (connectAndStageAttempts H params req cap n) (\<lambda>_ _. True)"
proof (induction n)
  case (Suc n)
  let ?P = "stage_licensed req cap"
  let ?again = "do {
      u \<leftarrow> (if n > 0 then Sleep H (3 * Second) else ret ());
      connectAndStageAttempts H params req cap n
    }"
  let ?retry = "do { d \<leftarrow> disconnectNVMeOF H (nv_nqn params); ?again }"
  have again: "triple ?P (\<lambda>_. True) ?again (\<lambda>_ _. True)"
    by (intro stage.seq_harmless stage.harmless_cases(1) stage.harmless_host stage.harmless_ret stable_intros Suc.IH)
  have retry: "triple ?P (session_free req) ?retry (\<lambda>_ _. True)"
    by (intro triple_bind [OF disconnected] triple_conseq [OF again]) auto
  have wait: "triple ?P (session_free req) (waitForNVMeDevice H (nv_nqn params))
      (\<lambda>r t. session_free req t \<and> (\<forall>d. r = Inr d \<longrightarrow> volume_device req t d))"
    unfolding waitForNVMeDevice_def nvme(2)
    by (rule triple_conseq [OF triple_known [OF awaited_owned stable_device(6)]])
      (simp_all add: nvme_volume_device [OF nvme(1)])
  have staged: "triple ?P (\<lambda>t. session_free req t \<and> volume_device req t d)
      (stageNVMeDevice H d (st_StagingTargetPath req) cap (st_VolumeContext req)) (\<lambda>_. session_free req)" for d
    by (rule triple_keep [OF nvme_device_staged stable_device(6)]) auto
  have result: "triple ?P (session_free req) (if r = Some (Status Unavailable) then ?retry else ret r) (\<lambda>_ _. True)" for r
    by (intro triple_if retry triple_ret) auto
  have device: "triple ?P (\<lambda>t. session_free req t \<and> (\<forall>d. w = Inr d \<longrightarrow> volume_device req t d))
      (case w of
         Inl e \<Rightarrow> ?retry
       | Inr d \<Rightarrow> do {
           r \<leftarrow> stageNVMeDevice H d (st_StagingTargetPath req) cap (st_VolumeContext req);
           if r = Some (Status Unavailable) then ?retry else ret r
         }) (\<lambda>_ _. True)" for w
    by (intro triple_sum triple_conseq [OF retry] triple_conseq [OF triple_bind [OF staged result]]) auto
  have live: "triple ?P (session_free req) (do {
      live \<leftarrow> waitForSubsystemLive H (nv_nqn params);
      if \<not> live then ?retry
      else do {
        w \<leftarrow> waitForNVMeDevice H (nv_nqn params);
        case w of
          Inl e \<Rightarrow> ?retry
        | Inr d \<Rightarrow> do {
            r \<leftarrow> stageNVMeDevice H d (st_StagingTargetPath req) cap (st_VolumeContext req);
            if r = Some (Status Unavailable) then ?retry else ret r
          }
      }
    }) (\<lambda>_ _. True)"
    unfolding waitForSubsystemLive_def
    by (intro stage.seq_harmless stage.harmless_subsystem stable_device triple_if retry triple_bind [OF wait device])
  show ?case
    unfolding connectAndStageAttempts.simps Let_def
    by (intro stage.seq_peek triple_if triple_ret triple_bind [OF connected_nvme] triple_conseq [OF again]
        triple_conseq [OF live]) auto
qed (simp add: triple_ret)

lemma NVMeOF_staged:
  assumes "getProtocolFromVolumeContext (st_VolumeContext req) = ProtocolNVMeOF"
  shows "triple (stage_licensed req cap) (\<lambda>_. True) (stageNVMeOFVolume H req cap) (\<lambda>_ _. True)"
proof (cases "validateNVMeOFParams_node (st_VolumeContext req)")
  case (Inl e)
  then show ?thesis by (simp add: stageNVMeOFVolume_def triple_ret)
next
  case (Inr params)
  then have nqn: "nv_nqn params = mget (st_VolumeContext req) ''nqn''"
    by (auto simp: validateNVMeOFParams_node_def Let_def split: if_splits)
  show ?thesis
    unfolding stageNVMeOFVolume_def Inr sum.case connectAndStageDevice_def
    by (intro triple_bind [OF connection_reused [OF assms nqn]] triple_sum triple_bool triple_ret stage.seq_harmless
        stage.harmless_rescan stable_intros triple_if stage.seq_peek nvme_attempts [OF assms nqn]) auto
qed

end
