(* ===== verification/Node_Staged.thy ===== *)
theory Node_Staged
  imports Node_Safety
begin

text \<open>
  What a successful \<^verbatim>\<open>NodeStageVolume\<close> means: the staging path is a mount point, because the table says
  so or because \<^verbatim>\<open>mount\<close> has just succeeded. With the policy of \<^verbatim>\<open>Node_Staging\<close> this is the contract of
  the handler.
\<close>

section \<open>Success\<close>

definition mounted_at :: "string \<Rightarrow> host_event list \<Rightarrow> bool" where
  "mounted_at path t \<longleftrightarrow>
     SawMounted path (Inr True) \<in> set t \<or>
     (\<exists>args r. Ran (''mount'' # args) r \<in> set t \<and> args \<noteq> [] \<and> last args = path \<and> cr_err r = None)"

interpretation any: node_policy "\<lambda>_ _. True"
  by unfold_locales simp

abbreviation mounts :: "string \<Rightarrow> ('w, failure option) nop \<Rightarrow> bool" where
  "mounts path m \<equiv> triple (\<lambda>_ _. True) (\<lambda>_. True) m (\<lambda>r t. r = None \<longrightarrow> mounted_at path t)"

lemma stable_mounted: "stable (mounted_at path)"
  unfolding mounted_at_def stable_def by auto

lemma mounts_ret: "r \<noteq> None \<Longrightarrow> mounts path (ret r)"
  by (rule triple_ret) auto

lemma mounts_seq: "any.harmless m \<Longrightarrow> (\<And>x. mounts path (f x)) \<Longrightarrow> mounts path (State_Monad.bind m f)"
  by (rule any.seq_harmless) auto

lemma any_Run: "any.harmless (Run H cmd)" "any.harmless (Remove H path)"
  unfolding any.harmless_def Run_def Remove_def by (rule triple_ask; simp add: each_after_def)+

lemma mounts_runMount:
  assumes "args \<noteq> []" "last args = path"
  shows "mounts path (runMount H args)"
  unfolding runMount_def Run_def
  by (rule triple_bind [OF triple_ask [where G = "\<lambda>r t. Ran (''mount'' # args) r \<in> set t"] triple_ret])
    (use assms in \<open>auto simp: mounted_at_def split: if_splits\<close>)

lemma mounts_unless: "mounts path mnt \<Longrightarrow> mounts path (mountUnlessMounted H path mnt)"
  unfolding mountUnlessMounted_def
  by (intro any.seq_IsMounted stable_intros triple_sum triple_bool triple_ret) (auto simp: mounted_at_def elim: triple_conseq)

section \<open>Shares and devices\<close>

lemmas mounts_basic = mounts_ret mounts_unless mounts_runMount mounts_seq triple_cases any.harmless_basic

lemma NFS_mounts: "\<not> os_testMode H \<Longrightarrow> mounts (st_StagingTargetPath req) (stageNFSVolume H req cap)"
  unfolding stageNFSVolume_def by (intro mounts_basic any.harmless_filesystem) simp_all

lemma SMB_mounts: "\<not> os_testMode H \<Longrightarrow> mounts (st_StagingTargetPath req) (stageSMBVolume H req cap)"
proof -
  assume live: "\<not> os_testMode H"
  have kept: "mounts path (do { r \<leftarrow> m; d \<leftarrow> Remove H f; ret r })"
    if "mounts path m" for path f and m :: "('a, failure option) nop"
    by (intro triple_bind [OF that] any.seq_harmless any_Run stable_intros stable_mounted triple_ret) auto
  have credentials: "any.harmless (writeSMBCredentialsFile H secrets)" for secrets
    unfolding writeSMBCredentialsFile_def
    by (intro any.harmless_basic any.harmless_ask) (simp add: benign_def split: sum.split)
  show ?thesis
    unfolding stageSMBVolume_def mountSMB_def Let_def using live
    by (intro mounts_ret mounts_unless mounts_runMount mounts_seq triple_if triple_option any.harmless_filesystem
        credentials kept) simp_all
qed

lemma device_mounts: "mounts path (verifyAndMountDevice H d path cap ctx opts)"
proof -
  have "any.harmless (prepareFilesystemForMount H d fs)" for fs
    unfolding prepareFilesystemForMount_def repairFilesystem_def
    by (intro any.harmless_basic any.harmless_probe any_Run) (auto intro!: any.harmless_basic any_Run split: probe.split)
  then show ?thesis
    unfolding verifyAndMountDevice_def mountVerifiedDevice_def
    by (intro mounts_basic any.harmless_filesystem any.harmless_size) (auto simp: deviceMountArgs_def)
qed

lemma iscsi_device_mounts: "\<not> is_block cap \<Longrightarrow> mounts path (stageISCSIDevice H d path cap ctx)"
  unfolding stageISCSIDevice_def formatAndMountISCSIDevice_def
  by (intro mounts_ret mounts_seq triple_sum triple_if any.harmless_peek any.harmless_waits any.harmless_host
      device_mounts) simp_all

lemma nvme_device_mounts: "\<not> is_block cap \<Longrightarrow> mounts path (stageNVMeDevice H d path cap ctx)"
  unfolding stageNVMeDevice_def formatAndMountNVMeDevice_def
  by (intro mounts_ret mounts_seq triple_sum triple_if any.harmless_peek any.harmless_waits any.harmless_filesystem
      any.harmless_host device_mounts) simp_all

section \<open>Sessions\<close>

text \<open>Every result that is returned is that of staging the device.\<close>

lemma mounts_or_again:
  assumes "mounts path m" "mounts path again"
  shows "mounts path (do { r \<leftarrow> m; if r = Some e then again else ret r })"
  by (intro triple_bind [OF assms(1)] triple_if triple_conseq [OF assms(2)] triple_ret) auto

lemma any_logout: "any.harmless (logoutISCSITarget H iqn)"
  unfolding logoutISCSITarget_def iscsiadmCmd_def by (intro any.harmless_basic any_Run)

lemma any_disconnect: "any.harmless (disconnectNVMeOF H nqn)"
  unfolding disconnectNVMeOF_def by (intro any.harmless_basic any_Run)

lemma any_kill:
  "any.harmless (forceKillISCSISession H params)" "any.harmless (forceKillISCSISessionByIQN H params)"
  "any.harmless (refuseTeardownWhileStaged H path)"
  unfolding forceKillISCSISessionByIQN_def forceKillISCSISession_def refuseTeardownWhileStaged_def iscsiadmCmd_def
  by (intro any.harmless_basic any_Run any_logout)+

lemma iscsi_attempts_mount:
  assumes "\<not> is_block cap"
  shows "mounts (st_StagingTargetPath req) (stageISCSIAttempts H params req cap n)"
proof (induction n)
  case (Suc n)
  let ?again = "do {
      u \<leftarrow> (if n > 0 then Sleep H (5 * Second) else ret ());
      stageISCSIAttempts H params req cap n
    }"
  have again: "mounts (st_StagingTargetPath req) ?again"
    by (intro mounts_seq any.harmless_cases(1) any.harmless_host any.harmless_ret Suc.IH)
  have retry: "mounts (st_StagingTargetPath req) (do { u \<leftarrow> logoutISCSITarget H (ic_iqn params); ?again })"
    by (intro mounts_seq any_logout again)
  show ?case
    unfolding stageISCSIAttempts.simps Let_def waitForISCSIDevice_def
    by (intro mounts_seq any.harmless_login triple_option again any.harmless_wait_iscsi retry
        mounts_or_again [OF iscsi_device_mounts [OF assms]])
qed (simp add: mounts_ret)

lemma ISCSI_mounts:
  assumes "\<not> is_block cap"
  shows "mounts (st_StagingTargetPath req) (stageISCSIVolume H req cap)"
  unfolding stageISCSIVolume_def connectISCSI_def Let_def
  by (intro triple_sum mounts_ret mounts_seq any.harmless_queries triple_option any_kill triple_if
      iscsi_device_mounts [OF assms] iscsi_attempts_mount [OF assms]) simp_all

lemma any_connect: "any.harmless (connectNVMeOFTarget H params)"
proof -
  have "triple (\<lambda>_ _. True) (\<lambda>_. True) (attemptNVMeConnect H params) (\<lambda>r _. r = None \<longrightarrow> True)"
    unfolding attemptNVMeConnect_def
    by (intro any.seq_harmless any_Run triple_ret stable_intros) auto
  from retried [OF this] have "any.harmless (WithRetryNoResult (detached_retry H) config (attemptNVMeConnect H params))"
    for config by (simp add: any.harmless_def)
  then show ?thesis
    unfolding connectNVMeOFTarget_def by (intro any.harmless_basic any_Run any.harmless_rescan)
qed

lemma any_stage: "triple (stage_licensed req cap) (\<lambda>_. True) m G \<Longrightarrow> any.harmless m"
proof -
  assume m: "triple (stage_licensed req cap) (\<lambda>_. True) m G"
  have "wp m (\<lambda>r s'. \<exists>u. trace s' = b @ t @ u) s" if "trace s = b @ t" for s b t
    using tripleD [OF m, of s "b @ t" "[]"] that by (auto elim: wp_mono)
  then show ?thesis
    unfolding any.harmless_def by (intro tripleI) (auto simp: each_after_def)
qed

lemma reuse_mounts:
  assumes "\<not> is_block cap"
  shows "triple (\<lambda>_ _. True) (\<lambda>_. True) (tryReuseExistingConnection H params req cap)
    (\<lambda>r t. r = Inr True \<longrightarrow> mounted_at (st_StagingTargetPath req) t)"
proof -
  have drop: "triple (\<lambda>_ _. True) (\<lambda>_. True) (dropStaleConnection H nqn path pause)
      (\<lambda>r t. r = Inr True \<longrightarrow> mounted_at (st_StagingTargetPath req) t)" for nqn path pause
    unfolding dropStaleConnection_def
    by (intro any.seq_harmless any_kill any_disconnect any.harmless_basic stable_intros triple_option triple_ret) auto
  show ?thesis
    unfolding tryReuseExistingConnection_def reuseDevice_def
    by (intro any.seq_harmless any_stage [OF found_owned] any.harmless_controller any.harmless_rescan_namespace
        any.harmless_waits stable_intros triple_sum triple_prod triple_if triple_ret drop
        triple_bind [OF nvme_device_mounts [OF assms]])
      (auto split: option.splits)
qed

lemma nvme_attempts_mount:
  assumes "\<not> is_block cap"
  shows "mounts (st_StagingTargetPath req) (connectAndStageAttempts H params req cap n)"
proof (induction n)
  case (Suc n)
  let ?again = "do {
      u \<leftarrow> (if n > 0 then Sleep H (3 * Second) else ret ());
      connectAndStageAttempts H params req cap n
    }"
  have again: "mounts (st_StagingTargetPath req) ?again"
    by (intro mounts_seq any.harmless_cases(1) any.harmless_host any.harmless_ret Suc.IH)
  have retry: "mounts (st_StagingTargetPath req) (do { d \<leftarrow> disconnectNVMeOF H (nv_nqn params); ?again })"
    by (intro mounts_seq any_disconnect again)
  show ?case
    unfolding connectAndStageAttempts.simps Let_def waitForSubsystemLive_def waitForNVMeDevice_def
    by (intro mounts_seq any.harmless_peek any_connect triple_if triple_sum again retry any.harmless_subsystem
        any_stage [OF awaited_owned] mounts_or_again [OF nvme_device_mounts [OF assms]] mounts_ret) simp_all
qed (simp add: mounts_ret)

lemma NVMeOF_mounts:
  assumes "\<not> is_block cap"
  shows "mounts (st_StagingTargetPath req) (stageNVMeOFVolume H req cap)"
  unfolding stageNVMeOFVolume_def connectAndStageDevice_def
  by (intro triple_sum mounts_ret triple_bind [OF reuse_mounts [OF assms]] triple_bool triple_ret any.seq_harmless
      any.harmless_rescan stable_intros stable_mounted triple_if any.harmless_peek
      triple_conseq [OF nvme_attempts_mount [OF assms]]) auto

section \<open>The contract of NodeStageVolume\<close>

definition stage_answer :: "'w host \<Rightarrow> stage_request \<Rightarrow> node_capability \<Rightarrow> failure option \<Rightarrow> host_event list \<Rightarrow> bool" where
  "stage_answer H req cap r t \<longleftrightarrow>
     (r = None \<and> \<not> os_testMode H \<and> \<not> is_block cap \<longrightarrow> mounted_at (st_StagingTargetPath req) t)"

lemma triple_both:
  assumes "triple P (\<lambda>_. True) m (\<lambda>_ _. True)" "triple (\<lambda>_ _. True) (\<lambda>_. True) m G"
  shows "triple P (\<lambda>_. True) m G"
proof (rule tripleI)
  fix s :: "'a node" and b t assume h: "trace s = b @ t" "each_after P t"
  from tripleD [OF assms(1) h(1) _ h(2)] tripleD [OF assms(2) h(1)]
  show "wp m (\<lambda>r s'. \<exists>u. trace s' = b @ t @ u \<and> each_after P (t @ u) \<and> G r (t @ u)) s"
    by (auto simp: wp_def each_after_def split: prod.splits)
qed

lemma stage_kept: "triple (stage_licensed req cap) (\<lambda>_. True) (stageByProtocol H req cap) (\<lambda>_ _. True)"
  unfolding stageByProtocol_def Let_def
  by (intro triple_if NFS_staged SMB_staged NVMeOF_staged ISCSI_staged triple_ret) auto

lemma stage_body:
  "triple (stage_licensed req cap) (\<lambda>_. True) (stageByProtocol H req cap) (stage_answer H req cap)"
proof (rule triple_both [OF stage_kept], cases "os_testMode H \<or> is_block cap")
  case True
  with any_stage [OF stage_kept [of req cap H]]
  show "triple (\<lambda>_ _. True) (\<lambda>_. True) (stageByProtocol H req cap) (stage_answer H req cap)"
    unfolding any.harmless_def by (auto elim: triple_conseq simp: stage_answer_def)
next
  case False
  then have "mounts (st_StagingTargetPath req) (stageByProtocol H req cap)"
    unfolding stageByProtocol_def Let_def
    by (intro triple_if NFS_mounts SMB_mounts NVMeOF_mounts ISCSI_mounts mounts_ret) auto
  then show "triple (\<lambda>_ _. True) (\<lambda>_. True) (stageByProtocol H req cap) (stage_answer H req cap)"
    by (rule triple_conseq) (auto simp: stage_answer_def)
qed

definition stage_correct :: "'w host \<Rightarrow> stage_request \<Rightarrow> failure option \<Rightarrow> host_event list \<Rightarrow> bool" where
  "stage_correct H req r tr \<longleftrightarrow>
     (case st_VolumeCapability req of
        None \<Rightarrow> tr = [] \<and> r \<noteq> None
      | Some cap \<Rightarrow>
          lock_bracketed (st_VolumeId req)
            (\<lambda>r body. each_after (stage_licensed req cap) body \<and> stage_answer H req cap r body) r tr)"

text \<open>
  C5: a run of \<^verbatim>\<open>NodeStageVolume\<close>, whatever the host answers, does everything under the lock of the
  volume, and what it does is licensed by what it has seen before. A filesystem is repaired only
  on a device that belongs to the volume (its NQN read from sysfs, or the disk of its iSCSI
  session), that is large enough for the volume, whose signature is the requested one, and of
  which the mount table, read immediately before, says that it is not mounted. A device is mounted
  only on a path seen not mounted, after the same checks and a repair that succeeded right before.
  A session is ended only if this request has made one, or if the staging path was seen to be
  neither a link nor mounted. Nothing is unmounted and nothing is removed but its own files and the
  link at the staging path. Success on a filesystem volume means that the staging path was seen
  mounted or that the mount command for it succeeded.
\<close>

theorem NodeStageVolume_safe:
  "case run_state (NodeStageVolume H req) s of (r, s') \<Rightarrow>
     \<exists>tr. trace s' = trace s @ tr \<and> stage_correct H req r tr"
proof (cases "st_VolumeCapability req")
  case None
  then show ?thesis by (simp add: NodeStageVolume_def stage_correct_def)
next
  case (Some cap)
  then show ?thesis
    unfolding NodeStageVolume_def stage_correct_def Some option.case
    by (simp only: split: if_split) (intro conjI impI refused_run locking_run triple_start stage_body)
qed

end
