(* ===== verification/Node_Release.thy ===== *)
theory Node_Release
  imports Node_Staged
begin

text \<open>
  Taking a volume away from the node: \<^verbatim>\<open>NodeUnpublishVolume\<close> and \<^verbatim>\<open>NodeUnstageVolume\<close> share one policy for
  the path they release. A session is ended only if the trace shows whose it is: the device staged
  at the path, and the name that the host gives for the session of that device.
\<close>

section \<open>Whose session it is\<close>

text \<open>The device at a staging path: the source of the mount there, or what the path is a link to.\<close>

definition staged_device :: "string \<Rightarrow> string \<Rightarrow> host_event list \<Rightarrow> bool" where
  "staged_device path d t \<longleftrightarrow>
     (\<exists>r. Ran [''findmnt'', ''-n'', ''-o'', ''SOURCE'', path] r \<in> set t \<and> cr_err r = None \<and> trim_space (cr_output r) = d) \<or>
     (\<exists>l. SawTarget path (Inr l) \<in> set t \<and> d = Clean (if IsAbs l then l else Join [Dir path, l])) \<or>
     SawResolved path (Inr d) \<in> set t"

text \<open>The target of a disk's iSCSI session: below the disk in sysfs, else in a listing of the sessions.\<close>

definition sessionGlobs :: "string \<Rightarrow> string list" where
  "sessionGlobs sysPath =
     [sysPath @ ''/device/../../iscsi_session/session*'', sysPath @ ''/device/../../../iscsi_session/session*'']"

definition disk_session :: "string \<Rightarrow> string \<Rightarrow> host_event list \<Rightarrow> bool" where
  "disk_session sysPath x t \<longleftrightarrow>
     (\<exists>pattern sessions sess c. pattern \<in> set (sessionGlobs sysPath) \<and> SawGlob pattern (Inr sessions) \<in> set t \<and>
        sess \<in> set sessions \<and> SawFile (Join [sess, ''targetname'']) (Inr c) \<in> set t \<and> trim_space c = x) \<or>
     (\<exists>cmd r. iscsiadm_cmd [''-m'', ''session'', ''-P'', ''3''] cmd \<and> Ran cmd r \<in> set t \<and> cr_err r = None \<and>
        fst (parseISCSISessionInfo (cr_output r) (Base sysPath)) = x)"

text \<open>The subsystem of an NVMe namespace.\<close>

definition namespace_subsystem :: "string \<Rightarrow> string \<Rightarrow> host_event list \<Rightarrow> bool" where
  "namespace_subsystem d x t \<longleftrightarrow>
     (\<exists>name c. nvmeNamespaceBase d = Some name \<and>
        SawFile (Join [sysBlockPath, name, ''device'', ''subsysnqn'']) (Inr c) \<in> set t \<and> trim_space c = x)"

text \<open>A command that ends the session of the device staged at the path, or forgets its target.\<close>

definition staged_session :: "string \<Rightarrow> string list \<Rightarrow> host_event list \<Rightarrow> bool" where
  "staged_session path cmd t \<longleftrightarrow>
     (\<exists>d x. staged_device path d t \<and> x \<noteq> [] \<and>
        (cmd = [''nvme'', ''disconnect'', ''-n'', x] \<and> namespace_subsystem d x t \<or>
         (iscsiadm_cmd [''-m'', ''node'', ''-T'', x, ''--logout''] cmd \<or>
          iscsiadm_cmd [''-m'', ''node'', ''-T'', x, ''-o'', ''delete''] cmd) \<and>
         disk_session (''/sys/block/'' @ Base d) x t))"

lemma stable_sessions: "stable (staged_device path d)" "stable (disk_session sysPath x)" "stable (namespace_subsystem d x)"
  unfolding staged_device_def disk_session_def namespace_subsystem_def stable_def by (fastforce+)

lemma stable_bex: "stable (\<lambda>t. \<exists>p\<in>A. e p \<in> set t)"
  by (auto simp: stable_def)

context node_policy
begin

lemma staged_link:
  "triple P (\<lambda>_. True) (stagingLink H path) (\<lambda>r t. \<forall>d. r = Some d \<longrightarrow> staged_device path d t)"
  "triple P (\<lambda>_. True) (resolvedNVMeLink H path) (\<lambda>r t. \<forall>d. r = Some d \<longrightarrow> staged_device path d t)"
  unfolding stagingLink_def resolvedNVMeLink_def
  by (intro seq_links stable_intros triple_ret; auto simp: staged_device_def split: sum.splits if_splits)+

lemma staged_found:
  "triple P (\<lambda>_. True) (getStagedISCSIDevicePath H path) (\<lambda>r t. \<forall>d. r = Some d \<longrightarrow> staged_device path d t)"
  "triple P (\<lambda>_. True) (getStagedNVMeDevicePath H path) (\<lambda>r t. \<forall>d. r = Some d \<longrightarrow> staged_device path d t)"
  unfolding getStagedISCSIDevicePath_def getStagedNVMeDevicePath_def findmntSource_def Let_def
  by (intro seq_harmless harmless_host stable_intros triple_if seq_Run triple_ret staged_link
      triple_conseq [OF staged_link(1)] triple_conseq [OF staged_link(2)];
      auto simp: risk_defs staged_device_def)+

lemma sysfs_session_read:
  "triple P (\<lambda>_. True) (sysfsSessionLoop H portal sessions)
     (\<lambda>r t. \<forall>x p. r = Some (x, p) \<longrightarrow>
        (\<exists>sess\<in>set sessions. \<exists>c. SawFile (Join [sess, ''targetname'']) (Inr c) \<in> set t \<and> trim_space c = x))"
proof (induction sessions arbitrary: portal)
  case (Cons sess sessions)
  show ?case
    unfolding sysfsSessionLoop.simps Let_def
    by (intro seq_ReadFile seq_harmless harmless_queries stable_intros triple_if triple_ret
        triple_conseq [OF Cons.IH])
      (auto split: sum.splits)
qed (simp add: triple_ret)

lemma iqn_read:
  "triple P (\<lambda>_. True) (getISCSISessionInfo H sysPath)
     (\<lambda>r t. fst r \<noteq> [] \<longrightarrow> disk_session sysPath (fst r) t)"
proof -
  let ?listed = "\<lambda>ss t. ss \<noteq> [] \<longrightarrow> (\<exists>p\<in>set (sessionGlobs sysPath). SawGlob p (Inr ss) \<in> set t)"
  have adm: "triple P (\<lambda>_. True) (getISCSISessionInfoFromIscsiadm H (Base sysPath))
      (\<lambda>r t. fst r \<noteq> [] \<longrightarrow> disk_session sysPath (fst r) t)"
    unfolding getISCSISessionInfoFromIscsiadm_def
    by (intro triple_bind [OF iscsiadm_known [OF _ _ stable_intros(1) [of True]]] triple_ret)
      (auto simp: risk_defs disk_session_def split: if_splits)
  have globs: "triple P (\<lambda>t. True \<and> SawGlob (sysPath @ ''/device/../../iscsi_session/session*'') g \<in> set t) (case g of
        Inr (x # xs) \<Rightarrow> ret (x # xs)
      | _ \<Rightarrow> do {
          g2 \<leftarrow> Glob H (sysPath @ ''/device/../../../iscsi_session/session*'');
          ret (case g2 of Inl _ \<Rightarrow> [] | Inr xs \<Rightarrow> xs)
        }) ?listed" for g
    by (intro seq_links stable_intros triple_sum triple_list triple_ret)
      (auto simp: sessionGlobs_def split: sum.splits)
  have read: "triple P (?listed ss) (sysfsSessionLoop H portal ss)
      (\<lambda>r t. ?listed ss t \<and> (\<forall>x p. r = Some (x, p) \<longrightarrow>
        (\<exists>sess\<in>set ss. \<exists>c. SawFile (Join [sess, ''targetname'']) (Inr c) \<in> set t \<and> trim_space c = x)))" for ss portal
    by (rule triple_known [OF sysfs_session_read]) (intro stable_intros stable_bex)
  show ?thesis
    unfolding getISCSISessionInfo_def
    by (intro seq_links(3) stable_intros(1) triple_bind [OF globs] triple_bind [OF read] triple_option triple_ret triple_conseq [OF adm])
      (force simp: disk_session_def)+
qed

lemma nqn_read:
  "triple P (\<lambda>_. True) (nvmeNQNForDevice H sysBlockPath d)
     (\<lambda>n t. \<forall>x. n = Some x \<longrightarrow> x \<noteq> [] \<and> namespace_subsystem d x t)"
  unfolding nvmeNQNForDevice_def
  by (intro triple_option triple_ret triple_bind [OF sysfs_read [OF stable_intros(1) [of True]]])
    (auto simp: namespace_subsystem_def split: if_splits)

end

section \<open>The policy\<close>

definition released :: "string \<Rightarrow> host_event list \<Rightarrow> bool" where
  "released path t \<longleftrightarrow>
     SawMounted path (Inr False) \<in> set t \<or>
     (\<exists>cmd r. (cmd = [''umount'', path] \<or> cmd = [''umount'', ''-l'', path]) \<and> Ran cmd r \<in> set t \<and> cr_err r = None)"

definition settled :: "string \<Rightarrow> host_event list \<Rightarrow> bool" where
  "settled path t \<longleftrightarrow> released path t \<or> (\<exists>r. Ran [''umount'', path] r \<in> set t)"

definition umount_ok :: "string \<Rightarrow> host_event list \<Rightarrow> string list \<Rightarrow> bool" where
  "umount_ok path t cmd \<longleftrightarrow>
     cmd = [''umount'', path] \<and> SawMounted path (Inr True) \<in> set t \<or>
     cmd = [''umount'', ''-l'', path] \<and> (\<exists>r. last t = Ran [''umount'', path] r \<and> cr_err r \<noteq> None)"

definition release_licensed :: "bool \<Rightarrow> string \<Rightarrow> policy" where
  "release_licensed testMode path t e \<longleftrightarrow>
     (case e of
        Ran cmd _ \<Rightarrow>
          if take 1 cmd = [''umount''] then umount_ok path t cmd
          else risky cmd \<longrightarrow> settled path t \<and> staged_session path cmd t
      | RemovedPath p _ \<Rightarrow> p = path \<and> (testMode \<or> released path t)
      | MadeLink _ _ \<Rightarrow> False
      | WroteFile _ _ \<Rightarrow> False
      | _ \<Rightarrow> True)"

interpretation release: node_policy "release_licensed testMode path" for testMode path
  by unfold_locales (auto simp: benign_def release_licensed_def split: host_event.splits)

lemma stable_released: "stable (released path)" "stable (settled path)"
  unfolding released_def settled_def stable_def by (fastforce+)

lemma released_settled: "released path t \<Longrightarrow> settled path t"
  by (simp add: settled_def)

section \<open>Unmounting\<close>

lemma unmounted:
  assumes "stable F"
  shows "triple (release_licensed testMode path) (\<lambda>t. F t \<and> SawMounted path (Inr True) \<in> set t) (Unmount H path)
    (\<lambda>ok t. F t \<and> settled path t \<and> (ok \<longrightarrow> released path t))"
proof -
  let ?P = "release_licensed testMode path"
  have normal: "triple ?P (\<lambda>t. F t \<and> SawMounted path (Inr True) \<in> set t) (Run H [''umount'', path])
      (\<lambda>r t. F t \<and> Ran [''umount'', path] r \<in> set t \<and> last t = Ran [''umount'', path] r)"
    unfolding Run_def
    by (rule release.triple_last) (use assms in \<open>auto simp: release_licensed_def umount_ok_def\<close>)
  have lazy: "triple ?P (\<lambda>t. F t \<and> Ran [''umount'', path] r \<in> set t \<and> last t = Ran [''umount'', path] r)
      (Run H [''umount'', ''-l'', path]) (\<lambda>l t. F t \<and> settled path t \<and> Ran [''umount'', ''-l'', path] l \<in> set t)"
    if "cr_err r \<noteq> None" for r
    unfolding Run_def
    by (rule triple_ask) (use that assms in \<open>auto simp: release_licensed_def umount_ok_def settled_def stable_def\<close>)
  show ?thesis
    unfolding Unmount_def
    by (intro triple_bind [OF normal] triple_if triple_ret triple_bind [OF lazy])
      (auto simp: released_def settled_def)
qed

text \<open>The common step: look, and unmount what is mounted.\<close>

lemma unmount_if:
  assumes "stable F"
  shows "triple (release_licensed testMode path) (\<lambda>t. F t \<and> SawMounted path (Inr m) \<in> set t)
    (if m then Unmount H path else ret True) (\<lambda>ok t. F t \<and> settled path t \<and> (ok \<longrightarrow> released path t))"
proof (cases m)
  case True
  then show ?thesis using unmounted [OF assms] by simp
next
  case False
  then show ?thesis by (auto intro!: triple_ret simp: settled_def released_def)
qed

lemma removed:
  "triple (release_licensed testMode path) (\<lambda>t. testMode \<or> released path t) (Remove H path)
     (\<lambda>a t. last t = RemovedPath path a \<and> (testMode \<or> released path t))"
  unfolding Remove_def
  by (rule triple_ask) (use stable_released(1) in \<open>auto simp: release_licensed_def stable_def\<close>)

text \<open>
  Success means that nothing is mounted at the path and that its removal was tried, last of all;
  what came of the removal does not matter.
\<close>

definition release_answer :: "bool \<Rightarrow> string \<Rightarrow> failure option \<Rightarrow> host_event list \<Rightarrow> bool" where
  "release_answer testMode path r t \<longleftrightarrow>
     (r = None \<longrightarrow> (\<exists>a. last t = RemovedPath path a) \<and> (testMode \<or> released path t))"

lemma removed_then:
  "triple (release_licensed testMode path) (\<lambda>t. testMode \<or> released path t) (do {
     d \<leftarrow> Remove H path;
     ret (f d)
   }) (release_answer testMode path)"
  by (intro triple_bind [OF removed] triple_ret) (auto simp: release_answer_def)

section \<open>NodeUnpublishVolume\<close>

text \<open>Right after the first look: unmounting succeeds exactly if nothing is mounted any more.\<close>

lemma unmounted_exactly:
  "triple (release_licensed testMode path) (\<lambda>t. t = [SawMounted path (Inr m)])
     (if m then Unmount H path else ret True) (\<lambda>ok t. (ok \<longleftrightarrow> released path t) \<and> (\<forall>p a. RemovedPath p a \<notin> set t))"
proof (cases m)
  case True
  let ?P = "release_licensed testMode path"
  let ?m = "SawMounted path (Inr True)"
  have normal: "triple ?P (\<lambda>t. t = [?m]) (Run H [''umount'', path]) (\<lambda>r t. t = [?m, Ran [''umount'', path] r])"
    unfolding Run_def by (rule triple_ask) (simp add: release_licensed_def umount_ok_def)
  have lazy: "triple ?P (\<lambda>t. t = [?m, Ran [''umount'', path] r]) (Run H [''umount'', ''-l'', path])
      (\<lambda>l t. t = [?m, Ran [''umount'', path] r, Ran [''umount'', ''-l'', path] l])" if "cr_err r \<noteq> None" for r
    unfolding Run_def by (rule triple_ask) (use that in \<open>simp add: release_licensed_def umount_ok_def\<close>)
  have "triple ?P (\<lambda>t. t = [?m]) (Unmount H path) (\<lambda>ok t. (ok \<longleftrightarrow> released path t) \<and> (\<forall>p a. RemovedPath p a \<notin> set t))"
    unfolding Unmount_def
    by (intro triple_bind [OF normal] triple_if triple_ret triple_bind [OF lazy]) (auto simp: released_def)
  with True show ?thesis by simp
next
  case False
  then show ?thesis by (auto intro!: triple_ret simp: released_def)
qed

lemma triple_publications:
  "triple P F (setTestPublications f) (\<lambda>_. F)" "triple P F getTestPublications (\<lambda>_. F)"
  unfolding setTestPublications_def getTestPublications_def by (rule tripleI; simp add: wp_def)+

text \<open>The answer of \<^verbatim>\<open>NodeUnpublishVolume\<close>, from what happened under the lock.\<close>

definition unpublish_answer :: "bool \<Rightarrow> string \<Rightarrow> failure option \<Rightarrow> host_event list \<Rightarrow> bool" where
  "unpublish_answer testMode path r t \<longleftrightarrow>
     (if testMode \<or> released path t then r = None \<and> (\<exists>a. last t = RemovedPath path a)
      else r = Some (Status Internal) \<and> (\<forall>p a. RemovedPath p a \<notin> set t))"

definition release_correct :: "bool \<Rightarrow> string \<Rightarrow> string \<Rightarrow> failure option \<Rightarrow> host_event list \<Rightarrow> bool" where
  "release_correct testMode v path r tr \<longleftrightarrow>
     lock_bracketed v (\<lambda>r body. each_after (release_licensed testMode path) body \<and> unpublish_answer testMode path r body) r tr"


section \<open>NodeUnstageVolume\<close>

lemma session_ended_at:
  assumes "\<And>t. K t \<Longrightarrow> settled path t \<and> staged_session path cmd t" "take 1 cmd \<noteq> [''umount'']" "stable K"
  shows "triple (release_licensed testMode path) K (Run H cmd) (\<lambda>_. K)"
  unfolding Run_def by (rule triple_ask) (use assms in \<open>auto simp: release_licensed_def stable_def\<close>)

lemma share_released:
  "triple (release_licensed (os_testMode H) path) (\<lambda>_. True) (unstageShare H path) (release_answer (os_testMode H) path)"
proof -
  let ?P = "release_licensed (os_testMode H) path"
  have unmount: "triple ?P (\<lambda>t. True \<and> SawMounted path (Inr True) \<in> set t) (do {
      ok \<leftarrow> Unmount H path;
      if ok then do { d \<leftarrow> Remove H path; ret (f d) } else ret (Some (Status Internal))
    }) (release_answer (os_testMode H) path)" for f
    by (intro triple_bind [OF unmounted [OF stable_intros(1) [of True]]] triple_if triple_conseq [OF removed_then] triple_ret)
      (auto simp: release_answer_def)
  show ?thesis
    unfolding unstageShare_def Let_def
    by (intro triple_if triple_conseq [OF removed_then] release.seq_IsMounted stable_intros triple_sum triple_bool triple_ret
        triple_conseq [OF unmount])
      (auto simp: released_def release_answer_def)
qed

text \<open>Both block protocols end as follows: look, unmount if mounted, then end the session.\<close>

lemma session_released:
  assumes "triple (release_licensed testMode path) (\<lambda>t. settled path t \<and> E t) bye (\<lambda>_ _. True)" "stable E"
  shows "triple (release_licensed testMode path) (\<lambda>t. x \<noteq> [] \<longrightarrow> E t) (do {
      mounted \<leftarrow> IsMounted H Detached path;
      case mounted of
        Inl _ \<Rightarrow> ret (Some (Status Internal))
      | Inr m \<Rightarrow> do {
          ok \<leftarrow> (if m then Unmount H path else ret True);
          if x = [] then ret None else do { u \<leftarrow> bye; ret None }
        }
    }) (\<lambda>r t. r = None \<longrightarrow> settled path t)"
proof -
  have K: "stable (\<lambda>t. x \<noteq> [] \<longrightarrow> E t)" using assms(2) by (intro stable_intros)
  have rest: "triple (release_licensed testMode path) (\<lambda>t. (x \<noteq> [] \<longrightarrow> E t) \<and> SawMounted path (Inr m) \<in> set t) (do {
      ok \<leftarrow> (if m then Unmount H path else ret True);
      if x = [] then ret None else do { u \<leftarrow> bye; ret None }
    }) (\<lambda>r t. r = None \<longrightarrow> settled path t)" for m
    by (intro triple_bind [OF unmount_if [OF K]] triple_if triple_ret
        triple_bind [OF triple_keep [OF assms(1) stable_released(2)]]) auto
  show ?thesis
    by (intro release.seq_IsMounted triple_sum triple_ret triple_conseq [OF rest] K) auto
qed

lemma nvme_released:
  "triple (release_licensed testMode path) (\<lambda>_. True) (unstageNVMeOFVolume H path fmempty)
     (\<lambda>r t. r = None \<longrightarrow> settled path t)"
proof -
  let ?P = "release_licensed testMode path"
  let ?E = "\<lambda>x t. x \<noteq> [] \<and> (\<exists>d. staged_device path d t \<and> namespace_subsystem d x t)"
  have E: "stable (?E x)" for x by (intro stable_intros stable_sessions)
  have bye: "triple ?P (\<lambda>t. settled path t \<and> ?E x t) (disconnectNVMeOF H x) (\<lambda>_ _. True)" for x
    unfolding disconnectNVMeOF_def
    by (intro triple_bind [OF session_ended_at] triple_if triple_ret release.seq_harmless release.harmless_host stable_intros
        stable_released stable_sessions)
      (auto simp: staged_session_def)
  have nqn: "triple ?P (\<lambda>t. True \<and> staged_device path d t) (nvmeNQNForDevice H sysBlockPath d)
      (\<lambda>n t. \<forall>x. n = Some x \<longrightarrow> ?E x t)" for d
    by (rule triple_conseq [OF triple_frame [OF release.nqn_read, where R = "staged_device path d"]])
      (use stable_sessions(1) in \<open>auto simp: stable_def\<close>)
  have derived: "triple ?P (\<lambda>_. True) (deriveNQNFromStagingPath H path) (\<lambda>n t. \<forall>x. n = Some x \<longrightarrow> ?E x t)"
    unfolding deriveNQNFromStagingPath_def
    by (intro triple_bind [OF release.staged_found(2)] triple_option triple_ret triple_conseq [OF nqn]) auto
  have name: "triple ?P (\<lambda>_. True)
      (if mget fmempty k \<noteq> [] then ret (mget fmempty k)
       else do {
         d \<leftarrow> deriveNQNFromStagingPath H path;
         ret (case d of None \<Rightarrow> [] | Some n \<Rightarrow> n)
       }) (\<lambda>n t. n \<noteq> [] \<longrightarrow> ?E n t)" for k
    by (intro triple_if triple_bind [OF derived] triple_ret) (auto simp: mget_def split: option.splits)
  show ?thesis
    unfolding unstageNVMeOFVolume_def by (intro triple_bind [OF name] session_released bye E)
qed

lemma iscsi_released:
  "triple (release_licensed testMode path) (\<lambda>_. True) (unstageISCSIVolume H path)
     (\<lambda>r t. r = None \<longrightarrow> settled path t)"
proof -
  let ?P = "release_licensed testMode path"
  let ?E = "\<lambda>x t. x \<noteq> [] \<and> (\<exists>d. staged_device path d t \<and> disk_session (''/sys/block/'' @ Base d) x t)"
  let ?K = "\<lambda>x t. settled path t \<and> ?E x t"
  have E: "stable (?E x)" for x by (intro stable_intros stable_sessions)
  have K: "stable (?K x)" for x by (intro stable_intros stable_sessions stable_released)
  have bye1: "triple ?P (?K x) (iscsiadmCmd H ([''-m'', ''node'', ''-T'', x] @ args)) (\<lambda>_. ?K x)"
    if "args \<in> {[''--logout''], [''-o'', ''delete'']}" for x args
    unfolding iscsiadmCmd_def
    by (intro release.seq_peek triple_sum session_ended_at K)
      (use that in \<open>auto simp: staged_session_def iscsiadm_cmd_def hostIscsiadm_def\<close>)
  have bye2: "triple ?P (?K x) (iscsiadmCmd H [''-m'', ''node'', ''-T'', x, ''--logout'']) (\<lambda>_. ?K x)"
    "triple ?P (?K x) (iscsiadmCmd H [''-m'', ''node'', ''-T'', x, ''-o'', ''delete'']) (\<lambda>_. ?K x)" for x
    using bye1 [of "[''--logout'']" x] bye1 [of "[''-o'', ''delete'']" x] by simp_all
  have bye: "triple ?P (?K x) (logoutISCSITarget H x) (\<lambda>_ _. True)" for x
    unfolding logoutISCSITarget_def by (intro triple_bind [OF bye2(1)] triple_bind [OF bye2(2)] triple_ret) simp
  have info: "triple ?P (\<lambda>t. True \<and> staged_device path d t) (getISCSISessionInfo H (''/sys/block/'' @ Base d))
      (\<lambda>r t. fst r \<noteq> [] \<longrightarrow> ?E (fst r) t)" for d
    by (rule triple_conseq [OF triple_frame [OF release.iqn_read, where R = "staged_device path d"]])
      (use stable_sessions(1) in \<open>auto simp: stable_def\<close>)
  have name: "triple ?P (\<lambda>t. \<forall>d. dev = Some d \<longrightarrow> staged_device path d t) (case dev of
        None \<Rightarrow> ret []
      | Some devicePath \<Rightarrow> do {
          info \<leftarrow> getISCSISessionInfo H (''/sys/block/'' @ Base devicePath);
          ret (fst info)
        }) (\<lambda>n t. n \<noteq> [] \<longrightarrow> ?E n t)" for dev
    by (intro triple_option triple_ret triple_bind [OF triple_conseq [OF info]]) auto
  show ?thesis
    unfolding unstageISCSIVolume_def
    by (intro triple_bind [OF release.staged_found(1)] triple_bind [OF name] session_released bye E)
qed

definition unstage_correct :: "bool \<Rightarrow> string \<Rightarrow> string \<Rightarrow> failure option \<Rightarrow> host_event list \<Rightarrow> bool" where
  "unstage_correct testMode v path r tr \<longleftrightarrow>
     lock_bracketed v (\<lambda>r body. each_after (release_licensed testMode path) body \<and>
       (r = None \<longrightarrow> testMode \<or> settled path body)) r tr"

text \<open>
  C7: whatever the host answers, \<^verbatim>\<open>NodeUnstageVolume\<close> works under the lock of the volume. It unmounts
  only the staging path, after the table said that it is mounted, and lazily only right after a
  normal unmount that failed; it removes only the staging path, and only when nothing is mounted
  there any more; it ends a session only after the mount on the staging path is gone or its unmount
  was tried, and only its own: that of the device which the host has named as staged at that very
  path, under the name that the host gives, in sysfs or in a listing, for the session of that
  device; the same holds for forgetting the record of a target. No other command that could change
  a mount, a filesystem or a session is run. Success means that the mount is gone or that unmounting was tried.
\<close>

theorem NodeUnstageVolume_safe:
  "case run_state (NodeUnstageVolume H volumeID stagingTargetPath) s of (r, s') \<Rightarrow>
     \<exists>tr. trace s' = trace s @ tr \<and> unstage_correct (os_testMode H) volumeID stagingTargetPath r tr"
proof -
  let ?G = "\<lambda>r t. r = None \<longrightarrow> os_testMode H \<or> settled stagingTargetPath t"
  have "triple (release_licensed (os_testMode H) stagingTargetPath) (\<lambda>_. True) (unstageByProtocol H stagingTargetPath) ?G"
    unfolding unstageByProtocol_def unstageSMBVolume_def unstageNFSVolume_def
    by (intro release.seq_harmless release.harmless_detection stable_intros triple_if triple_conseq [OF nvme_released]
        triple_conseq [OF iscsi_released] triple_conseq [OF share_released])
      (auto simp: release_answer_def released_settled)
  then show ?thesis
    unfolding NodeUnstageVolume_def unstage_correct_def
    by (simp only: split: if_split) (intro conjI impI refused_run locking_run triple_start)
qed

end
