(* ===== verification/Node_Publishing.thy ===== *)
theory Node_Publishing
  imports Node_Release
begin

text \<open>
  Giving a staged volume to a pod: the only command of \<^verbatim>\<open>NodePublishVolume\<close> is one bind mount, and its
  policy says when.
\<close>

section \<open>The policy\<close>

definition bindMount :: "node_publish_request \<Rightarrow> string list" where
  "bindMount req =
     ''mount'' # bindMountArgs (npr_Readonly req) (npr_StagingTargetPath req) (npr_TargetPath req)"

definition other_writer :: "node_publish_request \<Rightarrow> host_event list \<Rightarrow> bool" where
  "other_writer req t \<longleftrightarrow>
     (\<exists>refs. SawRefs (npr_StagingTargetPath req) (Inr refs) \<in> set t \<and>
        \<not> list_all (sameTarget (npr_TargetPath req)) refs)"

definition writers_checked :: "bool \<Rightarrow> node_publish_request \<Rightarrow> node_capability \<Rightarrow> host_event list \<Rightarrow> bool" where
  "writers_checked testMode req cap t \<longleftrightarrow>
     \<not> other_writer req t \<and>
     (ncap_mode cap = SINGLE_NODE_SINGLE_WRITER \<longrightarrow>
        testMode \<or> (\<exists>refs. SawRefs (npr_StagingTargetPath req) (Inr refs) \<in> set t))"

definition no_command :: "host_event list \<Rightarrow> bool" where
  "no_command t \<longleftrightarrow> list_all (\<lambda>e. case e of Ran _ _ \<Rightarrow> False | _ \<Rightarrow> True) t"

definition publish_licensed :: "bool \<Rightarrow> node_publish_request \<Rightarrow> node_capability \<Rightarrow> policy" where
  "publish_licensed testMode req cap t e \<longleftrightarrow>
     (case e of
        Ran cmd _ \<Rightarrow>
          cmd = bindMount req \<and> last t = SawMounted (npr_TargetPath req) (Inr False) \<and>
          writers_checked testMode req cap t \<and> no_command t
      | RemovedPath p _ \<Rightarrow>
          p = npr_TargetPath req \<and> is_block cap \<and> (\<exists>r. last t = Ran (bindMount req) r \<and> cr_err r \<noteq> None)
      | MadeDir p \<Rightarrow> p = npr_TargetPath req \<or> p = Dir (npr_TargetPath req)
      | MadeFile p \<Rightarrow> p = npr_TargetPath req \<and> is_block cap
      | SawMounted p _ \<Rightarrow> p = npr_TargetPath req
      | SawRefs p _ \<Rightarrow> p = npr_StagingTargetPath req \<and> no_command t
      | _ \<Rightarrow> False)"

definition publish_answer :: "bool \<Rightarrow> node_publish_request \<Rightarrow> failure option \<Rightarrow> host_event list \<Rightarrow> bool" where
  "publish_answer testMode req r t \<longleftrightarrow>
     (other_writer req t \<longrightarrow> r = Some (Status FailedPrecondition)) \<and>
     (r = None \<longrightarrow> testMode \<or> mounted_at (npr_TargetPath req) t)"

section \<open>The steps\<close>

abbreviation ready :: "bool \<Rightarrow> node_publish_request \<Rightarrow> node_capability \<Rightarrow> host_event list \<Rightarrow> bool" where
  "ready testMode req cap t \<equiv> no_command t \<and> writers_checked testMode req cap t"

lemma quiet_trace [simp]:
  "no_command (t @ [Ran cmd r]) \<longleftrightarrow> False" "no_command (t @ [MadeDir p]) \<longleftrightarrow> no_command t"
  "no_command (t @ [MadeFile p]) \<longleftrightarrow> no_command t" "no_command (t @ [SawMounted p m]) \<longleftrightarrow> no_command t"
  "no_command (t @ [SawRefs p x]) \<longleftrightarrow> no_command t"
  by (auto simp: no_command_def)

lemma writers_trace [simp]:
  "other_writer req (t @ [Ran cmd r]) \<longleftrightarrow> other_writer req t" "other_writer req (t @ [MadeDir p]) \<longleftrightarrow> other_writer req t"
  "other_writer req (t @ [MadeFile p]) \<longleftrightarrow> other_writer req t" "other_writer req (t @ [SawMounted p m]) \<longleftrightarrow> other_writer req t"
  "other_writer req (t @ [RemovedPath p a]) \<longleftrightarrow> other_writer req t"
  by (auto simp: other_writer_def)

lemma checked_trace [simp]:
  "writers_checked testMode req cap t \<Longrightarrow> \<not> (\<exists>p x. e = SawRefs p x) \<Longrightarrow> writers_checked testMode req cap (t @ [e])"
  by (cases e) (auto simp: writers_checked_def other_writer_def)

lemma publish_dirs:
  "p = npr_TargetPath req \<or> p = Dir (npr_TargetPath req) \<Longrightarrow>
     triple (publish_licensed testMode req cap) (ready testMode req cap) (MkdirAll H p) (\<lambda>_. ready testMode req cap)"
  unfolding MkdirAll_def by (rule triple_ask) (auto simp: publish_licensed_def)

lemma publish_peek: "triple P F (peek f) (\<lambda>_. F)"
  by (rule triple_ask) simp

lemma publish_looked:
  "triple (publish_licensed testMode req cap) (ready testMode req cap) (IsMounted H ctx (npr_TargetPath req))
     (\<lambda>m t. ready testMode req cap t \<and> last t = SawMounted (npr_TargetPath req) m \<and>
        SawMounted (npr_TargetPath req) m \<in> set t)"
  unfolding IsMounted_def by (rule triple_ask) (auto simp: publish_licensed_def)

lemma bound_at:
  assumes "Ran (bindMount req) r \<in> set t" "cr_err r = None"
  shows "mounted_at (npr_TargetPath req) t"
  unfolding mounted_at_def
  by (intro disjI2 exI [of _ "tl (bindMount req)"] exI [of _ r])
    (use assms in \<open>simp add: bindMount_def bindMountArgs_def\<close>)

lemma bind_mounted:
  "triple (publish_licensed testMode req cap)
     (\<lambda>t. ready testMode req cap t \<and> last t = SawMounted (npr_TargetPath req) (Inr False))
     (runMount H (bindMountArgs (npr_Readonly req) (npr_StagingTargetPath req) (npr_TargetPath req)))
     (\<lambda>r t. publish_answer testMode req r t \<and> \<not> other_writer req t \<and>
        (r \<noteq> None \<longrightarrow> (\<exists>c. last t = Ran (bindMount req) c \<and> cr_err c \<noteq> None)))"
  unfolding runMount_def Run_def bindMount_def [symmetric]
  by (rule triple_bind [OF triple_ask [where G = "\<lambda>r t. last t = Ran (bindMount req) r \<and>
          Ran (bindMount req) r \<in> set t \<and> \<not> other_writer req t"] triple_ret])
    (auto simp: publish_licensed_def publish_answer_def writers_checked_def intro: bound_at split: if_splits)

lemma mount_published:
  "triple (publish_licensed testMode req cap) (ready testMode req cap)
     (mountUnlessMounted H (npr_TargetPath req)
       (runMount H (bindMountArgs (npr_Readonly req) (npr_StagingTargetPath req) (npr_TargetPath req))))
     (publish_answer testMode req)"
  unfolding mountUnlessMounted_def
  by (intro triple_bind [OF publish_looked] triple_sum triple_bool triple_ret triple_conseq [OF bind_mounted])
    (auto simp: publish_answer_def writers_checked_def mounted_at_def)

section \<open>The protocols\<close>

lemma share_published:
  "triple (publish_licensed (os_testMode H) req cap) (ready (os_testMode H) req cap) (publishShare H req)
     (publish_answer (os_testMode H) req)"
  unfolding publishShare_def createMissing_def Let_def State_Monad.bind_assoc
  by (intro triple_bind [OF publish_peek] triple_if triple_bind [OF publish_dirs] triple_ret mount_published
      triple_bind [where G = "\<lambda>_. ready (os_testMode H) req cap"])
    (auto simp: publish_answer_def writers_checked_def)

lemma block_published:
  assumes "is_block cap"
  shows "triple (publish_licensed testMode req cap) (ready testMode req cap)
    (publishBlockVolume H (npr_StagingTargetPath req) (npr_TargetPath req) (npr_Readonly req))
    (publish_answer testMode req)"
proof -
  let ?P = "publish_licensed testMode req cap"
  have created: "triple ?P (ready testMode req cap)
      (ask (os_CreateExcl H (npr_TargetPath req)) (\<lambda>_. [MadeFile (npr_TargetPath req)])) (\<lambda>_. ready testMode req cap)"
    by (rule triple_ask) (auto simp: publish_licensed_def assms)
  have remove: "triple ?P (\<lambda>t. \<not> other_writer req t \<and> (\<exists>c. last t = Ran (bindMount req) c \<and> cr_err c \<noteq> None))
      (Remove H (npr_TargetPath req)) (\<lambda>_ t. \<not> other_writer req t)"
    unfolding Remove_def by (rule triple_ask) (auto simp: publish_licensed_def assms)
  have undo: "triple ?P (\<lambda>t. \<not> other_writer req t \<and> (\<exists>c. last t = Ran (bindMount req) c \<and> cr_err c \<noteq> None))
      (do { d \<leftarrow> Remove H (npr_TargetPath req); ret (Some e) }) (publish_answer testMode req)" for e
    by (intro triple_bind [OF remove] triple_ret) (auto simp: publish_answer_def)
  have mount: "triple ?P (\<lambda>t. ready testMode req cap t \<and> last t = SawMounted (npr_TargetPath req) (Inr False)) (do {
      r \<leftarrow> runMount H (bindMountArgs (npr_Readonly req) (npr_StagingTargetPath req) (npr_TargetPath req));
      if r = None then ret None
      else do {
        d \<leftarrow> Remove H (npr_TargetPath req);
        ret r
      }
    }) (publish_answer testMode req)"
    apply (rule triple_bind [OF bind_mounted])
    subgoal for r
      by (cases r) (auto intro!: triple_ret triple_conseq [OF undo])
    done
  show ?thesis
    unfolding publishBlockVolume_def IsDeviceMounted_def
    by (intro triple_bind [OF publish_peek] triple_sum triple_bool triple_if triple_ret triple_bind [OF publish_dirs]
        triple_bind [OF created] triple_bind [OF publish_looked] triple_conseq [OF mount])
      (auto simp: publish_answer_def writers_checked_def mounted_at_def)
qed

lemma filesystem_published:
  "triple (publish_licensed testMode req cap) (ready testMode req cap)
    (publishFilesystemVolume H (npr_StagingTargetPath req) (npr_TargetPath req) (npr_Readonly req))
    (publish_answer testMode req)"
  unfolding publishFilesystemVolume_def
  by (intro triple_bind [OF publish_peek] triple_sum triple_if triple_ret triple_bind [OF publish_dirs] mount_published)
    (auto simp: publish_answer_def writers_checked_def)

lemma protocol_published:
  "triple (publish_licensed (os_testMode H) req cap) (ready (os_testMode H) req cap) (publishByProtocol H req cap)
     (publish_answer (os_testMode H) req)"
  unfolding publishByProtocol_def publishNFSVolume_def publishSMBVolume_def Let_def
  by (intro triple_if share_published block_published filesystem_published triple_ret)
    (auto simp: publish_answer_def writers_checked_def)

lemma single_checked:
  "triple (publish_licensed (os_testMode H) req cap) (\<lambda>t. t = []) (checkSingleWriterPublication H req cap)
     (\<lambda>r t. (r = None \<longrightarrow> ready (os_testMode H) req cap t) \<and>
        (other_writer req t \<longrightarrow> r = Some (Status FailedPrecondition)))"
proof -
  have refs: "triple (publish_licensed (os_testMode H) req cap) (\<lambda>t. t = []) (GetBindMountRefs H (npr_StagingTargetPath req))
      (\<lambda>r t. t = [SawRefs (npr_StagingTargetPath req) r])"
    unfolding GetBindMountRefs_def by (rule triple_ask) (auto simp: publish_licensed_def no_command_def each_after_def)
  show ?thesis
    unfolding checkSingleWriterPublication_def
    by (intro triple_if triple_ret triple_bind [OF triple_publications(2)] triple_bind [OF refs])
      (auto simp: writers_checked_def other_writer_def no_command_def split: sum.splits if_splits)
qed

section \<open>The contract of NodePublishVolume\<close>

definition publish_correct :: "bool \<Rightarrow> node_publish_request \<Rightarrow> failure option \<Rightarrow> host_event list \<Rightarrow> bool" where
  "publish_correct testMode req r tr \<longleftrightarrow>
     (case npr_VolumeCapability req of
        None \<Rightarrow> tr = [] \<and> r \<noteq> None
      | Some cap \<Rightarrow>
          lock_bracketed (npr_VolumeId req)
            (\<lambda>r body. each_after (publish_licensed testMode req cap) body \<and> publish_answer testMode req r body) r tr)"

text \<open>
  C6: whatever the host answers, \<^verbatim>\<open>NodePublishVolume\<close> works under the lock of the volume and runs at most
  one command: the bind mount of the staging path on the target path, read-only if the request
  says so. It runs it only right after the mount table said that the target is not a mount point,
  and for a single-writer volume only after every bind mount of the staging path was listed and was
  the same target; if another target has one, the answer is FailedPrecondition. Only a failed mount
  of a block volume removes a file, the target. Success means that the target was seen mounted or
  that the mount succeeded.
\<close>

theorem NodePublishVolume_correct:
  "case run_state (NodePublishVolume H req) s of (r, s') \<Rightarrow>
     \<exists>tr. trace s' = trace s @ tr \<and> publish_correct (os_testMode H) req r tr"
proof (cases "npr_VolumeCapability req")
  case None
  then show ?thesis by (simp add: NodePublishVolume_def publish_correct_def)
next
  case (Some cap)
  let ?G = "publish_answer (os_testMode H) req"
  have remember: "triple P (G r) (if b then do { u \<leftarrow> setTestPublications f; ret r } else ret r) G"
    for P f r b and G :: "failure option \<Rightarrow> host_event list \<Rightarrow> bool"
    by (intro triple_if triple_bind [OF triple_publications(1)] triple_ret)
  note publish = triple_bind [OF protocol_published remember]
  have "triple (publish_licensed (os_testMode H) req cap) (\<lambda>t. t = []) (do {
      single \<leftarrow> checkSingleWriterPublication H req cap;
      case single of
        Some e \<Rightarrow> ret (Some e)
      | None \<Rightarrow> do {
          r \<leftarrow> publishByProtocol H req cap;
          if os_testMode H \<and> r = None then do {
            u \<leftarrow> setTestPublications (rememberPublication (npr_VolumeId req) (npr_TargetPath req));
            ret r
          }
          else ret r
        }
    }) ?G"
    by (intro triple_bind [OF single_checked] triple_option triple_ret triple_conseq [OF publish])
      (auto simp: publish_answer_def)
  then show ?thesis
    unfolding NodePublishVolume_def publish_correct_def Some option.case
    by (simp only: split: if_split) (intro conjI impI refused_run locking_run)
qed

end
