(* ===== verification/Node_Monitor.thy ===== *)
theory Node_Monitor
  imports Node_Release
begin

text \<open>
  One pass of the health monitor: what it may touch, and that it leaves a path alone for the
  cool-down after it has unmounted it.
\<close>

section \<open>The policy\<close>

text \<open>A line of a listing of the mounts, of the driver's own staging paths.\<close>

definition listed_fields :: "string \<Rightarrow> host_event list \<Rightarrow> string list \<Rightarrow> bool" where
  "listed_fields columns t cols \<longleftrightarrow>
     (\<exists>r line. Ran [''findmnt'', ''-n'', ''-o'', columns, ''-t'', ''ext4,xfs'', ''--raw''] r \<in> set t \<and> cr_err r = None \<and>
        line \<in> set (output_lines (cr_output r)) \<and> str_contains line stagingPathMarker \<and> Fields line = cols)"

definition usable :: "cmd_result \<Rightarrow> bool" where
  "usable r \<longleftrightarrow>
     cr_err r = None \<and> trim_space (cr_output r) \<noteq> [] \<and> trim_space (cr_output r) \<noteq> ''0''"

definition getsize_cmd :: "string \<Rightarrow> string list" where
  "getsize_cmd d = [''blockdev'', ''--getsize64'', d]"

definition dead :: "string \<Rightarrow> host_event list \<Rightarrow> bool" where
  "dead d t \<longleftrightarrow>
     (\<exists>e. SawStat d (Inl e) \<in> set t) \<or> (\<exists>r. Ran (getsize_cmd d) r \<in> set t \<and> \<not> usable r)"

text \<open>The state of a session is that of the disk in sysfs, else the first one of a listing.\<close>

abbreviation session_listing :: "string list" where
  "session_listing \<equiv> [''-m'', ''session'', ''-P'', ''1'']"

definition stateFile :: "string \<Rightarrow> string" where
  "stateFile d = ''/sys/block/'' @ Base d @ ''/device/state''"

definition fileState :: "string \<Rightarrow> string option" where
  "fileState c = Some (if trim_space c = ''running'' then iscsiSessionStateLoggedIn else trim_space c)"

definition listedState :: "cmd_result \<Rightarrow> string option" where
  "listedState r = (if cr_err r \<noteq> None then None else sessionStateLine (output_lines (cr_output r)))"

definition state_seen :: "string \<Rightarrow> string option \<Rightarrow> host_event list \<Rightarrow> bool" where
  "state_seen d v t \<longleftrightarrow>
     (\<exists>c. SawFile (stateFile d) (Inr c) \<in> set t \<and> v = fileState c) \<or>
     (\<exists>e cmd r. SawFile (stateFile d) (Inl e) \<in> set t \<and> iscsiadm_cmd session_listing cmd \<and> Ran cmd r \<in> set t \<and>
        v = listedState r)"

text \<open>No iSCSI session of the disk, or one whose state was read and is not about to come back.\<close>

definition iscsi_at_rest :: "string \<Rightarrow> host_event list \<Rightarrow> bool" where
  "iscsi_at_rest d t \<longleftrightarrow>
     (\<exists>e. SawStat (''/sys/block/'' @ Base d @ ''/device/../../iscsi_session'') (Inl e) \<in> set t) \<or>
     (\<exists>v. state_seen d v t \<and> (case v of None \<Rightarrow> True | Some s \<Rightarrow> \<not> iscsiSessionRecovering s))"

text \<open>No fabrics controller of the namespace, or one whose state was read and is not about to come back.\<close>

definition nvme_at_rest :: "string \<Rightarrow> host_event list \<Rightarrow> bool" where
  "nvme_at_rest d t \<longleftrightarrow>
     (let ctrl = ''/sys/class/nvme/'' @ controllerOfBase (Base d)
      in controllerOfBase (Base d) = [] \<or>
         (\<exists>x. SawFile (ctrl @ ''/transport'') x \<in> set t \<and> (case x of Inl _ \<Rightarrow> True | Inr c \<Rightarrow> trim_space c = [])) \<or>
         (\<exists>x. SawFile (ctrl @ ''/state'') x \<in> set t \<and> (case x of Inl _ \<Rightarrow> True | Inr c \<Rightarrow> \<not> nvmeRecovering (trim_space c))))"

definition unmount_ok :: "host_event list \<Rightarrow> string list \<Rightarrow> bool" where
  "unmount_ok t cmd \<longleftrightarrow>
     (\<exists>source target rest. cmd = [''umount'', ''-l'', target] \<and>
        listed_fields ''SOURCE,TARGET'' t (source # target # rest) \<and>
        dead source t \<and> iscsi_at_rest source t \<and> nvme_at_rest source t)"

definition remount_ok :: "host_event list \<Rightarrow> string list \<Rightarrow> bool" where
  "remount_ok t cmd \<longleftrightarrow>
     (\<exists>source target options rest. cmd = [''mount'', ''-o'', ''remount,rw'', target] \<and>
        listed_fields ''SOURCE,TARGET,OPTIONS'' t (source # target # options # rest) \<and>
        ''ro'' \<in> set (str_split CHR '','' options) \<and>
        (\<exists>r. Ran (getsize_cmd source) r \<in> set t \<and> usable r))"

text \<open>
  A disk that the host lists has an iSCSI session, whose state was read: neither good nor about to
  be. Its target may be logged out if a listing does not show a session that is back either.
\<close>

definition iscsi_lost :: "string \<Rightarrow> host_event list \<Rightarrow> bool" where
  "iscsi_lost sysPath t \<longleftrightarrow>
     (\<exists>disks. SawGlob ''/sys/block/sd*'' (Inr disks) \<in> set t \<and> sysPath \<in> set disks) \<and>
     (\<exists>i. SawStat (sysPath @ ''/device/../../iscsi_session'') (Inr i) \<in> set t) \<and>
     (\<exists>s. state_seen (''/dev/'' @ Base sysPath) (Some s) t \<and> s \<noteq> iscsiSessionStateLoggedIn \<and> \<not> iscsiSessionRecovering s)"

definition none_back :: "host_event list \<Rightarrow> bool" where
  "none_back t \<longleftrightarrow>
     (\<exists>cmd r. iscsiadm_cmd session_listing cmd \<and> Ran cmd r \<in> set t \<and>
        \<not> (cr_err r = None \<and> str_contains (cr_output r) iscsiSessionStateLoggedIn))"

definition logout_ok :: "host_event list \<Rightarrow> string list \<Rightarrow> bool" where
  "logout_ok t cmd \<longleftrightarrow>
     (\<exists>x sysPath. iscsiadm_cmd [''-m'', ''node'', ''-T'', x, ''--logout''] cmd \<and> x \<noteq> [] \<and>
        iscsi_lost sysPath t \<and> disk_session sysPath x t \<and> none_back t)"

text \<open>
  A controller that the host lists may be reset if its transport and a state that is neither live nor
  about to be were read: through sysfs, and with the command line tool only right after that failed.
\<close>

definition controller_down :: "string \<Rightarrow> host_event list \<Rightarrow> bool" where
  "controller_down ctrl t \<longleftrightarrow>
     (\<exists>ctrls. SawGlob ''/sys/class/nvme/nvme*'' (Inr ctrls) \<in> set t \<and> ctrl \<in> set ctrls) \<and>
     (\<exists>x. SawFile (ctrl @ ''/transport'') (Inr x) \<in> set t \<and> trim_space x \<noteq> []) \<and>
     (\<exists>c. SawFile (ctrl @ ''/state'') (Inr c) \<in> set t \<and>
        trim_space c \<noteq> nvmeSubsystemStateLive \<and> \<not> nvmeRecovering (trim_space c))"

definition reset_ok :: "host_event list \<Rightarrow> string list \<Rightarrow> bool" where
  "reset_ok t cmd \<longleftrightarrow>
     (\<exists>ctrl e. cmd = [''nvme'', ''reset'', ''/dev/'' @ Base ctrl] \<and> controller_down ctrl t \<and>
        last t = WroteFile (ctrl @ ''/reset_controller'') (Some e))"

definition monitor_licensed :: policy where
  "monitor_licensed t e \<longleftrightarrow>
     (case e of
        Ran cmd _ \<Rightarrow>
          if take 1 cmd = [''umount''] then unmount_ok t cmd
          else if take 1 cmd = [''mount''] then remount_ok t cmd
          else risky cmd \<longrightarrow> logout_ok t cmd \<or> reset_ok t cmd
      | WroteFile p _ \<Rightarrow> \<exists>ctrl. p = ctrl @ ''/reset_controller'' \<and> controller_down ctrl t
      | RemovedPath _ _ \<Rightarrow> False
      | MadeLink _ _ \<Rightarrow> False
      | _ \<Rightarrow> True)"

interpretation monitor: node_policy monitor_licensed
  by unfold_locales (auto simp: benign_def monitor_licensed_def split: host_event.splits)

lemma stable_monitor:
  "stable (\<lambda>t. listed_fields columns t cols)" "stable (dead d)" "stable (iscsi_at_rest d)" "stable (nvme_at_rest d)"
  "stable (state_seen d v)"
  unfolding listed_fields_def state_seen_def dead_def iscsi_at_rest_def nvme_at_rest_def stable_def Let_def
  by (fastforce+)

lemma stable_down: "stable (iscsi_lost sysPath)" "stable none_back" "stable (controller_down ctrl)"
  unfolding iscsi_lost_def none_back_def controller_down_def
  by (intro stable_intros stable_monitor)+

section \<open>Looking at a device\<close>

lemma accessible_seen:
  assumes "stable F"
  shows "triple monitor_licensed F (isDeviceAccessible H d)
    (\<lambda>ok t. F t \<and> (\<exists>r. Ran (getsize_cmd d) r \<in> set t \<and> usable r = ok))"
proof -
  have quiet: "\<not> risky (getsize_cmd d)" by (simp add: risk_defs getsize_cmd_def)
  show ?thesis
    unfolding isDeviceAccessible_def getsize_def getsize_cmd_def [symmetric] Let_def
    by (intro monitor.seq_Run quiet assms triple_ret) (auto simp: usable_def)
qed

lemma listing_seen:
  assumes "stable F"
  shows "triple monitor_licensed F (iscsiadmCmd H session_listing)
    (\<lambda>r t. F t \<and> (\<exists>cmd. Ran cmd r \<in> set t \<and> iscsiadm_cmd session_listing cmd))"
  by (rule monitor.iscsiadm_known) (use assms in \<open>auto simp: risk_defs\<close>)

lemma session_state_seen:
  assumes "stable F"
  shows "triple monitor_licensed F (getISCSISessionState H d) (\<lambda>v t. F t \<and> state_seen d v t)"
proof -
  note seen = listing_seen [OF stable_intros(3) [OF assms stable_intros(2)]]
  show ?thesis
    unfolding getISCSISessionState_def stateFile_def [symmetric] listedState_def [symmetric] fileState_def [symmetric]
    apply (intro monitor.seq_ReadFile assms)
    subgoal for r
      by (cases r) (auto intro!: triple_ret triple_bind [OF seen] simp: state_seen_def)
    done
qed

lemma iscsi_at_restI:
  "state_seen d v t \<Longrightarrow> \<not> (case v of None \<Rightarrow> False | Some s \<Rightarrow> iscsiSessionRecovering s) \<Longrightarrow> iscsi_at_rest d t"
  "SawStat (''/sys/block/'' @ Base d @ ''/device/../../iscsi_session'') (Inl e) \<in> set t \<Longrightarrow> iscsi_at_rest d t"
  unfolding iscsi_at_rest_def by (auto split: option.splits)

lemma iscsi_rest_seen:
  assumes "stable F"
  shows "triple monitor_licensed F (isISCSIDeviceRecovering H d) (\<lambda>b t. F t \<and> (\<not> b \<longrightarrow> iscsi_at_rest d t))"
  unfolding isISCSIDeviceRecovering_def hasISCSISession_def State_Monad.bind_assoc State_Monad.bind_left_identity
  apply (intro monitor.seq_Stat assms)
  subgoal for r
    by (cases r)
      (auto intro!: triple_ret triple_bind [OF session_state_seen [OF stable_intros(3) [OF assms stable_intros(2)]]]
        intro: iscsi_at_restI [simplified])
  done

lemma nvme_rest_seen:
  assumes "stable F"
  shows "triple monitor_licensed F (isNVMeDeviceRecovering H d) (\<lambda>b t. F t \<and> (\<not> b \<longrightarrow> nvme_at_rest d t))"
proof (cases "controllerOfBase (Base d) = []")
  case True
  then show ?thesis by (simp add: isNVMeDeviceRecovering_def nvme_at_rest_def triple_ret)
next
  case False
  let ?ctrl = "''/sys/class/nvme/'' @ controllerOfBase (Base d)"
  have transport: "triple monitor_licensed F (hasTransport H ?ctrl)
      (\<lambda>b t. F t \<and> (\<not> b \<longrightarrow> nvme_at_rest d t))"
    unfolding hasTransport_def nvme_at_rest_def Let_def
    by (intro monitor.seq_ReadFile assms triple_ret) (auto split: sum.splits)
  have at: "nvme_at_rest d t"
    if "SawFile (?ctrl @ ''/state'') x \<in> set t" "case x of Inl _ \<Rightarrow> True | Inr c \<Rightarrow> \<not> nvmeRecovering (trim_space c)" for x t
    unfolding nvme_at_rest_def Let_def by (intro disjI2 exI [of _ x]) (use that in simp)
  have K: "stable (\<lambda>t. F t \<and> (\<not> b \<longrightarrow> nvme_at_rest d t))" for b
    by (intro stable_intros assms stable_monitor)
  from False show ?thesis
    unfolding isNVMeDeviceRecovering_def Let_def
    by (intro triple_if triple_ret triple_bind [OF transport] monitor.seq_ReadFile K)
      (auto intro: at [simplified] split: sum.splits)
qed

lemma broken_seen:
  assumes "stable F"
  shows "triple monitor_licensed F (deviceBroken H d)
    (\<lambda>b t. F t \<and> (b \<longrightarrow> dead d t \<and> iscsi_at_rest d t \<and> nvme_at_rest d t))"
proof -
  have stat: "triple monitor_licensed F (do {
      st \<leftarrow> Stat H d;
      case st of Inl _ \<Rightarrow> ret False | Inr _ \<Rightarrow> isDeviceAccessible H d
    }) (\<lambda>ok t. F t \<and> (\<not> ok \<longrightarrow> dead d t))"
    apply (intro monitor.seq_Stat assms)
    subgoal for r
      by (cases r) (auto intro!: triple_ret triple_conseq [OF accessible_seen] stable_intros assms simp: dead_def)
    done
  have K: "stable (\<lambda>t. F t \<and> (\<not> ok \<longrightarrow> dead d t))" "stable (\<lambda>t. (F t \<and> (\<not> ok \<longrightarrow> dead d t)) \<and> (\<not> i \<longrightarrow> iscsi_at_rest d t))" for ok i
    by (intro stable_intros assms stable_monitor)+
  show ?thesis
    unfolding deviceBroken_def
    by (subst State_Monad.bind_assoc [symmetric],
        intro triple_bind [OF stat] triple_if triple_ret triple_bind [OF iscsi_rest_seen [OF K(1)]]
          triple_bind [OF nvme_rest_seen [OF K(2)]]) auto
qed

section \<open>The loops over the mounts\<close>

lemma triple_recent: "triple P F (setRecentUnmounts f) (\<lambda>_. F)" "triple P F getRecentUnmounts (\<lambda>_. F)"
  unfolding setRecentUnmounts_def getRecentUnmounts_def by (rule tripleI; simp add: wp_def)+

abbreviation findmnt :: "string \<Rightarrow> string list" where
  "findmnt columns \<equiv> [''findmnt'', ''-n'', ''-o'', columns, ''-t'', ''ext4,xfs'', ''--raw'']"

lemma listedI:
  assumes "Ran (findmnt columns) r \<in> set t" "cr_err r = None" "line \<in> set (output_lines (cr_output r))"
    "str_contains line stagingPathMarker"
  shows "listed_fields columns t (Fields line)"
  using assms unfolding listed_fields_def by blast

lemma fields2: "\<not> length xs < 2 \<Longrightarrow> xs = xs ! 0 # xs ! 1 # drop 2 xs"
  by (cases xs; cases "tl xs") auto

lemma fields3: "\<not> length xs < 3 \<Longrightarrow> xs = xs ! 0 # xs ! 1 # xs ! 2 # drop 3 xs"
  using fields2 [of xs] fields2 [of "tl xs"] by (cases xs) (auto simp: numeral_eq_Suc)

lemma unmounts_licensed:
  assumes "set lines \<subseteq> set (output_lines (cr_output r))" "cr_err r = None"
  shows "triple monitor_licensed (\<lambda>t. Ran (findmnt ''SOURCE,TARGET'') r \<in> set t) (unmountBrokenLoop H now lines) (\<lambda>_ _. True)"
  using assms(1)
proof (induction lines)
  case (Cons line lines)
  let ?F = "\<lambda>t. Ran (findmnt ''SOURCE,TARGET'') r \<in> set t"
  let ?fs = "Fields line"
  from Cons have IH: "triple monitor_licensed ?F (unmountBrokenLoop H now lines) (\<lambda>_ _. True)" by simp
  note go = triple_conseq [OF IH]
  have unmount: "triple monitor_licensed
      (\<lambda>t. ?F t \<and> (b \<longrightarrow> dead (?fs ! 0) t \<and> iscsi_at_rest (?fs ! 0) t \<and> nvme_at_rest (?fs ! 0) t))
      (Run H [''umount'', ''-l'', ?fs ! 1]) (\<lambda>_. ?F)"
    if "b" "\<not> length ?fs < 2" "str_contains line stagingPathMarker" for b
  proof -
    have "unmount_ok t [''umount'', ''-l'', ?fs ! 1]"
      if "?F t" "dead (?fs ! 0) t" "iscsi_at_rest (?fs ! 0) t" "nvme_at_rest (?fs ! 0) t" for t
      unfolding unmount_ok_def
      using listedI [OF that(1) assms(2), of line] fields2 [OF \<open>\<not> length ?fs < 2\<close>] Cons.prems
        \<open>str_contains line stagingPathMarker\<close> that
      by (intro exI [of _ "?fs ! 0"] exI [of _ "?fs ! 1"] exI [of _ "drop 2 ?fs"]) auto
    then show ?thesis
      unfolding Run_def by (intro triple_ask) (use that(1) in \<open>auto simp: monitor_licensed_def\<close>)
  qed
  show ?case
    unfolding unmountBrokenLoop.simps Let_def
    by (intro triple_if go triple_bind [OF triple_recent(2)] triple_bind [OF broken_seen [OF stable_intros(2)]]
        triple_bind [OF unmount] triple_bind [OF triple_recent(1)]) auto
qed (simp add: triple_ret)

lemma remounts_licensed:
  assumes "set lines \<subseteq> set (output_lines (cr_output r))" "cr_err r = None"
  shows "triple monitor_licensed (\<lambda>t. Ran (findmnt ''SOURCE,TARGET,OPTIONS'') r \<in> set t) (remountLoop H lines) (\<lambda>_ _. True)"
  using assms(1)
proof (induction lines)
  case (Cons line lines)
  let ?F = "\<lambda>t. Ran (findmnt ''SOURCE,TARGET,OPTIONS'') r \<in> set t"
  let ?fs = "Fields line"
  from Cons have IH: "triple monitor_licensed ?F (remountLoop H lines) (\<lambda>_ _. True)" by simp
  note go = triple_conseq [OF IH]
  have remount: "triple monitor_licensed
      (\<lambda>t. ?F t \<and> (\<exists>c. Ran (getsize_cmd (?fs ! 0)) c \<in> set t \<and> usable c = b))
      (Run H [''mount'', ''-o'', ''remount,rw'', ?fs ! 1]) (\<lambda>_. ?F)"
    if "b" "\<not> length ?fs < 3" "str_contains line stagingPathMarker" "''ro'' \<in> set (str_split CHR '','' (?fs ! 2))" for b
  proof -
    have "remount_ok t [''mount'', ''-o'', ''remount,rw'', ?fs ! 1]"
      if "?F t" "Ran (getsize_cmd (?fs ! 0)) c \<in> set t" "usable c" for t c
      unfolding remount_ok_def
      using listedI [OF that(1) assms(2), of line] fields3 [OF \<open>\<not> length ?fs < 3\<close>] Cons.prems
        \<open>str_contains line stagingPathMarker\<close> \<open>''ro'' \<in> set (str_split CHR '','' (?fs ! 2))\<close> that
      by (intro exI [of _ "?fs ! 0"] exI [of _ "?fs ! 1"] exI [of _ "?fs ! 2"] exI [of _ "drop 3 ?fs"]) auto
    then show ?thesis
      unfolding Run_def by (intro triple_ask) (use that(1) in \<open>auto simp: monitor_licensed_def\<close>)
  qed
  show ?case
    unfolding remountLoop.simps Let_def
    by (intro triple_if go triple_bind [OF accessible_seen [OF stable_intros(2)]] triple_bind [OF remount]) auto
qed (simp add: triple_ret)

section \<open>Sessions and controllers\<close>

lemma session_restarted:
  assumes "iqn \<noteq> []"
  shows "triple monitor_licensed (\<lambda>t. iscsi_lost sysPath t \<and> disk_session sysPath iqn t)
    (recoverISCSISession H iqn portal) (\<lambda>_ _. True)"
proof -
  let ?F = "\<lambda>t. iscsi_lost sysPath t \<and> disk_session sysPath iqn t"
  let ?N = "\<lambda>t. ?F t \<and> none_back t"
  have F: "stable ?F" and N: "stable ?N" by (intro stable_intros stable_down stable_sessions)+
  have run: "triple monitor_licensed ?N (Run H cmd) (\<lambda>_. ?N)"
    if "iscsiadm_cmd [''-m'', ''node'', ''-T'', iqn, ''--logout''] cmd" for cmd
  proof -
    have "monitor_licensed t (Ran cmd r)" if "?N t" for t r
      using that assms \<open>iscsiadm_cmd _ cmd\<close>
      by (auto simp: monitor_licensed_def logout_ok_def iscsiadm_cmd_def hostIscsiadm_def)
    then show ?thesis unfolding Run_def by (intro triple_ask) (use N in \<open>auto simp: stable_def\<close>)
  qed
  have logout: "triple monitor_licensed ?N (iscsiadmCmd H [''-m'', ''node'', ''-T'', iqn, ''--logout'']) (\<lambda>_. ?N)"
    unfolding iscsiadmCmd_def
    by (intro monitor.seq_peek triple_sum run) (auto simp: iscsiadm_cmd_def hostIscsiadm_def)
  have relogin: "triple monitor_licensed ?N (reloginISCSI H iqn portal) (\<lambda>_ _. True)"
    unfolding reloginISCSI_def
    by (intro triple_bind [OF logout] monitor.seq_harmless monitor.harmless_iscsiadm monitor.harmless_host N triple_ret)
      (auto simp: risk_defs)
  show ?thesis
    unfolding recoverISCSISession_def
    by (intro monitor.seq_harmless monitor.harmless_iscsiadm monitor.harmless_host F triple_if triple_ret
        triple_bind [OF listing_seen [OF F]] triple_conseq [OF relogin])
      (auto simp: risk_defs none_back_def)
qed

lemma counted:
  assumes "\<And>x. x \<in> set xs \<Longrightarrow> triple P F (p x) (\<lambda>_ _. True)" "stable F"
  shows "triple P F (count_op p xs) (\<lambda>_ _. True)"
  using assms(1)
proof (induction xs)
  case (Cons x xs)
  then have x: "triple P F (p x) (\<lambda>_ _. True)" and xs: "triple P F (count_op p xs) (\<lambda>_ _. True)" by simp_all
  have "triple P F (p x) (\<lambda>_. F)"
    by (rule triple_conseq [OF triple_frame [OF x, of F]]) (use assms(2) in \<open>auto simp: stable_def\<close>)
  then show ?case unfolding count_op.simps by (intro triple_bind [OF _ triple_bind [OF xs]] triple_ret) auto
qed (simp add: triple_ret)

lemma disk_recovered:
  assumes "sysPath \<in> set disks"
  shows "triple monitor_licensed (\<lambda>t. SawGlob ''/sys/block/sd*'' (Inr disks) \<in> set t) (recoverISCSIDevice H sysPath) (\<lambda>_ _. True)"
proof -
  let ?L = "\<lambda>t. SawGlob ''/sys/block/sd*'' (Inr disks) \<in> set t \<and>
    (\<exists>i. SawStat (sysPath @ ''/device/../../iscsi_session'') (Inr i) \<in> set t)"
  have L: "stable ?L" by (intro stable_intros)
  have has: "triple monitor_licensed (\<lambda>t. SawGlob ''/sys/block/sd*'' (Inr disks) \<in> set t) (hasISCSISession H sysPath)
      (\<lambda>b t. b \<longrightarrow> ?L t)"
    unfolding hasISCSISession_def by (intro monitor.seq_Stat stable_intros triple_ret) (auto split: sum.splits)
  have restart: "triple monitor_licensed (iscsi_lost sysPath) (do {
      info \<leftarrow> getISCSISessionInfo H sysPath;
      if fst info = [] then ret False else recoverISCSISession H (fst info) (snd info)
    }) (\<lambda>_ _. True)"
    by (intro triple_bind [OF triple_known [OF monitor.iqn_read stable_down(1)]] triple_if triple_ret
        triple_conseq [OF session_restarted]) auto
  have state: "triple monitor_licensed (\<lambda>t. b \<longrightarrow> ?L t) (getISCSISessionState H d) (\<lambda>v t. ?L t \<and> state_seen d v t)"
    if b for b d
    by (rule triple_conseq [OF session_state_seen [OF L]]) (use that in auto)
  have lost: "iscsi_lost sysPath t" if "?L t" "state_seen (''/dev/'' @ Base sysPath) (Some s) t"
    "s \<noteq> iscsiSessionStateLoggedIn" "\<not> iscsiSessionRecovering s" for s t
    using that assms unfolding iscsi_lost_def by blast
  show ?thesis
    unfolding recoverISCSIDevice_def
    by (intro triple_bind [OF has] triple_if triple_ret triple_bind [OF state]
        triple_option triple_conseq [OF restart]) (auto intro: lost [simplified])
qed

lemma controller_waited: "monitor.harmless (waitForControllerLoop H ctrlPath n)"
proof (induction n)
  case (Suc n)
  show ?case
    unfolding waitForControllerLoop.simps by (intro monitor.harmless_basic monitor.harmless_sysfs Suc.IH)
qed (simp add: monitor.harmless_ret)

lemma controller_reset: "triple monitor_licensed (controller_down ctrl) (resetController H ctrl) (\<lambda>_ _. True)"
proof -
  let ?file = "ctrl @ ''/reset_controller''"
  have wrote: "triple monitor_licensed (controller_down ctrl) (ask (os_WriteFile H ?file ''1'') (\<lambda>r. [WroteFile ?file r]))
      (\<lambda>r t. controller_down ctrl t \<and> last t = WroteFile ?file r)"
    by (rule triple_ask) (use stable_down(3) in \<open>auto simp: monitor_licensed_def stable_def\<close>)
  have reset: "triple monitor_licensed (\<lambda>t. controller_down ctrl t \<and> (\<exists>e. last t = WroteFile ?file (Some e)))
      (Run H [''nvme'', ''reset'', ''/dev/'' @ Base ctrl]) (\<lambda>_ _. True)"
    unfolding Run_def by (rule triple_ask) (auto simp: monitor_licensed_def reset_ok_def)
  show ?thesis
    unfolding resetController_def resetNVMeController_def
    by (intro triple_bind [OF wrote] triple_if triple_ret triple_bind [OF triple_conseq [OF reset]]) auto
qed

lemma controller_recovered:
  assumes "ctrlPath \<in> set ctrls"
  shows "triple monitor_licensed (\<lambda>t. SawGlob ''/sys/class/nvme/nvme*'' (Inr ctrls) \<in> set t)
    (recoverNVMeController H ctrlPath) (\<lambda>_ _. True)"
proof -
  let ?L = "\<lambda>t. SawGlob ''/sys/class/nvme/nvme*'' (Inr ctrls) \<in> set t"
  let ?T = "\<lambda>b t. ?L t \<and> (b \<longrightarrow> (\<exists>x. SawFile (ctrlPath @ ''/transport'') (Inr x) \<in> set t \<and> trim_space x \<noteq> []))"
  have T: "stable (?T b)" for b by (intro stable_intros)
  have transport: "triple monitor_licensed ?L (hasTransport H ctrlPath) ?T"
    unfolding hasTransport_def by (intro monitor.seq_ReadFile stable_intros triple_ret) (auto split: sum.splits)
  have down: "controller_down ctrlPath t" if "?T True t" "\<exists>x. SawFile (ctrlPath @ ''/state'') (Inr x) \<in> set t \<and> trim_space x = c"
    "c \<noteq> nvmeSubsystemStateLive" "\<not> nvmeRecovering c" for c t
    using that assms unfolding controller_down_def by blast
  show ?thesis
    unfolding recoverNVMeController_def waitForNVMeControllerRecovery_def
    by (intro triple_bind [OF transport] triple_bind [OF monitor.sysfs_read [OF T]] triple_if triple_ret triple_option
        triple_bind [OF triple_conseq [OF controller_reset]]
        triple_conseq [OF controller_waited [unfolded monitor.harmless_def]])
      (auto intro: down)
qed

section \<open>One pass\<close>

text \<open>
  C14: in a pass of the health monitor, whatever the host answers, a lazy unmount is only of a mount that
  \<^verbatim>\<open>findmnt\<close> has listed under the driver's own staging directory, whose device is missing or has no
  size, and whose iSCSI session or NVMe controller, if it has one, is not about to come back; a
  remount is only of a listed staging path that is mounted read-only and whose device has a size.
  A target is logged out only if it is that of the session of a disk which the host lists, whose
  state was read and is neither good nor about to be, and a listing of the sessions shows none that is
  logged in. A controller is reset only if the host lists it and its transport and a state that is
  neither live nor about to be were read: by a write to sysfs, and with \<^verbatim>\<open>nvme reset\<close> only right after
  that write failed. The pass disconnects no NVMe subsystem, forgets no target, repairs and grows no
  filesystem, and removes and links nothing.
\<close>

theorem runHealthCheck_safe:
  "case run_state (runHealthCheck H) s of (r, s') \<Rightarrow>
     \<exists>tr. trace s' = trace s @ tr \<and> each_after monitor_licensed tr"
proof -
  have unmount: "triple monitor_licensed (\<lambda>_. True) (unmountBrokenStagingPaths H) (\<lambda>_ _. True)"
    unfolding unmountBrokenStagingPaths_def
    by (intro monitor.seq_Run stable_intros triple_if triple_ret monitor.seq_peek triple_bind [OF triple_recent(1)]
        triple_bind [OF triple_recent(2)] triple_conseq [OF unmounts_licensed]) (auto simp: risk_defs)
  have remount: "triple monitor_licensed (\<lambda>_. True) (remountReadOnlyVolumes H) (\<lambda>_ _. True)"
    unfolding remountReadOnlyVolumes_def
    by (intro monitor.seq_Run stable_intros triple_if triple_ret triple_conseq [OF remounts_licensed])
      (auto simp: risk_defs)
  have disks: "triple monitor_licensed (\<lambda>_. True) (recoverISCSISessions H) (\<lambda>_ _. True)"
    unfolding recoverISCSISessions_def
    by (intro monitor.seq_links(3) stable_intros triple_sum triple_ret
        triple_conseq [OF counted [OF disk_recovered stable_intros(2)]]) auto
  have controllers: "triple monitor_licensed (\<lambda>_. True) (recoverNVMeOFConnections H) (\<lambda>_ _. True)"
    unfolding recoverNVMeOFConnections_def
    by (intro monitor.seq_links(3) stable_intros triple_sum triple_ret
        triple_conseq [OF counted [OF controller_recovered stable_intros(2)]]) auto
  have "triple monitor_licensed (\<lambda>_. True) (recoverVolumes H) (\<lambda>_ _. True)"
    unfolding recoverVolumes_def by (intro triple_bind [OF disks] triple_bind [OF controllers] triple_ret) auto
  then have "triple monitor_licensed (\<lambda>_. True) (runHealthCheck H) (\<lambda>_ _. True)"
    unfolding runHealthCheck_def by (rule triple_bind) (rule triple_bind [OF remount unmount])
  from triple_run [OF this, of s] show ?thesis by simp
qed

section \<open>The cool-down\<close>

definition lazy_target :: "host_event \<Rightarrow> string option" where
  "lazy_target e =
     (case e of
        Ran [a, b, target] _ \<Rightarrow> if a = ''umount'' \<and> b = ''-l'' then Some target else None
      | _ \<Rightarrow> None)"

definition lazy_targets :: "host_event list \<Rightarrow> string list" where
  "lazy_targets tr = List.map_filter lazy_target tr"

lemma lazy_targets_simps [simp]:
  "lazy_targets [] = []" "lazy_targets (xs @ ys) = lazy_targets xs @ lazy_targets ys"
  "lazy_targets [e] = (case lazy_target e of None \<Rightarrow> [] | Some t \<Rightarrow> [t])"
  by (auto simp: lazy_targets_def List.map_filter_def split: option.split)

text \<open>An operation that unmounts nothing and leaves the memory of unmounts alone.\<close>

definition calm :: "('w, 'a) nop \<Rightarrow> bool" where
  "calm m \<longleftrightarrow>
     (\<forall>s. wp m (\<lambda>_ s'. recentUnmounts s' = recentUnmounts s \<and> (\<exists>u. trace s' = trace s @ u \<and> lazy_targets u = [])) s)"

lemma calm_ret: "calm (ret x)"
  by (simp add: calm_def wp_rules)

lemma calm_bind:
  assumes "calm m" "\<And>x. calm (f x)"
  shows "calm (State_Monad.bind m f)"
  unfolding calm_def wp_bind
proof (intro allI)
  fix s
  show "wp m (\<lambda>x. wp (f x) (\<lambda>_ s'. recentUnmounts s' = recentUnmounts s \<and>
      (\<exists>u. trace s' = trace s @ u \<and> lazy_targets u = []))) s"
    by (rule wp_mono [OF assms(1) [unfolded calm_def, rule_format]])
      (auto intro!: wp_mono [OF assms(2) [unfolded calm_def, rule_format]] exI [of _ "_ @ _"])
qed

lemma calm_ask: "(\<And>r. lazy_targets (ev r) = []) \<Longrightarrow> calm (ask f ev)"
  unfolding calm_def by (auto intro!: wp_askI)

lemma calm_cases:
  "calm m \<Longrightarrow> calm n \<Longrightarrow> calm (if b then m else n)"
  "(\<And>y. calm (k y)) \<Longrightarrow> (\<And>y. calm (l y)) \<Longrightarrow> calm (case x of Inl y \<Rightarrow> k y | Inr y \<Rightarrow> l y)"
  by (auto split: sum.split)

lemma calm_broken: "calm (deviceBroken H d)"
  unfolding deviceBroken_def isDeviceAccessible_def getsize_def isISCSIDeviceRecovering_def hasISCSISession_def
    getISCSISessionState_def iscsiadmCmd_def isNVMeDeviceRecovering_def hasTransport_def host_ops Let_def
  by (intro calm_bind calm_ret calm_cases calm_ask; simp add: lazy_target_def)

text \<open>
  What a pass may do to the memory \<open>m\<close> of unmounts: forget what is older than the cool-down, and
  remember the paths it has unmounted at time \<open>now\<close>.
\<close>

definition forgotten :: "int \<Rightarrow> (string, int) fmap \<Rightarrow> (string, int) fmap" where
  "forgotten now m = fmfilter (\<lambda>p. case fmlookup m p of None \<Rightarrow> True | Some ts \<Rightarrow> \<not> now - ts > unmountCooldown) m"

definition remembered :: "int \<Rightarrow> string list \<Rightarrow> (string, int) fmap \<Rightarrow> (string, int) fmap" where
  "remembered now paths m = fold (\<lambda>p. fmupd p now) paths m"

definition cooled :: "int \<Rightarrow> (string, int) fmap \<Rightarrow> string \<Rightarrow> bool" where
  "cooled now m p \<longleftrightarrow> (case fmlookup m p of None \<Rightarrow> True | Some ts \<Rightarrow> now - ts > unmountCooldown)"

definition unmount_pass :: "(string, int) fmap \<Rightarrow> string list \<Rightarrow> (string, int) fmap \<Rightarrow> bool" where
  "unmount_pass m paths m' \<longleftrightarrow>
     paths = [] \<and> m' = m \<or>
     (\<exists>now. distinct paths \<and> list_all (cooled now m) paths \<and> m' = remembered now paths (forgotten now m))"

lemma wp_recent:
  "wp getRecentUnmounts Q s = Q (recentUnmounts s) s"
  "wp (setRecentUnmounts f) R s = R () (s\<lparr>recentUnmounts := f (recentUnmounts s)\<rparr>)"
  by (simp_all add: wp_def getRecentUnmounts_def setRecentUnmounts_def)

text \<open>The loop from one state to another.\<close>

definition passes :: "int \<Rightarrow> 'w node \<Rightarrow> 'w node \<Rightarrow> bool" where
  "passes now s s' \<longleftrightarrow>
     (\<exists>u. trace s' = trace s @ u \<and> distinct (lazy_targets u) \<and>
        list_all (\<lambda>p. fmlookup (recentUnmounts s) p = None) (lazy_targets u) \<and>
        recentUnmounts s' = remembered now (lazy_targets u) (recentUnmounts s))"

lemma passes_calm:
  assumes "trace s1 = trace s @ u" "lazy_targets u = []" "recentUnmounts s1 = recentUnmounts s" "passes now s1 s'"
  shows "passes now s s'"
proof -
  from assms(4) obtain v where v: "trace s' = trace s1 @ v" "distinct (lazy_targets v)"
    "list_all (\<lambda>p. fmlookup (recentUnmounts s1) p = None) (lazy_targets v)"
    "recentUnmounts s' = remembered now (lazy_targets v) (recentUnmounts s1)" unfolding passes_def by blast
  then show ?thesis unfolding passes_def by (intro exI [of _ "u @ v"]) (simp add: assms(1-3))
qed

lemma passes_unmount:
  assumes "trace s1 = trace s @ u" "lazy_targets u = [p]" "fmlookup (recentUnmounts s) p = None"
    "recentUnmounts s1 = fmupd p now (recentUnmounts s)" "passes now s1 s'"
  shows "passes now s s'"
proof -
  from assms(5) obtain v where v: "trace s' = trace s1 @ v" "distinct (lazy_targets v)"
    "list_all (\<lambda>p. fmlookup (recentUnmounts s1) p = None) (lazy_targets v)"
    "recentUnmounts s' = remembered now (lazy_targets v) (recentUnmounts s1)" unfolding passes_def by blast
  then show ?thesis
    unfolding passes_def using assms(1-4)
    by (intro exI [of _ "u @ v"]) (auto simp: remembered_def list_all_iff split: if_splits)
qed

lemma wp_calm:
  assumes "calm m" "\<And>r s1 u. trace s1 = trace s @ u \<Longrightarrow> lazy_targets u = [] \<Longrightarrow>
    recentUnmounts s1 = recentUnmounts s \<Longrightarrow> wp (f r) Q s1"
  shows "wp (State_Monad.bind m f) Q s"
  unfolding wp_bind
  by (rule wp_mono [OF assms(1) [unfolded calm_def, rule_format]]) (use assms(2) in blast)

lemma unmount_loop: "wp (unmountBrokenLoop H now lines) (\<lambda>_. passes now s) s"
proof (induction lines arbitrary: s)
  case Nil
  show ?case by (simp add: wp_rules passes_def remembered_def exI [of _ "[]"])
next
  case (Cons line lines)
  let ?target = "Fields line ! 1"
  have onward: "wp (unmountBrokenLoop H now lines) (\<lambda>_. passes now s) s1"
    if "trace s1 = trace s @ u" "lazy_targets u = []" "recentUnmounts s1 = recentUnmounts s" for s1 u
    by (rule wp_mono [OF Cons.IH]) (rule passes_calm [OF that])
  have unmount: "wp (do {
      r \<leftarrow> Run H [''umount'', ''-l'', ?target];
      u \<leftarrow> setRecentUnmounts (fmupd ?target now);
      unmountBrokenLoop H now lines
    }) (\<lambda>_. passes now s) s1"
    if "trace s1 = trace s @ u" "lazy_targets u = []" "recentUnmounts s1 = recentUnmounts s"
      "fmlookup (recentUnmounts s) ?target = None" for s1 u
  proof -
    have "wp (unmountBrokenLoop H now lines) (\<lambda>_. passes now s)
        (s1\<lparr>nworld := w, trace := trace s1 @ [Ran [''umount'', ''-l'', ?target] r],
           recentUnmounts := fmupd ?target now (recentUnmounts s1)\<rparr>)" for w r
      by (rule wp_mono [OF Cons.IH], rule passes_unmount [where p = ?target and u = "u @ [Ran [''umount'', ''-l'', ?target] r]"])
        (use that in \<open>auto simp: lazy_target_def\<close>)
    then show ?thesis
      unfolding Run_def wp_bind wp_recent by (intro wp_askI) simp
  qed
  have "wp (do {
      recent \<leftarrow> getRecentUnmounts;
      if fmlookup recent ?target \<noteq> None then unmountBrokenLoop H now lines
      else do {
        broken \<leftarrow> deviceBroken H d;
        if \<not> broken then unmountBrokenLoop H now lines
        else do {
          r \<leftarrow> Run H [''umount'', ''-l'', ?target];
          u \<leftarrow> setRecentUnmounts (fmupd ?target now);
          unmountBrokenLoop H now lines
        }
      }
    }) (\<lambda>_. passes now s) s" for d
    unfolding wp_bind wp_recent
    by (cases "fmlookup (recentUnmounts s) ?target")
      (use Cons.IH in \<open>auto simp: wp_if wp_bind [symmetric] simp del: One_nat_def intro!: wp_calm [OF calm_broken] onward unmount\<close>)
  then show ?case
    using Cons.IH unfolding unmountBrokenLoop.simps Let_def by simp
qed

text \<open>
  C15: a pass over the staging paths unmounts no path twice, and none that it has unmounted less than the
  cool-down of five minutes ago; afterwards it remembers exactly the paths it has unmounted, with
  the time of the pass, and those of earlier passes that are still cooling down. Without a listing
  of the mounts it does nothing.
\<close>

theorem unmount_cooldown:
  "case run_state (unmountBrokenStagingPaths H) s of (u, s') \<Rightarrow>
     \<exists>tr. trace s' = trace s @ tr \<and> unmount_pass (recentUnmounts s) (lazy_targets tr) (recentUnmounts s')"
proof -
  let ?Q = "\<lambda>_ s'. \<exists>tr. trace s' = trace s @ tr \<and> unmount_pass (recentUnmounts s) (lazy_targets tr) (recentUnmounts s')"
  have start: "calm (Run H (findmnt ''SOURCE,TARGET''))" "calm (peek (os_Now H))"
    unfolding Run_def by (intro calm_ask; simp add: lazy_target_def)+
  have loop: "wp (do {
      recent \<leftarrow> getRecentUnmounts;
      u \<leftarrow> setRecentUnmounts
        (fmfilter (\<lambda>path. case fmlookup recent path of None \<Rightarrow> True | Some ts \<Rightarrow> \<not> now - ts > unmountCooldown));
      unmountBrokenLoop H now lines
    }) ?Q s1"
    if s1: "trace s1 = trace s @ t" "lazy_targets t = []" "recentUnmounts s1 = recentUnmounts s" for s1 t now lines
  proof -
    let ?s2 = "s1\<lparr>recentUnmounts := forgotten now (recentUnmounts s)\<rparr>"
    have "?Q () s'" if pass: "passes now ?s2 s'" for s'
    proof -
      from pass obtain u where u: "trace s' = trace ?s2 @ u" "distinct (lazy_targets u)"
        "list_all (\<lambda>p. fmlookup (forgotten now (recentUnmounts s)) p = None) (lazy_targets u)"
        "recentUnmounts s' = remembered now (lazy_targets u) (forgotten now (recentUnmounts s))"
        unfolding passes_def by auto
      have "cooled now (recentUnmounts s) p" if "fmlookup (forgotten now (recentUnmounts s)) p = None" for p
        using that by (auto simp: forgotten_def cooled_def split: option.splits if_splits)
      with u(3) have "list_all (cooled now (recentUnmounts s)) (lazy_targets u)" by (simp add: list_all_iff)
      with u s1 show ?thesis
        by (intro exI [of _ "t @ u"]) (auto simp: unmount_pass_def)
    qed
    then have "wp (unmountBrokenLoop H now lines) ?Q ?s2"
      by (intro wp_mono [OF unmount_loop]) auto
    then show ?thesis
      unfolding wp_bind wp_recent s1(3) forgotten_def .
  qed
  have "wp (unmountBrokenStagingPaths H) ?Q s"
    unfolding unmountBrokenStagingPaths_def
    apply (rule wp_calm [OF start(1)])
    subgoal for r s1 t
      apply (cases "cr_err r")
      subgoal
        apply (simp only: simp_thms if_False)
        apply (rule wp_calm [OF start(2)])
        subgoal for now s2 t2 by (rule loop [of _ "t @ t2"]) simp_all
        done
      subgoal by (auto simp: wp_rules unmount_pass_def)
      done
    done
  then show ?thesis by (rule run_caseI)
qed

end
