(* ===== verification/Node_Laws.thy ===== *)
theory Node_Laws
  imports Node_Service CreateVolume_Safety
begin

text \<open>
  Where the controller and the node meet, the volume context; and what the statistics mean.
\<close>

section \<open>The volume context\<close>

lemma mget_set_if:
  "mget (set_if k v m) j = (if j = k \<and> v \<noteq> [] then v else mget m j)"
  by (simp add: set_if_def mget_def)

lemmas protocols = ProtocolNFS_def ProtocolSMB_def ProtocolISCSI_def ProtocolNVMeOF_def

lemmas context_reads = buildVolumeContext_def emptyMetadata_def Let_def mget_set_if protocols

definition response :: "('w, csi_volume) op \<Rightarrow> 'w controller \<Rightarrow> csi_volume" where
  "response m s = fst (run_state m s)"

lemma response_context:
  "vol_VolumeContext (response (buildISCSIVolumeResponse name server sv target capacity) s) =
     fmupd ''expectedCapacity'' (format_int capacity)
       (buildVolumeContext (emptyMetadata\<lparr>vm_Name := name, vm_Protocol := ProtocolISCSI,
          vm_DatasetID := subvolumeID sv, vm_DatasetName := sv_Name sv, vm_Server := server,
          vm_ISCSIIQN := it_IQN target\<rparr>))"
  "vol_VolumeContext (response (buildNVMeOFVolumeResponse name server sv subsystem capacity) s) =
     fmupd ''expectedCapacity'' (format_int capacity) (fmupd ''nsid'' ''1''
       (buildVolumeContext (emptyMetadata\<lparr>vm_Name := name, vm_Protocol := ProtocolNVMeOF,
          vm_DatasetID := subvolumeID sv, vm_DatasetName := sv_Name sv, vm_Server := server,
          vm_NVMeOFNQN := ns_NQN subsystem\<rparr>)))"
  "vol_VolumeContext (response (buildNFSVolumeResponseFromSubvolume name server sv nshare capacity) s) =
     nfsVolumeContext name server sv nshare"
  "vol_VolumeContext (response (buildSMBVolumeResponse name server sv sshare capacity) s) =
     smbVolumeContext name server sv sshare"
  by (simp_all add: response_def buildISCSIVolumeResponse_def buildNVMeOFVolumeResponse_def
    buildNFSVolumeResponseFromSubvolume_def buildSMBVolumeResponse_def SetVolumeCapacity_def run_state_bind)

text \<open>The name of the dataset, which the node would look the capacity up by, plays no part.\<close>

definition iscsi_understood :: "'w host \<Rightarrow> string \<Rightarrow> string \<times> string \<Rightarrow> int \<Rightarrow> smap \<Rightarrow> bool" where
  "iscsi_understood H dataset target capacity ctx \<longleftrightarrow>
     getProtocolFromVolumeContext ctx = ProtocolISCSI \<and>
     getExpectedCapacity H dataset ctx = ret capacity \<and>
     validateISCSIParams_node ctx =
       (case target of (server, iqn) \<Rightarrow>
          if iqn = [] \<or> server = [] then Inl (Status InvalidArgument)
          else Inr \<lparr>ic_iqn = iqn, ic_server = server, ic_port = ''3260'', ic_lun = 0\<rparr>)"

definition nvmeof_understood ::
  "'w host \<Rightarrow> string \<Rightarrow> string \<times> string \<Rightarrow> string \<times> string \<Rightarrow> int \<Rightarrow> smap \<Rightarrow> bool" where
  "nvmeof_understood H dataset target tuning capacity ctx \<longleftrightarrow>
     getProtocolFromVolumeContext ctx = ProtocolNVMeOF \<and>
     getExpectedCapacity H dataset ctx = ret capacity \<and>
     validateNVMeOFParams_node ctx =
       (case target of (server, nqn) \<Rightarrow>
          if nqn = [] \<or> server = [] then Inl (Status InvalidArgument)
          else Inr \<lparr>nv_nqn = nqn, nv_server = server, nv_transport = ''tcp'', nv_port = ''4420'',
                    nv_nrIOQueues = fst tuning, nv_queueSize = snd tuning\<rparr>)"

definition share_understood :: "string \<Rightarrow> string \<Rightarrow> string \<Rightarrow> smap \<Rightarrow> bool" where
  "share_understood protocol server share ctx \<longleftrightarrow>
     getProtocolFromVolumeContext ctx = protocol \<and> mget ctx ''server'' = server \<and> mget ctx ''share'' = share"

lemma format_int_nonempty: "format_int i \<noteq> []"
  by (simp add: format_int_def format_nat_nonempty)

lemma getExpectedCapacity_formatted:
  "int64 capacity \<Longrightarrow> mget ctx ''expectedCapacity'' = format_int capacity \<Longrightarrow>
   getExpectedCapacity H dataset ctx = ret capacity"
  by (simp add: getExpectedCapacity_def atoi_format format_int_nonempty)

lemma iscsi_context_understood:
  assumes "int64 capacity"
  shows "iscsi_understood H dataset (server, it_IQN target) capacity
    (vol_VolumeContext (response (buildISCSIVolumeResponse name server sv target capacity) s))"
  by (simp add: getExpectedCapacity_formatted [OF assms] iscsi_understood_def response_context context_reads getProtocolFromVolumeContext_def
    validateISCSIParams_node_def)

lemma nvmeof_context_understood:
  assumes "int64 capacity"
  shows "nvmeof_understood H dataset (server, ns_NQN subsystem) (queues, queueSize) capacity
    (vol_VolumeContext (injectQueueParams queues queueSize
      (response (buildNVMeOFVolumeResponse name server sv subsystem capacity) s)))"
  by (simp add: getExpectedCapacity_formatted [OF assms] nvmeof_understood_def response_context context_reads getProtocolFromVolumeContext_def
    injectQueueParams_def validateNVMeOFParams_node_def)

lemma share_context_understood:
  "share_understood ProtocolNFS server (sv_Path sv)
     (vol_VolumeContext (response (buildNFSVolumeResponseFromSubvolume name server sv nshare capacity) s))"
  "share_understood ProtocolSMB server (smb_Name sshare)
     (vol_VolumeContext (response (buildSMBVolumeResponse name server sv sshare capacity) s))"
  by (simp_all add: share_understood_def response_context nfsVolumeContext_def smbVolumeContext_def
    context_reads getProtocolFromVolumeContext_def)

text \<open>
  C16: the node reads from the volume context what the controller has written into it, for every
  protocol: the protocol, the server, the export or the name of the share, the NQN or IQN of the
  target, the tuning of the queues, and the capacity, which is the one the device is later checked
  against. If the server or the name of the target is missing, staging is refused as an invalid
  argument.
\<close>

theorem volume_context_understood:
  assumes "int64 capacity"
  shows "iscsi_understood H dataset (server, it_IQN target) capacity
      (vol_VolumeContext (response (buildISCSIVolumeResponse name server sv target capacity) s)) \<and>
    nvmeof_understood H dataset (server, ns_NQN subsystem) (queues, queueSize) capacity
      (vol_VolumeContext (injectQueueParams queues queueSize
        (response (buildNVMeOFVolumeResponse name server sv subsystem capacity) s))) \<and>
    share_understood ProtocolNFS server (sv_Path sv)
      (vol_VolumeContext (response (buildNFSVolumeResponseFromSubvolume name server sv nshare capacity) s)) \<and>
    share_understood ProtocolSMB server (smb_Name sshare)
      (vol_VolumeContext (response (buildSMBVolumeResponse name server sv sshare capacity) s))"
  by (intro conjI iscsi_context_understood [OF assms] nvmeof_context_understood [OF assms]
    share_context_understood)

theorem volume_context_understood_witness:
  "int64 1073741824 \<and> (\<forall>(H :: unit host) sv target (s :: unit controller).
     iscsi_understood H ''fast/pvc-1'' (''10.0.0.1'', it_IQN target) 1073741824
       (vol_VolumeContext (response
         (buildISCSIVolumeResponse ''pvc-1'' ''10.0.0.1'' sv target 1073741824) s)))"
proof -
  have "int64 1073741824" by (simp add: int64_def)
  then show ?thesis
    by (intro conjI allI volume_context_understood [THEN conjunct1])
qed

section \<open>Statistics\<close>

lemma safeUint64ToInt64_min: "safeUint64ToInt64 u = min (uint u) MaxInt64"
  by (simp add: safeUint64ToInt64_def MaxInt64_def to_int64_small min_def)

definition in_range :: "volume_usage \<Rightarrow> bool" where
  "in_range u \<longleftrightarrow> 0 \<le> vu_Total u \<and> vu_Total u \<le> MaxInt64 \<and> 0 \<le> vu_Used u \<and> vu_Used u \<le> MaxInt64 \<and>
     0 \<le> vu_Available u \<and> vu_Available u \<le> MaxInt64"

lemma word_mult_exact:
  fixes a b :: uint64
  shows "uint a * uint b < 2 ^ 63 \<Longrightarrow> uint (a * b) = uint a * uint b"
  by (simp add: uint_word_ariths(3))

text \<open>
  Whatever the kernel reports, the usage of a volume is made of non-negative numbers of 64 bits.
\<close>

theorem volume_usage_in_range: "in_range (bytesUsage st) \<and> in_range (inodeUsage st)"
  by (simp add: in_range_def bytesUsage_def inodeUsage_def safeUint64ToInt64_min MaxInt64_def Let_def)

text \<open>
  The usage is exact for a filesystem of less than \<open>2 ^ 63\<close> bytes that has no more free blocks than
  blocks, without a wrap-around in between.
\<close>

theorem volume_usage_exact:
  assumes size: "uint (sf_Blocks st) * sf_Bsize st < 2 ^ 63" "0 \<le> sf_Bsize st" "sf_Bsize st < 2 ^ 63"
    and free: "sf_Bfree st \<le> sf_Blocks st" "sf_Bavail st \<le> sf_Blocks st"
  shows "bytesUsage st =
    \<lparr>vu_Unit = BYTES, vu_Total = uint (sf_Blocks st) * sf_Bsize st,
     vu_Used = (uint (sf_Blocks st) - uint (sf_Bfree st)) * sf_Bsize st,
     vu_Available = uint (sf_Bavail st) * sf_Bsize st\<rparr>"
proof -
  have bs: "uint (getBlockSize st) = sf_Bsize st"
    using size(2,3) by (simp add: getBlockSize_def to_uint64_def uint_word_of_int)
  have le: "uint x * sf_Bsize st \<le> uint (sf_Blocks st) * sf_Bsize st" if "x \<le> sf_Blocks st" for x :: uint64
    using that size(2) by (simp add: word_le_def mult_right_mono)
  have prod: "uint (x * getBlockSize st) = uint x * sf_Bsize st" if "x \<le> sf_Blocks st" for x :: uint64
    using word_mult_exact [of x "getBlockSize st"] le [OF that] size(1) by (simp add: bs)
  note sizes = prod [OF order_refl] prod [OF free(1)] prod [OF free(2)]
  have "sf_Bfree st * getBlockSize st \<le> sf_Blocks st * getBlockSize st"
    using le [OF free(1)] by (simp add: word_le_def sizes)
  then have used: "uint (sf_Blocks st * getBlockSize st - sf_Bfree st * getBlockSize st) =
      (uint (sf_Blocks st) - uint (sf_Bfree st)) * sf_Bsize st"
    using uint_minus_simple_alt by (metis sizes(1,2) left_diff_distrib)
  have "0 \<le> uint (sf_Bfree st) * sf_Bsize st" using size(2) by simp
  with le [OF free(1)] le [OF free(2)] size(1) show ?thesis
    by (simp add: bytesUsage_def Let_def safeUint64ToInt64_min used sizes MaxInt64_def min_def left_diff_distrib)
qed

end
