(* ===== verification/Session_Listing.thy ===== *)
theory Session_Listing
  imports Node_ISCSI
begin

text \<open>
  The listing of iSCSI sessions that \<^verbatim>\<open>iscsiadm -m session -P 3\<close> prints, one section per session, and what
  the two parsers of the driver read from it: the disk of a target, and the target of a disk.
\<close>

section \<open>The listing\<close>

text \<open>A session: its target, the lines about it, and its disks.\<close>

record listed_session =
  sn_target :: string
  sn_details :: "string list"
  sn_disks :: "string list"

definition target_line :: "string \<Rightarrow> string" where
  "target_line t = ''Target: '' @ t @ '' (non-flash)''"

definition disk_line :: "string \<Rightarrow> string" where
  "disk_line d = ''Attached scsi disk '' @ d @ [CHR 0x09] @ ''State: running''"

text \<open>The lines of a section are indented by tabs.\<close>

definition session_lines :: "listed_session \<Rightarrow> string list" where
  "session_lines s =
     target_line (sn_target s) # sn_details s @ map (\<lambda>d. CHR 0x09 # disk_line d) (sn_disks s)"

definition print_lines :: "string list \<Rightarrow> string" where
  "print_lines ls = concat (map (\<lambda>l. l @ [CHR 0x0A]) ls)"

definition session_list :: "listed_session list \<Rightarrow> string" where
  "session_list ss = print_lines (concat (map session_lines ss))"

text \<open>Names are words; a detail neither starts a section nor names a disk.\<close>

definition is_word :: "string \<Rightarrow> bool" where
  "is_word w \<longleftrightarrow> w \<noteq> [] \<and> list_all (\<lambda>c. \<not> white c) w"

definition is_detail :: "string \<Rightarrow> bool" where
  "is_detail l \<longleftrightarrow> CHR 0x0A \<notin> set l \<and> \<not> prefix ''Target:'' (trim_space l) \<and> \<not> str_contains (trim_space l) ''Attached scsi disk''"

definition well_listed :: "listed_session \<Rightarrow> bool" where
  "well_listed s \<longleftrightarrow>
     is_word (sn_target s) \<and> list_all is_detail (sn_details s) \<and> list_all (\<lambda>d. is_word d \<and> d \<noteq> ''disk'') (sn_disks s)"

section \<open>Lines and words\<close>

lemma str_split_line: "c \<notin> set l \<Longrightarrow> str_split c (l @ c # rest) = l # str_split c rest"
  by (induction l) auto

lemma output_lines_print:
  "list_all (\<lambda>l. CHR 0x0A \<notin> set l) ls \<Longrightarrow> output_lines (print_lines ls) = ls @ [[]]"
  by (induction ls) (auto simp: output_lines_def print_lines_def str_split_line)

lemma is_word_head: "is_word w \<Longrightarrow> \<exists>c cs. w = c # cs \<and> \<not> white c"
  by (cases w) (auto simp: is_word_def)

lemma is_word_line: "is_word w \<Longrightarrow> CHR 0x0A \<notin> set w"
  by (auto simp: is_word_def list_all_iff white_def)

lemma trim_space_id:
  "s \<noteq> [] \<Longrightarrow> \<not> white (hd s) \<Longrightarrow> \<not> white (last s) \<Longrightarrow> trim_space s = s"
  by (simp add: trim_space_def dropWhile_eq_self_iff [THEN iffD2] hd_rev)

lemma trim_space_Cons: "white c \<Longrightarrow> trim_space (c # s) = trim_space s"
  by (simp add: trim_space_def)

lemma split_white_word: "list_all (\<lambda>c. \<not> white c) w \<Longrightarrow> white c \<Longrightarrow> split_white (w @ c # rest) = w # split_white rest"
  by (induction w) auto

lemma split_white_last: "list_all (\<lambda>c. \<not> white c) w \<Longrightarrow> split_white w = [w]"
  by (induction w) auto

lemma Fields_word: "is_word w \<Longrightarrow> white c \<Longrightarrow> Fields (w @ c # rest) = w # Fields rest"
  by (simp add: Fields_def is_word_def split_white_word)

lemma Fields_last: "is_word w \<Longrightarrow> Fields w = [w]"
  by (simp add: Fields_def is_word_def split_white_last)

section \<open>The lines of a section\<close>

lemma trim_target_line: "trim_space (target_line t) = target_line t"
  by (rule trim_space_id) (simp_all add: target_line_def white_def)

lemma target_of_line:
  assumes "is_word t"
  shows "prefix ''Target:'' (target_line t)" "trim_space (drop 7 (target_line t)) = t @ '' (non-flash)''"
proof -
  from is_word_head [OF assms] obtain c cs where t: "t = c # cs" "\<not> white c" by blast
  show "prefix ''Target:'' (target_line t)" by (simp add: target_line_def)
  have "trim_space (t @ '' (non-flash)'') = t @ '' (non-flash)''"
    by (rule trim_space_id) (use t in \<open>simp_all add: white_def\<close>)
  then show "trim_space (drop 7 (target_line t)) = t @ '' (non-flash)''"
    by (simp add: target_line_def trim_space_Cons white_def)
qed

lemma target_prefix:
  assumes "list_all (\<lambda>c. \<not> white c) iqn"
  shows "prefix iqn (t @ '' (non-flash)'') \<longleftrightarrow> prefix iqn t"
proof
  assume "prefix iqn (t @ '' (non-flash)'')"
  then consider "prefix iqn t" | u where "iqn = t @ u" "prefix u '' (non-flash)''"
    by (auto simp: prefix_append)
  then show "prefix iqn t"
  proof cases
    case 2
    then have "u = []" using assms by (cases u) (auto simp: white_def)
    with 2 show ?thesis by simp
  qed
qed (simp add: prefix_append)

lemma target_word: "is_word t \<Longrightarrow> Fields (t @ '' (non-flash)'') = [t, ''(non-flash)'']"
  using Fields_word [of t "CHR '' ''" "''(non-flash)''"] Fields_last [of "''(non-flash)''"]
  by (simp add: white_def is_word_def)

lemma disk_of_line:
  assumes "is_word d"
  shows "trim_space (CHR 0x09 # disk_line d) = disk_line d" "\<not> prefix ''Target:'' (disk_line d)"
    "\<not> prefix ''Current Portal:'' (disk_line d)"
    "str_contains (disk_line d) ''Attached scsi disk''"
    "Fields (disk_line d) = [''Attached'', ''scsi'', ''disk'', d, ''State:'', ''running'']"
proof -
  have "trim_space (disk_line d) = disk_line d"
    by (rule trim_space_id) (simp_all add: disk_line_def white_def)
  then show "trim_space (CHR 0x09 # disk_line d) = disk_line d" by (simp add: trim_space_Cons white_def)
  show "\<not> prefix ''Target:'' (disk_line d)" "\<not> prefix ''Current Portal:'' (disk_line d)"
    by (simp_all add: disk_line_def)
  show "str_contains (disk_line d) ''Attached scsi disk''"
    unfolding str_contains_def disk_line_def by (rule prefix_imp_sublist) simp
  have words: "is_word ''Attached''" "is_word ''scsi''" "is_word ''disk''" "is_word ''State:''" "is_word ''running''"
    and gaps: "white (CHR '' '')" "white (CHR 0x09)"
    by (simp_all add: is_word_def white_def)
  have "disk_line d = ''Attached'' @ CHR '' '' # ''scsi'' @ CHR '' '' # ''disk'' @ CHR '' '' # d @ CHR 0x09 # ''State:'' @ CHR '' '' # ''running''"
    by (simp add: disk_line_def)
  then show "Fields (disk_line d) = [''Attached'', ''scsi'', ''disk'', d, ''State:'', ''running'']"
    by (simp only: Fields_word words gaps assms Fields_last)
qed

lemma session_lines_unbroken:
  assumes "well_listed s"
  shows "list_all (\<lambda>l. CHR 0x0A \<notin> set l) (session_lines s)"
proof -
  have "CHR 0x0A \<notin> set d" if "d \<in> set (sn_disks s)" for d
    using that assms by (intro is_word_line) (simp add: well_listed_def list_all_iff)
  moreover have "CHR 0x0A \<notin> set (sn_target s)" using assms by (intro is_word_line) (simp add: well_listed_def)
  ultimately show ?thesis
    using assms by (auto simp: session_lines_def well_listed_def target_line_def disk_line_def is_detail_def list_all_iff)
qed

lemma listed_lines:
  "list_all well_listed ss \<Longrightarrow> output_lines (session_list ss) = concat (map session_lines ss) @ [[]]"
  unfolding session_list_def
  by (rule output_lines_print) (use session_lines_unbroken in \<open>fastforce simp: list_all_iff\<close>)

section \<open>The disk of a target\<close>

lemma device_details:
  "list_all is_detail ls \<Longrightarrow> sessionDeviceLoop iqn b (ls @ rest) = sessionDeviceLoop iqn b rest"
  by (induction ls) (auto simp: is_detail_def Let_def)

lemma device_disks:
  "list_all (\<lambda>d. is_word d \<and> d \<noteq> ''disk'') ds \<Longrightarrow>
     sessionDeviceLoop iqn b (map (\<lambda>d. CHR 0x09 # disk_line d) ds @ rest) =
       (if b \<and> ds \<noteq> [] then hd ds else sessionDeviceLoop iqn b rest)"
  by (induction ds; cases b) (simp_all add: Let_def disk_of_line)

lemma device_session:
  assumes "well_listed s" "list_all (\<lambda>c. \<not> white c) iqn"
  shows "sessionDeviceLoop iqn b (session_lines s @ rest) =
    (if prefix iqn (sn_target s) \<and> sn_disks s \<noteq> [] then hd (sn_disks s)
     else sessionDeviceLoop iqn (prefix iqn (sn_target s)) rest)"
  using assms
  by (simp add: session_lines_def well_listed_def Let_def trim_target_line target_of_line target_prefix device_details
      device_disks)

definition first_disk :: "listed_session list \<Rightarrow> string" where
  "first_disk ss = (case concat (map sn_disks ss) of [] \<Rightarrow> [] | d # _ \<Rightarrow> d)"

lemma first_disk_Cons: "first_disk (s # ss) = (if sn_disks s = [] then first_disk ss else hd (sn_disks s))"
  by (cases "sn_disks s") (simp_all add: first_disk_def)

lemma device_sessions:
  assumes "list_all well_listed ss" "list_all (\<lambda>c. \<not> white c) iqn"
  shows "sessionDeviceLoop iqn b (concat (map session_lines ss) @ [[]]) =
    first_disk (filter (\<lambda>s. prefix iqn (sn_target s)) ss)"
  using assms(1)
proof (induction ss arbitrary: b)
  case Nil
  show ?case by (simp add: first_disk_def trim_space_def str_contains_def)
next
  case (Cons s ss)
  then show ?case by (simp add: device_session assms(2) first_disk_Cons)
qed

section \<open>The target of a disk\<close>

lemma info_details:
  "list_all is_detail ls \<Longrightarrow> \<exists>p'. sessionInfoLoop d t p (ls @ rest) = sessionInfoLoop d t p' rest"
proof (induction ls arbitrary: p)
  case (Cons l ls)
  then have l: "\<not> prefix ''Target:'' (trim_space l)" "\<not> str_contains (trim_space l) ''Attached scsi disk''"
    and ls: "\<exists>p'. sessionInfoLoop d t q (ls @ rest) = sessionInfoLoop d t p' rest" for q
    by (simp_all add: is_detail_def)
  from l show ?case by (simp add: Let_def ls)
qed auto

lemma info_disks:
  "list_all (\<lambda>d. is_word d \<and> d \<noteq> ''disk'') ds \<Longrightarrow>
     sessionInfoLoop d t p (map (\<lambda>d. CHR 0x09 # disk_line d) ds @ rest) =
       (if d \<in> set ds then (t, p) else sessionInfoLoop d t p rest)"
  by (induction ds) (auto simp: Let_def disk_of_line)

lemma info_session:
  assumes "well_listed s"
  shows "\<exists>p'. sessionInfoLoop d t p (session_lines s @ rest) =
    (if d \<in> set (sn_disks s) then (sn_target s, p') else sessionInfoLoop d (sn_target s) p' rest)"
proof -
  from assms have wf: "is_word (sn_target s)" "list_all is_detail (sn_details s)"
    "list_all (\<lambda>d. is_word d \<and> d \<noteq> ''disk'') (sn_disks s)" by (simp_all add: well_listed_def)
  from info_details [OF wf(2), of d "sn_target s" "[]" "map (\<lambda>d. CHR 0x09 # disk_line d) (sn_disks s) @ rest"]
  obtain p' where "sessionInfoLoop d (sn_target s) [] (sn_details s @ map (\<lambda>d. CHR 0x09 # disk_line d) (sn_disks s) @ rest) =
    sessionInfoLoop d (sn_target s) p' (map (\<lambda>d. CHR 0x09 # disk_line d) (sn_disks s) @ rest)" by blast
  then show ?thesis
    by (intro exI [of _ p'])
      (simp add: session_lines_def Let_def trim_target_line target_of_line wf target_word info_disks)
qed

definition first_target :: "listed_session list \<Rightarrow> string" where
  "first_target ss = (case ss of [] \<Rightarrow> [] | s # _ \<Rightarrow> sn_target s)"

lemma info_sessions:
  assumes "list_all well_listed ss"
  shows "fst (sessionInfoLoop d t p (concat (map session_lines ss) @ [[]])) =
    first_target (filter (\<lambda>s. d \<in> set (sn_disks s)) ss)"
  using assms
proof (induction ss arbitrary: t p)
  case Nil
  show ?case by (simp add: first_target_def trim_space_def str_contains_def)
next
  case (Cons s ss)
  then have wf: "well_listed s" by simp
  from info_session [OF wf, of d t p "concat (map session_lines ss) @ [[]]"] Cons
  show ?case by (auto simp: first_target_def)
qed

text \<open>
  C39: what the two parsers read from a listing of any sessions. The one that \<^verbatim>\<open>NodeStageVolume\<close> finds the
  device with gives the first disk of the first session with disks whose target has the searched
  name as a prefix, and nothing exactly if there is none; so with a session to vol-10 listed before
  that to vol-1, it gives the disk of vol-10 for vol-1. The other one, which
  \<^verbatim>\<open>NodeUnstageVolume\<close> and the monitor use, goes from the disk to the session and is exact: it gives the
  target of the first session that has the disk.
\<close>

theorem session_listing_readers:
  assumes "list_all well_listed ss" "list_all (\<lambda>c. \<not> white c) iqn"
  shows "parseISCSISessionDevice (session_list ss) iqn = first_disk (filter (\<lambda>s. prefix iqn (sn_target s)) ss) \<and>
    fst (parseISCSISessionInfo (session_list ss) d) = first_target (filter (\<lambda>s. d \<in> set (sn_disks s)) ss)"
  unfolding parseISCSISessionDevice_def parseISCSISessionInfo_def listed_lines [OF assms(1)]
  by (intro conjI device_sessions assms info_sessions)

definition two_sessions :: "listed_session list" where
  "two_sessions =
     [\<lparr>sn_target = ''iqn.2137-04.storage.nasty:vol-10'', sn_details = [''  Current Portal: 10.0.0.1:3260,1''], sn_disks = [''sdb'']\<rparr>,
      \<lparr>sn_target = ''iqn.2137-04.storage.nasty:vol-1'', sn_details = [''  Current Portal: 10.0.0.1:3260,1''], sn_disks = [''sda'']\<rparr>]"

theorem session_listing_readers_witness:
  "parseISCSISessionDevice (session_list two_sessions) ''iqn.2137-04.storage.nasty:vol-1'' = ''sdb'' \<and>
   fst (parseISCSISessionInfo (session_list two_sessions) ''sdb'') = ''iqn.2137-04.storage.nasty:vol-10'' \<and>
   fst (parseISCSISessionInfo (session_list two_sessions) ''sda'') = ''iqn.2137-04.storage.nasty:vol-1''"
proof -
  have wf: "list_all well_listed two_sessions" "list_all (\<lambda>c. \<not> white c) ''iqn.2137-04.storage.nasty:vol-1''"
    by code_simp+
  show ?thesis
    using session_listing_readers [OF wf, of "''sdb''"] session_listing_readers [OF wf, of "''sda''"]
    by (simp add: two_sessions_def first_disk_def first_target_def)
qed

end
