(* ===== verification/Node_Expansion.thy ===== *)
theory Node_Expansion
  imports Node_Benign
begin

text \<open>
  The handlers of the node that look, and the one that grows: health and statistics change nothing on
  the host, and \<^verbatim>\<open>NodeExpandVolume\<close> looks and then runs at most one command, the one that grows the
  filesystem it has found at the path.
\<close>

section \<open>Looking\<close>

interpretation look: node_policy "\<lambda>_. benign"
  by unfold_locales simp

lemma looked: "each_after (\<lambda>_. benign) t \<longleftrightarrow> list_all benign t"
  by (induction t rule: rev_induct) auto

lemma harmless_run:
  "look.harmless m \<Longrightarrow> case run_state m s of (r, s') \<Rightarrow> \<exists>tr. trace s' = trace s @ tr \<and> list_all benign tr"
  using triple_run [of "\<lambda>_. benign" m "\<lambda>_ _. True" s] by (simp add: look.harmless_def looked)

text \<open>
  Whatever the host answers, the health and the statistics of a volume are found without a command
  that changes a mount, a filesystem or a session, and without removing, linking or writing anything.
\<close>

theorem node_queries_look:
  "(case run_state (NodeGetVolumeHealth H volumeID publishPath stagingPath) s of (r, s') \<Rightarrow>
      \<exists>tr. trace s' = trace s @ tr \<and> list_all benign tr) \<and>
   (case run_state (NodeGetVolumeStats H volumeID volumePath) s of (r, s') \<Rightarrow>
      \<exists>tr. trace s' = trace s @ tr \<and> list_all benign tr)"
  by (intro conjI harmless_run look.harmless_health look.harmless_stats)

section \<open>The policy of expansion\<close>

definition fstype_cmd :: "string \<Rightarrow> string list" where
  "fstype_cmd path = [''findmnt'', ''-n'', ''-o'', ''FSTYPE'', path]"

definition source_cmd :: "string \<Rightarrow> string list" where
  "source_cmd path = [''findmnt'', ''-n'', ''-o'', ''SOURCE'', path]"

definition read_from :: "string list \<Rightarrow> string \<Rightarrow> host_event list \<Rightarrow> bool" where
  "read_from cmd text t \<longleftrightarrow> text \<noteq> [] \<and> (\<exists>r. Ran cmd r \<in> set t \<and> cr_err r = None \<and> trim_space (cr_output r) = text)"

definition grow_ok :: "string \<Rightarrow> host_event list \<Rightarrow> string list \<Rightarrow> bool" where
  "grow_ok path t cmd \<longleftrightarrow>
     SawMounted path (Inr True) \<in> set t \<and>
     (\<exists>fsType. read_from (fstype_cmd path) fsType t \<and>
        (if extFilesystem fsType then \<exists>device. read_from (source_cmd path) device t \<and> cmd = [''resize2fs'', device]
         else fsType = ''xfs'' \<and> cmd = [''xfs_growfs'', path]))"

text \<open>First everything is looked at, then one command grows the filesystem, then nothing follows.\<close>

definition expand_licensed :: "string \<Rightarrow> policy" where
  "expand_licensed path t e \<longleftrightarrow>
     list_all benign t \<and> (benign e \<or> (\<exists>cmd r. e = Ran cmd r \<and> grow_ok path t cmd))"

definition expand_answer :: "bool \<Rightarrow> string \<Rightarrow> node_capability option \<Rightarrow> int \<Rightarrow> failure + int \<Rightarrow> host_event list \<Rightarrow> bool" where
  "expand_answer testMode path cap requiredBytes r t \<longleftrightarrow>
     (case cap of None \<Rightarrow> True | Some c \<Rightarrow> is_block c \<longrightarrow> list_all benign t) \<and>
     (\<forall>n. r = Inr n \<longrightarrow> n = requiredBytes \<and>
        (list_all benign t \<and> (testMode \<or> SawMounted path (Inr True) \<in> set t) \<or>
         (\<exists>cmd c. last t = Ran cmd c \<and> cr_err c = None \<and> grow_ok path (butlast t) cmd)))"

lemma triple_looking:
  assumes "triple (\<lambda>_. benign) F m G"
  shows "triple (expand_licensed path) (\<lambda>t. F t \<and> list_all benign t) m (\<lambda>r t. G r t \<and> list_all benign t)"
proof (rule tripleI, elim conjE)
  fix s :: "'a node" and b t assume h: "trace s = b @ t" "F t" "list_all benign t"
  have all: "each_after (expand_licensed path) u" if "list_all benign u" for u
    using that by (induction u rule: rev_induct) (auto simp: expand_licensed_def)
  from tripleD [OF assms h(1,2)] h(3)
  show "wp m (\<lambda>r s'. \<exists>u. trace s' = b @ t @ u \<and> each_after (expand_licensed path) (t @ u) \<and>
      G r (t @ u) \<and> list_all benign (t @ u)) s"
    by (auto simp: looked elim!: wp_mono) (metis all list_all_append)
qed

section \<open>The contract of NodeExpandVolume\<close>

lemma triple_answer:
  "(\<And>t. F t \<Longrightarrow> list_all benign t \<and> (\<forall>n. r = Inr n \<longrightarrow> n = requiredBytes \<and> (testMode \<or> SawMounted path (Inr True) \<in> set t))) \<Longrightarrow>
   triple P F (ret r) (expand_answer testMode path cap requiredBytes)"
  by (rule triple_ret) (auto simp: expand_answer_def split: option.split)

text \<open>What \<^verbatim>\<open>resizeFilesystem\<close> has done: nothing, which is a failure, or the one command with its result.\<close>

definition grown :: "string \<Rightarrow> bool \<Rightarrow> host_event list \<Rightarrow> bool" where
  "grown path ok t \<longleftrightarrow>
     \<not> ok \<and> list_all benign t \<or>
     (\<exists>cmd c. last t = Ran cmd c \<and> grow_ok path (butlast t) cmd \<and> (ok \<longleftrightarrow> cr_err c = None))"

lemma triple_grow:
  "triple (expand_licensed path) (\<lambda>t. grow_ok path t cmd \<and> list_all benign t)
     (do { s \<leftarrow> Run H cmd; ret (cr_err s = None) }) (grown path)"
proof -
  have run: "triple (expand_licensed path) (\<lambda>t. grow_ok path t cmd \<and> list_all benign t) (Run H cmd)
      (\<lambda>s t. grow_ok path (butlast t) cmd \<and> last t = Ran cmd s)"
    unfolding Run_def by (rule triple_ask) (auto simp: expand_licensed_def)
  show ?thesis
    by (rule triple_bind [OF run], rule triple_ret) (auto simp: grown_def)
qed

lemma fstype_read:
  "stable F \<Longrightarrow> triple (\<lambda>_. benign) F (detectFilesystemType H path)
     (\<lambda>r t. F t \<and> (\<forall>fsType. r = Some fsType \<longrightarrow> read_from (fstype_cmd path) fsType t))"
  unfolding detectFilesystemType_def
  by (intro look.seq_Run triple_let triple_ret) (auto simp: risk_defs read_from_def fstype_cmd_def)

lemma source_read:
  "stable F \<Longrightarrow> triple (\<lambda>_. benign) F (findmntSource H path) (\<lambda>r t. F t \<and> Ran (source_cmd path) r \<in> set t)"
  unfolding findmntSource_def source_cmd_def Run_def
  by (rule triple_conseq [OF look.triple_last [where F = F and K = F]]) (auto simp: risk_defs)

lemma looked_peek: "triple P (\<lambda>t. t = []) (peek f) (\<lambda>_ t. True \<and> list_all benign t)"
  by (rule triple_ask) simp

lemma mounted_seen:
  "triple (\<lambda>_. benign) (\<lambda>_. True) (IsMounted H ctx path) (\<lambda>r t. SawMounted path r \<in> set t)"
  unfolding IsMounted_def
  by (rule triple_conseq [OF look.triple_last [where F = "\<lambda>_. True" and K = "\<lambda>_. True"]]) (auto simp: benign_def)

lemma resized:
  "triple (expand_licensed path)
     (\<lambda>t. (SawMounted path (Inr True) \<in> set t \<and> read_from (fstype_cmd path) fsType t) \<and> list_all benign t)
     (resizeFilesystem H path fsType) (grown path)"
proof -
  let ?F = "\<lambda>t. SawMounted path (Inr True) \<in> set t \<and> read_from (fstype_cmd path) fsType t"
  have "stable ?F" unfolding read_from_def by (intro stable_intros)
  note source = triple_looking [OF source_read [OF this]]
  note grow = triple_conseq [OF triple_grow]
  show ?thesis
    unfolding resizeFilesystem_def
  proof (intro triple_if triple_bind [OF source] triple_let)
    fix r :: cmd_result assume "\<not> (cr_err r \<noteq> None \<or> trim_space (cr_output r) = [])" "extFilesystem fsType"
    then show "triple (expand_licensed path) (\<lambda>t. (?F t \<and> Ran (source_cmd path) r \<in> set t) \<and> list_all benign t)
        (do { s \<leftarrow> Run H [''resize2fs'', trim_space (cr_output r)]; ret (cr_err s = None) }) (grown path)"
      by (intro grow) (auto simp: grow_ok_def read_from_def)
  next
    assume "\<not> extFilesystem fsType" "fsType = ''xfs''"
    then show "triple (expand_licensed path) (\<lambda>t. ?F t \<and> list_all benign t)
        (do { s \<leftarrow> Run H [''xfs_growfs'', path]; ret (cr_err s = None) }) (grown path)"
      by (intro grow) (auto simp: grow_ok_def)
  qed (rule triple_ret; simp add: grown_def)+
qed

lemma expanded:
  assumes "case cap of None \<Rightarrow> True | Some c \<Rightarrow> \<not> is_block c"
  shows "triple (expand_licensed path)
    (\<lambda>t. (SawMounted path (Inr True) \<in> set t \<and> read_from (fstype_cmd path) fsType t) \<and> list_all benign t)
    (do { ok \<leftarrow> resizeFilesystem H path fsType; ret (if ok then Inr requiredBytes else Inl (Status Internal)) })
    (expand_answer testMode path cap requiredBytes)"
  by (rule triple_bind [OF resized], rule triple_ret)
    (use assms in \<open>auto simp: grown_def expand_answer_def split: option.splits\<close>)


section \<open>What a healthy share means\<close>

definition listed_mount :: "string \<Rightarrow> host_event list \<Rightarrow> bool" where
  "listed_mount path t \<longleftrightarrow> (\<exists>text. read_from [''findmnt'', ''-n'', path] text t)"

lemma mount_listed:
  "triple (\<lambda>_. benign) (\<lambda>_. True) (isMountedWithTimeout H path) (\<lambda>m t. m = Inr True \<longrightarrow> listed_mount path t)"
  unfolding isMountedWithTimeout_def
  by (intro look.seq_Run look.seq_peek triple_ret stable_intros)
    (auto simp: risk_defs listed_mount_def read_from_def split: option.splits if_splits)

lemma stable_listed: "stable (\<lambda>t. b \<longrightarrow> listed_mount path t)"
  by (auto simp: stable_def listed_mount_def read_from_def)

lemma share_listed:
  "triple (\<lambda>_. benign) (\<lambda>_. True) (checkShareHealth H kind detectStale path) (\<lambda>h t. h = Healthy \<longrightarrow> listed_mount path t)"
proof -
  have read: "look.harmless (checkDirectoryReadable H path)"
    unfolding checkDirectoryReadable_def by (intro look.harmless_basic)
  show ?thesis
    unfolding checkShareHealth_def shareReadable_def
    by (intro look.seq_peek triple_bind [OF mount_listed] look.seq_harmless [OF read] stable_listed triple_cases triple_ret)
      (auto simp: Healthy_def Unhealthy_def)
qed

text \<open>
  A share over NFS or SMB is reported healthy only after \<^verbatim>\<open>findmnt\<close> has listed a mount at its path.
\<close>

theorem healthy_share_is_mounted:
  "case run_state (checkShareHealth H kind detectStale path) s of (h, s') \<Rightarrow>
     \<exists>tr. trace s' = trace s @ tr \<and> list_all benign tr \<and> (h = Healthy \<longrightarrow> listed_mount path tr)"
  using triple_run [OF share_listed] by (simp add: looked)

end
