(* ===== verification/Node_Darwin.thy ===== *)
theory Node_Darwin
  imports Node_Mounts
begin

text \<open>
  The variants built for development on macOS (\<^verbatim>\<open>mount_darwin.go\<close>, \<^verbatim>\<open>node_nfs_darwin.go\<close>,
  \<^verbatim>\<open>node_smb_darwin.go\<close>), which have no mount tables to read, and what the mount options of every
  platform have in common: the options of the user win.
\<close>

section \<open>Mounts\<close>

datatype darwin_error = SourceMountUnsupported | StatFailed os_error

text \<open>The answers come from the output of \<^verbatim>\<open>mount\<close>; the trace records its run.\<close>

definition IsMounted_darwin :: "'w host \<Rightarrow> string \<Rightarrow> ('w, darwin_error + bool) nop" where
  "IsMounted_darwin H targetPath = do {
     st \<leftarrow> Stat H targetPath;
     case st of
       Inl e \<Rightarrow> ret (if oe_NotExist e then Inr False else Inl (StatFailed e))
     | Inr _ \<Rightarrow> do {
         r \<leftarrow> Run H [''mount''];
         ret (Inr (if cr_err r \<noteq> None then False else str_contains (cr_output r) targetPath))
       }
   }"

definition IsDeviceMounted_darwin :: "'w host \<Rightarrow> string \<Rightarrow> ('w, darwin_error + bool) nop" where
  "IsDeviceMounted_darwin H targetPath = IsMounted_darwin H targetPath"

definition IsSourceMounted_darwin :: "string \<Rightarrow> darwin_error + bool" where
  "IsSourceMounted_darwin sourcePath = Inl SourceMountUnsupported"

definition GetBindMountRefs_darwin :: "string \<Rightarrow> darwin_error + string list" where
  "GetBindMountRefs_darwin targetPath = Inl SourceMountUnsupported"

text \<open>
  \<^verbatim>\<open>Unmount\<close>: an error of the check is only logged, and the boolean that comes with it is false; a failing
  \<^verbatim>\<open>umount\<close> is only logged too. The answer is true for a nil error.
\<close>

definition Unmount_darwin :: "'w host \<Rightarrow> string \<Rightarrow> ('w, bool) nop" where
  "Unmount_darwin H targetPath = do {
     m \<leftarrow> IsMounted_darwin H targetPath;
     let mounted = (case m of Inl _ \<Rightarrow> False | Inr b \<Rightarrow> b)
     in if \<not> mounted then ret True
        else do {
          r \<leftarrow> Run H [''umount'', targetPath];
          ret True
        }
   }"

section \<open>Mount options\<close>

definition defaultNFSMountOptions_darwin :: "string list" where
  "defaultNFSMountOptions_darwin = [''vers=4'', ''nolock'']"

definition getNFSMountOptions_darwin :: "string list \<Rightarrow> string list" where
  "getNFSMountOptions_darwin = mergeMountOptions defaultNFSMountOptions_darwin"

definition defaultSMBMountOptions_darwin :: "string list" where
  "defaultSMBMountOptions_darwin = []"

definition getSMBMountOptions_darwin :: "string list \<Rightarrow> string list" where
  "getSMBMountOptions_darwin userOptions =
     (if userOptions = [] then defaultSMBMountOptions_darwin else userOptions)"

definition getBlockSize_darwin :: "32 word \<Rightarrow> uint64" where
  "getBlockSize_darwin bsize = ucast bsize"

section \<open>Laws\<close>

text \<open>
  Unmounting on macOS always reports success. It runs \<^verbatim>\<open>umount\<close>, on the path itself and at most once,
  only after \<^verbatim>\<open>mount\<close> has printed text in which the path occurs; an occurrence inside a longer path
  counts as well, so the check can take another mount for this one.
\<close>

theorem Unmount_darwin_run:
  "case run_state (Unmount_darwin H path) s of (r, s') \<Rightarrow>
     r \<and> (\<exists>tr. trace s' = trace s @ tr \<and>
       (\<forall>cmd c. Ran cmd c \<in> set tr \<longrightarrow> cmd \<in> {[''mount''], [''umount'', path]}) \<and>
       (\<forall>c. Ran [''umount'', path] c \<in> set tr \<longrightarrow>
          (\<exists>m. Ran [''mount''] m \<in> set tr \<and> cr_err m = None \<and> str_contains (cr_output m) path)))"
  by (rule run_caseI)
    (auto simp: Unmount_darwin_def IsMounted_darwin_def Run_def Stat_def wp_rules wp_ask
      split: prod.split sum.split)

lemma longer_path_listed:
  "case run_state (IsMounted_darwin (H\<lparr>os_Stat := \<lambda>_ w. (Inr info, w), os_run := \<lambda>_ w. (r\<lparr>cr_err := None,
       cr_output := ''nas:/export on /mnt/volume-10 (nfs)''\<rparr>, w)\<rparr>) ''/mnt/volume-1'') s of
     (answer, s') \<Rightarrow> answer = Inr True"
  by (simp add: IsMounted_darwin_def Stat_def Run_def str_contains_def sublist_code)

text \<open>
  Merging keeps the options of the user, in their order and before all others; it adds exactly the
  defaults whose key the user has not given, so that a default never contradicts the user and every
  key of the defaults is set; and merging twice adds nothing.
\<close>

lemma mergeMountOptions_eq:
  "mergeMountOptions defaults us =
     us @ filter (\<lambda>d. extractOptionKey d \<notin> extractOptionKey ` set us) defaults"
  by (simp add: mergeMountOptions_def)

theorem mergeMountOptions_user_wins:
  "prefix us (mergeMountOptions defaults us) \<and>
   set (mergeMountOptions defaults us) =
     set us \<union> {d \<in> set defaults. extractOptionKey d \<notin> extractOptionKey ` set us} \<and>
   extractOptionKey ` set (mergeMountOptions defaults us) = extractOptionKey ` (set us \<union> set defaults) \<and>
   mergeMountOptions defaults (mergeMountOptions defaults us) = mergeMountOptions defaults us"
proof (intro conjI)
  let ?m = "mergeMountOptions defaults us"
  show m: "set ?m = set us \<union> {d \<in> set defaults. extractOptionKey d \<notin> extractOptionKey ` set us}"
    by (auto simp: mergeMountOptions_eq)
  show keys: "extractOptionKey ` set ?m = extractOptionKey ` (set us \<union> set defaults)"
    unfolding m by blast
  then show "mergeMountOptions defaults ?m = ?m"
    by (subst mergeMountOptions_eq) (simp add: filter_empty_conv)
qed (simp add: mergeMountOptions_eq)

end
