(* ===== verification/Reliable_Backend.thy ===== *)
theory Reliable_Backend
  imports Identity_Safety Controller_NFS
begin

text \<open>
  What the controller may expect of a backend that answers, and that nobody else uses meanwhile: the
  locale \<open>reliable_backend\<close> describes the calls a create request makes by their effect on two views of
  the world, the subvolumes by filesystem and name and the NFS shares. The in-memory backend is one.
\<close>

section \<open>Views of a backend\<close>

type_synonym volumes = "string \<Rightarrow> string \<Rightarrow> subvolume option"

definition put :: "volumes \<Rightarrow> subvolume \<Rightarrow> volumes" where
  "put V sv = V(sv_Filesystem sv := (V (sv_Filesystem sv))(sv_Name sv := Some sv))"

lemma put_apply:
  "put V sv fs n = (if sv_Filesystem sv = fs \<and> sv_Name sv = n then Some sv else V fs n)"
  by (auto simp: put_def)

lemma put_same: "V (sv_Filesystem sv) (sv_Name sv) = Some sv \<Longrightarrow> put V sv = V"
  by (intro ext) (auto simp: put_apply)

definition same_volume :: "subvolume \<Rightarrow> subvolume \<Rightarrow> bool" where
  "same_volume sv sv' \<longleftrightarrow> sv_Filesystem sv' = sv_Filesystem sv \<and> sv_Name sv' = sv_Name sv \<and> sv_Path sv' = sv_Path sv"

text \<open>The subvolume after these properties were to be written: it has them, and no others but its own.\<close>

definition rewritten :: "props \<Rightarrow> subvolume \<Rightarrow> subvolume \<Rightarrow> bool" where
  "rewritten ps sv sv' \<longleftrightarrow> same_volume sv sv' \<and> propertiesContain (sv_Properties sv') ps \<and>
     sv_Properties sv' \<in> {sv_Properties sv, sv_Properties sv ++\<^sub>f ps}"

lemma propertiesContain_add: "propertiesContain (ps ++\<^sub>f qs) qs"
  by (simp add: propertiesContain_iff mget_add)

locale reliable_backend =
  fixes S :: "'w svc"
    and invar :: "'w \<Rightarrow> bool"
    and volume :: "'w \<Rightarrow> volumes"
    and shares :: "'w \<Rightarrow> nfs_share list"
    and filesystems :: "string \<Rightarrow> go_error + filesystem_info option"
    and path_of :: "string \<Rightarrow> string \<Rightarrow> string"
  assumes place: "invar w \<Longrightarrow> volume w fs n = Some sv \<Longrightarrow>
      sv_Filesystem sv = fs \<and> sv_Name sv = n \<and> sv_Path sv = path_of fs n"
    and get: "invar w \<Longrightarrow> \<exists>e. isNotFoundError e \<and>
      api_GetSubvolume S fs n w = ((case volume w fs n of None \<Rightarrow> Inl e | Some sv \<Rightarrow> Inr (Some sv)), w)"
    and lookup: "invar w \<Longrightarrow> fs \<noteq> [] \<Longrightarrow> \<exists>r. api_FindSubvolumeByCSIVolumeName S fs n w = (r, w) \<and>
      (case r of
         Inr (Some sv) \<Rightarrow> \<exists>m. volume w fs m = Some sv
       | _ \<Rightarrow> \<forall>m sv. volume w fs m = Some sv \<longrightarrow> mget (sv_Properties sv) PropertyCSIVolumeName \<noteq> n)"
    and search: "invar w \<Longrightarrow> fs \<noteq> [] \<Longrightarrow> \<exists>r. api_FindSubvolumesByProperty S k v fs w = (r, w) \<and>
      (\<forall>svs sv. r = Inr svs \<longrightarrow> sv \<in> set svs \<longrightarrow> (\<exists>m. volume w fs m = Some sv))"
    and create: "invar w \<Longrightarrow> volume w (cp_Filesystem p) (cp_Name p) = None \<Longrightarrow>
      \<exists>sv w'. api_CreateSubvolume S p w = (Inr (Some (sv\<lparr>sv_Created := True\<rparr>)), w') \<and> invar w' \<and>
        sv_Filesystem sv = cp_Filesystem p \<and> sv_Name sv = cp_Name p \<and> sv_Properties sv = fmempty \<and>
        volume w' = put (volume w) sv \<and> shares w' = shares w"
    and set_properties: "invar w \<Longrightarrow> volume w fs n = Some sv \<Longrightarrow>
      \<exists>w'. api_SetSubvolumeProperties S fs n ps w = (None, w') \<and> invar w' \<and>
        volume w' = put (volume w) (sv\<lparr>sv_Properties := sv_Properties sv ++\<^sub>f ps\<rparr>) \<and> shares w' = shares w"
    and list_shares: "invar w \<Longrightarrow> api_ListNFSShares S w = (Inr (shares w), w)"
    and create_share: "invar w \<Longrightarrow>
      \<exists>sh w'. api_CreateNFSShare S path comment clients w = (Inr (Some sh), w') \<and> invar w' \<and>
        nfs_Path sh = path \<and> nfs_Comment sh = Some comment \<and> shares w' = shares w @ [sh] \<and> volume w' = volume w"
    and query: "invar w \<Longrightarrow> api_QueryFilesystem S fs w = (filesystems fs, w)"
    and clock: "invar w \<Longrightarrow> env_Now S w = (now, w') \<Longrightarrow> invar w' \<and> volume w' = volume w \<and> shares w' = shares w"
    and random: "invar w \<Longrightarrow> env_randRead S w = (r, w') \<Longrightarrow>
      (\<exists>bs. r = Inr bs) \<and> invar w' \<and> volume w' = volume w \<and> shares w' = shares w"
    and adoptable: "\<not> vp_Adoptable vp \<Longrightarrow>
      mget (svc_VolumeProperties S vp) PropertyAdoptable \<noteq> VolumeContextValueTrue"
begin

text \<open>A state of the controller in which the world shows these subvolumes and shares.\<close>

definition at :: "'w controller \<Rightarrow> volumes \<Rightarrow> nfs_share list \<Rightarrow> bool" where
  "at s V H \<longleftrightarrow> invar (world s) \<and> volume (world s) = V \<and> shares (world s) = H"

lemma at_place:
  "at s V H \<Longrightarrow> V fs n = Some sv \<Longrightarrow> sv_Filesystem sv = fs \<and> sv_Name sv = n \<and> sv_Path sv = path_of fs n"
  using place by (auto simp: at_def)

lemma at_gauge [simp]: "at (s\<lparr>volumeCapacity := c\<rparr>) V H = at s V H"
  by (simp add: at_def)

section \<open>Rules for the calls\<close>

lemma wp_getOptional_at:
  assumes "at s V H" "\<And>s'. at s' V H \<Longrightarrow> Q (Inr (V fs n)) s'"
  shows "wp (getOptional S fs n) Q s"
  using get [of "world s" fs n] assms
  by (auto simp: getOptional_def GetSubvolume_def at_def wp_rules wp_call split: option.splits)

lemma wp_lookup_at:
  assumes "at s V H" "fs \<noteq> []"
    and "\<And>m sv s'. at s' V H \<Longrightarrow> V fs m = Some sv \<Longrightarrow> Q (Inr (Some sv)) s'"
    and "\<And>r s'. at s' V H \<Longrightarrow> (\<And>sv. r \<noteq> Inr (Some sv)) \<Longrightarrow>
      (\<And>m sv. V fs m = Some sv \<Longrightarrow> mget (sv_Properties sv) PropertyCSIVolumeName \<noteq> n) \<Longrightarrow> Q r s'"
  shows "wp (call (api_FindSubvolumeByCSIVolumeName S fs n) ev) Q s"
proof -
  from assms(1) have "invar (world s)" by (simp add: at_def)
  from lookup [OF this assms(2), of n] obtain r where r: "api_FindSubvolumeByCSIVolumeName S fs n (world s) = (r, world s)"
    "case r of Inr (Some sv) \<Rightarrow> \<exists>m. volume (world s) fs m = Some sv
     | _ \<Rightarrow> \<forall>m sv. volume (world s) fs m = Some sv \<longrightarrow> mget (sv_Properties sv) PropertyCSIVolumeName \<noteq> n"
    by blast
  show ?thesis
  proof (cases "\<exists>sv. r = Inr (Some sv)")
    case True
    with r assms(1) obtain m sv where m: "r = Inr (Some sv)" "V fs m = Some sv" by (auto simp: at_def)
    have "Q r (s\<lparr>world := world s, calls := calls s @ ev r\<rparr>)"
      using assms(1) m unfolding m(1) by (intro assms(3)) (auto simp: at_def)
    with r(1) show ?thesis by (simp add: wp_call)
  next
    case False
    then have "Q r (s\<lparr>world := world s, calls := calls s @ ev r\<rparr>)"
      using r(2) assms(1) by (intro assms(4)) (auto simp: at_def split: sum.splits option.splits)
    with r(1) show ?thesis by (simp add: wp_call)
  qed
qed

lemma wp_search_at:
  assumes "at s V H" "fs \<noteq> []"
    and "\<And>r s'. at s' V H \<Longrightarrow> (\<And>svs sv. r = Inr svs \<Longrightarrow> sv \<in> set svs \<Longrightarrow> \<exists>m. V fs m = Some sv) \<Longrightarrow> Q r s'"
  shows "wp (call (api_FindSubvolumesByProperty S k v fs) ev) Q s"
proof -
  from assms(1,2) search [of "world s" fs k v]
  obtain r where "api_FindSubvolumesByProperty S k v fs (world s) = (r, world s)"
    "\<And>svs sv. r = Inr svs \<Longrightarrow> sv \<in> set svs \<Longrightarrow> \<exists>m. V fs m = Some sv"
    by (auto simp: at_def)
  with assms(1) show ?thesis by (simp add: wp_call assms(3) at_def)
qed

lemma wp_create_at:
  assumes "at s V H" "V (cp_Filesystem p) (cp_Name p) = None"
    and "\<And>sv s'. sv_Filesystem sv = cp_Filesystem p \<Longrightarrow> sv_Name sv = cp_Name p \<Longrightarrow> sv_Properties sv = fmempty \<Longrightarrow>
      at s' (put V sv) H \<Longrightarrow> Q (Inr (Some (sv\<lparr>sv_Created := True\<rparr>))) s'"
  shows "wp (CreateSubvolume S p) Q s"
  using create [of "world s" p] assms by (auto simp: CreateSubvolume_def wp_call at_def)

lemma wp_list_shares_at:
  "at s V H \<Longrightarrow> (\<And>s'. at s' V H \<Longrightarrow> Q (Inr H) s') \<Longrightarrow> wp (quiet (api_ListNFSShares S)) Q s"
  using list_shares [of "world s"] by (auto simp: wp_call at_def)

lemma wp_create_share_at:
  assumes "at s V H"
    and "\<And>sh s'. nfs_Path sh = path \<Longrightarrow> nfs_Comment sh = Some comment \<Longrightarrow> at s' V (H @ [sh]) \<Longrightarrow> Q (Inr (Some sh)) s'"
  shows "wp (CreateNFSShare S path comment clients) Q s"
  using create_share [of "world s" path comment clients] assms by (auto simp: CreateNFSShare_def wp_call at_def)

lemma wp_query_at:
  "at s V H \<Longrightarrow> (\<And>s'. at s' V H \<Longrightarrow> Q (filesystems fs) s') \<Longrightarrow> wp (quiet (api_QueryFilesystem S fs)) Q s"
  using query [of "world s" fs] by (auto simp: wp_call at_def)

lemma wp_clock_at:
  assumes "at s V H" "\<And>now s'. at s' V H \<Longrightarrow> Q now s'"
  shows "wp (quiet (env_Now S)) Q s"
  using assms clock [of "world s"] by (auto simp: wp_call at_def split: prod.split)

lemma wp_accept_at:
  assumes "at s V H"
    and "\<And>u s'. at s' V H \<Longrightarrow> uuid_for ps u \<Longrightarrow>
      Q (Inr \<lparr>vid_properties = Some (identity_map n b p u), vid_persist = persist\<rparr>) s'"
  shows "wp (acceptIdentity S ps n b p persist) Q s"
  using assms random [of "world s"] stamped_is_uuid4
  by (auto simp: acceptIdentity_def identityProperties_def newVolumeUUID_def wp_rules wp_call at_def
      uuid_for_def split: prod.split sum.split)

lemma wp_decide_at:
  assumes "at s V H" "\<And>e s'. at s' V H \<Longrightarrow> Q (Inl e) s'"
    and "\<And>u persist s'. at s' V H \<Longrightarrow> u \<noteq> [] \<Longrightarrow>
      Q (Inr \<lparr>vid_properties = Some (identity_map (req_Name req) b protocol u), vid_persist = persist\<rparr>) s'"
  shows "wp (decideExistingVolumeIdentity S req protocol b sv) Q s"
proof -
  have "wp (acceptIdentity S ps (req_Name req) b protocol persist) Q s" for ps persist
    by (rule wp_accept_at [OF assms(1)]) (auto intro: assms(3))
  then show ?thesis
    by (simp add: decideExistingVolumeIdentity_def Let_def wp_rules assms(2) [OF assms(1)])
qed

text \<open>
  Writing the identity of a subvolume that the backend has, of which the caller holds a copy: the
  backend has then what was to be written.
\<close>

lemma wp_persist_at:
  assumes "at s V H" "V (sv_Filesystem sv) (sv_Name sv) = Some sv"
    and "\<And>sv' copy s'. rewritten (intendedProperties sv (Some base) identity) sv sv' \<Longrightarrow> same_volume sv copy \<Longrightarrow>
      at s' (put V sv') H \<Longrightarrow> Q (None, copy) s'"
  shows "wp (persistVolumeIdentity S (sv\<lparr>sv_Created := c\<rparr>) (Some base)
    \<lparr>vid_properties = Some identity, vid_persist = persist\<rparr>) Q s"
proof -
  let ?ps = "intendedProperties sv (Some base) identity"
  have same: "intendedProperties (sv\<lparr>sv_Created := c\<rparr>) b i = intendedProperties sv b i" for b i
    by (simp add: intendedProperties_def)
  show ?thesis
  proof (cases "propertiesContain (sv_Properties sv) ?ps")
    case True
    then have "Q (None, sv\<lparr>sv_Created := c\<rparr>) s"
      using assms(1,2) by (intro assms(3) [of sv]) (simp_all add: rewritten_def same_volume_def put_same)
    with True show ?thesis by (simp add: persistVolumeIdentity_def Let_def wp_rules same)
  next
    case False
    let ?sv = "sv\<lparr>sv_Properties := sv_Properties sv ++\<^sub>f ?ps\<rparr>"
    from assms(1,2) set_properties [of "world s" "sv_Filesystem sv" "sv_Name sv" sv ?ps]
    obtain w' where w': "api_SetSubvolumeProperties S (sv_Filesystem sv) (sv_Name sv) ?ps (world s) = (None, w')"
      "invar w'" "volume w' = put V ?sv" "shares w' = H"
      by (auto simp: at_def)
    have "Q (None, sv\<lparr>sv_Created := c, sv_Properties := ?ps\<rparr>)
        (s\<lparr>world := w', calls := calls s @ [PropsSet (sv_Filesystem sv) (sv_Name sv) ?ps None]\<rparr>)"
      using w' by (intro assms(3) [of ?sv]) (simp_all add: rewritten_def same_volume_def at_def propertiesContain_add)
    with False w'(1) show ?thesis
      by (simp add: persistVolumeIdentity_def Let_def wp_rules same SetSubvolumeProperties_def wp_call)
  qed
qed

end

section \<open>The in-memory backend\<close>

definition mem_path :: "string \<Rightarrow> string \<Rightarrow> string" where
  "mem_path fs n = ''/'' @ fs @ ''/'' @ n"

definition mem_invar :: "memory \<Rightarrow> bool" where
  "mem_invar w \<longleftrightarrow> distinct (map (\<lambda>sv. (sv_Filesystem sv, sv_Name sv)) (m_subvolumes w)) \<and>
     list_all (\<lambda>sv. sv_Path sv = mem_path (sv_Filesystem sv) (sv_Name sv)) (m_subvolumes w)"

definition mem_volume :: "memory \<Rightarrow> volumes" where
  "mem_volume w fs n = mem_find fs n w"

definition mem_filesystems :: "string \<Rightarrow> go_error + filesystem_info option" where
  "mem_filesystems fs = fst (api_QueryFilesystem mem_svc fs memory_empty)"

lemma mem_volume_place: "mem_volume w fs n = Some sv \<Longrightarrow> sv_Filesystem sv = fs \<and> sv_Name sv = n"
  by (auto simp: mem_volume_def mem_find_def find_Some_iff is_subvolume_def)

lemma mem_volume_in: "mem_volume w fs n = Some sv \<Longrightarrow> sv \<in> set (m_subvolumes w)"
  by (auto simp: mem_volume_def mem_find_def find_Some_iff)

lemma mem_volume_None: "mem_volume w fs n = None \<longleftrightarrow> (fs, n) \<notin> (\<lambda>sv. (sv_Filesystem sv, sv_Name sv)) ` set (m_subvolumes w)"
  by (auto simp: mem_volume_def mem_find_def find_None_iff is_subvolume_def)

lemma find_unique:
  "distinct (map f xs) \<Longrightarrow> x \<in> set xs \<Longrightarrow> (\<And>y. P y \<longleftrightarrow> f y = f x) \<Longrightarrow> List.find P xs = Some x"
  by (induction xs) (auto simp: image_iff split: if_splits)

lemma mem_volume_member:
  "mem_invar w \<Longrightarrow> sv \<in> set (m_subvolumes w) \<Longrightarrow> mem_volume w (sv_Filesystem sv) (sv_Name sv) = Some sv"
  unfolding mem_volume_def mem_find_def mem_invar_def
  by (elim conjE, erule find_unique) (auto simp: is_subvolume_def)

lemma find_append: "List.find P (xs @ ys) = (case List.find P xs of None \<Rightarrow> List.find P ys | Some x \<Rightarrow> Some x)"
  by (induction xs) auto

lemma mem_volume_snoc:
  "mem_volume w (sv_Filesystem sv) (sv_Name sv) = None \<Longrightarrow>
     mem_volume (w\<lparr>m_subvolumes := m_subvolumes w @ [sv]\<rparr>) = put (mem_volume w) sv"
  by (intro ext) (auto simp: mem_volume_def mem_find_def put_apply find_append is_subvolume_def split: option.split)

lemma find_map_same:
  "(\<And>x. P (f x) \<longleftrightarrow> P x) \<Longrightarrow> List.find P (map f xs) = map_option f (List.find P xs)"
  by (induction xs) auto

lemma mem_volume_update:
  assumes "mem_volume w fs n = Some sv" "\<And>x. sv_Filesystem (f x) = sv_Filesystem x \<and> sv_Name (f x) = sv_Name x"
  shows "mem_volume (mem_update fs n f w) = put (mem_volume w) (f sv)"
proof (intro ext)
  fix fs' n'
  let ?g = "\<lambda>sv. if is_subvolume fs n sv then f sv else sv"
  have "mem_volume (mem_update fs n f w) fs' n' = map_option ?g (mem_volume w fs' n')"
    unfolding mem_volume_def mem_find_def mem_update_def
    by (simp, rule find_map_same) (auto simp: is_subvolume_def assms(2))
  moreover have "is_subvolume fs n x \<longleftrightarrow> fs' = fs \<and> n' = n" if "mem_volume w fs' n' = Some x" for x
    using mem_volume_place [OF that] by (auto simp: is_subvolume_def)
  moreover have "put (mem_volume w) (f sv) fs' n' = (if fs' = fs \<and> n' = n then Some (f sv) else mem_volume w fs' n')"
    using mem_volume_place [OF assms(1)] assms(2) [of sv] by (auto simp: put_apply)
  ultimately show "mem_volume (mem_update fs n f w) fs' n' = put (mem_volume w) (f sv) fs' n'"
    using assms(1) by (cases "mem_volume w fs' n'") auto
qed

lemma mem_invar_update:
  "mem_invar w \<Longrightarrow> (\<And>x. sv_Filesystem (f x) = sv_Filesystem x \<and> sv_Name (f x) = sv_Name x \<and> sv_Path (f x) = sv_Path x) \<Longrightarrow>
     mem_invar (mem_update fs n f w)"
  by (auto simp: mem_invar_def mem_update_def comp_def if_distrib list_all_iff cong: if_cong)

lemma mem_create_puts:
  assumes "mem_invar w" "mem_volume w (cp_Filesystem p) (cp_Name p) = None"
  shows "\<exists>sv w'. mem_create p w = (Inr (Some (sv\<lparr>sv_Created := True\<rparr>)), w') \<and> mem_invar w' \<and>
    sv_Filesystem sv = cp_Filesystem p \<and> sv_Name sv = cp_Name p \<and> sv_Properties sv = fmempty \<and>
    mem_volume w' = put (mem_volume w) sv \<and> m_nfsShares w' = m_nfsShares w"
proof -
  let ?sv = "mem_new (cp_Filesystem p) (cp_Name p) (cp_SubvolumeType p) (cp_VolsizeBytes p) (cp_BlockFilesystem p)"
  let ?w = "w\<lparr>m_subvolumes := m_subvolumes w @ [?sv]\<rparr>"
  have sv: "sv_Filesystem ?sv = cp_Filesystem p" "sv_Name ?sv = cp_Name p" "sv_Properties ?sv = fmempty"
    by (simp_all add: mem_new_def)
  have path: "sv_Path ?sv = mem_path (sv_Filesystem ?sv) (sv_Name ?sv)" by (simp add: mem_new_def mem_path_def)
  from assms(2) have "mem_find (cp_Filesystem p) (cp_Name p) w = None" by (simp add: mem_volume_def)
  then have "mem_create p w = (Inr (Some (?sv\<lparr>sv_Created := True\<rparr>)), ?w)"
    by (simp add: mem_create_def Let_def)
  moreover have "mem_invar ?w"
    using assms sv path by (auto simp: mem_invar_def mem_volume_None)
  ultimately show ?thesis
    using sv mem_volume_snoc [of w ?sv] assms(2) by auto
qed

lemma mem_untouched [simp]:
  "mem_invar (w\<lparr>m_nextID := i\<rparr>) = mem_invar w" "mem_invar (w\<lparr>m_nfsShares := h\<rparr>) = mem_invar w"
  "mem_volume (w\<lparr>m_nextID := i\<rparr>) = mem_volume w" "mem_volume (w\<lparr>m_nfsShares := h\<rparr>) = mem_volume w"
  by (simp_all add: mem_invar_def mem_volume_def mem_find_def fun_eq_iff)

lemma mem_notFound_found: "isNotFoundError mem_notFound"
  by (simp add: isNotFoundError_def containsAny_def str_contains_def mem_notFound_def mem_error_def sublist_code)

lemma mem_lookup_found:
  assumes "mem_invar w" "fs \<noteq> []"
  shows "\<exists>r. api_FindSubvolumeByCSIVolumeName mem_svc fs n w = (r, w) \<and>
    (case r of
       Inr (Some sv) \<Rightarrow> \<exists>m. mem_volume w fs m = Some sv
     | _ \<Rightarrow> \<forall>m sv. mem_volume w fs m = Some sv \<longrightarrow> mget (sv_Properties sv) PropertyCSIVolumeName \<noteq> n)"
proof (cases "mem_byProperty PropertyCSIVolumeName n fs w")
  case Nil
  then have "sv_Filesystem sv \<noteq> fs \<or> mget (sv_Properties sv) PropertyCSIVolumeName \<noteq> n" if "sv \<in> set (m_subvolumes w)" for sv
    using that by (auto simp: mem_byProperty_def filter_empty_conv)
  then have "mget (sv_Properties sv) PropertyCSIVolumeName \<noteq> n" if "mem_volume w fs m = Some sv" for m sv
    using that mem_volume_place [OF that] mem_volume_in [OF that] by blast
  with Nil show ?thesis by (simp add: mem_svc_def)
next
  case (Cons sv svs)
  then have "sv \<in> set (mem_byProperty PropertyCSIVolumeName n fs w)" by simp
  then have "sv \<in> set (m_subvolumes w)" "sv_Filesystem sv = fs"
    using assms(2) by (auto simp: mem_byProperty_def)
  with mem_volume_member [OF assms(1)] have "\<exists>m. mem_volume w fs m = Some sv" by blast
  with Cons show ?thesis by (simp add: mem_svc_def)
qed

interpretation memory_backend: reliable_backend mem_svc mem_invar mem_volume m_nfsShares mem_filesystems mem_path
proof
  fix w :: memory and fs n :: string and sv ps k v and p :: create_params
  assume w: "mem_invar w"
  show "\<exists>e. isNotFoundError e \<and>
      api_GetSubvolume mem_svc fs n w = ((case mem_volume w fs n of None \<Rightarrow> Inl e | Some sv \<Rightarrow> Inr (Some sv)), w)"
    by (rule exI [of _ mem_notFound]) (simp add: mem_svc_def mem_get_def mem_volume_def mem_notFound_found)
  show "\<exists>r. api_FindSubvolumeByCSIVolumeName mem_svc fs n w = (r, w) \<and>
      (case r of
         Inr (Some sv) \<Rightarrow> \<exists>m. mem_volume w fs m = Some sv
       | _ \<Rightarrow> \<forall>m sv. mem_volume w fs m = Some sv \<longrightarrow> mget (sv_Properties sv) PropertyCSIVolumeName \<noteq> n)"
    if "fs \<noteq> []" using w that by (rule mem_lookup_found)
  show "\<exists>sv w'. api_CreateSubvolume mem_svc p w = (Inr (Some (sv\<lparr>sv_Created := True\<rparr>)), w') \<and> mem_invar w' \<and>
      sv_Filesystem sv = cp_Filesystem p \<and> sv_Name sv = cp_Name p \<and> sv_Properties sv = fmempty \<and>
      mem_volume w' = put (mem_volume w) sv \<and> m_nfsShares w' = m_nfsShares w"
    if "mem_volume w (cp_Filesystem p) (cp_Name p) = None"
    using mem_create_puts [OF w that] by (simp add: mem_svc_def)
  show "sv_Filesystem sv = fs \<and> sv_Name sv = n \<and> sv_Path sv = mem_path fs n" if "mem_volume w fs n = Some sv"
    using mem_volume_place [OF that] mem_volume_in [OF that] w by (auto simp: mem_invar_def list_all_iff)
  show "\<exists>r. api_FindSubvolumesByProperty mem_svc k v fs w = (r, w) \<and>
      (\<forall>svs sv. r = Inr svs \<longrightarrow> sv \<in> set svs \<longrightarrow> (\<exists>m. mem_volume w fs m = Some sv))" if "fs \<noteq> []"
    using that mem_volume_member [OF w] by (auto simp: mem_svc_def mem_byProperty_def)
  show "\<exists>w'. api_SetSubvolumeProperties mem_svc fs n ps w = (None, w') \<and> mem_invar w' \<and>
      mem_volume w' = put (mem_volume w) (sv\<lparr>sv_Properties := sv_Properties sv ++\<^sub>f ps\<rparr>) \<and> m_nfsShares w' = m_nfsShares w"
    if "mem_volume w fs n = Some sv"
    using w that mem_volume_update [OF that, of "\<lambda>sv. sv\<lparr>sv_Properties := sv_Properties sv ++\<^sub>f ps\<rparr>"]
    by (simp add: mem_svc_def mem_setProps_def mem_volume_def mem_invar_update) (simp add: mem_update_def)
qed (auto simp: mem_svc_def mem_filesystems_def mem_id_def Let_def VolumeContextValueTrue_def)

end
