(* ===== verification/Create_Replay.thy ===== *)
theory Create_Replay
  imports Reliable_Backend Controller_Create Capacity_Checks
begin

text \<open>
  A create request may be sent again: the answer can be lost, and Kubernetes repeats it until it has
  one. Over a reliable backend, a request for an NFS volume that has once succeeded answers the same
  volume ever after and makes nothing new.
\<close>

section \<open>The capacity in a share comment\<close>

lemma name_char_not_white: "is_name_char c \<Longrightarrow> \<not> white c"
  by (auto simp: is_name_char_def is_alnum_def white_def less_eq_char_def)

lemma valid_name_not_white: "validNameRegex name \<Longrightarrow> name \<noteq> [] \<and> list_all (\<lambda>c. \<not> white c) name"
proof -
  assume "validNameRegex name"
  then have "name \<noteq> []" "list_all is_name_char name"
    by (cases name; auto simp: validNameRegex_def is_name_char_def)+
  then show ?thesis using name_char_not_white by (auto simp: list_all_iff)
qed

lemma digit_plain: "is_digit c \<Longrightarrow> \<not> white c \<and> c \<noteq> CHR ''-'' \<and> c \<noteq> CHR ''+''"
  by (auto simp: is_digit_def white_def less_eq_char_def)

lemma comment_roundtrip:
  assumes "validNameRegex name" "0 \<le> capacity" "int64 capacity"
  shows "parseCapacityFromComment (shareComment name capacity) = capacity"
proof -
  let ?rest = "'' | Capacity: '' @ format_int capacity"
  from valid_name_not_white [OF assms(1)] obtain c cs
    where name: "name = c # cs" "\<not> white c" "list_all (\<lambda>c. \<not> white c) cs"
    by (cases name) auto
  have digits: "list_all is_digit (format_int capacity)"
    using assms(2) by (simp add: format_int_def format_nat_digits)
  obtain d ds where d: "format_int capacity = d # ds" "is_digit d" "list_all is_digit ds"
    using digits assms(2) format_nat_nonempty by (cases "format_int capacity") (auto simp: format_int_def)
  have word: "scan_literal ''CSI Volume: '' (shareComment name capacity) = Some (name @ ?rest)"
    using name by (simp add: shareComment_def blank_def white_def)
  have rest: "scan_word (name @ ?rest) = Some ?rest"
    using name by (simp add: scan_word_def skip_space_def blank_def white_def dropWhile_append3 list_all_iff)
  have number: "scan_literal '' | Capacity: '' ?rest = Some (format_int capacity)"
    using d digit_plain [OF d(2)] by (simp add: blank_def white_def)
  have all: "takeWhile is_digit ds = ds" using d(3) by (simp add: takeWhile_eq_all_conv list_all_iff)
  have "scan_int (format_int capacity) = Some capacity"
    using d digit_plain [OF d(2)] atoi_format [OF assms(3)]
    by (simp add: scan_int_def skip_space_def blank_def white_def all)
  with word rest number show ?thesis
    by (simp add: parseCapacityFromComment_def) (simp add: shareComment_def)
qed

section \<open>Settled volumes\<close>

text \<open>
  What the backend has of a request that is settled: the subvolume with the identity of the request
  and a share of it whose comment does not name another capacity; the answer is built from these.
\<close>

definition nfs_answer :: "nfsVolumeParams \<Rightarrow> subvolume \<Rightarrow> nfs_share \<Rightarrow> csi_volume" where
  "nfs_answer params sv share =
     \<lparr>vol_VolumeId = subvolumeID sv, vol_CapacityBytes = np_requestedCapacity params,
      vol_VolumeContext = nfsVolumeContext (np_volumeName params) (np_server params) sv share,
      vol_ContentSource = None\<rparr>"

definition share_fits :: "nfsVolumeParams \<Rightarrow> nfs_share \<Rightarrow> bool" where
  "share_fits params share \<longleftrightarrow>
     (let c = (case nfs_Comment share of None \<Rightarrow> 0 | Some comment \<Rightarrow> parseCapacityFromComment comment)
      in c \<le> 0 \<or> c = np_requestedCapacity params)"

abbreviation share_of :: "subvolume \<Rightarrow> nfs_share list \<Rightarrow> nfs_share option" where
  "share_of sv H \<equiv> List.find (\<lambda>sh. nfs_Path sh = sv_Path sv) H"

definition nfs_settled :: "string \<Rightarrow> nfsVolumeParams \<Rightarrow> volumes \<Rightarrow> nfs_share list \<Rightarrow> csi_volume \<Rightarrow> bool" where
  "nfs_settled request params V H v \<longleftrightarrow>
     (\<exists>sv share u. V (np_filesystem params) (np_volumeName params) = Some sv \<and>
        carries (sv_Properties sv) request (np_volumeName params) ProtocolNFS u \<and> u \<noteq> [] \<and>
        share_of sv H = Some share \<and> share_fits params share \<and> v = nfs_answer params sv share)"

definition none_adoptable :: "string \<Rightarrow> volumes \<Rightarrow> bool" where
  "none_adoptable fs V \<longleftrightarrow>
     (\<forall>n sv. V fs n = Some sv \<longrightarrow> mget (sv_Properties sv) PropertyAdoptable \<noteq> VolumeContextValueTrue)"

text \<open>A rewritten subvolume carries the identity, and is not adoptable if it was not.\<close>

definition recorded_as :: "string \<Rightarrow> string \<Rightarrow> string \<Rightarrow> subvolume \<Rightarrow> subvolume \<Rightarrow> bool" where
  "recorded_as request name u sv sv' \<longleftrightarrow> same_volume sv sv' \<and> carries (sv_Properties sv') request name ProtocolNFS u \<and>
     (mget (sv_Properties sv) PropertyAdoptable \<noteq> VolumeContextValueTrue \<longrightarrow>
      mget (sv_Properties sv') PropertyAdoptable \<noteq> VolumeContextValueTrue)"

lemma recorded:
  assumes "rewritten (intendedProperties sv (Some base) (identity_map request name ProtocolNFS u)) sv sv'"
    "mget base PropertyAdoptable \<noteq> VolumeContextValueTrue"
  shows "recorded_as request name u sv sv'"
proof -
  let ?ps = "intendedProperties sv (Some base) (identity_map request name ProtocolNFS u)"
  have "fmlookup ?ps PropertyAdoptable = fmlookup base PropertyAdoptable"
    by (simp add: intendedProperties_def mergeProperties_def copyProperties_def Let_def fmlookup_identity_map fmlookup_dom_iff)
  with assms(2) have "v \<noteq> VolumeContextValueTrue" if "fmlookup ?ps PropertyAdoptable = Some v" for v
    using that by (auto simp: mget_def split: option.splits)
  with assms(1) show ?thesis
    by (auto simp: rewritten_def recorded_as_def carries_intended mget_add split: option.splits)
qed

lemma none_adoptable_put:
  "none_adoptable fs V \<Longrightarrow> mget (sv_Properties sv) PropertyAdoptable \<noteq> VolumeContextValueTrue \<Longrightarrow> none_adoptable fs (put V sv)"
  by (auto simp: none_adoptable_def put_apply)

lemma same_volume_answer:
  "same_volume sv sv' \<Longrightarrow> nfs_answer params sv' share = nfs_answer params sv share"
  "same_volume sv sv' \<Longrightarrow> share_of sv' H = share_of sv H"
  by (simp_all add: same_volume_def nfs_answer_def nfsVolumeContext_def subvolumeID_def)

text \<open>
  A request as the handler of NFS volumes gets it: its parameters are valid, its name is not taken
  from an earlier scheme of names, and the volume is not marked for adoption.
\<close>

definition nfs_request :: "'t name_lib \<Rightarrow> create_request \<Rightarrow> nfsVolumeParams \<Rightarrow> bool" where
  "nfs_request lib req params \<longleftrightarrow> validateNFSParams lib req = Inr params \<and>
     ResolveLegacyVolumeName lib (req_Parameters req) (req_Name req) = Inr (np_volumeName params) \<and>
     \<not> np_markAdoptable params \<and>
     parseCapacityFromComment (shareComment (np_volumeName params) (np_requestedCapacity params)) = np_requestedCapacity params"

lemma nfs_request_params:
  "nfs_request lib req params \<Longrightarrow>
     params\<lparr>np_markAdoptable := False, np_volumeName := np_volumeName params, np_subvolumeName := np_volumeName params,
       np_subvolumeID := np_filesystem params @ ''/'' @ np_volumeName params\<rparr> = params \<and>
     np_subvolumeName params = np_volumeName params \<and> np_filesystem params \<noteq> []"
  by (auto simp: nfs_request_def validateNFSParams_def Let_def split: if_splits sum.splits)

definition no_stale_share :: "string \<Rightarrow> subvolume option \<Rightarrow> nfs_share list \<Rightarrow> bool" where
  "no_stale_share path found H \<longleftrightarrow> found \<noteq> None \<or> list_all (\<lambda>sh. nfs_Path sh \<noteq> path) H"

text \<open>
  The requests for NFS volumes that neither adopt, clone nor restore, and whose name is either the
  name of the backend volume or not accompanied by the name of a claim.
\<close>

definition plain_create :: "'t name_lib \<Rightarrow> create_request \<Rightarrow> string \<Rightarrow> bool" where
  "plain_create lib req name \<longleftrightarrow>
     (let ps = req_Parameters req
      in mget ps ''protocol'' \<in> {[], ProtocolNFS} \<and> mget ps paramFilesystem \<noteq> [] \<and>
         req_ContentSource req \<in> {None, Some NoSource} \<and>
         mget ps ''adoptExisting'' \<noteq> VolumeContextValueTrue \<and> mget ps ''markAdoptable'' \<noteq> VolumeContextValueTrue \<and>
         ResolveVolumeName lib ps (req_Name req) = Inr name \<and> ResolveLegacyVolumeName lib ps (req_Name req) = Inr name \<and>
         (mget ps CSIPVCName = [] \<or> mget ps CSIPVCNamespace = [] \<or> name = req_Name req))"

lemma resolved_name_valid: "ResolveVolumeName lib ps r = Inr name \<Longrightarrow> validNameRegex name"
  by (auto simp: ResolveVolumeName_def renderVolumeName_def Let_def split: sum.splits if_splits option.splits)

lemma normalized_request:
  assumes "normalizeCreateCapacity req p = Inr req'"
  shows "req_Name req' = req_Name req" "req_Parameters req' = req_Parameters req"
    "req_VolumeCapabilities req' = req_VolumeCapabilities req" "req_ContentSource req' = req_ContentSource req"
    "0 < GetRequiredBytes req'" "int64 (GetRequiredBytes req')"
proof -
  obtain a where a: "protocolAlignment p = Some a"
    "req' = setRequiredBytes (round_up a (max MinVolumeSize (GetRequiredBytes req))) req"
    "max MinVolumeSize (GetRequiredBytes req) \<le> MaxVolumeSize"
    using normalizeCreateCapacity_cases [OF assms] by metis
  then show "req_Name req' = req_Name req" "req_Parameters req' = req_Parameters req"
    "req_VolumeCapabilities req' = req_VolumeCapabilities req" "req_ContentSource req' = req_ContentSource req"
    by (simp_all add: setRequiredBytes_def)
  from a have "GetRequiredBytes req' \<le> MaxVolumeSize" using round_up_le_MaxVolumeSize by simp
  moreover have "max MinVolumeSize (GetRequiredBytes req) \<le> GetRequiredBytes req'"
    using protocolAlignment_values [OF a(1)] unfolding a(2) GetBytes_setRequiredBytes by (intro round_up_bounds(1)) auto
  ultimately show "0 < GetRequiredBytes req'" "int64 (GetRequiredBytes req')"
    by (simp_all add: MinVolumeSize_def MaxVolumeSize_def int64_def)
qed

lemma plain_create_params:
  assumes "plain_create lib req name" "normalizeCreateCapacity req ProtocolNFS = Inr req'" "validateNFSParams lib req' = Inr params"
  shows "nfs_request lib req' params" "np_volumeName params = name" "np_filesystem params = mget (req_Parameters req) paramFilesystem"
proof -
  note req' = normalized_request [OF assms(2)]
  from assms(1) have names: "ResolveVolumeName lib (req_Parameters req) (req_Name req) = Inr name"
    "ResolveLegacyVolumeName lib (req_Parameters req) (req_Name req) = Inr name"
    by (simp_all add: plain_create_def Let_def)
  with assms(3) have params: "np_volumeName params = name" "np_filesystem params = mget (req_Parameters req) paramFilesystem"
    "np_requestedCapacity params = GetRequiredBytes req'"
    "np_markAdoptable params \<longleftrightarrow> mget (req_Parameters req) ''markAdoptable'' = VolumeContextValueTrue"
    using req'(5) by (auto simp: validateNFSParams_def req'(1,2) defaultCapacity_def Let_def split: if_splits sum.splits)
  then show "np_volumeName params = name" "np_filesystem params = mget (req_Parameters req) paramFilesystem" by simp_all
  show "nfs_request lib req' params"
    using assms params names comment_roundtrip [OF resolved_name_valid [OF names(1)] _ req'(6)] req'(5)
    by (simp add: nfs_request_def req'(1,2) plain_create_def Let_def)
qed

lemma matchPVCNamespace_in:
  "matchPVCNamespace ns svs found = Inr (Some sv) \<Longrightarrow> found = Some sv \<or> sv \<in> set svs"
  by (induction ns svs found rule: matchPVCNamespace.induct) (auto split: if_splits)

lemma wp_ret_eta: "wp (ret x) Q = Q x"
  by (rule ext) (simp add: wp_return)

text \<open>The state after the request has been repeated.\<close>

definition replays :: "'w svc \<Rightarrow> create_request \<Rightarrow> nat \<Rightarrow> 'w controller \<Rightarrow> 'w controller" where
  "replays S req n = (\<lambda>s. snd (run_state (CreateVolume S req) s)) ^^ n"

context reliable_backend
begin

lemma wp_properties_at:
  assumes "at s V H" "\<not> np_markAdoptable params"
    and "\<And>base s'. at s' V H \<Longrightarrow> mget base PropertyAdoptable \<noteq> VolumeContextValueTrue \<Longrightarrow> Q base s'"
  shows "wp (nfsPropertiesV1 S params) Q s"
  unfolding nfsPropertiesV1_def wp_bind
  by (rule wp_clock_at [OF assms(1)]) (use assms(2) in \<open>auto simp: wp_return intro!: assms(3) adoptable\<close>)

lemma wp_write_at:
  assumes at: "at s V H" and sv: "V (sv_Filesystem sv) (sv_Name sv) = Some sv" and params: "\<not> np_markAdoptable params"
    and k: "\<And>sv' copy s'. recorded_as request name u sv sv' \<Longrightarrow> same_volume sv copy \<Longrightarrow> at s' (put V sv') H \<Longrightarrow>
      wp (k (None, copy)) Q s'"
  shows "wp (do { base \<leftarrow> nfsPropertiesV1 S params;
      p \<leftarrow> persistVolumeIdentity S (sv\<lparr>sv_Created := c\<rparr>) (Some base)
        \<lparr>vid_properties = Some (identity_map request name ProtocolNFS u), vid_persist = persist\<rparr>;
      k p }) Q s"
  unfolding wp_bind
  by (rule wp_properties_at [OF at params], rule wp_persist_at, assumption, rule sv) (auto intro: k recorded)

lemmas wp_write_self_at = wp_write_at [where c = "sv_Created sv" and sv = sv for sv, simplified]

lemma wp_existing_at:
  assumes at: "at s V H" and sv: "V (sv_Filesystem sv) (sv_Name sv) = Some sv" and params: "\<not> np_markAdoptable params"
    and none: "\<And>s'. share_of sv H = None \<Longrightarrow> at s' V H \<Longrightarrow> Q (Inr None) s'"
    and clash: "\<And>share e s'. share_of sv H = Some share \<Longrightarrow> \<not> share_fits params share \<Longrightarrow> Q (Inl e) s'"
    and some: "\<And>share sv' s'. share_of sv H = Some share \<Longrightarrow> share_fits params share \<Longrightarrow>
      recorded_as request name u sv sv' \<Longrightarrow> at s' (put V sv') H \<Longrightarrow> Q (Inr (Some (nfs_answer params sv share))) s'"
  shows "wp (handleExistingNFSSubvolume S params sv
    \<lparr>vid_properties = Some (identity_map request name ProtocolNFS u), vid_persist = persist\<rparr>) Q s"
proof -
  let ?c = "\<lambda>share. case nfs_Comment share of None \<Rightarrow> 0 | Some c \<Rightarrow> parseCapacityFromComment c"
  have answer: "nfs_answer params sv share = \<lparr>vol_VolumeId = subvolumeID copy, 
      vol_CapacityBytes = if ?c share > 0 then ?c share else np_requestedCapacity params,
      vol_VolumeContext = nfsVolumeContext (np_volumeName params) (np_server params) copy share, vol_ContentSource = None\<rparr>"
    if "share_fits params share" "same_volume sv copy" for share copy
    using that by (auto simp: nfs_answer_def share_fits_def same_volume_def nfsVolumeContext_def subvolumeID_def Let_def)
  have fits: "\<not> share_fits params share \<longleftrightarrow> ?c share > 0 \<and> ?c share \<noteq> np_requestedCapacity params" for share
    by (auto simp: share_fits_def Let_def)
  show ?thesis
    unfolding handleExistingNFSSubvolume_def wp_bind [of "quiet (api_ListNFSShares S)"]
  proof (rule wp_list_shares_at [OF at], goal_cases)
    case (1 s1)
    note s1 = 1
    show ?case
    proof (cases "share_of sv H")
      case None
      with s1 show ?thesis by (simp add: wp_return none)
    next
      case (Some share)
      show ?thesis
        apply (simp only: sum.case Some option.case Let_def fits [symmetric] wp_if wp_return)
        apply (cases "share_fits params share")
        apply (simp_all only: if_True if_False not_True_eq_False not_False_eq_True)
        apply (rule wp_write_self_at [OF s1], rule sv, rule params)
        apply (simp only: prod.case option.case wp_bind wp_return buildNFSVolumeResponseFromSubvolume_def wp_SetVolumeCapacity answer [symmetric])
        apply (rule some [OF Some], assumption, assumption, simp)
        apply (rule clash [OF Some], assumption)
        done
    qed
  qed
qed

text \<open>Creation of the share is the last step, and succeeds.\<close>

lemma wp_finish_at:
  assumes at: "at s V H" and sv: "V (sv_Filesystem sv) (sv_Name sv) = Some sv" and params: "\<not> np_markAdoptable params"
    and free: "share_of sv H = None"
    and comment: "parseCapacityFromComment (shareComment (np_volumeName params) (np_requestedCapacity params)) = np_requestedCapacity params"
    and Q: "\<And>share sv' s'. share_of sv (H @ [share]) = Some share \<Longrightarrow> share_fits params share \<Longrightarrow>
      recorded_as request name u sv sv' \<Longrightarrow> at s' (put V sv') (H @ [share]) \<Longrightarrow> Q (Inr (nfs_answer params sv share)) s'"
  shows "wp (finishNFSVolume S params (sv\<lparr>sv_Created := c\<rparr>)
    \<lparr>vid_properties = Some (identity_map request name ProtocolNFS u), vid_persist = persist\<rparr> created) Q s"
  unfolding finishNFSVolume_def
proof (rule wp_write_at [OF at, OF sv params], goal_cases)
  case (1 sv' copy s1)
  note s1 = 1
  have answer: "nfs_answer params sv share = \<lparr>vol_VolumeId = subvolumeID copy, vol_CapacityBytes = np_requestedCapacity params,
      vol_VolumeContext = nfsVolumeContext (np_volumeName params) (np_server params) copy share, vol_ContentSource = None\<rparr>" for share
    using s1(2) by (simp add: nfs_answer_def same_volume_def nfsVolumeContext_def subvolumeID_def)
  from s1(2) have path: "sv_Path copy = sv_Path sv" by (simp add: same_volume_def)
  show ?case
    apply (simp only: prod.case option.case wp_bind createNFSShareForSubvolume_def path)
    apply (rule wp_create_share_at [OF s1(3)])
    apply (simp add: wp_rules buildNFSVolumeResponseFromSubvolume_def answer [symmetric])
    apply (rule Q)
    apply (simp_all add: find_append free share_fits_def comment s1(1))
    done
qed

lemma wp_select_at:
  assumes "at s V H" "ResolveLegacyVolumeName (svc_names S) (req_Parameters req) (req_Name req) = Inr n"
    and "\<And>s'. V fs n = None \<Longrightarrow> at s' V H \<Longrightarrow> Q (Inr (None, n, noDecision)) s'"
    and "\<And>sv s'. V fs n = Some sv \<Longrightarrow> at s' V H \<Longrightarrow> wp (decideExistingVolumeIdentity S req protocol n sv)
      (\<lambda>d. Q (case d of Inl e \<Rightarrow> Inl e | Inr decision \<Rightarrow> Inr (Some sv, n, decision))) s'"
  shows "wp (selectExistingCreateSubvolume S req fs n protocol) Q s"
  unfolding selectExistingCreateSubvolume_def assms(2) sum.case wp_bind
  by (rule wp_getOptional_at [OF assms(1)]) (auto simp: wp_rules wp_ret_eta assms(3,4) split: option.split)

lemma settledI:
  assumes "V (sv_Filesystem sv) (sv_Name sv) = Some sv" "sv_Filesystem sv = np_filesystem params" "sv_Name sv = np_volumeName params"
    "recorded_as request (np_volumeName params) u sv sv'" "u \<noteq> []" "share_of sv H = Some share" "share_fits params share"
  shows "nfs_settled request params (put V sv') H (nfs_answer params sv share)"
proof -
  from assms(4) have same: "same_volume sv sv'" and carries: "carries (sv_Properties sv') request (np_volumeName params) ProtocolNFS u"
    by (simp_all add: recorded_as_def)
  from same assms(2,3) have "put V sv' (np_filesystem params) (np_volumeName params) = Some sv'"
    by (simp add: put_apply same_volume_def)
  with carries same_volume_answer [OF same] assms(5-7) show ?thesis unfolding nfs_settled_def by metis
qed

lemma none_adoptable_recorded:
  "none_adoptable fs V \<Longrightarrow> V fs n = Some sv \<Longrightarrow> recorded_as request name u sv sv' \<Longrightarrow> none_adoptable fs (put V sv')"
  by (rule none_adoptable_put) (auto simp: none_adoptable_def recorded_as_def)

text \<open>The two ways of \<^verbatim>\<open>createNFSVolume\<close>: a subvolume of the name exists, or is created.\<close>

abbreviation take_over :: "nfsVolumeParams \<Rightarrow> subvolume \<Rightarrow> volumeIdentityDecision \<Rightarrow> ('w, failure + csi_volume) op" where
  "take_over params sv d \<equiv> do {
     h \<leftarrow> handleExistingNFSSubvolume S params sv d;
     case h of Inl e \<Rightarrow> ret (Inl e) | Inr (Some resp) \<Rightarrow> ret (Inr resp)
     | Inr None \<Rightarrow> finishNFSVolume S params sv d False }"

lemma wp_createNFSVolume_at:
  assumes at: "at s V H" and req: "nfs_request (svc_names S) req params" and kube: "\<not> svc_kubeClient S"
    and new: "\<And>sv u s'. V (np_filesystem params) (np_volumeName params) = None \<Longrightarrow> at s' (put V sv) H \<Longrightarrow> u \<noteq> [] \<Longrightarrow>
      sv_Filesystem sv = np_filesystem params \<Longrightarrow> sv_Name sv = np_volumeName params \<Longrightarrow> sv_Properties sv = fmempty \<Longrightarrow>
      wp (finishNFSVolume S params (sv\<lparr>sv_Created := True\<rparr>)
        \<lparr>vid_properties = Some (identity_map (req_Name req) (np_volumeName params) ProtocolNFS u), vid_persist = True\<rparr> True) Q s'"
    and old: "\<And>sv s'. V (np_filesystem params) (np_volumeName params) = Some sv \<Longrightarrow> at s' V H \<Longrightarrow>
      wp (decideExistingVolumeIdentity S req ProtocolNFS (np_volumeName params) sv)
        (\<lambda>d. case d of Inl e \<Rightarrow> Q (Inl e) | Inr d \<Rightarrow> wp (take_over params sv d) Q) s'"
  shows "wp (createNFSVolume S req) Q s"
proof -
  from req have valid: "validateNFSParams (svc_names S) req = Inr params"
    and legacy: "ResolveLegacyVolumeName (svc_names S) (req_Parameters req) (req_Name req) = Inr (np_volumeName params)"
    and mark: "\<not> np_markAdoptable params"
    by (simp_all add: nfs_request_def)
  note params = nfs_request_params [OF req]
  show ?thesis
    unfolding createNFSVolume_def valid sum.case
    apply (simp only: mark if_False wp_bind [of "ret False"] wp_bind [of "selectExistingCreateSubvolume _ _ _ _ _"]
        pvcHasAdoptableAnnotation_def kube simp_thms if_True wp_return params)
    apply (rule wp_select_at [OF at legacy])
    subgoal for s1
      apply (simp only: sum.case prod.case option.case Let_def params wp_bind newVolumeIdentityDecision_def)
      apply (rule wp_accept_at, assumption)
      apply (simp only: sum.case wp_bind)
      apply (rule wp_create_at, assumption)
      apply (simp add: subvolumeCreateParams_def)
      apply (simp only: sum.case option.case)
      apply (simp add: subvolumeCreateParams_def wp_if)
      apply (rule new)
      apply auto
      done
    subgoal for sv s1
      apply (rule wp_mono [OF old], assumption, assumption)
      subgoal for d s2
        by (cases d) (simp_all only: sum.case prod.case option.case Let_def params wp_return)
      done
    done
qed

text \<open>What a successful run leaves: the volume settled, and still none to adopt.\<close>

definition left_settled :: "string \<Rightarrow> nfsVolumeParams \<Rightarrow> csi_volume \<Rightarrow> 'w controller \<Rightarrow> bool" where
  "left_settled request params v s \<longleftrightarrow>
     (\<exists>V H. at s V H \<and> none_adoptable (np_filesystem params) V \<and> nfs_settled request params V H v)"

lemma left_settledI:
  assumes "at s (put V sv') H" "none_adoptable (np_filesystem params) V" "V (np_filesystem params) (np_volumeName params) = Some sv"
    "sv_Filesystem sv = np_filesystem params" "sv_Name sv = np_volumeName params"
    "recorded_as request (np_volumeName params) u sv sv'" "u \<noteq> []" "share_of sv H = Some share" "share_fits params share"
  shows "left_settled request params (nfs_answer params sv share) s"
  using assms none_adoptable_recorded [OF assms(2,3,6)] settledI [OF _ assms(4-9)] by (auto simp: left_settled_def)

lemma wp_finish_settles:
  assumes at: "at s V H" and req: "nfs_request lib req params" and sv: "V (np_filesystem params) (np_volumeName params) = Some sv"
    and free: "share_of sv H = None" and none: "none_adoptable (np_filesystem params) V" and u: "u \<noteq> []"
    and Q: "\<And>v s'. left_settled request params v s' \<Longrightarrow> Q (Inr v) s'"
  shows "wp (finishNFSVolume S params (sv\<lparr>sv_Created := c\<rparr>)
      \<lparr>vid_properties = Some (identity_map request (np_volumeName params) ProtocolNFS u), vid_persist = persist\<rparr> created) Q s"
proof (rule wp_finish_at [OF at _ _ free])
  show "V (sv_Filesystem sv) (sv_Name sv) = Some sv" using at_place [OF at sv] sv by simp
qed (use req none u sv at_place [OF at sv] in \<open>auto simp: nfs_request_def intro!: Q left_settledI [where V = V and u = u]\<close>)

lemma createNFSVolume_settles:
  assumes at: "at s V H" and req: "nfs_request (svc_names S) req params" and kube: "\<not> svc_kubeClient S"
    and none: "none_adoptable (np_filesystem params) V" 
    and stale: "no_stale_share (path_of (np_filesystem params) (np_volumeName params)) (V (np_filesystem params) (np_volumeName params)) H"
  shows "wp (createNFSVolume S req) (\<lambda>r s'. (\<forall>v. r = Inr v \<longrightarrow> left_settled (req_Name req) params v s') \<and>
      (V (np_filesystem params) (np_volumeName params) = None \<longrightarrow> (\<exists>v. r = Inr v))) s"
    (is "wp _ ?Q s")
proof (rule wp_createNFSVolume_at [OF at req kube])
  let ?fs = "np_filesystem params" and ?n = "np_volumeName params"
  fix sv s1
  { fix u :: string assume s1: "at s1 (put V sv) H" and free: "V ?fs ?n = None" and u: "u \<noteq> []"
      and sv: "sv_Filesystem sv = ?fs" "sv_Name sv = ?n" "sv_Properties sv = fmempty"
    from sv have put: "put V sv ?fs ?n = Some sv" by (simp add: put_apply)
    have "none_adoptable ?fs (put V sv)"
      by (rule none_adoptable_put [OF none]) (simp add: sv(3) VolumeContextValueTrue_def)
    moreover have "share_of sv H = None"
      using at_place [OF s1 put] free stale by (auto simp: no_stale_share_def list_all_iff find_None_iff)
    ultimately show "wp (finishNFSVolume S params (sv\<lparr>sv_Created := True\<rparr>)
        \<lparr>vid_properties = Some (identity_map (req_Name req) ?n ProtocolNFS u), vid_persist = True\<rparr> True) ?Q s1"
      by (intro wp_finish_settles [OF s1 req put _ _ u]) auto }
  assume sv: "V ?fs ?n = Some sv" and s1: "at s1 V H"
  have mark: "\<not> np_markAdoptable params" using req by (simp add: nfs_request_def)
  have "wp (take_over params sv
      \<lparr>vid_properties = Some (identity_map (req_Name req) ?n ProtocolNFS u), vid_persist = persist\<rparr>) ?Q s2"
    if "at s2 V H" "u \<noteq> []" for u persist s2
    unfolding wp_bind
    using at_place [OF s1 sv] sv wp_finish_settles [OF _ req sv _ none that(2), where c = "sv_Created sv" and Q = ?Q]
    by (intro wp_existing_at [OF that(1) _ mark]) (auto simp: wp_return intro!: left_settledI [where V = V and u = u] none that(2))
  then show "wp (decideExistingVolumeIdentity S req ProtocolNFS ?n sv)
      (\<lambda>d. case d of Inl e \<Rightarrow> ?Q (Inl e) | Inr d \<Rightarrow> wp (take_over params sv d) ?Q) s1"
    by (intro wp_decide_at [OF s1]) (simp_all add: sv)
qed

text \<open>A settled volume is answered again; its properties may be refreshed, and nothing is made.\<close>

definition answered_again :: "string \<Rightarrow> nfsVolumeParams \<Rightarrow> csi_volume \<Rightarrow> volumes \<Rightarrow> nfs_share list \<Rightarrow> failure + csi_volume \<Rightarrow> 'w controller \<Rightarrow> bool" where
  "answered_again request params v V H r s \<longleftrightarrow> r = Inr v \<and>
     (\<exists>V'. at s V' H \<and> none_adoptable (np_filesystem params) V' \<and> nfs_settled request params V' H v \<and>
        (\<forall>fs n. V' fs n = None \<longleftrightarrow> V fs n = None))"

lemma answered_againI:
  assumes "at s (put V sv') H" "none_adoptable (np_filesystem params) V" "V (np_filesystem params) (np_volumeName params) = Some sv"
    "sv_Filesystem sv = np_filesystem params" "sv_Name sv = np_volumeName params"
    "recorded_as request (np_volumeName params) u sv sv'" "u \<noteq> []" "share_of sv H = Some share" "share_fits params share"
  shows "answered_again request params (nfs_answer params sv share) V H (Inr (nfs_answer params sv share)) s"
proof -
  have "\<forall>fs n. put V sv' fs n = None \<longleftrightarrow> V fs n = None"
    using assms(3-6) by (auto simp: put_apply recorded_as_def same_volume_def)
  with assms none_adoptable_recorded [OF assms(2,3,6)] settledI [OF _ assms(4-9)] show ?thesis
    by (auto simp: answered_again_def)
qed

lemma createNFSVolume_again:
  assumes at: "at s V H" and req: "nfs_request (svc_names S) req params" and kube: "\<not> svc_kubeClient S"
    and none: "none_adoptable (np_filesystem params) V" and settled: "nfs_settled (req_Name req) params V H v"
  shows "wp (createNFSVolume S req) (answered_again (req_Name req) params v V H) s"
proof (rule wp_createNFSVolume_at [OF at req kube])
  let ?fs = "np_filesystem params" and ?n = "np_volumeName params" and ?Q = "answered_again (req_Name req) params v V H"
  from settled obtain sv share u where sv: "V ?fs ?n = Some sv" "carries (sv_Properties sv) (req_Name req) ?n ProtocolNFS u" "u \<noteq> []"
    and share: "share_of sv H = Some share" "share_fits params share" and v: "v = nfs_answer params sv share"
    by (auto simp: nfs_settled_def)
  have mark: "\<not> np_markAdoptable params" using req by (simp add: nfs_request_def)
  fix sv1 s1 assume sv1: "V ?fs ?n = Some sv1" and s1: "at s1 V H"
  from sv1 sv have same: "sv1 = sv" by simp
  have "wp (take_over params sv
      \<lparr>vid_properties = Some (identity_map (req_Name req) ?n ProtocolNFS u), vid_persist = False\<rparr>) ?Q s1"
    unfolding wp_bind v using at_place [OF at sv(1)] sv share
    by (intro wp_existing_at [OF s1 _ mark]) (auto simp: wp_return intro!: answered_againI [where u = u] none)
  then show "wp (decideExistingVolumeIdentity S req ProtocolNFS ?n sv1)
      (\<lambda>d. case d of Inl e \<Rightarrow> ?Q (Inl e) | Inr d \<Rightarrow> wp (take_over params sv1 d) ?Q) s1"
    unfolding same decide_carried [OF sv(2,3)] by (simp add: wp_return)
qed (use settled in \<open>simp add: nfs_settled_def\<close>)

section \<open>The whole request\<close>

lemma wp_adoption_at:
  assumes at: "at s V H" and fs: "mget ps paramFilesystem \<noteq> []" and none: "none_adoptable (mget ps paramFilesystem) V"
    and plain: "mget ps ''adoptExisting'' \<noteq> VolumeContextValueTrue"
    and go: "\<And>s'. at s' V H \<Longrightarrow> Q None s'"
    and stop: "\<And>e s'. at s' V H \<Longrightarrow> mget ps CSIPVCName \<noteq> [] \<and> mget ps CSIPVCNamespace \<noteq> [] \<Longrightarrow>
      (\<And>m sv. V (mget ps paramFilesystem) m = Some sv \<Longrightarrow> mget (sv_Properties sv) PropertyCSIVolumeName \<noteq> req_Name req) \<Longrightarrow>
      Q (Some (Inl e)) s'"
  shows "wp (checkAndAdoptVolume S req ps protocol) Q s"
proof -
  let ?fs = "mget ps paramFilesystem"
  define K where "K f = wp (case f of
      Inl adoptionErr \<Rightarrow> ret (Some (Inl adoptionErr))
    | Inr None \<Rightarrow> ret None
    | Inr (Some sv) \<Rightarrow>
        if \<not> IsVolumeAdoptable (sv_Properties sv) then ret None
        else if mget (sv_Properties sv) PropertyAdoptable \<noteq> VolumeContextValueTrue \<and> \<not> mget ps ''adoptExisting'' = VolumeContextValueTrue
        then ret None
        else if mget (sv_Properties sv) PropertyProtocol \<noteq> protocol
        then ret (Some (Inl (Status FailedPrecondition)))
        else do { a \<leftarrow> adoptVolume S req sv ps protocol; ret (Some a) }) Q" for f
  have K: "K (Inr (Some sv)) s1" "K (Inr None) s1" if "at s1 V H" "V ?fs m = Some sv" for s1 m sv
    using none that plain go by (auto simp: K_def none_adoptable_def wp_return)
  have none: "K (Inr None) s1" if "at s1 V H" for s1
    using that go by (simp add: K_def wp_return)
  have pvc: "wp (findSubvolumeByPVCIdentity S ps ?fs) K s1"
    if s1: "at s1 V H" and unnamed: "\<And>m sv. V ?fs m = Some sv \<Longrightarrow> mget (sv_Properties sv) PropertyCSIVolumeName \<noteq> req_Name req" for s1
  proof (cases "mget ps CSIPVCName = [] \<or> mget ps CSIPVCNamespace = []")
    case True
    with s1 show ?thesis by (simp add: findSubvolumeByPVCIdentity_def wp_return none)
  next
    case False
    have match: "K (case r of Inl _ \<Rightarrow> Inl (Status Internal) | Inr svs \<Rightarrow> matchPVCNamespace (mget ps CSIPVCNamespace) svs None) s2"
      if s2: "at s2 V H" and r: "\<And>svs sv. r = Inr svs \<Longrightarrow> sv \<in> set svs \<Longrightarrow> \<exists>m. V ?fs m = Some sv" for r s2
    proof -
      have "K (Inl e) s2" for e using stop [OF s2 _ unnamed] False by (simp add: K_def wp_return)
      moreover have "K (Inr found) s2" if "r = Inr svs" "matchPVCNamespace (mget ps CSIPVCNamespace) svs None = Inr found" for svs found
        using that r K(1) [OF s2] none [OF s2] by (cases found) (auto dest!: matchPVCNamespace_in)
      ultimately show ?thesis
        by (cases r; cases "matchPVCNamespace (mget ps CSIPVCNamespace) (projr r) None") auto
    qed
    from False show ?thesis
      unfolding findSubvolumeByPVCIdentity_def FindSubvolumesByProperty_def
      by (simp add: wp_bind wp_ret_eta) (rule wp_search_at [OF s1 fs], rule match)
  qed
  show ?thesis
    unfolding checkAndAdoptVolume_def Let_def wp_bind FindSubvolumeByCSIVolumeName_def K_def [symmetric]
  proof (rule wp_lookup_at [OF at fs])
    fix m sv s1 assume "at s1 V H" "V ?fs m = Some sv"
    from K(1) [OF this] show "wp (case Inr (Some sv) of Inr (Some sv) \<Rightarrow> ret (Inr (Some sv)) | _ \<Rightarrow> findSubvolumeByPVCIdentity S ps ?fs) K s1"
      by (simp add: wp_return)
  next
    fix r :: "go_error + subvolume option" and s1
    assume r: "\<And>sv. r \<noteq> Inr (Some sv)" and "at s1 V H"
      "\<And>m sv. V ?fs m = Some sv \<Longrightarrow> mget (sv_Properties sv) PropertyCSIVolumeName \<noteq> req_Name req"
    then have "wp (findSubvolumeByPVCIdentity S ps ?fs) K s1" by (intro pvc)
    with r show "wp (case r of Inr (Some sv) \<Rightarrow> ret (Inr (Some sv)) | _ \<Rightarrow> findSubvolumeByPVCIdentity S ps ?fs) K s1"
      by (auto split: sum.split option.split)
  qed
qed

definition encryption_refused :: "smap \<Rightarrow> failure option" where
  "encryption_refused ps =
     (if \<not> equal_fold (mget ps ''encryption'') ''true'' then None
      else if mget ps paramFilesystem = [] then Some (Status InvalidArgument)
      else case filesystems (mget ps paramFilesystem) of
        Inl _ \<Rightarrow> Some (Status Internal)
      | Inr None \<Rightarrow> Some NilDeref
      | Inr (Some fs) \<Rightarrow> if fs_Encrypted fs \<noteq> Some True then Some (Status InvalidArgument) else None)"

lemma wp_encryption_at:
  assumes "at s V H" "\<And>s'. at s' V H \<Longrightarrow> Q (encryption_refused ps) s'"
  shows "wp (encryptionCheck S ps) Q s"
  using assms(2) [unfolded encryption_refused_def] assms(1)
  unfolding encryptionCheck_def wp_if wp_bind wp_return wp_ret_eta
  by (auto intro!: wp_query_at [OF assms(1)])

text \<open>What a request passes before it reaches the handler of its protocol, for an NFS volume.\<close>

definition accepted :: "create_request \<Rightarrow> create_request \<Rightarrow> nfsVolumeParams \<Rightarrow> bool" where
  "accepted req req' params \<longleftrightarrow> validateCreateVolumeRequest req = None \<and>
     normalizeCreateCapacity req ProtocolNFS = Inr req' \<and>
     validateAccessModeForProtocol (req_VolumeCapabilities req') ProtocolNFS = None \<and>
     encryption_refused (req_Parameters req) = None \<and> nfs_request (svc_names S) req' params"

lemma wp_CreateVolume_at:
  assumes at: "at s V H" and plain: "plain_create (svc_names S) req name" and none: "none_adoptable (mget (req_Parameters req) paramFilesystem) V"
    and go: "\<And>req' params s'. accepted req req' params \<Longrightarrow> at s' V H \<Longrightarrow> wp (createNFSVolume S req') Q s'"
    and stop: "\<And>e s'. (\<nexists>req' params. accepted req req' params) \<or>
      mget (req_Parameters req) CSIPVCName \<noteq> [] \<and> mget (req_Parameters req) CSIPVCNamespace \<noteq> [] \<and> name = req_Name req \<and>
      (\<forall>m sv. V (mget (req_Parameters req) paramFilesystem) m = Some sv \<longrightarrow> mget (sv_Properties sv) PropertyCSIVolumeName \<noteq> name) \<Longrightarrow>
      Q (Inl e) s'"
  shows "wp (CreateVolume S req) Q s"
proof -
  let ?ps = "req_Parameters req"
  have protocol: "orDefault (mget ?ps ''protocol'') ProtocolNFS = ProtocolNFS"
    and content: "req_ContentSource req \<in> {None, Some NoSource}"
    and fs: "mget ?ps paramFilesystem \<noteq> []" and adopt: "mget ?ps ''adoptExisting'' \<noteq> VolumeContextValueTrue"
    and pvc: "mget ?ps CSIPVCName \<noteq> [] \<and> mget ?ps CSIPVCNamespace \<noteq> [] \<Longrightarrow> name = req_Name req"
    using plain by (auto simp: plain_create_def orDefault_def Let_def)
  show ?thesis
  proof (cases "validateCreateVolumeRequest req = None \<and> (\<exists>req'. normalizeCreateCapacity req ProtocolNFS = Inr req' \<and>
      validateAccessModeForProtocol (req_VolumeCapabilities req') ProtocolNFS = None)")
    case False
    then have "Q (Inl e) s" for e by (intro stop) (auto simp: accepted_def)
    with False show ?thesis
      by (auto simp: CreateVolume_def protocol Let_def wp_return split: option.split sum.split)
  next
    case True
    then obtain req' where checks: "validateCreateVolumeRequest req = None" "normalizeCreateCapacity req ProtocolNFS = Inr req'"
      "validateAccessModeForProtocol (req_VolumeCapabilities req') ProtocolNFS = None" by blast
    note req' = normalized_request [OF checks(2)]
    have content: "handleVolumeContentSource S req' ProtocolNFS = ret None"
      using content by (auto simp: handleVolumeContentSource_def req'(4))
    have create: "wp (createNFSVolume S req') Q s1" if "at s1 V H" "encryption_refused ?ps = None" for s1
    proof (cases "validateNFSParams (svc_names S) req'")
      case (Inl e)
      then have "Q (Inl e) s1" by (intro stop) (auto simp: accepted_def checks nfs_request_def)
      with Inl show ?thesis by (simp add: createNFSVolume_def wp_return)
    next
      case (Inr params)
      with plain_create_params(1) [OF plain checks(2)] checks that show ?thesis by (intro go) (auto simp: accepted_def)
    qed
    let ?K = "\<lambda>a. wp (case a of Some r \<Rightarrow> ret r
        | None \<Rightarrow> do { e \<leftarrow> encryptionCheck S ?ps;
                     case e of Some err \<Rightarrow> ret (Inl err) | None \<Rightarrow> createVolumeByProtocol S req' ProtocolNFS }) Q"
    have adopted: "wp (checkAndAdoptVolume S req' ?ps ProtocolNFS) ?K s"
    proof (rule wp_adoption_at [OF at fs none adopt])
      fix s1 assume "at s1 V H"
      then show "?K None s1"
        unfolding option.case wp_bind
        by (rule wp_encryption_at)
          (auto simp: createVolumeByProtocol_def wp_return accepted_def intro: create stop split: option.split)
    next
      fix e s1
      assume "mget ?ps CSIPVCName \<noteq> [] \<and> mget ?ps CSIPVCNamespace \<noteq> []"
        "\<And>m sv. V (mget ?ps paramFilesystem) m = Some sv \<Longrightarrow> mget (sv_Properties sv) PropertyCSIVolumeName \<noteq> req_Name req'"
      with pvc show "?K (Some (Inl e)) s1" by (auto simp: req'(1) wp_return intro!: stop)
    qed
    show ?thesis
      using adopted by (simp add: CreateVolume_def protocol Let_def checks content wp_bind wp_return protocol_neq)
  qed
qed

lemma CreateVolume_settles:
  assumes at: "at s V H" and plain: "plain_create (svc_names S) req name" and kube: "\<not> svc_kubeClient S"
    and none: "none_adoptable (mget (req_Parameters req) paramFilesystem) V"
    and stale: "no_stale_share (path_of (mget (req_Parameters req) paramFilesystem) name) (V (mget (req_Parameters req) paramFilesystem) name) H"
  shows "wp (CreateVolume S req) (\<lambda>r s'.
    (\<forall>v. r = Inr v \<longrightarrow> (\<exists>req' params. accepted req req' params \<and> left_settled (req_Name req) params v s')) \<and>
    ((\<exists>req' params. accepted req req' params) \<and> V (mget (req_Parameters req) paramFilesystem) name = None \<and>
     (mget (req_Parameters req) CSIPVCName = [] \<or> mget (req_Parameters req) CSIPVCNamespace = []) \<longrightarrow> (\<exists>v. r = Inr v))) s" (is "wp _ ?Q s")
proof (rule wp_CreateVolume_at [OF at plain none])
  fix req' params s1 assume ok: "accepted req req' params" and s1: "at s1 V H"
  from ok have req': "normalizeCreateCapacity req ProtocolNFS = Inr req'" "nfs_request (svc_names S) req' params"
    and valid: "validateNFSParams (svc_names S) req' = Inr params" by (simp_all add: accepted_def nfs_request_def)
  note params = plain_create_params(2,3) [OF plain req'(1) valid]
  show "wp (createNFSVolume S req') ?Q s1"
    by (rule wp_mono [OF createNFSVolume_settles [OF s1 req'(2) kube]])
      (use none stale params ok normalized_request(1) [OF req'(1)] in auto)
qed auto

lemma CreateVolume_again:
  assumes at: "at s V H" and plain: "plain_create (svc_names S) req name" and kube: "\<not> svc_kubeClient S"
    and ok: "accepted req req' params" and none: "none_adoptable (np_filesystem params) V"
    and settled: "nfs_settled (req_Name req) params V H v"
  shows "wp (CreateVolume S req) (answered_again (req_Name req) params v V H) s"
proof -
  from ok have req': "normalizeCreateCapacity req ProtocolNFS = Inr req'" "nfs_request (svc_names S) req' params"
    and valid: "validateNFSParams (svc_names S) req' = Inr params" by (simp_all add: accepted_def nfs_request_def)
  note params = plain_create_params(2,3) [OF plain req'(1) valid] and name = normalized_request(1) [OF req'(1)]
  show ?thesis
  proof (rule wp_CreateVolume_at [OF at plain none [unfolded params]])
    fix req'' params'' s1 assume "accepted req req'' params''" and s1: "at s1 V H"
    with req' valid have "req'' = req'" by (auto simp: accepted_def)
    with createNFSVolume_again [OF s1 req'(2) kube none] settled name
    show "wp (createNFSVolume S req'') (answered_again (req_Name req) params v V H) s1" by simp
  next
    fix e s1
    assume "(\<nexists>req' params. accepted req req' params) \<or>
      mget (req_Parameters req) CSIPVCName \<noteq> [] \<and> mget (req_Parameters req) CSIPVCNamespace \<noteq> [] \<and> name = req_Name req \<and>
      (\<forall>m sv. V (mget (req_Parameters req) paramFilesystem) m = Some sv \<longrightarrow> mget (sv_Properties sv) PropertyCSIVolumeName \<noteq> name)"
    with ok settled params show "answered_again (req_Name req) params v V H (Inl e) s1"
      by (auto simp: nfs_settled_def carries_def)
  qed
qed

lemma replays_settled:
  assumes "at s V H" and plain: "plain_create (svc_names S) req name" and kube: "\<not> svc_kubeClient S"
    and ok: "accepted req req' params" and "none_adoptable (np_filesystem params) V" "nfs_settled (req_Name req) params V H v"
  shows "answered_again (req_Name req) params v V H (fst (run_state (CreateVolume S req) (replays S req n s)))
    (snd (run_state (CreateVolume S req) (replays S req n s)))"
proof (induction n)
  case 0
  show ?case using CreateVolume_again [OF assms] by (simp add: wp_def replays_def split: prod.splits)
next
  case (Suc n)
  let ?s = "replays S req (Suc n) s"
  from Suc obtain V' where V': "at ?s V' H" "none_adoptable (np_filesystem params) V'" "nfs_settled (req_Name req) params V' H v"
    and dom: "\<forall>fs n. V' fs n = None \<longleftrightarrow> V fs n = None"
    by (auto simp: answered_again_def replays_def)
  from CreateVolume_again [OF V'(1) plain kube ok V'(2,3)] dom show ?case
    by (auto simp: wp_def answered_again_def split: prod.splits)
qed

lemma replayed:
  assumes kube: "\<not> svc_kubeClient S" and plain: "plain_create (svc_names S) req name" and inv: "invar (world s)"
    and none: "none_adoptable (mget (req_Parameters req) paramFilesystem) (volume (world s))"
    and stale: "no_stale_share (path_of (mget (req_Parameters req) paramFilesystem) name)
       (volume (world s) (mget (req_Parameters req) paramFilesystem) name) (shares (world s))"
    and run: "run_state (CreateVolume S req) s = (Inr v, s1)"
  shows "case run_state (CreateVolume S req) (replays S req n s1) of (r, s2) \<Rightarrow>
    r = Inr v \<and> shares (world s2) = shares (world s1) \<and>
    (\<forall>fs m. volume (world s2) fs m = None \<longleftrightarrow> volume (world s1) fs m = None)"
proof -
  have "at s (volume (world s)) (shares (world s))" using inv by (simp add: at_def)
  from wp_run [OF CreateVolume_settles [OF this plain kube none stale] run] obtain req' params V H
    where ok: "accepted req req' params" and s1: "at s1 V H" "none_adoptable (np_filesystem params) V"
      "nfs_settled (req_Name req) params V H v"
    by (auto simp: left_settled_def)
  from replays_settled [OF s1(1) plain kube ok s1(2,3), of n] s1(1) show ?thesis
    by (auto simp: answered_again_def at_def split: prod.split)
qed

lemma creates:
  assumes "\<not> svc_kubeClient S" "plain_create (svc_names S) req name" "invar (world s)"
    "none_adoptable (mget (req_Parameters req) paramFilesystem) (volume (world s))"
    "volume (world s) (mget (req_Parameters req) paramFilesystem) name = None"
    "list_all (\<lambda>sh. nfs_Path sh \<noteq> path_of (mget (req_Parameters req) paramFilesystem) name) (shares (world s))"
    "accepted req req' params" "mget (req_Parameters req) CSIPVCName = [] \<or> mget (req_Parameters req) CSIPVCNamespace = []"
  shows "\<exists>v s1. run_state (CreateVolume S req) s = (Inr v, s1)"
proof -
  have "at s (volume (world s)) (shares (world s))" using assms(3) by (simp add: at_def)
  from CreateVolume_settles [OF this assms(2,1,4)] assms(5-8) show ?thesis
    by (auto simp: no_stale_share_def wp_def split: prod.splits)
qed

end

text \<open>
  C4: a repeated request for an NFS volume is idempotent. Over a reliable backend, when a request that
  neither adopts nor copies has once succeeded, each of any number of repetitions answers the same
  volume with the same capacity and context, and neither a subvolume nor a share is made or lost.
\<close>

theorem CreateVolume_replayed:
  assumes "reliable_backend S invar volume shares filesystems path" "\<not> svc_kubeClient S"
    "plain_create (svc_names S) req name" "invar (world s)"
    "none_adoptable (mget (req_Parameters req) paramFilesystem) (volume (world s))"
    "no_stale_share (path (mget (req_Parameters req) paramFilesystem) name)
       (volume (world s) (mget (req_Parameters req) paramFilesystem) name) (shares (world s))"
    "run_state (CreateVolume S req) s = (Inr v, s1)"
  shows "case run_state (CreateVolume S req) (replays S req n s1) of (r, s2) \<Rightarrow>
    r = Inr v \<and> shares (world s2) = shares (world s1) \<and>
    (\<forall>fs m. volume (world s2) fs m = None \<longleftrightarrow> volume (world s1) fs m = None)"
  by (rule reliable_backend.replayed [OF assms])

definition sample_create :: create_request where
  "sample_create =
     \<lparr>req_Name = ''pvc-1'', req_Parameters = fmap_of_list [(''filesystem'', ''tank'')], req_CapacityRange = None,
      req_VolumeCapabilities = [\<lparr>cap_mode = MULTI_NODE_MULTI_WRITER, cap_access = MountAccess []\<rparr>],
      req_ContentSource = None\<rparr>"

lemma sample_create_plain: "plain_create plain_lib sample_create ''pvc-1''"
  by code_simp

lemma sample_create_checks:
  "validateCreateVolumeRequest sample_create = None \<and>
   (case normalizeCreateCapacity sample_create ProtocolNFS of
      Inl _ \<Rightarrow> False
    | Inr req \<Rightarrow> validateAccessModeForProtocol (req_VolumeCapabilities req) ProtocolNFS = None \<and>
        (case validateNFSParams plain_lib req of Inl _ \<Rightarrow> False | Inr _ \<Rightarrow> True)) \<and>
   \<not> equal_fold (mget (req_Parameters sample_create) ''encryption'') ''true'' \<and>
   mget (req_Parameters sample_create) CSIPVCName = []"
  by code_simp

lemma memory_fresh:
  "svc_names mem_svc = plain_lib" "\<not> svc_kubeClient mem_svc" "mem_invar memory_empty" "mem_volume memory_empty fs m = None"
  "m_nfsShares memory_empty = []"
  by (simp_all add: mem_svc_def mem_invar_def mem_volume_def mem_find_def memory_empty_def)

lemma sample_create_run: "\<exists>v s1. run_state (CreateVolume mem_svc sample_create) (controller_at memory_empty) = (Inr v, s1)"
proof -
  from sample_create_checks obtain req' params where req': "normalizeCreateCapacity sample_create ProtocolNFS = Inr req'"
    and params: "validateNFSParams plain_lib req' = Inr params"
    by (auto split: sum.splits)
  have "memory_backend.accepted sample_create req' params"
    using sample_create_checks req' plain_create_params(1) [OF sample_create_plain req' params]
    by (simp add: memory_backend.accepted_def memory_backend.encryption_refused_def memory_fresh)
  then show ?thesis
    using sample_create_checks sample_create_plain
    by (intro memory_backend.creates) (auto simp: memory_fresh controller_at_def none_adoptable_def)
qed

theorem CreateVolume_replayed_witness:
  "\<exists>v s1. run_state (CreateVolume mem_svc sample_create) (controller_at memory_empty) = (Inr v, s1) \<and>
     (\<forall>n. fst (run_state (CreateVolume mem_svc sample_create) (replays mem_svc sample_create n s1)) = Inr v)"
proof -
  from sample_create_run obtain v s1
    where run: "run_state (CreateVolume mem_svc sample_create) (controller_at memory_empty) = (Inr v, s1)"
    by blast
  have "fst (run_state (CreateVolume mem_svc sample_create) (replays mem_svc sample_create n s1)) = Inr v" for n
    using CreateVolume_replayed [OF memory_backend.reliable_backend_axioms memory_fresh(2) _ _ _ _ run, of "''pvc-1''" n]
    by (simp add: memory_fresh sample_create_plain controller_at_def none_adoptable_def no_stale_share_def split: prod.splits)
  with run show ?thesis by blast
qed

section \<open>A claim that has left two volumes\<close>

lemma matchPVCNamespace_two:
  "2 \<le> length (filter (\<lambda>sv. mget (sv_Properties sv) PropertyPVCNamespace = ns) svs) + (if found = None then 0 else 1) \<Longrightarrow>
     1 \<le> length (filter (\<lambda>sv. mget (sv_Properties sv) PropertyPVCNamespace = ns) svs) \<Longrightarrow>
     matchPVCNamespace ns svs found = Inl (Status FailedPrecondition)"
  by (induction ns svs found rule: matchPVCNamespace.induct) (auto split: if_splits)

text \<open>
  C37: the search for a volume to adopt can refuse a request that adopts nothing. Once two subvolumes of
  the filesystem carry the name and namespace of a claim, as claims that were deleted and made again
  leave them with the strategy \<^verbatim>\<open>retain\<close>, a well-formed request of any protocol for a new, empty volume of
  that claim, one without a content source and whose own name the backend does not know, is refused with
  \<^verbatim>\<open>FailedPrecondition\<close>, whether or not the request or one of the volumes allows adoption.
\<close>

theorem claim_with_two_volumes_refused:
  assumes "validateCreateVolumeRequest req = None" "req_ContentSource req = None"
    "p = orDefault (mget (req_Parameters req) ''protocol'') ProtocolNFS"
    "normalizeCreateCapacity req p = Inr req'" "validateAccessModeForProtocol (req_VolumeCapabilities req) p = None"
    "p \<in> {ProtocolNVMeOF, ProtocolISCSI} \<longrightarrow> requestedBlockFilesystem (req_VolumeCapabilities req) = Inr fsType"
    and claim: "mget (req_Parameters req) CSIPVCName \<noteq> []" "mget (req_Parameters req) CSIPVCNamespace \<noteq> []"
    and unnamed: "api_FindSubvolumeByCSIVolumeName S (mget (req_Parameters req) paramFilesystem) (req_Name req) (world s) = (found, w)"
      "\<forall>sv. found \<noteq> Inr (Some sv)"
    and candidates: "api_FindSubvolumesByProperty S PropertyPVCName (mget (req_Parameters req) CSIPVCName)
        (mget (req_Parameters req) paramFilesystem) w = (Inr svs, w')"
      "2 \<le> length (filter (\<lambda>sv. mget (sv_Properties sv) PropertyPVCNamespace = mget (req_Parameters req) CSIPVCNamespace) svs)"
  shows "fst (run_state (CreateVolume S req) s) = Inl (Status FailedPrecondition)"
proof -
  let ?refused = "\<lambda>r (_ :: 'a controller). r = Inl (Status FailedPrecondition)"
  note req' = normalized_request [OF assms(4)]
  from matchPVCNamespace_two [of "mget (req_Parameters req) CSIPVCNamespace" svs None] candidates(2)
  have "matchPVCNamespace (mget (req_Parameters req) CSIPVCNamespace) svs None = Inl (Status FailedPrecondition)" by simp
  with assms have adopt: "wp (checkAndAdoptVolume S req' (req_Parameters req) p) (\<lambda>a _. a = Some (Inl (Status FailedPrecondition))) s"
    by (auto simp: checkAndAdoptVolume_def Let_def req' FindSubvolumeByCSIVolumeName_def findSubvolumeByPVCIdentity_def
        FindSubvolumesByProperty_def wp_rules wp_call split: sum.split option.split)
  obtain x where block: "(if p = ProtocolNVMeOF \<or> p = ProtocolISCSI
      then requestedBlockFilesystem (req_VolumeCapabilities req') else Inr []) = Inr x"
    using assms(6) by (cases "p \<in> {ProtocolNVMeOF, ProtocolISCSI}") (auto simp: req')
  have "wp (CreateVolume S req) ?refused s"
    using assms(1-5) block adopt
    by (auto simp: CreateVolume_def Let_def req' handleVolumeContentSource_def wp_rules elim!: wp_mono)
  then show ?thesis by (simp add: wp_def split: prod.splits)
qed

definition retained_volume :: "string \<Rightarrow> subvolume" where
  "retained_volume n = (mem_new ''tank'' n ''filesystem'' None [])
     \<lparr>sv_Properties := fmap_of_list [(PropertyManagedBy, ManagedByValue), (PropertyCSIVolumeName, n), (PropertyPVCName, ''data''),
        (PropertyPVCNamespace, ''shop'')]\<rparr>"

definition claim_create :: create_request where
  "claim_create = sample_create\<lparr>req_Name := ''pvc-3'', req_Parameters := fmap_of_list [(''filesystem'', ''tank''),
     (CSIPVCName, ''data''), (CSIPVCNamespace, ''shop'')]\<rparr>"

theorem claim_with_two_volumes_refused_witness:
  "fst (run_state (CreateVolume mem_svc claim_create)
     (controller_at (memory_empty\<lparr>m_subvolumes := [retained_volume ''pvc-1'', retained_volume ''pvc-2'']\<rparr>))) =
     Inl (Status FailedPrecondition)"
proof -
  let ?w = "memory_empty\<lparr>m_subvolumes := [retained_volume ''pvc-1'', retained_volume ''pvc-2'']\<rparr>"
  have checks: "validateCreateVolumeRequest claim_create = None" "req_ContentSource claim_create = None"
    "orDefault (mget (req_Parameters claim_create) ''protocol'') ProtocolNFS = ProtocolNFS"
    "validateAccessModeForProtocol (req_VolumeCapabilities claim_create) ProtocolNFS = None"
    "mget (req_Parameters claim_create) CSIPVCName \<noteq> []" "mget (req_Parameters claim_create) CSIPVCNamespace \<noteq> []"
    by code_simp+
  have "case normalizeCreateCapacity claim_create ProtocolNFS of Inl _ \<Rightarrow> False | Inr _ \<Rightarrow> True" by code_simp
  then obtain req' where req': "normalizeCreateCapacity claim_create ProtocolNFS = Inr req'" by (auto split: sum.splits)
  have lookups: "mem_byProperty PropertyCSIVolumeName (req_Name claim_create) (mget (req_Parameters claim_create) paramFilesystem) ?w = []"
    "2 \<le> length (filter (\<lambda>sv. mget (sv_Properties sv) PropertyPVCNamespace = mget (req_Parameters claim_create) CSIPVCNamespace)
      (mem_byProperty PropertyPVCName (mget (req_Parameters claim_create) CSIPVCName) (mget (req_Parameters claim_create) paramFilesystem) ?w))"
    by code_simp+
  show ?thesis
    by (rule claim_with_two_volumes_refused [where found = "Inl mem_notFound",
          OF checks(1-2) checks(3) [symmetric] req' checks(4) _ checks(5-6) _ _ _ lookups(2)])
      (simp_all add: mem_svc_def controller_at_def lookups(1) protocol_neq)
qed

end
