(* ===== verification/Metrics.thy ===== *)
theory Metrics
  imports Prelude
begin

text \<open>
  The metrics package (\<^verbatim>\<open>src/pkg/metrics\<close>): the families it registers and the updates it makes to
  them. Prometheus keeps the values; here the updates themselves are kept, in their order, so a
  statement about the values is a statement about a reader of the updates. The gauge of volume
  capacities, which the controller maintains, is part of \<open>Controller_Base\<close>, the two gauges of
  NVMe-oF connects are part of \<open>Connect_Limit\<close>.
\<close>

section \<open>Families\<close>

datatype metric_type = COUNTER | GAUGE | HISTOGRAM | OTHER_TYPE

record metric_vec =
  mv_Name :: string
  mv_Type :: metric_type
  mv_Labels :: "string list"

definition namespace :: string where
  "namespace = ''nasty_csi''"

text \<open>The name under which a family is exported has the namespace in front.\<close>

definition fqName :: "metric_vec \<Rightarrow> string" where
  "fqName v = namespace @ ''_'' @ mv_Name v"

definition labelOperation :: string where
  "labelOperation = ''operation''"

definition labelProtocol :: string where
  "labelProtocol = ''protocol''"

definition csiOperationsTotal :: metric_vec where
  "csiOperationsTotal =
     \<lparr>mv_Name = ''operations_total'', mv_Type = COUNTER, mv_Labels = [labelOperation, ''status'']\<rparr>"

definition csiOperationDuration :: metric_vec where
  "csiOperationDuration =
     \<lparr>mv_Name = ''operation_duration_seconds'', mv_Type = HISTOGRAM, mv_Labels = [labelOperation]\<rparr>"

definition volumeOperationsTotal :: metric_vec where
  "volumeOperationsTotal =
     \<lparr>mv_Name = ''volume_operations_total'', mv_Type = COUNTER,
      mv_Labels = [labelProtocol, labelOperation, ''status'']\<rparr>"

definition volumeOperationDuration :: metric_vec where
  "volumeOperationDuration =
     \<lparr>mv_Name = ''volume_operation_duration_seconds'', mv_Type = HISTOGRAM,
      mv_Labels = [labelProtocol, labelOperation]\<rparr>"

definition wsConnectionStatus :: metric_vec where
  "wsConnectionStatus = \<lparr>mv_Name = ''websocket_connection_status'', mv_Type = GAUGE, mv_Labels = []\<rparr>"

definition wsReconnectionsTotal :: metric_vec where
  "wsReconnectionsTotal = \<lparr>mv_Name = ''websocket_reconnections_total'', mv_Type = COUNTER, mv_Labels = []\<rparr>"

definition wsMessagesTotal :: metric_vec where
  "wsMessagesTotal = \<lparr>mv_Name = ''websocket_messages_total'', mv_Type = COUNTER, mv_Labels = [''direction'']\<rparr>"

definition wsMessageDuration :: metric_vec where
  "wsMessageDuration =
     \<lparr>mv_Name = ''websocket_message_duration_seconds'', mv_Type = HISTOGRAM, mv_Labels = [''method'']\<rparr>"

definition wsConnectionDuration :: metric_vec where
  "wsConnectionDuration =
     \<lparr>mv_Name = ''websocket_connection_duration_seconds'', mv_Type = GAUGE, mv_Labels = []\<rparr>"

section \<open>Updates\<close>

text \<open>
  \<^verbatim>\<open>WithLabelValues(...).Inc()\<close>, \<^verbatim>\<open>.Set(v)\<close>, \<^verbatim>\<open>.Set(d.Seconds())\<close> and \<^verbatim>\<open>.Observe(d.Seconds())\<close>;
  durations are in nanoseconds.
\<close>

datatype metric_update =
    Inc metric_vec "string list"
  | SetTo metric_vec int
  | SetSeconds metric_vec int
  | Observe metric_vec "string list" int

type_synonym metrics = "metric_update list"

definition RecordCSIOperation :: "string \<Rightarrow> string \<Rightarrow> int \<Rightarrow> metrics \<Rightarrow> metrics" where
  "RecordCSIOperation operation status duration m =
     m @ [Inc csiOperationsTotal [operation, status], Observe csiOperationDuration [operation] duration]"

definition RecordVolumeOperation :: "string \<Rightarrow> string \<Rightarrow> string \<Rightarrow> int \<Rightarrow> metrics \<Rightarrow> metrics" where
  "RecordVolumeOperation protocol operation status duration m =
     m @ [Inc volumeOperationsTotal [protocol, operation, status],
          Observe volumeOperationDuration [protocol, operation] duration]"

definition SetWSConnectionStatus :: "bool \<Rightarrow> metrics \<Rightarrow> metrics" where
  "SetWSConnectionStatus connected m = m @ [SetTo wsConnectionStatus (if connected then 1 else 0)]"

definition RecordWSReconnection :: "metrics \<Rightarrow> metrics" where
  "RecordWSReconnection m = m @ [Inc wsReconnectionsTotal []]"

definition RecordWSMessage :: "string \<Rightarrow> metrics \<Rightarrow> metrics" where
  "RecordWSMessage direction m = m @ [Inc wsMessagesTotal [direction]]"

definition RecordWSMessageDuration :: "string \<Rightarrow> int \<Rightarrow> metrics \<Rightarrow> metrics" where
  "RecordWSMessageDuration method duration m = m @ [Observe wsMessageDuration [method] duration]"

definition SetWSConnectionDuration :: "int \<Rightarrow> metrics \<Rightarrow> metrics" where
  "SetWSConnectionDuration duration m = m @ [SetSeconds wsConnectionDuration duration]"

section \<open>Timers\<close>

text \<open>A timer for a volume operation has a protocol, one for a CSI operation has none.\<close>

record OperationTimer =
  ot_start :: int
  ot_operation :: string
  ot_protocol :: string

definition NewOperationTimer :: "int \<Rightarrow> string \<Rightarrow> OperationTimer" where
  "NewOperationTimer now operation = \<lparr>ot_start = now, ot_operation = operation, ot_protocol = []\<rparr>"

definition NewVolumeOperationTimer :: "int \<Rightarrow> string \<Rightarrow> string \<Rightarrow> OperationTimer" where
  "NewVolumeOperationTimer now protocol operation =
     \<lparr>ot_start = now, ot_operation = operation, ot_protocol = protocol\<rparr>"

definition ObserveSuccess :: "OperationTimer \<Rightarrow> int \<Rightarrow> metrics \<Rightarrow> metrics" where
  "ObserveSuccess t now m =
     (let duration = now - ot_start t;
          m1 = (if ot_protocol t \<noteq> []
                then RecordVolumeOperation (ot_protocol t) (ot_operation t) ''success'' duration m else m)
      in RecordCSIOperation (ot_operation t) ''success'' duration m1)"

definition ObserveError :: "OperationTimer \<Rightarrow> int \<Rightarrow> metrics \<Rightarrow> metrics" where
  "ObserveError t now m =
     (let duration = now - ot_start t;
          m1 = (if ot_protocol t \<noteq> []
                then RecordVolumeOperation (ot_protocol t) (ot_operation t) ''error'' duration m else m)
      in RecordCSIOperation (ot_operation t) ''error'' duration m1)"

record WSMessageTimer =
  wt_start :: int
  wt_method :: string

definition NewWSMessageTimer :: "int \<Rightarrow> string \<Rightarrow> WSMessageTimer" where
  "NewWSMessageTimer now method = \<lparr>wt_start = now, wt_method = method\<rparr>"

definition ObserveMessage :: "WSMessageTimer \<Rightarrow> int \<Rightarrow> metrics \<Rightarrow> metrics" where
  "ObserveMessage t now m = RecordWSMessageDuration (wt_method t) (now - wt_start t) m"

section \<open>What the client reports\<close>

text \<open>\<^verbatim>\<open>WSMetricsAdapter\<close>: the callbacks of the backend client, as events.\<close>

datatype client_event =
    SetConnectionStatus bool
  | RecordReconnection
  | RecordMessage string
  | RecordMessageDuration string int
  | SetConnectionDuration int

fun WSMetricsAdapter :: "client_event \<Rightarrow> metrics \<Rightarrow> metrics" where
  "WSMetricsAdapter (SetConnectionStatus connected) m = SetWSConnectionStatus connected m"
| "WSMetricsAdapter RecordReconnection m = RecordWSReconnection m"
| "WSMetricsAdapter (RecordMessage direction) m = RecordWSMessage direction m"
| "WSMetricsAdapter (RecordMessageDuration method d) m = RecordWSMessageDuration method d m"
| "WSMetricsAdapter (SetConnectionDuration d) m = SetWSConnectionDuration d m"

section \<open>Version\<close>

record VersionInfo =
  vi_Version :: string
  vi_GitCommit :: string
  vi_BuildDate :: string
  vi_GoVersion :: string
  vi_Platform :: string

text \<open>The Go version and the platform of the running program are given.\<close>

definition SetVersionInfo :: "string \<Rightarrow> string \<times> string \<Rightarrow> string \<Rightarrow> string \<Rightarrow> string \<Rightarrow> VersionInfo" where
  "SetVersionInfo goVersion platform version gitCommit buildDate =
     \<lparr>vi_Version = version, vi_GitCommit = gitCommit, vi_BuildDate = buildDate, vi_GoVersion = goVersion,
      vi_Platform = fst platform @ ''/'' @ snd platform\<rparr>"

section \<open>Counting\<close>

lemmas vec_defs = csiOperationsTotal_def csiOperationDuration_def volumeOperationsTotal_def
  volumeOperationDuration_def wsConnectionStatus_def wsReconnectionsTotal_def wsMessagesTotal_def
  wsMessageDuration_def wsConnectionDuration_def

text \<open>The increments of a family at the label values that satisfy \<open>P\<close>.\<close>

definition increments :: "metric_vec \<Rightarrow> (string list \<Rightarrow> bool) \<Rightarrow> metrics \<Rightarrow> nat" where
  "increments v P m = length (filter (\<lambda>u. case u of Inc w ls \<Rightarrow> w = v \<and> P ls | _ \<Rightarrow> False) m)"

lemma increments_simps [simp]:
  "increments v P [] = 0"
  "increments v P (m @ m') = increments v P m + increments v P m'"
  "increments v P (Inc w ls # m) = (if w = v \<and> P ls then 1 else 0) + increments v P m"
  "increments v P (SetTo w i # m) = increments v P m"
  "increments v P (SetSeconds w i # m) = increments v P m"
  "increments v P (Observe w ls i # m) = increments v P m"
  by (simp_all add: increments_def)

lemma increments_le_length: "increments v P m \<le> length m"
  by (simp add: increments_def)

end
