(* ===== verification/Dashboard_Metrics.thy ===== *)
theory Dashboard_Metrics
  imports Metrics Complex_Main
begin

text \<open>
  The metrics panel of the dashboard (\<^verbatim>\<open>src/pkg/dashboard/metrics_local.go\<close>): the summary and the
  text it makes of what Prometheus has gathered, and that the summary shows what the driver has
  recorded. The gathered families, the shortest decimal form of a number and the quoting of label
  values are parameters.
\<close>

section \<open>Gathered families\<close>

text \<open>The values of \<^verbatim>\<open>float64\<close>, without the sign of zero.\<close>

datatype float64 = Finite rat | PosInf | NegInf | NaN

record dto_histogram =
  dh_Bucket :: "(float64 \<times> nat) list"
  dh_SampleSum :: float64
  dh_SampleCount :: nat

record dto_metric =
  dm_Label :: "(string \<times> string) list"
  dm_Counter :: "float64 option"
  dm_Gauge :: "float64 option"
  dm_Histogram :: "dto_histogram option"
  dm_Untyped :: "float64 option"

record dto_family =
  df_Name :: string
  df_Help :: string
  df_Type :: metric_type
  df_Metric :: "dto_metric list"

text \<open>
  The conversion \<^verbatim>\<open>int64(v)\<close> cuts off the fraction. What it yields for a value out of range is left
  to the implementation, so it is a parameter.
\<close>

definition int64_of_float :: "(float64 \<Rightarrow> int) \<Rightarrow> float64 \<Rightarrow> int" where
  "int64_of_float outOfRange v =
     (case v of
        Finite r \<Rightarrow>
          let t = (if r < 0 then - \<lfloor>- r\<rfloor> else \<lfloor>r\<rfloor>) in if int64 t then t else outOfRange v
      | _ \<Rightarrow> outOfRange v)"

section \<open>The summary\<close>

record MetricsSummary =
  ms_Error :: string
  ms_RawMetrics :: string
  WebSocketConnected :: bool
  WebSocketReconnects :: int
  ConnectionDurationSecs :: float64
  MessagesSent :: int
  MessagesReceived :: int
  TotalOperations :: int
  SuccessOperations :: int
  ErrorOperations :: int
  NFSOperations :: int
  NVMeOFOperations :: int
  ISCSIOperations :: int
  SMBOperations :: int
  CreateOperations :: int
  DeleteOperations :: int
  ExpandOperations :: int

definition emptySummary :: MetricsSummary where
  "emptySummary =
     \<lparr>ms_Error = [], ms_RawMetrics = [], WebSocketConnected = False, WebSocketReconnects = 0,
      ConnectionDurationSecs = Finite 0, MessagesSent = 0, MessagesReceived = 0, TotalOperations = 0,
      SuccessOperations = 0, ErrorOperations = 0, NFSOperations = 0, NVMeOFOperations = 0,
      ISCSIOperations = 0, SMBOperations = 0, CreateOperations = 0, DeleteOperations = 0,
      ExpandOperations = 0\<rparr>"

definition getLabelValue :: "dto_metric \<Rightarrow> string \<Rightarrow> string" where
  "getLabelValue m name = (case map_of (dm_Label m) name of None \<Rightarrow> [] | Some v \<Rightarrow> v)"

fun gatherMessageMetrics :: "(float64 \<Rightarrow> int) \<Rightarrow> MetricsSummary \<Rightarrow> dto_metric list \<Rightarrow> MetricsSummary" where
  "gatherMessageMetrics conv summary [] = summary"
| "gatherMessageMetrics conv summary (m # ms) =
     (case dm_Counter m of
        None \<Rightarrow> gatherMessageMetrics conv summary ms
      | Some c \<Rightarrow>
          let val = int64_of_float conv c; direction = getLabelValue m ''direction''
          in gatherMessageMetrics conv
               (if direction = ''sent'' then summary\<lparr>MessagesSent := val\<rparr>
                else if direction = ''received'' then summary\<lparr>MessagesReceived := val\<rparr>
                else summary) ms)"

text \<open>The three switches of the loop body, on the status, the protocol and the operation.\<close>

definition addStatus :: "string \<Rightarrow> int \<Rightarrow> MetricsSummary \<Rightarrow> MetricsSummary" where
  "addStatus status val s =
     (if status = ''success'' then s\<lparr>SuccessOperations := add64 (SuccessOperations s) val\<rparr>
      else if status = ''error'' then s\<lparr>ErrorOperations := add64 (ErrorOperations s) val\<rparr>
      else s)"

definition addProtocol :: "string \<Rightarrow> int \<Rightarrow> MetricsSummary \<Rightarrow> MetricsSummary" where
  "addProtocol protocol val s =
     (if protocol = ''nfs'' then s\<lparr>NFSOperations := add64 (NFSOperations s) val\<rparr>
      else if protocol = ''nvmeof'' then s\<lparr>NVMeOFOperations := add64 (NVMeOFOperations s) val\<rparr>
      else if protocol = ''iscsi'' then s\<lparr>ISCSIOperations := add64 (ISCSIOperations s) val\<rparr>
      else if protocol = ''smb'' then s\<lparr>SMBOperations := add64 (SMBOperations s) val\<rparr>
      else s)"

definition addOperation :: "string \<Rightarrow> int \<Rightarrow> MetricsSummary \<Rightarrow> MetricsSummary" where
  "addOperation operation val s =
     (if operation = ''create'' then s\<lparr>CreateOperations := add64 (CreateOperations s) val\<rparr>
      else if operation = ''delete'' then s\<lparr>DeleteOperations := add64 (DeleteOperations s) val\<rparr>
      else if operation = ''expand'' then s\<lparr>ExpandOperations := add64 (ExpandOperations s) val\<rparr>
      else s)"

fun gatherOperationMetrics :: "(float64 \<Rightarrow> int) \<Rightarrow> MetricsSummary \<Rightarrow> dto_metric list \<Rightarrow> MetricsSummary" where
  "gatherOperationMetrics conv summary [] = summary"
| "gatherOperationMetrics conv summary (m # ms) =
     (case dm_Counter m of
        None \<Rightarrow> gatherOperationMetrics conv summary ms
      | Some c \<Rightarrow>
          let val = int64_of_float conv c
          in gatherOperationMetrics conv
               (addOperation (getLabelValue m ''operation'') val
                 (addProtocol (getLabelValue m ''protocol'') val
                   (addStatus (getLabelValue m ''status'') val summary))) ms)"

text \<open>The loops over single-valued families: the last value wins.\<close>

definition lastOf :: "('v \<Rightarrow> MetricsSummary \<Rightarrow> MetricsSummary) \<Rightarrow> (dto_metric \<Rightarrow> 'v option) \<Rightarrow>
  dto_metric list \<Rightarrow> MetricsSummary \<Rightarrow> MetricsSummary" where
  "lastOf put get = fold (\<lambda>m s. case get m of None \<Rightarrow> s | Some v \<Rightarrow> put v s)"

definition gatherFamily :: "(float64 \<Rightarrow> int) \<Rightarrow> dto_family \<Rightarrow> MetricsSummary \<Rightarrow> MetricsSummary" where
  "gatherFamily conv family summary =
     (let name = df_Name family; ms = df_Metric family
      in if name = ''nasty_csi_websocket_connection_status''
         then lastOf (\<lambda>v s. s\<lparr>WebSocketConnected := (v = Finite 1)\<rparr>) dm_Gauge ms summary
         else if name = ''nasty_csi_websocket_reconnections_total''
         then lastOf (\<lambda>v s. s\<lparr>WebSocketReconnects := int64_of_float conv v\<rparr>) dm_Counter ms summary
         else if name = ''nasty_csi_websocket_connection_duration_seconds''
         then lastOf (\<lambda>v s. s\<lparr>ConnectionDurationSecs := v\<rparr>) dm_Gauge ms summary
         else if name = ''nasty_csi_websocket_messages_total'' then gatherMessageMetrics conv summary ms
         else if name = ''nasty_csi_volume_operations_total'' then gatherOperationMetrics conv summary ms
         else summary)"

definition GatherLocalMetrics :: "(float64 \<Rightarrow> int) \<Rightarrow> string + dto_family list \<Rightarrow> MetricsSummary" where
  "GatherLocalMetrics conv gathered =
     (case gathered of
        Inl err \<Rightarrow> emptySummary\<lparr>ms_Error := err\<rparr>
      | Inr families \<Rightarrow>
          let summary = fold (gatherFamily conv) families emptySummary
          in summary\<lparr>TotalOperations := add64 (SuccessOperations summary) (ErrorOperations summary)\<rparr>)"

section \<open>The text form\<close>

text \<open>\<^verbatim>\<open>strconv.FormatFloat(v, 'g', -1, 64)\<close> and the verb \<^verbatim>\<open>%q\<close>.\<close>

record text_lib =
  tl_FormatFloat :: "rat \<Rightarrow> string"
  tl_Quote :: "string \<Rightarrow> string"

definition fmtFloat :: "text_lib \<Rightarrow> float64 \<Rightarrow> string" where
  "fmtFloat L v =
     (case v of PosInf \<Rightarrow> ''+Inf'' | NegInf \<Rightarrow> ''-Inf'' | NaN \<Rightarrow> ''NaN'' | Finite r \<Rightarrow> tl_FormatFloat L r)"

definition label_text :: "text_lib \<Rightarrow> string \<times> string \<Rightarrow> string" where
  "label_text L l = fst l @ ''='' @ tl_Quote L (snd l)"

fun commaLabels :: "text_lib \<Rightarrow> (string \<times> string) list \<Rightarrow> string" where
  "commaLabels L [] = []"
| "commaLabels L [l] = label_text L l"
| "commaLabels L (l # ls) = label_text L l @ '','' @ commaLabels L ls"

definition formatLabels :: "text_lib \<Rightarrow> dto_metric \<Rightarrow> string" where
  "formatLabels L m = (if dm_Label m = [] then [] else ''{'' @ commaLabels L (dm_Label m) @ ''}'')"

definition formatLabelsWithExtra :: "text_lib \<Rightarrow> dto_metric \<Rightarrow> string \<Rightarrow> string \<Rightarrow> string" where
  "formatLabelsWithExtra L m extraName extraValue =
     ''{'' @ concat (map (\<lambda>l. label_text L l @ '','') (dm_Label m)) @ label_text L (extraName, extraValue) @ ''}''"

definition newline :: string where
  "newline = [CHR 0x0A]"

definition valueLine :: "text_lib \<Rightarrow> string \<Rightarrow> string \<Rightarrow> float64 option \<Rightarrow> string" where
  "valueLine L name labels v =
     (case v of None \<Rightarrow> [] | Some x \<Rightarrow> name @ labels @ '' '' @ fmtFloat L x @ newline)"

definition writeMetric :: "text_lib \<Rightarrow> string \<Rightarrow> metric_type \<Rightarrow> dto_metric \<Rightarrow> string" where
  "writeMetric L name metricType m =
     (let labels = formatLabels L m
      in case metricType of
           COUNTER \<Rightarrow> valueLine L name labels (dm_Counter m)
         | GAUGE \<Rightarrow> valueLine L name labels (dm_Gauge m)
         | HISTOGRAM \<Rightarrow>
             (case dm_Histogram m of
                None \<Rightarrow> []
              | Some h \<Rightarrow>
                  concat (map (\<lambda>(bound, n). name @ ''_bucket'' @
                      formatLabelsWithExtra L m ''le'' (fmtFloat L bound) @ '' '' @ format_nat n @ newline)
                    (dh_Bucket h)) @
                  name @ ''_sum'' @ labels @ '' '' @ fmtFloat L (dh_SampleSum h) @ newline @
                  name @ ''_count'' @ labels @ '' '' @ format_nat (dh_SampleCount h) @ newline)
         | OTHER_TYPE \<Rightarrow> valueLine L name labels (dm_Untyped m))"

text \<open>The lower-case name of a type; that of a type the driver does not use is given.\<close>

definition typeName :: "string \<Rightarrow> metric_type \<Rightarrow> string" where
  "typeName other t =
     (case t of COUNTER \<Rightarrow> ''counter'' | GAUGE \<Rightarrow> ''gauge'' | HISTOGRAM \<Rightarrow> ''histogram'' | OTHER_TYPE \<Rightarrow> other)"

definition familyText :: "text_lib \<Rightarrow> string \<Rightarrow> dto_family \<Rightarrow> string" where
  "familyText L other f =
     (if df_Help f \<noteq> [] then ''# HELP '' @ df_Name f @ '' '' @ df_Help f @ newline else []) @
     ''# TYPE '' @ df_Name f @ '' '' @ typeName other (df_Type f) @ newline @
     concat (map (writeMetric L (df_Name f) (df_Type f)) (df_Metric f))"

definition GatherRawMetrics :: "text_lib \<Rightarrow> string \<Rightarrow> string + dto_family list \<Rightarrow> string + string" where
  "GatherRawMetrics L other gathered =
     (case gathered of Inl err \<Rightarrow> Inl err | Inr families \<Rightarrow> Inr (concat (map (familyText L other) families)))"

section \<open>What the summary shows\<close>

text \<open>The sum of the counters whose label \<open>l\<close> has the value \<open>w\<close>.\<close>

fun tally :: "(float64 \<Rightarrow> int) \<Rightarrow> string \<Rightarrow> string \<Rightarrow> int \<Rightarrow> dto_metric list \<Rightarrow> int" where
  "tally conv l w acc [] = acc"
| "tally conv l w acc (m # ms) =
     tally conv l w (case dm_Counter m of
         None \<Rightarrow> acc
       | Some c \<Rightarrow> if getLabelValue m l = w then add64 acc (int64_of_float conv c) else acc) ms"

lemma gatherOperationMetrics_tally:
  "SuccessOperations (gatherOperationMetrics conv s ms) = tally conv ''status'' ''success'' (SuccessOperations s) ms"
  "ErrorOperations (gatherOperationMetrics conv s ms) = tally conv ''status'' ''error'' (ErrorOperations s) ms"
  "NFSOperations (gatherOperationMetrics conv s ms) = tally conv ''protocol'' ''nfs'' (NFSOperations s) ms"
  "NVMeOFOperations (gatherOperationMetrics conv s ms) = tally conv ''protocol'' ''nvmeof'' (NVMeOFOperations s) ms"
  "ISCSIOperations (gatherOperationMetrics conv s ms) = tally conv ''protocol'' ''iscsi'' (ISCSIOperations s) ms"
  "SMBOperations (gatherOperationMetrics conv s ms) = tally conv ''protocol'' ''smb'' (SMBOperations s) ms"
  "CreateOperations (gatherOperationMetrics conv s ms) = tally conv ''operation'' ''create'' (CreateOperations s) ms"
  "DeleteOperations (gatherOperationMetrics conv s ms) = tally conv ''operation'' ''delete'' (DeleteOperations s) ms"
  "ExpandOperations (gatherOperationMetrics conv s ms) = tally conv ''operation'' ''expand'' (ExpandOperations s) ms"
  by (induction ms arbitrary: s)
    (simp_all add: Let_def addStatus_def addProtocol_def addOperation_def split: option.split)

text \<open>
  What Prometheus promises of a counter with labels: it exports one value for each combination of
  label values that has been used, the number of increments, and nothing else.
\<close>

definition exported :: "metrics \<Rightarrow> metric_vec \<Rightarrow> string list \<Rightarrow> dto_metric \<Rightarrow> bool" where
  "exported m v ls d \<longleftrightarrow>
     length ls = length (mv_Labels v) \<and> distinct (map fst (dm_Label d)) \<and>
     set (dm_Label d) = set (zip (mv_Labels v) ls) \<and>
     dm_Counter d = Some (Finite (of_nat (count_list m (Inc v ls))))"

definition gathered_from :: "metrics \<Rightarrow> dto_family list \<Rightarrow> bool" where
  "gathered_from m families \<longleftrightarrow>
     distinct (map df_Name families) \<and>
     list_all (\<lambda>v. case find (\<lambda>f. df_Name f = fqName v) families of
           None \<Rightarrow> \<forall>ls. Inc v ls \<notin> set m
         | Some f \<Rightarrow> \<exists>lss. distinct lss \<and> set lss = {ls. Inc v ls \<in> set m} \<and>
             list_all2 (exported m v) lss (df_Metric f))
       [csiOperationsTotal, volumeOperationsTotal, wsMessagesTotal]"

lemma label_exported:
  assumes "exported m v ls d" "distinct (mv_Labels v)"
  shows "getLabelValue d l = (case map_of (zip (mv_Labels v) ls) l of None \<Rightarrow> [] | Some x \<Rightarrow> x)"
proof -
  have "map_of (dm_Label d) = map_of (zip (mv_Labels v) ls)"
    using assms by (subst map_of_inject_set) (auto simp: exported_def)
  then show ?thesis by (simp add: getLabelValue_def)
qed

lemma sum_increments:
  assumes "finite S"
  shows "{ls. Inc v ls \<in> set m} \<subseteq> S \<Longrightarrow>
    (\<Sum>ls\<in>S. if P ls then count_list m (Inc v ls) else 0) = increments v P m"
proof (induction m)
  case (Cons u m)
  have one: "(\<Sum>ls\<in>S. of_bool (P ls \<and> u = Inc v ls)) = increments v P [u]"
  proof (cases u)
    case (Inc w ls)
    then have "of_bool (P x \<and> u = Inc v x) = (if x = ls then of_bool (w = v \<and> P ls) else (0::nat))" for x
      by auto
    moreover have "w = v \<Longrightarrow> ls \<in> S" using Inc Cons.prems by auto
    ultimately show ?thesis using assms Inc by (simp add: increments_def sum.delta)
  qed (simp_all add: increments_def)
  have "(\<Sum>ls\<in>S. if P ls then count_list (u # m) (Inc v ls) else 0) =
      (\<Sum>ls\<in>S. (if P ls then count_list m (Inc v ls) else 0) + of_bool (P ls \<and> u = Inc v ls))"
    by (rule sum.cong) auto
  also have "\<dots> = increments v P m + increments v P [u]"
  proof -
    have "{ls. Inc v ls \<in> set m} \<subseteq> S" using Cons.prems by auto
    from Cons.IH [OF this] one show ?thesis by (simp add: sum.distrib)
  qed
  finally show ?case using increments_simps(2) [of v P "[u]" m] by simp
qed (simp cong: if_cong)

definition label_of :: "metric_vec \<Rightarrow> string \<Rightarrow> string list \<Rightarrow> string" where
  "label_of v l ls = (case map_of (zip (mv_Labels v) ls) l of None \<Rightarrow> [] | Some x \<Rightarrow> x)"

lemma int64_of_count: "int n \<le> 2 ^ 63 - 1 \<Longrightarrow> int64_of_float conv (Finite (of_nat n)) = int n"
  by (simp add: int64_of_float_def int64_def)

lemma tally_sum:
  assumes "list_all2 (exported m v) lss ds" "distinct (mv_Labels v)"
    and "0 \<le> acc" "acc + int (\<Sum>ls\<leftarrow>lss. count_list m (Inc v ls)) \<le> 2 ^ 63 - 1"
  shows "tally conv l w acc ds =
    acc + int (\<Sum>ls\<leftarrow>lss. if label_of v l ls = w then count_list m (Inc v ls) else 0)"
  using assms(1,3,4)
proof (induction arbitrary: acc rule: list_all2_induct)
  case (Cons ls lss d ds)
  let ?n = "count_list m (Inc v ls)"
  have c: "dm_Counter d = Some (Finite (of_nat ?n))" using Cons(1) by (simp add: exported_def)
  have l: "getLabelValue d l = label_of v l ls"
    using label_exported [OF Cons(1) assms(2)] by (simp add: label_of_def)
  have add: "add64 acc (int ?n) = acc + int ?n"
    using Cons.prems by (simp add: add64_def wrap64_id int64_def)
  show ?case
    using Cons.IH [of "acc + int ?n"] Cons.IH [of acc] Cons.prems by (simp add: c l add int64_of_count)
qed simp

lemma tally_increments:
  assumes "list_all2 (exported m v) lss ds" "distinct (mv_Labels v)"
    and "distinct lss" "set lss = {ls. Inc v ls \<in> set m}" "length m < 2 ^ 63"
  shows "tally conv l w 0 ds = int (increments v (\<lambda>ls. label_of v l ls = w) m)"
proof -
  have sums: "(\<Sum>ls\<leftarrow>lss. if P ls then count_list m (Inc v ls) else 0) = increments v P m" for P
    using sum_increments [OF finite_set [of lss], of v m P] assms(3,4)
    by (simp only: sum_list_distinct_conv_sum_set order_refl)
  have "int (\<Sum>ls\<leftarrow>lss. count_list m (Inc v ls)) \<le> 2 ^ 63 - 1"
    using sums [of "\<lambda>_. True"] increments_le_length [of v "\<lambda>_. True" m] assms(5) by simp
  then show ?thesis
    using tally_sum [OF assms(1,2), of 0 conv l w] sums [of "\<lambda>ls. label_of v l ls = w"] by simp
qed

text \<open>A field that one family determines.\<close>

lemma fold_one_family:
  assumes other: "\<And>f s. df_Name f \<noteq> name \<Longrightarrow> field (gatherFamily conv f s) = field s"
    and own: "\<And>f s. df_Name f = name \<Longrightarrow> field (gatherFamily conv f s) = read (field s) (df_Metric f)"
    and "distinct (map df_Name families)"
  shows "field (fold (gatherFamily conv) families s) =
    (case find (\<lambda>f. df_Name f = name) families of None \<Rightarrow> field s | Some f \<Rightarrow> read (field s) (df_Metric f))"
  using assms(3)
proof (induction families arbitrary: s)
  case (Cons f fs)
  have "find (\<lambda>f. df_Name f = name) fs = None" if "df_Name f = name"
    using Cons.prems that by (auto simp: find_None_iff) (metis imageI)
  then show ?case using Cons other own by (auto split: option.split)
qed simp

lemma operation_field:
  assumes "gathered_from m families" "length m < 2 ^ 63" "field emptySummary = 0"
    and "\<And>f s. df_Name f \<noteq> ''nasty_csi_volume_operations_total'' \<Longrightarrow> field (gatherFamily conv f s) = field s"
    and "\<And>ms s. field (gatherOperationMetrics conv s ms) = tally conv l w (field s) ms"
  shows "field (fold (gatherFamily conv) families emptySummary) =
    int (increments volumeOperationsTotal (\<lambda>ls. label_of volumeOperationsTotal l ls = w) m)"
proof -
  let ?name = "''nasty_csi_volume_operations_total''"
  have name: "fqName volumeOperationsTotal = ?name" by (simp add: fqName_def namespace_def vec_defs)
  have labels: "distinct (mv_Labels volumeOperationsTotal)"
    by (simp add: vec_defs labelOperation_def labelProtocol_def)
  have "field (fold (gatherFamily conv) families emptySummary) =
      (case find (\<lambda>f. df_Name f = ?name) families of None \<Rightarrow> 0 | Some f \<Rightarrow> tally conv l w 0 (df_Metric f))"
    using fold_one_family [of ?name field conv "tally conv l w" families emptySummary] assms
    by (simp add: gathered_from_def gatherFamily_def split: option.split)
  also have "\<dots> = int (increments volumeOperationsTotal (\<lambda>ls. label_of volumeOperationsTotal l ls = w) m)"
  proof (cases "find (\<lambda>f. df_Name f = ?name) families")
    case None
    then have "\<forall>ls. Inc volumeOperationsTotal ls \<notin> set m" using assms(1) name by (simp add: gathered_from_def)
    then have "increments volumeOperationsTotal P m = 0" for P
      by (auto simp: increments_def filter_empty_conv split: metric_update.splits)
    with None show ?thesis by simp
  next
    case (Some f)
    with assms(1) name obtain lss where "distinct lss" "set lss = {ls. Inc volumeOperationsTotal ls \<in> set m}"
      "list_all2 (exported m volumeOperationsTotal) lss (df_Metric f)"
      by (auto simp: gathered_from_def)
    with Some tally_increments [OF _ labels _ _ assms(2)] show ?thesis by simp
  qed
  finally show ?thesis .
qed

section \<open>From the timers to the panel\<close>

text \<open>Everything the driver records: operations that end, and what the client reports.\<close>

datatype metric_event = Ended OperationTimer bool int | Reported client_event

fun record_event :: "metric_event \<Rightarrow> metrics \<Rightarrow> metrics" where
  "record_event (Ended t ok now) m = (if ok then ObserveSuccess t now m else ObserveError t now m)"
| "record_event (Reported e) m = WSMetricsAdapter e m"

definition recorded :: "metric_event list \<Rightarrow> metrics" where
  "recorded events = fold record_event events []"

text \<open>The volume operations among the events that satisfy \<open>P\<close>.\<close>

fun volume_operation :: "(string \<Rightarrow> string \<Rightarrow> bool \<Rightarrow> bool) \<Rightarrow> metric_event \<Rightarrow> bool" where
  "volume_operation P (Ended t ok now) \<longleftrightarrow> ot_protocol t \<noteq> [] \<and> P (ot_protocol t) (ot_operation t) ok"
| "volume_operation P (Reported e) \<longleftrightarrow> False"

definition operations :: "(string \<Rightarrow> string \<Rightarrow> bool \<Rightarrow> bool) \<Rightarrow> metric_event list \<Rightarrow> int" where
  "operations P events = int (length (filter (volume_operation P) events))"

lemma vecs_differ:
  "csiOperationsTotal \<noteq> volumeOperationsTotal" "wsReconnectionsTotal \<noteq> volumeOperationsTotal"
  "wsMessagesTotal \<noteq> volumeOperationsTotal"
  by (simp_all add: vec_defs)

lemmas record_defs = ObserveSuccess_def ObserveError_def RecordVolumeOperation_def RecordCSIOperation_def
  SetWSConnectionStatus_def RecordWSReconnection_def RecordWSMessage_def RecordWSMessageDuration_def
  SetWSConnectionDuration_def

definition status_text :: "bool \<Rightarrow> string" where
  "status_text ok = (if ok then ''success'' else ''error'')"

lemma increments_recorded:
  "increments volumeOperationsTotal P (fold record_event events m) =
     increments volumeOperationsTotal P m +
     length (filter (volume_operation (\<lambda>protocol operation ok. P [protocol, operation, status_text ok])) events)"
proof (induction events arbitrary: m)
  case (Cons e events)
  have "increments volumeOperationsTotal P (record_event e m) = increments volumeOperationsTotal P m +
      (if volume_operation (\<lambda>protocol operation ok. P [protocol, operation, status_text ok]) e then 1 else 0)"
  proof (cases e)
    case (Reported c)
    then show ?thesis by (cases c) (simp_all add: record_defs vecs_differ)
  qed (auto simp: record_defs vecs_differ status_text_def Let_def)
  with Cons show ?case by simp
qed simp

lemma recorded_length: "length (fold record_event events m) \<le> 4 * length events + length m"
proof (induction events arbitrary: m)
  case (Cons e events)
  have "length (record_event e m) \<le> length m + 4"
  proof (cases e)
    case (Reported c)
    then show ?thesis by (cases c) (simp_all add: record_defs)
  qed (auto simp: record_defs Let_def)
  with Cons [of "record_event e m"] show ?case by simp
qed simp

lemma label_values:
  "label_of volumeOperationsTotal ''status'' [p, q, r] = r"
  "label_of volumeOperationsTotal ''protocol'' [p, q, r] = p"
  "label_of volumeOperationsTotal ''operation'' [p, q, r] = q"
  by (simp_all add: label_of_def vec_defs labelOperation_def labelProtocol_def)

lemma recorded_field:
  assumes "gathered_from (recorded events) families" "length events < 2 ^ 60" "field emptySummary = 0"
    and "\<And>f s. df_Name f \<noteq> ''nasty_csi_volume_operations_total'' \<Longrightarrow> field (gatherFamily conv f s) = field s"
    and "\<And>ms s. field (gatherOperationMetrics conv s ms) = tally conv l w (field s) ms"
  shows "field (fold (gatherFamily conv) families emptySummary) =
    operations (\<lambda>protocol operation ok. label_of volumeOperationsTotal l [protocol, operation, status_text ok] = w) events"
proof -
  have "length (recorded events) < 2 ^ 63"
    using recorded_length [of events "[]"] assms(2) by (simp add: recorded_def)
  from operation_field [OF assms(1) this assms(3-5)] show ?thesis
    by (simp add: recorded_def increments_recorded operations_def)
qed

lemma lastOf_keeps: "(\<And>v s. field (put v s) = field s) \<Longrightarrow> field (lastOf put get ms s) = field s"
  by (induction ms arbitrary: s) (simp_all add: lastOf_def split: option.split)

lemma gatherMessageMetrics_keeps:
  "(\<And>v s. field (s\<lparr>MessagesSent := v\<rparr>) = field s) \<Longrightarrow> (\<And>v s. field (s\<lparr>MessagesReceived := v\<rparr>) = field s) \<Longrightarrow>
   field (gatherMessageMetrics conv s ms) = field s"
  by (induction ms arbitrary: s) (simp_all add: Let_def split: option.split)

lemma other_family:
  assumes "\<And>v s. field (s\<lparr>WebSocketConnected := v\<rparr>) = field s"
    and "\<And>v s. field (s\<lparr>WebSocketReconnects := v\<rparr>) = field s"
    and "\<And>v s. field (s\<lparr>ConnectionDurationSecs := v\<rparr>) = field s"
    and "\<And>v s. field (s\<lparr>MessagesSent := v\<rparr>) = field s" "\<And>v s. field (s\<lparr>MessagesReceived := v\<rparr>) = field s"
  shows "df_Name f \<noteq> ''nasty_csi_volume_operations_total'' \<Longrightarrow> field (gatherFamily conv f s) = field s"
  using assms by (simp add: gatherFamily_def Let_def lastOf_keeps [of field] gatherMessageMetrics_keeps [of field])

text \<open>Every count of the panel before the total.\<close>

lemma recorded_counts:
  fixes conv :: "float64 \<Rightarrow> int"
  assumes "gathered_from (recorded events) families" "length events < 2 ^ 60"
  defines "s \<equiv> fold (gatherFamily conv) families emptySummary"
  shows "SuccessOperations s = operations (\<lambda>p q ok. ok) events"
    "ErrorOperations s = operations (\<lambda>p q ok. \<not> ok) events"
    "NFSOperations s = operations (\<lambda>p q ok. p = ''nfs'') events"
    "NVMeOFOperations s = operations (\<lambda>p q ok. p = ''nvmeof'') events"
    "ISCSIOperations s = operations (\<lambda>p q ok. p = ''iscsi'') events"
    "SMBOperations s = operations (\<lambda>p q ok. p = ''smb'') events"
    "CreateOperations s = operations (\<lambda>p q ok. q = ''create'') events"
    "DeleteOperations s = operations (\<lambda>p q ok. q = ''delete'') events"
    "ExpandOperations s = operations (\<lambda>p q ok. q = ''expand'') events"
proof -
  note field = recorded_field [OF assms(1,2) _ other_family gatherOperationMetrics_tally(1), of conv]
    recorded_field [OF assms(1,2) _ other_family gatherOperationMetrics_tally(2), of conv]
    recorded_field [OF assms(1,2) _ other_family gatherOperationMetrics_tally(3), of conv]
    recorded_field [OF assms(1,2) _ other_family gatherOperationMetrics_tally(4), of conv]
    recorded_field [OF assms(1,2) _ other_family gatherOperationMetrics_tally(5), of conv]
    recorded_field [OF assms(1,2) _ other_family gatherOperationMetrics_tally(6), of conv]
    recorded_field [OF assms(1,2) _ other_family gatherOperationMetrics_tally(7), of conv]
    recorded_field [OF assms(1,2) _ other_family gatherOperationMetrics_tally(8), of conv]
    recorded_field [OF assms(1,2) _ other_family gatherOperationMetrics_tally(9), of conv]
  have ok: "(status_text b = ''success'') = b" "(status_text b = ''error'') = (\<not> b)" for b
    by (simp_all add: status_text_def)
  from field show "SuccessOperations s = operations (\<lambda>p q ok. ok) events"
    "ErrorOperations s = operations (\<lambda>p q ok. \<not> ok) events"
    "NFSOperations s = operations (\<lambda>p q ok. p = ''nfs'') events"
    "NVMeOFOperations s = operations (\<lambda>p q ok. p = ''nvmeof'') events"
    "ISCSIOperations s = operations (\<lambda>p q ok. p = ''iscsi'') events"
    "SMBOperations s = operations (\<lambda>p q ok. p = ''smb'') events"
    "CreateOperations s = operations (\<lambda>p q ok. q = ''create'') events"
    "DeleteOperations s = operations (\<lambda>p q ok. q = ''delete'') events"
    "ExpandOperations s = operations (\<lambda>p q ok. q = ''expand'') events"
    by (simp_all add: s_def emptySummary_def label_values ok)
qed

lemma operations_split: "operations (\<lambda>p q ok. ok) events + operations (\<lambda>p q ok. \<not> ok) events = operations (\<lambda>p q ok. True) events"
proof (induction events)
  case (Cons e events)
  then show ?case by (cases e) (auto simp: operations_def)
qed (simp add: operations_def)

text \<open>
  C32: the panel shows what happened. Whatever operations have ended and whatever the client has
  reported, in any order, if Prometheus exports of each labelled counter the number of its
  increments, then the summary of the dashboard counts exactly the volume operations that have
  ended: the successes, the failures, their total, those of each protocol, and the creations,
  deletions and expansions. Operations without a protocol are counted nowhere in it.
\<close>

theorem dashboard_counts_operations:
  assumes "gathered_from (recorded events) families" "length events < 2 ^ 60"
    and "s = GatherLocalMetrics conv (Inr families)"
  shows "TotalOperations s = operations (\<lambda>p q ok. True) events \<and>
    SuccessOperations s = operations (\<lambda>p q ok. ok) events \<and>
    ErrorOperations s = operations (\<lambda>p q ok. \<not> ok) events \<and>
    NFSOperations s = operations (\<lambda>p q ok. p = ''nfs'') events \<and>
    NVMeOFOperations s = operations (\<lambda>p q ok. p = ''nvmeof'') events \<and>
    ISCSIOperations s = operations (\<lambda>p q ok. p = ''iscsi'') events \<and>
    SMBOperations s = operations (\<lambda>p q ok. p = ''smb'') events \<and>
    CreateOperations s = operations (\<lambda>p q ok. q = ''create'') events \<and>
    DeleteOperations s = operations (\<lambda>p q ok. q = ''delete'') events \<and>
    ExpandOperations s = operations (\<lambda>p q ok. q = ''expand'') events"
proof -
  have "operations (\<lambda>p q ok. True) events \<le> int (length events)" "0 \<le> operations (\<lambda>p q ok. True) events"
    by (simp_all add: operations_def)
  with assms(2) have "int64 (operations (\<lambda>p q ok. True) events)" by (simp add: int64_def)
  with recorded_counts [OF assms(1,2), of conv] show ?thesis
    by (simp add: assms(3) GatherLocalMetrics_def Let_def add64_def operations_split)
qed

text \<open>A creation that succeeds, a deletion that fails, a probe, and a message in between.\<close>

definition sample_events :: "metric_event list" where
  "sample_events =
     [Ended (NewVolumeOperationTimer 0 ''nfs'' ''create'') True 5, Reported (RecordMessage ''sent''),
      Ended (NewVolumeOperationTimer 2 ''iscsi'' ''delete'') False 9, Ended (NewOperationTimer 3 ''Probe'') True 4]"

definition sample_metric :: "(string \<times> string) list \<Rightarrow> nat \<Rightarrow> dto_metric" where
  "sample_metric labels n =
     \<lparr>dm_Label = labels, dm_Counter = Some (Finite (of_nat n)), dm_Gauge = None, dm_Histogram = None, dm_Untyped = None\<rparr>"

definition sample_family :: "metric_vec \<Rightarrow> string list list \<Rightarrow> dto_family" where
  "sample_family v lss =
     \<lparr>df_Name = fqName v, df_Help = [], df_Type = mv_Type v,
      df_Metric = map (\<lambda>ls. sample_metric (zip (mv_Labels v) ls) (count_list (recorded sample_events) (Inc v ls))) lss\<rparr>"

definition sample_families :: "dto_family list" where
  "sample_families =
     [sample_family csiOperationsTotal [[''create'', ''success''], [''delete'', ''error''], [''Probe'', ''success'']],
      sample_family volumeOperationsTotal [[''nfs'', ''create'', ''success''], [''iscsi'', ''delete'', ''error'']],
      sample_family wsMessagesTotal [[''sent'']]]"

lemma sample_gathered: "gathered_from (recorded sample_events) sample_families"
proof -
  note unfold = sample_family_def sample_metric_def exported_def fqName_def vec_defs namespace_def
    labelOperation_def labelProtocol_def
  have log: "recorded sample_events =
    [Inc volumeOperationsTotal [''nfs'', ''create'', ''success''], Observe volumeOperationDuration [''nfs'', ''create''] 5,
     Inc csiOperationsTotal [''create'', ''success''], Observe csiOperationDuration [''create''] 5,
     Inc wsMessagesTotal [''sent''],
     Inc volumeOperationsTotal [''iscsi'', ''delete'', ''error''], Observe volumeOperationDuration [''iscsi'', ''delete''] 7,
     Inc csiOperationsTotal [''delete'', ''error''], Observe csiOperationDuration [''delete''] 7,
     Inc csiOperationsTotal [''Probe'', ''success''], Observe csiOperationDuration [''Probe''] 1]"
    by (simp add: recorded_def sample_events_def NewVolumeOperationTimer_def NewOperationTimer_def record_defs Let_def)
  have used: "{ls. Inc csiOperationsTotal ls \<in> set (recorded sample_events)} =
      set [[''create'', ''success''], [''delete'', ''error''], [''Probe'', ''success'']]"
    "{ls. Inc volumeOperationsTotal ls \<in> set (recorded sample_events)} =
      set [[''nfs'', ''create'', ''success''], [''iscsi'', ''delete'', ''error'']]"
    "{ls. Inc wsMessagesTotal ls \<in> set (recorded sample_events)} = set [[''sent'']]"
    unfolding log by (auto simp: vec_defs)
  have fits: "list_all2 (exported (recorded sample_events) v) lss (df_Metric (sample_family v lss))"
    if "distinct (mv_Labels v)" "list_all (\<lambda>ls. length ls = length (mv_Labels v)) lss" for v lss
    using that by (induction lss) (auto simp: sample_family_def sample_metric_def exported_def map_fst_zip_take)
  have name: "df_Name (sample_family v lss) = fqName v" for v lss by (simp add: sample_family_def)
  have found: "find (\<lambda>f. df_Name f = fqName csiOperationsTotal) sample_families = Some (sample_family csiOperationsTotal
      [[''create'', ''success''], [''delete'', ''error''], [''Probe'', ''success'']])"
    "find (\<lambda>f. df_Name f = fqName volumeOperationsTotal) sample_families = Some (sample_family volumeOperationsTotal
      [[''nfs'', ''create'', ''success''], [''iscsi'', ''delete'', ''error'']])"
    "find (\<lambda>f. df_Name f = fqName wsMessagesTotal) sample_families = Some (sample_family wsMessagesTotal [[''sent'']])"
    by (simp_all add: sample_families_def name) (simp_all add: fqName_def vec_defs)
  have names: "distinct (map df_Name sample_families)"
    by (simp add: sample_families_def name) (simp add: fqName_def vec_defs)
  have conforms: "\<exists>lss. distinct lss \<and> set lss = {ls. Inc v ls \<in> set (recorded sample_events)} \<and>
      list_all2 (exported (recorded sample_events) v) lss (df_Metric (sample_family v lss0))"
    if "{ls. Inc v ls \<in> set (recorded sample_events)} = set lss0" "distinct lss0" "distinct (mv_Labels v)"
      "list_all (\<lambda>ls. length ls = length (mv_Labels v)) lss0" for v lss0
    using that fits [of v lss0] by blast
  show ?thesis
    unfolding gathered_from_def
    by (simp only: list.pred_inject found option.case simp_thms)
      (intro conjI names conforms used; simp add: vec_defs labelOperation_def labelProtocol_def)
qed

theorem dashboard_counts_operations_witness:
  "gathered_from (recorded sample_events) sample_families \<and>
   TotalOperations (GatherLocalMetrics (\<lambda>_. 0) (Inr sample_families)) = 2 \<and>
   ErrorOperations (GatherLocalMetrics (\<lambda>_. 0) (Inr sample_families)) = 1"
  using dashboard_counts_operations [OF sample_gathered _ refl, of "\<lambda>_. 0"] sample_gathered
  by (simp add: sample_events_def operations_def NewVolumeOperationTimer_def NewOperationTimer_def)

end
