(* ===== verification/Dashboard.thy ===== *)
theory Dashboard
  imports Dashboard_Metrics "HOL-Library.Finite_Map" "HOL-Library.Sublist"
begin

text \<open>
  The dashboard of the driver (\<^verbatim>\<open>src/pkg/dashboard\<close>): what it reads from Kubernetes (\<^verbatim>\<open>k8s.go\<close>), its
  pages and its JSON interface (\<^verbatim>\<open>handlers.go\<close>) and their routes (\<^verbatim>\<open>server.go\<close>). The library
  \<^verbatim>\<open>nasty-go/dashboard\<close>, the Kubernetes API, the templates and the JSON encoder are the record
  \<open>dashlib\<close>: functions on an unspecified world. Of the library's types only the fields that this code
  uses are known; the others are the type \<open>'x\<close>, and data it only passes on are of type \<open>'d\<close>.
\<close>

section \<open>Kubernetes objects\<close>

record csi_source =
  cs_Driver :: string
  cs_VolumeHandle :: string
  cs_VolumeAttributes :: smap

record persistent_volume =
  pv_Name :: string
  pv_Phase :: string
  pv_CSI :: "csi_source option"
  pv_ClaimRef :: "(string \<times> string) option"
  pv_Storage :: "int option"

text \<open>A pod, with the claim of each of its volumes, if it has one.\<close>

record pod =
  pod_Namespace :: string
  pod_Name :: string
  pod_Claims :: "string option list"

record K8sVolumeBinding =
  kb_PVName :: string
  kb_PVStatus :: string
  kb_PVCName :: string
  kb_PVCNamespace :: string
  kb_Pods :: "string list"

record 'x volume_info =
  vo_Dataset :: string
  vo_VolumeID :: string
  vo_Protocol :: string
  vo_K8s :: "K8sVolumeBinding option"
  vo_CapacityBytes :: int
  vo_CapacityHuman :: string
  vo_Type :: string
  vo_rest :: 'x

record 'x volume_details =
  vd_Dataset :: string
  vd_VolumeID :: string
  vd_K8s :: "K8sVolumeBinding option"
  vd_rest :: 'x

record K8sEnrichmentResult =
  ke_Available :: bool
  ke_Bindings :: "(string, K8sVolumeBinding) fmap"

section \<open>The environment\<close>

text \<open>The data handed to a template or to the JSON encoder.\<close>

datatype ('x, 'd) payload =
    Volumes "'x volume_info list"
  | Opaque 'd
  | Details "'x volume_details"
  | Overview string "'x volume_info list" 'd 'd
  | Panel MetricsSummary
  | Failure string

record ('w, 'x, 'd) dashlib =
  dl_FindManagedVolumes :: "string \<Rightarrow> 'w \<Rightarrow> (string + 'x volume_info list) \<times> 'w"
  dl_FindManagedSnapshots :: "string \<Rightarrow> 'w \<Rightarrow> (string + 'd) \<times> 'w"
  dl_FindClonedVolumes :: "string \<Rightarrow> 'w \<Rightarrow> (string + 'd) \<times> 'w"
  dl_FindUnmanagedVolumes :: "string \<Rightarrow> bool \<Rightarrow> string \<Rightarrow> 'w \<Rightarrow> (string + 'd) \<times> 'w"
  dl_GetVolumeDetails :: "string \<Rightarrow> 'w \<Rightarrow> (string + 'x volume_details) \<times> 'w"
  dl_AnnotateVolumesWithHealth :: "'x volume_info list \<Rightarrow> 'w \<Rightarrow> 'x volume_info list \<times> 'w"
  dl_ParsePaginationParams :: "string \<Rightarrow> 'd"
  dl_PaginateVolumes :: "'x volume_info list \<Rightarrow> 'd \<Rightarrow> string \<Rightarrow> 'd"
  dl_PaginateSnapshots :: "'d \<Rightarrow> 'd \<Rightarrow> string \<Rightarrow> 'd"
  dl_PaginateClones :: "'d \<Rightarrow> 'd \<Rightarrow> string \<Rightarrow> 'd"
  dl_PaginateUnmanaged :: "'d \<Rightarrow> 'd \<Rightarrow> string \<Rightarrow> 'd"
  dl_CalculateSummary :: "'x volume_info list \<Rightarrow> 'd \<Rightarrow> 'd \<Rightarrow> 'd"
  dl_MatchK8sBinding :: "(string, K8sVolumeBinding) fmap \<Rightarrow> string \<Rightarrow> string \<Rightarrow> K8sVolumeBinding option"
  dl_FormatBytes :: "int \<Rightarrow> string"
  dl_nil :: 'd
  dl_zero :: 'x
  kube_InClusterConfig :: "'w \<Rightarrow> bool \<times> 'w"
  kube_NewForConfig :: "'w \<Rightarrow> bool \<times> 'w"
  kube_ListPVs :: "'w \<Rightarrow> persistent_volume list option \<times> 'w"
  kube_ListPods :: "'w \<Rightarrow> pod list option \<times> 'w"
  go_firstError :: "string list \<Rightarrow> string"
  go_ExecuteTemplate :: "string \<Rightarrow> ('x, 'd) payload \<Rightarrow> 'w \<Rightarrow> (string \<times> string option) \<times> 'w"
  go_EncodeJSON :: "('x, 'd) payload \<Rightarrow> string option"
  prom_Gather :: "'w \<Rightarrow> (string + dto_family list) \<times> 'w"
  prom_convert :: "float64 \<Rightarrow> int"
  prom_text :: text_lib
  prom_otherType :: string

section \<open>Volumes and bindings from Kubernetes\<close>

definition driverName :: string where
  "driverName = ''nasty.csi.io''"

text \<open>The CSI source of a volume of this driver.\<close>

definition ownSource :: "persistent_volume \<Rightarrow> csi_source option" where
  "ownSource pv =
     (case pv_CSI pv of None \<Rightarrow> None | Some c \<Rightarrow> if cs_Driver c \<noteq> driverName then None else Some c)"

definition pvBinding :: "persistent_volume \<Rightarrow> K8sVolumeBinding" where
  "pvBinding pv =
     (case pv_ClaimRef pv of
        None \<Rightarrow> \<lparr>kb_PVName = pv_Name pv, kb_PVStatus = pv_Phase pv, kb_PVCName = [], kb_PVCNamespace = [], kb_Pods = []\<rparr>
      | Some (name, ns) \<Rightarrow>
          \<lparr>kb_PVName = pv_Name pv, kb_PVStatus = pv_Phase pv, kb_PVCName = name, kb_PVCNamespace = ns, kb_Pods = []\<rparr>)"

definition pvVolume :: "('w, 'x, 'd) dashlib \<Rightarrow> csi_source \<Rightarrow> persistent_volume \<Rightarrow> 'x volume_info" where
  "pvVolume L c pv =
     (let attrs = cs_VolumeAttributes c; protocol = mget attrs ''protocol''
      in \<lparr>vo_Dataset = cs_VolumeHandle c,
          vo_VolumeID = (if mget attrs ''datasetName'' = [] then cs_VolumeHandle c else mget attrs ''datasetName''),
          vo_Protocol = protocol,
          vo_K8s = Some (pvBinding pv),
          vo_CapacityBytes = (case pv_Storage pv of None \<Rightarrow> 0 | Some v \<Rightarrow> v),
          vo_CapacityHuman = (case pv_Storage pv of None \<Rightarrow> [] | Some v \<Rightarrow> dl_FormatBytes L v),
          vo_Type = (if protocol \<in> {''nvmeof'', ''iscsi''} then ''VOLUME'' else ''FILESYSTEM''),
          vo_rest = dl_zero L\<rparr>)"

fun fetchLoop :: "('w, 'x, 'd) dashlib \<Rightarrow> persistent_volume list \<Rightarrow> 'x volume_info list \<Rightarrow>
  (string, K8sVolumeBinding) fmap \<Rightarrow> 'x volume_info list \<times> (string, K8sVolumeBinding) fmap" where
  "fetchLoop L [] volumes bindings = (volumes, bindings)"
| "fetchLoop L (pv # pvs) volumes bindings =
     (case ownSource pv of
        None \<Rightarrow> fetchLoop L pvs volumes bindings
      | Some c \<Rightarrow>
          fetchLoop L pvs (volumes @ [pvVolume L c pv]) (fmupd (cs_VolumeHandle c) (pvBinding pv) bindings))"

definition noBindings :: K8sEnrichmentResult where
  "noBindings = \<lparr>ke_Available = False, ke_Bindings = fmempty\<rparr>"

definition FetchK8sVolumes ::
  "('w, 'x, 'd) dashlib \<Rightarrow> ('w, 'x volume_info list \<times> K8sEnrichmentResult) state" where
  "FetchK8sVolumes L = do {
     config \<leftarrow> State (kube_InClusterConfig L);
     if \<not> config then ret ([], noBindings)
     else do {
       client \<leftarrow> State (kube_NewForConfig L);
       if \<not> client then ret ([], noBindings)
       else do {
         pvs \<leftarrow> State (kube_ListPVs L);
         ret (case pvs of
             None \<Rightarrow> ([], noBindings)
           | Some items \<Rightarrow>
               (case fetchLoop L items [] fmempty of
                  (volumes, bindings) \<Rightarrow> (volumes, \<lparr>ke_Available = True, ke_Bindings = bindings\<rparr>)))
       }
     }
   }"

fun enrichLoop :: "persistent_volume list \<Rightarrow> (string, K8sVolumeBinding) fmap \<Rightarrow>
  (string, K8sVolumeBinding) fmap" where
  "enrichLoop [] bindings = bindings"
| "enrichLoop (pv # pvs) bindings =
     (case ownSource pv of
        None \<Rightarrow> enrichLoop pvs bindings
      | Some c \<Rightarrow> enrichLoop pvs (fmupd (cs_VolumeHandle c) (pvBinding pv) bindings))"

definition claimKey :: "string \<Rightarrow> string \<Rightarrow> string" where
  "claimKey ns name = ns @ ''/'' @ name"

text \<open>The pods of each claim, by namespace and name, in the order of the list.\<close>

definition addPodRef :: "string \<Rightarrow> string \<Rightarrow> (string, string list) fmap \<Rightarrow> (string, string list) fmap" where
  "addPodRef key podRef m = fmupd key ((case fmlookup m key of None \<Rightarrow> [] | Some refs \<Rightarrow> refs) @ [podRef]) m"

definition podClaims :: "pod \<Rightarrow> (string, string list) fmap \<Rightarrow> (string, string list) fmap" where
  "podClaims p =
     fold (\<lambda>claim m. case claim of
         None \<Rightarrow> m
       | Some name \<Rightarrow> addPodRef (claimKey (pod_Namespace p) name) (pod_Namespace p @ ''/'' @ pod_Name p) m)
       (pod_Claims p)"

definition pvcToPods :: "pod list \<Rightarrow> (string, string list) fmap" where
  "pvcToPods pods = fold podClaims pods fmempty"

definition setPods :: "(string, string list) fmap \<Rightarrow> K8sVolumeBinding \<Rightarrow> K8sVolumeBinding" where
  "setPods refs b =
     (if kb_PVCName b \<noteq> [] \<and> kb_PVCNamespace b \<noteq> []
      then case fmlookup refs (claimKey (kb_PVCNamespace b) (kb_PVCName b)) of
             None \<Rightarrow> b | Some podRefs \<Rightarrow> b\<lparr>kb_Pods := podRefs\<rparr>
      else b)"

definition EnrichWithK8sData :: "('w, 'x, 'd) dashlib \<Rightarrow> bool \<Rightarrow> ('w, K8sEnrichmentResult) state" where
  "EnrichWithK8sData L includePods = do {
     config \<leftarrow> State (kube_InClusterConfig L);
     if \<not> config then ret noBindings
     else do {
       client \<leftarrow> State (kube_NewForConfig L);
       if \<not> client then ret noBindings
       else do {
         pvs \<leftarrow> State (kube_ListPVs L);
         case pvs of
           None \<Rightarrow> ret noBindings
         | Some items \<Rightarrow>
             let bindings = enrichLoop items fmempty;
                 result = \<lparr>ke_Available = True, ke_Bindings = bindings\<rparr>
             in if includePods then do {
                  pods \<leftarrow> State (kube_ListPods L);
                  ret (case pods of
                      None \<Rightarrow> result
                    | Some ps \<Rightarrow> result\<lparr>ke_Bindings := fmmap (setPods (pvcToPods ps)) bindings\<rparr>)
                }
                else ret result
       }
     }
   }"

section \<open>Responses\<close>

text \<open>
  A response as it is written: the header so far, the status and header that have been sent with the
  first byte or \<^verbatim>\<open>WriteHeader\<close>, and the body.
\<close>

record http_response =
  rs_Header :: smap
  rs_Sent :: "(nat \<times> smap) option"
  rs_Body :: string

definition noResponse :: http_response where
  "noResponse = \<lparr>rs_Header = fmempty, rs_Sent = None, rs_Body = []\<rparr>"

definition SetHeader :: "string \<Rightarrow> string \<Rightarrow> http_response \<Rightarrow> http_response" where
  "SetHeader key v w = w\<lparr>rs_Header := fmupd key v (rs_Header w)\<rparr>"

definition WriteHeader :: "nat \<Rightarrow> http_response \<Rightarrow> http_response" where
  "WriteHeader status w = (if rs_Sent w = None then w\<lparr>rs_Sent := Some (status, rs_Header w)\<rparr> else w)"

definition WriteBody :: "string \<Rightarrow> http_response \<Rightarrow> http_response" where
  "WriteBody text w = (let w1 = WriteHeader 200 w in w1\<lparr>rs_Body := rs_Body w1 @ text\<rparr>)"

text \<open>\<^verbatim>\<open>http.Error\<close> and \<^verbatim>\<open>http.NotFound\<close>; a handler that returns without a byte sends status 200.\<close>

definition http_Error :: "string \<Rightarrow> nat \<Rightarrow> http_response \<Rightarrow> http_response" where
  "http_Error text status w =
     WriteBody (text @ newline) (WriteHeader status
       (SetHeader ''X-Content-Type-Options'' ''nosniff'' (SetHeader ''Content-Type'' ''text/plain; charset=utf-8'' w)))"

definition http_NotFound :: "http_response \<Rightarrow> http_response" where
  "http_NotFound = http_Error ''404 page not found'' 404"

definition response_status :: "http_response \<Rightarrow> nat" where
  "response_status w = (case rs_Sent w of None \<Rightarrow> 200 | Some (status, _) \<Rightarrow> status)"

definition writeJSONResponse :: "('w, 'x, 'd) dashlib \<Rightarrow> ('x, 'd) payload \<Rightarrow> http_response" where
  "writeJSONResponse L data =
     (let w = SetHeader ''Content-Type'' ''application/json'' noResponse
      in case go_EncodeJSON L data of None \<Rightarrow> w | Some text \<Rightarrow> WriteBody text w)"

definition writeJSONError :: "('w, 'x, 'd) dashlib \<Rightarrow> string \<Rightarrow> http_response" where
  "writeJSONError L err =
     (let w = WriteHeader 500 (SetHeader ''Content-Type'' ''application/json'' noResponse)
      in case go_EncodeJSON L (Failure err) of None \<Rightarrow> w | Some text \<Rightarrow> WriteBody text w)"

text \<open>
  A page: the header, then the template, whose output up to an error has been written. The partial
  pages only log an error.
\<close>

definition htmlPage ::
  "('w, 'x, 'd) dashlib \<Rightarrow> string \<Rightarrow> ('x, 'd) payload \<Rightarrow> ('w, http_response \<times> string option) state" where
  "htmlPage L name data = do {
     t \<leftarrow> State (go_ExecuteTemplate L name data);
     let w = SetHeader ''Content-Type'' ''text/html; charset=utf-8'' noResponse;
     ret (if fst t = [] then w else WriteBody (fst t) w, snd t)
   }"

definition partialPage ::
  "('w, 'x, 'd) dashlib \<Rightarrow> string \<Rightarrow> ('x, 'd) payload \<Rightarrow> ('w, http_response) state" where
  "partialPage L name data = htmlPage L name data \<bind> (\<lambda>p. ret (fst p))"

section \<open>Handlers\<close>

record dash_server =
  ds_filesystem :: string
  ds_version :: string
  ds_clusterID :: string

record http_request =
  rq_Path :: string
  rq_Query :: string

definition handleDashboard ::
  "('w, 'x, 'd) dashlib \<Rightarrow> dash_server \<Rightarrow> http_request \<Rightarrow> ('w, http_response) state" where
  "handleDashboard L s r =
     (if rq_Path r \<noteq> ''/dashboard/'' then ret (http_NotFound noResponse)
      else do {
        f \<leftarrow> FetchK8sVolumes L;
        let volumes = fst f;
        let summary = (if volumes \<noteq> [] then dl_CalculateSummary L volumes (dl_nil L) (dl_nil L) else dl_nil L);
        let page = dl_PaginateVolumes L volumes (dl_ParsePaginationParams L (rq_Query r)) ''/dashboard/partials/volumes'';
        p \<leftarrow> htmlPage L ''dashboard.html'' (Overview (ds_version s) volumes summary page);
        ret (case snd p of None \<Rightarrow> fst p | Some _ \<Rightarrow> http_Error ''Template error'' 500 (fst p))
      })"

definition answerJSON ::
  "('w, 'x, 'd) dashlib \<Rightarrow> ('a \<Rightarrow> ('x, 'd) payload) \<Rightarrow> string + 'a \<Rightarrow> http_response" where
  "answerJSON L wrap r = (case r of Inl err \<Rightarrow> writeJSONError L err | Inr data \<Rightarrow> writeJSONResponse L (wrap data))"

definition handleAPIVolumes ::
  "('w, 'x, 'd) dashlib \<Rightarrow> dash_server \<Rightarrow> http_request \<Rightarrow> ('w, http_response) state" where
  "handleAPIVolumes L s r = do {
     v \<leftarrow> State (dl_FindManagedVolumes L (ds_clusterID s));
     ret (answerJSON L Volumes v)
   }"

definition handleAPISnapshots ::
  "('w, 'x, 'd) dashlib \<Rightarrow> dash_server \<Rightarrow> http_request \<Rightarrow> ('w, http_response) state" where
  "handleAPISnapshots L s r = do {
     v \<leftarrow> State (dl_FindManagedSnapshots L (ds_clusterID s));
     ret (answerJSON L Opaque v)
   }"

definition handleAPIClones ::
  "('w, 'x, 'd) dashlib \<Rightarrow> dash_server \<Rightarrow> http_request \<Rightarrow> ('w, http_response) state" where
  "handleAPIClones L s r = do {
     v \<leftarrow> State (dl_FindClonedVolumes L (ds_clusterID s));
     ret (answerJSON L Opaque v)
   }"

text \<open>
  The three lookups of a summary run concurrently; they only read, so one order stands for all, and
  which of several errors \<^verbatim>\<open>Wait\<close> returns is a parameter. A lookup that fails leaves its variable empty.
\<close>

definition failures :: "('e + 'a) \<Rightarrow> 'e list" where
  "failures r = (case r of Inl e \<Rightarrow> [e] | Inr _ \<Rightarrow> [])"

definition or_else :: "'a \<Rightarrow> 'e + 'a \<Rightarrow> 'a" where
  "or_else z r = (case r of Inl _ \<Rightarrow> z | Inr x \<Rightarrow> x)"

definition summaryLookups :: "('w, 'x, 'd) dashlib \<Rightarrow> dash_server \<Rightarrow> ('w, string list \<times> 'd) state" where
  "summaryLookups L s = do {
     v \<leftarrow> State (dl_FindManagedVolumes L (ds_clusterID s));
     n \<leftarrow> State (dl_FindManagedSnapshots L (ds_clusterID s));
     c \<leftarrow> State (dl_FindClonedVolumes L (ds_clusterID s));
     ret (failures v @ failures n @ failures c,
       dl_CalculateSummary L (or_else [] v) (or_else (dl_nil L) n) (or_else (dl_nil L) c))
   }"

definition handleAPISummary ::
  "('w, 'x, 'd) dashlib \<Rightarrow> dash_server \<Rightarrow> http_request \<Rightarrow> ('w, http_response) state" where
  "handleAPISummary L s r = do {
     q \<leftarrow> summaryLookups L s;
     ret (if fst q \<noteq> [] then writeJSONError L (go_firstError L (fst q))
          else writeJSONResponse L (Opaque (snd q)))
   }"

definition handlePartialSummary ::
  "('w, 'x, 'd) dashlib \<Rightarrow> dash_server \<Rightarrow> http_request \<Rightarrow> ('w, http_response) state" where
  "handlePartialSummary L s r = do {
     q \<leftarrow> summaryLookups L s;
     partialPage L ''summary_cards.html'' (Opaque (snd q))
   }"

definition bindVolume ::
  "('w, 'x, 'd) dashlib \<Rightarrow> (string, K8sVolumeBinding) fmap \<Rightarrow> 'x volume_info \<Rightarrow> 'x volume_info" where
  "bindVolume L bindings v =
     (case dl_MatchK8sBinding L bindings (vo_Dataset v) (vo_VolumeID v) of None \<Rightarrow> v | b \<Rightarrow> v\<lparr>vo_K8s := b\<rparr>)"

definition handlePartialVolumes ::
  "('w, 'x, 'd) dashlib \<Rightarrow> dash_server \<Rightarrow> http_request \<Rightarrow> ('w, http_response) state" where
  "handlePartialVolumes L s r = do {
     v \<leftarrow> State (dl_FindManagedVolumes L (ds_clusterID s));
     case v of
       Inl err \<Rightarrow> ret (http_Error err 500 noResponse)
     | Inr found \<Rightarrow> do {
         annotated \<leftarrow> State (dl_AnnotateVolumesWithHealth L found);
         k8s \<leftarrow> EnrichWithK8sData L False;
         let volumes = (if ke_Available k8s then map (bindVolume L (ke_Bindings k8s)) annotated else annotated);
         partialPage L ''volumes_table.html''
           (Opaque (dl_PaginateVolumes L volumes (dl_ParsePaginationParams L (rq_Query r)) ''/dashboard/partials/volumes''))
       }
   }"

text \<open>The partial pages of snapshots, clones and unmanaged volumes.\<close>

definition tablePage :: "('w, 'x, 'd) dashlib \<Rightarrow> string \<Rightarrow> ('d \<Rightarrow> 'd) \<Rightarrow> string + 'd \<Rightarrow> ('w, http_response) state" where
  "tablePage L name paginate r =
     (case r of
        Inl err \<Rightarrow> ret (http_Error err 500 noResponse)
      | Inr data \<Rightarrow> partialPage L name (Opaque (paginate data)))"

definition handlePartialSnapshots ::
  "('w, 'x, 'd) dashlib \<Rightarrow> dash_server \<Rightarrow> http_request \<Rightarrow> ('w, http_response) state" where
  "handlePartialSnapshots L s r = do {
     v \<leftarrow> State (dl_FindManagedSnapshots L (ds_clusterID s));
     tablePage L ''snapshots_table.html'' (\<lambda>d. dl_PaginateSnapshots L d
       (dl_ParsePaginationParams L (rq_Query r)) ''/dashboard/partials/snapshots'') v
   }"

definition handlePartialClones ::
  "('w, 'x, 'd) dashlib \<Rightarrow> dash_server \<Rightarrow> http_request \<Rightarrow> ('w, http_response) state" where
  "handlePartialClones L s r = do {
     v \<leftarrow> State (dl_FindClonedVolumes L (ds_clusterID s));
     tablePage L ''clones_table.html'' (\<lambda>d. dl_PaginateClones L d
       (dl_ParsePaginationParams L (rq_Query r)) ''/dashboard/partials/clones'') v
   }"

definition notConfigured :: string where
  "notConfigured = ''<div class=\"empty-state\">Filesystem not configured. Start dashboard with --dashboard-filesystem flag to see unmanaged volumes.</div>''"

definition handlePartialUnmanaged ::
  "('w, 'x, 'd) dashlib \<Rightarrow> dash_server \<Rightarrow> http_request \<Rightarrow> ('w, http_response) state" where
  "handlePartialUnmanaged L s r =
     (if ds_filesystem s = []
      then ret (WriteBody notConfigured (SetHeader ''Content-Type'' ''text/html; charset=utf-8'' noResponse))
      else do {
        v \<leftarrow> State (dl_FindUnmanagedVolumes L (ds_filesystem s) False (ds_clusterID s));
        tablePage L ''unmanaged_table.html'' (\<lambda>d. dl_PaginateUnmanaged L d
          (dl_ParsePaginationParams L (rq_Query r)) ''/dashboard/partials/unmanaged'') v
      })"

definition handleAPIUnmanaged ::
  "('w, 'x, 'd) dashlib \<Rightarrow> dash_server \<Rightarrow> http_request \<Rightarrow> ('w, http_response) state" where
  "handleAPIUnmanaged L s r =
     (if ds_filesystem s = [] then ret (writeJSONError L ''filesystem not configured'')
      else do {
        v \<leftarrow> State (dl_FindUnmanagedVolumes L (ds_filesystem s) False (ds_clusterID s));
        ret (answerJSON L Opaque v)
      })"

definition TrimPrefix :: "string \<Rightarrow> string \<Rightarrow> string" where
  "TrimPrefix text p = (if prefix p text then drop (length p) text else text)"

definition handlePartialVolumeDetail ::
  "('w, 'x, 'd) dashlib \<Rightarrow> dash_server \<Rightarrow> http_request \<Rightarrow> ('w, http_response) state" where
  "handlePartialVolumeDetail L s r =
     (let volumeID = TrimPrefix (rq_Path r) ''/dashboard/partials/volume-detail/''
      in if volumeID = [] then ret (http_Error ''Volume ID required'' 400 noResponse)
         else do {
           v \<leftarrow> State (dl_GetVolumeDetails L volumeID);
           case v of
             Inl err \<Rightarrow> ret (http_Error err 500 noResponse)
           | Inr details \<Rightarrow> do {
               k8s \<leftarrow> EnrichWithK8sData L True;
               partialPage L ''volume_detail.html'' (Details
                 (if ke_Available k8s
                  then (case dl_MatchK8sBinding L (ke_Bindings k8s) (vd_Dataset details) (vd_VolumeID details) of
                          None \<Rightarrow> details | b \<Rightarrow> details\<lparr>vd_K8s := b\<rparr>)
                  else details))
             }
         })"

definition handleAPIVolumeDetail ::
  "('w, 'x, 'd) dashlib \<Rightarrow> dash_server \<Rightarrow> http_request \<Rightarrow> ('w, http_response) state" where
  "handleAPIVolumeDetail L s r =
     (let volumeID = TrimPrefix (rq_Path r) ''/dashboard/api/volumes/''
      in if volumeID = [] then ret (writeJSONError L ''volume ID required'')
         else do {
           v \<leftarrow> State (dl_GetVolumeDetails L volumeID);
           ret (answerJSON L Details v)
         })"

definition handlePartialMetrics ::
  "('w, 'x, 'd) dashlib \<Rightarrow> dash_server \<Rightarrow> http_request \<Rightarrow> ('w, http_response) state" where
  "handlePartialMetrics L s r = do {
     g \<leftarrow> State (prom_Gather L);
     partialPage L ''metrics_panel.html'' (Panel (GatherLocalMetrics (prom_convert L) g))
   }"

definition handleAPIMetrics ::
  "('w, 'x, 'd) dashlib \<Rightarrow> dash_server \<Rightarrow> http_request \<Rightarrow> ('w, http_response) state" where
  "handleAPIMetrics L s r = do {
     g \<leftarrow> State (prom_Gather L);
     ret (writeJSONResponse L (Panel ((GatherLocalMetrics (prom_convert L) g)\<lparr>ms_RawMetrics := []\<rparr>)))
   }"

definition handleAPIMetricsRaw ::
  "('w, 'x, 'd) dashlib \<Rightarrow> dash_server \<Rightarrow> http_request \<Rightarrow> ('w, http_response) state" where
  "handleAPIMetricsRaw L s r = do {
     g \<leftarrow> State (prom_Gather L);
     ret (case GatherRawMetrics (prom_text L) (prom_otherType L) g of
         Inl err \<Rightarrow> http_Error err 500 noResponse
       | Inr text \<Rightarrow> WriteBody text (SetHeader ''Content-Type'' ''text/plain; charset=utf-8'' noResponse))
   }"

section \<open>Routes\<close>

type_synonym ('w, 'x, 'd) handler = "('w, 'x, 'd) dashlib \<Rightarrow> dash_server \<Rightarrow> http_request \<Rightarrow> ('w, http_response) state"

definition RegisterRoutes :: "(string \<times> ('w, 'x, 'd) handler) list" where
  "RegisterRoutes =
     [(''/dashboard/'', handleDashboard), (''/dashboard/api/volumes'', handleAPIVolumes),
      (''/dashboard/api/volumes/'', handleAPIVolumeDetail), (''/dashboard/api/snapshots'', handleAPISnapshots),
      (''/dashboard/api/clones'', handleAPIClones), (''/dashboard/api/summary'', handleAPISummary),
      (''/dashboard/api/unmanaged'', handleAPIUnmanaged), (''/dashboard/api/metrics'', handleAPIMetrics),
      (''/dashboard/api/metrics/raw'', handleAPIMetricsRaw), (''/dashboard/partials/volumes'', handlePartialVolumes),
      (''/dashboard/partials/snapshots'', handlePartialSnapshots), (''/dashboard/partials/clones'', handlePartialClones),
      (''/dashboard/partials/unmanaged'', handlePartialUnmanaged), (''/dashboard/partials/summary'', handlePartialSummary),
      (''/dashboard/partials/volume-detail/'', handlePartialVolumeDetail), (''/dashboard/partials/metrics'', handlePartialMetrics)]"

text \<open>
  \<^verbatim>\<open>http.ServeMux\<close> on a clean path: a pattern that ends with a slash matches the paths that start with
  it, any other only itself, and of the patterns that match the longest is taken. The redirects of
  paths that are not clean or lack the final slash of a pattern are left out.
\<close>

definition pattern_matches :: "string \<Rightarrow> string \<Rightarrow> bool" where
  "pattern_matches path pattern \<longleftrightarrow>
     (if pattern \<noteq> [] \<and> last pattern = CHR ''/'' then prefix pattern path else pattern = path)"

fun longest :: "(string \<times> 'h) list \<Rightarrow> (string \<times> 'h) option" where
  "longest [] = None"
| "longest (p # ps) =
     (case longest ps of None \<Rightarrow> Some p | Some q \<Rightarrow> if length (fst q) < length (fst p) then Some p else Some q)"

definition serve :: "('w, 'x, 'd) handler" where
  "serve L s r =
     (case longest (filter (\<lambda>p. pattern_matches (rq_Path r) (fst p)) RegisterRoutes) of
        None \<Rightarrow> ret (http_NotFound noResponse)
      | Some (_, handle) \<Rightarrow> handle L s r)"

end
