(* ===== verification/Dashboard_Laws.thy ===== *)
theory Dashboard_Laws
  imports Dashboard
begin

text \<open>
  What the pages of the dashboard promise: the two views of Kubernetes agree, the pods shown for a
  volume are those that mount its claim, requests reach their handlers, and failures are reported.
\<close>

section \<open>Views of Kubernetes\<close>

lemma fetchLoop_bindings: "snd (fetchLoop L pvs volumes bindings) = enrichLoop pvs bindings"
  by (induction pvs arbitrary: volumes bindings) (simp_all split: option.split)

text \<open>The last of the volumes with a handle.\<close>

definition last_with :: "string \<Rightarrow> 'x volume_info list \<Rightarrow> K8sVolumeBinding option" where
  "last_with handle volumes =
     (case rev (filter (\<lambda>v. vo_Dataset v = handle) volumes) of [] \<Rightarrow> None | v # _ \<Rightarrow> vo_K8s v)"

lemma last_with_Nil [simp]: "last_with h [] = None"
  by (simp add: last_with_def)

lemma last_with_snoc:
  "last_with h (volumes @ [v]) = (if vo_Dataset v = h then vo_K8s v else last_with h volumes)"
  by (simp add: last_with_def)

lemma fetchLoop_consistent:
  assumes "\<And>h. fmlookup bindings h = last_with h volumes"
  shows "fmlookup (snd (fetchLoop L pvs volumes bindings)) h = last_with h (fst (fetchLoop L pvs volumes bindings))"
  using assms
proof (induction pvs arbitrary: volumes bindings)
  case (Cons pv pvs)
  show ?case
  proof (cases "ownSource pv")
    case (Some c)
    have "fmlookup (fmupd (cs_VolumeHandle c) (pvBinding pv) bindings) h = last_with h (volumes @ [pvVolume L c pv])" for h
      using Cons.prems by (simp add: last_with_snoc pvVolume_def Let_def)
    from Cons.IH [OF this] Some show ?thesis by simp
  qed (use Cons in simp)
qed simp

text \<open>The volumes of this driver among the persistent volumes, in their order.\<close>

definition own_volumes :: "('w, 'x, 'd) dashlib \<Rightarrow> persistent_volume list \<Rightarrow> 'x volume_info list" where
  "own_volumes L pvs = List.map_filter (\<lambda>pv. map_option (\<lambda>c. pvVolume L c pv) (ownSource pv)) pvs"

lemma fetchLoop_volumes: "fst (fetchLoop L pvs volumes bindings) = volumes @ own_volumes L pvs"
  by (induction pvs arbitrary: volumes bindings)
    (simp_all add: own_volumes_def List.map_filter_simps split: option.split)

text \<open>The persistent volumes the cluster answers with, if it answers.\<close>

definition cluster_volumes :: "('w, 'x, 'd) dashlib \<Rightarrow> ('w, persistent_volume list option) state" where
  "cluster_volumes L = do {
     config \<leftarrow> State (kube_InClusterConfig L);
     if \<not> config then ret None
     else do {
       client \<leftarrow> State (kube_NewForConfig L);
       if \<not> client then ret None else State (kube_ListPVs L)
     }
   }"

lemma FetchK8sVolumes_cluster:
  "FetchK8sVolumes L = do {
     pvs \<leftarrow> cluster_volumes L;
     ret (case pvs of None \<Rightarrow> ([], noBindings)
       | Some items \<Rightarrow> (own_volumes L items, \<lparr>ke_Available = True, ke_Bindings = enrichLoop items fmempty\<rparr>))
   }"
proof -
  have loop: "fetchLoop L items [] fmempty = (own_volumes L items, enrichLoop items fmempty)" for items
    using fetchLoop_volumes [of L items "[]" fmempty] fetchLoop_bindings [of L items "[]" fmempty]
    by (simp add: prod_eq_iff)
  show ?thesis
    by (rule state.expand)
      (simp add: FetchK8sVolumes_def cluster_volumes_def loop State_Monad.bind_def fun_eq_iff
        split: prod.split option.split)
qed

lemma EnrichWithK8sData_cluster:
  "EnrichWithK8sData L False = do {
     pvs \<leftarrow> cluster_volumes L;
     ret (case pvs of None \<Rightarrow> noBindings
       | Some items \<Rightarrow> \<lparr>ke_Available = True, ke_Bindings = enrichLoop items fmempty\<rparr>)
   }"
  by (rule state.expand)
    (simp add: EnrichWithK8sData_def cluster_volumes_def State_Monad.bind_def fun_eq_iff Let_def
      split: prod.split option.split)

text \<open>
  The overview and the table of volumes read Kubernetes alike. From the same state of the
  cluster, the bindings that \<^verbatim>\<open>FetchK8sVolumes\<close> returns beside its volumes are those of
  \<^verbatim>\<open>EnrichWithK8sData\<close>, down to whether Kubernetes could be asked; they have an entry for exactly the
  handles of the volumes, the binding of the last volume with the handle; and the volumes are those
  of this driver, in the order of the cluster.
\<close>

theorem k8s_views_agree:
  "case run_state (FetchK8sVolumes L) w of ((volumes, result), w') \<Rightarrow>
     run_state (EnrichWithK8sData L False) w = (result, w') \<and>
     (\<forall>h. fmlookup (ke_Bindings result) h = last_with h volumes) \<and>
     (\<exists>pvs. run_state (cluster_volumes L) w = (pvs, w') \<and> ke_Available result = (pvs \<noteq> None) \<and>
        volumes = (case pvs of None \<Rightarrow> [] | Some items \<Rightarrow> own_volumes L items))"
proof -
  obtain pvs w' where c: "run_state (cluster_volumes L) w = (pvs, w')" by fastforce
  have "fmlookup (enrichLoop items fmempty) h = last_with h (own_volumes L items)" for items h
    using fetchLoop_consistent [of fmempty "[]" L items h]
    by (simp add: fetchLoop_bindings fetchLoop_volumes)
  then show ?thesis
    by (cases pvs) (simp_all add: FetchK8sVolumes_cluster EnrichWithK8sData_cluster run_state_bind c noBindings_def)
qed

section \<open>Pods\<close>

text \<open>Names of Kubernetes have no slash, so namespace and name can be told apart in a key.\<close>

lemma claimKey_inj:
  assumes "CHR ''/'' \<notin> set ns" "CHR ''/'' \<notin> set ns'"
  shows "claimKey ns name = claimKey ns' name' \<longleftrightarrow> ns = ns' \<and> name = name'"
  using assms
proof (induction ns arbitrary: ns')
  case Nil
  then show ?case by (cases ns') (auto simp: claimKey_def)
next
  case (Cons c ns)
  then show ?case by (cases ns') (auto simp: claimKey_def)
qed

definition refs_at :: "(string, string list) fmap \<Rightarrow> string \<Rightarrow> string list" where
  "refs_at m key = (case fmlookup m key of None \<Rightarrow> [] | Some refs \<Rightarrow> refs)"

definition podRef :: "pod \<Rightarrow> string" where
  "podRef p = pod_Namespace p @ ''/'' @ pod_Name p"

text \<open>The pods that mount a claim, once for each volume that does.\<close>

definition mounting :: "string \<Rightarrow> pod list \<Rightarrow> string list" where
  "mounting key pods =
     concat (map (\<lambda>p. map (\<lambda>_. podRef p)
       (filter (\<lambda>claim. map_option (claimKey (pod_Namespace p)) claim = Some key) (pod_Claims p))) pods)"

lemma refs_addPodRef: "refs_at (addPodRef key ref m) k = refs_at m k @ (if k = key then [ref] else [])"
  by (simp add: refs_at_def addPodRef_def split: option.split)

lemma refs_podClaims: "refs_at (podClaims p m) key = refs_at m key @ mounting key [p]"
proof -
  have "refs_at (fold (\<lambda>claim m. case claim of None \<Rightarrow> m
      | Some name \<Rightarrow> addPodRef (claimKey (pod_Namespace p) name) (podRef p) m) cs m) key =
    refs_at m key @ map (\<lambda>_. podRef p) (filter (\<lambda>claim. map_option (claimKey (pod_Namespace p)) claim = Some key) cs)" for cs
    by (induction cs arbitrary: m) (auto simp: refs_addPodRef split: option.split)
  from this [of "pod_Claims p"] show ?thesis
    unfolding podClaims_def mounting_def podRef_def [symmetric] by simp
qed

lemma refs_pvcToPods: "refs_at (pvcToPods pods) key = mounting key pods"
proof -
  have "refs_at (fold podClaims pods m) key = refs_at m key @ mounting key pods" for m
    by (induction pods arbitrary: m) (simp_all add: refs_podClaims, simp_all add: mounting_def)
  then show ?thesis by (simp add: pvcToPods_def refs_at_def)
qed

definition mounts_claim :: "string \<Rightarrow> string \<Rightarrow> pod \<Rightarrow> bool" where
  "mounts_claim ns name p \<longleftrightarrow> pod_Namespace p = ns \<and> Some name \<in> set (pod_Claims p)"

text \<open>
  The pods shown for a volume are exactly those that mount its claim, and a volume without a claim
  shows none.
\<close>

theorem pods_of_binding:
  assumes "CHR ''/'' \<notin> set (kb_PVCNamespace b)" "\<forall>p\<in>set pods. CHR ''/'' \<notin> set (pod_Namespace p)"
    and "kb_PVCName b \<noteq> []" "kb_PVCNamespace b \<noteq> []" "kb_Pods b = []"
  shows "set (kb_Pods (setPods (pvcToPods pods) b)) =
    podRef ` {p \<in> set pods. mounts_claim (kb_PVCNamespace b) (kb_PVCName b) p}"
proof -
  let ?key = "claimKey (kb_PVCNamespace b) (kb_PVCName b)"
  have "kb_Pods (setPods (pvcToPods pods) b) = mounting ?key pods"
    using refs_pvcToPods [of pods ?key] assms(3-5) by (simp add: setPods_def refs_at_def split: option.splits)
  moreover have "map_option (claimKey (pod_Namespace p)) claim = Some ?key \<longleftrightarrow>
      pod_Namespace p = kb_PVCNamespace b \<and> claim = Some (kb_PVCName b)" if "p \<in> set pods" for p claim
    using assms(1,2) that by (cases claim) (auto simp: claimKey_inj)
  ultimately show ?thesis by (auto simp: mounting_def mounts_claim_def image_iff)
qed

section \<open>Requests\<close>

lemma longest_None: "longest ps = None \<longleftrightarrow> ps = []"
  by (cases ps) (auto split: option.split)

lemma longest_mem: "longest ps = Some q \<Longrightarrow> q \<in> set ps"
  by (induction ps) (auto split: option.splits if_splits)

lemma longest_unique:
  assumes "p \<in> set ps" "\<forall>q\<in>set ps. q \<noteq> p \<longrightarrow> length (fst q) < length (fst p)"
  shows "longest ps = Some p"
  using assms
proof (induction ps)
  case (Cons a ps)
  show ?case
  proof (cases "p \<in> set ps")
    case True
    with Cons show ?thesis by (cases "a = p") auto
  next
    case False
    with Cons.prems have "a = p" by simp
    with Cons.prems False show ?thesis
      by (auto split: option.split dest!: longest_mem)
  qed
qed simp

lemma routes_distinct: "distinct (map fst RegisterRoutes)"
  by (simp add: RegisterRoutes_def)

text \<open>A request for a registered path reaches its handler.\<close>

lemma serve_registered:
  assumes "(path, handle) \<in> set RegisterRoutes" "rq_Path r = path"
  shows "serve L s r = handle L s r"
proof -
  let ?ps = "filter (\<lambda>p. pattern_matches path (fst p)) RegisterRoutes"
  have "(path, handle) \<in> set ?ps" using assms(1) by (simp add: pattern_matches_def)
  moreover have "length (fst q) < length path" if "q \<in> set ?ps" "q \<noteq> (path, handle)" for q
  proof -
    have "fst q \<noteq> path"
    proof
      assume "fst q = path"
      with that(1) have "(path, snd q) \<in> set RegisterRoutes" by auto
      from eq_key_imp_eq_value [OF routes_distinct assms(1) this] \<open>fst q = path\<close> that(2)
      show False by (cases q) simp
    qed
    then show ?thesis using that(1)
      by (auto simp: pattern_matches_def prefix_def split: if_splits)
  qed
  ultimately have "longest ?ps = Some (path, handle)" by (intro longest_unique) auto
  then show ?thesis by (simp add: serve_def assms(2))
qed

text \<open>What follows the prefix of the details, slashes included, is the identifier of the volume.\<close>

lemma serve_details:
  "rq_Path r = ''/dashboard/api/volumes/'' @ volumeID \<Longrightarrow> serve L s r = handleAPIVolumeDetail L s r"
  "rq_Path r = ''/dashboard/partials/volume-detail/'' @ volumeID \<Longrightarrow> serve L s r = handlePartialVolumeDetail L s r"
  by (simp_all add: serve_def RegisterRoutes_def pattern_matches_def)

section \<open>Failures\<close>

lemmas response_defs = response_status_def http_Error_def WriteBody_def WriteHeader_def SetHeader_def
  noResponse_def Let_def

lemma status_answerJSON:
  "response_status (answerJSON L wrap v) = (case v of Inl _ \<Rightarrow> 500 | Inr _ \<Rightarrow> 200)"
  by (simp add: answerJSON_def writeJSONError_def writeJSONResponse_def response_defs split: sum.split option.split)

lemma status_writeJSON:
  "response_status (writeJSONError L err) = 500" "response_status (writeJSONResponse L data) = 200"
  by (simp_all add: writeJSONError_def writeJSONResponse_def response_defs split: option.split)

lemma status_partialPage: "response_status (fst (run_state (partialPage L name data) w)) = 200"
  by (simp add: partialPage_def htmlPage_def run_state_bind response_defs split: prod.split)

text \<open>
  The summary in JSON answers with an error exactly if one of its lookups has failed; the summary
  cards of the page answer with success in every case, and show nothing for what has failed.
\<close>

theorem summary_failures:
  "case run_state (summaryLookups L s) w of ((errors, summary), w1) \<Rightarrow>
     (case run_state (handleAPISummary L s r) w of (json, w2) \<Rightarrow>
        w2 = w1 \<and> response_status json = (if errors = [] then 200 else 500)) \<and>
     response_status (fst (run_state (handlePartialSummary L s r) w)) = 200"
  by (simp add: handleAPISummary_def handlePartialSummary_def run_state_bind status_partialPage status_writeJSON
    split: prod.split)

end
