(* ===== verification/Connect_Limit.thy ===== *)
theory Connect_Limit
  imports Prelude
begin

text \<open>
  The limit on concurrent NVMe-oF connects (\<^verbatim>\<open>stageNVMeOFVolume\<close> of \<^verbatim>\<open>src/pkg/driver/node_nvmeof.go\<close>,
  with the gauges of \<^verbatim>\<open>src/pkg/metrics/metrics.go\<close>), as the steps that concurrent calls take: each
  step is one operation on the channel or on a gauge, and they interleave freely.
\<close>

section \<open>State and steps\<close>

text \<open>
  Where a call is: in the \<^verbatim>\<open>select\<close>; after its send, before each of the two gauges; connecting; after
  the deferred receive, before the gauge; after its context has ended, before the gauge.
\<close>

datatype connect_pc = Outside | Selecting | Acquired | Admitted | Connecting | Freed | Expired

text \<open>The capacity of the buffered channel and the number of values in it, and the two gauges.\<close>

record connect_limit =
  sem_cap :: nat
  sem_len :: nat
  nvmeConnectWaiting :: int
  nvmeConnectConcurrent :: int
  conns :: "nat \<Rightarrow> connect_pc"

text \<open>\<^verbatim>\<open>NewNodeService\<close> replaces a limit that is not positive by the default.\<close>

definition newConnectLimit :: "int \<Rightarrow> connect_limit" where
  "newConnectLimit maxConcurrentNVMeConnects =
     \<lparr>sem_cap = nat (if maxConcurrentNVMeConnects \<le> 0 then 5 else maxConcurrentNVMeConnects),
      sem_len = 0, nvmeConnectWaiting = 0, nvmeConnectConcurrent = 0, conns = (\<lambda>_. Outside)\<rparr>"

definition NVMeConnectWaiting :: "connect_limit \<Rightarrow> connect_limit" where
  "NVMeConnectWaiting l = l\<lparr>nvmeConnectWaiting := nvmeConnectWaiting l + 1\<rparr>"

definition NVMeConnectDoneWaiting :: "connect_limit \<Rightarrow> connect_limit" where
  "NVMeConnectDoneWaiting l = l\<lparr>nvmeConnectWaiting := nvmeConnectWaiting l - 1\<rparr>"

definition NVMeConnectStart :: "connect_limit \<Rightarrow> connect_limit" where
  "NVMeConnectStart l = l\<lparr>nvmeConnectConcurrent := nvmeConnectConcurrent l + 1\<rparr>"

definition NVMeConnectDone :: "connect_limit \<Rightarrow> connect_limit" where
  "NVMeConnectDone l = l\<lparr>nvmeConnectConcurrent := nvmeConnectConcurrent l - 1\<rparr>"

text \<open>A send blocks while the channel is full, a receive while it is empty.\<close>

definition sendSlot :: "connect_limit \<Rightarrow> connect_limit option" where
  "sendSlot l = (if sem_len l < sem_cap l then Some (l\<lparr>sem_len := Suc (sem_len l)\<rparr>) else None)"

definition receiveSlot :: "connect_limit \<Rightarrow> connect_limit option" where
  "receiveSlot l = (if sem_len l = 0 then None else Some (l\<lparr>sem_len := sem_len l - 1\<rparr>))"

definition moves :: "nat \<Rightarrow> connect_pc \<Rightarrow> connect_limit \<Rightarrow> connect_limit" where
  "moves t p l = l\<lparr>conns := (conns l)(t := p)\<rparr>"

inductive connect_step :: "nat \<Rightarrow> connect_limit \<Rightarrow> connect_limit \<Rightarrow> bool" where
  Wait: "conns l t = Outside \<Longrightarrow> connect_step t l (moves t Selecting (NVMeConnectWaiting l))"
| Send: "conns l t = Selecting \<Longrightarrow> sendSlot l = Some l1 \<Longrightarrow> connect_step t l (moves t Acquired l1)"
| CtxDone: "conns l t = Selecting \<Longrightarrow> connect_step t l (moves t Expired l)"
| Refused: "conns l t = Expired \<Longrightarrow> connect_step t l (moves t Outside (NVMeConnectDoneWaiting l))"
| Admit: "conns l t = Acquired \<Longrightarrow> connect_step t l (moves t Admitted (NVMeConnectDoneWaiting l))"
| Start: "conns l t = Admitted \<Longrightarrow> connect_step t l (moves t Connecting (NVMeConnectStart l))"
| Free: "conns l t = Connecting \<Longrightarrow> receiveSlot l = Some l1 \<Longrightarrow> connect_step t l (moves t Freed l1)"
| Finish: "conns l t = Freed \<Longrightarrow> connect_step t l (moves t Outside (NVMeConnectDone l))"

inductive_cases connect_stepE: "connect_step t l l'"

inductive connect_reach :: "int \<Rightarrow> connect_limit \<Rightarrow> bool" for maxConnects where
  Fresh: "connect_reach maxConnects (newConnectLimit maxConnects)"
| Later: "connect_reach maxConnects l \<Longrightarrow> connect_step t l l' \<Longrightarrow> connect_reach maxConnects l'"

section \<open>The invariant\<close>

definition calls_at :: "connect_pc set \<Rightarrow> connect_limit \<Rightarrow> nat set" where
  "calls_at P l = {t. conns l t \<in> P}"

definition connect_inv :: "connect_limit \<Rightarrow> bool" where
  "connect_inv l \<longleftrightarrow>
     finite (calls_at (- {Outside}) l) \<and> sem_len l \<le> sem_cap l \<and>
     sem_len l = card (calls_at {Acquired, Admitted, Connecting} l) \<and>
     nvmeConnectWaiting l = int (card (calls_at {Selecting, Acquired, Expired} l)) \<and>
     nvmeConnectConcurrent l = int (card (calls_at {Connecting, Freed} l))"

lemmas gauge_defs = NVMeConnectWaiting_def NVMeConnectDoneWaiting_def NVMeConnectStart_def NVMeConnectDone_def

lemma calls_at_moves:
  "calls_at P (moves t p l) = (if p \<in> P then insert t (calls_at P l) else calls_at P l - {t})"
  by (auto simp: calls_at_def moves_def)

lemma calls_at_updates [simp]:
  "calls_at P (l\<lparr>sem_len := n\<rparr>) = calls_at P l"
  "calls_at P (l\<lparr>nvmeConnectWaiting := i\<rparr>) = calls_at P l"
  "calls_at P (l\<lparr>nvmeConnectConcurrent := i\<rparr>) = calls_at P l"
  by (simp_all add: calls_at_def)

lemma moves_simps [simp]:
  "sem_cap (moves t p l) = sem_cap l" "sem_len (moves t p l) = sem_len l"
  "nvmeConnectWaiting (moves t p l) = nvmeConnectWaiting l"
  "nvmeConnectConcurrent (moves t p l) = nvmeConnectConcurrent l"
  "conns (moves t p l) = (conns l)(t := p)"
  by (simp_all add: moves_def)

lemma finite_calls_at: "connect_inv l \<Longrightarrow> Outside \<notin> P \<Longrightarrow> finite (calls_at P l)"
  by (rule finite_subset [of _ "calls_at (- {Outside}) l"]) (auto simp: connect_inv_def calls_at_def)

text \<open>How many calls are at a point after one of them has moved.\<close>

lemma card_moves:
  assumes "connect_inv l" "Outside \<notin> P"
  shows "int (card (calls_at P (moves t p l))) =
    int (card (calls_at P l)) + of_bool (p \<in> P) - of_bool (conns l t \<in> P)"
proof -
  note fin = finite_calls_at [OF assms]
  have mem: "t \<in> calls_at P l \<longleftrightarrow> conns l t \<in> P" by (simp add: calls_at_def)
  then have "0 < card (calls_at P l)" if "conns l t \<in> P" using that fin card_gt_0_iff by blast
  with fin mem show ?thesis
    by (auto simp: calls_at_moves card_insert_if int_ops of_nat_diff Suc_leI)
qed

lemma connect_inv_move:
  assumes inv: "connect_inv l" and same: "conns l' = conns l"
    and len: "sem_len l' \<le> sem_cap l'" "int (sem_len l') = int (sem_len l)
      + of_bool (p \<in> {Acquired, Admitted, Connecting}) - of_bool (conns l t \<in> {Acquired, Admitted, Connecting})"
    and gauges: "nvmeConnectWaiting l' = nvmeConnectWaiting l
      + of_bool (p \<in> {Selecting, Acquired, Expired}) - of_bool (conns l t \<in> {Selecting, Acquired, Expired})"
      "nvmeConnectConcurrent l' = nvmeConnectConcurrent l
      + of_bool (p \<in> {Connecting, Freed}) - of_bool (conns l t \<in> {Connecting, Freed})"
  shows "connect_inv (moves t p l')"
proof -
  have eq: "calls_at P (moves t p l') = calls_at P (moves t p l)" for P
    using same by (simp add: calls_at_def)
  have "finite (calls_at (- {Outside}) (moves t p l))"
    using inv by (simp add: calls_at_moves connect_inv_def)
  moreover have "int (sem_len l') = int (card (calls_at {Acquired, Admitted, Connecting} (moves t p l)))"
    using card_moves [OF inv, of "{Acquired, Admitted, Connecting}" t p] inv len
    by (simp add: connect_inv_def)
  moreover have "nvmeConnectWaiting l' = int (card (calls_at {Selecting, Acquired, Expired} (moves t p l)))"
    using card_moves [OF inv, of "{Selecting, Acquired, Expired}" t p] inv gauges
    by (simp add: connect_inv_def)
  moreover have "nvmeConnectConcurrent l' = int (card (calls_at {Connecting, Freed} (moves t p l)))"
    using card_moves [OF inv, of "{Connecting, Freed}" t p] inv gauges by (simp add: connect_inv_def)
  ultimately show ?thesis using len by (simp add: connect_inv_def eq)
qed

lemma connect_inv_len: "connect_inv l \<Longrightarrow> sem_len l \<le> sem_cap l"
  by (simp add: connect_inv_def)

lemma connect_step_inv: "connect_step t l l' \<Longrightarrow> connect_inv l \<Longrightarrow> connect_inv l'"
proof (erule connect_stepE)
  assume inv: "connect_inv l"
  note move = connect_inv_move [OF inv] and len = connect_inv_len [OF inv]
  show "connect_inv l'" if "l' = moves t Acquired l1" "conns l t = Selecting" "sendSlot l = Some l1" for l1
    using that len unfolding that(1) by (intro move) (auto simp: sendSlot_def split: if_splits)
  show "connect_inv l'" if "l' = moves t Freed l1" "conns l t = Connecting" "receiveSlot l = Some l1" for l1
    using that len unfolding that(1) by (intro move) (auto simp: receiveSlot_def of_nat_diff split: if_splits)
qed (use connect_inv_move connect_inv_len in \<open>simp_all add: gauge_defs\<close>)

lemma newConnectLimit_inv: "connect_inv (newConnectLimit maxConnects)"
  by (simp add: newConnectLimit_def connect_inv_def calls_at_def)

lemma connect_reach_inv: "connect_reach maxConnects l \<Longrightarrow> connect_inv l"
  by (induction rule: connect_reach.induct) (auto intro: newConnectLimit_inv connect_step_inv)

lemma connect_step_cap: "connect_step t l l' \<Longrightarrow> sem_cap l' = sem_cap l"
  by (erule connect_stepE) (auto simp: gauge_defs sendSlot_def receiveSlot_def split: if_splits)

lemma connect_reach_cap: "connect_reach maxConnects l \<Longrightarrow> sem_cap l = sem_cap (newConnectLimit maxConnects)"
  by (induction rule: connect_reach.induct) (simp_all add: connect_step_cap)

section \<open>What the limit promises\<close>

text \<open>
  C30: under every interleaving of any number of calls, time-outs included, at most as many connects
  run at a time as configured, or five if the configured number is not positive. The channel counts
  the calls that have been admitted and not yet left, so the deferred receive never blocks, and a
  call waits only while all slots are taken. The gauges are exact but for the moment between the
  channel operation and the gauge: one counts the calls that wait, with those just admitted or
  refused, the other those that connect, with those that have just given their slot back.
\<close>

theorem nvme_connects_limited:
  assumes "connect_reach maxConnects l"
  shows "card (calls_at {Connecting} l) \<le> nat (if maxConnects \<le> 0 then 5 else maxConnects) \<and>
    nvmeConnectWaiting l = int (card (calls_at {Selecting, Acquired, Expired} l)) \<and>
    nvmeConnectConcurrent l = int (card (calls_at {Connecting, Freed} l)) \<and>
    (conns l t = Connecting \<longrightarrow> receiveSlot l \<noteq> None) \<and>
    (sendSlot l = None \<longleftrightarrow>
       card (calls_at {Acquired, Admitted, Connecting} l) = nat (if maxConnects \<le> 0 then 5 else maxConnects))"
proof -
  note inv = connect_reach_inv [OF assms]
  have cap: "sem_cap l = nat (if maxConnects \<le> 0 then 5 else maxConnects)"
    using connect_reach_cap [OF assms] by (simp add: newConnectLimit_def)
  have fin: "finite (calls_at {Acquired, Admitted, Connecting} l)" by (rule finite_calls_at [OF inv]) simp
  then have "card (calls_at {Connecting} l) \<le> sem_len l"
    using inv unfolding connect_inv_def by (metis (no_types, lifting) card_mono calls_at_def insert_iff mem_Collect_eq singletonD subsetI)
  moreover have "0 < sem_len l" if "conns l t = Connecting"
    using inv that fin by (auto simp: connect_inv_def card_gt_0_iff calls_at_def)
  ultimately show ?thesis
    using inv unfolding cap [symmetric] by (auto simp: connect_inv_def sendSlot_def receiveSlot_def)
qed

text \<open>With one slot, a call that waits while another connects.\<close>

definition waiting_connect :: connect_limit where
  "waiting_connect =
     \<lparr>sem_cap = 1, sem_len = 1, nvmeConnectWaiting = 1, nvmeConnectConcurrent = 1,
      conns = (\<lambda>_. Outside)(0 := Connecting, 1 := Selecting)\<rparr>"

lemma waiting_connect_reach: "connect_reach 1 waiting_connect"
proof -
  note defs = newConnectLimit_def moves_def gauge_defs sendSlot_def
  let ?a = "moves 0 Selecting (NVMeConnectWaiting (newConnectLimit 1))"
  let ?b = "moves 0 Acquired (?a\<lparr>sem_len := 1\<rparr>)"
  let ?c = "moves 0 Admitted (NVMeConnectDoneWaiting ?b)"
  let ?d = "moves 0 Connecting (NVMeConnectStart ?c)"
  have "connect_reach 1 ?a"
    by (rule connect_reach.Later [OF connect_reach.Fresh connect_step.Wait]) (simp add: defs)
  then have "connect_reach 1 ?b"
    by (rule connect_reach.Later) (rule connect_step.Send; simp add: defs)
  then have "connect_reach 1 ?c"
    by (rule connect_reach.Later) (rule connect_step.Admit; simp add: defs)
  then have "connect_reach 1 ?d"
    by (rule connect_reach.Later) (rule connect_step.Start; simp add: defs)
  then have "connect_reach 1 (moves 1 Selecting (NVMeConnectWaiting ?d))"
    by (rule connect_reach.Later) (rule connect_step.Wait; simp add: defs)
  then show ?thesis by (simp add: defs waiting_connect_def fun_upd_twist)
qed

theorem nvme_connects_limited_witness:
  "connect_reach 1 waiting_connect \<and> card (calls_at {Connecting} waiting_connect) \<le> 1 \<and>
   receiveSlot waiting_connect \<noteq> None \<and> sendSlot waiting_connect = None"
proof -
  have "conns waiting_connect 0 = Connecting" by (simp add: waiting_connect_def)
  with nvme_connects_limited [OF waiting_connect_reach, of 0] waiting_connect_reach
  show ?thesis by (simp add: waiting_connect_def sendSlot_def)
qed

inductive connect_run :: "nat list \<Rightarrow> connect_limit \<Rightarrow> connect_limit \<Rightarrow> bool" where
  NoStep: "connect_run [] l l"
| OneMore: "connect_step t l l1 \<Longrightarrow> connect_run ts l1 l2 \<Longrightarrow> connect_run (t # ts) l l2"

text \<open>A call that has a slot gives it back in at most three steps, once its connect has ended.\<close>

lemma freeing_run:
  assumes "conns l u \<in> {Acquired, Admitted, Connecting}" "0 < sem_len l"
  shows "\<exists>ts l'. connect_run ts l l' \<and> set ts = {u} \<and> length ts \<le> 3 \<and> sem_len l' = sem_len l - 1 \<and>
    sem_cap l' = sem_cap l \<and> (\<forall>t. t \<noteq> u \<longrightarrow> conns l' t = conns l t)"
proof -
  have free: "connect_step u m (moves u Freed (m\<lparr>sem_len := sem_len m - 1\<rparr>))"
    if "conns m u = Connecting" "0 < sem_len m" for m
    using that by (intro connect_step.Free) (auto simp: receiveSlot_def)
  let ?a = "moves u Connecting (NVMeConnectStart l)"
  let ?b = "moves u Admitted (NVMeConnectDoneWaiting l)"
  let ?c = "moves u Connecting (NVMeConnectStart ?b)"
  have found: ?thesis if "connect_run ts l l'" "set ts = {u}" "length ts \<le> 3" "sem_len l' = sem_len l - 1"
    "sem_cap l' = sem_cap l" "\<forall>t. t \<noteq> u \<longrightarrow> conns l' t = conns l t" for ts l'
    using that by blast
  note run = connect_run.OneMore connect_run.NoStep
  from assms(1) consider "conns l u = Connecting" | "conns l u = Admitted" | "conns l u = Acquired" by blast
  then show ?thesis
  proof cases
    case 1
    from run(1) [OF free [OF this assms(2)] run(2)] show ?thesis by (rule found) auto
  next
    case 2
    have "connect_step u ?a (moves u Freed (?a\<lparr>sem_len := sem_len ?a - 1\<rparr>))"
      by (rule free) (use assms(2) in \<open>simp_all add: gauge_defs\<close>)
    from run(1) [OF connect_step.Start [OF 2] run(1) [OF this run(2)]]
    show ?thesis by (rule found) (auto simp: gauge_defs)
  next
    case 3
    have start: "connect_step u ?b ?c" by (rule connect_step.Start) (simp add: gauge_defs)
    have "connect_step u ?c (moves u Freed (?c\<lparr>sem_len := sem_len ?c - 1\<rparr>))"
      by (rule free) (use assms(2) in \<open>simp_all add: gauge_defs\<close>)
    from run(1) [OF connect_step.Admit [OF 3] run(1) [OF start run(1) [OF this run(2)]]]
    show ?thesis by (rule found) (auto simp: gauge_defs)
  qed
qed

text \<open>
  No call waits for a slot for ever. Whenever a call waits, either it can take a slot at once, or
  some other call has one and gives it back within three steps of its own, once its connect has
  ended; after that the waiting call can take it.
\<close>

theorem nvme_connect_progress:
  assumes "connect_reach maxConnects l" "conns l t = Selecting"
  shows "\<exists>ts l1 l2. connect_run ts l l1 \<and> length ts \<le> 3 \<and> card (set ts) \<le> 1 \<and> t \<notin> set ts \<and>
    connect_step t l1 l2 \<and> conns l2 t = Acquired"
proof -
  note inv = connect_reach_inv [OF assms(1)]
  have take: "\<exists>l2. connect_step t m l2 \<and> conns l2 t = Acquired"
    if "conns m t = Selecting" "sem_len m < sem_cap m" for m
    using that connect_step.Send [of m t] by (fastforce simp: sendSlot_def)
  show ?thesis
  proof (cases "sem_len l < sem_cap l")
    case True
    with take assms(2) connect_run.NoStep show ?thesis by (metis card.empty empty_iff list.set(1) list.size(3) zero_le)
  next
    case False
    have "0 < sem_cap l"
      using connect_reach_cap [OF assms(1)] by (simp add: newConnectLimit_def)
    with False have pos: "0 < sem_len l" by simp
    with inv obtain u where u: "conns l u \<in> {Acquired, Admitted, Connecting}"
      unfolding connect_inv_def calls_at_def by (metis (mono_tags, lifting) card_gt_0_iff empty_Collect_eq)
    with assms(2) have "t \<noteq> u" by auto
    from freeing_run [OF u pos] obtain ts l1 where run: "connect_run ts l l1" "set ts = {u}" "length ts \<le> 3"
      "sem_len l1 = sem_len l - 1" "sem_cap l1 = sem_cap l" "\<forall>t. t \<noteq> u \<longrightarrow> conns l1 t = conns l t"
      by blast
    moreover have "sem_len l1 < sem_cap l1"
      using run pos connect_inv_len [OF inv] by linarith
    ultimately show ?thesis using take [of l1] assms(2) \<open>t \<noteq> u\<close>
      by (metis One_nat_def card_1_singleton_iff le_refl singletonD)
  qed
qed

theorem nvme_connect_progress_witness:
  "\<exists>ts l1 l2. connect_run ts waiting_connect l1 \<and> length ts \<le> 3 \<and> connect_step 1 l1 l2 \<and> conns l2 1 = Acquired"
proof -
  have "conns waiting_connect 1 = Selecting" by (simp add: waiting_connect_def)
  from nvme_connect_progress [OF waiting_connect_reach this] show ?thesis by blast
qed

end
