(* ===== verification/Driver_Service.thy ===== *)
theory Driver_Service
  imports Publication Controller_Query Node_Service Node_Recovery Metrics Connect_Limit
begin

text \<open>
  The process that holds the services together: the identity service (\<^verbatim>\<open>src/pkg/driver/identity.go\<close>),
  construction, start and stop of the driver and the interceptor of its calls (\<^verbatim>\<open>driver.go\<close>), the
  goroutine of the health monitor (\<^verbatim>\<open>node_recovery.go\<close>), the error of an interrupted command
  (\<^verbatim>\<open>src/pkg/cmdexec\<close>), and the checks of the program's flags (\<^verbatim>\<open>src/cmd/nasty-csi-driver/main.go\<close>).
\<close>

section \<open>Identity\<close>

record IdentityService =
  is_driverName :: string
  is_version :: string
  is_hasClient :: bool

definition NewIdentityService :: "string \<Rightarrow> string \<Rightarrow> bool \<Rightarrow> IdentityService" where
  "NewIdentityService name version hasClient =
     \<lparr>is_driverName = name, is_version = version, is_hasClient = hasClient\<rparr>"

definition GetPluginInfo :: "IdentityService \<Rightarrow> failure + string \<times> string" where
  "GetPluginInfo s =
     (if is_driverName s = [] then Inl (Status Unavailable)
      else if is_version s = [] then Inl (Status Unavailable)
      else Inr (is_driverName s, is_version s))"

datatype plugin_capability = CONTROLLER_SERVICE | ONLINE_EXPANSION

definition GetPluginCapabilities :: "plugin_capability list" where
  "GetPluginCapabilities = [CONTROLLER_SERVICE, ONLINE_EXPANSION]"

text \<open>Ready, unless there is a client and it is not connected.\<close>

definition Probe :: "('w \<Rightarrow> bool \<times> 'w) \<Rightarrow> IdentityService \<Rightarrow> ('w, bool) state" where
  "Probe isConnected s =
     (if is_hasClient s then do {
        connected \<leftarrow> State isConnected;
        ret connected
      }
      else ret True)"

section \<open>Construction\<close>

record Config =
  cfg_DriverName :: string
  cfg_Version :: string
  cfg_NodeID :: string
  cfg_Endpoint :: string
  cfg_APIURL :: string
  cfg_APIKey :: string
  cfg_MetricsAddr :: string
  cfg_DashboardAddr :: string
  cfg_DashboardFilesystem :: string
  cfg_ClusterID :: string
  cfg_TestMode :: bool
  cfg_SkipTLSVerify :: bool
  cfg_EnableNVMeDiscovery :: bool
  cfg_MaxConcurrentNVMeConnects :: int

text \<open>The Kubernetes client is there if both its configuration and itself can be made.\<close>

definition NewControllerService :: "bool \<Rightarrow> bool \<Rightarrow> string \<Rightarrow> 'w svc \<Rightarrow> 'w svc" where
  "NewControllerService inCluster newForConfig clusterID S =
     S\<lparr>svc_kubeClient := inCluster \<and> newForConfig, svc_clusterID := clusterID\<rparr>"

definition NewNodeService :: "string \<Rightarrow> bool \<Rightarrow> bool \<Rightarrow> bool \<Rightarrow> 'w host \<Rightarrow> 'w host" where
  "NewNodeService nodeID hasClient testMode enableDiscovery H =
     H\<lparr>os_nodeID := nodeID, os_hasClient := hasClient, os_testMode := testMode,
       os_enableDiscovery := enableDiscovery\<rparr>"

definition fresh_node :: "'w \<Rightarrow> 'w node" where
  "fresh_node w = \<lparr>nworld = w, trace = [], testPublications = fmempty, recentUnmounts = fmempty\<rparr>"

record 'w driver =
  dv_config :: Config
  dv_identity :: IdentityService
  dv_registry :: NodeRegistry
  dv_controller :: "'w svc"
  dv_node :: "'w host"
  dv_connects :: connect_limit

text \<open>
  \<^verbatim>\<open>NewDriverWithClient\<close>: one registry for both services, with the own name in it if there is one. The
  two environments stand for the client, the Kubernetes client and the operating system.
\<close>

definition NewDriverWithClient ::
  "bool \<Rightarrow> bool \<Rightarrow> string \<Rightarrow> 'w svc \<Rightarrow> 'w host \<Rightarrow> Config \<Rightarrow> bool \<Rightarrow> 'w driver" where
  "NewDriverWithClient inCluster newForConfig now S H cfg hasClient =
     \<lparr>dv_config = cfg,
      dv_identity = NewIdentityService (cfg_DriverName cfg) (cfg_Version cfg) hasClient,
      dv_registry = (if cfg_NodeID cfg \<noteq> [] then Register (cfg_NodeID cfg) now NewNodeRegistry else NewNodeRegistry),
      dv_controller = NewControllerService inCluster newForConfig (cfg_ClusterID cfg) S,
      dv_node = NewNodeService (cfg_NodeID cfg) hasClient (cfg_TestMode cfg) (cfg_EnableNVMeDiscovery cfg) H,
      dv_connects = newConnectLimit (cfg_MaxConcurrentNVMeConnects cfg)\<rparr>"

section \<open>The health monitor's goroutine\<close>

text \<open>
  \<^verbatim>\<open>StopHealthMonitor\<close> looks whether the channel is closed and closes it in a second step; closing a
  closed channel panics. In the \<^verbatim>\<open>select\<close> of the loop a closed channel and a tick may both be ready.
\<close>

datatype loop_pc = NotStarted | InSelect | InPass | Returned

datatype stop_pc = NotStopping | Closing

record monitor =
  mo_closed :: bool
  mo_loop :: loop_pc
  mo_stops :: "nat \<Rightarrow> stop_pc"
  mo_panicked :: bool
  mo_passes :: nat

definition newMonitor :: monitor where
  "newMonitor =
     \<lparr>mo_closed = False, mo_loop = NotStarted, mo_stops = (\<lambda>_. NotStopping), mo_panicked = False, mo_passes = 0\<rparr>"

definition StartHealthMonitor :: "bool \<Rightarrow> monitor \<Rightarrow> monitor" where
  "StartHealthMonitor testMode m = (if testMode then m else m\<lparr>mo_loop := InSelect\<rparr>)"

text \<open>The two steps of a call of \<^verbatim>\<open>StopHealthMonitor\<close>.\<close>

definition stopLooks :: "nat \<Rightarrow> monitor \<Rightarrow> monitor" where
  "stopLooks t m = (if mo_closed m then m else m\<lparr>mo_stops := (mo_stops m)(t := Closing)\<rparr>)"

definition stopCloses :: "nat \<Rightarrow> monitor \<Rightarrow> monitor" where
  "stopCloses t m =
     (if mo_closed m then m\<lparr>mo_panicked := True\<rparr>
      else m\<lparr>mo_closed := True, mo_stops := (mo_stops m)(t := NotStopping)\<rparr>)"

inductive monitor_step :: "nat option \<Rightarrow> monitor \<Rightarrow> monitor \<Rightarrow> bool" where
  Tick: "mo_loop m = InSelect \<Longrightarrow> monitor_step None m (m\<lparr>mo_loop := InPass\<rparr>)"
| PassEnds: "mo_loop m = InPass \<Longrightarrow> monitor_step None m (m\<lparr>mo_loop := InSelect, mo_passes := Suc (mo_passes m)\<rparr>)"
| SeesStop: "mo_loop m = InSelect \<Longrightarrow> mo_closed m \<Longrightarrow> monitor_step None m (m\<lparr>mo_loop := Returned\<rparr>)"
| StopLooks: "mo_stops m t = NotStopping \<Longrightarrow> monitor_step (Some t) m (stopLooks t m)"
| StopCloses: "mo_stops m t = Closing \<Longrightarrow> monitor_step (Some t) m (stopCloses t m)"

inductive_cases monitor_stepE: "monitor_step a m m'"

text \<open>Runs, with the callers of \<^verbatim>\<open>StopHealthMonitor\<close> that take part.\<close>

inductive monitor_run :: "nat set \<Rightarrow> monitor \<Rightarrow> monitor \<Rightarrow> bool" for callers start where
  Still: "monitor_run callers start start"
| Step: "monitor_run callers start m \<Longrightarrow> monitor_step a m m' \<Longrightarrow> set_option a \<subseteq> callers \<Longrightarrow>
    monitor_run callers start m'"

section \<open>Start\<close>

text \<open>
  What \<^verbatim>\<open>Run\<close> does to the outside, in its order. The parsed endpoint, the socket, the servers and the
  listener are parameters; a server that is started runs in a goroutine of its own.
\<close>

datatype start_event =
    RemovedSocket string
  | MetricsServer string
  | DashboardServer string
  | Listening string string
  | ServicesRegistered
  | MonitorStarted
  | SeedingStarted
  | Serving

record endpoint =
  ep_Scheme :: string
  ep_Path :: string
  ep_Host :: string

record 'w runtime =
  rt_ParseURL :: "string \<Rightarrow> endpoint option"
  rt_Remove :: "string \<Rightarrow> 'w \<Rightarrow> os_error option \<times> 'w"
  rt_NewDashboard :: "'w \<Rightarrow> bool \<times> 'w"
  rt_Listen :: "string \<Rightarrow> string \<Rightarrow> 'w \<Rightarrow> bool \<times> 'w"
  rt_Serve :: "'w \<Rightarrow> bool \<times> 'w"

record 'w process =
  pr_world :: 'w
  pr_events :: "start_event list"
  pr_metricsSrv :: bool
  pr_dashboardSrv :: bool
  pr_srv :: bool

definition asks :: "('w \<Rightarrow> 'r \<times> 'w) \<Rightarrow> ('w process, 'r) state" where
  "asks f = State (\<lambda>p. case f (pr_world p) of (r, w) \<Rightarrow> (r, p\<lparr>pr_world := w\<rparr>))"

definition does :: "('w process \<Rightarrow> 'w process) \<Rightarrow> ('w process, unit) state" where
  "does f = State (\<lambda>p. ((), f p))"

definition logs :: "start_event \<Rightarrow> 'w process \<Rightarrow> 'w process" where
  "logs e p = p\<lparr>pr_events := pr_events p @ [e]\<rparr>"

text \<open>
  The parts of \<^verbatim>\<open>Run\<close>: a stale socket is removed, where it not being there is no error; the HTTP
  servers are started; the listener is opened and calls are served. The answers tell of errors.
\<close>

definition clearSocket :: "'w runtime \<Rightarrow> bool \<Rightarrow> string \<Rightarrow> ('w process, bool) state" where
  "clearSocket R unixSocket addr =
     (if unixSocket then do {
        e \<leftarrow> asks (rt_Remove R addr);
        case e of
          None \<Rightarrow> do {
            _ \<leftarrow> does (logs (RemovedSocket addr));
            ret False
          }
        | Some err \<Rightarrow> ret (\<not> oe_NotExist err)
      }
      else ret False)"

definition startServers :: "'w runtime \<Rightarrow> Config \<Rightarrow> ('w process, unit) state" where
  "startServers R cfg = do {
     _ \<leftarrow> (if cfg_MetricsAddr cfg \<noteq> []
       then does (\<lambda>p. logs (MetricsServer (cfg_MetricsAddr cfg)) (p\<lparr>pr_metricsSrv := True\<rparr>)) else ret ());
     if cfg_DashboardAddr cfg \<noteq> [] then do {
       ok \<leftarrow> asks (rt_NewDashboard R);
       if ok then does (\<lambda>p. logs (DashboardServer (cfg_DashboardAddr cfg)) (p\<lparr>pr_dashboardSrv := True\<rparr>))
       else ret ()
     }
     else ret ()
   }"

definition serveCalls :: "'w runtime \<Rightarrow> Config \<Rightarrow> string \<Rightarrow> string \<Rightarrow> ('w process, bool) state" where
  "serveCalls R cfg scheme addr = do {
     listening \<leftarrow> asks (rt_Listen R scheme addr);
     if \<not> listening then ret False
     else do {
       _ \<leftarrow> does (\<lambda>p. logs ServicesRegistered ((logs (Listening scheme addr) p)\<lparr>pr_srv := True\<rparr>));
       _ \<leftarrow> (if cfg_TestMode cfg then ret () else does (logs MonitorStarted));
       _ \<leftarrow> (if cfg_NodeID cfg = [] \<and> \<not> cfg_TestMode cfg then does (logs SeedingStarted) else ret ());
       _ \<leftarrow> does (logs Serving);
       asks (rt_Serve R)
     }
   }"

definition RunDriver :: "'w runtime \<Rightarrow> Config \<Rightarrow> ('w process, bool) state" where
  "RunDriver R cfg =
     (case rt_ParseURL R (cfg_Endpoint cfg) of
        None \<Rightarrow> ret False
      | Some u \<Rightarrow>
          let unixSocket = (ep_Scheme u = ''unix''); addr = (if unixSocket then ep_Path u else ep_Host u)
          in do {
            removeErr \<leftarrow> clearSocket R unixSocket addr;
            if removeErr then ret False
            else do {
              _ \<leftarrow> startServers R cfg;
              serveCalls R cfg (ep_Scheme u) addr
            }
          })"

text \<open>The seeding of the capacity gauges, with up to ten attempts.\<close>

definition seedConfig :: "'e config" where
  "seedConfig = DefaultConfig\<lparr>MaxAttempts := 10, OperationName := ''seed-volume-capacity-metrics''\<rparr>"

definition seedVolumeCapacityMetrics_driver ::
  "('w controller, unit) retry_env \<Rightarrow> 'w svc \<Rightarrow> ('w, unit retry_error option) op" where
  "seedVolumeCapacityMetrics_driver env S =
     WithRetryNoResult env seedConfig (do {
       ok \<leftarrow> seedVolumeCapacityMetrics S;
       ret (if ok then None else Some ())
     })"

section \<open>Stop\<close>

text \<open>
  \<^verbatim>\<open>stopGRPCServer\<close>: how long it takes, and whether the server is stopped by force, when all calls
  would have ended after the given time, if ever. A timer with a negative duration fires at once.
\<close>

definition stopGRPCServer :: "int option \<Rightarrow> int \<Rightarrow> int \<times> bool" where
  "stopGRPCServer drained timeout =
     (case drained of
        Some d \<Rightarrow> if d \<le> max 0 timeout then (d, False) else (max 0 timeout, True)
      | None \<Rightarrow> (max 0 timeout, True))"

text \<open>
  \<^verbatim>\<open>Stop\<close>, with the times its parts take: the answer is the time at which it has closed the client and
  whether calls were cut off.
\<close>

record stop_times =
  st_dashboard :: int
  st_metrics :: int
  st_drained :: "int option"

definition StopDriver :: "stop_times \<Rightarrow> 'w process \<Rightarrow> int \<Rightarrow> int \<times> bool" where
  "StopDriver T p now =
     (let drainDeadline = now + 25 * Second;
          t1 = now + (if pr_dashboardSrv p then st_dashboard T else 0);
          t2 = t1 + (if pr_metricsSrv p then st_metrics T else 0)
      in if pr_srv p then
           (case stopGRPCServer (st_drained T) (drainDeadline - t2) of (d, forced) \<Rightarrow> (t2 + d, forced))
         else (t2, False))"

section \<open>Calls\<close>

text \<open>The state of the services, with the metrics beside it.\<close>

type_synonym ('s, 'a) metered = "('s \<times> metrics, 'a) state"

definition observes :: "(metrics \<Rightarrow> metrics) \<Rightarrow> ('s, unit) metered" where
  "observes f = State (\<lambda>(s, m). ((), s, f m))"

definition metricsInterceptor ::
  "('s, int) metered \<Rightarrow> string \<Rightarrow> ('s, 'e + 'a) metered \<Rightarrow> ('s, 'e + 'a) metered" where
  "metricsInterceptor clock fullMethod handler =
     (let method = last (str_split CHR ''/'' fullMethod)
      in do {
        start \<leftarrow> clock;
        resp \<leftarrow> handler;
        now \<leftarrow> clock;
        _ \<leftarrow> observes (case resp of
            Inl _ \<Rightarrow> ObserveError (NewOperationTimer start method) now
          | Inr _ \<Rightarrow> ObserveSuccess (NewOperationTimer start method) now);
        ret resp
      })"

section \<open>Commands\<close>

text \<open>An error of a command whose context has ended wraps both causes.\<close>

datatype ('c, 'e) command_error = CommandFailed 'e | CommandInterrupted 'c 'e

definition outcome :: "'c option \<Rightarrow> 'e option \<Rightarrow> ('c, 'e) command_error option" where
  "outcome ctxErr err =
     (case err of
        None \<Rightarrow> None
      | Some e \<Rightarrow> (case ctxErr of None \<Rightarrow> Some (CommandFailed e) | Some c \<Rightarrow> Some (CommandInterrupted c e)))"

section \<open>The program\<close>

record flags =
  fl_config :: Config
  fl_showVersion :: bool

datatype startup = ShowVersion | Fatal string | StartWith Config

text \<open>The checks of \<^verbatim>\<open>main\<close>, with the value of \<^verbatim>\<open>NASTY_API_KEY\<close>.\<close>

definition main_startup :: "string \<Rightarrow> flags \<Rightarrow> startup" where
  "main_startup environmentKey fl =
     (let cfg = fl_config fl; key = (if cfg_APIKey cfg = [] then environmentKey else cfg_APIKey cfg)
      in if fl_showVersion fl then ShowVersion
         else if cfg_APIURL cfg = [] then Fatal ''Storage API URL must be provided''
         else if key = [] then Fatal ''Storage API key must be provided''
         else StartWith (cfg\<lparr>cfg_APIKey := key, cfg_TestMode := False\<rparr>))"

end
