(* ===== verification/Driver_Laws.thy ===== *)
theory Driver_Laws
  imports Driver_Service
begin

text \<open>
  What the process promises: whom the controller of a driver publishes to, how it starts and stops,
  that the interceptor changes no answer and counts every call once, and when stopping the health
  monitor is safe.
\<close>

section \<open>Publication in one process\<close>

text \<open>
  The registries that a driver can have: the one it starts with, and what calls of \<^verbatim>\<open>NodeGetInfo\<close>,
  the only other writer, make of it. The flag tells whether there has been such a call.
\<close>

inductive driver_registry :: "'w driver \<Rightarrow> NodeRegistry \<Rightarrow> bool \<Rightarrow> bool" for d where
  AtStart: "driver_registry d (dv_registry d) False"
| InfoAsked: "driver_registry d reg asked \<Longrightarrow> NodeGetInfo (dv_node d) now (Some reg) = (Some reg', name) \<Longrightarrow>
    driver_registry d reg' True"

definition well_formed_publish :: "publish_request \<Rightarrow> bool" where
  "well_formed_publish req \<longleftrightarrow>
     pr_VolumeId req \<noteq> [] \<and> pr_NodeId req \<noteq> [] \<and> pr_VolumeCapability req \<noteq> None \<and> isKnownVolume (pr_VolumeId req)"

lemma publish_not_found:
  "well_formed_publish req \<Longrightarrow>
   fst (run_state (ControllerPublishVolume (Some reg) req) s) = Some (Status NotFound) \<longleftrightarrow>
   Count reg > 0 \<and> \<not> IsRegistered reg (pr_NodeId req)"
  by (simp add: well_formed_publish_def ControllerPublishVolume_def getPublished_def setPublished_def Let_def
    run_state_bind split: option.split)

lemma registered_names:
  assumes "driver_registry d reg asked" "d = NewDriverWithClient inCluster newForConfig now S H cfg hasClient"
  shows "fmdom (nodes reg) = (if cfg_NodeID cfg \<noteq> [] \<or> asked then {|cfg_NodeID cfg|} else {||})"
  using assms(1)
proof induction
  case AtStart
  then show ?case by (simp add: assms(2) NewDriverWithClient_def Register_def NewNodeRegistry_def)
next
  case (InfoAsked reg asked now reg' name)
  from InfoAsked.hyps(2) have "reg' = Register (cfg_NodeID cfg) now reg"
    by (auto simp: assms(2) NewDriverWithClient_def NewNodeService_def NodeGetInfo_def)
  then have "fmdom (nodes reg') = finsert (cfg_NodeID cfg) (fmdom (nodes reg))" by (simp add: Register_def)
  with InfoAsked.IH show ?case by simp
qed

text \<open>The answer in general, from what the driver is called and whether it has been asked for it.\<close>

lemma publish_refused:
  assumes "driver_registry (NewDriverWithClient inCluster newForConfig now S H cfg hasClient) reg asked"
    and "well_formed_publish req"
  shows "fst (run_state (ControllerPublishVolume (Some reg) req) s) = Some (Status NotFound) \<longleftrightarrow>
    (if cfg_NodeID cfg \<noteq> [] then pr_NodeId req \<noteq> cfg_NodeID cfg else asked)"
proof -
  note dom = registered_names [OF assms(1) refl]
  have "IsRegistered reg n \<longleftrightarrow> n |\<in>| fmdom (nodes reg)" for n
    by (simp add: IsRegistered_def fmlookup_dom_iff)
  moreover have "Count reg = (if fmdom (nodes reg) = {||} then 0 else 1)"
    using dom by (simp add: Count_def fcard_finsert_disjoint)
  ultimately show ?thesis
    using assms(2) dom by (auto simp: publish_not_found [OF assms(2)] well_formed_publish_def)
qed

text \<open>
  C31: whom a driver publishes to. A driver with a node name does not know any other node, from its
  start on and however often \<^verbatim>\<open>NodeGetInfo\<close> is called: it answers \<^verbatim>\<open>NotFound\<close> exactly for the requests for
  another node. A controller without a node name whose process has not served \<^verbatim>\<open>NodeGetInfo\<close>, as
  in a cluster where the nodes are processes of their own, has an empty registry and skips the check:
  it never answers \<^verbatim>\<open>NotFound\<close>.
\<close>

theorem driver_publishes_to:
  assumes "driver_registry (NewDriverWithClient inCluster newForConfig now S H cfg hasClient) reg asked"
    and "well_formed_publish req" "cfg_NodeID cfg \<noteq> [] \<or> \<not> asked"
  shows "(fst (run_state (ControllerPublishVolume (Some reg) req) s) = Some (Status NotFound) \<longleftrightarrow>
      cfg_NodeID cfg \<noteq> [] \<and> pr_NodeId req \<noteq> cfg_NodeID cfg) \<and>
    Count reg = (if cfg_NodeID cfg = [] then 0 else 1)"
  using publish_refused [OF assms(1,2), of s] assms(3) registered_names [OF assms(1) refl]
  by (auto simp: Count_def fcard_finsert_disjoint)

text \<open>
  The case that is left: a driver without a node name that serves \<^verbatim>\<open>NodeGetInfo\<close> registers the empty
  name, so that its registry is not empty any more; from then on it refuses every node.
\<close>

theorem nameless_driver_refuses:
  assumes "driver_registry (NewDriverWithClient inCluster newForConfig now S H cfg hasClient) reg True"
    and "well_formed_publish req" "cfg_NodeID cfg = []"
  shows "fst (run_state (ControllerPublishVolume (Some reg) req) s) = Some (Status NotFound)"
  using publish_refused [OF assms(1,2)] assms(3) by simp

definition sample_config :: Config where
  "sample_config =
     \<lparr>cfg_DriverName = ''nasty.csi.io'', cfg_Version = ''1'', cfg_NodeID = ''node-1'', cfg_Endpoint = [], cfg_APIURL = [],
      cfg_APIKey = [], cfg_MetricsAddr = [], cfg_DashboardAddr = [], cfg_DashboardFilesystem = [], cfg_ClusterID = [],
      cfg_TestMode = False, cfg_SkipTLSVerify = False, cfg_EnableNVMeDiscovery = False, cfg_MaxConcurrentNVMeConnects = 0\<rparr>"

definition publish_at :: "string \<Rightarrow> publish_request" where
  "publish_at node =
     \<lparr>pr_VolumeId = ''tank/a'', pr_NodeId = node, pr_Readonly = False,
      pr_VolumeCapability = Some \<lparr>cap_mode = SINGLE_NODE_WRITER, cap_access = BlockAccess\<rparr>\<rparr>"

theorem driver_publishes_to_witness:
  "\<forall>(S :: unit svc) (H :: unit host) (s :: unit controller).
     let publish = (\<lambda>node. fst (run_state (ControllerPublishVolume
       (Some (dv_registry (NewDriverWithClient True True ''now'' S H sample_config True))) (publish_at node)) s))
     in publish ''node-2'' = Some (Status NotFound) \<and> publish ''node-1'' \<noteq> Some (Status NotFound)"
proof (intro allI)
  fix S :: "unit svc" and H :: "unit host" and s :: "unit controller"
  let ?d = "NewDriverWithClient True True ''now'' S H sample_config True"
  have "isKnownVolume ''tank/a''" by code_simp
  then have "well_formed_publish (publish_at node)" if "node \<noteq> []" for node
    using that by (simp add: well_formed_publish_def publish_at_def)
  with driver_publishes_to [OF driver_registry.AtStart [of ?d], of "publish_at _" s]
  show "let publish = (\<lambda>node. fst (run_state (ControllerPublishVolume (Some (dv_registry ?d)) (publish_at node)) s))
     in publish ''node-2'' = Some (Status NotFound) \<and> publish ''node-1'' \<noteq> Some (Status NotFound)"
    by (simp add: sample_config_def) (simp add: publish_at_def)
qed

section \<open>Start and stop\<close>

lemma wp_asks: "wp (asks f) Q p = (case f (pr_world p) of (r, w) \<Rightarrow> Q r (p\<lparr>pr_world := w\<rparr>))"
  by (simp add: wp_def asks_def split: prod.split)

lemma wp_does: "wp (does f) Q p = Q () (f p)"
  by (simp add: wp_def does_def)

lemma wp_clearSocket:
  assumes "\<And>r p' removed. set removed \<subseteq> {RemovedSocket addr} \<Longrightarrow> pr_events p' = pr_events p @ removed \<Longrightarrow>
    pr_srv p' = pr_srv p \<Longrightarrow> Q r p'"
  shows "wp (clearSocket R unixSocket addr) Q p"
  using assms [of "[]"] assms [of "[RemovedSocket addr]"]
  by (simp add: clearSocket_def wp_rules wp_asks wp_does logs_def split: prod.split option.split)

lemma wp_startServers:
  assumes "\<And>p' servers. set servers \<subseteq> {MetricsServer (cfg_MetricsAddr cfg), DashboardServer (cfg_DashboardAddr cfg)} \<Longrightarrow>
    pr_events p' = pr_events p @ servers \<Longrightarrow> pr_srv p' = pr_srv p \<Longrightarrow> Q () p'"
  shows "wp (startServers R cfg) Q p"
  using assms [of "[]"] assms [of "[MetricsServer (cfg_MetricsAddr cfg)]"] assms [of "[DashboardServer (cfg_DashboardAddr cfg)]"]
    assms [of "[MetricsServer (cfg_MetricsAddr cfg), DashboardServer (cfg_DashboardAddr cfg)]"]
  by (simp add: startServers_def wp_rules wp_asks wp_does logs_def split: prod.split)

definition serving_events :: "Config \<Rightarrow> string \<Rightarrow> string \<Rightarrow> start_event list" where
  "serving_events cfg scheme addr =
     [Listening scheme addr, ServicesRegistered] @ (if cfg_TestMode cfg then [] else [MonitorStarted]) @
     (if cfg_NodeID cfg = [] \<and> \<not> cfg_TestMode cfg then [SeedingStarted] else []) @ [Serving]"

lemma wp_serveCalls:
  assumes "\<And>p'. pr_events p' = pr_events p \<Longrightarrow> pr_srv p' = pr_srv p \<Longrightarrow> Q False p'"
    and "\<And>r p'. pr_events p' = pr_events p @ serving_events cfg scheme addr \<Longrightarrow> pr_srv p' \<Longrightarrow> Q r p'"
  shows "wp (serveCalls R cfg scheme addr) Q p"
  using assms by (cases "cfg_TestMode cfg"; cases "cfg_NodeID cfg = []")
    (simp_all add: serveCalls_def serving_events_def wp_rules wp_asks wp_does logs_def split: prod.split)

text \<open>
  The order of a start. Whatever the endpoint, the socket, the servers and the listener do, the
  services, the health monitor and the seeding of the gauges start only behind an open listener, in
  this order; a failure before that leaves at most the two HTTP servers behind. The monitor does not
  run in test mode, and the gauges are seeded only by a driver without a node name.
\<close>

theorem driver_start_ordered:
  fixes p :: "'w process"
  shows "case run_state (RunDriver R cfg) (p\<lparr>pr_events := [], pr_srv := False\<rparr>) of (ok, p') \<Rightarrow>
     \<exists>removed servers scheme addr. set removed \<subseteq> {RemovedSocket addr} \<and>
       set servers \<subseteq> {MetricsServer (cfg_MetricsAddr cfg), DashboardServer (cfg_DashboardAddr cfg)} \<and>
       (if pr_srv p' then pr_events p' = removed @ servers @ serving_events cfg scheme addr
        else \<not> ok \<and> pr_events p' = removed @ servers)"
proof (rule run_caseI)
  let ?Q = "\<lambda>ok p'. \<exists>removed servers scheme addr. set removed \<subseteq> {RemovedSocket addr} \<and>
       set servers \<subseteq> {MetricsServer (cfg_MetricsAddr cfg), DashboardServer (cfg_DashboardAddr cfg)} \<and>
       (if pr_srv p' then pr_events p' = removed @ servers @ serving_events cfg scheme addr
        else \<not> ok \<and> pr_events p' = removed @ servers)"
  let ?p = "p\<lparr>pr_events := [], pr_srv := False\<rparr>"
  show "wp (RunDriver R cfg) ?Q ?p"
  proof (cases "rt_ParseURL R (cfg_Endpoint cfg)")
    case None
    then show ?thesis by (simp add: RunDriver_def wp_rules)
  next
    case (Some u)
    define addr where "addr = (if ep_Scheme u = ''unix'' then ep_Path u else ep_Host u)"
    have serve: "wp (serveCalls R cfg (ep_Scheme u) addr) ?Q q"
      if "set removed \<subseteq> {RemovedSocket addr}" "pr_events q = removed @ servers" "\<not> pr_srv q"
        "set servers \<subseteq> {MetricsServer (cfg_MetricsAddr cfg), DashboardServer (cfg_DashboardAddr cfg)}" for q removed servers
    proof (rule wp_serveCalls)
      show "?Q False q'" if "pr_events q' = pr_events q" "pr_srv q' = pr_srv q" for q'
        using that \<open>set removed \<subseteq> _\<close> \<open>set servers \<subseteq> _\<close> \<open>pr_events q = _\<close> \<open>\<not> pr_srv q\<close> by (metis (no_types, lifting))
      show "?Q ok q'" if "pr_events q' = pr_events q @ serving_events cfg (ep_Scheme u) addr" "pr_srv q'" for ok q'
        using that \<open>set removed \<subseteq> _\<close> \<open>set servers \<subseteq> _\<close> \<open>pr_events q = _\<close> by (metis (no_types, lifting) append.assoc)
    qed
    have servers: "wp (startServers R cfg \<bind> (\<lambda>_. serveCalls R cfg (ep_Scheme u) addr)) ?Q q"
      if "set removed \<subseteq> {RemovedSocket addr}" "pr_events q = removed" "\<not> pr_srv q" for q removed
      unfolding wp_bind using that by (intro wp_startServers) (rule serve; simp)
    have halted: "?Q False q" if "set removed \<subseteq> {RemovedSocket addr}" "pr_events q = removed" "\<not> pr_srv q" for q removed
    proof -
      have "set [] \<subseteq> {MetricsServer (cfg_MetricsAddr cfg), DashboardServer (cfg_DashboardAddr cfg)}"
        "pr_events q = removed @ []" using that(2) by simp_all
      with that(1,3) show ?thesis by metis
    qed
    have sockets: "wp (clearSocket R (ep_Scheme u = ''unix'') addr) (\<lambda>r. wp (if r then ret False
        else startServers R cfg \<bind> (\<lambda>_. serveCalls R cfg (ep_Scheme u) addr)) ?Q) ?p"
    proof (rule wp_clearSocket)
      fix r and q :: "'w process" and removed
      assume "set removed \<subseteq> {RemovedSocket addr}" "pr_events q = pr_events ?p @ removed" "pr_srv q = pr_srv ?p"
      then show "wp (if r then ret False
          else startServers R cfg \<bind> (\<lambda>_. serveCalls R cfg (ep_Scheme u) addr)) ?Q q"
        using servers [of removed q] halted [of removed q] by (cases r) (simp_all add: wp_return)
    qed
    have run: "RunDriver R cfg = clearSocket R (ep_Scheme u = ''unix'') addr \<bind> (\<lambda>r. if r then ret False
        else startServers R cfg \<bind> (\<lambda>_. serveCalls R cfg (ep_Scheme u) addr))"
      by (simp only: RunDriver_def Some Let_def addr_def option.case)
    show ?thesis unfolding run wp_bind [of "clearSocket _ _ _"] by (rule sockets)
  qed
qed

text \<open>
  Stopping ends. If the two HTTP servers keep to their limits of five seconds, the driver has
  closed its client at most 25 seconds after it was told to stop, even if calls never end. Calls are
  cut off only at that deadline, so after at least fifteen seconds; calls that end earlier are waited
  for.
\<close>

theorem driver_stop_bounded:
  assumes "0 \<le> st_dashboard T" "st_dashboard T \<le> 5 * Second" "0 \<le> st_metrics T" "st_metrics T \<le> 5 * Second"
    and "\<forall>d\<in>set_option (st_drained T). 0 \<le> d"
    and "StopDriver T p now = (end, forced)"
  shows "now \<le> end \<and> end \<le> now + 25 * Second \<and> (forced \<longrightarrow> end = now + 25 * Second) \<and>
    ((\<exists>d\<in>set_option (st_drained T). d \<le> 15 * Second) \<longrightarrow> \<not> forced)"
  using assms by (auto simp: StopDriver_def stopGRPCServer_def Second_def Let_def split: if_splits option.splits)

definition sample_times :: stop_times where
  "sample_times = \<lparr>st_dashboard = 2 * Second, st_metrics = 0, st_drained = None\<rparr>"

definition sample_process :: "unit process" where
  "sample_process = \<lparr>pr_world = (), pr_events = [], pr_metricsSrv = True, pr_dashboardSrv = True, pr_srv = True\<rparr>"

theorem driver_stop_bounded_witness:
  "StopDriver sample_times sample_process 0 = (25 * Second, True) \<and> 25 * Second \<le> 0 + 25 * Second"
proof -
  have "StopDriver sample_times sample_process 0 = (25 * Second, True)"
    by (simp add: sample_times_def sample_process_def StopDriver_def stopGRPCServer_def Second_def)
  with driver_stop_bounded [OF _ _ _ _ _ this] show ?thesis by (simp add: sample_times_def Second_def)
qed

section \<open>Calls\<close>

text \<open>
  The interceptor answers what the handler answers and leaves the state of the services as the
  handler left it; it adds to the metrics one count of the method, under the status of the answer,
  and one duration, the time between the two readings of the clock.
\<close>

theorem interceptor_transparent:
  "case run_state (metricsInterceptor clock fullMethod handler) st of (resp, s', log') \<Rightarrow>
     \<exists>start st1 st2 now log. run_state clock st = (start, st1) \<and> run_state handler st1 = (resp, st2) \<and>
       run_state clock st2 = (now, s', log) \<and>
       log' = log @ [Inc csiOperationsTotal [last (str_split CHR ''/'' fullMethod),
                       (case resp of Inl _ \<Rightarrow> ''error'' | Inr _ \<Rightarrow> ''success'')],
                     Observe csiOperationDuration [last (str_split CHR ''/'' fullMethod)] (now - start)]"
  by (auto simp: metricsInterceptor_def observes_def run_state_bind ObserveError_def ObserveSuccess_def
    NewOperationTimer_def RecordCSIOperation_def Let_def split: prod.splits sum.splits)

section \<open>The health monitor\<close>

abbreviation started :: "bool \<Rightarrow> monitor" where
  "started testMode \<equiv> StartHealthMonitor testMode newMonitor"

lemma single_stop:
  assumes "monitor_run {t} (started testMode) m"
  shows "\<not> mo_panicked m \<and> (mo_stops m t = Closing \<longrightarrow> \<not> mo_closed m) \<and> (\<forall>u. u \<noteq> t \<longrightarrow> mo_stops m u = NotStopping)"
  using assms
proof induction
  case (Step m a m')
  from Step.hyps(2) Step.IH Step.hyps(3) show ?case
    by (cases rule: monitor_step.cases) (auto simp: stopLooks_def stopCloses_def)
qed (simp add: newMonitor_def StartHealthMonitor_def)

text \<open>
  Stopping the health monitor is safe from one goroutine, however often it is repeated and whatever
  the loop does in between, as the driver does it; two calls that overlap can both find the channel
  open, and then the second close panics. Once the channel is closed, the loop can return after at
  most one more pass.
\<close>

theorem stop_monitor_safe_once:
  "(\<forall>m. monitor_run {t} (started testMode) m \<longrightarrow> \<not> mo_panicked m) \<and>
   (\<exists>m. monitor_run {0, 1} (started testMode) m \<and> mo_panicked m)"
proof
  show "\<forall>m. monitor_run {t} (started testMode) m \<longrightarrow> \<not> mo_panicked m" using single_stop by blast
  let ?a = "stopLooks 0 (started testMode)"
  let ?b = "stopLooks 1 ?a"
  let ?c = "stopCloses 0 ?b"
  let ?d = "stopCloses 1 ?c"
  note defs = stopLooks_def stopCloses_def StartHealthMonitor_def newMonitor_def
  note step = monitor_run.Step [of "{0, 1}" "started testMode"]
  have "monitor_run {0, 1} (started testMode) ?a"
    by (rule step [OF monitor_run.Still monitor_step.StopLooks]) (simp_all add: defs)
  then have "monitor_run {0, 1} (started testMode) ?b"
    by (rule step [OF _ monitor_step.StopLooks]) (simp_all add: defs)
  then have "monitor_run {0, 1} (started testMode) ?c"
    by (rule step [OF _ monitor_step.StopCloses]) (simp_all add: defs)
  then have "monitor_run {0, 1} (started testMode) ?d"
    by (rule step [OF _ monitor_step.StopCloses]) (simp_all add: defs)
  moreover have "mo_panicked ?d" by (simp add: defs)
  ultimately show "\<exists>m. monitor_run {0, 1} (started testMode) m \<and> mo_panicked m" by blast
qed

lemma stopped_loop_returns:
  assumes "mo_closed m" "mo_loop m \<in> {InSelect, InPass}"
  shows "\<exists>m'. monitor_run {} m m' \<and> mo_loop m' = Returned \<and> mo_passes m' \<le> Suc (mo_passes m)"
proof -
  note step = monitor_run.Step [of "{}" m]
  have ret: "\<exists>m'. monitor_run {} m m' \<and> mo_loop m' = Returned \<and> mo_passes m' \<le> Suc (mo_passes m)"
    if "monitor_run {} m n" "mo_loop n = InSelect" "mo_closed n" "mo_passes n \<le> Suc (mo_passes m)" for n
    using step [OF that(1) monitor_step.SeesStop [OF that(2,3)]] that(4) by force
  from assms(2) show ?thesis
  proof
    assume "mo_loop m = InSelect"
    with ret [OF monitor_run.Still] assms(1) show ?thesis by simp
  next
    assume "mo_loop m \<in> {InPass}"
    then have "mo_loop m = InPass" by simp
    from ret [OF step [OF monitor_run.Still monitor_step.PassEnds [OF this]]] assms(1) show ?thesis by simp
  qed
qed

end
