(* ===== verification/Spec2Isabelle.thy ===== *)
theory Spec2Isabelle
  imports Capacity_Checks Identity_Safety Controller_Delete CreateVolume_Safety Snapshot_Laws
    Publication Query_Laws Lifecycle_Locks Mount_Laws Node_Publishing Node_Monitor Node_Laws Session_Listing Node_Expansion Node_Darwin
    Create_Replay
    Dashboard_Laws Driver_Laws
begin

text \<open>
  The NASty CSI driver (\<^verbatim>\<open>src/\<close>) gives Kubernetes volumes on a NASty storage server, over NFS, SMB,
  iSCSI and NVMe-oF. This development models its Go code and shows what the code promises. Paths
  below are relative to \<^verbatim>\<open>src/\<close>; \<^verbatim>\<open>driver/\<close> is \<^verbatim>\<open>pkg/driver/\<close>.

  \<^bold>\<open>The program and its parts.\<close> One process runs three gRPC services. The \<^emph>\<open>controller\<close> creates, clones,
  restores, adopts, expands, lists and deletes volumes and snapshots through the backend's client; it
  keeps a table of published volumes and gauges in memory, and everything durable is in the
  properties of the backend's subvolumes. The \<^emph>\<open>node\<close> stages a volume (connect, verify the device,
  repair and mount its filesystem), publishes it to pods by bind mounts, and undoes both; it drives
  \<^verbatim>\<open>mount\<close>, \<^verbatim>\<open>iscsiadm\<close>, \<^verbatim>\<open>nvme\<close> and the files of the kernel, under one lock per volume, while a monitor
  in the background repairs lost sessions. The \<^emph>\<open>identity\<close> service answers who the driver is. Controller
  and node meet in the volume context, a string map that the controller writes and the node reads,
  and in the registry of nodes. Metrics and a dashboard look on.

  \<^bold>\<open>How code is modelled.\<close> A handler is a state transformer in \<^verbatim>\<open>State_Monad\<close>, one definition per Go
  function, with the order, guards and early returns of the code. The outside is a record of
  functions on an unspecified world: \<open>svc\<close> (backend client, clock, randomness, Kubernetes client;
  \<open>Backend_API\<close>), \<open>host\<close> (commands, files, mount tables, timers, contexts; \<open>Node_Host\<close>), \<open>retry_env\<close>,
  \<open>name_lib\<close>, \<open>dashlib\<close>, \<open>runtime\<close>. A statement for all such records and worlds holds whatever the
  outside answers and whatever others do to it between two calls. The memory of a service is a record
  with a ghost trace of its calls, or of what it did to the host and was told by it; an event carries the
  answer wherever the code or a policy depends on it, so a removal or a write that failed is recorded as
  such. Errors are values: a gRPC code
  (\<open>failure\<close>), or the Go error where the code inspects it. Go strings are \<^typ>\<open>string\<close> (bytes), \<^verbatim>\<open>int64\<close>
  is \<^typ>\<open>int\<close> with the wrap-around written out (\<open>Prelude\<close>), \<^verbatim>\<open>uint64\<close> a 64-bit word, maps are \<^verbatim>\<open>fmap\<close>.

  \<^bold>\<open>Theories.\<close>
  \<^item> \<open>Prelude\<close>: strings, integers, maps, errors, the weakest-precondition calculus (collection
    \<open>wp_rules\<close>) and \<open>each_after\<close>, for the order of events in a trace.
  \<^item> \<open>Retry\<close> (\<^verbatim>\<open>pkg/retry\<close>), \<open>Volume_Naming\<close> (\<^verbatim>\<open>driver/template.go\<close>): bounded attempts, no replay of an
    uncertain outcome, success when it comes in time; valid and unambiguous names.
  \<^item> \<open>Backend_API\<close>, \<open>Memory_Backend\<close>: the controller's environment and memory; a concrete backend, on
    which statements with hypotheses are exercised.
  \<^item> \<open>Controller_Base\<close>, \<open>Capacity_Checks\<close> (\<^verbatim>\<open>driver/controller.go\<close>): requests, capacities, capabilities,
    lookups; rounding and planning of capacities within \<^verbatim>\<open>int64\<close>.
  \<^item> \<open>Volume_Identity\<close>, \<open>Identity_Safety\<close> (\<^verbatim>\<open>driver/volume_identity.go\<close>): who owns a volume; which volumes a
    request may take, what a failed write means, what a rollback removes, the identity of clones.
  \<^item> \<open>Controller_NFS\<close>, \<open>_SMB\<close>, \<open>_ISCSI\<close>, \<open>_NVMeOF\<close> (the files of the same names), \<open>Controller_Create\<close>: the
    protocols' operations and \<^verbatim>\<open>CreateVolume\<close> with clones, restores and adoption.
  \<^item> \<open>Creation_Safety\<close>, \<open>CreateVolume_Safety\<close>: the order of effects. The locale \<open>creation_handler\<close> is the
    contract of a protocol's handler; it is interpreted on the four handlers, and \<^verbatim>\<open>CreateVolume\<close> is
    proved from it.
  \<^item> \<open>Reliable_Backend\<close>, \<open>Create_Replay\<close>: the locale \<open>reliable_backend\<close> says what a backend that answers and
    that nobody else uses does to the volumes and shares it shows; the in-memory backend is one. Over
    every such backend a repeated create request is idempotent. A claim that has left two volumes behind
    is refused a third.
  \<^item> \<open>Deletion_Ownership\<close>, \<open>Controller_Delete\<close> (\<^verbatim>\<open>driver/delete_ownership.go\<close>, \<^verbatim>\<open>share_cleanup.go\<close>): the locale
    \<open>deletion_handler\<close>, interpreted on the four handlers; nothing is deleted that was not verified.
  \<^item> \<open>Snapshots\<close>, \<open>Snapshot_Laws\<close>, \<open>Paging\<close> (\<^verbatim>\<open>driver/controller_snapshot*.go\<close>): identifiers, creation,
    deletion, listing; the locale \<open>paging\<close>, interpreted on the listings of snapshots and of volumes.
  \<^item> \<open>Controller_Query\<close>, \<open>Volume_Health\<close>, \<open>Query_Laws\<close>: expansion, listing, capacity, health.
  \<^item> \<open>Publication\<close> (\<^verbatim>\<open>driver/node_registry.go\<close>): the table of published volumes as a state machine that
    refines a table of pairs.
  \<^item> \<open>Lifecycle_Locks\<close> (\<^verbatim>\<open>driver/node_lifecycle.go\<close>), \<open>Connect_Limit\<close>: the locks per volume and the limit on
    connects, as interleaved steps of goroutines on channels; exclusion, exact counts, progress.
  \<^item> \<open>Mount_Table\<close>, \<open>Mount_Laws\<close> (\<^verbatim>\<open>pkg/mount\<close>): reading the kernel's mount tables.
  \<^item> \<open>Node_Host\<close>, \<open>Node_Mounts\<close>, \<open>Node_Filesystem\<close>, \<open>Node_ISCSI\<close>, \<open>Node_NVMeOF\<close>, \<open>Node_NVMeOF_Stage\<close>,
    \<open>Node_Service\<close>, \<open>Node_Recovery\<close> (\<^verbatim>\<open>driver/node*.go\<close>): the node service and its health monitor.
    \<open>Node_Darwin\<close>: the variants for macOS, and what the merging of mount options has in common.
  \<^item> \<open>Node_Logic\<close>, \<open>Node_Benign\<close>: a program logic for the node's handlers. A policy says which events are
    allowed after which; the locale \<open>node_policy\<close> holds what every policy allows, and is interpreted on
    the policies of staging, releasing, monitoring and looking.
  \<^item> \<open>Node_Staging\<close>, \<open>Node_Safety\<close>, \<open>Node_Staged\<close>, \<open>Node_Publishing\<close>, \<open>Node_Release\<close>, \<open>Node_Monitor\<close>: the
    contracts of the four handlers and of a pass of the monitor. A policy is a list of the commands that
    are harmless; every other command needs the evidence that the policy names for it, in particular
    a session ends only if the host has named its device as the one staged at the path
    (\<open>staged_session\<close>), or, in the monitor, if it was read to be lost (\<open>iscsi_lost\<close>, \<open>controller_down\<close>).
    \<open>Node_Expansion\<close>: health and statistics
    only look, and a share is called healthy only when its mount was listed; expansion looks and then
    grows at most one filesystem.
  \<^item> \<open>Node_Laws\<close>: the volume context from the controller to the node; the counts of a volume's usage
    as machine integers. \<open>Session_Listing\<close>: the listing of iSCSI sessions as a printed table, and what
    the two parsers of the driver read from it.
  \<^item> \<open>Metrics\<close>, \<open>Dashboard_Metrics\<close>, \<open>Dashboard\<close>, \<open>Dashboard_Laws\<close> (\<^verbatim>\<open>pkg/metrics\<close>, \<^verbatim>\<open>pkg/dashboard\<close>): updates of
    the metrics and the panel that counts them; pages, routes and the views of Kubernetes.
  \<^item> \<open>Driver_Service\<close>, \<open>Driver_Laws\<close> (\<^verbatim>\<open>driver/driver.go\<close>, \<^verbatim>\<open>identity.go\<close>, \<^verbatim>\<open>pkg/cmdexec\<close>, \<^verbatim>\<open>cmd/\<close>): how the
    services are put together, started, stopped, and counted.

  \<^bold>\<open>Bounds.\<close> Every loop of the code that is bounded by a number of attempts carries that number as its
  recursion argument, so nothing can run out that the code would go on with: three probes of a
  filesystem, up to sixty looks for a device, the attempts of a retry configuration. Loops that wait
  for a deadline end in the code because time passes; they are given the number of rounds that their
  deadline and their sleep allow (15 rounds of 2 seconds in 30 seconds), and the world may end them
  earlier. A \<^verbatim>\<open>float64\<close> that is finite is a rational without bound, which is exact for the counts and
  sizes below \<open>2^53\<close> that a process reaches. Loops over outputs, tables and listings recurse on the list. Statements about concurrent
  code hold for any number of goroutines and every interleaving of their steps.

  \<^bold>\<open>What is shown of the code's flaws.\<close> Some theorems record behaviour that its authors will not have
  meant: identifiers joined by separators that may occur in them (snapshots, published volumes),
  health checks that never look at the presentation of a volume, sessions matched by a prefix of
  their target, a registry that the empty name closes, pages that hide failed lookups. Where a
  comment or a document promises the opposite, the theorem stands beside the properties of its theory and
  covers just that case (\<open>health_ignores_presentations\<close>, \<open>nameless_driver_refuses\<close>).

  \<^bold>\<open>Not modelled.\<close> Log lines and error texts that no code reads; the gRPC transport, HTTP servers,
  signals and exit codes; the backend's server, \<^verbatim>\<open>nasty-go\<close>, Kubernetes, Prometheus, the template and JSON
  packages and the commands of the host, which are parameters; the counters that the controller's
  handlers feed through their timers (the timers themselves are modelled); the order in which Go
  ranges over a map, wherever no result depends on it; the test code.
\<close>

end
